(* ===== verification/Prelude.thy ===== *)
theory Prelude
  imports Main
begin

text \<open>
  What every component of the model shares: text as the runes of a Go string, Go's error
  values with \<open>errors.Is\<close> and \<open>Error()\<close>, a decoded JSON column, the SQL statements the
  repositories use over a table kept as the list of its rows, and the two generic contracts
  of the development: a transition system with an invariant, and a status that only moves
  by guarded updates.
\<close>

named_theorems tbl_simps \<open>evaluation of table statements\<close>
named_theorems tx_defs \<open>the transactions of the repositories\<close>

section \<open>Go text and errors\<close>

text \<open>
  Free text is a list of runes (Unicode code points): the conversion \<open>[]rune(s)\<close> of a valid
  UTF-8 string loses nothing. Identifiers (UUIDs, hashes) are plain ASCII strings.
\<close>

type_synonym rune = nat
type_synonym gostr = "rune list"
type_synonym uid = string

definition lit :: "string \<Rightarrow> gostr" where
  "lit s = map of_char s"

lemma lit_append [simp]: "lit (s @ t) = lit s @ lit t"
  by (simp add: lit_def)

lemma lit_Nil [simp]: "lit [] = []"
  by (simp add: lit_def)

lemma lit_Cons: "lit (c # s) = of_char c # lit s"
  by (simp add: lit_def)

lemma length_lit [simp]: "length (lit s) = length s"
  by (simp add: lit_def)

lemma lit_inject [simp]: "lit s = lit t \<longleftrightarrow> s = t"
proof -
  have "inj (of_char :: char \<Rightarrow> nat)"
    by (rule injI) (simp add: of_char_eq_iff)
  then show ?thesis by (simp add: lit_def inj_map_eq_map)
qed

text \<open>
  The sentinel errors the code compares against, and the shapes of an error value: a
  sentinel, \<open>errors.New\<close> or an opaque error with its text, \<open>fmt.Errorf("prefix: %w", err)\<close>,
  and \<open>fmt.Errorf("%w: %v", sentinel, err)\<close>, which keeps the sentinel and only prints \<open>err\<close>.
\<close>

datatype sentinel =
    SqlNoRows
  | PgxNoRows
  | DocumentStateConflict
  | IndexTaskStateConflict
  | IndexTaskNotRetryable
  | SubjectNameExists
  | SubjectNotFound
  | PublishFailed
  | ContextCanceled
  | ContextDeadline
  | UniqueViolation string

datatype gerr =
    Sentinel sentinel
  | Plain gostr
  | Wrapped gostr gerr
  | Tagged sentinel gerr

fun sentinel_text :: "sentinel \<Rightarrow> gostr" where
  "sentinel_text SqlNoRows = lit ''sql: no rows in result set''"
| "sentinel_text PgxNoRows = lit ''no rows in result set''"
| "sentinel_text DocumentStateConflict = lit ''document state transition conflict''"
| "sentinel_text IndexTaskStateConflict = lit ''index task state transition conflict''"
| "sentinel_text IndexTaskNotRetryable = lit ''index task is not retryable''"
| "sentinel_text SubjectNameExists = lit ''subject name already exists''"
| "sentinel_text SubjectNotFound = lit ''subject not found''"
| "sentinel_text PublishFailed = lit ''publish durable task''"
| "sentinel_text ContextCanceled = lit ''context canceled''"
| "sentinel_text ContextDeadline = lit ''context deadline exceeded''"
| "sentinel_text (UniqueViolation c) =
     lit ''ERROR: duplicate key value violates unique constraint '' @ lit c"

fun err_text :: "gerr \<Rightarrow> gostr" where
  "err_text (Sentinel s) = sentinel_text s"
| "err_text (Plain t) = t"
| "err_text (Wrapped p e) = p @ lit '': '' @ err_text e"
| "err_text (Tagged s e) = sentinel_text s @ lit '': '' @ err_text e"

text \<open>pgx's own no-rows error reports itself as \<open>sql.ErrNoRows\<close> too, not the other way round.\<close>

fun sentinel_is :: "sentinel \<Rightarrow> sentinel \<Rightarrow> bool" where
  "sentinel_is PgxNoRows SqlNoRows = True"
| "sentinel_is s t = (s = t)"

fun errors_is :: "gerr \<Rightarrow> sentinel \<Rightarrow> bool" where
  "errors_is (Sentinel s) t = sentinel_is s t"
| "errors_is (Plain _) t = False"
| "errors_is (Wrapped _ e) t = errors_is e t"
| "errors_is (Tagged s e) t = sentinel_is s t"

lemma sentinel_is_refl [simp]: "sentinel_is s s"
  by (cases s) auto

text \<open>
  A JSON column or message body, up to what \<open>json.Unmarshal\<close> makes of it: no bytes at all,
  bytes that do not decode with the decoder's error, or the decoded value.
\<close>

datatype 'a json = JEmpty | JInvalid gerr | JValue 'a

section \<open>SQL statements over a table\<close>

text \<open>
  A table is the list of its rows. \<open>UPDATE t SET f WHERE P\<close> rewrites the rows that satisfy
  the condition, \<open>RowsAffected\<close> counts them, and a query for a primary key reads the first
  row that satisfies its condition.
\<close>

definition tbl_update :: "('r \<Rightarrow> bool) \<Rightarrow> ('r \<Rightarrow> 'r) \<Rightarrow> 'r list \<Rightarrow> 'r list" where
  "tbl_update P f rows = map (\<lambda>r. if P r then f r else r) rows"

definition tbl_affected :: "('r \<Rightarrow> bool) \<Rightarrow> 'r list \<Rightarrow> nat" where
  "tbl_affected P rows = length (filter P rows)"

definition tbl_first :: "('r \<Rightarrow> bool) \<Rightarrow> 'r list \<Rightarrow> 'r option" where
  "tbl_first P rows = (case filter P rows of [] \<Rightarrow> None | r # _ \<Rightarrow> Some r)"

definition tbl_page :: "nat \<Rightarrow> nat \<Rightarrow> 'r list \<Rightarrow> 'r list" where
  "tbl_page limit offset rows = take limit (drop offset rows)"

lemma tbl_affected_zero: "tbl_affected P rows = 0 \<longleftrightarrow> (\<forall>r \<in> set rows. \<not> P r)"
  by (auto simp: tbl_affected_def filter_empty_conv)

lemma tbl_update_none: "\<forall>r \<in> set rows. \<not> P r \<Longrightarrow> tbl_update P f rows = rows"
  by (auto simp: tbl_update_def intro: map_idI)

lemma tbl_update_Nil [tbl_simps]: "tbl_update P f [] = []"
  by (simp add: tbl_update_def)

lemma tbl_update_Cons [tbl_simps]:
  "tbl_update P f (r # rows) = (if P r then f r else r) # tbl_update P f rows"
  by (simp add: tbl_update_def)

lemma tbl_affected_Nil [tbl_simps]: "tbl_affected P [] = 0"
  by (simp add: tbl_affected_def)

lemma tbl_affected_Cons [tbl_simps]:
  "tbl_affected P (r # rows) = (if P r then Suc (tbl_affected P rows) else tbl_affected P rows)"
  by (simp add: tbl_affected_def)

lemma tbl_first_Nil [tbl_simps]: "tbl_first P [] = None"
  by (simp add: tbl_first_def)

lemma tbl_first_Cons [tbl_simps]:
  "tbl_first P (r # rows) = (if P r then Some r else tbl_first P rows)"
  by (simp add: tbl_first_def)

lemma length_tbl_update [simp]: "length (tbl_update P f rows) = length rows"
  by (simp add: tbl_update_def)

lemma set_tbl_update: "set (tbl_update P f rows) = (\<lambda>r. if P r then f r else r) ` set rows"
  by (simp add: tbl_update_def)

lemma tbl_updateE:
  assumes "r \<in> set (tbl_update P f rows)"
  obtains (hit) r0 where "r0 \<in> set rows" and "P r0" and "r = f r0"
  | (miss) "r \<in> set rows" and "\<not> P r"
  using assms by (auto simp: set_tbl_update split: if_splits)

lemma tbl_update_hit: "r \<in> set rows \<Longrightarrow> P r \<Longrightarrow> f r \<in> set (tbl_update P f rows)"
  by (force simp: set_tbl_update)

lemma map_filter_key: "map k (filter (\<lambda>r. Q (k r)) rows) = filter Q (map k rows)"
  by (induction rows) auto

lemma map_tbl_update: "(\<And>r. P r \<Longrightarrow> k (f r) = k r) \<Longrightarrow> map k (tbl_update P f rows) = map k rows"
  by (simp add: tbl_update_def)

lemma map_tbl_update_on:
  "(\<And>r. r \<in> set rows \<Longrightarrow> P r \<Longrightarrow> k (f r) = k r) \<Longrightarrow> map k (tbl_update P f rows) = map k rows"
  by (simp add: tbl_update_def)

lemma image_tbl_update:
  assumes "\<And>r. r \<in> set rows \<Longrightarrow> P r \<Longrightarrow> k (f r) = k r"
  shows "k ` set (tbl_update P f rows) = k ` set rows"
proof -
  have "map k (tbl_update P f rows) = map k rows" using assms by (rule map_tbl_update_on)
  then show ?thesis by (metis list.set_map)
qed

lemma tbl_first_Some:
  "tbl_first P rows = Some r \<Longrightarrow> r \<in> set rows \<and> P r"
  by (induction rows) (auto simp: tbl_simps split: if_splits)

lemma tbl_first_None: "tbl_first P rows = None \<longleftrightarrow> (\<forall>r \<in> set rows. \<not> P r)"
  by (induction rows) (auto simp: tbl_simps)

lemma tbl_first_cong:
  "(\<And>r. r \<in> set rows \<Longrightarrow> P r = Q r) \<Longrightarrow> tbl_first P rows = tbl_first Q rows"
  by (induction rows) (auto simp: tbl_simps)

lemma tbl_page_length: "length (tbl_page limit offset rows) \<le> limit"
  by (simp add: tbl_page_def)

lemma set_tbl_page: "set (tbl_page limit offset rows) \<subseteq> set rows"
  by (auto simp: tbl_page_def dest: in_set_takeD in_set_dropD)

text \<open>Rows with a primary key: the key identifies the row.\<close>

lemma key_unique:
  "distinct (map k rows) \<Longrightarrow> r \<in> set rows \<Longrightarrow> s \<in> set rows \<Longrightarrow> k r = k s \<Longrightarrow> r = s"
  by (induction rows) (auto simp: image_iff)

lemma tbl_first_key:
  "distinct (map k rows) \<Longrightarrow> r \<in> set rows \<Longrightarrow> tbl_first (\<lambda>x. k x = k r) rows = Some r"
  by (induction rows) (auto simp: tbl_simps image_iff)

lemma key_fresh: "distinct (map k (r # rows)) \<Longrightarrow> \<forall>x \<in> set rows. k x \<noteq> k r"
  by (metis distinct.simps(2) image_eqI list.set_map list.simps(9))

lemma tbl_affected_key:
  "distinct (map k rows) \<Longrightarrow> tbl_affected (\<lambda>x. k x = v \<and> Q x) rows \<le> 1"
proof (induction rows)
  case Nil
  then show ?case by (simp add: tbl_simps)
next
  case (Cons r rows)
  show ?case
  proof (cases "k r = v \<and> Q r")
    case True
    with Cons.prems have "\<forall>x \<in> set rows. \<not> (k x = v \<and> Q x)"
      using key_fresh by fastforce
    then have "tbl_affected (\<lambda>x. k x = v \<and> Q x) rows = 0"
      by (simp only: tbl_affected_zero)
    with True show ?thesis by (simp only: tbl_affected_Cons) simp
  next
    case False
    with Cons show ?thesis by (auto simp: tbl_simps)
  qed
qed

text \<open>
  What a read by primary key sees after an update guarded on the same key: nothing changes
  for the other rows, and the row itself changes exactly when the guard held.
\<close>

lemma tbl_first_update:
  assumes "\<And>r. k (f r) = k r"
  shows "tbl_first (\<lambda>x. k x = v) (tbl_update (\<lambda>x. k x = w \<and> Q x) f rows) =
    map_option (\<lambda>r. if v = w \<and> Q r then f r else r) (tbl_first (\<lambda>x. k x = v) rows)"
  using assms by (induction rows) (auto simp: tbl_simps)

lemma tbl_first_update_any:
  assumes "\<And>r. k (f r) = k r"
  shows "tbl_first (\<lambda>x. k x = v) (tbl_update Q f rows) =
    map_option (\<lambda>r. if Q r then f r else r) (tbl_first (\<lambda>x. k x = v) rows)"
  using assms by (induction rows) (auto simp: tbl_simps)

lemma tbl_affected_key_iff:
  assumes "distinct (map k rows)"
  shows "tbl_affected (\<lambda>x. k x = v \<and> Q x) rows = 0 \<longleftrightarrow>
    (\<forall>r. tbl_first (\<lambda>x. k x = v) rows = Some r \<longrightarrow> \<not> Q r)"
proof
  assume none: "tbl_affected (\<lambda>x. k x = v \<and> Q x) rows = 0"
  show "\<forall>r. tbl_first (\<lambda>x. k x = v) rows = Some r \<longrightarrow> \<not> Q r"
    using none by (auto simp: tbl_affected_zero dest!: tbl_first_Some)
next
  assume first: "\<forall>r. tbl_first (\<lambda>x. k x = v) rows = Some r \<longrightarrow> \<not> Q r"
  show "tbl_affected (\<lambda>x. k x = v \<and> Q x) rows = 0"
    using first tbl_first_key [OF assms] by (auto simp: tbl_affected_zero)
qed

lemma tbl_first_guarded:
  assumes "distinct (map k rows)"
  shows "tbl_first (\<lambda>x. k x = v \<and> Q x) rows =
    (case tbl_first (\<lambda>x. k x = v) rows of None \<Rightarrow> None
     | Some r \<Rightarrow> if Q r then Some r else None)"
  using assms
proof (induction rows)
  case Nil
  then show ?case by (simp add: tbl_simps)
next
  case (Cons r rows)
  show ?case
  proof (cases "k r = v")
    case True
    with Cons.prems have "\<forall>x \<in> set rows. k x \<noteq> v"
      using key_fresh [of k r rows] by simp
    then have "tbl_first (\<lambda>x. k x = v \<and> Q x) rows = None" by (auto simp: tbl_first_None)
    with True show ?thesis by (simp add: tbl_simps)
  next
    case False
    with Cons show ?thesis by (simp add: tbl_simps)
  qed
qed

lemma tbl_affected_one:
  "distinct (map k rows) \<Longrightarrow>
    tbl_affected (\<lambda>x. k x = v \<and> Q x) rows = 1 \<longleftrightarrow>
    tbl_affected (\<lambda>x. k x = v \<and> Q x) rows \<noteq> 0"
  using tbl_affected_key [of k rows v Q] by linarith

section \<open>Contracts shared by the components\<close>

text \<open>
  A transition system with an invariant. The client's lemma: everything reachable from a
  state that satisfies the invariant satisfies it.
\<close>

locale invariant_system =
  fixes step :: "'s \<Rightarrow> 's \<Rightarrow> bool" and inv :: "'s \<Rightarrow> bool"
  assumes step_keeps: "step s t \<Longrightarrow> inv s \<Longrightarrow> inv t"
begin

lemma run_keeps: "step\<^sup>*\<^sup>* s t \<Longrightarrow> inv s \<Longrightarrow> inv t"
  by (induction rule: rtranclp_induct) (auto intro: step_keeps)

end

text \<open>
  A status column that is only written by compare-and-set statements: an update to \<open>n\<close>
  succeeds exactly when the current status is one of \<open>allowed n\<close>, then the status is \<open>n\<close>;
  otherwise nothing changes. Clients get: an update that is not its own predecessor cannot
  succeed twice in a row, of two competing updates only one wins, and a status that no
  update allows as a predecessor is final.
\<close>

locale guarded_status =
  fixes status :: "'db \<Rightarrow> 'k \<Rightarrow> 's option"
    and update :: "'k \<Rightarrow> 's \<Rightarrow> 'db \<Rightarrow> bool \<times> 'db"
    and allowed :: "'s \<Rightarrow> 's list"
    and ok :: "'db \<Rightarrow> bool"
  assumes update_iff: "ok d \<Longrightarrow>
      fst (update k n d) \<longleftrightarrow> (\<exists>s. status d k = Some s \<and> s \<in> set (allowed n))"
    and update_sets: "ok d \<Longrightarrow> fst (update k n d) \<Longrightarrow> status (snd (update k n d)) k = Some n"
    and update_frame: "ok d \<Longrightarrow> j \<noteq> k \<or> \<not> fst (update k n d) \<Longrightarrow>
      status (snd (update k n d)) j = status d j"
    and update_ok: "ok d \<Longrightarrow> ok (snd (update k n d))"
begin

lemma compete:
  assumes "ok d" and "fst (update k n d)" and "n \<notin> set (allowed m)"
  shows "\<not> fst (update k m (snd (update k n d)))"
  using assms update_sets [of d k n] update_iff [of "snd (update k n d)" k m] update_ok [of d k n]
  by auto

lemma not_twice:
  "ok d \<Longrightarrow> fst (update k n d) \<Longrightarrow> n \<notin> set (allowed n) \<Longrightarrow>
    \<not> fst (update k n (snd (update k n d)))"
  by (rule compete)

lemma final:
  assumes "ok d" and "status d k = Some s" and "s \<notin> set (allowed n)"
  shows "status (snd (update j n d)) k = Some s"
  using assms update_frame [of d k j n] update_iff [of d k n] by fastforce

end

end
