(* ===== verification/GoText.thy ===== *)
theory GoText
  imports Prelude "HOL-Library.Code_Target_Nat"
begin

text \<open>
  The functions of Go's \<open>strings\<close>, \<open>unicode\<close> and \<open>strconv\<close> that the program uses, on lists
  of runes. The Unicode tables beyond ASCII are data of Go's library, given by a record of
  their characteristic functions; white space, which decides where text is cut, is written out.
\<close>

section \<open>Runes\<close>

definition isSpace :: "rune \<Rightarrow> bool" where
  "isSpace r \<longleftrightarrow> (9 \<le> r \<and> r \<le> 13) \<or> r = 32 \<or> r = 0x85 \<or> r = 0xA0 \<or> r = 0x1680 \<or>
     (0x2000 \<le> r \<and> r \<le> 0x200A) \<or> r = 0x2028 \<or> r = 0x2029 \<or> r = 0x202F \<or> r = 0x205F \<or> r = 0x3000"

text \<open>
  The categories and the lower-case mapping of the code points from 128 on, and simple case
  folding (the least member of the orbit of \<open>unicode.SimpleFold\<close>) for \<open>strings.EqualFold\<close>.
\<close>

record unicode_tables =
  uc_letter :: "rune \<Rightarrow> bool"
  uc_digit :: "rune \<Rightarrow> bool"
  uc_punct :: "rune \<Rightarrow> bool"
  uc_han :: "rune \<Rightarrow> bool"
  uc_lower :: "rune \<Rightarrow> rune"
  uc_fold :: "rune \<Rightarrow> rune"

definition ascii_upper_letter :: "rune \<Rightarrow> bool" where
  "ascii_upper_letter r \<longleftrightarrow> 65 \<le> r \<and> r \<le> 90"

definition isLetter :: "unicode_tables \<Rightarrow> rune \<Rightarrow> bool" where
  "isLetter u r \<longleftrightarrow> (if r < 128 then ascii_upper_letter r \<or> (97 \<le> r \<and> r \<le> 122) else uc_letter u r)"

definition isDigit :: "unicode_tables \<Rightarrow> rune \<Rightarrow> bool" where
  "isDigit u r \<longleftrightarrow> (if r < 128 then 48 \<le> r \<and> r \<le> 57 else uc_digit u r)"

definition ascii_punct :: gostr where
  "ascii_punct = lit ''!\"#%&*,-./:;?@_'' @ [39, 40, 41, 91, 92, 93, 123, 125]"

definition isPunct :: "unicode_tables \<Rightarrow> rune \<Rightarrow> bool" where
  "isPunct u r \<longleftrightarrow> (if r < 128 then r \<in> set ascii_punct else uc_punct u r)"

definition isHan :: "unicode_tables \<Rightarrow> rune \<Rightarrow> bool" where
  "isHan u r \<longleftrightarrow> 128 \<le> r \<and> uc_han u r"

definition runeLower :: "unicode_tables \<Rightarrow> rune \<Rightarrow> rune" where
  "runeLower u r = (if r < 128 then if ascii_upper_letter r then r + 32 else r else uc_lower u r)"

text \<open>The Kelvin sign and the long s fold to ASCII letters, so folding is a table throughout.\<close>

definition runeFold :: "unicode_tables \<Rightarrow> rune \<Rightarrow> rune" where
  "runeFold u r = (if r < 128 then if 97 \<le> r \<and> r \<le> 122 then r - 32 else r else uc_fold u r)"

definition ToLower :: "unicode_tables \<Rightarrow> gostr \<Rightarrow> gostr" where
  "ToLower u s = map (runeLower u) s"

definition EqualFold :: "unicode_tables \<Rightarrow> gostr \<Rightarrow> gostr \<Rightarrow> bool" where
  "EqualFold u s t \<longleftrightarrow> map (runeFold u) s = map (runeFold u) t"

text \<open>Tables without characters beyond ASCII, for evaluating examples.\<close>

definition ascii_tables :: unicode_tables where
  "ascii_tables = \<lparr>uc_letter = (\<lambda>_. False), uc_digit = (\<lambda>_. False), uc_punct = (\<lambda>_. False),
     uc_han = (\<lambda>_. False), uc_lower = (\<lambda>r. r), uc_fold = (\<lambda>r. r)\<rparr>"

section \<open>Trimming\<close>

definition TrimLeftSpace :: "gostr \<Rightarrow> gostr" where
  "TrimLeftSpace s = dropWhile isSpace s"

definition TrimRightSpace :: "gostr \<Rightarrow> gostr" where
  "TrimRightSpace s = rev (dropWhile isSpace (rev s))"

definition TrimSpace :: "gostr \<Rightarrow> gostr" where
  "TrimSpace s = TrimRightSpace (TrimLeftSpace s)"

text \<open>Identifiers are ASCII strings; they are trimmed as the text they are.\<close>

definition text_id :: "gostr \<Rightarrow> uid" where
  "text_id s = map char_of s"

definition trim_id :: "uid \<Rightarrow> uid" where
  "trim_id i = text_id (TrimSpace (lit i))"

lemma text_id_lit [simp]: "text_id (lit s) = s"
  by (simp add: text_id_def lit_def comp_def)

definition HasPrefix :: "gostr \<Rightarrow> gostr \<Rightarrow> bool" where
  "HasPrefix s p \<longleftrightarrow> take (length p) s = p"

definition TrimPrefix :: "gostr \<Rightarrow> gostr \<Rightarrow> gostr" where
  "TrimPrefix s p = (if HasPrefix s p then drop (length p) s else s)"

definition HasSuffix :: "gostr \<Rightarrow> gostr \<Rightarrow> bool" where
  "HasSuffix s p \<longleftrightarrow> HasPrefix (rev s) (rev p)"

definition TrimSuffix :: "gostr \<Rightarrow> gostr \<Rightarrow> gostr" where
  "TrimSuffix s p = (if HasSuffix s p then take (length s - length p) s else s)"

section \<open>Searching, splitting and joining\<close>

text \<open>The position of the first occurrence, \<open>strings.Index\<close>; \<open>None\<close> where Go returns -1.\<close>

fun Index :: "gostr \<Rightarrow> gostr \<Rightarrow> nat option" where
  "Index [] p = (if p = [] then Some 0 else None)"
| "Index (r # s) p = (if HasPrefix (r # s) p then Some 0 else map_option Suc (Index s p))"

definition Contains :: "gostr \<Rightarrow> gostr \<Rightarrow> bool" where
  "Contains s p \<longleftrightarrow> Index s p \<noteq> None"

text \<open>\<open>strings.Split\<close> and \<open>strings.ReplaceAll\<close> for a separator that is not empty.\<close>

function Split :: "gostr \<Rightarrow> gostr \<Rightarrow> gostr list" where
  "Split s sep =
     (if sep = [] then [s]
      else case Index s sep of
        None \<Rightarrow> [s]
      | Some i \<Rightarrow> take i s # Split (drop (i + length sep) s) sep)"
  by pat_completeness auto

lemma Index_bound: "Index s p = Some i \<Longrightarrow> i + length p \<le> length s"
proof (induction s arbitrary: i)
  case (Cons r s)
  show ?case
  proof (cases "HasPrefix (r # s) p")
    case True
    then have "length p \<le> length (r # s)" unfolding HasPrefix_def by (metis length_take min.cobounded1)
    with True Cons.prems show ?thesis by simp
  next
    case False
    with Cons show ?thesis by auto
  qed
qed (auto split: if_splits)

termination Split
proof (relation "measure (\<lambda>(s, _). length s)")
  fix s sep :: gostr and i
  assume "sep \<noteq> []" and "Index s sep = Some i"
  moreover from this have "i + length sep \<le> length s" using Index_bound by blast
  ultimately show "((drop (i + length sep) s, sep), s, sep) \<in> measure (\<lambda>(s, _). length s)"
    by (cases sep) auto
qed simp

declare Split.simps [simp del]

fun Join :: "gostr list \<Rightarrow> gostr \<Rightarrow> gostr" where
  "Join [] sep = []"
| "Join [s] sep = s"
| "Join (s # t # ss) sep = s @ sep @ Join (t # ss) sep"

definition ReplaceAll :: "gostr \<Rightarrow> gostr \<Rightarrow> gostr \<Rightarrow> gostr" where
  "ReplaceAll s old new = Join (Split s old) new"

text \<open>\<open>strings.SplitN(s, sep, 2)\<close>: the parts around the first separator.\<close>

definition Cut :: "gostr \<Rightarrow> gostr \<Rightarrow> (gostr \<times> gostr) option" where
  "Cut s sep = map_option (\<lambda>i. (take i s, drop (i + length sep) s)) (Index s sep)"

text \<open>\<open>strings.FieldsFunc\<close>: the maximal runs of runes that do not satisfy the predicate.\<close>

function FieldsFunc :: "(rune \<Rightarrow> bool) \<Rightarrow> gostr \<Rightarrow> gostr list" where
  "FieldsFunc p s =
     (case dropWhile p s of
        [] \<Rightarrow> []
      | r # rest \<Rightarrow>
         (r # takeWhile (\<lambda>x. \<not> p x) rest) # FieldsFunc p (dropWhile (\<lambda>x. \<not> p x) rest))"
  by pat_completeness auto
termination
proof (relation "measure (\<lambda>(_, s). length s)")
  fix p and s :: gostr and r rest
  assume "dropWhile p s = r # rest"
  then have "length rest < length s"
    by (metis length_dropWhile_le length_Cons less_eq_Suc_le)
  moreover have "length (dropWhile (\<lambda>x. \<not> p x) rest) \<le> length rest" by (rule length_dropWhile_le)
  ultimately show "((p, dropWhile (\<lambda>x. \<not> p x) rest), p, s) \<in> measure (\<lambda>(_, s). length s)"
    by simp
qed simp

declare FieldsFunc.simps [simp del]

definition Fields :: "gostr \<Rightarrow> gostr list" where
  "Fields s = FieldsFunc isSpace s"

section \<open>Decimal numbers\<close>

fun digits :: "nat \<Rightarrow> string" where
  "digits n = (if n < 10 then [char_of (48 + n)] else digits (n div 10) @ [char_of (48 + (n mod 10))])"

definition Itoa :: "int \<Rightarrow> string" where
  "Itoa i = (if i < 0 then ''-'' @ digits (nat (- i)) else digits (nat i))"

section \<open>What the functions guarantee\<close>

text \<open>A trimmed text is the text without the white space around it.\<close>

definition trimmed :: "gostr \<Rightarrow> bool" where
  "trimmed s \<longleftrightarrow> s \<noteq> [] \<longrightarrow> \<not> isSpace (hd s) \<and> \<not> isSpace (last s)"

lemma TrimLeftSpace_split:
  obtains pre where "s = pre @ TrimLeftSpace s" and "\<forall>r \<in> set pre. isSpace r"
  unfolding TrimLeftSpace_def by (metis set_takeWhileD takeWhile_dropWhile_id)

lemma TrimRightSpace_split:
  obtains post where "s = TrimRightSpace s @ post" and "\<forall>r \<in> set post. isSpace r"
proof
  show "s = TrimRightSpace s @ rev (takeWhile isSpace (rev s))"
    unfolding TrimRightSpace_def by (metis rev_append rev_rev_ident takeWhile_dropWhile_id)
  show "\<forall>r \<in> set (rev (takeWhile isSpace (rev s))). isSpace r"
    by (auto dest: set_takeWhileD)
qed

lemma TrimSpace_split:
  obtains pre post where "s = pre @ TrimSpace s @ post"
    and "\<forall>r \<in> set pre. isSpace r" and "\<forall>r \<in> set post. isSpace r"
  using TrimLeftSpace_split [of s] TrimRightSpace_split [of "TrimLeftSpace s"]
  unfolding TrimSpace_def by metis

lemma TrimSpace_Nil_iff: "TrimSpace s = [] \<longleftrightarrow> (\<forall>r \<in> set s. isSpace r)"
  by (auto simp: TrimSpace_def TrimRightSpace_def TrimLeftSpace_def dropWhile_eq_Nil_conv
      dest: set_dropWhileD) (metis append.right_neutral set_takeWhileD takeWhile_dropWhile_id
      dropWhile_eq_Nil_conv hd_dropWhile hd_in_set)

lemma TrimSpace_Nil [simp]: "TrimSpace [] = []"
  by (simp add: TrimSpace_Nil_iff)

lemma length_TrimSpace: "length (TrimSpace s) \<le> length s"
  by (metis TrimSpace_split length_append le_add1 le_add2 le_trans)

lemma trimmed_TrimSpace: "trimmed (TrimSpace s)"
proof (unfold trimmed_def, intro impI conjI)
  assume ne: "TrimSpace s \<noteq> []"
  let ?l = "TrimLeftSpace s"
  obtain post where post: "?l = TrimSpace s @ post"
    using TrimRightSpace_split [of ?l] unfolding TrimSpace_def by metis
  with ne have "?l \<noteq> []" and "hd ?l = hd (TrimSpace s)" by (metis append_is_Nil_conv, metis hd_append2)
  then show "\<not> isSpace (hd (TrimSpace s))"
    unfolding TrimLeftSpace_def by (metis hd_dropWhile)
  have "rev (TrimSpace s) = dropWhile isSpace (rev ?l)" by (simp add: TrimSpace_def TrimRightSpace_def)
  with ne show "\<not> isSpace (last (TrimSpace s))"
    by (metis hd_dropWhile hd_rev rev_is_Nil_conv)
qed

lemma TrimSpace_of_trimmed: "trimmed s \<Longrightarrow> TrimSpace s = s"
proof (cases "s = []")
  case False
  assume "trimmed s"
  with False have "dropWhile isSpace s = s" and "dropWhile isSpace (rev s) = rev s"
    unfolding trimmed_def by (metis dropWhile_eq_self_iff, metis dropWhile_eq_self_iff hd_rev)
  then show ?thesis by (simp add: TrimSpace_def TrimLeftSpace_def TrimRightSpace_def)
qed simp

lemma TrimSpace_idem [simp]: "TrimSpace (TrimSpace s) = TrimSpace s"
  by (rule TrimSpace_of_trimmed) (rule trimmed_TrimSpace)

lemma set_TrimSpace: "set (TrimSpace s) \<subseteq> set s"
  by (metis TrimSpace_split Un_upper1 Un_upper2 order_trans set_append)

text \<open>The runes that are not white space survive trimming.\<close>

lemma TrimSpace_keeps: "filter (\<lambda>r. \<not> isSpace r) (TrimSpace s) = filter (\<lambda>r. \<not> isSpace r) s"
proof -
  obtain pre post where s: "s = pre @ TrimSpace s @ post"
    and ws: "\<forall>r \<in> set pre. isSpace r" "\<forall>r \<in> set post. isSpace r"
    by (rule TrimSpace_split)
  have "filter (\<lambda>r. \<not> isSpace r) s = filter (\<lambda>r. \<not> isSpace r) (pre @ TrimSpace s @ post)"
    using s by simp
  with ws show ?thesis by (simp add: filter_empty_conv)
qed

lemma HasPrefix_iff: "HasPrefix s p \<longleftrightarrow> (\<exists>t. s = p @ t)"
  unfolding HasPrefix_def by (metis append_eq_conv_conj append_take_drop_id)

lemma Index_sound:
  "Index s p = Some i \<Longrightarrow> s = take i s @ p @ drop (i + length p) s"
proof (induction s arbitrary: i)
  case (Cons r s)
  show ?case
  proof (cases "HasPrefix (r # s) p")
    case True
    with Cons.prems obtain t where "i = 0" "r # s = p @ t" by (auto simp: HasPrefix_iff)
    then show ?thesis by simp
  next
    case False
    with Cons.prems obtain j where j: "i = Suc j" "Index s p = Some j" by auto
    from Cons.IH [OF j(2)] j(1) show ?thesis by simp
  qed
qed (auto split: if_splits)

lemma Index_found: "Index (a @ p @ b) p \<noteq> None"
proof (induction a)
  case Nil
  have "HasPrefix (p @ b) p" by (simp add: HasPrefix_def)
  then show ?case by (cases "p @ b") auto
next
  case (Cons r a)
  then show ?case by simp
qed

lemma Contains_iff: "Contains s p \<longleftrightarrow> (\<exists>a b. s = a @ p @ b)"
proof
  assume "Contains s p"
  then obtain i where "Index s p = Some i" by (auto simp: Contains_def)
  from Index_sound [OF this] show "\<exists>a b. s = a @ p @ b" by blast
next
  show "\<exists>a b. s = a @ p @ b \<Longrightarrow> Contains s p" unfolding Contains_def using Index_found by blast
qed

lemma Split_not_Nil [simp]: "Split s sep \<noteq> []"
  by (subst Split.simps) (auto split: option.split)

lemma Join_Cons: "ss \<noteq> [] \<Longrightarrow> Join (s # ss) sep = s @ sep @ Join ss sep"
  by (cases ss) simp_all

lemma Join_Split: "Join (Split s sep) sep = s"
proof (induction s sep rule: Split.induct)
  case (1 s sep)
  show ?case
  proof (cases "sep = [] \<or> Index s sep = None")
    case True
    then show ?thesis by (subst Split.simps) auto
  next
    case False
    then obtain i where i: "sep \<noteq> []" "Index s sep = Some i" by auto
    have "Split s sep = take i s # Split (drop (i + length sep) s) sep"
      using i by (subst Split.simps) simp
    with 1 [OF i] Index_sound [OF i(2)] show ?thesis by (simp add: Join_Cons)
  qed
qed

lemma FieldsFunc_fields:
  "f \<in> set (FieldsFunc p s) \<Longrightarrow> f \<noteq> [] \<and> (\<forall>r \<in> set f. \<not> p r \<and> r \<in> set s)"
proof (induction p s rule: FieldsFunc.induct)
  case (1 p s)
  show ?case
  proof (cases "dropWhile p s")
    case Nil
    with "1.prems" show ?thesis by (subst (asm) FieldsFunc.simps) simp
  next
    case (Cons r rest)
    have fs: "FieldsFunc p s =
        (r # takeWhile (\<lambda>x. \<not> p x) rest) # FieldsFunc p (dropWhile (\<lambda>x. \<not> p x) rest)"
      using Cons by (subst FieldsFunc.simps) simp
    have sub: "set (r # rest) \<subseteq> set s" using Cons by (metis set_dropWhileD subsetI)
    have r: "\<not> p r" using Cons by (metis hd_dropWhile list.distinct(1) list.sel(1))
    from "1.prems" [unfolded fs] consider "f = r # takeWhile (\<lambda>x. \<not> p x) rest"
      | "f \<in> set (FieldsFunc p (dropWhile (\<lambda>x. \<not> p x) rest))" by auto
    then show ?thesis
    proof cases
      case 1
      with r sub show ?thesis by (auto dest: set_takeWhileD)
    next
      case 2
      from "1.IH" [OF Cons 2] sub show ?thesis by (auto dest!: set_dropWhileD)
    qed
  qed
qed

text \<open>Decimal numbers: only digits, and different numbers have different texts.\<close>

definition digit_char :: "char \<Rightarrow> bool" where
  "digit_char c \<longleftrightarrow> 48 \<le> (of_char c :: nat) \<and> (of_char c :: nat) \<le> 57"

lemma digits_ascii: "c \<in> set (digits n) \<Longrightarrow> digit_char c"
  by (induction n rule: digits.induct) (subst (asm) (2) digits.simps,
      auto simp: digit_char_def split: if_splits simp del: digits.simps)

definition digits_value :: "string \<Rightarrow> nat" where
  "digits_value s = foldl (\<lambda>a c. a * 10 + (of_char c - 48)) 0 s"

lemma digits_value: "digits_value (digits n) = n"
proof (induction n rule: digits.induct)
  case (1 n)
  show ?case
  proof (cases "n < 10")
    case True
    then show ?thesis by (simp add: digits_value_def)
  next
    case False
    then have "digits n = digits (n div 10) @ [char_of (48 + n mod 10)]"
      by (subst digits.simps) simp
    with 1 [OF False] show ?thesis by (simp add: digits_value_def del: digits.simps)
  qed
qed

lemma digits_inject: "digits m = digits n \<longleftrightarrow> m = n"
  by (metis digits_value)

lemma Itoa_nat_inject: "Itoa (int m) = Itoa (int n) \<longleftrightarrow> m = n"
  by (simp add: Itoa_def digits_inject del: digits.simps)

lemma Itoa_nat_digits: "c \<in> set (Itoa (int n)) \<Longrightarrow> digit_char c"
  by (simp add: Itoa_def digits_ascii del: digits.simps)

end
