(* ===== verification/Program.thy ===== *)
theory Program
  imports GoText
begin

text \<open>
  Go functions that return an error as their last result, over an arbitrary state of the world:
  the sequence of two calls with the early return in between, and how a sequence that returned
  without an error is read from its end.
\<close>

type_synonym ('w, 'a) prog = "'w \<Rightarrow> (gerr + 'a) \<times> 'w"

text \<open>\<open>x, err := m; if err != nil { return err }; k(x)\<close>\<close>

definition attempt :: "('w, 'a) prog \<Rightarrow> ('a \<Rightarrow> ('w, 'b) prog) \<Rightarrow> ('w, 'b) prog" where
  "attempt m k w = (case m w of (Inl e, w') \<Rightarrow> (Inl e, w') | (Inr a, w') \<Rightarrow> k a w')"

definition fail :: "gerr \<Rightarrow> ('w, 'a) prog" where
  "fail e w = (Inl e, w)"

definition return :: "'a \<Rightarrow> ('w, 'a) prog" where
  "return a w = (Inr a, w)"

text \<open>\<open>if err := m; err != nil { return fmt.Errorf("prefix: %w", err) }\<close>\<close>

definition wrap_error :: "gostr \<Rightarrow> ('w, 'a) prog \<Rightarrow> ('w, 'a) prog" where
  "wrap_error prefix m w = (case m w of (Inl e, w') \<Rightarrow> (Inl (Wrapped prefix e), w') | r \<Rightarrow> r)"

text \<open>\<open>_ = m\<close>: the error is dropped.\<close>

definition ignore_error :: "('w, 'a) prog \<Rightarrow> ('w, unit) prog" where
  "ignore_error m w = (Inr (), snd (m w))"

text \<open>Reading a sequence of calls that returned without an error from its end.\<close>

lemma attempt_Inr:
  assumes "attempt m k w = (Inr a, w')"
  obtains b w1 where "m w = (Inr b, w1)" and "k b w1 = (Inr a, w')"
  using assms by (auto simp: attempt_def split: prod.splits sum.splits)

lemma fail_Inr [simp]: "fail e w = (Inr a, w') \<longleftrightarrow> False"
  by (simp add: fail_def)

lemma return_Inr [simp]: "return a w = (Inr b, w') \<longleftrightarrow> a = b \<and> w' = w"
  by (auto simp: return_def)

lemma wrap_error_Inr [simp]: "wrap_error p m w = (Inr a, w') \<longleftrightarrow> m w = (Inr a, w')"
  by (auto simp: wrap_error_def split: prod.splits sum.splits)

lemma ignore_error_Inr [simp]: "ignore_error m w = (r, w') \<longleftrightarrow> r = Inr () \<and> w' = snd (m w)"
  by (auto simp: ignore_error_def)

end
