(* ===== verification/Status.thy ===== *)
theory Status
  imports Prelude
begin

text \<open>
  \<open>internal/model/status.go\<close> and the run statuses of \<open>internal/model/run.go\<close>: the document,
  task and run statuses, the task types, and the tables of allowed transitions.
\<close>

datatype doc_status =
    Uploaded | Parsing | Parsed | Chunking | Chunked | Embedding | Indexed
  | DocFailed | Deleting | DeleteFailed

datatype task_type = ParseTask | ChunkTask | EmbeddingTask | DeleteTask

datatype task_status = Pending | Running | Success | Failed

datatype run_status = RunCreated | RunRunning | RunCompleted | RunFailed | RunCancelled

fun doc_status_text :: "doc_status \<Rightarrow> string" where
  "doc_status_text Uploaded = ''uploaded''"
| "doc_status_text Parsing = ''parsing''"
| "doc_status_text Parsed = ''parsed''"
| "doc_status_text Chunking = ''chunking''"
| "doc_status_text Chunked = ''chunked''"
| "doc_status_text Embedding = ''embedding''"
| "doc_status_text Indexed = ''indexed''"
| "doc_status_text DocFailed = ''failed''"
| "doc_status_text Deleting = ''deleting''"
| "doc_status_text DeleteFailed = ''delete_failed''"

fun task_type_text :: "task_type \<Rightarrow> string" where
  "task_type_text ParseTask = ''document.parse''"
| "task_type_text ChunkTask = ''document.chunk''"
| "task_type_text EmbeddingTask = ''document.embedding''"
| "task_type_text DeleteTask = ''document.delete''"

fun task_status_text :: "task_status \<Rightarrow> string" where
  "task_status_text Pending = ''pending''"
| "task_status_text Running = ''running''"
| "task_status_text Success = ''success''"
| "task_status_text Failed = ''failed''"

fun run_status_text :: "run_status \<Rightarrow> string" where
  "run_status_text RunCreated = ''created''"
| "run_status_text RunRunning = ''running''"
| "run_status_text RunCompleted = ''completed''"
| "run_status_text RunFailed = ''failed''"
| "run_status_text RunCancelled = ''cancelled''"

lemma doc_status_text_inject [simp]: "doc_status_text s = doc_status_text t \<longleftrightarrow> s = t"
  by (cases s; cases t) simp_all

lemma task_type_text_inject [simp]: "task_type_text s = task_type_text t \<longleftrightarrow> s = t"
  by (cases s; cases t) simp_all

lemma task_status_text_inject [simp]: "task_status_text s = task_status_text t \<longleftrightarrow> s = t"
  by (cases s; cases t) simp_all

section \<open>Transition tables\<close>

text \<open>The maps of the code: \<open>None\<close> where the map has no entry for the status.\<close>

fun documentTransitions :: "doc_status \<Rightarrow> doc_status list option" where
  "documentTransitions Parsing = Some [Uploaded]"
| "documentTransitions Parsed = Some [Parsing]"
| "documentTransitions Chunking = Some [Parsed]"
| "documentTransitions Chunked = Some [Chunking]"
| "documentTransitions Embedding = Some [Chunked]"
| "documentTransitions Indexed = Some [Embedding]"
| "documentTransitions DocFailed =
     Some [Uploaded, Parsing, Parsed, Chunking, Chunked, Embedding]"
| "documentTransitions Deleting =
     Some [Uploaded, Parsing, Parsed, Chunking, Chunked, Embedding, Indexed, DocFailed, DeleteFailed]"
| "documentTransitions DeleteFailed = Some [Deleting]"
| "documentTransitions Uploaded = None"

fun documentRetryTransitions :: "doc_status \<Rightarrow> doc_status list option" where
  "documentRetryTransitions Uploaded = Some [DocFailed, Parsing]"
| "documentRetryTransitions Parsed = Some [DocFailed, Chunking]"
| "documentRetryTransitions Chunked = Some [DocFailed, Embedding]"
| "documentRetryTransitions Deleting = Some [DeleteFailed]"
| "documentRetryTransitions _ = None"

fun taskTransitions :: "task_status \<Rightarrow> task_status list option" where
  "taskTransitions Running = Some [Pending]"
| "taskTransitions Success = Some [Running]"
| "taskTransitions Failed = Some [Pending, Running]"
| "taskTransitions Pending = None"

text \<open>
  The accessors return a copy of the list and whether there was an entry; a missing entry
  gives the empty list and \<open>false\<close>.
\<close>

definition DocumentPreviousStatuses :: "doc_status \<Rightarrow> doc_status list \<times> bool" where
  "DocumentPreviousStatuses next =
     (case documentTransitions next of None \<Rightarrow> ([], False) | Some s \<Rightarrow> (s, True))"

definition DocumentRetryPreviousStatuses :: "doc_status \<Rightarrow> doc_status list \<times> bool" where
  "DocumentRetryPreviousStatuses next =
     (case documentRetryTransitions next of None \<Rightarrow> ([], False) | Some s \<Rightarrow> (s, True))"

definition TaskPreviousStatuses :: "task_status \<Rightarrow> task_status list \<times> bool" where
  "TaskPreviousStatuses next =
     (case taskTransitions next of None \<Rightarrow> ([], False) | Some s \<Rightarrow> (s, True))"

lemmas status_table_defs =
  DocumentPreviousStatuses_def DocumentRetryPreviousStatuses_def TaskPreviousStatuses_def

section \<open>Shape of the document lifecycle\<close>

text \<open>
  One edge of the lifecycle, by the ordinary transitions of \<open>UpdateStatus\<close> or by a retry.
\<close>

definition doc_forward :: "doc_status \<Rightarrow> doc_status \<Rightarrow> bool" where
  "doc_forward s t \<longleftrightarrow> s \<in> set (fst (DocumentPreviousStatuses t))"

definition doc_retry :: "doc_status \<Rightarrow> doc_status \<Rightarrow> bool" where
  "doc_retry s t \<longleftrightarrow> s \<in> set (fst (DocumentRetryPreviousStatuses t))"

definition doc_edge :: "doc_status \<Rightarrow> doc_status \<Rightarrow> bool" where
  "doc_edge s t \<longleftrightarrow> doc_forward s t \<or> doc_retry s t"

text \<open>How far a document has come; failing and deleting only ever move it further.\<close>

fun doc_rank :: "doc_status \<Rightarrow> nat" where
  "doc_rank Uploaded = 0"
| "doc_rank Parsing = 1"
| "doc_rank Parsed = 2"
| "doc_rank Chunking = 3"
| "doc_rank Chunked = 4"
| "doc_rank Embedding = 5"
| "doc_rank Indexed = 6"
| "doc_rank DocFailed = 6"
| "doc_rank Deleting = 7"
| "doc_rank DeleteFailed = 8"

lemma doc_forward_rank:
  "doc_forward s t \<Longrightarrow> doc_rank s < doc_rank t \<or> (s = DeleteFailed \<and> t = Deleting)"
  by (cases t) (auto simp: doc_forward_def status_table_defs)

lemma doc_forward_irrefl: "\<not> doc_forward s s"
  by (cases s) (simp_all add: doc_forward_def status_table_defs)

lemma doc_retry_irrefl: "\<not> doc_retry s s"
  by (cases s) (simp_all add: doc_retry_def status_table_defs)

lemma deleting_only_to_delete_failed: "doc_edge Deleting t \<Longrightarrow> t = DeleteFailed"
  by (cases t) (auto simp: doc_edge_def doc_forward_def doc_retry_def status_table_defs)

lemma delete_failed_only_to_deleting: "doc_edge DeleteFailed t \<Longrightarrow> t = Deleting"
  by (cases t) (auto simp: doc_edge_def doc_forward_def doc_retry_def status_table_defs)

lemma indexed_only_to_deleting: "doc_edge Indexed t \<Longrightarrow> t = Deleting"
  by (cases t) (auto simp: doc_edge_def doc_forward_def doc_retry_def status_table_defs)

text \<open>The statuses from which a document can only be deleted.\<close>

definition deletion_phase :: "doc_status \<Rightarrow> bool" where
  "deletion_phase s \<longleftrightarrow> s = Deleting \<or> s = DeleteFailed"

lemma deletion_phase_edge: "doc_edge s t \<Longrightarrow> deletion_phase s \<Longrightarrow> deletion_phase t"
  by (auto simp: deletion_phase_def dest: deleting_only_to_delete_failed
      delete_failed_only_to_deleting)

interpretation deletion_absorbs: invariant_system doc_edge deletion_phase
  by unfold_locales (rule deletion_phase_edge)

end
