(* ===== verification/Tables.thy ===== *)
theory Tables
  imports Status
begin

text \<open>
  The data of the system: the structs of \<open>internal/model\<close> and \<open>internal/task\<close> as records,
  the rows of the PostgreSQL tables (a struct together with the columns that only the SQL
  statements use), and the database as the collection of its tables. Nullable text columns
  hold the string their reader makes of them (\<open>NULL\<close> is read as the empty string);
  time stamps are integers in milliseconds.
\<close>

section \<open>Documents\<close>

record parse_segment =
  seg_page :: int
  seg_section :: gostr
  seg_heading_path :: "gostr list"
  seg_block_type :: gostr
  seg_content :: gostr

text \<open>\<open>DocumentMetadata\<close> is its list of segments.\<close>

type_synonym document_metadata = "parse_segment list"

record document =
  doc_id :: uid
  doc_tenant :: uid
  doc_subject :: uid
  doc_user :: uid
  doc_filename :: gostr
  doc_file_type :: gostr
  doc_file_size :: int
  doc_file_url :: gostr
  doc_status :: doc_status
  doc_plain_text :: gostr
  doc_metadata :: "document_metadata json"
  doc_error :: gostr
  doc_version :: int
  doc_content_hash :: string
  doc_embedding_provider :: gostr
  doc_embedding_model :: gostr
  doc_embedding_dimension :: int
  doc_chunk_strategy :: gostr
  doc_created_at :: int
  doc_updated_at :: int

record document_row = document +
  doc_deleted_at :: "int option"

section \<open>Tasks, messages and the outbox\<close>

text \<open>\<open>task.ParseTaskMetadata\<close> has one field, the processing mode.\<close>

type_synonym parse_task_metadata = string

record index_task =
  task_id :: uid
  task_tenant :: uid
  task_doc :: uid
  task_subject :: uid
  task_user :: uid
  task_filename :: gostr
  task_type :: task_type
  task_status :: task_status
  task_retry_count :: int
  task_metadata :: "parse_task_metadata json"
  task_error :: gostr
  task_doc_version :: int
  task_content_hash :: string
  task_embedding_provider :: gostr
  task_embedding_model :: gostr
  task_embedding_dimension :: int
  task_chunk_strategy :: gostr
  task_created_at :: int
  task_updated_at :: int

record task_row = index_task +
  task_lease_expires_at :: "int option"
  task_cleared_at :: "int option"

record task_message =
  msg_task_id :: uid
  msg_doc_id :: uid
  msg_processing_mode :: string

text \<open>
  A row of \<open>task_outbox\<close>; \<open>TaskOutbox\<close> is the part of it that \<open>ClaimBatch\<close> returns. The trace
  headers carry no task data and are left out. \<open>ob_subject\<close> is the task type.
\<close>

record outbox_event =
  ob_id :: uid
  ob_task_id :: uid
  ob_subject :: task_type
  ob_payload :: task_message
  ob_attempts :: nat
  ob_next_attempt_at :: int

record outbox_row = outbox_event +
  ob_locked_at :: "int option"
  ob_published_at :: "int option"
  ob_last_error :: "gostr option"
  ob_created_at :: int

section \<open>Chunks and parse logs\<close>

record chunk_metadata =
  cm_heading_path :: "gostr list"
  cm_block_type :: gostr
  cm_keywords :: "gostr list"
  cm_summary :: gostr
  cm_source_type :: gostr

record document_chunk =
  ch_id :: uid
  ch_tenant :: uid
  ch_doc :: uid
  ch_subject :: uid
  ch_user :: uid
  ch_index :: int
  ch_content :: gostr
  ch_page :: int
  ch_section :: gostr
  ch_metadata :: "chunk_metadata json"
  ch_token_count :: int
  ch_doc_version :: int
  ch_content_hash :: string
  ch_embedding_provider :: gostr
  ch_embedding_model :: gostr
  ch_embedding_dimension :: int
  ch_chunk_strategy :: gostr
  ch_created_at :: int
  ch_updated_at :: int

record chunk_row = document_chunk +
  ch_deleted_at :: "int option"

record parse_log =
  log_id :: uid
  log_doc :: uid
  log_filename :: gostr
  log_status :: task_status
  log_message :: gostr
  log_error :: gostr
  log_created_at :: int

section \<open>Subjects\<close>

datatype visibility = Private | Public

record subject =
  subj_id :: uid
  subj_tenant :: uid
  subj_name :: gostr
  subj_description :: gostr
  subj_owner :: uid
  subj_visibility :: visibility
  subj_created_at :: int
  subj_updated_at :: int

record subject_row = subject +
  subj_deleted_at :: "int option"

section \<open>The database\<close>

record db =
  documents :: "document_row list"
  index_tasks :: "task_row list"
  task_outbox :: "outbox_row list"
  document_chunks :: "chunk_row list"
  parse_logs :: "parse_log list"
  subjects :: "subject_row list"

definition empty_db :: db where
  "empty_db = \<lparr>documents = [], index_tasks = [], task_outbox = [], document_chunks = [],
     parse_logs = [], subjects = []\<rparr>"

text \<open>
  One repository call on the database: a transaction that returns a result or an error and
  the database it leaves. A transaction that returns an error has rolled back.
\<close>

type_synonym 'a tx = "db \<Rightarrow> (gerr + 'a) \<times> db"

text \<open>Constraint names of the primary keys and unique indexes of the migrations.\<close>

definition documents_pkey :: gerr where
  "documents_pkey = Sentinel (UniqueViolation ''documents_pkey'')"

definition index_tasks_pkey :: gerr where
  "index_tasks_pkey = Sentinel (UniqueViolation ''index_tasks_pkey'')"

definition task_outbox_pkey :: gerr where
  "task_outbox_pkey = Sentinel (UniqueViolation ''task_outbox_pkey'')"

definition document_chunks_pkey :: gerr where
  "document_chunks_pkey = Sentinel (UniqueViolation ''document_chunks_pkey'')"

definition parse_logs_pkey :: gerr where
  "parse_logs_pkey = Sentinel (UniqueViolation ''document_parse_logs_pkey'')"

text \<open>A document that exists for the queries: \<open>deleted_at IS NULL\<close>.\<close>

definition live_doc :: "document_row \<Rightarrow> bool" where
  "live_doc r \<longleftrightarrow> doc_deleted_at r = None"

definition live_chunk :: "chunk_row \<Rightarrow> bool" where
  "live_chunk r \<longleftrightarrow> ch_deleted_at r = None"

definition task_by_id :: "uid \<Rightarrow> db \<Rightarrow> task_row option" where
  "task_by_id i d = tbl_first (\<lambda>r. task_id r = i) (index_tasks d)"

definition doc_by_id :: "uid \<Rightarrow> db \<Rightarrow> document_row option" where
  "doc_by_id i d = tbl_first (\<lambda>r. doc_id r = i) (documents d)"

definition outbox_of :: "uid \<Rightarrow> db \<Rightarrow> outbox_row option" where
  "outbox_of i d = tbl_first (\<lambda>r. ob_task_id r = i) (task_outbox d)"

end
