(* ===== verification/Outbox.thy ===== *)
theory Outbox
  imports Tables
begin

text \<open>
  \<open>internal/task/message.go\<close> and \<open>internal/repository/postgres/outboxrepo.go\<close>: the message of
  a task, and the transactional outbox from which the publisher takes the messages. The
  name-based UUID function (\<open>uuid.NewSHA1\<close>) is the parameter \<open>sha\<close>.
\<close>

section \<open>Task messages\<close>

definition NormalizeProcessingMode :: "string \<Rightarrow> string" where
  "NormalizeProcessingMode mode =
     (if mode = ''standard'' then ''standard''
      else if mode = ''enhanced'' then ''enhanced''
      else ''enhanced'')"

text \<open>The payload that \<open>enqueueOutbox\<close> stores for a task.\<close>

definition task_payload :: "index_task \<Rightarrow> task_message" where
  "task_payload task =
     \<lparr>msg_task_id = task_id task, msg_doc_id = task_doc task,
      msg_processing_mode =
        (if task_type task = ParseTask then
           (case task_metadata task of
              JValue mode \<Rightarrow> NormalizeProcessingMode mode
            | _ \<Rightarrow> [])
         else [])\<rparr>"

section \<open>Writing the outbox inside a task's transaction\<close>

definition outbox_id :: "(string \<Rightarrow> uid) \<Rightarrow> uid \<Rightarrow> uid" where
  "outbox_id sha i = sha (''outbox:'' @ i)"

definition new_outbox_row :: "(string \<Rightarrow> uid) \<Rightarrow> int \<Rightarrow> index_task \<Rightarrow> outbox_row" where
  "new_outbox_row sha now task =
     \<lparr>ob_id = outbox_id sha (task_id task), ob_task_id = task_id task,
      ob_subject = task_type task, ob_payload = task_payload task,
      ob_attempts = 0, ob_next_attempt_at = now,
      ob_locked_at = None, ob_published_at = None, ob_last_error = None,
      ob_created_at = now\<rparr>"

definition enqueueOutbox :: "(string \<Rightarrow> uid) \<Rightarrow> int \<Rightarrow> index_task \<Rightarrow> bool \<Rightarrow> unit tx" where
  "enqueueOutbox sha now task reset d =
     (if tbl_affected (\<lambda>r. ob_task_id r = task_id task) (task_outbox d) \<noteq> 0 then
        (if reset then
           (Inr (), d\<lparr>task_outbox := tbl_update (\<lambda>r. ob_task_id r = task_id task)
              (\<lambda>r. r\<lparr>ob_subject := task_type task, ob_payload := task_payload task,
                    ob_attempts := 0, ob_next_attempt_at := now,
                    ob_locked_at := None, ob_published_at := None, ob_last_error := None\<rparr>)
              (task_outbox d)\<rparr>)
         else (Inr (), d))
      else if tbl_affected (\<lambda>r. ob_id r = outbox_id sha (task_id task)) (task_outbox d) \<noteq> 0 then
        (Inl task_outbox_pkey, d)
      else (Inr (), d\<lparr>task_outbox := task_outbox d @ [new_outbox_row sha now task]\<rparr>))"

section \<open>The publisher's transactions\<close>

definition lock_timeout :: int where
  "lock_timeout = 60000"

definition claimable :: "int \<Rightarrow> outbox_row \<Rightarrow> bool" where
  "claimable now r \<longleftrightarrow>
     ob_published_at r = None \<and> ob_next_attempt_at r \<le> now \<and>
     (case ob_locked_at r of None \<Rightarrow> True | Some l \<Rightarrow> l < now - lock_timeout)"

definition claim_limit :: "int \<Rightarrow> nat" where
  "claim_limit limit = (if limit < 1 \<or> limit > 100 then 50 else nat limit)"

definition claim_candidates :: "int \<Rightarrow> int \<Rightarrow> db \<Rightarrow> outbox_row list" where
  "claim_candidates now limit d =
     take (claim_limit limit) (sort_key ob_created_at (filter (claimable now) (task_outbox d)))"

definition ClaimBatch :: "int \<Rightarrow> int \<Rightarrow> outbox_event list tx" where
  "ClaimBatch now limit d =
     (let picked = map ob_id (claim_candidates now limit d);
          rows = tbl_update (\<lambda>r. ob_id r \<in> set picked)
                   (\<lambda>r. r\<lparr>ob_locked_at := Some now\<rparr>) (task_outbox d)
      in (Inr (map outbox_event.truncate (filter (\<lambda>r. ob_id r \<in> set picked) rows)),
          d\<lparr>task_outbox := rows\<rparr>))"

definition MarkPublished :: "int \<Rightarrow> uid \<Rightarrow> unit tx" where
  "MarkPublished now i d =
     (Inr (), d\<lparr>task_outbox := tbl_update (\<lambda>r. ob_id r = i)
        (\<lambda>r. r\<lparr>ob_published_at := Some now, ob_locked_at := None, ob_last_error := None\<rparr>)
        (task_outbox d)\<rparr>)"

text \<open>\<open>power(2, LEAST(attempts, 6))\<close> seconds, with the attempts before the increment.\<close>

definition retry_delay :: "nat \<Rightarrow> int" where
  "retry_delay attempts = 2 ^ (min attempts 6) * 1000"

definition MarkFailed :: "int \<Rightarrow> uid \<Rightarrow> gostr \<Rightarrow> unit tx" where
  "MarkFailed now i message d =
     (Inr (), d\<lparr>task_outbox := tbl_update (\<lambda>r. ob_id r = i)
        (\<lambda>r. r\<lparr>ob_attempts := Suc (ob_attempts r),
              ob_next_attempt_at := now + retry_delay (ob_attempts r),
              ob_locked_at := None, ob_last_error := Some message\<rparr>)
        (task_outbox d)\<rparr>)"

lemmas outbox_defs [tx_defs] =
  enqueueOutbox_def ClaimBatch_def MarkPublished_def MarkFailed_def

section \<open>Properties of the outbox\<close>

lemma NormalizeProcessingMode_range:
  "NormalizeProcessingMode m = ''standard'' \<or> NormalizeProcessingMode m = ''enhanced''"
  by (simp add: NormalizeProcessingMode_def)

lemma NormalizeProcessingMode_idem:
  "NormalizeProcessingMode (NormalizeProcessingMode m) = NormalizeProcessingMode m"
  by (simp add: NormalizeProcessingMode_def)

lemma retry_delay_bounds: "1000 \<le> retry_delay n \<and> retry_delay n \<le> 64000"
proof -
  have "(2::int) ^ min n 6 \<le> 2 ^ 6" by (rule power_increasing) simp_all
  moreover have "(1::int) \<le> 2 ^ min n 6" by simp
  ultimately show ?thesis by (simp add: retry_delay_def)
qed

lemma claim_limit_bounds: "1 \<le> claim_limit l \<and> claim_limit l \<le> 100"
  by (auto simp: claim_limit_def)

lemma claim_candidates_claimable:
  "r \<in> set (claim_candidates now limit d) \<Longrightarrow> r \<in> set (task_outbox d) \<and> claimable now r"
  by (auto simp: claim_candidates_def dest!: in_set_takeD)

lemma outbox_ids_update [simp]:
  "map ob_id (tbl_update P (\<lambda>r. r\<lparr>ob_locked_at := x r\<rparr>) rows) = map ob_id rows"
  by (rule map_tbl_update) simp

text \<open>The rows a batch hands out: exactly the locked candidates.\<close>

lemma ClaimBatch_events:
  assumes "ClaimBatch now limit d = (Inr events, d')"
    and "distinct (map ob_id (task_outbox d))"
  shows "set (map ob_id events) = set (map ob_id (claim_candidates now limit d))"
    and "length events \<le> claim_limit limit"
proof -
  let ?picked = "map ob_id (claim_candidates now limit d)"
  let ?rows = "tbl_update (\<lambda>r. ob_id r \<in> set ?picked) (\<lambda>r. r\<lparr>ob_locked_at := Some now\<rparr>)
    (task_outbox d)"
  have events: "events = map outbox_event.truncate (filter (\<lambda>r. ob_id r \<in> set ?picked) ?rows)"
    using assms(1) by (simp add: ClaimBatch_def Let_def)
  have "map ob_id events = map ob_id (filter (\<lambda>r. ob_id r \<in> set ?picked) ?rows)"
    by (simp add: events outbox_event.truncate_def)
  also have "\<dots> = filter (\<lambda>i. i \<in> set ?picked) (map ob_id ?rows)"
    by (rule map_filter_key)
  finally have ids: "map ob_id events =
      filter (\<lambda>i. i \<in> set ?picked) (map ob_id (task_outbox d))"
    by (simp only: outbox_ids_update)
  then show "set (map ob_id events) = set ?picked"
    by (auto dest: claim_candidates_claimable)
  have "distinct (map ob_id events)" using ids assms(2) by simp
  then have "length events = card (set ?picked)"
    using \<open>set (map ob_id events) = set ?picked\<close> by (metis distinct_card length_map)
  also have "\<dots> \<le> length (claim_candidates now limit d)"
    by (metis card_length length_map)
  also have "\<dots> \<le> claim_limit limit" by (simp add: claim_candidates_def)
  finally show "length events \<le> claim_limit limit" .
qed

text \<open>A claimed row is locked, so it is not claimable again for a minute.\<close>

lemma ClaimBatch_locks:
  assumes "ClaimBatch now limit d = (Inr events, d')"
    and "e \<in> set events" and "r \<in> set (task_outbox d')" and "ob_id r = ob_id e"
    and "now \<le> later" and "later \<le> now + lock_timeout"
  shows "\<not> claimable later r"
proof -
  let ?picked = "map ob_id (claim_candidates now limit d)"
  have d': "task_outbox d' = tbl_update (\<lambda>r. ob_id r \<in> set ?picked)
      (\<lambda>r. r\<lparr>ob_locked_at := Some now\<rparr>) (task_outbox d)"
    and "ob_id e \<in> set ?picked"
    using assms(1,2) by (auto simp: ClaimBatch_def Let_def outbox_event.truncate_def)
  with assms(3,4) have "ob_locked_at r = Some now"
    by (auto simp: set_tbl_update split: if_splits)
  with assms(6) show ?thesis by (simp add: claimable_def lock_timeout_def)
qed

lemma ClaimBatch_disjoint:
  assumes "ClaimBatch now limit d = (Inr events, d')"
    and "ClaimBatch later limit' d' = (Inr events', d'')"
    and "distinct (map ob_id (task_outbox d))"
    and "now \<le> later" and "later \<le> now + lock_timeout"
  shows "set (map ob_id events) \<inter> set (map ob_id events') = {}"
proof (rule ccontr)
  assume "\<not> ?thesis"
  then obtain e e' where e: "e \<in> set events" "e' \<in> set events'" "ob_id e = ob_id e'"
    by auto
  have "task_outbox d' = tbl_update (\<lambda>r. ob_id r \<in> set (map ob_id (claim_candidates now limit d)))
      (\<lambda>r. r\<lparr>ob_locked_at := Some now\<rparr>) (task_outbox d)"
    using assms(1) by (auto simp: ClaimBatch_def Let_def)
  then have ids: "distinct (map ob_id (task_outbox d'))" using assms(3) by simp
  have "ob_id e' \<in> set (map ob_id (claim_candidates later limit' d'))"
    using ClaimBatch_events(1) [OF assms(2) ids] e(2) by fastforce
  then obtain r where "r \<in> set (task_outbox d')" "claimable later r" "ob_id r = ob_id e'"
    by (auto dest!: claim_candidates_claimable)
  with ClaimBatch_locks [OF assms(1) e(1), of r later] e(3) assms(4,5) show False by simp
qed

text \<open>Marking a row published takes it out of the claims for good.\<close>

lemma MarkPublished_unclaimable:
  assumes "r \<in> set (task_outbox (snd (MarkPublished now i d)))" and "ob_id r = i"
  shows "\<not> claimable later r"
proof -
  have "ob_published_at r = Some now"
    using assms(1) [unfolded MarkPublished_def, simplified]
    by (cases rule: tbl_updateE) (use assms(2) in auto)
  then show ?thesis by (simp add: claimable_def)
qed

text \<open>A failed publication is retried after at least one second and is due after 64.\<close>

lemma MarkFailed_reschedules:
  assumes "r \<in> set (task_outbox (snd (MarkFailed now i msg d)))" and "ob_id r = i"
  shows "now + 1000 \<le> ob_next_attempt_at r \<and> ob_next_attempt_at r \<le> now + 64000"
    and "ob_published_at r = None \<Longrightarrow> claimable (now + 64000) r"
proof -
  have "\<exists>n. ob_next_attempt_at r = now + retry_delay n \<and> ob_locked_at r = None"
    using assms(1) [unfolded MarkFailed_def, simplified]
    by (cases rule: tbl_updateE) (use assms(2) in auto)
  then obtain n where "ob_next_attempt_at r = now + retry_delay n" and "ob_locked_at r = None"
    by blast
  then show "now + 1000 \<le> ob_next_attempt_at r \<and> ob_next_attempt_at r \<le> now + 64000"
    and "ob_published_at r = None \<Longrightarrow> claimable (now + 64000) r"
    using retry_delay_bounds [of n] by (simp_all add: claimable_def)
qed

text \<open>After \<open>enqueueOutbox\<close> the task has an outbox row; a reset makes it due at once.\<close>

lemma enqueueOutbox_cases:
  assumes "enqueueOutbox sha now task reset d = (Inr (), d')"
  obtains (kept) "\<not> reset" and "d' = d"
      and "\<exists>r \<in> set (task_outbox d). ob_task_id r = task_id task"
  | (again) "reset" and "\<exists>r \<in> set (task_outbox d). ob_task_id r = task_id task"
      and "d' = d\<lparr>task_outbox := tbl_update (\<lambda>r. ob_task_id r = task_id task)
              (\<lambda>r. r\<lparr>ob_subject := task_type task, ob_payload := task_payload task,
                    ob_attempts := 0, ob_next_attempt_at := now,
                    ob_locked_at := None, ob_published_at := None, ob_last_error := None\<rparr>)
              (task_outbox d)\<rparr>"
  | (new) "d' = d\<lparr>task_outbox := task_outbox d @ [new_outbox_row sha now task]\<rparr>"
      and "\<forall>r \<in> set (task_outbox d). ob_task_id r \<noteq> task_id task"
      and "\<forall>r \<in> set (task_outbox d). ob_id r \<noteq> outbox_id sha (task_id task)"
  using assms unfolding enqueueOutbox_def
  by (auto simp: tbl_affected_zero simp del: neq0_conv split: if_splits)

lemma enqueueOutbox_present:
  assumes "enqueueOutbox sha now task reset d = (Inr (), d')"
  shows "task_id task \<in> ob_task_id ` set (task_outbox d')"
  using assms
proof (cases rule: enqueueOutbox_cases)
  case kept
  then show ?thesis by (metis image_eqI)
next
  case again
  have "map ob_task_id (task_outbox d') = map ob_task_id (task_outbox d)"
    unfolding again(3) by (simp add: map_tbl_update)
  with again(2) show ?thesis by (metis image_eqI list.set_map)
next
  case new
  then show ?thesis by (simp add: new_outbox_row_def)
qed

lemma enqueueOutbox_reset_due:
  assumes "enqueueOutbox sha now task True d = (Inr (), d')"
    and "r \<in> set (task_outbox d')" and "ob_task_id r = task_id task"
  shows "claimable now r \<and> ob_payload r = task_payload task \<and> ob_subject r = task_type task"
  using assms(1)
proof (cases rule: enqueueOutbox_cases)
  case again
  from assms(2) [unfolded again(3), simplified] show ?thesis
    by (cases rule: tbl_updateE) (use assms(3) in \<open>auto simp: claimable_def\<close>)
next
  case new
  with assms(2,3) show ?thesis by (auto simp: new_outbox_row_def claimable_def)
qed simp

lemma enqueueOutbox_error: "enqueueOutbox sha now task reset d = (Inl e, d') \<Longrightarrow> d' = d"
  by (auto simp: enqueueOutbox_def split: if_splits)

end
