(* ===== verification/TaskRepo.thy ===== *)
theory TaskRepo
  imports Outbox
begin

text \<open>
  \<open>internal/repository/postgres/indextaskrepo.go\<close>: the table of index tasks. Every operation
  is one transaction on the database at a time \<open>now\<close>; the write operations are guarded by
  the status in their \<open>WHERE\<close> clause.
\<close>

section \<open>Reading rows\<close>

definition coalesce_json :: "'a \<Rightarrow> 'a json \<Rightarrow> 'a json" where
  "coalesce_json v j = (case j of JEmpty \<Rightarrow> JValue v | _ \<Rightarrow> j)"

text \<open>
  The columns a query scans; the fields it does not scan keep their zero value. \<open>'{}'\<close>
  decodes to the empty processing mode.
\<close>

definition scan_task :: "gostr \<Rightarrow> task_row \<Rightarrow> index_task" where
  "scan_task filename r =
     \<lparr>task_id = task_id r, task_tenant = [], task_doc = task_doc r,
      task_subject = task_subject r, task_user = task_user r, task_filename = filename,
      task_type = task_type r, task_status = task_status r,
      task_retry_count = task_retry_count r,
      task_metadata = coalesce_json [] (task_metadata r), task_error = task_error r,
      task_doc_version = 0, task_content_hash = [],
      task_embedding_provider = [], task_embedding_model = [],
      task_embedding_dimension = 0, task_chunk_strategy = [],
      task_created_at = task_created_at r, task_updated_at = task_updated_at r\<rparr>"

text \<open>The columns of \<open>Retry\<close>'s \<open>RETURNING\<close> clause: all but the joined file name.\<close>

definition scan_full_task :: "task_row \<Rightarrow> index_task" where
  "scan_full_task r = (index_task.truncate r)
     \<lparr>task_filename := [], task_metadata := coalesce_json [] (task_metadata r)\<rparr>"

text \<open>\<open>LEFT JOIN documents d ON d.id = t.doc_id\<close>, deleted documents included.\<close>

definition joined_filename :: "db \<Rightarrow> task_row \<Rightarrow> gostr" where
  "joined_filename d r =
     (case doc_by_id (task_doc r) d of None \<Rightarrow> [] | Some doc \<Rightarrow> doc_filename doc)"

definition task_GetByID :: "uid \<Rightarrow> index_task tx" where
  "task_GetByID i d =
     (case task_by_id i d of
        None \<Rightarrow> (Inl (Sentinel PgxNoRows), d)
      | Some r \<Rightarrow> (Inr (scan_task [] r), d))"

definition task_GetByIDForUser :: "uid \<Rightarrow> uid \<Rightarrow> index_task tx" where
  "task_GetByIDForUser i user d =
     (case tbl_first (\<lambda>r. task_id r = i \<and> task_user r = user) (index_tasks d) of
        None \<Rightarrow> (Inl (Sentinel PgxNoRows), d)
      | Some r \<Rightarrow> (Inr (scan_task (joined_filename d r) r), d))"

record task_filter =
  tf_user :: uid
  tf_tenant :: uid
  tf_subject :: uid
  tf_status :: string
  tf_type :: string
  tf_page_size :: nat
  tf_offset :: nat

definition task_matches :: "task_filter \<Rightarrow> task_row \<Rightarrow> bool" where
  "task_matches f r \<longleftrightarrow>
     task_tenant r = tf_tenant f \<and> task_user r = tf_user f \<and> task_cleared_at r = None \<and>
     (tf_subject f = [] \<or> task_subject r = tf_subject f) \<and>
     (tf_status f = [] \<or> task_status_text (task_status r) = tf_status f) \<and>
     (tf_type f = [] \<or> task_type_text (task_type r) = tf_type f)"

definition task_List :: "task_filter \<Rightarrow> (index_task list \<times> nat) tx" where
  "task_List f d =
     (let rows = filter (task_matches f) (index_tasks d);
          page = tbl_page (tf_page_size f) (tf_offset f) (sort_key (\<lambda>r. - task_created_at r) rows)
      in (Inr (map (\<lambda>r. scan_task (joined_filename d r) r) page, length rows), d))"

definition task_ListByDocument :: "uid \<Rightarrow> uid \<Rightarrow> index_task list tx" where
  "task_ListByDocument doc user d =
     (Inr (map (\<lambda>r. scan_task (joined_filename d r) r)
        (sort_key task_created_at
          (filter (\<lambda>r. task_doc r = doc \<and> task_user r = user) (index_tasks d)))), d)"

section \<open>Writing\<close>

text \<open>
  The row that \<open>INSERT INTO index_tasks\<close> stores: no file name column, and the creation time
  in both time stamps.
\<close>

definition task_insert_row :: "index_task \<Rightarrow> task_row" where
  "task_insert_row task =
     index_task.extend (task\<lparr>task_filename := [], task_updated_at := task_created_at task\<rparr>)
       (task_row.fields None None)"

definition task_Create :: "(string \<Rightarrow> uid) \<Rightarrow> int \<Rightarrow> index_task \<Rightarrow> unit tx" where
  "task_Create sha now task d =
     (if tbl_affected (\<lambda>r. task_id r = task_id task) (index_tasks d) \<noteq> 0 then (Inr (), d)
      else
        (case enqueueOutbox sha now task False
                (d\<lparr>index_tasks := index_tasks d @ [task_insert_row task]\<rparr>) of
           (Inl e, _) \<Rightarrow> (Inl e, d)
         | (Inr _, d') \<Rightarrow> (Inr (), d')))"

definition ClearTerminalByUser :: "int \<Rightarrow> uid \<Rightarrow> nat tx" where
  "ClearTerminalByUser now user d =
     (let P = (\<lambda>r. task_user r = user \<and> task_cleared_at r = None \<and>
                (task_status r = Success \<or> task_status r = Failed))
      in (Inr (tbl_affected P (index_tasks d)),
          d\<lparr>index_tasks := tbl_update P
             (\<lambda>r. r\<lparr>task_cleared_at := Some now, task_updated_at := now\<rparr>) (index_tasks d)\<rparr>))"

definition task_UpdateStatus :: "int \<Rightarrow> uid \<Rightarrow> task_status \<Rightarrow> gostr \<Rightarrow> unit tx" where
  "task_UpdateStatus now i status errMsg d =
     (let (previous, ok) = TaskPreviousStatuses status;
          P = (\<lambda>r. task_id r = i \<and> task_status r \<in> set previous)
      in if \<not> ok then (Inl (Sentinel IndexTaskStateConflict), d)
         else if tbl_affected P (index_tasks d) = 0 then
           (Inl (Sentinel IndexTaskStateConflict), d)
         else (Inr (), d\<lparr>index_tasks := tbl_update P
             (\<lambda>r. r\<lparr>task_status := status, task_error := errMsg,
                   task_lease_expires_at := None, task_updated_at := now\<rparr>) (index_tasks d)\<rparr>))"

text \<open>\<open>max(int(lease/time.Second), 1)\<close>, with the lease in milliseconds.\<close>

definition lease_seconds :: "int \<Rightarrow> int" where
  "lease_seconds lease = max (lease div 1000) 1"

definition lease_expired :: "int \<Rightarrow> task_row \<Rightarrow> bool" where
  "lease_expired now r =
     (case task_lease_expires_at r of None \<Rightarrow> True | Some t \<Rightarrow> t \<le> now)"

definition task_claimable :: "int \<Rightarrow> task_row \<Rightarrow> bool" where
  "task_claimable now r \<longleftrightarrow>
     task_status r = Pending \<or> (task_status r = Running \<and> lease_expired now r)"

definition Claim :: "int \<Rightarrow> uid \<Rightarrow> int \<Rightarrow> bool tx" where
  "Claim now i lease d =
     (let P = (\<lambda>r. task_id r = i \<and> task_claimable now r)
      in (Inr (tbl_affected P (index_tasks d) = 1),
          d\<lparr>index_tasks := tbl_update P
             (\<lambda>r. r\<lparr>task_status := Running, task_error := [],
                   task_lease_expires_at := Some (now + lease_seconds lease * 1000),
                   task_updated_at := now\<rparr>) (index_tasks d)\<rparr>))"

text \<open>\<open>None\<close> is the result \<open>nil, false, nil\<close>: no row was scheduled.\<close>

definition ScheduleRetry :: "int \<Rightarrow> uid \<Rightarrow> int \<Rightarrow> index_task option tx" where
  "ScheduleRetry now i maxRetries d =
     (let P = (\<lambda>r. task_id r = i \<and> task_retry_count r < maxRetries \<and>
                (task_status r = Running \<or> task_status r = Failed));
          f = (\<lambda>r. r\<lparr>task_status := Pending, task_retry_count := task_retry_count r + 1,
                    task_lease_expires_at := None, task_updated_at := now\<rparr>)
      in (case tbl_first P (index_tasks d) of
            None \<Rightarrow> (Inr None, d)
          | Some r \<Rightarrow> (Inr (Some (scan_task [] (f r))),
                        d\<lparr>index_tasks := tbl_update P f (index_tasks d)\<rparr>)))"

text \<open>The document status to which a manual retry of a task sends the document back.\<close>

fun retry_document_status :: "task_type \<Rightarrow> doc_status" where
  "retry_document_status ParseTask = Uploaded"
| "retry_document_status ChunkTask = Parsed"
| "retry_document_status EmbeddingTask = Chunked"
| "retry_document_status DeleteTask = Deleting"

definition Retry :: "(string \<Rightarrow> uid) \<Rightarrow> int \<Rightarrow> uid \<Rightarrow> uid \<Rightarrow> index_task tx" where
  "Retry sha now i user d =
     (let P = (\<lambda>r. task_id r = i \<and> task_user r = user \<and> task_status r = Failed);
          f = (\<lambda>r. r\<lparr>task_status := Pending, task_retry_count := task_retry_count r + 1,
                    task_error := [], task_lease_expires_at := None, task_updated_at := now\<rparr>)
      in (case tbl_first P (index_tasks d) of
            None \<Rightarrow> (Inl (Sentinel IndexTaskNotRetryable), d)
          | Some r \<Rightarrow>
             (let task = scan_full_task (f r);
                  documentStatus = retry_document_status (task_type task);
                  (previous, ok) = DocumentRetryPreviousStatuses documentStatus;
                  Q = (\<lambda>x. doc_id x = task_doc task \<and> doc_user x = user \<and> live_doc x \<and>
                        doc_status x \<in> set previous)
              in if \<not> ok then (Inl (Sentinel IndexTaskNotRetryable), d)
                 else if tbl_affected Q (documents d) = 0 then
                   (Inl (Sentinel IndexTaskNotRetryable), d)
                 else
                   (case enqueueOutbox sha now task True
                      (d\<lparr>index_tasks := tbl_update P f (index_tasks d),
                         documents := tbl_update Q
                           (\<lambda>x. x\<lparr>doc_status := documentStatus, doc_error := [],
                                 doc_updated_at := now\<rparr>) (documents d)\<rparr>) of
                      (Inl e, _) \<Rightarrow> (Inl e, d)
                    | (Inr _, d') \<Rightarrow> (Inr task, d')))))"

lemmas task_repo_defs [tx_defs] =
  task_GetByID_def task_GetByIDForUser_def task_List_def task_ListByDocument_def
  task_Create_def ClearTerminalByUser_def task_UpdateStatus_def Claim_def ScheduleRetry_def
  Retry_def

section \<open>What the writes do\<close>

definition task_ids_ok :: "db \<Rightarrow> bool" where
  "task_ids_ok d \<longleftrightarrow> distinct (map task_id (index_tasks d))"

definition status_of_task :: "db \<Rightarrow> uid \<Rightarrow> task_status option" where
  "status_of_task d i = map_option task_status (task_by_id i d)"

text \<open>The row of the task after \<open>UpdateStatus\<close>, \<open>Claim\<close> and \<open>ScheduleRetry\<close>.\<close>

lemma task_UpdateStatus_Inr:
  assumes "task_ids_ok d"
  shows "fst (task_UpdateStatus now i s e d) = Inr () \<longleftrightarrow>
    (\<exists>r. task_by_id i d = Some r \<and> task_status r \<in> set (fst (TaskPreviousStatuses s)))"
  using tbl_affected_key_iff [OF assms [unfolded task_ids_ok_def], of i
      "\<lambda>r. task_status r \<in> set (fst (TaskPreviousStatuses s))"]
  by (cases s) (auto simp: task_UpdateStatus_def task_by_id_def status_table_defs)

lemma task_UpdateStatus_error:
  "fst (task_UpdateStatus now i s e d) = Inl x \<Longrightarrow>
    x = Sentinel IndexTaskStateConflict \<and> snd (task_UpdateStatus now i s e d) = d"
  by (auto simp: task_UpdateStatus_def Let_def split: prod.splits if_splits)

lemma task_by_id_UpdateStatus:
  "task_by_id j (snd (task_UpdateStatus now i s e d)) =
     map_option (\<lambda>r. if j = i \<and> fst (task_UpdateStatus now i s e d) = Inr () \<and>
                task_status r \<in> set (fst (TaskPreviousStatuses s))
              then r\<lparr>task_status := s, task_error := e, task_lease_expires_at := None,
                     task_updated_at := now\<rparr>
              else r) (task_by_id j d)"
proof (cases "fst (task_UpdateStatus now i s e d) = Inr ()")
  case False
  then obtain x where "fst (task_UpdateStatus now i s e d) = Inl x"
    by (cases "fst (task_UpdateStatus now i s e d)") auto
  with False show ?thesis
    by (simp add: task_UpdateStatus_error option.map_ident)
next
  case True
  then have "index_tasks (snd (task_UpdateStatus now i s e d)) =
      tbl_update (\<lambda>r. task_id r = i \<and> task_status r \<in> set (fst (TaskPreviousStatuses s)))
        (\<lambda>r. r\<lparr>task_status := s, task_error := e, task_lease_expires_at := None,
                     task_updated_at := now\<rparr>) (index_tasks d)"
    by (auto simp: task_UpdateStatus_def Let_def split: prod.splits if_splits)
  then show ?thesis
    by (simp add: task_by_id_def tbl_first_update True)
qed

lemma task_UpdateStatus_ids:
  "map task_id (index_tasks (snd (task_UpdateStatus now i s e d))) = map task_id (index_tasks d)"
  by (auto simp: task_UpdateStatus_def Let_def map_tbl_update split: prod.splits)

text \<open>\<open>UpdateStatus\<close> is a compare-and-set on the status column.\<close>

definition task_cas :: "int \<Rightarrow> gostr \<Rightarrow> uid \<Rightarrow> task_status \<Rightarrow> db \<Rightarrow> bool \<times> db" where
  "task_cas now e i s d =
     (fst (task_UpdateStatus now i s e d) = Inr (), snd (task_UpdateStatus now i s e d))"

interpretation tcas: guarded_status status_of_task "task_cas now e"
    "\<lambda>s. fst (TaskPreviousStatuses s)" task_ids_ok for now e
proof unfold_locales
  fix d k n
  assume ok: "task_ids_ok d"
  show iff: "fst (task_cas now e k n d) \<longleftrightarrow>
      (\<exists>s. status_of_task d k = Some s \<and> s \<in> set (fst (TaskPreviousStatuses n)))"
    using task_UpdateStatus_Inr [OF ok] by (auto simp: task_cas_def status_of_task_def)
  show "fst (task_cas now e k n d) \<Longrightarrow> status_of_task (snd (task_cas now e k n d)) k = Some n"
    using iff by (auto simp: task_cas_def status_of_task_def task_by_id_UpdateStatus)
  show "task_ids_ok (snd (task_cas now e k n d))"
    using ok by (simp add: task_cas_def task_ids_ok_def task_UpdateStatus_ids)
  fix j
  show "j \<noteq> k \<or> \<not> fst (task_cas now e k n d) \<Longrightarrow>
      status_of_task (snd (task_cas now e k n d)) j = status_of_task d j"
    by (cases "task_by_id j d")
      (auto simp: task_cas_def status_of_task_def task_by_id_UpdateStatus)
qed

text \<open>\<open>Claim\<close>: who gets the task, and for how long nobody else does.\<close>

lemma Claim_fst:
  assumes "task_ids_ok d"
  shows "fst (Claim now i lease d) =
    Inr (\<exists>r. task_by_id i d = Some r \<and> task_claimable now r)"
  using tbl_affected_one [OF assms [unfolded task_ids_ok_def], of i "task_claimable now"]
    tbl_affected_key_iff [OF assms [unfolded task_ids_ok_def], of i "task_claimable now"]
  by (auto simp: Claim_def task_by_id_def)

lemma task_by_id_Claim:
  "task_by_id j (snd (Claim now i lease d)) =
     map_option (\<lambda>r. if j = i \<and> task_claimable now r
       then r\<lparr>task_status := Running, task_error := [],
              task_lease_expires_at := Some (now + lease_seconds lease * 1000),
              task_updated_at := now\<rparr>
       else r) (task_by_id j d)"
  by (simp add: Claim_def Let_def task_by_id_def tbl_first_update)

lemma Claim_ids:
  "map task_id (index_tasks (snd (Claim now i lease d))) = map task_id (index_tasks d)"
  by (simp add: Claim_def Let_def map_tbl_update)

lemma lease_seconds_pos: "1 \<le> lease_seconds lease"
  by (simp add: lease_seconds_def)

lemma Claim_exclusive:
  assumes "task_ids_ok d" and "fst (Claim now i lease d) = Inr True"
    and "later < now + lease_seconds lease * 1000"
  shows "fst (Claim later i lease' (snd (Claim now i lease d))) = Inr False"
proof -
  obtain r where r: "task_by_id i d = Some r" "task_claimable now r"
    using assms(2) Claim_fst [OF assms(1), of now i lease] by auto
  have ok: "task_ids_ok (snd (Claim now i lease d))"
    using assms(1) by (simp add: task_ids_ok_def Claim_ids)
  show ?thesis
    using r assms(3)
    by (auto simp: Claim_fst [OF ok] task_by_id_Claim task_claimable_def lease_expired_def)
qed

text \<open>A worker that dies keeps the task only until its lease runs out.\<close>

lemma Claim_after_lease:
  assumes "task_ids_ok d" and "fst (Claim now i lease d) = Inr True"
    and "now + lease_seconds lease * 1000 \<le> later"
  shows "fst (Claim later i lease' (snd (Claim now i lease d))) = Inr True"
proof -
  obtain r where r: "task_by_id i d = Some r" "task_claimable now r"
    using assms(2) Claim_fst [OF assms(1), of now i lease] by auto
  have ok: "task_ids_ok (snd (Claim now i lease d))"
    using assms(1) by (simp add: task_ids_ok_def Claim_ids)
  show ?thesis
    using r assms(3)
    by (auto simp: Claim_fst [OF ok] task_by_id_Claim task_claimable_def lease_expired_def)
qed

lemma Claim_settled:
  "task_ids_ok d \<Longrightarrow> task_by_id i d = Some r \<Longrightarrow> task_status r = Success \<or> task_status r = Failed \<Longrightarrow>
    fst (Claim now i lease d) = Inr False"
  by (auto simp: Claim_fst task_claimable_def)

text \<open>\<open>ScheduleRetry\<close> never takes a task past the automatic retry limit.\<close>

lemma ScheduleRetry_cases:
  assumes "task_ids_ok d"
  shows "ScheduleRetry now i m d =
    (case task_by_id i d of None \<Rightarrow> (Inr None, d)
     | Some r \<Rightarrow>
        if task_retry_count r < m \<and> (task_status r = Running \<or> task_status r = Failed)
        then (Inr (Some (scan_task [] (r\<lparr>task_status := Pending,
                 task_retry_count := task_retry_count r + 1,
                 task_lease_expires_at := None, task_updated_at := now\<rparr>))),
              snd (ScheduleRetry now i m d))
        else (Inr None, d))"
  using tbl_first_guarded [OF assms [unfolded task_ids_ok_def], of i
      "\<lambda>r. task_retry_count r < m \<and> (task_status r = Running \<or> task_status r = Failed)"]
  by (auto simp: ScheduleRetry_def task_by_id_def Let_def split: option.splits if_splits)

lemma task_by_id_ScheduleRetry:
  "task_by_id j (snd (ScheduleRetry now i m d)) =
     map_option (\<lambda>r. if j = i \<and> task_retry_count r < m \<and>
         (task_status r = Running \<or> task_status r = Failed)
       then r\<lparr>task_status := Pending, task_retry_count := task_retry_count r + 1,
              task_lease_expires_at := None, task_updated_at := now\<rparr>
       else r) (task_by_id j d)"
proof (cases "tbl_first (\<lambda>r. task_id r = i \<and> task_retry_count r < m \<and>
                (task_status r = Running \<or> task_status r = Failed)) (index_tasks d)")
  case None
  then have "snd (ScheduleRetry now i m d) = d"
    by (simp add: ScheduleRetry_def Let_def)
  moreover have "\<not> (task_retry_count r < m \<and> (task_status r = Running \<or> task_status r = Failed))"
    if "task_by_id j d = Some r" and "j = i" for r
    using None tbl_first_Some [OF that(1) [unfolded task_by_id_def]] that(2)
    by (auto simp: tbl_first_None)
  ultimately show ?thesis
    by (cases "task_by_id j d") auto
next
  case (Some r)
  then show ?thesis
    by (simp add: ScheduleRetry_def Let_def task_by_id_def tbl_first_update)
qed

lemma ScheduleRetry_ids:
  "map task_id (index_tasks (snd (ScheduleRetry now i m d))) = map task_id (index_tasks d)"
  by (simp add: ScheduleRetry_def Let_def map_tbl_update split: option.split)

end
