(* ===== verification/DocRepo.thy ===== *)
theory DocRepo
  imports TaskRepo
begin

text \<open>
  \<open>internal/repository/postgres/documentrepo.go\<close> and \<open>chunkrepo.go\<close>: documents, their parse
  logs and their chunks.
\<close>

section \<open>Queries on documents\<close>

definition live_subject :: "db \<Rightarrow> uid \<Rightarrow> bool" where
  "live_subject d i \<longleftrightarrow> tbl_affected (\<lambda>s. subj_id s = i \<and> subj_deleted_at s = None) (subjects d) \<noteq> 0"

definition ExistsActiveFilename :: "uid \<Rightarrow> uid \<Rightarrow> gostr \<Rightarrow> bool tx" where
  "ExistsActiveFilename user subject filename d =
     (Inr (tbl_affected (\<lambda>r. doc_user r = user \<and> doc_subject r = subject \<and>
             doc_filename r = filename \<and> live_doc r \<and> live_subject d (doc_subject r))
           (documents d) \<noteq> 0), d)"

record document_filter =
  df_user :: uid
  df_tenant :: uid
  df_all_tenant_users :: bool
  df_subject :: uid
  df_status :: string
  df_keyword :: gostr
  df_page_size :: nat
  df_offset :: nat

text \<open>
  \<open>filename ILIKE '%keyword%'\<close> is PostgreSQL's case-insensitive pattern match: the parameter
  \<open>ilike\<close>, applied to the file name and the pattern.
\<close>

definition document_matches ::
    "(gostr \<Rightarrow> gostr \<Rightarrow> bool) \<Rightarrow> db \<Rightarrow> document_filter \<Rightarrow> document_row \<Rightarrow> bool" where
  "document_matches ilike d f r \<longleftrightarrow>
     live_doc r \<and> doc_tenant r = df_tenant f \<and> live_subject d (doc_subject r) \<and>
     (df_all_tenant_users f \<or> doc_user r = df_user f) \<and>
     (df_subject f = [] \<or> doc_subject r = df_subject f) \<and>
     (df_status f = [] \<or> doc_status_text (doc_status r) = df_status f) \<and>
     (df_keyword f = [] \<or> ilike (doc_filename r) (lit ''%'' @ df_keyword f @ lit ''%''))"

text \<open>The columns \<open>ListByUser\<close> scans; the rest of the struct stays zero.\<close>

definition scan_listed_document :: "document_row \<Rightarrow> document" where
  "scan_listed_document r = (document.truncate r)
     \<lparr>doc_tenant := [], doc_plain_text := [], doc_metadata := JEmpty, doc_version := 0,
      doc_content_hash := [], doc_embedding_provider := [], doc_embedding_model := [],
      doc_embedding_dimension := 0, doc_chunk_strategy := []\<rparr>"

definition ListByUser ::
    "(gostr \<Rightarrow> gostr \<Rightarrow> bool) \<Rightarrow> document_filter \<Rightarrow> (document list \<times> nat) tx" where
  "ListByUser ilike f d =
     (let rows = filter (document_matches ilike d f) (documents d);
          page = tbl_page (df_page_size f) (df_offset f) (sort_key (\<lambda>r. - doc_created_at r) rows)
      in (Inr (map scan_listed_document page, length rows), d))"

definition doc_GetByID :: "uid \<Rightarrow> document tx" where
  "doc_GetByID i d =
     (case tbl_first (\<lambda>r. doc_id r = i \<and> live_doc r) (documents d) of
        None \<Rightarrow> (Inl (Sentinel PgxNoRows), d)
      | Some r \<Rightarrow> (Inr (document.truncate r), d))"

definition doc_GetByIDForUser :: "uid \<Rightarrow> uid \<Rightarrow> document tx" where
  "doc_GetByIDForUser i user d =
     (case doc_GetByID i d of
        (Inl e, d') \<Rightarrow> (Inl e, d')
      | (Inr doc, d') \<Rightarrow>
          (if doc_user doc \<noteq> user then (Inl (Sentinel SqlNoRows), d') else (Inr doc, d')))"

section \<open>Status changes\<close>

definition doc_UpdateStatus :: "int \<Rightarrow> uid \<Rightarrow> doc_status \<Rightarrow> gostr \<Rightarrow> unit tx" where
  "doc_UpdateStatus now i status errMsg d =
     (let (previous, ok) = DocumentPreviousStatuses status;
          P = (\<lambda>r. doc_id r = i \<and> live_doc r \<and> doc_status r \<in> set previous)
      in if \<not> ok then (Inl (Sentinel DocumentStateConflict), d)
         else if tbl_affected P (documents d) = 0 then (Inl (Sentinel DocumentStateConflict), d)
         else (Inr (), d\<lparr>documents := tbl_update P
             (\<lambda>r. r\<lparr>doc_status := status, doc_error := errMsg, doc_updated_at := now\<rparr>)
             (documents d)\<rparr>))"

definition CompleteParse :: "int \<Rightarrow> uid \<Rightarrow> gostr \<Rightarrow> document_metadata json \<Rightarrow> unit tx" where
  "CompleteParse now i plainText metadata d =
     (let P = (\<lambda>r. doc_id r = i \<and> live_doc r \<and> doc_status r = Parsing)
      in if tbl_affected P (documents d) = 0 then (Inl (Sentinel DocumentStateConflict), d)
         else (Inr (), d\<lparr>documents := tbl_update P
             (\<lambda>r. r\<lparr>doc_status := Parsed, doc_plain_text := plainText, doc_metadata := metadata,
                   doc_error := [], doc_updated_at := now\<rparr>) (documents d)\<rparr>))"

definition ResetStatusForRetry :: "int \<Rightarrow> uid \<Rightarrow> doc_status \<Rightarrow> unit tx" where
  "ResetStatusForRetry now i status d =
     (let (previous, ok) = DocumentRetryPreviousStatuses status;
          P = (\<lambda>r. doc_id r = i \<and> live_doc r \<and> doc_status r \<in> set previous)
      in if \<not> ok then (Inl (Sentinel DocumentStateConflict), d)
         else if tbl_affected P (documents d) = 0 then (Inl (Sentinel DocumentStateConflict), d)
         else (Inr (), d\<lparr>documents := tbl_update P
             (\<lambda>r. r\<lparr>doc_status := status, doc_error := [], doc_updated_at := now\<rparr>)
             (documents d)\<rparr>))"

section \<open>Creating and deleting documents\<close>

definition document_insert_row :: "document \<Rightarrow> document_row" where
  "document_insert_row doc =
     document.extend (doc\<lparr>doc_plain_text := [], doc_metadata := JEmpty, doc_error := [],
        doc_updated_at := doc_created_at doc\<rparr>) (document_row.fields None)"

definition insert_task :: "(string \<Rightarrow> uid) \<Rightarrow> int \<Rightarrow> index_task \<Rightarrow> unit tx" where
  "insert_task sha now task d =
     (if tbl_affected (\<lambda>r. task_id r = task_id task) (index_tasks d) \<noteq> 0 then
        (Inl index_tasks_pkey, d)
      else enqueueOutbox sha now task False
             (d\<lparr>index_tasks := index_tasks d @ [task_insert_row task]\<rparr>))"

definition CreateWithIndexTask ::
    "(string \<Rightarrow> uid) \<Rightarrow> int \<Rightarrow> document \<Rightarrow> index_task \<Rightarrow> unit tx" where
  "CreateWithIndexTask sha now doc task d =
     (if tbl_affected (\<lambda>r. doc_id r = doc_id doc) (documents d) \<noteq> 0 then (Inl documents_pkey, d)
      else
        (case insert_task sha now task
                (d\<lparr>documents := documents d @ [document_insert_row doc]\<rparr>) of
           (Inl e, _) \<Rightarrow> (Inl e, d)
         | (Inr _, d') \<Rightarrow> (Inr (), d')))"

text \<open>The delete task is inserted with a zero retry count and without metadata or error.\<close>

definition CreateDeleteTask ::
    "(string \<Rightarrow> uid) \<Rightarrow> int \<Rightarrow> uid \<Rightarrow> uid \<Rightarrow> index_task \<Rightarrow> unit tx" where
  "CreateDeleteTask sha now i user task d =
     (let (deletePrevious, ok) = DocumentPreviousStatuses Deleting;
          P = (\<lambda>r. doc_id r = i \<and> doc_user r = user \<and> live_doc r \<and>
                doc_status r \<in> set deletePrevious)
      in if \<not> ok then (Inl (Sentinel DocumentStateConflict), d)
         else if tbl_affected P (documents d) = 0 then (Inl (Sentinel SqlNoRows), d)
         else
           (case insert_task sha now
                   (task\<lparr>task_retry_count := 0, task_metadata := JEmpty, task_error := []\<rparr>)
                   (d\<lparr>documents := tbl_update P
                      (\<lambda>r. r\<lparr>doc_status := Deleting, doc_error := [], doc_updated_at := now\<rparr>)
                      (documents d)\<rparr>) of
              (Inl e, _) \<Rightarrow> (Inl e, d)
            | (Inr _, d') \<Rightarrow> (Inr (), d')))"

definition soft_delete_chunks :: "int \<Rightarrow> (chunk_row \<Rightarrow> bool) \<Rightarrow> db \<Rightarrow> db" where
  "soft_delete_chunks now P d = d\<lparr>document_chunks :=
     tbl_update (\<lambda>c. P c \<and> live_chunk c)
       (\<lambda>c. c\<lparr>ch_deleted_at := Some now, ch_updated_at := now\<rparr>) (document_chunks d)\<rparr>"

definition soft_delete_documents :: "int \<Rightarrow> (document_row \<Rightarrow> bool) \<Rightarrow> db \<Rightarrow> db" where
  "soft_delete_documents now P d = d\<lparr>documents :=
     tbl_update (\<lambda>r. P r \<and> live_doc r)
       (\<lambda>r. r\<lparr>doc_deleted_at := Some now, doc_updated_at := now\<rparr>) (documents d)\<rparr>"

definition CompleteDelete :: "int \<Rightarrow> uid \<Rightarrow> unit tx" where
  "CompleteDelete now i d =
     (let P = (\<lambda>r. doc_id r = i \<and> doc_status r = Deleting)
      in if tbl_affected (\<lambda>r. P r \<and> live_doc r) (documents d) = 0 then
           (Inl (Sentinel DocumentStateConflict), d)
         else (Inr (), soft_delete_documents now P
                         (soft_delete_chunks now (\<lambda>c. ch_doc c = i) d)))"

definition failed_doc :: "uid \<Rightarrow> document_row \<Rightarrow> bool" where
  "failed_doc user r \<longleftrightarrow> doc_user r = user \<and> doc_status r = DocFailed"

definition ListActiveFailedDocIDsByUser :: "uid \<Rightarrow> uid list tx" where
  "ListActiveFailedDocIDsByUser user d =
     (Inr (map doc_id (filter (\<lambda>r. failed_doc user r \<and> live_doc r) (documents d))), d)"

definition ClearFailedByUser :: "int \<Rightarrow> uid \<Rightarrow> nat tx" where
  "ClearFailedByUser now user d =
     (let ids = map doc_id (filter (\<lambda>r. failed_doc user r \<and> live_doc r) (documents d))
      in (Inr (tbl_affected (\<lambda>r. failed_doc user r \<and> live_doc r) (documents d)),
          soft_delete_documents now (failed_doc user)
            (soft_delete_chunks now (\<lambda>c. ch_doc c \<in> set ids) d)))"

section \<open>Parse logs\<close>

definition AddParseLog :: "parse_log \<Rightarrow> unit tx" where
  "AddParseLog log d =
     (if tbl_affected (\<lambda>l. log_id l = log_id log) (parse_logs d) \<noteq> 0 then
        (Inl parse_logs_pkey, d)
      else (Inr (), d\<lparr>parse_logs := parse_logs d @ [log\<lparr>log_filename := []\<rparr>]\<rparr>))"

record log_filter =
  lf_user :: uid
  lf_tenant :: uid
  lf_doc :: uid
  lf_subject :: uid
  lf_status :: string
  lf_page_size :: nat
  lf_offset :: nat

definition log_matches :: "db \<Rightarrow> log_filter \<Rightarrow> parse_log \<Rightarrow> bool" where
  "log_matches d f l \<longleftrightarrow>
     (case doc_by_id (log_doc l) d of
        None \<Rightarrow> False
      | Some doc \<Rightarrow>
          doc_tenant doc = lf_tenant f \<and> doc_user doc = lf_user f \<and>
          (lf_subject f = [] \<or> doc_subject doc = lf_subject f)) \<and>
     (lf_status f = [] \<or> task_status_text (log_status l) = lf_status f) \<and>
     (lf_doc f = [] \<or> log_doc l = lf_doc f)"

definition ListParseLogs :: "log_filter \<Rightarrow> (parse_log list \<times> nat) tx" where
  "ListParseLogs f d =
     (let rows = filter (log_matches d f) (parse_logs d);
          page = tbl_page (lf_page_size f) (lf_offset f) (sort_key (\<lambda>l. - log_created_at l) rows)
      in (Inr (map (\<lambda>l. l\<lparr>log_filename :=
             (case doc_by_id (log_doc l) d of None \<Rightarrow> [] | Some doc \<Rightarrow> doc_filename doc)\<rparr>) page,
           length rows), d))"

definition ClearParseLogsByUser :: "uid \<Rightarrow> uid \<Rightarrow> nat tx" where
  "ClearParseLogsByUser user subject d =
     (let P = (\<lambda>l. case doc_by_id (log_doc l) d of
                 None \<Rightarrow> False
               | Some doc \<Rightarrow> doc_user doc = user \<and> (subject = [] \<or> doc_subject doc = subject))
      in (Inr (tbl_affected P (parse_logs d)),
          d\<lparr>parse_logs := filter (\<lambda>l. \<not> P l) (parse_logs d)\<rparr>))"

section \<open>Chunks\<close>

definition chunk_insert_row :: "document_chunk \<Rightarrow> chunk_row" where
  "chunk_insert_row c =
     document_chunk.extend (c\<lparr>ch_updated_at := ch_created_at c\<rparr>) (chunk_row.fields None)"

text \<open>The unique index on live chunks: document, version, content hash and position.\<close>

definition chunk_key :: "chunk_row \<Rightarrow> uid \<times> int \<times> string \<times> int" where
  "chunk_key c = (ch_doc c, ch_doc_version c, ch_content_hash c, ch_index c)"

fun insert_chunks :: "document_chunk list \<Rightarrow> chunk_row list \<Rightarrow> gerr + chunk_row list" where
  "insert_chunks [] rows = Inr rows"
| "insert_chunks (c # cs) rows =
     (if tbl_affected (\<lambda>r. ch_id r = ch_id c) rows \<noteq> 0 then Inl document_chunks_pkey
      else if tbl_affected (\<lambda>r. live_chunk r \<and> chunk_key r = chunk_key (chunk_insert_row c)) rows \<noteq> 0
        then Inl (Sentinel (UniqueViolation ''idx_document_chunks_version_hash''))
      else insert_chunks cs (rows @ [chunk_insert_row c]))"

definition ReplaceByDocument :: "document_chunk list \<Rightarrow> unit tx" where
  "ReplaceByDocument chunks d =
     (case chunks of
        [] \<Rightarrow> (Inr (), d)
      | c # _ \<Rightarrow>
         (case insert_chunks chunks (filter (\<lambda>r. ch_doc r \<noteq> ch_doc c) (document_chunks d)) of
            Inl e \<Rightarrow> (Inl e, d)
          | Inr rows \<Rightarrow> (Inr (), d\<lparr>document_chunks := rows\<rparr>)))"

definition empty_chunk_metadata :: chunk_metadata where
  "empty_chunk_metadata = \<lparr>cm_heading_path = [], cm_block_type = [], cm_keywords = [],
     cm_summary = [], cm_source_type = []\<rparr>"

definition scan_chunk :: "chunk_row \<Rightarrow> document_chunk" where
  "scan_chunk r = (document_chunk.truncate r)
     \<lparr>ch_metadata := coalesce_json empty_chunk_metadata (ch_metadata r)\<rparr>"

definition chunk_ListByDocument :: "uid \<Rightarrow> document_chunk list tx" where
  "chunk_ListByDocument doc d =
     (Inr (map scan_chunk (sort_key ch_index
        (filter (\<lambda>r. ch_doc r = doc \<and> live_chunk r) (document_chunks d)))), d)"

definition chunk_ListBySubject :: "uid \<Rightarrow> uid \<Rightarrow> document_chunk list tx" where
  "chunk_ListBySubject tenant subject d =
     (Inr (map scan_chunk (sort_key ch_index
        (filter (\<lambda>r. ch_tenant r = tenant \<and> ch_subject r = subject \<and> live_chunk r)
          (document_chunks d)))), d)"

lemmas doc_repo_defs [tx_defs] =
  ExistsActiveFilename_def ListByUser_def doc_GetByID_def doc_GetByIDForUser_def
  doc_UpdateStatus_def CompleteParse_def ResetStatusForRetry_def CreateWithIndexTask_def
  CreateDeleteTask_def CompleteDelete_def ListActiveFailedDocIDsByUser_def
  ClearFailedByUser_def AddParseLog_def ListParseLogs_def ClearParseLogsByUser_def
  ReplaceByDocument_def chunk_ListByDocument_def chunk_ListBySubject_def

end
