(* ===== verification/Subjects.thy ===== *)
theory Subjects
  imports DocRepo
begin

text \<open>
  \<open>internal/repository/postgres/subjectrepo.go\<close>: the knowledge bases. Every operation is one
  transaction. PostgreSQL's \<open>lower\<close> and \<open>ILIKE\<close> depend on the collation of the database and are
  parameters.
\<close>

section \<open>Access\<close>

definition open_subject :: "subject_row \<Rightarrow> bool" where
  "open_subject s \<longleftrightarrow> subj_deleted_at s = None"

text \<open>The condition that the reading statements share.\<close>

definition accessible :: "uid \<Rightarrow> uid \<Rightarrow> uid \<Rightarrow> subject_row \<Rightarrow> bool" where
  "accessible subject user tenant s \<longleftrightarrow>
     subj_id s = subject \<and> subj_tenant s = tenant \<and> open_subject s \<and>
     (subj_owner s = user \<or> subj_visibility s = Public)"

definition ExistsAccessible :: "uid \<Rightarrow> uid \<Rightarrow> uid \<Rightarrow> bool tx" where
  "ExistsAccessible subject user tenant d =
     (Inr (\<exists>s \<in> set (subjects d). accessible subject user tenant s), d)"

definition GetAccessibleByID :: "uid \<Rightarrow> uid \<Rightarrow> uid \<Rightarrow> subject tx" where
  "GetAccessibleByID subject user tenant d =
     (case tbl_first (accessible subject user tenant) (subjects d) of
        None \<Rightarrow> (Inl (Sentinel PgxNoRows), d)
      | Some s \<Rightarrow> (Inr (subject.truncate s), d))"

record subject_filter =
  sf_user :: uid
  sf_tenant :: uid
  sf_keyword :: gostr
  sf_page_size :: nat
  sf_offset :: nat

definition subject_matches :: "(gostr \<Rightarrow> gostr \<Rightarrow> bool) \<Rightarrow> subject_filter \<Rightarrow> subject_row \<Rightarrow> bool" where
  "subject_matches ilike f s \<longleftrightarrow>
     open_subject s \<and> subj_tenant s = sf_tenant f \<and>
     (subj_owner s = sf_user f \<or> subj_visibility s = Public) \<and>
     (sf_keyword f = [] \<or> ilike (subj_name s) ([37] @ sf_keyword f @ [37]))"

definition ListAccessible ::
    "(gostr \<Rightarrow> gostr \<Rightarrow> bool) \<Rightarrow> subject_filter \<Rightarrow> (subject list \<times> nat) tx" where
  "ListAccessible ilike f d =
     (let rows = filter (subject_matches ilike f) (subjects d)
      in (Inr (map subject.truncate (tbl_page (sf_page_size f) (sf_offset f)
             (sort_key (\<lambda>s. - subj_created_at s) rows)), length rows), d))"

section \<open>Writing\<close>

text \<open>The unique index on the live knowledge bases: owner and lower-case name.\<close>

definition subjects_pkey :: gerr where
  "subjects_pkey = Sentinel (UniqueViolation ''subjects_pkey'')"

definition name_index :: string where
  "name_index = ''idx_subjects_owner_name_active''"

definition isSubjectNameConflict :: "gerr \<Rightarrow> bool" where
  "isSubjectNameConflict e \<longleftrightarrow> e = Sentinel (UniqueViolation name_index)"

definition name_taken :: "(gostr \<Rightarrow> gostr) \<Rightarrow> uid \<Rightarrow> gostr \<Rightarrow> subject_row \<Rightarrow> bool" where
  "name_taken lower owner name s \<longleftrightarrow>
     open_subject s \<and> subj_owner s = owner \<and> lower (subj_name s) = lower name"

text \<open>The insertion itself, with the errors of its constraints, and the error the caller sees.\<close>

definition subject_insert_row :: "subject \<Rightarrow> subject_row" where
  "subject_insert_row s = subject.extend (s\<lparr>subj_updated_at := subj_created_at s\<rparr>) (subject_row.fields None)"

definition insert_subject :: "(gostr \<Rightarrow> gostr) \<Rightarrow> subject \<Rightarrow> unit tx" where
  "insert_subject lower s d =
     (if tbl_affected (\<lambda>r. subj_id r = subj_id s) (subjects d) \<noteq> 0 then (Inl subjects_pkey, d)
      else if tbl_affected (name_taken lower (subj_owner s) (subj_name s)) (subjects d) \<noteq> 0 then
        (Inl (Sentinel (UniqueViolation name_index)), d)
      else (Inr (), d\<lparr>subjects := subjects d @ [subject_insert_row s]\<rparr>))"

definition name_error :: "gerr \<Rightarrow> gerr" where
  "name_error e = (if isSubjectNameConflict e then Sentinel SubjectNameExists else e)"

definition subject_Create :: "(gostr \<Rightarrow> gostr) \<Rightarrow> subject \<Rightarrow> unit tx" where
  "subject_Create lower s d =
     (case insert_subject lower s d of (Inl e, d') \<Rightarrow> (Inl (name_error e), d') | r \<Rightarrow> r)"

definition owned :: "uid \<Rightarrow> uid \<Rightarrow> uid \<Rightarrow> subject_row \<Rightarrow> bool" where
  "owned i user tenant s \<longleftrightarrow>
     subj_id s = i \<and> subj_owner s = user \<and> subj_tenant s = tenant \<and> open_subject s"

definition UpdateByOwner :: "(gostr \<Rightarrow> gostr) \<Rightarrow> subject \<Rightarrow> unit tx" where
  "UpdateByOwner lower s d =
     (let P = owned (subj_id s) (subj_owner s) (subj_tenant s)
      in if tbl_affected P (subjects d) = 0 then (Inl (Sentinel SubjectNotFound), d)
         else if tbl_affected (\<lambda>r. subj_id r \<noteq> subj_id s \<and>
                  name_taken lower (subj_owner s) (subj_name s) r) (subjects d) \<noteq> 0 then
           (Inl (name_error (Sentinel (UniqueViolation name_index))), d)
         else (Inr (), d\<lparr>subjects := tbl_update P
             (\<lambda>r. r\<lparr>subj_name := subj_name s, subj_description := subj_description s,
                   subj_visibility := subj_visibility s, subj_updated_at := subj_updated_at s\<rparr>)
             (subjects d)\<rparr>))"

definition SoftDeleteByOwner :: "int \<Rightarrow> uid \<Rightarrow> uid \<Rightarrow> uid \<Rightarrow> bool tx" where
  "SoftDeleteByOwner now i user tenant d =
     (let P = owned i user tenant
      in if tbl_affected P (subjects d) = 0 then (Inr False, d)
         else (Inr True,
           soft_delete_chunks now
             (\<lambda>c. ch_subject c = i \<and> ch_user c = user \<and> ch_tenant c = tenant)
             (soft_delete_documents now
               (\<lambda>r. doc_subject r = i \<and> doc_user r = user \<and> doc_tenant r = tenant)
               (d\<lparr>subjects := tbl_update P
                  (\<lambda>r. r\<lparr>subj_deleted_at := Some now, subj_updated_at := now\<rparr>) (subjects d)\<rparr>))))"

lemmas subject_repo_defs [tx_defs] =
  ExistsAccessible_def GetAccessibleByID_def ListAccessible_def insert_subject_def
  subject_Create_def UpdateByOwner_def SoftDeleteByOwner_def

section \<open>What the reads return\<close>

lemma ExistsAccessible_read [simp]: "snd (ExistsAccessible i user tenant d) = d"
  by (simp add: ExistsAccessible_def)

lemma GetAccessibleByID_read [simp]: "snd (GetAccessibleByID i user tenant d) = d"
  by (simp add: GetAccessibleByID_def split: option.split)

lemma GetAccessibleByID_Inr:
  "GetAccessibleByID i user tenant d = (Inr s, d') \<Longrightarrow>
    d' = d \<and> (\<exists>r \<in> set (subjects d). accessible i user tenant r \<and> s = subject.truncate r)"
  by (auto simp: GetAccessibleByID_def split: option.splits dest!: tbl_first_Some)

section \<open>The invariant of the knowledge bases\<close>

text \<open>Unique identifiers, and unique names among the live knowledge bases of an owner.\<close>

definition subjects_ok :: "(gostr \<Rightarrow> gostr) \<Rightarrow> db \<Rightarrow> bool" where
  "subjects_ok lower d \<longleftrightarrow> distinct (map subj_id (subjects d)) \<and>
     (\<forall>r \<in> set (subjects d). \<forall>s \<in> set (subjects d).
        name_taken lower (subj_owner r) (subj_name r) s \<longrightarrow> open_subject r \<longrightarrow> s = r)"

inductive subject_step :: "(gostr \<Rightarrow> gostr) \<Rightarrow> db \<Rightarrow> db \<Rightarrow> bool" for lower where
  create: "subject_step lower d (snd (subject_Create lower s d))"
| update: "subject_step lower d (snd (UpdateByOwner lower s d))"
| delete: "subject_step lower d (snd (SoftDeleteByOwner now i user tenant d))"

lemma soft_delete_subjects [simp]:
  "subjects (soft_delete_chunks now P d) = subjects d"
  "subjects (soft_delete_documents now Q d) = subjects d"
  "document_chunks (soft_delete_documents now Q d) = document_chunks d"
  "documents (soft_delete_chunks now P d) = documents d"
  by (simp_all add: soft_delete_chunks_def soft_delete_documents_def)

lemma subject_insert_fields [simp]:
  "subj_id (subject_insert_row s) = subj_id s" "subj_owner (subject_insert_row s) = subj_owner s"
  "subj_name (subject_insert_row s) = subj_name s" "open_subject (subject_insert_row s)"
  by (simp_all add: subject_insert_row_def subject.defs subject_row.defs open_subject_def)

lemma insert_subject_ok: "subjects_ok lower d \<Longrightarrow> subjects_ok lower (snd (insert_subject lower s d))"
  by (auto simp: insert_subject_def subjects_ok_def tbl_affected_zero name_taken_def
      split: if_splits)

lemma subject_Create_ok: "subjects_ok lower d \<Longrightarrow> subjects_ok lower (snd (subject_Create lower s d))"
  using insert_subject_ok [of lower d s]
  by (auto simp: subject_Create_def split: prod.split sum.split)

text \<open>A rewrite of live rows that keeps identity and owner and gives every row a free name.\<close>

lemma subjects_update_ok:
  assumes "subjects_ok lower d"
    and "\<And>r. subj_id (f r) = subj_id r \<and> subj_owner (f r) = subj_owner r"
    and "\<And>r. r \<in> set (subjects d) \<Longrightarrow> P r \<Longrightarrow> open_subject r \<and> (open_subject (f r) \<longrightarrow>
      (\<forall>x \<in> set (subjects d). name_taken lower (subj_owner r) (subj_name (f r)) x \<longrightarrow> x = r))"
    and "\<And>r s. P r \<Longrightarrow> P s \<Longrightarrow> subj_id r = subj_id s"
  shows "subjects_ok lower (d\<lparr>subjects := tbl_update P f (subjects d)\<rparr>)"
proof -
  have ids: "map subj_id (tbl_update P f (subjects d)) = map subj_id (subjects d)"
    by (rule map_tbl_update) (simp add: assms(2))
  have d: "distinct (map subj_id (subjects d))" using assms(1) by (simp add: subjects_ok_def)
  have same: "s = r" if r: "r \<in> set (tbl_update P f (subjects d))"
    and s: "s \<in> set (tbl_update P f (subjects d))"
    and taken: "name_taken lower (subj_owner r) (subj_name r) s" and live: "open_subject r" for r s
    using r
  proof (cases rule: tbl_updateE)
    case hit_r: (hit r0)
    show ?thesis using s
    proof (cases rule: tbl_updateE)
      case (hit s0)
      with hit_r assms(4) [of r0 s0] key_unique [OF d, of r0 s0] show ?thesis by simp
    next
      case miss
      from hit_r live assms(3) [of r0] taken miss(1) assms(2) [of r0] have "s = r0" by auto
      with miss(2) hit_r show ?thesis by simp
    qed
  next
    case miss_r: miss
    show ?thesis using s
    proof (cases rule: tbl_updateE)
      case (hit s0)
      have "open_subject s" using taken by (simp add: name_taken_def)
      with hit assms(3) [of s0] have free: "\<forall>x \<in> set (subjects d).
          name_taken lower (subj_owner s0) (subj_name (f s0)) x \<longrightarrow> x = s0" by blast
      have "name_taken lower (subj_owner s0) (subj_name (f s0)) r"
        using taken live hit assms(2) [of s0] by (simp add: name_taken_def)
      with free miss_r(1) have "r = s0" by blast
      with miss_r(2) hit show ?thesis by simp
    next
      case miss
      with miss_r taken live assms(1) show ?thesis by (auto simp: subjects_ok_def)
    qed
  qed
  then show ?thesis using ids d by (auto simp: subjects_ok_def)
qed

lemma subjects_ok_id: "subjects_ok lower d \<Longrightarrow> distinct (map subj_id (subjects d))"
  by (simp add: subjects_ok_def)

lemma UpdateByOwner_ok: "subjects_ok lower d \<Longrightarrow> subjects_ok lower (snd (UpdateByOwner lower s d))"
proof -
  assume ok: "subjects_ok lower d"
  let ?P = "owned (subj_id s) (subj_owner s) (subj_tenant s)"
  let ?f = "\<lambda>r. r\<lparr>subj_name := subj_name s, subj_description := subj_description s,
    subj_visibility := subj_visibility s, subj_updated_at := subj_updated_at s\<rparr>"
  have "subjects_ok lower (d\<lparr>subjects := tbl_update ?P ?f (subjects d)\<rparr>)"
    if free: "\<forall>r \<in> set (subjects d). \<not> (subj_id r \<noteq> subj_id s \<and> name_taken lower (subj_owner s) (subj_name s) r)"
  proof (rule subjects_update_ok [OF ok])
    fix r assume r: "r \<in> set (subjects d)" "?P r"
    have "x = r" if x: "x \<in> set (subjects d)" "name_taken lower (subj_owner r) (subj_name s) x" for x
    proof -
      have "subj_owner r = subj_owner s" using r(2) by (simp add: owned_def)
      with free x have "subj_id x = subj_id s" by auto
      with r key_unique [OF subjects_ok_id [OF ok] x(1) r(1)] show ?thesis by (simp add: owned_def)
    qed
    with r show "open_subject r \<and> (open_subject (?f r) \<longrightarrow> (\<forall>x \<in> set (subjects d).
        name_taken lower (subj_owner r) (subj_name (?f r)) x \<longrightarrow> x = r))"
      by (simp add: owned_def)
  qed (simp_all add: owned_def)
  with ok show ?thesis by (auto simp: UpdateByOwner_def Let_def tbl_affected_zero)
qed

lemma SoftDeleteByOwner_ok:
  "subjects_ok lower d \<Longrightarrow> subjects_ok lower (snd (SoftDeleteByOwner now i user tenant d))"
proof -
  assume ok: "subjects_ok lower d"
  have "subjects_ok lower (d\<lparr>subjects := tbl_update (owned i user tenant)
      (\<lambda>r. r\<lparr>subj_deleted_at := Some now, subj_updated_at := now\<rparr>) (subjects d)\<rparr>)"
    by (rule subjects_update_ok [OF ok]) (auto simp: owned_def open_subject_def)
  with ok show ?thesis by (auto simp: SoftDeleteByOwner_def Let_def subjects_ok_def)
qed

interpretation subject_names: invariant_system "subject_step lower" "subjects_ok lower" for lower
  by unfold_locales
    (auto elim!: subject_step.cases intro: subject_Create_ok UpdateByOwner_ok SoftDeleteByOwner_ok)

end
