(* ===== verification/RowHistory.thy ===== *)
theory RowHistory
  imports Tables
begin

text \<open>
  How one transaction changes one table: not at all, by one guarded update, or by inserting
  a row with a fresh key; and the contract of a table whose rows only evolve in a given way.
\<close>

inductive table_step ::
    "('r \<Rightarrow> 'k) \<Rightarrow> ('r \<Rightarrow> bool) \<Rightarrow> ('r \<Rightarrow> 'r \<Rightarrow> bool) \<Rightarrow> 'r list \<Rightarrow> 'r list \<Rightarrow> bool"
  for key born evolves where
  same: "table_step key born evolves xs xs"
| changed: "(\<And>r. r \<in> set xs \<Longrightarrow> P r \<Longrightarrow> evolves r (f r)) \<Longrightarrow>
     table_step key born evolves xs (tbl_update P f xs)"
| inserted: "key r \<notin> key ` set xs \<Longrightarrow> born r \<Longrightarrow> table_step key born evolves xs (xs @ [r])"

locale row_history =
  fixes key :: "'r \<Rightarrow> 'k" and born :: "'r \<Rightarrow> bool" and evolves :: "'r \<Rightarrow> 'r \<Rightarrow> bool"
  assumes evolves_refl: "evolves r r"
    and evolves_key: "evolves r s \<Longrightarrow> key s = key r"
begin

lemma step_keys:
  assumes "table_step key born evolves xs ys"
  shows "map key ys = map key xs \<or> (\<exists>k. map key ys = map key xs @ [k] \<and> k \<notin> set (map key xs))"
  using assms
proof (cases rule: table_step.cases)
  case (changed P f)
  have "map key (tbl_update P f xs) = map key xs"
    using changed(2) by (auto simp: tbl_update_def intro!: evolves_key)
  with changed(1) show ?thesis by simp
qed auto

lemma step_distinct: "table_step key born evolves xs ys \<Longrightarrow> distinct (map key xs) \<Longrightarrow> distinct (map key ys)"
  using step_keys by fastforce

lemma step_mono: "table_step key born evolves xs ys \<Longrightarrow> key ` set xs \<subseteq> key ` set ys"
  using step_keys by (metis Un_iff list.set_map set_append subsetI)

lemma step_first:
  assumes "table_step key born evolves xs ys" and "tbl_first (\<lambda>x. key x = v) xs = Some r"
  obtains s where "tbl_first (\<lambda>x. key x = v) ys = Some s" and "evolves r s"
  using assms
proof (cases rule: table_step.cases)
  case same
  with assms(2) that evolves_refl show ?thesis by blast
next
  case (changed P f)
  have "\<exists>s. tbl_first (\<lambda>x. key x = v) (tbl_update P f xs) = Some s \<and> evolves r s"
    using assms(2) changed(2)
  proof (induction xs)
    case (Cons x xs)
    have "key (if P x then f x else x) = key x" using Cons.prems(2) evolves_key by auto
    with Cons show ?case by (auto simp: tbl_simps evolves_refl split: if_splits)
  qed (simp add: tbl_simps)
  with changed(1) that show ?thesis by blast
next
  case (inserted q)
  have "tbl_first (\<lambda>x. key x = v) (xs @ [q]) = Some r"
    using assms(2) by (simp add: tbl_first_def split: list.splits)
  with inserted(1) that evolves_refl show ?thesis by blast
qed

text \<open>A property of newly inserted rows that evolving rows keep holds of all rows.\<close>

lemma step_all:
  assumes "table_step key born evolves xs ys"
    and "\<And>r. born r \<Longrightarrow> Q r" and "\<And>r s. evolves r s \<Longrightarrow> Q r \<Longrightarrow> Q s"
    and "\<forall>r \<in> set xs. Q r"
  shows "\<forall>r \<in> set ys. Q r"
  using assms(1)
proof (cases rule: table_step.cases)
  case (changed P f)
  show ?thesis
  proof
    fix s assume "s \<in> set ys"
    then have "s \<in> set (tbl_update P f xs)" using changed(1) by simp
    then show "Q s"
      by (cases rule: tbl_updateE) (use changed(2) assms(3,4) in blast)+
  qed
qed (use assms(2,4) in auto)

end

end
