(* ===== verification/DbSteps.thy ===== *)
theory DbSteps
  imports Subjects RowHistory
begin

text \<open>
  The database as a state machine: one step is one committed transaction of a repository,
  by any worker, publisher or request, in any order. The lemmas say how rows evolve and
  which invariant every reachable database satisfies.
\<close>

section \<open>How rows evolve\<close>

definition doc_evolves :: "document_row \<Rightarrow> document_row \<Rightarrow> bool" where
  "doc_evolves r s \<longleftrightarrow>
     doc_id s = doc_id r \<and> doc_tenant s = doc_tenant r \<and> doc_subject s = doc_subject r \<and>
     doc_user s = doc_user r \<and> doc_filename s = doc_filename r \<and>
     doc_file_type s = doc_file_type r \<and> doc_file_url s = doc_file_url r \<and>
     doc_version s = doc_version r \<and> doc_content_hash s = doc_content_hash r \<and>
     doc_created_at s = doc_created_at r \<and>
     (doc_status s = doc_status r \<or> doc_edge (doc_status r) (doc_status s)) \<and>
     (\<not> live_doc r \<longrightarrow> s = r)"

definition task_edge :: "task_status \<Rightarrow> task_status \<Rightarrow> bool" where
  "task_edge s t \<longleftrightarrow> s \<in> set (fst (TaskPreviousStatuses t)) \<or>
     (t = Pending \<and> (s = Running \<or> s = Failed))"

definition task_evolves :: "task_row \<Rightarrow> task_row \<Rightarrow> bool" where
  "task_evolves r s \<longleftrightarrow>
     task_id s = task_id r \<and> task_tenant s = task_tenant r \<and> task_doc s = task_doc r \<and>
     task_subject s = task_subject r \<and> task_user s = task_user r \<and>
     task_type s = task_type r \<and> task_metadata s = task_metadata r \<and>
     task_doc_version s = task_doc_version r \<and> task_content_hash s = task_content_hash r \<and>
     (task_status s = task_status r \<or> task_edge (task_status r) (task_status s)) \<and>
     task_retry_count r \<le> task_retry_count s \<and>
     (task_lease_expires_at s \<noteq> None \<longrightarrow>
        task_status s = Running \<or>
        (task_status s = task_status r \<and> task_lease_expires_at s = task_lease_expires_at r))"

definition outbox_evolves :: "outbox_row \<Rightarrow> outbox_row \<Rightarrow> bool" where
  "outbox_evolves r s \<longleftrightarrow>
     ob_id s = ob_id r \<and> ob_task_id s = ob_task_id r \<and> ob_created_at s = ob_created_at r"

text \<open>The rows that are inserted: an uploaded document, a pending task, an unsent message.\<close>

definition doc_born :: "document_row \<Rightarrow> bool" where
  "doc_born r \<longleftrightarrow> doc_status r = Uploaded \<and> live_doc r"

definition task_born :: "task_row \<Rightarrow> bool" where
  "task_born r \<longleftrightarrow> task_status r = Pending \<and> task_retry_count r = 0 \<and>
     task_lease_expires_at r = None"

definition outbox_born :: "outbox_row \<Rightarrow> bool" where
  "outbox_born r \<longleftrightarrow> ob_attempts r = 0 \<and> ob_locked_at r = None \<and> ob_published_at r = None"

lemma success_is_final: "task_edge Success t \<Longrightarrow> False"
  by (cases t) (auto simp: task_edge_def status_table_defs)

interpretation docs: row_history doc_id doc_born doc_evolves
  by unfold_locales (auto simp: doc_evolves_def)

interpretation tasks: row_history task_id task_born task_evolves
  by unfold_locales (auto simp: task_evolves_def)

interpretation msgs: row_history ob_task_id outbox_born outbox_evolves
  by unfold_locales (auto simp: outbox_evolves_def)

interpretation msg_ids: row_history ob_id outbox_born outbox_evolves
  by unfold_locales (auto simp: outbox_evolves_def)

definition db_evolves :: "db \<Rightarrow> db \<Rightarrow> bool" where
  "db_evolves d d' \<longleftrightarrow>
     table_step doc_id doc_born doc_evolves (documents d) (documents d') \<and>
     table_step task_id task_born task_evolves (index_tasks d) (index_tasks d') \<and>
     table_step ob_task_id outbox_born outbox_evolves (task_outbox d) (task_outbox d') \<and>
     table_step ob_id outbox_born outbox_evolves (task_outbox d) (task_outbox d')"

lemma db_evolvesI:
  "table_step doc_id doc_born doc_evolves (documents d) (documents d') \<Longrightarrow>
   table_step task_id task_born task_evolves (index_tasks d) (index_tasks d') \<Longrightarrow>
   table_step ob_task_id outbox_born outbox_evolves (task_outbox d) (task_outbox d') \<Longrightarrow>
   table_step ob_id outbox_born outbox_evolves (task_outbox d) (task_outbox d') \<Longrightarrow> db_evolves d d'"
  by (simp add: db_evolves_def)

lemma db_evolves_refl [simp, intro]: "db_evolves d d"
  by (simp add: db_evolves_def table_step.same)

section \<open>The steps\<close>

text \<open>
  A new task is pending with no retries, as every caller builds it; it belongs to a document
  of the database.
\<close>

definition fresh_task :: "index_task \<Rightarrow> bool" where
  "fresh_task t \<longleftrightarrow> task_status t = Pending \<and> task_retry_count t = 0"

inductive tx_step :: "(string \<Rightarrow> uid) \<Rightarrow> db \<Rightarrow> db \<Rightarrow> bool" for sha where
  upload: "fresh_task t \<Longrightarrow> task_doc t = doc_id doc \<Longrightarrow> doc_status doc = Uploaded \<Longrightarrow>
     tx_step sha d (snd (CreateWithIndexTask sha now doc t d))"
| next_task: "fresh_task t \<Longrightarrow> task_doc t \<in> doc_id ` set (documents d) \<Longrightarrow>
     tx_step sha d (snd (task_Create sha now t d))"
| delete_task: "fresh_task t \<Longrightarrow> task_doc t = i \<Longrightarrow>
     tx_step sha d (snd (CreateDeleteTask sha now i user t d))"
| task_status: "tx_step sha d (snd (task_UpdateStatus now i s e d))"
| claim: "tx_step sha d (snd (Claim now i lease d))"
| auto_retry: "tx_step sha d (snd (ScheduleRetry now i m d))"
| manual_retry: "tx_step sha d (snd (Retry sha now i user d))"
| clear_tasks: "tx_step sha d (snd (ClearTerminalByUser now user d))"
| doc_status: "tx_step sha d (snd (doc_UpdateStatus now i ds e d))"
| parsed: "tx_step sha d (snd (CompleteParse now i text meta d))"
| reset: "tx_step sha d (snd (ResetStatusForRetry now i ds d))"
| deleted: "tx_step sha d (snd (CompleteDelete now i d))"
| clear_failed: "tx_step sha d (snd (ClearFailedByUser now user d))"
| log: "tx_step sha d (snd (AddParseLog l d))"
| clear_logs: "tx_step sha d (snd (ClearParseLogsByUser user subject d))"
| chunks: "tx_step sha d (snd (ReplaceByDocument cs d))"
| claim_batch: "tx_step sha d (snd (ClaimBatch now limit d))"
| published: "tx_step sha d (snd (MarkPublished now i d))"
| new_subject: "tx_step sha d (snd (subject_Create lower subject d))"
| edit_subject: "tx_step sha d (snd (UpdateByOwner lower subject d))"
| drop_subject: "tx_step sha d (snd (SoftDeleteByOwner now i user tenant d))"
| publish_failed: "tx_step sha d (snd (MarkFailed now i msg d))"

section \<open>Every step lets rows evolve\<close>

lemma doc_setter_evolves:
  "live_doc r \<Longrightarrow> doc_edge (doc_status r) s \<Longrightarrow>
    doc_evolves r (r\<lparr>doc_status := s, doc_error := e, doc_updated_at := now\<rparr>)"
  by (simp add: doc_evolves_def)

lemma doc_forwardI: "s \<in> set (fst (DocumentPreviousStatuses t)) \<Longrightarrow> doc_edge s t"
  by (simp add: doc_edge_def doc_forward_def)

lemma doc_retryI: "s \<in> set (fst (DocumentRetryPreviousStatuses t)) \<Longrightarrow> doc_edge s t"
  by (simp add: doc_edge_def doc_retry_def)

lemma soft_delete_documents_step:
  "table_step doc_id doc_born doc_evolves (documents d) (documents (soft_delete_documents now P d))"
  by (auto simp: soft_delete_documents_def doc_evolves_def intro: table_step.changed)

lemma soft_delete_frames [simp]:
  "documents (soft_delete_chunks now P d) = documents d"
  "index_tasks (soft_delete_chunks now P d) = index_tasks d"
  "task_outbox (soft_delete_chunks now P d) = task_outbox d"
  "index_tasks (soft_delete_documents now Q d) = index_tasks d"
  "task_outbox (soft_delete_documents now Q d) = task_outbox d"
  by (simp_all add: soft_delete_chunks_def soft_delete_documents_def)

lemma enqueueOutbox_frame [simp]:
  "documents (snd (enqueueOutbox sha now t b d)) = documents d"
  "index_tasks (snd (enqueueOutbox sha now t b d)) = index_tasks d"
  by (simp_all add: enqueueOutbox_def)

lemma enqueueOutbox_msgs:
  "table_step ob_task_id outbox_born outbox_evolves (task_outbox d)
     (task_outbox (snd (enqueueOutbox sha now t b d)))" (is ?A)
  "table_step ob_id outbox_born outbox_evolves (task_outbox d)
     (task_outbox (snd (enqueueOutbox sha now t b d)))" (is ?B)
proof -
  have "?A \<and> ?B"
  proof (cases "fst (enqueueOutbox sha now t b d)")
    case (Inl e)
    then have "snd (enqueueOutbox sha now t b d) = d"
      by (metis enqueueOutbox_error prod.collapse)
    then show ?thesis by (simp add: table_step.same)
  next
    case (Inr u)
    then have "enqueueOutbox sha now t b d = (Inr (), snd (enqueueOutbox sha now t b d))"
      by (simp add: prod_eq_iff)
    then show ?thesis
    proof (cases rule: enqueueOutbox_cases)
      case kept
      then show ?thesis by (simp add: table_step.same)
    next
      case again
      show ?thesis unfolding again(3)
        by (simp add: table_step.changed outbox_evolves_def)
    next
      case new
      have "task_outbox (snd (enqueueOutbox sha now t b d)) =
          task_outbox d @ [new_outbox_row sha now t]" unfolding new(1) by simp
      with new(2,3) show ?thesis
        by (auto intro!: table_step.inserted simp: new_outbox_row_def outbox_born_def)
    qed
  qed
  then show ?A ?B by simp_all
qed

lemma db_evolves_enqueue:
  assumes "(r, d') = enqueueOutbox sha now t b d1"
    and "task_outbox d1 = task_outbox d"
    and "table_step doc_id doc_born doc_evolves (documents d) (documents d1)"
    and "table_step task_id task_born task_evolves (index_tasks d) (index_tasks d1)"
  shows "db_evolves d d'"
  using assms enqueueOutbox_frame [of sha now t b d1] enqueueOutbox_msgs [of d1 sha now t b]
  by (metis db_evolvesI snd_conv)

lemma task_inserted:
  "fresh_task t \<Longrightarrow> tbl_affected (\<lambda>r. task_id r = task_id t) rows = 0 \<Longrightarrow>
    table_step task_id task_born task_evolves rows (rows @ [task_insert_row t])"
  by (auto simp: tbl_affected_zero task_insert_row_def index_task.defs task_row.defs task_born_def
      fresh_task_def intro!: table_step.inserted)

lemma doc_inserted:
  "doc_status doc = Uploaded \<Longrightarrow> tbl_affected (\<lambda>r. doc_id r = doc_id doc) rows = 0 \<Longrightarrow>
    table_step doc_id doc_born doc_evolves rows (rows @ [document_insert_row doc])"
  by (auto simp: tbl_affected_zero document_insert_row_def document.defs document_row.defs
      doc_born_def live_doc_def intro!: table_step.inserted)

lemma task_Create_evolves: "fresh_task t \<Longrightarrow> db_evolves d (snd (task_Create sha now t d))"
  by (auto simp: task_Create_def task_inserted table_step.same split: prod.split sum.split
      intro!: db_evolves_enqueue [OF sym])

lemma insert_task_evolves:
  assumes "insert_task sha now t d1 = (Inr u, d')" and "fresh_task t"
    and "task_outbox d1 = task_outbox d" and "index_tasks d1 = index_tasks d"
    and "table_step doc_id doc_born doc_evolves (documents d) (documents d1)"
  shows "db_evolves d d'"
proof -
  have new: "tbl_affected (\<lambda>r. task_id r = task_id t) (index_tasks d) = 0"
    and enq: "(Inr u, d') = enqueueOutbox sha now t False
      (d1\<lparr>index_tasks := index_tasks d1 @ [task_insert_row t]\<rparr>)"
    using assms(1,4) by (simp_all add: insert_task_def split: if_splits)
  show ?thesis
    by (rule db_evolves_enqueue [OF enq])
      (simp_all add: assms task_inserted [OF assms(2) new])
qed

lemma CreateWithIndexTask_evolves:
  "fresh_task t \<Longrightarrow> doc_status doc = Uploaded \<Longrightarrow> db_evolves d (snd (CreateWithIndexTask sha now doc t d))"
  by (auto simp: CreateWithIndexTask_def doc_inserted split: prod.split sum.split
      intro!: insert_task_evolves)

lemma CreateDeleteTask_evolves: "fresh_task t \<Longrightarrow> db_evolves d (snd (CreateDeleteTask sha now i user t d))"
  by (auto simp: CreateDeleteTask_def Let_def fresh_task_def split: prod.split sum.split
      intro!: insert_task_evolves table_step.changed doc_setter_evolves doc_forwardI)

lemma task_UpdateStatus_evolves: "db_evolves d (snd (task_UpdateStatus now i s e d))"
  by (auto simp: task_UpdateStatus_def Let_def task_evolves_def task_edge_def split: prod.split
      intro!: db_evolvesI table_step.same table_step.changed)

lemma Claim_evolves: "db_evolves d (snd (Claim now i lease d))"
  by (auto simp: Claim_def Let_def task_evolves_def task_edge_def task_claimable_def
      status_table_defs intro!: db_evolvesI table_step.same table_step.changed)

lemma ScheduleRetry_evolves: "db_evolves d (snd (ScheduleRetry now i m d))"
  by (auto simp: ScheduleRetry_def Let_def task_evolves_def task_edge_def split: option.split
      intro!: db_evolvesI table_step.same table_step.changed)

lemma Retry_evolves: "db_evolves d (snd (Retry sha now i user d))"
  unfolding Retry_def Let_def
  by (auto split: option.split prod.split sum.split simp: task_evolves_def task_edge_def
      intro!: db_evolves_enqueue [OF sym] table_step.changed doc_setter_evolves doc_retryI)

lemma ClearTerminalByUser_evolves: "db_evolves d (snd (ClearTerminalByUser now user d))"
  by (auto simp: ClearTerminalByUser_def Let_def task_evolves_def
      intro!: db_evolvesI table_step.same table_step.changed)

lemma doc_UpdateStatus_evolves: "db_evolves d (snd (doc_UpdateStatus now i s e d))"
  by (auto simp: doc_UpdateStatus_def Let_def split: prod.split
      intro!: db_evolvesI table_step.same table_step.changed doc_setter_evolves doc_forwardI)

lemma CompleteParse_evolves: "db_evolves d (snd (CompleteParse now i text meta d))"
  by (auto simp: CompleteParse_def Let_def doc_evolves_def doc_edge_def doc_forward_def
      status_table_defs intro!: db_evolvesI table_step.same table_step.changed)

lemma ResetStatusForRetry_evolves: "db_evolves d (snd (ResetStatusForRetry now i s d))"
  by (auto simp: ResetStatusForRetry_def Let_def split: prod.split
      intro!: db_evolvesI table_step.same table_step.changed doc_setter_evolves doc_retryI)

lemma CompleteDelete_evolves: "db_evolves d (snd (CompleteDelete now i d))"
  using soft_delete_documents_step [of "soft_delete_chunks now (\<lambda>c. ch_doc c = i) d"]
  by (simp add: CompleteDelete_def Let_def db_evolves_def table_step.same)

lemma ClearFailedByUser_evolves: "db_evolves d (snd (ClearFailedByUser now user d))"
  using soft_delete_documents_step [of "soft_delete_chunks now _ d"]
  by (simp add: ClearFailedByUser_def Let_def db_evolves_def table_step.same)

lemma AddParseLog_evolves: "db_evolves d (snd (AddParseLog l d))"
  by (simp add: AddParseLog_def db_evolves_def table_step.same)

lemma ClearParseLogsByUser_evolves: "db_evolves d (snd (ClearParseLogsByUser user subject d))"
  by (simp add: ClearParseLogsByUser_def Let_def db_evolves_def table_step.same)

lemma ReplaceByDocument_evolves: "db_evolves d (snd (ReplaceByDocument cs d))"
  by (auto simp: ReplaceByDocument_def db_evolves_def table_step.same split: list.split sum.split)

lemma ClaimBatch_evolves: "db_evolves d (snd (ClaimBatch now limit d))"
  by (auto simp: ClaimBatch_def Let_def outbox_evolves_def
      intro!: db_evolvesI table_step.same table_step.changed)

lemma MarkPublished_evolves: "db_evolves d (snd (MarkPublished now i d))"
  by (auto simp: MarkPublished_def outbox_evolves_def
      intro!: db_evolvesI table_step.same table_step.changed)

lemma MarkFailed_evolves: "db_evolves d (snd (MarkFailed now i msg d))"
  by (auto simp: MarkFailed_def outbox_evolves_def
      intro!: db_evolvesI table_step.same table_step.changed)

lemma subject_Create_evolves: "db_evolves d (snd (subject_Create lower s d))"
  by (auto simp: subject_Create_def insert_subject_def db_evolves_def table_step.same
      split: prod.split sum.split)

lemma UpdateByOwner_evolves: "db_evolves d (snd (UpdateByOwner lower s d))"
  by (simp add: UpdateByOwner_def Let_def db_evolves_def table_step.same)

lemma SoftDeleteByOwner_evolves: "db_evolves d (snd (SoftDeleteByOwner now i user tenant d))"
  using soft_delete_documents_step [of "d\<lparr>subjects := _\<rparr>"]
  by (simp add: SoftDeleteByOwner_def Let_def db_evolves_def table_step.same)

lemmas op_evolves =
  subject_Create_evolves UpdateByOwner_evolves SoftDeleteByOwner_evolves
  CreateWithIndexTask_evolves task_Create_evolves CreateDeleteTask_evolves
  task_UpdateStatus_evolves Claim_evolves ScheduleRetry_evolves Retry_evolves
  ClearTerminalByUser_evolves doc_UpdateStatus_evolves CompleteParse_evolves
  ResetStatusForRetry_evolves CompleteDelete_evolves ClearFailedByUser_evolves
  AddParseLog_evolves ClearParseLogsByUser_evolves ReplaceByDocument_evolves
  ClaimBatch_evolves MarkPublished_evolves MarkFailed_evolves

lemma tx_step_evolves: "tx_step sha d d' \<Longrightarrow> db_evolves d d'"
  by (induction rule: tx_step.induct) (rule op_evolves; assumption)+

end
