(* ===== verification/DbInvariant.thy ===== *)
theory DbInvariant
  imports DbSteps
begin

text \<open>
  The invariant of the task tables in every reachable database: unique keys, tasks well
  formed, and the outbox mirroring the tasks, so that a task and its message are created
  together or not at all.
\<close>

definition db_keys :: "db \<Rightarrow> bool" where
  "db_keys d \<longleftrightarrow>
     distinct (map doc_id (documents d)) \<and> distinct (map task_id (index_tasks d)) \<and>
     distinct (map ob_task_id (task_outbox d)) \<and> distinct (map ob_id (task_outbox d))"

definition task_wf :: "task_row \<Rightarrow> bool" where
  "task_wf t \<longleftrightarrow> 0 \<le> task_retry_count t \<and>
     (task_lease_expires_at t \<noteq> None \<longrightarrow> task_status t = Running)"

definition tasks_have_docs :: "db \<Rightarrow> bool" where
  "tasks_have_docs d \<longleftrightarrow> task_doc ` set (index_tasks d) \<subseteq> doc_id ` set (documents d)"

text \<open>What a message and its task have in common: task, addressee, subject and document.\<close>

definition task_sig :: "'a index_task_scheme \<Rightarrow> uid \<times> uid \<times> task_type \<times> uid" where
  "task_sig t = (task_id t, task_id t, task_type t, task_doc t)"

definition ob_sig :: "outbox_row \<Rightarrow> uid \<times> uid \<times> task_type \<times> uid" where
  "ob_sig r = (ob_task_id r, msg_task_id (ob_payload r), ob_subject r, msg_doc_id (ob_payload r))"

definition outbox_mirror :: "db \<Rightarrow> bool" where
  "outbox_mirror d \<longleftrightarrow> ob_sig ` set (task_outbox d) = task_sig ` set (index_tasks d)"

definition db_ok :: "db \<Rightarrow> bool" where
  "db_ok d \<longleftrightarrow> db_keys d \<and> (\<forall>t \<in> set (index_tasks d). task_wf t) \<and>
     tasks_have_docs d \<and> outbox_mirror d"

lemma db_keys_task_ids: "db_keys d \<Longrightarrow> task_ids_ok d"
  by (simp add: db_keys_def task_ids_ok_def)

lemma db_ok_task_ids: "db_ok d \<Longrightarrow> task_ids_ok d"
  by (simp add: db_ok_def db_keys_task_ids)

section \<open>Parts kept by any evolution of the rows\<close>

lemma db_evolves_keys: "db_evolves d d' \<Longrightarrow> db_keys d \<Longrightarrow> db_keys d'"
  by (auto simp: db_evolves_def db_keys_def
      dest: docs.step_distinct tasks.step_distinct msgs.step_distinct msg_ids.step_distinct)

lemma task_wf_evolves: "task_evolves r s \<Longrightarrow> task_wf r \<Longrightarrow> task_wf s"
  unfolding task_evolves_def task_wf_def by (metis order_trans)

lemma task_wf_born: "task_born r \<Longrightarrow> task_wf r"
  by (simp add: task_born_def task_wf_def)

lemma db_evolves_task_wf:
  "db_evolves d d' \<Longrightarrow> \<forall>t \<in> set (index_tasks d). task_wf t \<Longrightarrow> \<forall>t \<in> set (index_tasks d'). task_wf t"
  unfolding db_evolves_def
  by (rule tasks.step_all [where Q = task_wf]) (auto intro: task_wf_born task_wf_evolves)

lemma db_evolves_doc_ids:
  "db_evolves d d' \<Longrightarrow> doc_id ` set (documents d) \<subseteq> doc_id ` set (documents d')"
  unfolding db_evolves_def by (elim conjE) (rule docs.step_mono)

section \<open>The mirror of tasks and messages\<close>

text \<open>The steps that change neither the identity of a task nor a message.\<close>

definition same_sigs :: "db \<Rightarrow> db \<Rightarrow> bool" where
  "same_sigs d d' \<longleftrightarrow>
     map task_sig (index_tasks d') = map task_sig (index_tasks d) \<and>
     map ob_sig (task_outbox d') = map ob_sig (task_outbox d)"

lemma task_docs_of_sigs: "task_doc ` A = (\<lambda>p. snd (snd (snd p))) ` (task_sig ` A)"
  unfolding image_comp o_def task_sig_def snd_conv ..

lemma sigs_docs:
  "task_sig ` set ts' = task_sig ` set ts \<Longrightarrow> task_doc ` set ts' = task_doc ` set ts"
  unfolding task_docs_of_sigs by (rule arg_cong)

lemma same_sigs_sets:
  assumes "same_sigs d d'"
  shows "task_sig ` set (index_tasks d') = task_sig ` set (index_tasks d)"
    and "ob_sig ` set (task_outbox d') = ob_sig ` set (task_outbox d)"
  using assms arg_cong [where f = set] unfolding same_sigs_def list.set_map [symmetric]
  by blast+

lemma same_sigs_docs:
  "same_sigs d d' \<Longrightarrow> task_doc ` set (index_tasks d') = task_doc ` set (index_tasks d)"
  by (rule sigs_docs) (rule same_sigs_sets)

lemma same_sigs_mirror: "same_sigs d d' \<Longrightarrow> outbox_mirror d \<Longrightarrow> outbox_mirror d'"
  unfolding outbox_mirror_def by (simp only: same_sigs_sets)

lemma same_sigs_refl [simp]: "same_sigs d d"
  by (simp add: same_sigs_def)

lemma same_sigs_ops:
  "same_sigs d (snd (task_UpdateStatus now i s e d))"
  "same_sigs d (snd (Claim now i lease d))"
  "same_sigs d (snd (ScheduleRetry now i m d))"
  "same_sigs d (snd (ClearTerminalByUser now user d))"
  "same_sigs d (snd (doc_UpdateStatus now i ds e d))"
  "same_sigs d (snd (CompleteParse now i text meta d))"
  "same_sigs d (snd (ResetStatusForRetry now i ds d))"
  "same_sigs d (snd (CompleteDelete now i d))"
  "same_sigs d (snd (ClearFailedByUser now user d))"
  "same_sigs d (snd (AddParseLog l d))"
  "same_sigs d (snd (ClearParseLogsByUser user subject d))"
  "same_sigs d (snd (ReplaceByDocument cs d))"
  "same_sigs d (snd (ClaimBatch now limit d))"
  "same_sigs d (snd (MarkPublished now i d))"
  "same_sigs d (snd (MarkFailed now i msg d))"
  "same_sigs d (snd (subject_Create lower s' d))"
  "same_sigs d (snd (UpdateByOwner lower s' d))"
  "same_sigs d (snd (SoftDeleteByOwner now i user tenant d))"
  by (auto simp: tx_defs Let_def same_sigs_def task_sig_def ob_sig_def map_tbl_update
      split: prod.split option.split list.split sum.split)

text \<open>
  What \<open>enqueueOutbox\<close> does to the messages, when those it finds for the task already carry
  the task's signature.
\<close>

lemma enqueueOutbox_sigs:
  assumes "enqueueOutbox sha now t b d = (Inr (), d')"
    and "\<forall>r \<in> set (task_outbox d). ob_task_id r = task_id t \<longrightarrow> ob_sig r = task_sig t"
  shows "ob_sig ` set (task_outbox d') = insert (task_sig t) (ob_sig ` set (task_outbox d))"
  using assms(1)
proof (cases rule: enqueueOutbox_cases)
  case kept
  with assms(2) show ?thesis by (metis image_eqI insert_absorb)
next
  case again
  have "map ob_sig (task_outbox d') = map ob_sig (task_outbox d)"
    unfolding again(3)
    by (simp, rule map_tbl_update_on)
      (use assms(2) in \<open>simp add: ob_sig_def task_sig_def task_payload_def\<close>)
  then have "ob_sig ` set (task_outbox d') = ob_sig ` set (task_outbox d)"
    by (metis list.set_map)
  with again(2) assms(2) show ?thesis by (metis image_eqI insert_absorb)
next
  case new
  then show ?thesis
    by (simp add: new_outbox_row_def ob_sig_def task_sig_def task_payload_def)
qed

lemma no_message_without_task:
  assumes "outbox_mirror d" and "\<forall>r \<in> set (index_tasks d). task_id r \<noteq> i"
  shows "\<forall>r \<in> set (task_outbox d). ob_task_id r \<noteq> i"
proof
  fix r assume "r \<in> set (task_outbox d)"
  then have "ob_sig r \<in> task_sig ` set (index_tasks d)"
    using assms(1) unfolding outbox_mirror_def by blast
  then show "ob_task_id r \<noteq> i" using assms(2) by (auto simp: ob_sig_def task_sig_def)
qed

lemma task_sig_insert [simp]: "task_sig (task_insert_row t) = task_sig t"
  by (simp add: task_insert_row_def task_sig_def index_task.defs)

text \<open>A new task and its message appear in the same transaction.\<close>

lemma new_task_mirror:
  assumes "enqueueOutbox sha now t False (d\<lparr>index_tasks := index_tasks d @ [task_insert_row t]\<rparr>)
      = (Inr (), d')"
    and "tbl_affected (\<lambda>r. task_id r = task_id t) (index_tasks d) = 0" and "outbox_mirror d"
  shows "outbox_mirror d'" and "index_tasks d' = index_tasks d @ [task_insert_row t]"
    and "documents d' = documents d"
proof -
  let ?d = "d\<lparr>index_tasks := index_tasks d @ [task_insert_row t]\<rparr>"
  have d': "d' = snd (enqueueOutbox sha now t False ?d)" using assms(1) by simp
  show tasks: "index_tasks d' = index_tasks d @ [task_insert_row t]" and "documents d' = documents d"
    unfolding d' by simp_all
  have fresh: "\<forall>r \<in> set (task_outbox d). ob_task_id r \<noteq> task_id t"
    using no_message_without_task [OF assms(3)] assms(2) by (simp add: tbl_affected_zero)
  have "ob_sig ` set (task_outbox d') = insert (task_sig t) (ob_sig ` set (task_outbox ?d))"
    by (rule enqueueOutbox_sigs [OF assms(1)]) (use fresh in simp)
  with assms(3) show "outbox_mirror d'" by (simp add: outbox_mirror_def tasks)
qed

definition mirrored :: "db \<Rightarrow> bool" where
  "mirrored d \<longleftrightarrow> tasks_have_docs d \<and> outbox_mirror d"

lemma insert_task_mirrored:
  assumes "insert_task sha now t d = (Inr u, d')" and "mirrored d"
    and "task_doc t \<in> doc_id ` set (documents d)"
  shows "mirrored d'"
proof -
  have new: "tbl_affected (\<lambda>r. task_id r = task_id t) (index_tasks d) = 0"
    and enq: "enqueueOutbox sha now t False
      (d\<lparr>index_tasks := index_tasks d @ [task_insert_row t]\<rparr>) = (Inr (), d')"
    using assms(1) by (simp_all add: insert_task_def split: if_splits)
  have "outbox_mirror d" using assms(2) by (simp add: mirrored_def)
  note m = new_task_mirror [OF enq new this]
  have "task_doc (task_insert_row t) = task_doc t"
    by (simp add: task_insert_row_def index_task.defs)
  with m assms(2,3) show ?thesis by (simp add: mirrored_def tasks_have_docs_def)
qed

lemma task_Create_mirrored:
  assumes "mirrored d" and "task_doc t \<in> doc_id ` set (documents d)"
  shows "mirrored (snd (task_Create sha now t d))"
proof (cases "tbl_affected (\<lambda>r. task_id r = task_id t) (index_tasks d) = 0")
  case True
  then have eq: "task_Create sha now t d =
      (case insert_task sha now t d of (Inl e, _) \<Rightarrow> (Inl e, d) | (Inr _, d') \<Rightarrow> (Inr (), d'))"
    by (simp add: task_Create_def insert_task_def)
  show ?thesis
    using insert_task_mirrored [OF _ assms, of sha now] assms(1)
    by (auto simp: eq split: prod.split sum.split)
next
  case False
  then show ?thesis using assms(1) by (simp add: task_Create_def)
qed

lemma CreateWithIndexTask_mirrored:
  assumes "mirrored d" and "task_doc t = doc_id doc"
  shows "mirrored (snd (CreateWithIndexTask sha now doc t d))"
proof -
  let ?d = "d\<lparr>documents := documents d @ [document_insert_row doc]\<rparr>"
  have "mirrored ?d" using assms(1) by (auto simp: mirrored_def tasks_have_docs_def outbox_mirror_def)
  moreover have "task_doc t \<in> doc_id ` set (documents ?d)"
    using assms(2) by (simp add: document_insert_row_def document.defs)
  ultimately show ?thesis
    using insert_task_mirrored [of sha now t ?d] assms(1)
    by (auto simp: CreateWithIndexTask_def split: prod.split sum.split)
qed

lemma CreateDeleteTask_mirrored:
  assumes "mirrored d" and "task_doc t = i"
  shows "mirrored (snd (CreateDeleteTask sha now i user t d))"
proof -
  let ?P = "\<lambda>r. doc_id r = i \<and> doc_user r = user \<and> live_doc r \<and>
                doc_status r \<in> set (fst (DocumentPreviousStatuses Deleting))"
  let ?d = "d\<lparr>documents := tbl_update ?P
      (\<lambda>r. r\<lparr>doc_status := Deleting, doc_error := [], doc_updated_at := now\<rparr>) (documents d)\<rparr>"
  let ?t = "t\<lparr>task_retry_count := 0, task_metadata := JEmpty, task_error := []\<rparr>"
  have ids: "doc_id ` set (documents ?d) = doc_id ` set (documents d)"
    by (simp add: image_tbl_update)
  have m: "mirrored ?d"
    using assms(1) ids by (simp add: mirrored_def tasks_have_docs_def outbox_mirror_def)
  have keep: "mirrored d'" if "insert_task sha now ?t ?d = (Inr u, d')"
    and "tbl_affected ?P (documents d) \<noteq> 0" for u d'
  proof (rule insert_task_mirrored [OF that(1) m])
    from that(2) obtain r where "r \<in> set (documents d)" "doc_id r = i"
      by (auto simp: tbl_affected_zero simp del: neq0_conv)
    then show "task_doc ?t \<in> doc_id ` set (documents ?d)" using assms(2) ids by force
  qed
  show ?thesis
    using keep assms(1)
    by (auto simp: CreateDeleteTask_def Let_def status_table_defs split: prod.split sum.split)
qed

lemma Retry_mirrored:
  assumes "mirrored d" and "db_keys d"
  shows "mirrored (snd (Retry sha now i user d))"
proof -
  let ?P = "\<lambda>r. task_id r = i \<and> task_user r = user \<and> task_status r = Failed"
  let ?f = "\<lambda>r. r\<lparr>task_status := Pending, task_retry_count := task_retry_count r + 1,
                    task_error := [], task_lease_expires_at := None, task_updated_at := now\<rparr>"
  have keep: "mirrored d'"
    if enq: "enqueueOutbox sha now (scan_full_task (?f r)) True
        (d\<lparr>index_tasks := tbl_update ?P ?f (index_tasks d), documents := docs'\<rparr>) = (Inr (), d')"
      and r: "tbl_first ?P (index_tasks d) = Some r"
      and ids: "doc_id ` set docs' = doc_id ` set (documents d)" for r docs' d'
  proof -
    let ?t = "scan_full_task (?f r)"
    let ?d = "d\<lparr>index_tasks := tbl_update ?P ?f (index_tasks d), documents := docs'\<rparr>"
    have sig: "task_sig ?t = task_sig r"
      by (simp add: scan_full_task_def index_task.truncate_def task_sig_def)
    have sigs: "task_sig ` set (tbl_update ?P ?f (index_tasks d)) = task_sig ` set (index_tasks d)"
      by (rule image_tbl_update) (simp add: task_sig_def)
    have rin: "r \<in> set (index_tasks d)" using tbl_first_Some [OF r] by simp
    have same: "\<forall>x \<in> set (task_outbox d). ob_task_id x = task_id ?t \<longrightarrow> ob_sig x = task_sig ?t"
    proof (intro ballI impI)
      fix x assume x: "x \<in> set (task_outbox d)" "ob_task_id x = task_id ?t"
      then obtain t where t: "t \<in> set (index_tasks d)" "ob_sig x = task_sig t"
        using assms(1) unfolding mirrored_def outbox_mirror_def by (metis image_iff)
      have "task_id t = task_id r"
        using t(2) x(2) sig by (simp add: ob_sig_def task_sig_def)
      then have "t = r"
        using key_unique [of task_id "index_tasks d"] assms(2) t(1) rin
        by (auto simp: db_keys_def)
      then show "ob_sig x = task_sig ?t" using t(2) sig by simp
    qed
    have d': "d' = snd (enqueueOutbox sha now ?t True ?d)" using enq by simp
    have "index_tasks d' = tbl_update ?P ?f (index_tasks d)" and "documents d' = docs'"
      unfolding d' by simp_all
    moreover have "ob_sig ` set (task_outbox d') = insert (task_sig ?t) (ob_sig ` set (task_outbox ?d))"
      by (rule enqueueOutbox_sigs [OF enq]) (use same in simp)
    ultimately show ?thesis
      using assms(1) sigs sigs_docs [OF sigs] ids rin sig
      unfolding mirrored_def tasks_have_docs_def outbox_mirror_def
      by (simp add: insert_absorb)
  qed
  have ids: "doc_id ` set (tbl_update Q (\<lambda>x. x\<lparr>doc_status := s, doc_error := [],
      doc_updated_at := now\<rparr>) (documents d)) = doc_id ` set (documents d)" for Q s
    by (rule image_tbl_update) simp
  show ?thesis
    by (auto simp: Retry_def Let_def assms(1) split: option.split prod.split sum.split
        intro: keep [OF _ _ ids])
qed

section \<open>The invariant\<close>

lemma tx_step_mirrored:
  assumes "tx_step sha d d'" and "db_ok d"
  shows "mirrored d'"
proof -
  have m: "mirrored d" and k: "db_keys d"
    using assms(2) by (simp_all add: db_ok_def mirrored_def)
  have keep: "mirrored d'" if "same_sigs d d'"
  proof -
    have "tasks_have_docs d'"
      unfolding tasks_have_docs_def same_sigs_docs [OF that]
      using m db_evolves_doc_ids [OF tx_step_evolves [OF assms(1)]]
      unfolding mirrored_def tasks_have_docs_def by (meson order_trans)
    with m that show ?thesis by (auto simp: mirrored_def dest: same_sigs_mirror)
  qed
  from assms(1) keep show ?thesis
    by (cases rule: tx_step.cases)
      (auto intro: same_sigs_ops task_Create_mirrored CreateWithIndexTask_mirrored
        CreateDeleteTask_mirrored Retry_mirrored m k)
qed

lemma tx_step_ok: "tx_step sha d d' \<Longrightarrow> db_ok d \<Longrightarrow> db_ok d'"
  using tx_step_mirrored [of sha d d'] tx_step_evolves [of sha d d']
  by (auto simp: db_ok_def mirrored_def dest: db_evolves_keys db_evolves_task_wf)

interpretation dbs: invariant_system "tx_step sha" db_ok for sha
  by unfold_locales (rule tx_step_ok)

lemma db_ok_empty: "db_ok empty_db"
  by (simp add: db_ok_def db_keys_def tasks_have_docs_def outbox_mirror_def empty_db_def)

definition reachable_db :: "(string \<Rightarrow> uid) \<Rightarrow> db \<Rightarrow> bool" where
  "reachable_db sha d \<longleftrightarrow> (tx_step sha)\<^sup>*\<^sup>* empty_db d"

lemma reachable_ok: "reachable_db sha d \<Longrightarrow> db_ok d"
  unfolding reachable_db_def by (erule dbs.run_keeps) (rule db_ok_empty)

section \<open>Histories of rows\<close>

lemma doc_history:
  assumes "(tx_step sha)\<^sup>*\<^sup>* d d'" and "doc_by_id i d = Some r"
  shows "\<exists>s. doc_by_id i d' = Some s \<and> doc_evolves\<^sup>*\<^sup>* r s"
  using assms
proof (induction rule: rtranclp_induct)
  case (step x y)
  then obtain s where s: "doc_by_id i x = Some s" "doc_evolves\<^sup>*\<^sup>* r s" by auto
  have "table_step doc_id doc_born doc_evolves (documents x) (documents y)"
    using tx_step_evolves [OF step.hyps(2)] by (simp add: db_evolves_def)
  then obtain u where "doc_by_id i y = Some u" "doc_evolves s u"
    using docs.step_first s(1) unfolding doc_by_id_def by metis
  with s(2) show ?case by auto
qed auto

lemma task_history:
  assumes "(tx_step sha)\<^sup>*\<^sup>* d d'" and "task_by_id i d = Some r"
  shows "\<exists>s. task_by_id i d' = Some s \<and> task_evolves\<^sup>*\<^sup>* r s"
  using assms
proof (induction rule: rtranclp_induct)
  case (step x y)
  then obtain s where s: "task_by_id i x = Some s" "task_evolves\<^sup>*\<^sup>* r s" by auto
  have "table_step task_id task_born task_evolves (index_tasks x) (index_tasks y)"
    using tx_step_evolves [OF step.hyps(2)] by (simp add: db_evolves_def)
  then obtain u where "task_by_id i y = Some u" "task_evolves s u"
    using tasks.step_first s(1) unfolding task_by_id_def by metis
  with s(2) show ?case by auto
qed auto

text \<open>Along a history: who owns a document never changes, and deletion is absorbing.\<close>

lemma doc_evolves_star:
  "doc_evolves\<^sup>*\<^sup>* r s \<Longrightarrow>
    doc_id s = doc_id r \<and> doc_tenant s = doc_tenant r \<and> doc_subject s = doc_subject r \<and>
    doc_user s = doc_user r \<and> doc_version s = doc_version r \<and>
    doc_content_hash s = doc_content_hash r \<and> doc_file_url s = doc_file_url r \<and>
    doc_edge\<^sup>*\<^sup>* (doc_status r) (doc_status s) \<and> (\<not> live_doc r \<longrightarrow> s = r)"
proof (induction rule: rtranclp_induct)
  case (step x y)
  then show ?case unfolding doc_evolves_def by (metis rtranclp.rtrancl_into_rtrancl)
qed auto

lemma task_evolves_star:
  "task_evolves\<^sup>*\<^sup>* r s \<Longrightarrow>
    task_id s = task_id r \<and> task_doc s = task_doc r \<and> task_type s = task_type r \<and>
    task_user s = task_user r \<and> task_tenant s = task_tenant r \<and>
    task_retry_count r \<le> task_retry_count s \<and>
    (task_status r = Success \<longrightarrow> task_status s = Success)"
proof (induction rule: rtranclp_induct)
  case (step x y)
  then show ?case unfolding task_evolves_def
    by (metis order_trans success_is_final)
qed auto

end
