(* ===== verification/Services.thy ===== *)
theory Services
  imports Program DbInvariant
begin

text \<open>
  What a process of the system sees: the database, the outside (object store, vector store,
  embedding model, JetStream, clock) behind the interface \<open>services\<close>, and a history of the
  outside calls that were accepted. The state \<open>'e\<close> of the outside and its functions are
  arbitrary, so every answer, failure and delay they can give is covered. Between two calls
  of a process the other processes may have committed transactions of their own.
\<close>

section \<open>Messages and the history of accepted calls\<close>

text \<open>The body of a published message: a task message, or a dead letter about one.\<close>

datatype jet_body =
    TaskBody task_message
  | DeadLetterBody task_type uid gostr gostr int

record jet_message =
  jm_subject :: string
  jm_id :: string
  jm_body :: jet_body

text \<open>A vector is the list of its 32-bit floats, by their bit patterns.\<close>

type_synonym vector = "nat list"

datatype call =
    Sent jet_message
  | Upserted "document_chunk list" "vector list"
  | VectorsDeleted uid "uid list"
  | SubjectVectorsDeleted uid uid
  | ObjectRemoved gostr gostr
  | ObjectStored gostr gostr

record 'e world =
  w_db :: db
  w_ext :: 'e
  w_log :: "call list"

section \<open>The interface to the outside\<close>

text \<open>
  A statement sent to PostgreSQL is executed, or refused without effect, or executed with its
  reply lost.
\<close>

datatype pg_fault = Executed | Refused gerr | ReplyLost gerr

record 'e services =
  sv_now :: "'e \<Rightarrow> int"
  sv_nano :: "'e \<Rightarrow> int"
  sv_uuid :: "'e \<Rightarrow> uid \<times> 'e"
  sv_sha :: "string \<Rightarrow> uid"
  sv_sha256 :: "gostr \<Rightarrow> string"
  sv_unicode :: unicode_tables
  sv_pg :: "'e \<Rightarrow> db \<Rightarrow> pg_fault \<times> 'e \<times> db"
  sv_publish :: "jet_message \<Rightarrow> 'e \<Rightarrow> gerr option \<times> 'e"
  sv_ack :: "'e \<Rightarrow> gerr option \<times> 'e"
  sv_parse :: "gostr \<Rightarrow> gostr \<Rightarrow> gostr \<Rightarrow> string \<Rightarrow> 'e \<Rightarrow> (gerr + gostr \<times> document_metadata json) \<times> 'e"
  sv_embed :: "uid \<Rightarrow> gostr list \<Rightarrow> 'e \<Rightarrow> (gerr + vector list) \<times> 'e"
  sv_upsert :: "document_chunk list \<Rightarrow> vector list \<Rightarrow> 'e \<Rightarrow> gerr option \<times> 'e"
  sv_delete_vectors :: "uid \<Rightarrow> uid list \<Rightarrow> 'e \<Rightarrow> gerr option \<times> 'e"
  sv_has_vectors :: "uid \<Rightarrow> uid \<Rightarrow> 'e \<Rightarrow> (gerr + bool) \<times> 'e"
  sv_delete_subject :: "uid \<Rightarrow> uid \<Rightarrow> 'e \<Rightarrow> gerr option \<times> 'e"
  sv_remove_object :: "gostr \<Rightarrow> gostr \<Rightarrow> 'e \<Rightarrow> gerr option \<times> 'e"
  sv_put_object :: "gostr \<Rightarrow> gostr \<Rightarrow> 'e \<Rightarrow> gerr option \<times> 'e"
  sv_lower :: "gostr \<Rightarrow> gostr"
  sv_ilike :: "gostr \<Rightarrow> gostr \<Rightarrow> bool"

type_synonym ('e, 'a) act = "('e world, 'a) prog"

text \<open>One transaction of a repository, at the database's time.\<close>

definition run_tx :: "'e services \<Rightarrow> (int \<Rightarrow> 'a tx) \<Rightarrow> ('e, 'a) act" where
  "run_tx sv q w =
     (case sv_pg sv (w_ext w) (w_db w) of
        (Refused x, e, d) \<Rightarrow> (Inl x, w\<lparr>w_db := d, w_ext := e\<rparr>)
      | (Executed, e, d) \<Rightarrow>
          (fst (q (sv_now sv e) d), w\<lparr>w_db := snd (q (sv_now sv e) d), w_ext := e\<rparr>)
      | (ReplyLost x, e, d) \<Rightarrow>
          (Inl x, w\<lparr>w_db := snd (q (sv_now sv e) d), w_ext := e\<rparr>))"

text \<open>A call to the outside that returns an error or nothing; an accepted call is recorded.\<close>

definition call_ext :: "('e \<Rightarrow> gerr option \<times> 'e) \<Rightarrow> call list \<Rightarrow> ('e, unit) act" where
  "call_ext f calls w =
     (case f (w_ext w) of
        (Some x, e) \<Rightarrow> (Inl x, w\<lparr>w_ext := e\<rparr>)
      | (None, e) \<Rightarrow> (Inr (), w\<lparr>w_ext := e, w_log := w_log w @ calls\<rparr>))"

definition query_ext :: "('e \<Rightarrow> (gerr + 'a) \<times> 'e) \<Rightarrow> ('e, 'a) act" where
  "query_ext f w = (fst (f (w_ext w)), w\<lparr>w_ext := snd (f (w_ext w))\<rparr>)"

definition new_uuid :: "'e services \<Rightarrow> ('e, uid) act" where
  "new_uuid sv w = (Inr (fst (sv_uuid sv (w_ext w))), w\<lparr>w_ext := snd (sv_uuid sv (w_ext w))\<rparr>)"

definition time_now :: "'e services \<Rightarrow> ('e, int) act" where
  "time_now sv w = (Inr (sv_now sv (w_ext w)), w)"

lemmas act_defs = attempt_def fail_def return_def wrap_error_def ignore_error_def call_ext_def
  query_ext_def new_uuid_def time_now_def

section \<open>Processes as sequences of transactions\<close>

text \<open>
  The other processes only commit transactions of the repositories. \<open>quiet\<close>: no other process
  runs and the database answers.
\<close>

definition disciplined :: "'e services \<Rightarrow> bool" where
  "disciplined sv \<longleftrightarrow> (\<forall>e d f e' d'. sv_pg sv e d = (f, e', d') \<longrightarrow> (tx_step (sv_sha sv))\<^sup>*\<^sup>* d d')"

definition quiet :: "'e services \<Rightarrow> bool" where
  "quiet sv \<longleftrightarrow> (\<forall>e d. \<exists>e'. sv_pg sv e d = (Executed, e', d))"

lemma quiet_disciplined: "quiet sv \<Longrightarrow> disciplined sv"
  unfolding quiet_def disciplined_def by (metis Pair_inject rtranclp.rtrancl_refl)

text \<open>A sequence of committed transactions.\<close>

definition tx_reach :: "'e services \<Rightarrow> db \<Rightarrow> db \<Rightarrow> bool" where
  "tx_reach sv d d' \<longleftrightarrow> (tx_step (sv_sha sv))\<^sup>*\<^sup>* d d'"

lemma tx_reach_refl [simp]: "tx_reach sv d d"
  by (simp add: tx_reach_def)

lemma tx_reach_trans: "tx_reach sv a b \<Longrightarrow> tx_reach sv b c \<Longrightarrow> tx_reach sv a c"
  by (simp add: tx_reach_def)

lemma tx_reach_step: "tx_reach sv a b \<Longrightarrow> tx_step (sv_sha sv) b c \<Longrightarrow> tx_reach sv a c"
  by (simp add: tx_reach_def)

lemma run_tx_reach:
  assumes "disciplined sv"
    and "\<And>now d. tx_reach sv (w_db w) d \<Longrightarrow> tx_step (sv_sha sv) d (snd (q now d)) \<or> snd (q now d) = d"
  shows "tx_reach sv (w_db w) (w_db (snd (run_tx sv q w)))"
proof -
  obtain f e d where pg: "sv_pg sv (w_ext w) (w_db w) = (f, e, d)" by (metis prod_cases3)
  then have d: "tx_reach sv (w_db w) d" using assms(1) by (auto simp: disciplined_def tx_reach_def)
  from assms(2) [OF d, of "sv_now sv e"] d tx_reach_step [OF d]
  have "tx_reach sv (w_db w) (snd (q (sv_now sv e) d))" by metis
  with pg d show ?thesis by (cases f) (simp_all add: run_tx_def)
qed

lemma call_ext_frame [simp]: "w_db (snd (call_ext f calls w)) = w_db w"
  by (simp add: call_ext_def split: prod.split option.split)

lemma query_ext_frame [simp]:
  "w_db (snd (query_ext f w)) = w_db w" "w_log (snd (query_ext f w)) = w_log w"
  by (simp_all add: query_ext_def)

lemma new_uuid_frame [simp]:
  "w_db (snd (new_uuid sv w)) = w_db w" "w_log (snd (new_uuid sv w)) = w_log w"
  by (simp_all add: new_uuid_def)

lemma run_tx_log [simp]: "w_log (snd (run_tx sv q w)) = w_log w"
  by (simp add: run_tx_def split: prod.split pg_fault.split)

text \<open>In a quiet world a transaction is what its definition says.\<close>

lemma run_tx_quiet:
  assumes "quiet sv"
  obtains now e where "run_tx sv q w = (fst (q now (w_db w)), w\<lparr>w_db := snd (q now (w_db w)), w_ext := e\<rparr>)"
proof -
  obtain e where e: "sv_pg sv (w_ext w) (w_db w) = (Executed, e, w_db w)"
    using assms unfolding quiet_def by blast
  show thesis by (rule that [of "sv_now sv e" e]) (simp add: run_tx_def e)
qed

section \<open>Actions that only commit transactions\<close>

text \<open>
  \<open>reaches sv I m\<close>: from a database that satisfies the stable condition \<open>I\<close>, the action only
  commits transactions (its own and those of other processes). The rules below follow the
  structure of an action; they are collected in \<open>reach_intros\<close>.
\<close>

named_theorems reach_intros \<open>actions that only commit transactions\<close>

definition reaches :: "'e services \<Rightarrow> (db \<Rightarrow> bool) \<Rightarrow> ('e, 'a) act \<Rightarrow> bool" where
  "reaches sv I m \<longleftrightarrow> (\<forall>w. I (w_db w) \<longrightarrow> tx_reach sv (w_db w) (w_db (snd (m w))))"

definition stable :: "'e services \<Rightarrow> (db \<Rightarrow> bool) \<Rightarrow> bool" where
  "stable sv I \<longleftrightarrow> (\<forall>d d'. I d \<longrightarrow> tx_reach sv d d' \<longrightarrow> I d')"

lemma reachesD: "reaches sv I m \<Longrightarrow> I (w_db w) \<Longrightarrow> tx_reach sv (w_db w) (w_db (snd (m w)))"
  by (simp add: reaches_def)

lemma stable_True [simp, intro]: "stable sv (\<lambda>_. True)"
  by (simp add: stable_def)

lemma reaches_same_db: "(\<And>w. w_db (snd (m w)) = w_db w) \<Longrightarrow> reaches sv I m"
  by (simp add: reaches_def)

lemma reaches_return [reach_intros]: "reaches sv I (return a)"
  by (rule reaches_same_db) (simp add: return_def)

lemma reaches_fail [reach_intros]: "reaches sv I (fail e)"
  by (rule reaches_same_db) (simp add: fail_def)

lemma reaches_new_uuid [reach_intros]: "reaches sv I (new_uuid sv)"
  by (rule reaches_same_db) simp

lemma reaches_time_now [reach_intros]: "reaches sv I (time_now sv)"
  by (rule reaches_same_db) (simp add: time_now_def)

lemma reaches_call_ext [reach_intros]: "reaches sv I (call_ext f calls)"
  by (rule reaches_same_db) simp

lemma reaches_query_ext [reach_intros]: "reaches sv I (query_ext f)"
  by (rule reaches_same_db) simp

lemma reaches_wrap_error [reach_intros]: "reaches sv I m \<Longrightarrow> reaches sv I (wrap_error p m)"
  unfolding reaches_def wrap_error_def
  by (auto split: prod.split sum.split)

lemma reaches_ignore_error [reach_intros]: "reaches sv I m \<Longrightarrow> reaches sv I (ignore_error m)"
  by (simp add: reaches_def ignore_error_def)

text \<open>An action that runs a second one on the first one's result.\<close>

lemma reaches_attempt_result:
  fixes m :: "('e, 'a) act" and k :: "'a \<Rightarrow> ('e, 'b) act"
  assumes "reaches sv I m"
    and "\<And>w a w'. I (w_db w) \<Longrightarrow> m w = (Inr a, w') \<Longrightarrow> J a (w_db w')"
    and "\<And>a. reaches sv (J a) (k a)"
  shows "reaches sv I (attempt m k)"
  unfolding reaches_def
proof (intro allI impI)
  fix w :: "'e world" assume I: "I (w_db w)"
  obtain r w' where m: "m w = (r, w')" by (cases "m w")
  from reachesD [OF assms(1) I] m have first: "tx_reach sv (w_db w) (w_db w')" by simp
  show "tx_reach sv (w_db w) (w_db (snd (attempt m k w)))"
  proof (cases r)
    case (Inl e)
    with m first show ?thesis by (simp add: attempt_def)
  next
    case (Inr a)
    from assms(2) [OF I] m Inr have "J a (w_db w')" by simp
    from reachesD [OF assms(3) this] first m Inr show ?thesis
      by (auto simp: attempt_def intro: tx_reach_trans)
  qed
qed

lemma reaches_attempt [reach_intros]:
  assumes "stable sv I" and "reaches sv I m" and "\<And>a. reaches sv I (k a)"
  shows "reaches sv I (attempt m k)"
proof (rule reaches_attempt_result [OF assms(2), where J = "\<lambda>_. I"])
  fix w a w' assume "I (w_db w)" and "m w = (Inr a, w')"
  with assms(1) reachesD [OF assms(2), of w] show "I (w_db w')" by (auto simp: stable_def)
qed (rule assms(3))

lemma reaches_run_tx:
  assumes "disciplined sv" and "stable sv I"
    and "\<And>now d. I d \<Longrightarrow> tx_step (sv_sha sv) d (snd (q now d)) \<or> snd (q now d) = d"
  shows "reaches sv I (run_tx sv q)"
  unfolding reaches_def
proof (intro allI impI)
  fix w :: "'a world" assume I: "I (w_db w)"
  show "tx_reach sv (w_db w) (w_db (snd (run_tx sv q w)))"
    using run_tx_reach [OF assms(1), of w q] I assms(2,3) unfolding stable_def by blast
qed

lemma reaches_read:
  "disciplined sv \<Longrightarrow> stable sv I \<Longrightarrow> (\<And>now d. snd (q now d) = d) \<Longrightarrow> reaches sv I (run_tx sv q)"
  by (rule reaches_run_tx) auto

text \<open>The result of a transaction in a database that the process could have seen.\<close>

lemma run_tx_Inr:
  assumes "run_tx sv q w = (Inr a, w')"
  obtains now e d where "sv_pg sv (w_ext w) (w_db w) = (Executed, e, d)"
    and "q now d = (Inr a, w_db w')"
  using assms unfolding run_tx_def
  by (auto split: prod.splits pg_fault.splits) (metis fst_conv prod.collapse snd_conv)

text \<open>A document once there stays there; its owner and its file stay the same.\<close>

definition has_doc :: "uid \<Rightarrow> db \<Rightarrow> bool" where
  "has_doc i d \<longleftrightarrow> i \<in> doc_id ` set (documents d)"

lemma tx_reach_docs:
  "tx_reach sv d d' \<Longrightarrow> doc_id ` set (documents d) \<subseteq> doc_id ` set (documents d')"
  unfolding tx_reach_def
  by (induction rule: rtranclp_induct) (auto dest!: tx_step_evolves db_evolves_doc_ids)

lemma stable_has_doc [simp, intro]: "stable sv (has_doc i)"
  unfolding stable_def has_doc_def using tx_reach_docs by blast

end
