(* ===== verification/TaskQueue.thy ===== *)
theory TaskQueue
  imports Services
begin

text \<open>
  \<open>internal/service/taskqueue/taskqueue.go\<close> and the publisher loop of
  \<open>internal/worker/manager.go\<close>: publishing a stored payload or a dead letter, and one tick of
  the loop that moves claimed outbox rows to JetStream.
\<close>

definition DeadLetterSubject :: string where
  "DeadLetterSubject = ''document.dlq''"

definition PublishPayloadWithHeaders ::
  "'e services \<Rightarrow> string \<Rightarrow> string \<Rightarrow> jet_body \<Rightarrow> ('e, unit) act" where
  "PublishPayloadWithHeaders sv subject msgid payload w =
     (let message = \<lparr>jm_subject = subject, jm_id = msgid, jm_body = payload\<rparr>
      in case call_ext (sv_publish sv message) [Sent message] w of
           (Inl err, w') \<Rightarrow> (Inl (Tagged PublishFailed err), w')
         | (Inr _, w') \<Rightarrow> (Inr (), w'))"

definition PublishPayload :: "'e services \<Rightarrow> string \<Rightarrow> string \<Rightarrow> jet_body \<Rightarrow> ('e, unit) act" where
  "PublishPayload sv subject msgid payload = PublishPayloadWithHeaders sv subject msgid payload"

definition Publish :: "'e services \<Rightarrow> string \<Rightarrow> uid \<Rightarrow> uid \<Rightarrow> string \<Rightarrow> ('e, unit) act" where
  "Publish sv subject taskID docID mode =
     PublishPayload sv subject taskID
       (TaskBody \<lparr>msg_task_id = taskID, msg_doc_id = docID,
          msg_processing_mode = NormalizeProcessingMode mode\<rparr>)"

definition dead_letter_id :: "int \<Rightarrow> uid \<Rightarrow> string" where
  "dead_letter_id nano taskID =
     (if taskID = [] then ''dlq:invalid:'' @ Itoa nano else ''dlq:'' @ taskID)"

definition PublishDeadLetter ::
  "'e services \<Rightarrow> task_type \<Rightarrow> uid \<Rightarrow> gostr \<Rightarrow> gerr \<Rightarrow> ('e, unit) act" where
  "PublishDeadLetter sv taskType taskID payload taskErr w =
     PublishPayload sv DeadLetterSubject (dead_letter_id (sv_nano sv (w_ext w)) taskID)
       (DeadLetterBody taskType taskID payload (err_text taskErr) (sv_now sv (w_ext w))) w"

section \<open>The publisher\<close>

fun publish_events :: "'e services \<Rightarrow> outbox_event list \<Rightarrow> 'e world \<Rightarrow> 'e world" where
  "publish_events sv [] w = w"
| "publish_events sv (event # events) w =
     (case PublishPayloadWithHeaders sv (task_type_text (ob_subject event)) (ob_task_id event)
             (TaskBody (ob_payload event)) w of
        (Inl err, w') \<Rightarrow>
          publish_events sv events
            (snd (run_tx sv (\<lambda>now. MarkFailed now (ob_id event) (err_text err)) w'))
      | (Inr _, w') \<Rightarrow>
          publish_events sv events (snd (run_tx sv (\<lambda>now. MarkPublished now (ob_id event)) w')))"

text \<open>One tick of \<open>publishOutbox\<close>.\<close>

definition publish_tick :: "'e services \<Rightarrow> 'e world \<Rightarrow> 'e world" where
  "publish_tick sv w =
     (case run_tx sv (\<lambda>now. ClaimBatch now 50) w of
        (Inl _, w') \<Rightarrow> w'
      | (Inr events, w') \<Rightarrow> publish_events sv events w')"

section \<open>Properties of publishing\<close>

lemma PublishPayload_frame [simp]:
  "w_db (snd (PublishPayloadWithHeaders sv subject msgid payload w)) = w_db w"
  by (simp add: PublishPayloadWithHeaders_def Let_def call_ext_def split: prod.split option.split)

lemma PublishDeadLetter_frame [simp]:
  "w_db (snd (PublishDeadLetter sv ty i payload err w)) = w_db w"
  by (simp add: PublishDeadLetter_def PublishPayload_def)

lemma PublishPayload_error:
  "fst (PublishPayloadWithHeaders sv subject msgid payload w) = Inl e \<Longrightarrow> errors_is e PublishFailed"
  by (auto simp: PublishPayloadWithHeaders_def Let_def split: prod.splits sum.splits)

lemma PublishPayload_log:
  "w_log (snd (PublishPayloadWithHeaders sv subject msgid payload w)) =
     (if \<exists>e. fst (PublishPayloadWithHeaders sv subject msgid payload w) = Inl e then w_log w
      else w_log w @ [Sent \<lparr>jm_subject = subject, jm_id = msgid, jm_body = payload\<rparr>])"
  by (simp add: PublishPayloadWithHeaders_def Let_def call_ext_def split: prod.split option.split)

lemma MarkFailed_step: "tx_step sha d (snd (MarkFailed now i m d))"
  by (rule tx_step.publish_failed)

lemma publish_events_reach:
  "disciplined sv \<Longrightarrow> tx_reach sv (w_db w) (w_db (publish_events sv events w))"
proof (induction sv events w rule: publish_events.induct)
  case (2 sv event events w)
  let ?p = "PublishPayloadWithHeaders sv (task_type_text (ob_subject event)) (ob_task_id event)
             (TaskBody (ob_payload event)) w"
  obtain r w' where p: "?p = (r, w')" by (cases ?p)
  then have db: "w_db w' = w_db w" by (metis PublishPayload_frame snd_conv)
  show ?case
  proof (cases r)
    case (Inl err)
    have "tx_reach sv (w_db w') (w_db (snd (run_tx sv (\<lambda>now. MarkFailed now (ob_id event) (err_text err)) w')))"
      by (rule run_tx_reach [OF "2.prems"]) (blast intro: tx_step.publish_failed)
    with 2(1) [OF p [symmetric] Inl "2.prems"] p Inl db show ?thesis
      by (auto intro: tx_reach_trans)
  next
    case (Inr u)
    have "tx_reach sv (w_db w') (w_db (snd (run_tx sv (\<lambda>now. MarkPublished now (ob_id event)) w')))"
      by (rule run_tx_reach [OF "2.prems"]) (blast intro: tx_step.published)
    with 2(2) [OF p [symmetric] Inr "2.prems"] p Inr db show ?thesis
      by (auto intro: tx_reach_trans)
  qed
qed simp

lemma publish_tick_reach:
  assumes "disciplined sv"
  shows "tx_reach sv (w_db w) (w_db (publish_tick sv w))"
proof -
  obtain r w' where c: "run_tx sv (\<lambda>now. ClaimBatch now 50) w = (r, w')" by (metis prod.collapse)
  have "tx_reach sv (w_db w) (w_db (snd (run_tx sv (\<lambda>now. ClaimBatch now 50) w)))"
    by (rule run_tx_reach [OF assms]) (blast intro: tx_step.claim_batch)
  with c publish_events_reach [OF assms, of w'] show ?thesis
    by (auto simp: publish_tick_def split: sum.split intro: tx_reach_trans)
qed

text \<open>What a tick leaves of each claimed message: sent and published, or due again later.\<close>

definition handled :: "call list \<Rightarrow> outbox_event \<Rightarrow> outbox_row \<Rightarrow> bool" where
  "handled log event r \<longleftrightarrow>
     (ob_published_at r \<noteq> None \<and>
        Sent \<lparr>jm_subject = task_type_text (ob_subject event), jm_id = ob_task_id event,
              jm_body = TaskBody (ob_payload event)\<rparr> \<in> set log) \<or>
     (ob_locked_at r = None \<and> ob_last_error r \<noteq> None)"

definition ob_row :: "uid \<Rightarrow> db \<Rightarrow> outbox_row option" where
  "ob_row i d = tbl_first (\<lambda>r. ob_id r = i) (task_outbox d)"

lemma ob_row_MarkPublished:
  "ob_row j (snd (MarkPublished now i d)) =
     map_option (\<lambda>r. if ob_id r = i then r\<lparr>ob_published_at := Some now, ob_locked_at := None,
                       ob_last_error := None\<rparr> else r) (ob_row j d)"
  by (simp add: ob_row_def MarkPublished_def tbl_first_update_any)

lemma ob_row_MarkFailed:
  "ob_row j (snd (MarkFailed now i m d)) =
     map_option (\<lambda>r. if ob_id r = i then r\<lparr>ob_attempts := Suc (ob_attempts r),
                       ob_next_attempt_at := now + retry_delay (ob_attempts r),
                       ob_locked_at := None, ob_last_error := Some m\<rparr> else r) (ob_row j d)"
  by (simp add: ob_row_def MarkFailed_def tbl_first_update_any)

lemma ob_row_id: "ob_row j d = Some r \<Longrightarrow> ob_id r = j"
  unfolding ob_row_def by (drule tbl_first_Some) simp

text \<open>One event of the loop, in a quiet world.\<close>

lemma publish_event_quiet:
  assumes "quiet sv"
  obtains w' where "publish_events sv (event # events) w = publish_events sv events w'"
    and "\<forall>r. ob_row (ob_id event) (w_db w) = Some r \<longrightarrow>
      (\<exists>s. ob_row (ob_id event) (w_db w') = Some s \<and> handled (w_log w') event s)"
    and "\<forall>j. j \<noteq> ob_id event \<longrightarrow> ob_row j (w_db w') = ob_row j (w_db w)"
    and "set (w_log w) \<subseteq> set (w_log w')"
proof -
  let ?m = "\<lparr>jm_subject = task_type_text (ob_subject event), jm_id = ob_task_id event,
              jm_body = TaskBody (ob_payload event)\<rparr>"
  let ?p = "PublishPayloadWithHeaders sv (task_type_text (ob_subject event)) (ob_task_id event)
             (TaskBody (ob_payload event)) w"
  obtain r w1 where p: "?p = (r, w1)" by (cases ?p)
  then have db: "w_db w1 = w_db w" by (metis PublishPayload_frame snd_conv)
  have log: "w_log w1 = (if \<exists>e. r = Inl e then w_log w else w_log w @ [Sent ?m])"
    using PublishPayload_log [of sv "task_type_text (ob_subject event)" "ob_task_id event"
        "TaskBody (ob_payload event)" w] by (simp add: p)
  have other: "j \<noteq> ob_id event \<Longrightarrow> map_option (\<lambda>r. if ob_id r = ob_id event then f r else r) (ob_row j d) =
      ob_row j d" for f j d
    by (cases "ob_row j d") (auto dest: ob_row_id)
  show thesis
  proof (cases r)
    case (Inl err)
    obtain now e where tx: "run_tx sv (\<lambda>now. MarkFailed now (ob_id event) (err_text err)) w1 =
        (fst (MarkFailed now (ob_id event) (err_text err) (w_db w1)),
         w1\<lparr>w_db := snd (MarkFailed now (ob_id event) (err_text err) (w_db w1)), w_ext := e\<rparr>)"
      by (rule run_tx_quiet [OF assms])
    show thesis
    proof (rule that)
      show "publish_events sv (event # events) w = publish_events sv events
          (w1\<lparr>w_db := snd (MarkFailed now (ob_id event) (err_text err) (w_db w1)), w_ext := e\<rparr>)"
        by (simp add: p Inl tx)
    qed (auto simp: ob_row_MarkFailed db other log Inl handled_def dest: ob_row_id)
  next
    case (Inr u)
    obtain now e where tx: "run_tx sv (\<lambda>now. MarkPublished now (ob_id event)) w1 =
        (fst (MarkPublished now (ob_id event) (w_db w1)),
         w1\<lparr>w_db := snd (MarkPublished now (ob_id event) (w_db w1)), w_ext := e\<rparr>)"
      by (rule run_tx_quiet [OF assms])
    show thesis
    proof (rule that)
      show "publish_events sv (event # events) w = publish_events sv events
          (w1\<lparr>w_db := snd (MarkPublished now (ob_id event) (w_db w1)), w_ext := e\<rparr>)"
        by (simp add: p Inr tx)
    qed (auto simp: ob_row_MarkPublished db other log Inr handled_def dest: ob_row_id)
  qed
qed

lemma handled_mono: "handled log event r \<Longrightarrow> set log \<subseteq> set log' \<Longrightarrow> handled log' event r"
  by (auto simp: handled_def)

lemma publish_events_frame:
  "quiet sv \<Longrightarrow> set (w_log w) \<subseteq> set (w_log (publish_events sv events w)) \<and>
    (\<forall>j. j \<notin> ob_id ` set events \<longrightarrow> ob_row j (w_db (publish_events sv events w)) = ob_row j (w_db w))"
proof (induction events arbitrary: w)
  case (Cons event events)
  obtain w' where w': "publish_events sv (event # events) w = publish_events sv events w'"
    "\<forall>j. j \<noteq> ob_id event \<longrightarrow> ob_row j (w_db w') = ob_row j (w_db w)" "set (w_log w) \<subseteq> set (w_log w')"
    using publish_event_quiet [OF Cons.prems, of event events w] by metis
  from Cons.IH [OF Cons.prems, of w'] w'(2,3) show ?case unfolding w'(1) by auto
qed simp

lemma publish_events_handled:
  "quiet sv \<Longrightarrow> distinct (map ob_id events) \<Longrightarrow> event \<in> set events \<Longrightarrow>
    ob_row (ob_id event) (w_db w) = Some r \<Longrightarrow>
    \<exists>s. ob_row (ob_id event) (w_db (publish_events sv events w)) = Some s \<and>
      handled (w_log (publish_events sv events w)) event s"
proof (induction events arbitrary: w)
  case (Cons e events)
  obtain w' where w': "publish_events sv (e # events) w = publish_events sv events w'"
    "\<forall>r. ob_row (ob_id e) (w_db w) = Some r \<longrightarrow>
      (\<exists>s. ob_row (ob_id e) (w_db w') = Some s \<and> handled (w_log w') e s)"
    "\<forall>j. j \<noteq> ob_id e \<longrightarrow> ob_row j (w_db w') = ob_row j (w_db w)"
    using publish_event_quiet [OF Cons.prems(1), of e events w] by metis
  show ?case
  proof (cases "event = e")
    case True
    with Cons.prems(2) have "ob_id event \<notin> ob_id ` set events" by simp
    with True publish_events_frame [OF Cons.prems(1), of w' events] w'(2) Cons.prems(4)
    show ?thesis unfolding w'(1) by (auto intro: handled_mono)
  next
    case False
    with Cons.prems(3) have "event \<in> set events" by simp
    with Cons.prems(2) have "ob_id event \<noteq> ob_id e"
      by (metis distinct.simps(2) image_eqI list.set_map list.simps(9))
    note this \<open>event \<in> set events\<close>
    with Cons.IH [OF Cons.prems(1), of w'] Cons.prems w'(3) show ?thesis unfolding w'(1) by simp
  qed
qed simp

end
