(* ===== verification/Chunker.thy ===== *)
theory Chunker
  imports GoText Tables
begin

text \<open>
  \<open>internal/service/documentchunk/chunker.go\<close>: how the text of a document becomes its chunks.
  The loop that cuts a segment may run forever or index out of range for arbitrary sizes, so
  it is an optional value; with the sizes that \<open>normalizeConfig\<close> produces it always returns.
  SHA-256 in hexadecimal and the name-based UUID are parameters.
\<close>

section \<open>Definitions\<close>

record chunking_conf =
  cc_version :: gostr
  cc_size :: int
  cc_overlap :: int
  cc_min_size :: int
  cc_lookback :: int

definition chunk_min :: "int \<Rightarrow> int \<Rightarrow> int" where
  "chunk_min a b = (if a < b then a else b)"

definition chunk_max :: "int \<Rightarrow> int \<Rightarrow> int" where
  "chunk_max a b = (if a > b then a else b)"

definition normalizeConfig :: "chunking_conf \<Rightarrow> int \<times> int \<times> int \<times> int" where
  "normalizeConfig value =
     (let sz = (if cc_size value < 200 then 800 else cc_size value);
          overlap = (if cc_overlap value < 0 \<or> cc_overlap value \<ge> sz then 120 else cc_overlap value);
          minSize = (if cc_min_size value < 1 \<or> cc_min_size value \<ge> sz then 120
                     else cc_min_size value);
          lookback = (if cc_lookback value < 0 \<or> cc_lookback value \<ge> sz then 160
                      else cc_lookback value)
      in (sz, overlap, minSize, lookback))"

definition normalizeBlockType :: "gostr \<Rightarrow> gostr" where
  "normalizeBlockType value = (if value = [] then lit ''paragraph'' else value)"

text \<open>The sentence ends: newline, and the Chinese and ASCII full stop, marks and semicolon.\<close>

definition sentence_end :: "rune \<Rightarrow> bool" where
  "sentence_end r \<longleftrightarrow> r \<in> set [0x3002, 0xFF01, 0xFF1F, 46, 33, 63, 59, 0xFF1B]"

definition boundary_rune :: "rune \<Rightarrow> bool" where
  "boundary_rune r \<longleftrightarrow> r = 10 \<or> sentence_end r"

text \<open>The scan of \<open>findBoundary\<close>, counting the index down to \<open>lower\<close>.\<close>

function scan_boundary :: "gostr \<Rightarrow> int \<Rightarrow> int \<Rightarrow> int option" where
  "scan_boundary runes lower index =
     (if \<not> index > lower then None
      else if boundary_rune (runes ! nat (index - 1)) then Some index
      else scan_boundary runes lower (index - 1))"
  by pat_completeness auto
termination
  by (relation "measure (\<lambda>(_, lower, index). nat (index - lower))") auto

declare scan_boundary.simps [simp del]

definition findBoundary :: "gostr \<Rightarrow> int \<Rightarrow> int \<Rightarrow> int \<Rightarrow> int \<Rightarrow> int" where
  "findBoundary runes start end lookback minSize =
     (case scan_boundary runes (chunk_max (start + minSize) (end - lookback)) end of
        Some index \<Rightarrow> index
      | None \<Rightarrow> end)"

text \<open>\<open>runes[start:end]\<close>; a slice out of range panics.\<close>

definition slice :: "gostr \<Rightarrow> int \<Rightarrow> int \<Rightarrow> gostr option" where
  "slice runes a b =
     (if 0 \<le> a \<and> a \<le> b \<and> b \<le> int (length runes)
      then Some (take (nat b - nat a) (drop (nat a) runes)) else None)"

text \<open>The loop over \<open>start\<close>; \<open>None\<close> is a panic or a loop that does not end.\<close>

partial_function (option) split_loop ::
  "gostr \<Rightarrow> int \<Rightarrow> int \<Rightarrow> int \<Rightarrow> int \<Rightarrow> int \<Rightarrow> gostr list \<Rightarrow> gostr list option" where
  "split_loop runes sz overlap minSize lookback start result =
     (if \<not> start < int (length runes) then Some result
      else
        (let end0 = chunk_min (start + sz) (int (length runes));
             end1 = (if end0 < int (length runes)
                     then findBoundary runes start end0 lookback minSize else end0)
         in case slice runes start end1 of
              None \<Rightarrow> None
            | Some piece \<Rightarrow>
               (let content = TrimSpace piece;
                    result' = (if content \<noteq> [] then result @ [content] else result);
                    next = (if end1 - overlap \<le> start then end1 else end1 - overlap)
                in if end1 \<ge> int (length runes) then Some result'
                   else split_loop runes sz overlap minSize lookback next result')))"

declare split_loop.simps [code]

definition splitSegment :: "gostr \<Rightarrow> int \<Rightarrow> int \<Rightarrow> int \<Rightarrow> int \<Rightarrow> gostr list option" where
  "splitSegment text sz overlap minSize lookback =
     (let runes = TrimSpace text
      in if runes = [] then Some [] else split_loop runes sz overlap minSize lookback 0 [])"

text \<open>The first sentence end among the runes 80 to 119, or a cut at 120.\<close>

definition summarize :: "gostr \<Rightarrow> gostr" where
  "summarize text =
     (let runes = Join (Fields text) [32]
      in if length runes \<le> 120 then runes
         else (case filter (\<lambda>index. sentence_end (runes ! index)) [80..<120] of
                 index # _ \<Rightarrow> TrimSpace (take (index + 1) runes)
               | [] \<Rightarrow> TrimSpace (take 120 runes)))"

text \<open>
  \<open>extractKeywords\<close> walks the tokens of the section and of the content and returns as soon as
  it has eight; the map of seen tokens holds the tokens of the result.
\<close>

fun collect_keywords :: "gostr list \<Rightarrow> gostr list \<Rightarrow> gostr list" where
  "collect_keywords [] result = result"
| "collect_keywords (token # tokens) result =
     (let token = TrimSpace token
      in if length token < 2 \<or> length token > 32 \<or> token \<in> set result
         then collect_keywords tokens result
         else if length result + 1 = 8 then result @ [token]
         else collect_keywords tokens (result @ [token]))"

definition extractKeywords :: "unicode_tables \<Rightarrow> gostr \<Rightarrow> gostr \<Rightarrow> gostr list" where
  "extractKeywords u section content =
     (let sep = (\<lambda>r. \<not> isLetter u r \<and> \<not> isDigit u r)
      in collect_keywords (FieldsFunc sep section @ FieldsFunc sep content) [])"

text \<open>The name whose UUID identifies a chunk: document, version, content hash and position.\<close>

definition chunk_name :: "document \<Rightarrow> string \<Rightarrow> nat \<Rightarrow> string" where
  "chunk_name doc hash n =
     doc_id doc @ '':'' @ Itoa (doc_version doc) @ '':'' @ hash @ '':'' @ Itoa (int n)"

record chunk_env =
  ce_unicode :: unicode_tables
  ce_sha256 :: "gostr \<Rightarrow> string"
  ce_uuid :: "string \<Rightarrow> uid"
  ce_now :: int

definition make_chunk :: "chunk_env \<Rightarrow> document \<Rightarrow> parse_segment \<Rightarrow> gostr \<Rightarrow> nat \<Rightarrow> document_chunk" where
  "make_chunk env doc segment content n =
     (let hash = ce_sha256 env content
      in \<lparr>ch_id = ce_uuid env (chunk_name doc hash n), ch_tenant = doc_tenant doc,
          ch_doc = doc_id doc, ch_subject = doc_subject doc, ch_user = doc_user doc,
          ch_index = int n, ch_content = content, ch_page = seg_page segment,
          ch_section = seg_section segment,
          ch_metadata = JValue \<lparr>cm_heading_path = seg_heading_path segment,
             cm_block_type = normalizeBlockType (seg_block_type segment),
             cm_keywords = extractKeywords (ce_unicode env) (seg_section segment) content,
             cm_summary = summarize content, cm_source_type = doc_file_type doc\<rparr>,
          ch_token_count = int (length content), ch_doc_version = doc_version doc,
          ch_content_hash = hash, ch_embedding_provider = doc_embedding_provider doc,
          ch_embedding_model = doc_embedding_model doc,
          ch_embedding_dimension = doc_embedding_dimension doc,
          ch_chunk_strategy = doc_chunk_strategy doc, ch_created_at = ce_now env,
          ch_updated_at = ce_now env\<rparr>)"

fun add_contents :: "chunk_env \<Rightarrow> document \<Rightarrow> parse_segment \<Rightarrow> gostr list \<Rightarrow> document_chunk list \<Rightarrow>
    document_chunk list" where
  "add_contents env doc segment [] chunks = chunks"
| "add_contents env doc segment (content # contents) chunks =
     add_contents env doc segment contents
       (chunks @ [make_chunk env doc segment content (length chunks)])"

fun build_segments :: "chunk_env \<Rightarrow> document \<Rightarrow> int \<times> int \<times> int \<times> int \<Rightarrow> parse_segment list \<Rightarrow>
    document_chunk list \<Rightarrow> document_chunk list option" where
  "build_segments env doc conf [] chunks = Some chunks"
| "build_segments env doc (sz, overlap, minSize, lookback) (segment # segments) chunks =
     (case splitSegment (seg_content segment) sz overlap minSize lookback of
        None \<Rightarrow> None
      | Some contents \<Rightarrow>
          build_segments env doc (sz, overlap, minSize, lookback) segments
            (add_contents env doc segment contents chunks))"

definition plain_segment :: "document \<Rightarrow> parse_segment" where
  "plain_segment doc = \<lparr>seg_page = 0, seg_section = [], seg_heading_path = [],
     seg_block_type = lit ''paragraph'', seg_content = doc_plain_text doc\<rparr>"

definition document_segments :: "document \<Rightarrow> gerr + parse_segment list" where
  "document_segments doc =
     (case doc_metadata doc of
        JInvalid e \<Rightarrow> Inl e
      | JEmpty \<Rightarrow> Inr [plain_segment doc]
      | JValue segments \<Rightarrow> Inr (if segments = [] then [plain_segment doc] else segments))"

definition no_chunkable_content :: gerr where
  "no_chunkable_content = Plain (lit ''document has no chunkable content'')"

definition Build :: "chunk_env \<Rightarrow> document \<Rightarrow> chunking_conf \<Rightarrow> (gerr + document_chunk list) option" where
  "Build env doc chunking =
     (case document_segments doc of
        Inl e \<Rightarrow> Some (Inl e)
      | Inr segments \<Rightarrow>
         (case build_segments env doc (normalizeConfig chunking) segments [] of
            None \<Rightarrow> None
          | Some chunks \<Rightarrow>
              Some (if chunks = [] then Inl no_chunkable_content else Inr chunks)))"

section \<open>Cutting a segment\<close>

lemma scan_boundary_range:
  "scan_boundary runes lower index = Some i \<Longrightarrow> lower < i \<and> i \<le> index \<and> boundary_rune (runes ! nat (i - 1))"
proof (induction runes lower index rule: scan_boundary.induct)
  case (1 runes lower index)
  then show ?case
    by (subst (asm) (2) scan_boundary.simps) (fastforce split: if_splits)
qed

lemma findBoundary_range:
  assumes "start < end" and "0 \<le> minSize"
  shows "start < findBoundary runes start end lookback minSize \<and>
    findBoundary runes start end lookback minSize \<le> end"
  using assms scan_boundary_range [of runes "chunk_max (start + minSize) (end - lookback)" "end"]
  by (fastforce simp: findBoundary_def chunk_max_def split: option.split if_splits)

text \<open>The sizes for which the loop makes progress and skips nothing.\<close>

definition good_sizes :: "int \<Rightarrow> int \<Rightarrow> int \<Rightarrow> bool" where
  "good_sizes sz overlap minSize \<longleftrightarrow> 0 < sz \<and> 0 \<le> overlap \<and> 0 \<le> minSize"

lemma normalizeConfig_good:
  "normalizeConfig c = (sz, overlap, minSize, lookback) \<Longrightarrow>
    good_sizes sz overlap minSize \<and> 200 \<le> sz \<and> overlap < sz \<and> minSize < sz \<and> 0 < minSize \<and>
    0 \<le> lookback \<and> lookback < sz"
  by (auto simp: normalizeConfig_def Let_def good_sizes_def split: if_splits)

definition window_end :: "gostr \<Rightarrow> int \<Rightarrow> int \<Rightarrow> int \<Rightarrow> int \<Rightarrow> int" where
  "window_end runes sz minSize lookback start =
     (let end0 = chunk_min (start + sz) (int (length runes))
      in if end0 < int (length runes) then findBoundary runes start end0 lookback minSize else end0)"

lemma window_end_range:
  assumes "start < int (length runes)" and "0 < sz" and "0 \<le> minSize"
  shows "start < window_end runes sz minSize lookback start"
    and "window_end runes sz minSize lookback start \<le> start + sz"
    and "window_end runes sz minSize lookback start \<le> int (length runes)"
  using assms findBoundary_range [of start "start + sz" minSize runes lookback]
  by (auto simp: window_end_def chunk_min_def Let_def)

definition next_start :: "int \<Rightarrow> int \<Rightarrow> int \<Rightarrow> int" where
  "next_start overlap start e = (if e - overlap \<le> start then e else e - overlap)"

lemma next_start_range:
  "start < e \<Longrightarrow> 0 \<le> overlap \<Longrightarrow> start < next_start overlap start e \<and> next_start overlap start e \<le> e"
  by (simp add: next_start_def)

definition add_piece :: "gostr list \<Rightarrow> gostr \<Rightarrow> gostr list" where
  "add_piece result piece = (if TrimSpace piece \<noteq> [] then result @ [TrimSpace piece] else result)"

text \<open>One turn of the loop, and the induction over its turns.\<close>

lemma split_loop_turn:
  assumes "start < int (length runes)" and "0 \<le> start" and "0 < sz" and "0 \<le> minSize"
  obtains e piece where "e = window_end runes sz minSize lookback start"
    and "slice runes start e = Some piece"
    and "split_loop runes sz overlap minSize lookback start result =
      (if e \<ge> int (length runes) then Some (add_piece result piece)
       else split_loop runes sz overlap minSize lookback (next_start overlap start e)
              (add_piece result piece))"
proof -
  let ?e = "window_end runes sz minSize lookback start"
  obtain piece where "slice runes start ?e = Some piece"
    using window_end_range [OF assms(1,3,4)] assms(2) by (simp add: slice_def order.strict_implies_order)
  with assms(1) show ?thesis
    by (intro that [of ?e piece]; (subst split_loop.simps)?)
      (simp_all add: window_end_def add_piece_def next_start_def Let_def)
qed

lemma split_loop_induct:
  assumes good: "good_sizes sz overlap minSize" and "0 \<le> start"
    and fin: "\<And>start. start \<ge> int (length runes) \<Longrightarrow> P start []"
    and turn: "\<And>start e piece pieces. 0 \<le> start \<Longrightarrow> start < int (length runes) \<Longrightarrow>
        start < e \<Longrightarrow> e \<le> start + sz \<Longrightarrow> e \<le> int (length runes) \<Longrightarrow> slice runes start e = Some piece \<Longrightarrow>
        (if e \<ge> int (length runes) then pieces = [] else P (next_start overlap start e) pieces) \<Longrightarrow>
        P start (add_piece [] piece @ pieces)"
  shows "\<exists>pieces. split_loop runes sz overlap minSize lookback start result = Some (result @ pieces) \<and>
    P start pieces"
  using assms(2)
proof (induction "nat (int (length runes) - start)" arbitrary: start result rule: less_induct)
  case less
  show ?case
  proof (cases "start < int (length runes)")
    case False
    with fin show ?thesis by (subst split_loop.simps) simp
  next
    case True
    have pos: "0 < sz" "0 \<le> minSize" "0 \<le> overlap" using good by (auto simp: good_sizes_def)
    obtain e piece where e: "e = window_end runes sz minSize lookback start"
      and piece: "slice runes start e = Some piece"
      and loop: "split_loop runes sz overlap minSize lookback start result =
        (if e \<ge> int (length runes) then Some (add_piece result piece)
         else split_loop runes sz overlap minSize lookback (next_start overlap start e)
                (add_piece result piece))"
      using split_loop_turn [OF True less.prems pos(1,2)] by blast
    note range = window_end_range [OF True pos(1,2), of lookback, folded e]
    note turn' = turn [OF less.prems True range piece]
    have add: "add_piece result piece = result @ add_piece [] piece" by (simp add: add_piece_def)
    show ?thesis
    proof (cases "e \<ge> int (length runes)")
      case e_end: True
      with turn' [of "[]"] loop add show ?thesis by auto
    next
      case False
      note nxt = next_start_range [OF range(1) pos(3)]
      from less.hyps [of "next_start overlap start e" "add_piece result piece"] nxt less.prems True
      obtain pieces where "split_loop runes sz overlap minSize lookback (next_start overlap start e)
          (add_piece result piece) = Some (add_piece result piece @ pieces)"
        and "P (next_start overlap start e) pieces" by (auto simp: order.strict_implies_order)
      with False turn' [of pieces] loop add show ?thesis by auto
    qed
  qed
qed

text \<open>What a list of chunk contents guarantees for the segment it was cut from.\<close>

definition good_contents :: "int \<Rightarrow> gostr list \<Rightarrow> bool" where
  "good_contents sz contents \<longleftrightarrow>
     (\<forall>c \<in> set contents. c \<noteq> [] \<and> trimmed c \<and> int (length c) \<le> sz)"

definition covers :: "gostr \<Rightarrow> gostr list \<Rightarrow> int \<Rightarrow> bool" where
  "covers runes contents i \<longleftrightarrow>
     (\<exists>a b piece. slice runes a b = Some piece \<and> a \<le> i \<and> i < b \<and> TrimSpace piece \<in> set contents)"

lemma add_piece_Nil: "add_piece [] piece = (if TrimSpace piece \<noteq> [] then [TrimSpace piece] else [])"
  by (simp add: add_piece_def)

lemma slice_length: "slice runes a b = Some piece \<Longrightarrow> int (length piece) = b - a"
  by (auto simp: slice_def min_def split: if_splits)

lemma slice_nth: "slice runes a b = Some piece \<Longrightarrow> a \<le> i \<Longrightarrow> i < b \<Longrightarrow> runes ! nat i \<in> set piece"
proof -
  assume *: "slice runes a b = Some piece" "a \<le> i" "i < b"
  then have "nat (i - a) < length piece" using slice_length [OF *(1)] by linarith
  moreover have "piece ! nat (i - a) = runes ! nat i"
    using * by (auto simp: slice_def nat_diff_distrib split: if_splits)
  ultimately show ?thesis by (metis nth_mem)
qed

text \<open>The runes that are not white space.\<close>

definition inked :: "gostr \<Rightarrow> gostr" where
  "inked s = filter (\<lambda>r. \<not> isSpace r) s"

lemma splitSegment_loop:
  "splitSegment text sz overlap minSize lookback =
     split_loop (TrimSpace text) sz overlap minSize lookback 0 []"
  by (cases "TrimSpace text = []") (simp_all add: splitSegment_def split_loop.simps [of "[]"])

lemma inked_Nil [simp]: "inked [] = []"
  by (simp add: inked_def)

lemma inked_append [simp]: "inked (s @ t) = inked s @ inked t"
  by (simp add: inked_def)

lemma splitSegment_spec:
  assumes "good_sizes sz overlap minSize"
  shows "\<exists>contents. splitSegment text sz overlap minSize lookback = Some contents \<and>
    good_contents sz contents \<and>
    (\<forall>i. 0 \<le> i \<longrightarrow> i < int (length (TrimSpace text)) \<longrightarrow> \<not> isSpace (TrimSpace text ! nat i) \<longrightarrow>
      covers (TrimSpace text) contents i)"
proof -
  let ?t = "TrimSpace text"
  let ?P = "\<lambda>start contents. good_contents sz contents \<and>
    (\<forall>i. start \<le> i \<longrightarrow> i < int (length ?t) \<longrightarrow> \<not> isSpace (?t ! nat i) \<longrightarrow> covers ?t contents i)"
  have "\<exists>pieces. split_loop ?t sz overlap minSize lookback 0 [] = Some ([] @ pieces) \<and> ?P 0 pieces"
  proof (rule split_loop_induct [OF assms], goal_cases)
    case (3 start e piece pieces)
    have new: "covers ?t (add_piece [] piece @ pieces) i"
      if "start \<le> i" "i < e" "\<not> isSpace (?t ! nat i)" for i
      using slice_nth [OF 3(6) that(1,2)] that 3(6)
      by (fastforce simp: covers_def add_piece_Nil TrimSpace_Nil_iff)
    have old: "covers ?t pieces i \<Longrightarrow> covers ?t (add_piece [] piece @ pieces) i" for i
      by (auto simp: covers_def)
    have "good_contents sz (add_piece [] piece)"
      using slice_length [OF 3(6)] 3(4) length_TrimSpace [of piece]
      by (auto simp: add_piece_Nil good_contents_def trimmed_TrimSpace)
    moreover have "covers ?t (add_piece [] piece @ pieces) i"
      if i: "start \<le> i" "i < int (length ?t)" "\<not> isSpace (?t ! nat i)" for i
    proof (cases "i < e")
      case True
      then show ?thesis using new i by simp
    next
      case False
      then have "\<not> e \<ge> int (length ?t)" using i by simp
      moreover have "next_start overlap start e \<le> i"
        using False 3(3) assms by (auto simp: next_start_def good_sizes_def)
      ultimately show ?thesis using 3(7) i old by auto
    qed
    moreover have "good_contents sz pieces" using 3(7) by (auto simp: good_contents_def split: if_splits)
    ultimately show ?case by (auto simp: good_contents_def)
  qed (auto simp: good_contents_def)
  then show ?thesis by (auto simp: splitSegment_loop)
qed

text \<open>Without overlap the inked runes of the pieces are those of the text, in order.\<close>

lemma inked_add_piece: "concat (map inked (add_piece [] piece)) = inked piece"
proof (cases "TrimSpace piece = []")
  case True
  then have "inked piece = []" by (simp add: TrimSpace_Nil_iff inked_def filter_empty_conv)
  with True show ?thesis by (simp add: add_piece_Nil)
next
  case False
  then show ?thesis by (simp add: add_piece_Nil inked_def TrimSpace_keeps)
qed

lemma drop_slice:
  assumes "slice runes a b = Some piece"
  shows "drop (nat a) runes = piece @ drop (nat b) runes"
proof -
  from assms have p: "piece = take (nat b - nat a) (drop (nat a) runes)" and "nat a \<le> nat b"
    by (auto simp: slice_def split: if_splits)
  then show ?thesis by (metis append_take_drop_id drop_drop le_add_diff_inverse2)
qed

lemma splitSegment_partition:
  assumes "0 < sz" and "0 \<le> minSize"
  shows "\<exists>contents. splitSegment text sz 0 minSize lookback = Some contents \<and>
    concat (map inked contents) = inked text"
proof -
  let ?t = "TrimSpace text"
  let ?P = "\<lambda>start contents. concat (map inked contents) = inked (drop (nat start) ?t)"
  have "\<exists>pieces. split_loop ?t sz 0 minSize lookback 0 [] = Some ([] @ pieces) \<and> ?P 0 pieces"
  proof (rule split_loop_induct, goal_cases)
    case (4 start e piece pieces)
    have "concat (map inked pieces) = inked (drop (nat e) ?t)"
      using 4(3,7) by (auto simp: next_start_def split: if_splits)
    then show ?case
      using drop_slice [OF 4(6)] inked_add_piece [of piece] by simp
  qed (use assms in \<open>auto simp: good_sizes_def inked_def\<close>)
  moreover have "inked ?t = inked text" by (simp add: inked_def TrimSpace_keeps)
  ultimately show ?thesis by (auto simp: splitSegment_loop)
qed

section \<open>The chunks of a document\<close>

definition norm_size :: "chunking_conf \<Rightarrow> int" where
  "norm_size c = fst (normalizeConfig c)"

text \<open>The chunk at position \<open>n\<close> is made from a piece of one of the segments.\<close>

definition numbered :: "chunk_env \<Rightarrow> document \<Rightarrow> int \<Rightarrow> parse_segment list \<Rightarrow> document_chunk list \<Rightarrow> bool" where
  "numbered env doc sz segments chunks \<longleftrightarrow>
     (\<forall>n < length chunks. \<exists>segment \<in> set segments. \<exists>content.
        chunks ! n = make_chunk env doc segment content n \<and>
        content \<noteq> [] \<and> trimmed content \<and> int (length content) \<le> sz)"

lemma numbered_Nil [simp]: "numbered env doc sz segments []"
  by (simp add: numbered_def)

lemma numbered_snoc:
  "numbered env doc sz segments chunks \<Longrightarrow> segment \<in> set segments \<Longrightarrow> content \<noteq> [] \<Longrightarrow>
    trimmed content \<Longrightarrow> int (length content) \<le> sz \<Longrightarrow>
    numbered env doc sz segments (chunks @ [make_chunk env doc segment content (length chunks)])"
  unfolding numbered_def by (auto simp: nth_append less_Suc_eq)

lemma add_contents_numbered:
  "numbered env doc sz segments chunks \<Longrightarrow> segment \<in> set segments \<Longrightarrow> good_contents sz contents \<Longrightarrow>
    numbered env doc sz segments (add_contents env doc segment contents chunks)"
  by (induction env doc segment contents chunks rule: add_contents.induct)
    (auto simp: good_contents_def intro: numbered_snoc)

lemma ch_content_make_chunk [simp]: "ch_content (make_chunk env doc segment content n) = content"
  by (simp add: make_chunk_def Let_def)

lemma ch_id_make_chunk [simp]:
  "ch_id (make_chunk env doc segment content n) =
     ce_uuid env (chunk_name doc (ce_sha256 env content) n)"
  by (simp add: make_chunk_def Let_def)

lemma add_contents_contents:
  "map ch_content (add_contents env doc segment contents chunks) = map ch_content chunks @ contents"
  by (induction env doc segment contents chunks rule: add_contents.induct) auto

lemma covers_mono: "covers runes cs i \<Longrightarrow> set cs \<subseteq> set ds \<Longrightarrow> covers runes ds i"
  by (auto simp: covers_def)

text \<open>Every rune of the segment that is not white space is in one of the contents.\<close>

definition segment_covered :: "parse_segment \<Rightarrow> gostr list \<Rightarrow> bool" where
  "segment_covered segment contents \<longleftrightarrow>
     (\<forall>i. 0 \<le> i \<longrightarrow> i < int (length (TrimSpace (seg_content segment))) \<longrightarrow>
        \<not> isSpace (TrimSpace (seg_content segment) ! nat i) \<longrightarrow>
        covers (TrimSpace (seg_content segment)) contents i)"

lemma segment_covered_mono:
  "segment_covered segment cs \<Longrightarrow> set cs \<subseteq> set ds \<Longrightarrow> segment_covered segment ds"
  unfolding segment_covered_def using covers_mono by blast

lemma build_segments_spec:
  assumes "good_sizes sz overlap minSize" and "set segments \<subseteq> set all"
    and "numbered env doc sz all chunks"
  shows "\<exists>out. build_segments env doc (sz, overlap, minSize, lookback) segments chunks = Some out \<and>
    numbered env doc sz all out \<and> set (map ch_content chunks) \<subseteq> set (map ch_content out) \<and>
    (\<forall>segment \<in> set segments. segment_covered segment (map ch_content out))"
  using assms(2,3)
proof (induction segments arbitrary: chunks)
  case (Cons segment segments)
  from splitSegment_spec [OF assms(1), of "seg_content segment" lookback] obtain contents
    where contents: "splitSegment (seg_content segment) sz overlap minSize lookback = Some contents"
      "good_contents sz contents" "segment_covered segment contents"
    unfolding segment_covered_def by auto
  let ?chunks = "add_contents env doc segment contents chunks"
  have "numbered env doc sz all ?chunks"
    using Cons.prems contents(2) by (auto intro: add_contents_numbered)
  from Cons.IH [OF _ this] Cons.prems(1) obtain out where
    out: "build_segments env doc (sz, overlap, minSize, lookback) segments ?chunks = Some out"
      "numbered env doc sz all out" "set (map ch_content ?chunks) \<subseteq> set (map ch_content out)"
      "\<forall>segment \<in> set segments. segment_covered segment (map ch_content out)"
    by (auto simp del: set_map)
  have "set contents \<subseteq> set (map ch_content out)"
    and "set (map ch_content chunks) \<subseteq> set (map ch_content out)"
    using out(3) unfolding add_contents_contents by auto
  with contents out segment_covered_mono [of segment contents "map ch_content out"]
  show ?case by auto
qed simp

lemma Build_spec:
  "\<exists>r. Build env doc conf = Some r \<and>
    (\<forall>chunks. r = Inr chunks \<longrightarrow> chunks \<noteq> [] \<and>
      (\<exists>segments. document_segments doc = Inr segments \<and>
        numbered env doc (norm_size conf) segments chunks \<and>
        (\<forall>segment \<in> set segments. segment_covered segment (map ch_content chunks))))"
proof (cases "document_segments doc")
  case (Inl e)
  then show ?thesis by (simp add: Build_def)
next
  case (Inr segments)
  obtain sz overlap minSize lookback where conf: "normalizeConfig conf = (sz, overlap, minSize, lookback)"
    by (cases "normalizeConfig conf") auto
  have "good_sizes sz overlap minSize" using normalizeConfig_good [OF conf] by simp
  from build_segments_spec [OF this, of segments segments env doc "[]" lookback]
  obtain out where "build_segments env doc (normalizeConfig conf) segments [] = Some out"
    "numbered env doc sz segments out"
    "\<forall>segment \<in> set segments. segment_covered segment (map ch_content out)"
    by (auto simp: conf)
  with Inr conf show ?thesis by (auto simp: Build_def norm_size_def)
qed

text \<open>Positions make the names of the chunks of one document different.\<close>

lemma after_last_colon:
  assumes "\<forall>c \<in> set s. c \<noteq> CHR '':''" and "\<forall>c \<in> set t. c \<noteq> CHR '':''"
    and "a @ CHR '':'' # s = b @ CHR '':'' # t"
  shows "s = t"
proof -
  have "takeWhile (\<lambda>c. c \<noteq> CHR '':'') (rev (x @ CHR '':'' # y)) = rev y"
    if "\<forall>c \<in> set y. c \<noteq> CHR '':''" for x y
    using that by (simp add: takeWhile_append)
  with assms show ?thesis by (metis rev_rev_ident)
qed

lemma digit_char_no_colon: "digit_char c \<Longrightarrow> c \<noteq> CHR '':''"
  by (auto simp: digit_char_def)

lemma chunk_name_inject: "chunk_name doc h m = chunk_name doc h' n \<Longrightarrow> m = n"
proof -
  assume eq: "chunk_name doc h m = chunk_name doc h' n"
  let ?p = "doc_id doc @ '':'' @ Itoa (doc_version doc) @ '':''"
  have "(?p @ h) @ CHR '':'' # Itoa (int m) = (?p @ h') @ CHR '':'' # Itoa (int n)"
    using eq by (simp add: chunk_name_def)
  then have "Itoa (int m) = Itoa (int n)"
    by (rule after_last_colon [rotated 2]) (auto dest!: Itoa_nat_digits digit_char_no_colon)
  then show "m = n" by (simp add: Itoa_nat_inject)
qed

lemma numbered_ids_distinct:
  assumes "inj (ce_uuid env)" and "numbered env doc sz segments chunks"
  shows "distinct (map ch_id chunks)"
proof (unfold distinct_conv_nth, intro allI impI)
  fix i j assume ij: "i < length (map ch_id chunks)" "j < length (map ch_id chunks)" "i \<noteq> j"
  have name: "\<exists>h. map ch_id chunks ! n = ce_uuid env (chunk_name doc h n)"
    if "n < length chunks" for n
    using assms(2) that unfolding numbered_def by (metis nth_map ch_id_make_chunk)
  from name [of i] name [of j] ij obtain h h'
    where "map ch_id chunks ! i = ce_uuid env (chunk_name doc h i)"
      and "map ch_id chunks ! j = ce_uuid env (chunk_name doc h' j)" by auto
  with ij(3) assms(1) chunk_name_inject [of doc h i h' j]
  show "map ch_id chunks ! i \<noteq> map ch_id chunks ! j" by (auto dest: injD)
qed

section \<open>Keywords and summaries\<close>

lemma collect_keywords_ok:
  "length result < 8 \<Longrightarrow> distinct result \<Longrightarrow>
    (\<forall>k \<in> set result. 2 \<le> length k \<and> length k \<le> 32) \<Longrightarrow>
    length (collect_keywords tokens result) \<le> 8 \<and> distinct (collect_keywords tokens result) \<and>
    (\<forall>k \<in> set (collect_keywords tokens result). 2 \<le> length k \<and> length k \<le> 32)"
proof (induction tokens result rule: collect_keywords.induct)
  case (2 token tokens result)
  let ?t = "TrimSpace token"
  show ?case
  proof (cases "length ?t < 2 \<or> length ?t > 32 \<or> ?t \<in> set result")
    case True
    then have "collect_keywords (token # tokens) result = collect_keywords tokens result"
      by (simp add: Let_def)
    with 2(1) [OF refl True 2(3-5)] show ?thesis by simp
  next
    case new: False
    show ?thesis
    proof (cases "length result + 1 = 8")
      case True
      then have "collect_keywords (token # tokens) result = result @ [?t]"
        using new by (simp add: Let_def)
      with new True 2(4,5) show ?thesis by auto
    next
      case False
      then have eq: "collect_keywords (token # tokens) result = collect_keywords tokens (result @ [?t])"
        using new by (simp add: Let_def)
      have "length (result @ [?t]) < 8" using False 2(3) by simp
      moreover have "distinct (result @ [?t])"
        and "\<forall>k \<in> set (result @ [?t]). 2 \<le> length k \<and> length k \<le> 32" using new 2(4,5) by auto
      ultimately show ?thesis unfolding eq by (rule 2(2) [OF refl new False])
    qed
  qed
qed auto

lemma filter_head_in: "filter P xs = x # ys \<Longrightarrow> x \<in> set xs"
  by (metis filter_is_subset list.set_intros(1) subsetD)

lemma summarize_length: "length (summarize text) \<le> 120"
proof -
  have cut: "n \<le> 120 \<Longrightarrow> length (TrimSpace (take n s)) \<le> 120" for n s
    by (rule order_trans [OF length_TrimSpace]) simp
  let ?s = "Join (Fields text) [32]"
  show ?thesis
  proof (cases "filter (\<lambda>i. sentence_end (?s ! i)) [80..<120]")
    case Nil
    then show ?thesis using cut [of 120 ?s] unfolding summarize_def Let_def by simp
  next
    case (Cons index rest)
    from filter_head_in [OF this] have "index + 1 \<le> 120" by (simp only: set_upt atLeastLessThan_iff) linarith
    with Cons show ?thesis using cut [of "index + 1" ?s] unfolding summarize_def Let_def by simp
  qed
qed

end
