(* ===== verification/Worker.thy ===== *)
theory Worker
  imports TaskQueue Chunker
begin

text \<open>
  \<open>internal/worker/manager.go\<close>: the configuration check, the handlers of the four task types,
  and \<open>run\<close>, which claims a task, runs its handler, and settles the message: acknowledged,
  negatively acknowledged, or terminated. Context expiry reaches the code as an error of the
  call that was running, which the services can return at any time. Metrics and trace spans
  are left out; the metric status of a run is kept.
\<close>

section \<open>Configuration and constants\<close>

record worker_conf =
  wk_parse :: int
  wk_chunk :: int
  wk_embedding :: int
  wk_delete :: int
  wk_task_timeout :: int
  wk_shutdown_timeout :: int

definition maxAutomaticRetries :: int where
  "maxAutomaticRetries = 3"

definition automaticRetryDelay :: int where
  "automaticRetryDelay = 2000"

text \<open>
  The concurrency settings are checked in the random order of a Go map; the model reports the
  first one in the order of the task types.
\<close>

definition validateConfig :: "worker_conf \<Rightarrow> gerr option" where
  "validateConfig value =
     (case filter (\<lambda>(t, n). n < 1)
             [(ParseTask, wk_parse value), (ChunkTask, wk_chunk value),
              (EmbeddingTask, wk_embedding value), (DeleteTask, wk_delete value)] of
        (t, _) # _ \<Rightarrow> Some (Plain (lit (''worker task '' @ [CHR 0x22] @ task_type_text t @ [CHR 0x22] @
            '' concurrency must be greater than zero'')))
      | [] \<Rightarrow>
         (if wk_task_timeout value < 1 then
            Some (Plain (lit ''worker task timeout must be greater than zero''))
          else if wk_shutdown_timeout value < 1 then
            Some (Plain (lit ''worker shutdown timeout must be greater than zero''))
          else None))"

section \<open>Which errors are retried\<close>

definition retryPendingDocumentStatus :: "task_type \<Rightarrow> doc_status option" where
  "retryPendingDocumentStatus taskType =
     (case taskType of ParseTask \<Rightarrow> Some Uploaded | ChunkTask \<Rightarrow> Some Parsed
      | EmbeddingTask \<Rightarrow> Some Chunked | DeleteTask \<Rightarrow> None)"

definition permanent_patterns :: "gostr list" where
  "permanent_patterns = [lit ''invalid api'', lit ''incorrect api key'',
     lit ''unsupported document type'', lit ''not supported'', lit ''encryption version'',
     [0x6682, 0x4E0D, 0x652F, 0x6301], lit ''no document chunks found'',
     lit ''vector count mismatch'']"

definition transient_patterns :: "gostr list" where
  "transient_patterns = [lit ''timeout'', lit ''deadline exceeded'', lit ''tempor'',
     lit ''connection reset'', lit ''connection refused'', lit ''unexpected eof'',
     lit ''broken pipe'', lit ''try again'']"

definition shouldAutoRetry :: "unicode_tables \<Rightarrow> gerr \<Rightarrow> bool" where
  "shouldAutoRetry u err =
     (if errors_is err PublishFailed then True
      else
        (let normalized = ToLower u (TrimSpace (err_text err))
         in if normalized = [] then False
            else if list_ex (Contains normalized) permanent_patterns then False
            else list_ex (Contains normalized) transient_patterns))"

section \<open>The handlers\<close>

fun document_rank :: "doc_status \<Rightarrow> nat option" where
  "document_rank Uploaded = Some 0"
| "document_rank Parsing = Some 1"
| "document_rank Parsed = Some 2"
| "document_rank Chunking = Some 3"
| "document_rank Chunked = Some 4"
| "document_rank Embedding = Some 5"
| "document_rank Indexed = Some 6"
| "document_rank _ = None"

definition documentAtOrBeyond :: "doc_status \<Rightarrow> doc_status \<Rightarrow> bool" where
  "documentAtOrBeyond current target =
     (case (document_rank current, document_rank target) of
        (Some c, Some t) \<Rightarrow> c \<ge> t
      | _ \<Rightarrow> False)"

definition deterministicID :: "'e services \<Rightarrow> uid \<Rightarrow> string \<Rightarrow> uid" where
  "deterministicID sv parentID purpose = sv_sha sv (parentID @ '':'' @ purpose)"

definition invalid_file_url :: gerr where
  "invalid_file_url = Plain (lit ''invalid minio file url'')"

definition parseFileURL :: "gostr \<Rightarrow> gerr + gostr \<times> gostr" where
  "parseFileURL fileURL =
     (let prefix = lit ''minio://''
      in if \<not> HasPrefix fileURL prefix then Inl invalid_file_url
         else (case Cut (TrimPrefix fileURL prefix) (lit ''/'') of
                 None \<Rightarrow> Inl invalid_file_url
               | Some (bucket, objectName) \<Rightarrow> Inr (bucket, objectName)))"

definition next_task_for :: "'e services \<Rightarrow> int \<Rightarrow> task_message \<Rightarrow> document \<Rightarrow> task_type \<Rightarrow> index_task" where
  "next_task_for sv now current doc nextType =
     \<lparr>task_id = deterministicID sv (msg_task_id current) (task_type_text nextType),
      task_tenant = doc_tenant doc, task_doc = doc_id doc, task_subject = doc_subject doc,
      task_user = doc_user doc, task_filename = [], task_type = nextType,
      task_status = Pending, task_retry_count = 0, task_metadata = JEmpty, task_error = [],
      task_doc_version = doc_version doc, task_content_hash = doc_content_hash doc,
      task_embedding_provider = doc_embedding_provider doc,
      task_embedding_model = doc_embedding_model doc,
      task_embedding_dimension = doc_embedding_dimension doc,
      task_chunk_strategy = doc_chunk_strategy doc,
      task_created_at = now, task_updated_at = now\<rparr>"

definition enqueueNext :: "'e services \<Rightarrow> task_message \<Rightarrow> document \<Rightarrow> task_type \<Rightarrow> ('e, unit) act" where
  "enqueueNext sv current doc nextType =
     attempt (time_now sv) (\<lambda>t.
       run_tx sv (\<lambda>now. task_Create (sv_sha sv) now (next_task_for sv t current doc nextType)))"

definition set_doc_status :: "'e services \<Rightarrow> uid \<Rightarrow> doc_status \<Rightarrow> gostr \<Rightarrow> ('e, unit) act" where
  "set_doc_status sv i s e = run_tx sv (\<lambda>now. doc_UpdateStatus now i s e)"

definition new_parse_log :: "uid \<Rightarrow> uid \<Rightarrow> task_status \<Rightarrow> gostr \<Rightarrow> gostr \<Rightarrow> int \<Rightarrow> parse_log" where
  "new_parse_log i doc status message err now =
     \<lparr>log_id = i, log_doc = doc, log_filename = [], log_status = status, log_message = message,
      log_error = err, log_created_at = now\<rparr>"

definition add_log :: "'e services \<Rightarrow> parse_log \<Rightarrow> ('e, unit) act" where
  "add_log sv l = run_tx sv (\<lambda>now. AddParseLog l)"

text \<open>The part of \<open>parseDocument\<close> after the parser has answered.\<close>

definition finish_parse ::
  "'e services \<Rightarrow> task_message \<Rightarrow> document \<Rightarrow> gerr + gostr \<times> document_metadata json \<Rightarrow> ('e, unit) act" where
  "finish_parse sv message doc parsed =
     attempt (new_uuid sv) (\<lambda>i. attempt (time_now sv) (\<lambda>t.
       (case parsed of
          Inl err \<Rightarrow>
            attempt (ignore_error (add_log sv
                (new_parse_log i (doc_id doc) Failed [] (err_text err) t))) (\<lambda>_. fail err)
        | Inr (plainText, metadata) \<Rightarrow>
            attempt (add_log sv (new_parse_log i (doc_id doc) Success (lit ''document parsed'') [] t))
              (\<lambda>_. attempt (run_tx sv (\<lambda>now. CompleteParse now (doc_id doc) plainText metadata))
                (\<lambda>_. enqueueNext sv message doc ChunkTask)))))"

definition capture :: "('e, 'a) act \<Rightarrow> ('e, gerr + 'a) act" where
  "capture m w = (Inr (fst (m w)), snd (m w))"

definition parseDocument :: "'e services \<Rightarrow> task_message \<Rightarrow> ('e, unit) act" where
  "parseDocument sv message =
     attempt (run_tx sv (\<lambda>now. doc_GetByID (msg_doc_id message))) (\<lambda>doc.
       if documentAtOrBeyond (doc_status doc) Parsed then enqueueNext sv message doc ChunkTask
       else
         attempt (if doc_status doc \<noteq> Parsing then set_doc_status sv (doc_id doc) Parsing []
                  else return ()) (\<lambda>_.
           (case parseFileURL (doc_file_url doc) of
              Inl err \<Rightarrow> fail err
            | Inr (bucket, objectName) \<Rightarrow>
                attempt (capture (query_ext (sv_parse sv bucket objectName (doc_file_type doc)
                                               (msg_processing_mode message))))
                  (finish_parse sv message doc))))"

definition chunk_env_of :: "'e services \<Rightarrow> int \<Rightarrow> chunk_env" where
  "chunk_env_of sv now = \<lparr>ce_unicode = sv_unicode sv, ce_sha256 = sv_sha256 sv,
     ce_uuid = sv_sha sv, ce_now = now\<rparr>"

text \<open>The \<open>None\<close> of \<open>Build\<close> cannot happen; it would be a handler that never returns.\<close>

definition build_chunks :: "'e services \<Rightarrow> chunking_conf \<Rightarrow> document \<Rightarrow> ('e, document_chunk list) act" where
  "build_chunks sv conf doc w =
     (case Build (chunk_env_of sv (sv_now sv (w_ext w))) doc conf of
        None \<Rightarrow> (Inl no_chunkable_content, w)
      | Some r \<Rightarrow> (r, w))"

definition chunkDocument :: "'e services \<Rightarrow> chunking_conf \<Rightarrow> task_message \<Rightarrow> ('e, unit) act" where
  "chunkDocument sv conf message =
     attempt (run_tx sv (\<lambda>now. doc_GetByID (msg_doc_id message))) (\<lambda>doc.
       if documentAtOrBeyond (doc_status doc) Chunked then enqueueNext sv message doc EmbeddingTask
       else
         attempt (if doc_status doc \<noteq> Chunking then set_doc_status sv (doc_id doc) Chunking []
                  else return ()) (\<lambda>_.
           attempt (build_chunks sv conf doc) (\<lambda>chunks.
             attempt (run_tx sv (\<lambda>now. ReplaceByDocument chunks)) (\<lambda>_.
               attempt (set_doc_status sv (doc_id doc) Chunked []) (\<lambda>_.
                 enqueueNext sv message doc EmbeddingTask)))))"

definition buildEmbeddingText :: "document_chunk \<Rightarrow> gostr" where
  "buildEmbeddingText chunk =
     (let content = TrimSpace (ch_content chunk);
          sectionName = TrimSpace (ch_section chunk);
          parts = (if sectionName \<noteq> [] \<and> sectionName \<noteq> lit ''text'' then [sectionName] else []);
          parts = (case ch_metadata chunk of
                     JValue m \<Rightarrow>
                       parts @ (if cm_keywords m \<noteq> [] then [Join (cm_keywords m) [32]] else []) @
                       (if cm_summary m \<noteq> [] \<and> cm_summary m \<noteq> content then [cm_summary m] else [])
                   | _ \<Rightarrow> parts)
      in Join (parts @ [content]) [10])"

definition embedDocument :: "'e services \<Rightarrow> task_message \<Rightarrow> ('e, unit) act" where
  "embedDocument sv message =
     attempt (run_tx sv (\<lambda>now. doc_GetByID (msg_doc_id message))) (\<lambda>doc.
       if documentAtOrBeyond (doc_status doc) Indexed then return ()
       else
         attempt (if doc_status doc \<noteq> Embedding then set_doc_status sv (doc_id doc) Embedding []
                  else return ()) (\<lambda>_.
           attempt (run_tx sv (\<lambda>now. chunk_ListByDocument (doc_id doc))) (\<lambda>chunks.
             if chunks = [] then fail (Plain (lit ''no document chunks found''))
             else
               attempt (query_ext (sv_embed sv (doc_tenant doc) (map buildEmbeddingText chunks)))
                 (\<lambda>vectors.
                   if length vectors \<noteq> length chunks
                   then fail (Plain (lit ''embedding vector count mismatch''))
                   else
                     attempt (call_ext (sv_upsert sv chunks vectors) [Upserted chunks vectors])
                       (\<lambda>_. set_doc_status sv (doc_id doc) Indexed [])))))"

definition delete_objects :: "'e services \<Rightarrow> document \<Rightarrow> ('e, unit) act" where
  "delete_objects sv doc =
     attempt (wrap_error (lit ''delete Milvus vectors'')
        (call_ext (sv_delete_vectors sv (doc_user doc) [doc_id doc])
           [VectorsDeleted (doc_user doc) [doc_id doc]])) (\<lambda>_.
     attempt (wrap_error (lit ''verify Milvus vectors'')
        (query_ext (sv_has_vectors sv (doc_user doc) (doc_id doc)))) (\<lambda>residual.
       if residual then fail (Plain (lit ''milvus vectors still exist after delete''))
       else
         (case parseFileURL (doc_file_url doc) of
            Inl err \<Rightarrow> fail err
          | Inr (bucket, objectName) \<Rightarrow>
              wrap_error (lit ''delete MinIO object'')
                (call_ext (sv_remove_object sv bucket objectName) [ObjectRemoved bucket objectName]))))"

definition deleteDocument :: "'e services \<Rightarrow> task_message \<Rightarrow> ('e, unit) act" where
  "deleteDocument sv message =
     attempt (capture (run_tx sv (\<lambda>now. doc_GetByID (msg_doc_id message)))) (\<lambda>found.
       (case found of
          Inl err \<Rightarrow> if errors_is err PgxNoRows then return () else fail err
        | Inr doc \<Rightarrow>
            attempt (delete_objects sv doc) (\<lambda>_.
              wrap_error (lit ''soft delete document'')
                (run_tx sv (\<lambda>now. CompleteDelete now (doc_id doc))))))"

definition handler :: "'e services \<Rightarrow> chunking_conf \<Rightarrow> task_type \<Rightarrow> task_message \<Rightarrow> ('e, unit) act" where
  "handler sv conf taskType =
     (case taskType of ParseTask \<Rightarrow> parseDocument sv | ChunkTask \<Rightarrow> chunkDocument sv conf
      | EmbeddingTask \<Rightarrow> embedDocument sv | DeleteTask \<Rightarrow> deleteDocument sv)"

section \<open>Running a task\<close>

record envelope =
  env_data :: gostr
  env_message :: "gerr + task_message"

text \<open>How the message is settled, and the status that the metrics see.\<close>

datatype disposition = NoReply | AckSync | NakWithDelay int | Term

definition persistFailure :: "'e services \<Rightarrow> task_type \<Rightarrow> task_message \<Rightarrow> gerr \<Rightarrow> ('e, unit) act" where
  "persistFailure sv taskType message taskErr =
     (let documentStatus = (if taskType = DeleteTask then DeleteFailed else DocFailed)
      in attempt (wrap_error (lit ''persist failed document state'')
           (set_doc_status sv (msg_doc_id message) documentStatus (err_text taskErr))) (\<lambda>_.
             wrap_error (lit ''persist failed task state'')
               (run_tx sv (\<lambda>now. task_UpdateStatus now (msg_task_id message) Failed
                                   (err_text taskErr)))))"

definition retry_message :: "int \<Rightarrow> gostr" where
  "retry_message n = lit (''parse retry scheduled ('' @ Itoa n @ ''/'' @ Itoa maxAutomaticRetries @ '')'')"

text \<open>The part of \<open>scheduleRetry\<close> that returns true: a log entry for a parse task.\<close>

definition retry_logged ::
  "'e services \<Rightarrow> task_type \<Rightarrow> task_message \<Rightarrow> index_task \<Rightarrow> 'e world \<Rightarrow> bool \<times> 'e world" where
  "retry_logged sv taskType message retriedTask w =
     (if taskType = ParseTask then
        (True, snd (attempt (new_uuid sv) (\<lambda>i. attempt (time_now sv) (\<lambda>t.
            ignore_error (add_log sv (new_parse_log i (msg_doc_id message) Pending
              (retry_message (task_retry_count retriedTask)) [] t)))) w))
      else (True, w))"

definition scheduleRetry ::
  "'e services \<Rightarrow> task_type \<Rightarrow> task_message \<Rightarrow> gerr \<Rightarrow> 'e world \<Rightarrow> bool \<times> 'e world" where
  "scheduleRetry sv taskType message taskErr w =
     (if \<not> shouldAutoRetry (sv_unicode sv) taskErr then (False, w)
      else
        (case run_tx sv (\<lambda>now. ScheduleRetry now (msg_task_id message) maxAutomaticRetries) w of
           (Inl _, w1) \<Rightarrow> (False, w1)
         | (Inr None, w1) \<Rightarrow> (False, w1)
         | (Inr (Some retriedTask), w1) \<Rightarrow>
            (case retryPendingDocumentStatus taskType of
               Some documentStatus \<Rightarrow>
                 (if errors_is taskErr PublishFailed
                  then retry_logged sv taskType message retriedTask w1
                  else
                    (case run_tx sv (\<lambda>now. ResetStatusForRetry now (msg_doc_id message) documentStatus) w1 of
                       (Inl err, w2) \<Rightarrow>
                         (False, snd (run_tx sv (\<lambda>now. task_UpdateStatus now (msg_task_id message)
                                                    Failed (err_text err)) w2))
                     | (Inr _, w2) \<Rightarrow> retry_logged sv taskType message retriedTask w2))
             | None \<Rightarrow> retry_logged sv taskType message retriedTask w1)))"

definition ack_sync :: "'e services \<Rightarrow> string \<Rightarrow> string \<Rightarrow> 'e world \<Rightarrow> (disposition \<times> string) \<times> 'e world" where
  "ack_sync sv acked failed w =
     (case sv_ack sv (w_ext w) of
        (None, e) \<Rightarrow> ((AckSync, acked), w\<lparr>w_ext := e\<rparr>)
      | (Some _, e) \<Rightarrow> ((AckSync, failed), w\<lparr>w_ext := e\<rparr>))"

text \<open>A message that cannot be processed: to the dead letters, then terminated.\<close>

definition reject ::
  "'e services \<Rightarrow> task_type \<Rightarrow> uid \<Rightarrow> gostr \<Rightarrow> gerr \<Rightarrow> 'e world \<Rightarrow> (disposition \<times> string) \<times> 'e world" where
  "reject sv taskType taskID payload err w =
     (case PublishDeadLetter sv taskType taskID payload err w of
        (Inl _, w') \<Rightarrow> ((NakWithDelay automaticRetryDelay, ''invalid''), w')
      | (Inr _, w') \<Rightarrow> ((Term, ''invalid''), w'))"

definition handle_failure ::
  "'e services \<Rightarrow> task_type \<Rightarrow> gostr \<Rightarrow> task_message \<Rightarrow> gerr \<Rightarrow> 'e world \<Rightarrow>
    (disposition \<times> string) \<times> 'e world" where
  "handle_failure sv taskType payload message err w =
     (case scheduleRetry sv taskType message err w of
        (True, w1) \<Rightarrow> ((NakWithDelay automaticRetryDelay, ''retry''), w1)
      | (False, w1) \<Rightarrow>
         (case persistFailure sv taskType message err w1 of
            (Inl _, w2) \<Rightarrow> ((NakWithDelay automaticRetryDelay, ''retry''), w2)
          | (Inr _, w2) \<Rightarrow>
             (case PublishDeadLetter sv taskType (msg_task_id message) payload err w2 of
                (Inl _, w3) \<Rightarrow> ((NakWithDelay automaticRetryDelay, ''retry''), w3)
              | (Inr _, w3) \<Rightarrow> ack_sync sv ''error'' ''error'' w3)))"

definition run_unclaimed ::
  "'e services \<Rightarrow> worker_conf \<Rightarrow> task_message \<Rightarrow> 'e world \<Rightarrow> (disposition \<times> string) \<times> 'e world" where
  "run_unclaimed sv wc message w =
     (case run_tx sv (\<lambda>now. task_GetByID (msg_task_id message)) w of
        (Inr existing, w') \<Rightarrow>
          (if task_status existing = Success \<or> task_status existing = Failed
           then ack_sync sv ''duplicate'' ''duplicate'' w'
           else ((NakWithDelay (wk_task_timeout wc * 1000), ''retry''), w'))
      | (Inl _, w') \<Rightarrow> ((NakWithDelay (wk_task_timeout wc * 1000), ''retry''), w'))"

definition run_claimed ::
  "'e services \<Rightarrow> chunking_conf \<Rightarrow> task_type \<Rightarrow> gostr \<Rightarrow> task_message \<Rightarrow> 'e world \<Rightarrow>
    (disposition \<times> string) \<times> 'e world" where
  "run_claimed sv conf taskType payload message w =
     (case handler sv conf taskType message w of
        (Inl err, w') \<Rightarrow> handle_failure sv taskType payload message err w'
      | (Inr _, w') \<Rightarrow>
         (case run_tx sv (\<lambda>now. task_UpdateStatus now (msg_task_id message) Success []) w' of
            (Inl _, w'') \<Rightarrow> ((NakWithDelay automaticRetryDelay, ''retry''), w'')
          | (Inr _, w'') \<Rightarrow> ack_sync sv ''success'' ''error'' w''))"

definition run ::
  "'e services \<Rightarrow> worker_conf \<Rightarrow> chunking_conf \<Rightarrow> task_type \<Rightarrow> envelope option \<Rightarrow> 'e world \<Rightarrow>
    (disposition \<times> string) \<times> 'e world" where
  "run sv wc conf taskType messageEnvelope w =
     (case messageEnvelope of
        None \<Rightarrow> ((NoReply, []), w)
      | Some envelope \<Rightarrow>
         (case env_message envelope of
            Inl err \<Rightarrow> reject sv taskType [] (env_data envelope) err w
          | Inr message \<Rightarrow>
             (if msg_task_id message = [] \<or> msg_doc_id message = [] then
                reject sv taskType (msg_task_id message) (env_data envelope)
                  (Plain (lit ''task_id and doc_id are required'')) w
              else
                (case run_tx sv (\<lambda>now. Claim now (msg_task_id message) (wk_task_timeout wc * 1000)) w of
                   (Inl _, w1) \<Rightarrow> ((NakWithDelay automaticRetryDelay, ''retry''), w1)
                 | (Inr claimed, w1) \<Rightarrow>
                    (if claimed then run_claimed sv conf taskType (env_data envelope) message w1
                     else run_unclaimed sv wc message w1)))))"

lemmas run_defs = run_def run_claimed_def run_unclaimed_def handle_failure_def reject_def ack_sync_def

end
