(* ===== verification/WorkerSteps.thy ===== *)
theory WorkerSteps
  imports Worker
begin

text \<open>
  What the workers guarantee: their effects on the database are committed transactions, an
  acknowledged message belongs to a settled task, a finished stage hands over to the next one
  in the same transaction that records it, documents are indexed after their vectors are
  stored and deleted after their vectors and file are gone.
\<close>

section \<open>Every handler only commits transactions\<close>

lemma reaches_set_doc_status [reach_intros]:
  "disciplined sv \<Longrightarrow> stable sv I \<Longrightarrow> reaches sv I (set_doc_status sv i s e)"
  unfolding set_doc_status_def by (rule reaches_run_tx) (auto intro: tx_step.doc_status)

lemma reaches_add_log [reach_intros]:
  "disciplined sv \<Longrightarrow> stable sv I \<Longrightarrow> reaches sv I (add_log sv l)"
  unfolding add_log_def by (rule reaches_run_tx) (auto intro: tx_step.log)

lemma fresh_next_task: "fresh_task (next_task_for sv t message doc ty)"
  by (simp add: fresh_task_def next_task_for_def)

lemma next_task_doc [simp]: "task_doc (next_task_for sv t message doc ty) = doc_id doc"
  by (simp add: next_task_for_def)

lemma next_task_id [simp]:
  "task_id (next_task_for sv t message doc ty) =
     deterministicID sv (msg_task_id message) (task_type_text ty)"
  by (simp add: next_task_for_def)

lemma reaches_enqueueNext [reach_intros]:
  assumes "disciplined sv"
  shows "reaches sv (has_doc (doc_id doc)) (enqueueNext sv message doc ty)"
  unfolding enqueueNext_def
proof (rule reaches_attempt)
  fix t
  show "reaches sv (has_doc (doc_id doc))
      (run_tx sv (\<lambda>now. task_Create (sv_sha sv) now (next_task_for sv t message doc ty)))"
    by (rule reaches_run_tx [OF assms])
      (auto simp: has_doc_def intro: tx_step.next_task [OF fresh_next_task])
qed (auto intro: reach_intros)

lemma doc_GetByID_Inr:
  assumes "doc_GetByID i d = (Inr doc, d')"
  obtains r where "r \<in> set (documents d)" and "doc_id r = i" and "live_doc r"
    and "doc = document.truncate r" and "d' = d"
proof (cases "tbl_first (\<lambda>r. doc_id r = i \<and> live_doc r) (documents d)")
  case None
  with assms show ?thesis by (simp add: doc_GetByID_def)
next
  case (Some r)
  from tbl_first_Some [OF Some] assms Some show ?thesis
    by (intro that [of r]) (simp_all add: doc_GetByID_def)
qed

lemma truncate_doc_fields [simp]:
  "doc_id (document.truncate r) = doc_id r" "doc_user (document.truncate r) = doc_user r"
  "doc_status (document.truncate r) = doc_status r"
  "doc_file_url (document.truncate r) = doc_file_url r"
  by (simp_all add: document.truncate_def)

lemma get_doc_reads:
  "run_tx sv (\<lambda>now. doc_GetByID i) w = (Inr doc, w') \<Longrightarrow> has_doc (doc_id doc) (w_db w') \<and> doc_id doc = i"
  by (erule run_tx_Inr) (auto simp: has_doc_def elim!: doc_GetByID_Inr)

lemma doc_GetByID_same: "snd (doc_GetByID i d) = d"
  by (simp add: doc_GetByID_def split: option.split)

lemma reaches_get_doc [reach_intros]:
  assumes "disciplined sv" and "\<And>doc. reaches sv (has_doc (doc_id doc)) (k doc)"
  shows "reaches sv (\<lambda>_. True) (attempt (run_tx sv (\<lambda>now. doc_GetByID i)) k)"
  by (rule reaches_attempt_result [where J = "\<lambda>doc. has_doc (doc_id doc)"])
    (auto intro: reaches_read assms simp: doc_GetByID_same dest: get_doc_reads)

lemma reaches_if [reach_intros]:
  "(b \<Longrightarrow> reaches sv I m) \<Longrightarrow> (\<not> b \<Longrightarrow> reaches sv I n) \<Longrightarrow> reaches sv I (if b then m else n)"
  by simp

lemma reaches_capture [reach_intros]: "reaches sv I m \<Longrightarrow> reaches sv I (capture m)"
  by (simp add: reaches_def capture_def)

lemma reaches_finish_parse:
  assumes "disciplined sv"
  shows "reaches sv (has_doc (doc_id doc)) (finish_parse sv message doc parsed)"
proof -
  have fin: "reaches sv (has_doc (doc_id doc))
      (run_tx sv (\<lambda>now. CompleteParse now (doc_id doc) pt meta))" for pt meta
    by (rule reaches_run_tx [OF assms]) (auto intro: tx_step.parsed)
  show ?thesis
    unfolding finish_parse_def
    by (intro reach_intros stable_has_doc)
      (auto split: sum.split intro!: reach_intros fin assms)
qed

lemma reaches_parse: "disciplined sv \<Longrightarrow> reaches sv (\<lambda>_. True) (parseDocument sv message)"
  unfolding parseDocument_def
  by (intro reach_intros stable_has_doc)
    (auto split: sum.split intro!: reach_intros reaches_finish_parse)

lemma reaches_build [reach_intros]: "reaches sv I (build_chunks sv conf doc)"
  by (rule reaches_same_db) (simp add: build_chunks_def split: option.split)

lemma reaches_chunk: 
  assumes "disciplined sv"
  shows "reaches sv (\<lambda>_. True) (chunkDocument sv conf message)"
proof -
  have replace: "reaches sv (has_doc i) (run_tx sv (\<lambda>now. ReplaceByDocument cs))" for i cs
    by (rule reaches_run_tx [OF assms]) (auto intro: tx_step.chunks)
  show ?thesis
    unfolding chunkDocument_def by (intro reach_intros stable_has_doc replace assms)
qed

lemma reaches_embed:
  assumes "disciplined sv"
  shows "reaches sv (\<lambda>_. True) (embedDocument sv message)"
proof -
  have chunks: "reaches sv (has_doc i) (run_tx sv (\<lambda>now. chunk_ListByDocument j))" for i j
    by (rule reaches_read [OF assms]) (auto simp: chunk_ListByDocument_def)
  show ?thesis
    unfolding embedDocument_def by (intro reach_intros stable_has_doc chunks assms)
qed

lemma reaches_delete_objects: "reaches sv I (delete_objects sv doc)" if "stable sv I"
  unfolding delete_objects_def
  by (intro reach_intros that) (auto split: sum.split intro!: reach_intros)

lemma reaches_delete:
  assumes "disciplined sv"
  shows "reaches sv (\<lambda>_. True) (deleteDocument sv message)"
proof -
  have get: "reaches sv (\<lambda>_. True) (run_tx sv (\<lambda>now. doc_GetByID i))" for i
    by (rule reaches_read [OF assms]) (auto simp: doc_GetByID_same)
  have fin: "reaches sv (\<lambda>_. True) (run_tx sv (\<lambda>now. CompleteDelete now i))" for i
    by (rule reaches_run_tx [OF assms]) (auto intro: tx_step.deleted)
  show ?thesis
    unfolding deleteDocument_def
    by (intro reach_intros stable_True get)
      (auto split: sum.split intro!: reach_intros reaches_delete_objects fin)
qed

lemma reaches_handler: "disciplined sv \<Longrightarrow> reaches sv (\<lambda>_. True) (handler sv conf ty message)"
  by (cases ty) (simp_all add: handler_def reaches_parse reaches_chunk reaches_embed reaches_delete)

lemma reaches_task_status [reach_intros]:
  "disciplined sv \<Longrightarrow> stable sv I \<Longrightarrow> reaches sv I (run_tx sv (\<lambda>now. task_UpdateStatus now i s e))"
  by (rule reaches_run_tx) (auto intro: tx_step.task_status)

lemma reaches_persistFailure: "disciplined sv \<Longrightarrow> reaches sv (\<lambda>_. True) (persistFailure sv ty message err)"
  unfolding persistFailure_def Let_def by (intro reach_intros stable_True)

lemma reaches_ScheduleRetry: "disciplined sv \<Longrightarrow> reaches sv (\<lambda>_. True) (run_tx sv (\<lambda>now. ScheduleRetry now i m))"
  by (rule reaches_run_tx) (auto intro: tx_step.auto_retry)

lemma reaches_reset: "disciplined sv \<Longrightarrow> reaches sv (\<lambda>_. True) (run_tx sv (\<lambda>now. ResetStatusForRetry now i s))"
  by (rule reaches_run_tx) (auto intro: tx_step.reset)

lemma retry_logged_reach:
  assumes "disciplined sv"
  shows "tx_reach sv (w_db w) (w_db (snd (retry_logged sv ty message t w)))"
proof -
  have "reaches sv (\<lambda>_. True) (attempt (new_uuid sv) (\<lambda>i. attempt (time_now sv) (\<lambda>now.
            ignore_error (add_log sv (new_parse_log i doc Pending msg [] now)))))" for doc msg
    by (intro reach_intros stable_True assms)
  then show ?thesis by (simp add: retry_logged_def reaches_def)
qed

text \<open>Chaining the calls of \<open>run\<close>: each extends the history of transactions.\<close>

lemma reach_next: "reaches sv (\<lambda>_. True) m \<Longrightarrow> m w = (r, w') \<Longrightarrow> tx_reach sv d (w_db w) \<Longrightarrow> tx_reach sv d (w_db w')"
  by (metis reachesD snd_conv tx_reach_trans)

lemma scheduleRetry_reach:
  assumes "disciplined sv"
  shows "tx_reach sv (w_db w) (w_db (snd (scheduleRetry sv ty message err w)))"
proof -
  have S: "run_tx sv (\<lambda>now. ScheduleRetry now i m) w = (r, w') \<Longrightarrow> tx_reach sv (w_db w) (w_db w')"
    for i m w r w' by (rule reach_next [OF reaches_ScheduleRetry [OF assms]]) auto
  have R: "run_tx sv (\<lambda>now. ResetStatusForRetry now i m) w = (r, w') \<Longrightarrow> tx_reach sv (w_db w) (w_db w')"
    for i m w r w' by (rule reach_next [OF reaches_reset [OF assms]]) auto
  note logged = retry_logged_reach [OF assms]
  have failed: "tx_reach sv (w_db w1) (w_db (snd (run_tx sv (\<lambda>now. task_UpdateStatus now i s e) w1)))"
    for w1 i s e by (rule reachesD [OF reaches_task_status [OF assms stable_True]]) auto
  show ?thesis
    by (auto simp: scheduleRetry_def split: prod.split sum.split option.split dest!: S R
        intro: logged failed tx_reach_trans)
qed

section \<open>Running a task\<close>

lemma reject_db [simp]: "w_db (snd (reject sv ty i payload err w)) = w_db w"
proof -
  obtain r w' where "PublishDeadLetter sv ty i payload err w = (r, w')" by fastforce
  then show ?thesis
    using PublishDeadLetter_frame [of sv ty i payload err w] by (simp add: reject_def split: sum.split)
qed

lemma ack_sync_db [simp]: "w_db (snd (ack_sync sv a b w)) = w_db w"
  by (simp add: ack_sync_def split: prod.split option.split)

lemma ack_sync_fst: "\<exists>st. fst (ack_sync sv a b w) = (AckSync, st)"
  by (auto simp: ack_sync_def split: prod.split option.split)

lemma ack_sync_eq: "ack_sync sv a b w = (x, w') \<Longrightarrow> w_db w' = w_db w"
  using ack_sync_db [of sv a b w] by simp

lemma PublishDeadLetter_db:
  "PublishDeadLetter sv ty i payload err w = (r, w') \<Longrightarrow> w_db w' = w_db w"
  using PublishDeadLetter_frame [of sv ty i payload err w] by simp

lemma handle_failure_reach:
  assumes "disciplined sv"
  shows "tx_reach sv (w_db w) (w_db (snd (handle_failure sv ty payload message err w)))"
proof -
  have S: "scheduleRetry sv ty message err w = (r, w') \<Longrightarrow> tx_reach sv (w_db w) (w_db w')" for r w'
    using scheduleRetry_reach [OF assms, of w ty message err] by simp
  have P: "persistFailure sv ty message err w1 = (r, w') \<Longrightarrow> tx_reach sv (w_db w1) (w_db w')" for w1 r w'
    using reachesD [OF reaches_persistFailure [OF assms], of w1 ty message err] by simp
  show ?thesis
    by (auto simp: handle_failure_def PublishDeadLetter_db split: prod.split sum.split bool.split
        dest!: S P intro: tx_reach_trans)
qed

lemma run_claimed_reach:
  assumes "disciplined sv"
  shows "tx_reach sv (w_db w) (w_db (snd (run_claimed sv conf ty payload message w)))"
proof -
  have H: "handler sv conf ty message w = (r, w') \<Longrightarrow> tx_reach sv (w_db w) (w_db w')" for r w'
    using reachesD [OF reaches_handler [OF assms], of w conf ty message] by simp
  have U: "run_tx sv (\<lambda>now. task_UpdateStatus now i s e) w1 = (r, w') \<Longrightarrow> tx_reach sv (w_db w1) (w_db w')"
    for w1 r w' i s e
    using reachesD [OF reaches_task_status [OF assms stable_True], of w1 i s e] by simp
  have F: "tx_reach sv d (w_db w1) \<Longrightarrow>
      tx_reach sv d (w_db (snd (handle_failure sv ty payload message err w1)))" for d w1 err
    using handle_failure_reach [OF assms] tx_reach_trans by blast
  show ?thesis
    by (auto simp: run_claimed_def split: prod.split sum.split dest!: H U intro: tx_reach_trans F)
qed

lemma run_unclaimed_reach:
  assumes "disciplined sv"
  shows "tx_reach sv (w_db w) (w_db (snd (run_unclaimed sv wc message w)))"
proof -
  have "reaches sv (\<lambda>_. True) (run_tx sv (\<lambda>now. task_GetByID i))" for i
    by (rule reaches_read [OF assms]) (auto simp: task_GetByID_def split: option.split)
  from reach_next [OF this _ tx_reach_refl]
  have G: "run_tx sv (\<lambda>now. task_GetByID i) w = (r, w') \<Longrightarrow> tx_reach sv (w_db w) (w_db w')" for i r w' .
  show ?thesis
    by (auto simp: run_unclaimed_def split: prod.split sum.split dest!: G)
qed

lemma run_reach:
  assumes "disciplined sv"
  shows "tx_reach sv (w_db w) (w_db (snd (run sv wc conf ty env w)))"
proof -
  have "reaches sv (\<lambda>_. True) (run_tx sv (\<lambda>now. Claim now i lease))" for i lease
    by (rule reaches_run_tx [OF assms]) (auto intro: tx_step.claim)
  from reach_next [OF this _ tx_reach_refl]
  have C: "run_tx sv (\<lambda>now. Claim now i lease) w = (r, w') \<Longrightarrow> tx_reach sv (w_db w) (w_db w')"
    for i lease r w' .
  show ?thesis
    by (auto simp: run_def split: option.split sum.split prod.split dest!: C
        intro: tx_reach_trans run_claimed_reach [OF assms] run_unclaimed_reach [OF assms])
qed

lemma tx_reach_ok: "tx_reach sv d d' \<Longrightarrow> db_ok d \<Longrightarrow> db_ok d'"
  unfolding tx_reach_def by (rule dbs.run_keeps)

section \<open>Acknowledged means settled\<close>

definition task_settled :: "uid \<Rightarrow> db \<Rightarrow> bool" where
  "task_settled i d \<longleftrightarrow>
     (\<exists>r. task_by_id i d = Some r \<and> (task_status r = Success \<or> task_status r = Failed))"

lemma task_status_committed:
  assumes "disciplined sv" and "db_ok (w_db w)"
    and "run_tx sv (\<lambda>now. task_UpdateStatus now i s e) w = (Inr u, w')"
  shows "\<exists>r. task_by_id i (w_db w') = Some r \<and> task_status r = s"
proof -
  from run_tx_Inr [OF assms(3)] obtain now e' d
    where pg: "sv_pg sv (w_ext w) (w_db w) = (Executed, e', d)"
      and q: "task_UpdateStatus now i s e d = (Inr u, w_db w')" by blast
  have "tx_reach sv (w_db w) d" using assms(1) pg by (auto simp: disciplined_def tx_reach_def)
  then have ids: "task_ids_ok d" using tx_reach_ok [OF _ assms(2)] db_ok_task_ids by blast
  from q have "fst (task_UpdateStatus now i s e d) = Inr ()" by simp
  with tcas.update_sets [OF ids, of now e i s] q
  show ?thesis by (auto simp: task_cas_def status_of_task_def)
qed

lemma run_unclaimed_ack:
  assumes "run_unclaimed sv wc message w = ((AckSync, st), w')"
  shows "task_settled (msg_task_id message) (w_db w')"
proof -
  obtain r w1 where g: "run_tx sv (\<lambda>now. task_GetByID (msg_task_id message)) w = (r, w1)" by fastforce
  with assms obtain existing where r: "r = Inr existing"
    and status: "task_status existing = Success \<or> task_status existing = Failed"
    and w': "w_db w' = w_db w1"
    by (auto simp: run_unclaimed_def split: sum.splits if_splits dest: ack_sync_eq)
  from g r obtain d where "task_GetByID (msg_task_id message) d = (Inr existing, w_db w1)"
    by (auto elim: run_tx_Inr)
  then show ?thesis using status w'
    by (auto simp: task_settled_def task_GetByID_def scan_task_def split: option.splits)
qed

lemma persistFailure_committed:
  assumes "disciplined sv" and "db_ok (w_db w)"
    and "persistFailure sv ty message err w = (Inr u, w')"
  shows "\<exists>r. task_by_id (msg_task_id message) (w_db w') = Some r \<and> task_status r = Failed"
proof -
  obtain s where "persistFailure sv ty message err w =
      attempt (wrap_error (lit ''persist failed document state'')
         (set_doc_status sv (msg_doc_id message) s (err_text err))) (\<lambda>_.
       wrap_error (lit ''persist failed task state'')
         (run_tx sv (\<lambda>now. task_UpdateStatus now (msg_task_id message) Failed (err_text err)))) w"
    by (simp add: persistFailure_def Let_def)
  with assms(3) obtain u1 w1 where
    one: "set_doc_status sv (msg_doc_id message) s (err_text err) w = (Inr u1, w1)"
    and two: "run_tx sv (\<lambda>now. task_UpdateStatus now (msg_task_id message) Failed (err_text err)) w1
        = (Inr u, w')"
    by (auto simp: attempt_def wrap_error_def split: prod.splits sum.splits)
  from reachesD [OF reaches_set_doc_status [OF assms(1) stable_True], of w "msg_doc_id message" s
      "err_text err"] one
  have "db_ok (w_db w1)" using tx_reach_ok [OF _ assms(2)] by simp
  from task_status_committed [OF assms(1) this two] show ?thesis .
qed

lemma run_claimed_ack:
  assumes "disciplined sv" and "db_ok (w_db w)"
    and "run_claimed sv conf ty payload message w = ((AckSync, st), w')"
  shows "task_settled (msg_task_id message) (w_db w')"
proof -
  obtain r w1 where h: "handler sv conf ty message w = (r, w1)" by fastforce
  have ok1: "db_ok (w_db w1)"
    using reachesD [OF reaches_handler [OF assms(1)], of w conf ty message] h
      tx_reach_ok [OF _ assms(2)] by simp
  show ?thesis
  proof (cases r)
    case (Inr u)
    obtain r2 w2 where up: "run_tx sv (\<lambda>now. task_UpdateStatus now (msg_task_id message) Success []) w1
        = (r2, w2)" by fastforce
    with assms(3) h Inr obtain u2 where r2: "r2 = Inr u2" and w': "w_db w' = w_db w2"
      by (auto simp: run_claimed_def split: sum.splits dest: ack_sync_eq)
    from task_status_committed [OF assms(1) ok1 up [unfolded r2]] w' show ?thesis
      by (auto simp: task_settled_def)
  next
    case (Inl err)
    obtain b w2 where s: "scheduleRetry sv ty message err w1 = (b, w2)" by fastforce
    have ok2: "db_ok (w_db w2)"
      using scheduleRetry_reach [OF assms(1), of w1 ty message err] s tx_reach_ok [OF _ ok1] by simp
    obtain r3 w3 where p: "persistFailure sv ty message err w2 = (r3, w3)" by fastforce
    obtain r4 w4 where l: "PublishDeadLetter sv ty (msg_task_id message) payload err w3 = (r4, w4)"
      by fastforce
    from assms(3) h Inl s p l obtain u3 where r3: "r3 = Inr u3" and w': "w_db w' = w_db w4"
      by (auto simp: run_claimed_def handle_failure_def split: sum.splits bool.splits
          dest: ack_sync_eq)
    from persistFailure_committed [OF assms(1) ok2 p [unfolded r3]] w' PublishDeadLetter_db [OF l]
    show ?thesis
      by (auto simp: task_settled_def)
  qed
qed

lemma reject_not_acked: "fst (fst (reject sv ty i payload err w)) \<noteq> AckSync"
  by (simp add: reject_def split: prod.split sum.split)

lemma run_ack_settles:
  assumes "disciplined sv" and "db_ok (w_db w)"
    and "run sv wc conf ty (Some env) w = ((AckSync, st), w')"
  shows "\<exists>message. env_message env = Inr message \<and> task_settled (msg_task_id message) (w_db w')"
proof (cases "env_message env")
  case (Inl err)
  with assms(3) reject_not_acked [of sv ty "[]" "env_data env" err w] show ?thesis
    by (simp add: run_def)
next
  case (Inr message)
  let ?C = "run_tx sv (\<lambda>now. Claim now (msg_task_id message) (wk_task_timeout wc * 1000)) w"
  obtain c w1 where c: "?C = (c, w1)" by fastforce
  have "reaches sv (\<lambda>_. True) (run_tx sv (\<lambda>now. Claim now i lease))" for i lease
    by (rule reaches_run_tx [OF assms(1)]) (auto intro: tx_step.claim)
  from reachesD [OF this, of w] c have ok: "db_ok (w_db w1)"
    using tx_reach_ok [OF _ assms(2)] by (metis snd_conv)
  have valid: "\<not> (msg_task_id message = [] \<or> msg_doc_id message = [])"
    using assms(3) Inr reject_not_acked [of sv ty "msg_task_id message" "env_data env"
        "Plain (lit ''task_id and doc_id are required'')" w]
    by (auto simp: run_def split: if_splits)
  with assms(3) Inr c show ?thesis
    using run_claimed_ack [OF assms(1) ok] run_unclaimed_ack
    by (auto simp: run_def split: sum.splits if_splits)
qed

end
