(* ===== verification/Stages.thy ===== *)
theory Stages
  imports WorkerSteps
begin

text \<open>
  What the stages of the pipeline hand over: a finished parse or chunk task has its successor
  and the successor's message in the database, an indexed document has its vectors stored, a
  deleted document has lost its vectors and its file first. The last section follows two
  failures of the worker to where the code leaves the task.
\<close>

section \<open>Handing over to the next stage\<close>

definition has_task :: "uid \<Rightarrow> db \<Rightarrow> bool" where
  "has_task i d \<longleftrightarrow> (\<exists>t \<in> set (index_tasks d). task_id t = i)"

definition has_message :: "uid \<Rightarrow> db \<Rightarrow> bool" where
  "has_message i d \<longleftrightarrow> (\<exists>r \<in> set (task_outbox d). ob_task_id r = i)"

lemma tx_reach_tasks:
  "tx_reach sv d d' \<Longrightarrow> task_id ` set (index_tasks d) \<subseteq> task_id ` set (index_tasks d')"
  unfolding tx_reach_def
proof (induction rule: rtranclp_induct)
  case (step x y)
  from tx_step_evolves [OF step.hyps(2)]
  have "table_step task_id task_born task_evolves (index_tasks x) (index_tasks y)"
    by (simp add: db_evolves_def)
  from tasks.step_mono [OF this] step.IH show ?case by (rule order_trans [rotated])
qed simp

lemma tx_reach_has_task: "tx_reach sv d d' \<Longrightarrow> has_task i d \<Longrightarrow> has_task i d'"
  using tx_reach_tasks [of sv d d'] unfolding has_task_def by (metis image_iff subsetD)

lemma has_task_message: "db_ok d \<Longrightarrow> has_task i d \<Longrightarrow> has_message i d"
proof -
  assume ok: "db_ok d" and "has_task i d"
  then obtain t where t: "t \<in> set (index_tasks d)" "task_id t = i" by (auto simp: has_task_def)
  then have "task_sig t \<in> ob_sig ` set (task_outbox d)"
    using ok by (simp add: db_ok_def outbox_mirror_def)
  then obtain r where "r \<in> set (task_outbox d)" "ob_sig r = task_sig t" by (auto simp: image_iff)
  with t show "has_message i d" by (auto simp: has_message_def ob_sig_def task_sig_def)
qed

lemma task_Create_has_task:
  assumes "task_Create sha now t d = (Inr u, d')"
  shows "has_task (task_id t) d'"
proof (cases "tbl_affected (\<lambda>r. task_id r = task_id t) (index_tasks d) = 0")
  case False
  with assms have "d' = d" by (simp add: task_Create_def)
  with False show ?thesis by (auto simp: has_task_def tbl_affected_zero simp del: neq0_conv)
next
  case True
  let ?d = "d\<lparr>index_tasks := index_tasks d @ [task_insert_row t]\<rparr>"
  obtain r d1 where e: "enqueueOutbox sha now t False ?d = (r, d1)" by fastforce
  with assms True have "d' = d1" by (auto simp: task_Create_def split: sum.splits)
  moreover have "index_tasks d1 = index_tasks ?d" using enqueueOutbox_frame(2) [of sha now t False ?d] e by simp
  moreover have "task_id (task_insert_row t) = task_id t"
    by (simp add: task_insert_row_def index_task.defs)
  ultimately show ?thesis by (simp add: has_task_def)
qed

lemma enqueueNext_has_task:
  assumes "enqueueNext sv message doc ty w = (Inr u, w')"
  shows "has_task (deterministicID sv (msg_task_id message) (task_type_text ty)) (w_db w')"
proof -
  from assms obtain t where
    "run_tx sv (\<lambda>now. task_Create (sv_sha sv) now (next_task_for sv t message doc ty)) w = (Inr u, w')"
    by (simp add: enqueueNext_def attempt_def time_now_def)
  from run_tx_Inr [OF this] show ?thesis by (metis task_Create_has_task next_task_id)
qed

lemma finish_parse_has_task:
  "finish_parse sv message doc parsed w = (Inr u, w') \<Longrightarrow>
    has_task (deterministicID sv (msg_task_id message) ''document.chunk'') (w_db w')"
  unfolding finish_parse_def
  by (auto elim!: attempt_Inr split: sum.splits dest!: enqueueNext_has_task)

lemma parse_has_task:
  "parseDocument sv message w = (Inr u, w') \<Longrightarrow>
    has_task (deterministicID sv (msg_task_id message) ''document.chunk'') (w_db w')"
  unfolding parseDocument_def
  by (auto elim!: attempt_Inr split: sum.splits if_splits dest!: enqueueNext_has_task
      finish_parse_has_task)

lemma chunk_has_task:
  "chunkDocument sv conf message w = (Inr u, w') \<Longrightarrow>
    has_task (deterministicID sv (msg_task_id message) ''document.embedding'') (w_db w')"
  unfolding chunkDocument_def
  by (auto elim!: attempt_Inr split: if_splits dest!: enqueueNext_has_task)

fun successor :: "task_type \<Rightarrow> task_type option" where
  "successor ParseTask = Some ChunkTask"
| "successor ChunkTask = Some EmbeddingTask"
| "successor _ = None"

lemma handler_has_task:
  "handler sv conf ty message w = (Inr u, w') \<Longrightarrow> successor ty = Some n \<Longrightarrow>
    has_task (deterministicID sv (msg_task_id message) (task_type_text n)) (w_db w')"
  by (cases ty) (auto simp: handler_def dest: parse_has_task chunk_has_task)

section \<open>Indexing and deleting\<close>

lemma run_tx_Inr_log: "run_tx sv q w = (Inr a, w') \<Longrightarrow> w_log w' = w_log w"
  using run_tx_log [of sv q w] by simp

lemma call_ext_Inr: "call_ext f calls w = (Inr u, w') \<Longrightarrow> w_log w' = w_log w @ calls \<and> w_db w' = w_db w"
  by (auto simp: call_ext_def split: prod.splits option.splits)

lemma query_ext_Inr: "query_ext f w = (Inr a, w') \<Longrightarrow> w_log w' = w_log w \<and> w_db w' = w_db w"
  using query_ext_frame [of f w] by simp

definition doc_in :: "uid \<Rightarrow> doc_status \<Rightarrow> db \<Rightarrow> bool" where
  "doc_in i s d \<longleftrightarrow> (\<exists>r \<in> set (documents d). doc_id r = i \<and> live_doc r \<and> doc_status r = s)"

lemma set_doc_status_Inr:
  assumes "set_doc_status sv i s e w = (Inr u, w')"
  shows "doc_in i s (w_db w')" and "w_log w' = w_log w"
proof -
  from assms obtain now d where q: "doc_UpdateStatus now i s e d = (Inr u, w_db w')"
    unfolding set_doc_status_def by (auto elim: run_tx_Inr)
  let ?P = "\<lambda>r. doc_id r = i \<and> live_doc r \<and> doc_status r \<in> set (fst (DocumentPreviousStatuses s))"
  let ?f = "\<lambda>r. r\<lparr>doc_status := s, doc_error := e, doc_updated_at := now\<rparr>"
  from q have hit: "tbl_affected ?P (documents d) \<noteq> 0"
    and "w_db w' = d\<lparr>documents := tbl_update ?P ?f (documents d)\<rparr>"
    by (auto simp: doc_UpdateStatus_def Let_def split: prod.splits if_splits)
  from this(2) have d': "documents (w_db w') = tbl_update ?P ?f (documents d)" by simp
  from hit obtain r where r: "r \<in> set (documents d)" "?P r" by (auto simp: tbl_affected_zero simp del: neq0_conv)
  from tbl_update_hit [of r "documents d" ?P ?f, OF r] d'
  have "?f r \<in> set (documents (w_db w'))" by simp
  moreover have "doc_id (?f r) = i \<and> live_doc (?f r) \<and> doc_status (?f r) = s"
    using r(2) by (simp add: live_doc_def)
  ultimately show "doc_in i s (w_db w')" unfolding doc_in_def by blast
  show "w_log w' = w_log w" using assms unfolding set_doc_status_def by (rule run_tx_Inr_log)
qed

lemma get_doc_in:
  assumes "run_tx sv (\<lambda>now. doc_GetByID i) w = (Inr doc, w')"
  shows "doc_id doc = i" and "doc_in i (doc_status doc) (w_db w')" and "w_log w' = w_log w"
proof -
  from assms obtain d where q: "doc_GetByID i d = (Inr doc, w_db w')" by (auto elim: run_tx_Inr)
  from doc_GetByID_Inr [OF q] obtain r where "r \<in> set (documents d)" "doc_id r = i" "live_doc r"
    "doc = document.truncate r" "w_db w' = d" by metis
  then show "doc_id doc = i" and "doc_in i (doc_status doc) (w_db w')" by (auto simp: doc_in_def)
  show "w_log w' = w_log w" using assms by (rule run_tx_Inr_log)
qed

lemma at_or_beyond_Indexed: "documentAtOrBeyond s Indexed \<longleftrightarrow> s = Indexed"
  by (cases s) (simp_all add: documentAtOrBeyond_def)

lemma chunks_of_doc:
  assumes "run_tx sv (\<lambda>now. chunk_ListByDocument i) w = (Inr chunks, w')"
  shows "\<forall>c \<in> set chunks. ch_doc c = i" and "w_log w' = w_log w"
proof -
  from assms obtain d where "chunk_ListByDocument i d = (Inr chunks, w_db w')" by (auto elim: run_tx_Inr)
  then show "\<forall>c \<in> set chunks. ch_doc c = i"
    by (auto simp: chunk_ListByDocument_def scan_chunk_def document_chunk.truncate_def)
  show "w_log w' = w_log w" using assms by (rule run_tx_Inr_log)
qed

lemma embed_indexes:
  assumes "embedDocument sv message w = (Inr u, w')"
  shows "doc_in (msg_doc_id message) Indexed (w_db w') \<and>
    (w_log w' = w_log w \<or>
     (\<exists>chunks vectors. w_log w' = w_log w @ [Upserted chunks vectors] \<and> chunks \<noteq> [] \<and>
        length vectors = length chunks \<and> (\<forall>c \<in> set chunks. ch_doc c = msg_doc_id message)))"
proof -
  from assms obtain doc w1 where get: "run_tx sv (\<lambda>now. doc_GetByID (msg_doc_id message)) w = (Inr doc, w1)"
    and rest: "(if documentAtOrBeyond (doc_status doc) Indexed then return ()
       else
         attempt (if doc_status doc \<noteq> Embedding then set_doc_status sv (doc_id doc) Embedding []
                  else return ()) (\<lambda>_.
           attempt (run_tx sv (\<lambda>now. chunk_ListByDocument (doc_id doc))) (\<lambda>chunks.
             if chunks = [] then fail (Plain (lit ''no document chunks found''))
             else
               attempt (query_ext (sv_embed sv (doc_tenant doc) (map buildEmbeddingText chunks)))
                 (\<lambda>vectors.
                   if length vectors \<noteq> length chunks
                   then fail (Plain (lit ''embedding vector count mismatch''))
                   else
                     attempt (call_ext (sv_upsert sv chunks vectors) [Upserted chunks vectors])
                       (\<lambda>_. set_doc_status sv (doc_id doc) Indexed []))))) w1 = (Inr u, w')"
    unfolding embedDocument_def by (rule attempt_Inr)
  note doc = get_doc_in [OF get]
  show ?thesis
  proof (cases "documentAtOrBeyond (doc_status doc) Indexed")
    case True
    with rest doc show ?thesis by (simp add: at_or_beyond_Indexed)
  next
    case False
    have pre: "m w1 = (Inr x, w2) \<Longrightarrow> w_log w2 = w_log w1"
      if "m = (if doc_status doc \<noteq> Embedding then set_doc_status sv (doc_id doc) Embedding []
                  else return ())" for m x w2
      using that by (auto split: if_splits dest: set_doc_status_Inr(2))
    from rest False obtain x w2 chunks w3 vectors w4 y w5 where
      a: "(if doc_status doc \<noteq> Embedding then set_doc_status sv (doc_id doc) Embedding []
                  else return ()) w1 = (Inr x, w2)"
      and b: "run_tx sv (\<lambda>now. chunk_ListByDocument (doc_id doc)) w2 = (Inr chunks, w3)" "chunks \<noteq> []"
      and c: "query_ext (sv_embed sv (doc_tenant doc) (map buildEmbeddingText chunks)) w3
          = (Inr vectors, w4)" "length vectors = length chunks"
      and d: "call_ext (sv_upsert sv chunks vectors) [Upserted chunks vectors] w4 = (Inr y, w5)"
      and e: "set_doc_status sv (doc_id doc) Indexed [] w5 = (Inr u, w')"
      by (auto elim!: attempt_Inr split: if_splits)
    from pre [OF refl a] chunks_of_doc [OF b(1)] query_ext_Inr [OF c(1)] call_ext_Inr [OF d]
      set_doc_status_Inr [OF e] doc b(2) c(2)
    show ?thesis by auto
  qed
qed

lemma CompleteDelete_Inr:
  assumes "CompleteDelete now i d = (Inr u, d')"
  shows "\<exists>r \<in> set (documents d'). doc_id r = i \<and> doc_deleted_at r = Some now"
proof -
  let ?P = "\<lambda>r. (doc_id r = i \<and> doc_status r = Deleting) \<and> live_doc r"
  let ?f = "\<lambda>r. r\<lparr>doc_deleted_at := Some now, doc_updated_at := now\<rparr>"
  have hit: "tbl_affected ?P (documents d) \<noteq> 0"
    and "d' = soft_delete_documents now (\<lambda>r. doc_id r = i \<and> doc_status r = Deleting)
                         (soft_delete_chunks now (\<lambda>c. ch_doc c = i) d)"
    using assms by (simp_all add: CompleteDelete_def Let_def split: if_splits)
  from this(2) have d': "documents d' = tbl_update ?P ?f (documents d)"
    by (simp add: soft_delete_documents_def soft_delete_chunks_def)
  from hit obtain r where r: "r \<in> set (documents d)" "?P r"
    by (auto simp: tbl_affected_zero simp del: neq0_conv)
  from tbl_update_hit [of r "documents d" ?P ?f, OF r] d' have "?f r \<in> set (documents d')" by simp
  moreover have "doc_id (?f r) = i \<and> doc_deleted_at (?f r) = Some now" using r(2) by simp
  ultimately show ?thesis by blast
qed

lemma delete_objects_Inr:
  assumes "delete_objects sv doc w = (Inr u, w')"
  obtains bucket object where "parseFileURL (doc_file_url doc) = Inr (bucket, object)"
    and "w_log w' = w_log w @ [VectorsDeleted (doc_user doc) [doc_id doc], ObjectRemoved bucket object]"
  using assms unfolding delete_objects_def
  by (auto elim!: attempt_Inr split: if_splits sum.splits dest!: call_ext_Inr query_ext_Inr)

definition gone :: "uid \<Rightarrow> db \<Rightarrow> bool" where
  "gone i d \<longleftrightarrow> (\<forall>r \<in> set (documents d). doc_id r = i \<longrightarrow> \<not> live_doc r)"

lemma capture_Inr [simp]: "capture m w = (Inr r, w') \<longleftrightarrow> m w = (r, w')"
  by (auto simp: capture_def)

lemma errors_is_refused: "quiet sv \<Longrightarrow> fst (run_tx sv q w) = Inl e \<Longrightarrow> \<exists>now. fst (q now (w_db w)) = Inl e"
  by (metis fst_conv run_tx_quiet)

lemma delete_after_objects:
  assumes "quiet sv" and "deleteDocument sv message w = (Inr u, w')"
  shows "(w_log w' = w_log w \<and> w_db w' = w_db w \<and> gone (msg_doc_id message) (w_db w')) \<or>
    (\<exists>user bucket object. w_log w' = w_log w @
        [VectorsDeleted user [msg_doc_id message], ObjectRemoved bucket object] \<and>
       (\<exists>r \<in> set (documents (w_db w')). doc_id r = msg_doc_id message \<and> \<not> live_doc r))"
proof -
  let ?i = "msg_doc_id message"
  obtain found w1 where get: "run_tx sv (\<lambda>now. doc_GetByID ?i) w = (found, w1)" by fastforce
  with assms(2) have rest: "(case found of
          Inl err \<Rightarrow> if errors_is err PgxNoRows then return () else fail err
        | Inr doc \<Rightarrow>
            attempt (delete_objects sv doc) (\<lambda>_.
              wrap_error (lit ''soft delete document'')
                (run_tx sv (\<lambda>now. CompleteDelete now (doc_id doc))))) w1 = (Inr u, w')"
    by (simp add: deleteDocument_def attempt_def capture_def)
  show ?thesis
  proof (cases found)
    case (Inl err)
    with rest have w': "w' = w1" by (simp split: if_splits)
    obtain now e where "run_tx sv (\<lambda>now. doc_GetByID ?i) w =
        (fst (doc_GetByID ?i (w_db w)), w\<lparr>w_db := snd (doc_GetByID ?i (w_db w)), w_ext := e\<rparr>)"
      using run_tx_quiet [OF assms(1)] by metis
    with get Inl have "w_log w1 = w_log w" "w_db w1 = w_db w" "fst (doc_GetByID ?i (w_db w)) = Inl err"
      by (auto simp: doc_GetByID_same)
    moreover from this(3) have "gone ?i (w_db w)"
      by (auto simp: gone_def doc_GetByID_def tbl_first_None split: option.splits)
    ultimately show ?thesis using w' by simp
  next
    case (Inr doc)
    note doc = get_doc_in [OF get [unfolded Inr]]
    from rest Inr obtain x w2 where objs: "delete_objects sv doc w1 = (Inr x, w2)"
      and fin: "run_tx sv (\<lambda>now. CompleteDelete now (doc_id doc)) w2 = (Inr u, w')"
      by (auto elim!: attempt_Inr)
    from fin obtain now d where "CompleteDelete now (doc_id doc) d = (Inr u, w_db w')"
      by (auto elim: run_tx_Inr)
    from CompleteDelete_Inr [OF this] doc(1)
    have "\<exists>r \<in> set (documents (w_db w')). doc_id r = ?i \<and> \<not> live_doc r" by (auto simp: live_doc_def)
    with delete_objects_Inr [OF objs] run_tx_Inr_log [OF fin] doc show ?thesis by metis
  qed
qed

section \<open>The outcome of a run\<close>

lemma ack_sync_status: "ack_sync sv a b w = ((dp, st), w') \<Longrightarrow> (st = a \<or> st = b) \<and> w_log w' = w_log w"
  by (auto simp: ack_sync_def split: prod.splits option.splits)

lemma Claim_reaches: "disciplined sv \<Longrightarrow> reaches sv (\<lambda>_. True) (run_tx sv (\<lambda>now. Claim now i lease))"
  by (rule reaches_run_tx) (auto intro: tx_step.claim)

text \<open>A run that reports success went through the handler and the final status update.\<close>

lemma run_success:
  assumes "disciplined sv" and "db_ok (w_db w)"
    and "run sv wc conf ty (Some env) w = ((AckSync, ''success''), w')"
  obtains message w1 u w2 w3 where "env_message env = Inr message" and "db_ok (w_db w1)"
    and "handler sv conf ty message w1 = (Inr u, w2)"
    and "run_tx sv (\<lambda>now. task_UpdateStatus now (msg_task_id message) Success []) w2 = (Inr (), w3)"
    and "w_db w' = w_db w3"
proof -
  obtain message where m: "env_message env = Inr message"
    using run_ack_settles [OF assms] by blast
  obtain c w1 where c: "run_tx sv (\<lambda>now. Claim now (msg_task_id message) (wk_task_timeout wc * 1000)) w
      = (c, w1)" by fastforce
  have ok: "db_ok (w_db w1)"
    using reach_next [OF Claim_reaches [OF assms(1)] c tx_reach_refl] tx_reach_ok [OF _ assms(2)] by blast
  have valid: "\<not> (msg_task_id message = [] \<or> msg_doc_id message = [])"
    using assms(3) m reject_not_acked [of sv ty "msg_task_id message" "env_data env"
        "Plain (lit ''task_id and doc_id are required'')" w]
    by (auto simp: run_def split: if_splits)
  have "run_claimed sv conf ty (env_data env) message w1 = ((AckSync, ''success''), w')"
    using assms(3) m c valid
    by (auto simp: run_def run_unclaimed_def split: sum.splits if_splits prod.splits dest: ack_sync_status)
  then obtain u w2 w3 where h: "handler sv conf ty message w1 = (Inr u, w2)"
    and up: "run_tx sv (\<lambda>now. task_UpdateStatus now (msg_task_id message) Success []) w2 = (Inr (), w3)"
    and ack: "ack_sync sv ''success'' ''error'' w3 = ((AckSync, ''success''), w')"
    by (auto simp: run_claimed_def handle_failure_def split: sum.splits prod.splits bool.splits
        dest: ack_sync_status)
  show thesis by (rule that [OF m ok h up ack_sync_eq [OF ack]])
qed

lemma run_success_effects:
  assumes "disciplined sv" and "db_ok (w_db w)"
    and "run sv wc conf ty (Some env) w = ((AckSync, ''success''), w')"
  shows "\<exists>message. env_message env = Inr message \<and>
    (\<exists>r. task_by_id (msg_task_id message) (w_db w') = Some r \<and> task_status r = Success) \<and>
    (\<forall>n. successor ty = Some n \<longrightarrow>
       has_task (deterministicID sv (msg_task_id message) (task_type_text n)) (w_db w') \<and>
       has_message (deterministicID sv (msg_task_id message) (task_type_text n)) (w_db w'))"
proof -
  obtain message w1 u w2 w3 where m: "env_message env = Inr message" and ok: "db_ok (w_db w1)"
    and h: "handler sv conf ty message w1 = (Inr u, w2)"
    and up: "run_tx sv (\<lambda>now. task_UpdateStatus now (msg_task_id message) Success []) w2 = (Inr (), w3)"
    and w3: "w_db w' = w_db w3"
    by (rule run_success [OF assms])
  have ok2: "db_ok (w_db w2)"
    using reach_next [OF reaches_handler [OF assms(1)] h tx_reach_refl] tx_reach_ok [OF _ ok] by blast
  have reach: "tx_reach sv (w_db w2) (w_db w')"
    using reachesD [OF reaches_task_status [OF assms(1) stable_True], of w2 "msg_task_id message"
        Success "[]"] up w3 by simp
  then have ok': "db_ok (w_db w')" using tx_reach_ok [OF _ ok2] by blast
  from task_status_committed [OF assms(1) ok2 up]
  have "\<exists>r. task_by_id (msg_task_id message) (w_db w') = Some r \<and> task_status r = Success"
    using w3 by simp
  moreover have "has_task (deterministicID sv (msg_task_id message) (task_type_text n)) (w_db w')"
    if "successor ty = Some n" for n
    using tx_reach_has_task [OF reach handler_has_task [OF h that]] .
  ultimately show ?thesis using m has_task_message [OF ok'] by blast
qed

end
