(* ===== verification/WorkerGaps.thy ===== *)
theory WorkerGaps
  imports Stages
begin

text \<open>
  Where the error handling of the workers leaves a task that it should have settled: a task
  whose document is deleted before the task runs, and a transient error that comes after the
  document's status has already moved on.
\<close>

lemma no_rows_not_retried: "\<not> shouldAutoRetry u (Sentinel PgxNoRows)"
proof -
  have low: "ToLower u (TrimSpace (lit ''no rows in result set'')) = lit ''no rows in result set''"
    by (simp add: lit_def ToLower_def TrimSpace_def TrimLeftSpace_def TrimRightSpace_def isSpace_def
        runeLower_def ascii_upper_letter_def)
  have "\<not> list_ex (Contains (lit ''no rows in result set'')) transient_patterns"
    by code_simp
  then show ?thesis by (simp add: shouldAutoRetry_def low)
qed

lemma handler_no_document:
  assumes "quiet sv" and "gone (msg_doc_id message) (w_db w)" and "ty \<noteq> DeleteTask"
  obtains e where "handler sv conf ty message w = (Inl (Sentinel PgxNoRows), w\<lparr>w_ext := e\<rparr>)"
proof -
  let ?i = "msg_doc_id message"
  have none: "doc_GetByID ?i (w_db w) = (Inl (Sentinel PgxNoRows), w_db w)"
    using assms(2) by (auto simp: doc_GetByID_def gone_def tbl_first_None split: option.split
        dest!: tbl_first_Some)
  obtain e where "run_tx sv (\<lambda>now. doc_GetByID ?i) w = (Inl (Sentinel PgxNoRows), w\<lparr>w_ext := e\<rparr>)"
    using run_tx_quiet [OF assms(1), of "\<lambda>now. doc_GetByID ?i" w] none by auto
  then have "handler sv conf ty message w = (Inl (Sentinel PgxNoRows), w\<lparr>w_ext := e\<rparr>)"
    using assms(3)
    by (cases ty) (simp_all add: handler_def parseDocument_def chunkDocument_def embedDocument_def
        attempt_def)
  then show thesis by (rule that)
qed

lemma gone_conflict:
  assumes "quiet sv" and "gone i (w_db w)"
  obtains e where "set_doc_status sv i s err w = (Inl (Sentinel DocumentStateConflict), w\<lparr>w_ext := e\<rparr>)"
proof -
  let ?P = "\<lambda>p r. doc_id r = i \<and> live_doc r \<and> doc_status r \<in> set p"
  have "tbl_affected (?P p) (documents (w_db w)) = 0" for p
    using assms(2) by (auto simp: gone_def tbl_affected_zero simp del: neq0_conv)
  then have none: "doc_UpdateStatus now i s err (w_db w) =
      (Inl (Sentinel DocumentStateConflict), w_db w)" for now
    by (simp add: doc_UpdateStatus_def Let_def split: prod.split)
  obtain now e where "run_tx sv (\<lambda>now. doc_UpdateStatus now i s err) w =
      (fst (doc_UpdateStatus now i s err (w_db w)),
       w\<lparr>w_db := snd (doc_UpdateStatus now i s err (w_db w)), w_ext := e\<rparr>)"
    by (rule run_tx_quiet [OF assms(1)])
  with none show thesis by (intro that [of e]) (simp add: set_doc_status_def)
qed

lemma run_claimed_gone:
  assumes "quiet sv" and "gone (msg_doc_id message) (w_db w)" and "ty \<noteq> DeleteTask"
  obtains e where "run_claimed sv conf ty payload message w =
    ((NakWithDelay automaticRetryDelay, ''retry''), w\<lparr>w_ext := e\<rparr>)"
proof -
  obtain e where h: "handler sv conf ty message w = (Inl (Sentinel PgxNoRows), w\<lparr>w_ext := e\<rparr>)"
    by (rule handler_no_document [OF assms])
  have gone1: "gone (msg_doc_id message) (w_db (w\<lparr>w_ext := e\<rparr>))" using assms(2) by simp
  obtain e2 where "set_doc_status sv (msg_doc_id message) DocFailed (err_text (Sentinel PgxNoRows))
      (w\<lparr>w_ext := e\<rparr>) = (Inl (Sentinel DocumentStateConflict), w\<lparr>w_ext := e\<rparr>\<lparr>w_ext := e2\<rparr>)"
    by (rule gone_conflict [OF assms(1) gone1])
  with assms(3) have p: "persistFailure sv ty message (Sentinel PgxNoRows) (w\<lparr>w_ext := e\<rparr>) =
      (Inl (Wrapped (lit ''persist failed document state'') (Sentinel DocumentStateConflict)),
       w\<lparr>w_ext := e2\<rparr>)"
    by (simp add: persistFailure_def attempt_def wrap_error_def)
  have "scheduleRetry sv ty message (Sentinel PgxNoRows) (w\<lparr>w_ext := e\<rparr>) = (False, w\<lparr>w_ext := e\<rparr>)"
    by (simp add: scheduleRetry_def no_rows_not_retried)
  with h p show thesis by (intro that [of e2]) (simp add: run_claimed_def handle_failure_def)
qed

lemma claim_pending:
  assumes "quiet sv" and "db_ok (w_db w)" and "task_by_id i (w_db w) = Some r"
    and "task_status r = Pending"
  obtains w1 s where "run_tx sv (\<lambda>now. Claim now i lease) w = (Inr True, w1)"
    and "task_by_id i (w_db w1) = Some s" and "task_status s = Running"
    and "documents (w_db w1) = documents (w_db w)"
proof -
  obtain now e where tx: "run_tx sv (\<lambda>now. Claim now i lease) w =
      (fst (Claim now i lease (w_db w)), w\<lparr>w_db := snd (Claim now i lease (w_db w)), w_ext := e\<rparr>)"
    by (rule run_tx_quiet [OF assms(1)])
  have "fst (Claim now i lease (w_db w)) = Inr True"
    using assms(3,4) by (simp add: Claim_fst [OF db_ok_task_ids [OF assms(2)]] task_claimable_def)
  moreover have "documents (snd (Claim now i lease (w_db w))) = documents (w_db w)"
    by (simp add: Claim_def Let_def)
  moreover have "task_by_id i (snd (Claim now i lease (w_db w))) = Some (r\<lparr>task_status := Running,
      task_error := [], task_lease_expires_at := Some (now + lease_seconds lease * 1000),
      task_updated_at := now\<rparr>)" (is "_ = Some ?s")
    using assms(3,4) by (simp add: task_by_id_Claim task_claimable_def)
  moreover have "task_status ?s = Running" by simp
  ultimately show thesis
    using tx by (intro that [of "w\<lparr>w_db := snd (Claim now i lease (w_db w)), w_ext := e\<rparr>" ?s]) simp_all
qed

lemma Retry_only_failed:
  assumes "task_ids_ok d" and "task_by_id i d = Some r" and "task_status r \<noteq> Failed"
  shows "Retry sha now i user d = (Inl (Sentinel IndexTaskNotRetryable), d)"
proof -
  have "tbl_first (\<lambda>r. task_id r = i \<and> task_user r = user \<and> task_status r = Failed) (index_tasks d) = None"
    using tbl_first_guarded [OF assms(1) [unfolded task_ids_ok_def], of i
        "\<lambda>r. task_user r = user \<and> task_status r = Failed"] assms(2,3)
    by (simp add: task_by_id_def)
  then show ?thesis by (simp add: Retry_def Let_def)
qed

lemma run_of_gone_document:
  assumes "quiet sv" and "db_ok (w_db w)" and "env_message env = Inr message"
    and "msg_task_id message \<noteq> []" and "msg_doc_id message \<noteq> []" and "ty \<noteq> DeleteTask"
    and "task_by_id (msg_task_id message) (w_db w) = Some r" and "task_status r = Pending"
    and "gone (msg_doc_id message) (w_db w)"
  obtains w' s where "run sv wc conf ty (Some env) w = ((NakWithDelay automaticRetryDelay, ''retry''), w')"
    and "task_by_id (msg_task_id message) (w_db w') = Some s" and "task_status s = Running"
    and "\<forall>now user. Retry (sv_sha sv) now (msg_task_id message) user (w_db w') =
      (Inl (Sentinel IndexTaskNotRetryable), w_db w')"
proof -
  let ?i = "msg_task_id message"
  obtain w1 s where c: "run_tx sv (\<lambda>now. Claim now ?i (wk_task_timeout wc * 1000)) w = (Inr True, w1)"
    and s: "task_by_id ?i (w_db w1) = Some s" "task_status s = Running"
    and docs: "documents (w_db w1) = documents (w_db w)"
    by (rule claim_pending [OF assms(1,2,7,8)])
  have "gone (msg_doc_id message) (w_db w1)" using assms(9) docs by (simp add: gone_def)
  from run_claimed_gone [OF assms(1) this assms(6)] obtain e
    where "run_claimed sv conf ty (env_data env) message w1 =
      ((NakWithDelay automaticRetryDelay, ''retry''), w1\<lparr>w_ext := e\<rparr>)" by blast
  with c assms(3-5) have run: "run sv wc conf ty (Some env) w =
      ((NakWithDelay automaticRetryDelay, ''retry''), w1\<lparr>w_ext := e\<rparr>)"
    by (simp add: run_def)
  have "tx_reach sv (w_db w) (w_db w1)"
    using reach_next [OF Claim_reaches [OF quiet_disciplined [OF assms(1)]] c] by simp
  then have "task_ids_ok (w_db w1)" using tx_reach_ok [OF _ assms(2)] db_ok_task_ids by blast
  from Retry_only_failed [OF this s(1)] s run show thesis by (intro that [OF run]) auto
qed

section \<open>A transient error after the document has moved on\<close>

lemma reset_conflict:
  assumes "quiet sv" and "doc_in i s (w_db w)" and "distinct (map doc_id (documents (w_db w)))"
    and "s \<notin> set (fst (DocumentRetryPreviousStatuses t))"
  obtains e where "run_tx sv (\<lambda>now. ResetStatusForRetry now i t) w =
    (Inl (Sentinel DocumentStateConflict), w\<lparr>w_ext := e\<rparr>)"
proof -
  let ?P = "\<lambda>r. doc_id r = i \<and> live_doc r \<and> doc_status r \<in> set (fst (DocumentRetryPreviousStatuses t))"
  from assms(2) obtain x where x: "x \<in> set (documents (w_db w))" "doc_id x = i" "doc_status x = s"
    by (auto simp: doc_in_def)
  have "\<not> ?P r" if "r \<in> set (documents (w_db w))" for r
    using key_unique [OF assms(3) that x(1)] x assms(4) by auto
  then have "tbl_affected ?P (documents (w_db w)) = 0" by (simp add: tbl_affected_zero del: neq0_conv)
  then have none: "ResetStatusForRetry now i t (w_db w) = (Inl (Sentinel DocumentStateConflict), w_db w)" for now
    by (cases "DocumentRetryPreviousStatuses t") (simp add: ResetStatusForRetry_def Let_def)
  obtain now e where "run_tx sv (\<lambda>now. ResetStatusForRetry now i t) w =
      (fst (ResetStatusForRetry now i t (w_db w)),
       w\<lparr>w_db := snd (ResetStatusForRetry now i t (w_db w)), w_ext := e\<rparr>)"
    by (rule run_tx_quiet [OF assms(1)])
  with none show thesis by (intro that [of e]) simp
qed

lemma schedule_retry_running:
  assumes "quiet sv" and "db_ok (w_db w)" and "task_by_id i (w_db w) = Some r"
    and "task_status r = Running" and "task_retry_count r < m"
  obtains w1 t s where "run_tx sv (\<lambda>now. ScheduleRetry now i m) w = (Inr (Some t), w1)"
    and "task_by_id i (w_db w1) = Some s" and "task_status s = Pending"
    and "documents (w_db w1) = documents (w_db w)" and "w_log w1 = w_log w" and "db_ok (w_db w1)"
proof -
  obtain now e where tx: "run_tx sv (\<lambda>now. ScheduleRetry now i m) w =
      (fst (ScheduleRetry now i m (w_db w)), w\<lparr>w_db := snd (ScheduleRetry now i m (w_db w)), w_ext := e\<rparr>)"
    by (rule run_tx_quiet [OF assms(1)])
  note cases = ScheduleRetry_cases [OF db_ok_task_ids [OF assms(2)], of now i m]
  obtain t where t: "fst (ScheduleRetry now i m (w_db w)) = Inr (Some t)"
    using arg_cong [OF cases, of fst] assms(3-5) by auto
  have "tx_step (sv_sha sv) (w_db w) (snd (ScheduleRetry now i m (w_db w)))" by (rule tx_step.auto_retry)
  then have "db_ok (snd (ScheduleRetry now i m (w_db w)))" using assms(2) by (rule tx_step_ok)
  moreover have "documents (snd (ScheduleRetry now i m (w_db w))) = documents (w_db w)"
    by (simp add: ScheduleRetry_def Let_def split: option.split)
  moreover have "task_by_id i (snd (ScheduleRetry now i m (w_db w))) = Some (r\<lparr>task_status := Pending,
      task_retry_count := task_retry_count r + 1, task_lease_expires_at := None,
      task_updated_at := now\<rparr>)" (is "_ = Some ?s")
    using assms(3-5) by (simp add: task_by_id_ScheduleRetry)
  moreover have "task_status ?s = Pending" by simp
  ultimately show thesis
    using tx t
    by (intro that [of t "w\<lparr>w_db := snd (ScheduleRetry now i m (w_db w)), w_ext := e\<rparr>" ?s]) simp_all
qed

lemma fail_pending:
  assumes "quiet sv" and "db_ok (w_db w)" and "task_by_id i (w_db w) = Some r"
    and "task_status r = Pending"
  obtains s where
    "task_by_id i (w_db (snd (run_tx sv (\<lambda>now. task_UpdateStatus now i Failed e) w))) = Some s"
    and "task_status s = Failed"
proof -
  obtain now x where tx: "run_tx sv (\<lambda>now. task_UpdateStatus now i Failed e) w =
      (fst (task_UpdateStatus now i Failed e (w_db w)),
       w\<lparr>w_db := snd (task_UpdateStatus now i Failed e (w_db w)), w_ext := x\<rparr>)"
    by (rule run_tx_quiet [OF assms(1)])
  note ids = db_ok_task_ids [OF assms(2)]
  have "fst (task_UpdateStatus now i Failed e (w_db w)) = Inr ()"
    using assms(3,4) by (auto simp: task_UpdateStatus_Inr [OF ids] status_table_defs)
  with tx assms(3,4) show thesis
    by (intro that) (auto simp: task_by_id_UpdateStatus status_table_defs)
qed

lemma update_failed_again:
  assumes "quiet sv" and "db_ok (w_db w)" and "task_by_id i (w_db w) = Some r"
    and "task_status r = Failed"
  shows "\<exists>e'. fst (run_tx sv (\<lambda>now. task_UpdateStatus now i Failed e) w) = Inl e'"
proof -
  obtain now x where tx: "run_tx sv (\<lambda>now. task_UpdateStatus now i Failed e) w =
      (fst (task_UpdateStatus now i Failed e (w_db w)),
       w\<lparr>w_db := snd (task_UpdateStatus now i Failed e (w_db w)), w_ext := x\<rparr>)"
    by (rule run_tx_quiet [OF assms(1)])
  have "fst (task_UpdateStatus now i Failed e (w_db w)) \<noteq> Inr ()"
    using assms(3,4) by (auto simp: task_UpdateStatus_Inr [OF db_ok_task_ids [OF assms(2)]] status_table_defs)
  with tx show ?thesis by (cases "fst (task_UpdateStatus now i Failed e (w_db w))") auto
qed

lemma update_other_doc_status_task:
  assumes "quiet sv"
  shows "task_by_id i (w_db (snd (set_doc_status sv j s e w))) = task_by_id i (w_db w)"
    and "w_log (snd (set_doc_status sv j s e w)) = w_log w"
proof -
  obtain now x where tx: "run_tx sv (\<lambda>now. doc_UpdateStatus now j s e) w =
      (fst (doc_UpdateStatus now j s e (w_db w)),
       w\<lparr>w_db := snd (doc_UpdateStatus now j s e (w_db w)), w_ext := x\<rparr>)"
    by (rule run_tx_quiet [OF assms])
  have "index_tasks (snd (doc_UpdateStatus now j s e d)) = index_tasks d" for d
    by (simp add: doc_UpdateStatus_def Let_def split: prod.split)
  with tx show "task_by_id i (w_db (snd (set_doc_status sv j s e w))) = task_by_id i (w_db w)"
    by (simp add: set_doc_status_def task_by_id_def)
  show "w_log (snd (set_doc_status sv j s e w)) = w_log w" by (simp add: set_doc_status_def)
qed

lemma persistFailure_of_failed:
  assumes "quiet sv" and "db_ok (w_db w)" and "task_by_id (msg_task_id message) (w_db w) = Some r"
    and "task_status r = Failed"
  shows "\<exists>e. fst (persistFailure sv ty message err w) = Inl e"
    and "\<exists>s. task_by_id (msg_task_id message) (w_db (snd (persistFailure sv ty message err w))) = Some s \<and>
      task_status s = Failed"
    and "w_log (snd (persistFailure sv ty message err w)) = w_log w"
proof -
  let ?i = "msg_task_id message"
  let ?s = "if ty = DeleteTask then DeleteFailed else DocFailed"
  obtain x w1 where one: "set_doc_status sv (msg_doc_id message) ?s (err_text err) w = (x, w1)" by fastforce
  have row: "task_by_id ?i (w_db w1) = Some r" and log: "w_log w1 = w_log w"
    using update_other_doc_status_task [OF assms(1), where w = w] one assms(3) by (metis snd_conv)+
  have ok: "db_ok (w_db w1)"
    using reach_next [OF reaches_set_doc_status [OF quiet_disciplined [OF assms(1)] stable_True] one
        tx_reach_refl] tx_reach_ok [OF _ assms(2)] by blast
  obtain e where again: "fst (run_tx sv (\<lambda>now. task_UpdateStatus now ?i Failed (err_text err)) w1) = Inl e"
    using update_failed_again [OF assms(1) ok row assms(4)] by blast
  obtain now x2 where tx: "run_tx sv (\<lambda>now. task_UpdateStatus now ?i Failed (err_text err)) w1 =
      (fst (task_UpdateStatus now ?i Failed (err_text err) (w_db w1)),
       w1\<lparr>w_db := snd (task_UpdateStatus now ?i Failed (err_text err) (w_db w1)), w_ext := x2\<rparr>)"
    by (rule run_tx_quiet [OF assms(1)])
  from again tx have "snd (task_UpdateStatus now ?i Failed (err_text err) (w_db w1)) = w_db w1"
    using task_UpdateStatus_error by (metis fst_conv)
  with tx again have two: "run_tx sv (\<lambda>now. task_UpdateStatus now ?i Failed (err_text err)) w1 =
      (Inl e, w1\<lparr>w_db := w_db w1, w_ext := x2\<rparr>)" by simp
  have p: "persistFailure sv ty message err w =
      (case x of Inl e \<Rightarrow> (Inl (Wrapped (lit ''persist failed document state'') e), w1)
       | Inr _ \<Rightarrow> (Inl (Wrapped (lit ''persist failed task state'') e), w1\<lparr>w_db := w_db w1, w_ext := x2\<rparr>))"
    using one two by (auto simp: persistFailure_def attempt_def wrap_error_def Let_def split: sum.split)
  show "\<exists>e. fst (persistFailure sv ty message err w) = Inl e"
    and "\<exists>s. task_by_id ?i (w_db (snd (persistFailure sv ty message err w))) = Some s \<and> task_status s = Failed"
    and "w_log (snd (persistFailure sv ty message err w)) = w_log w"
    using p row log assms(4) by (auto split: sum.splits)
qed

lemma scheduleRetry_conflict:
  assumes "quiet sv" and "db_ok (w_db w)" and "shouldAutoRetry (sv_unicode sv) err"
    and "\<not> errors_is err PublishFailed" and "retryPendingDocumentStatus ty = Some t"
    and "doc_in (msg_doc_id message) s (w_db w)" and "s \<notin> set (fst (DocumentRetryPreviousStatuses t))"
    and "task_by_id (msg_task_id message) (w_db w) = Some r" and "task_status r = Running"
    and "task_retry_count r < maxAutomaticRetries"
  obtains w1 x where "scheduleRetry sv ty message err w = (False, w1)"
    and "task_by_id (msg_task_id message) (w_db w1) = Some x" and "task_status x = Failed"
    and "w_log w1 = w_log w" and "db_ok (w_db w1)"
proof -
  let ?i = "msg_task_id message"
  obtain w1 task x where one: "run_tx sv (\<lambda>now. ScheduleRetry now ?i maxAutomaticRetries) w = (Inr (Some task), w1)"
    and x: "task_by_id ?i (w_db w1) = Some x" "task_status x = Pending"
    and same: "documents (w_db w1) = documents (w_db w)" "w_log w1 = w_log w" and ok: "db_ok (w_db w1)"
    by (rule schedule_retry_running [OF assms(1,2,8,9,10)])
  have doc: "doc_in (msg_doc_id message) s (w_db w1)" using assms(6) same by (simp add: doc_in_def)
  have ids: "distinct (map doc_id (documents (w_db w1)))" using ok by (simp add: db_ok_def db_keys_def)
  obtain e where two: "run_tx sv (\<lambda>now. ResetStatusForRetry now (msg_doc_id message) t) w1 =
      (Inl (Sentinel DocumentStateConflict), w1\<lparr>w_ext := e\<rparr>)"
    by (rule reset_conflict [OF assms(1) doc ids assms(7)])
  let ?w2 = "w1\<lparr>w_ext := e\<rparr>"
  let ?w3 = "snd (run_tx sv (\<lambda>now. task_UpdateStatus now ?i Failed
      (err_text (Sentinel DocumentStateConflict))) ?w2)"
  have ok2: "db_ok (w_db ?w2)" and x2: "task_by_id ?i (w_db ?w2) = Some x" using ok x by simp_all
  obtain y where y: "task_by_id ?i (w_db ?w3) = Some y" "task_status y = Failed"
    by (rule fail_pending [OF assms(1) ok2 x2 x(2)])
  have "db_ok (w_db ?w3)"
    using reachesD [OF reaches_task_status [OF quiet_disciplined [OF assms(1)] stable_True], of ?w2]
      tx_reach_ok [OF _ ok2] by blast
  moreover have "w_log ?w3 = w_log w" using same by simp
  moreover have "scheduleRetry sv ty message err w = (False, ?w3)"
    using one two assms(3-5) by (simp add: scheduleRetry_def)
  ultimately show thesis using y by (intro that [of ?w3 y])
qed

lemma no_dead_letter_after_conflict:
  assumes "quiet sv" and "db_ok (w_db w)" and "shouldAutoRetry (sv_unicode sv) err"
    and "\<not> errors_is err PublishFailed" and "retryPendingDocumentStatus ty = Some t"
    and "doc_in (msg_doc_id message) s (w_db w)" and "s \<notin> set (fst (DocumentRetryPreviousStatuses t))"
    and "task_by_id (msg_task_id message) (w_db w) = Some r" and "task_status r = Running"
    and "task_retry_count r < maxAutomaticRetries"
  obtains w' x where "handle_failure sv ty payload message err w =
      ((NakWithDelay automaticRetryDelay, ''retry''), w')"
    and "task_by_id (msg_task_id message) (w_db w') = Some x" and "task_status x = Failed"
    and "w_log w' = w_log w"
proof -
  obtain w1 x where sched: "scheduleRetry sv ty message err w = (False, w1)"
    and x: "task_by_id (msg_task_id message) (w_db w1) = Some x" "task_status x = Failed"
    and log: "w_log w1 = w_log w" and ok: "db_ok (w_db w1)"
    by (rule scheduleRetry_conflict [OF assms])
  note p = persistFailure_of_failed [OF assms(1) ok x, of ty err]
  obtain e w2 where "persistFailure sv ty message err w1 = (Inl e, w2)" using p(1) by (metis prod.collapse)
  with p sched log show thesis by (auto simp: handle_failure_def intro: that)
qed

end
