(* ===== verification/Fixtures.thy ===== *)
theory Fixtures
  imports Services
begin

text \<open>
  A small concrete world in which the properties are applied: services that always answer, a
  document with its parse task as the upload creates them, and databases reached from there.
\<close>

definition calm :: "unit services" where
  "calm = \<lparr>sv_now = (\<lambda>_. 1000), sv_nano = (\<lambda>_. 1000000000), sv_uuid = (\<lambda>e. (''u'', e)),
     sv_sha = (\<lambda>s. s), sv_sha256 = (\<lambda>_. ''h''), sv_unicode = ascii_tables,
     sv_pg = (\<lambda>e d. (Executed, e, d)), sv_publish = (\<lambda>_ e. (None, e)), sv_ack = (\<lambda>e. (None, e)),
     sv_parse = (\<lambda>_ _ _ _ e. (Inr (lit ''some text'', JValue []), e)),
     sv_embed = (\<lambda>_ texts e. (Inr (map (\<lambda>_. [0]) texts), e)),
     sv_upsert = (\<lambda>_ _ e. (None, e)), sv_delete_vectors = (\<lambda>_ _ e. (None, e)),
     sv_has_vectors = (\<lambda>_ _ e. (Inr False, e)), sv_delete_subject = (\<lambda>_ _ e. (None, e)),
     sv_remove_object = (\<lambda>_ _ e. (None, e)), sv_put_object = (\<lambda>_ _ e. (None, e)),
     sv_lower = ToLower ascii_tables, sv_ilike = (\<lambda>_ _. True)\<rparr>"

lemma calm_quiet [simp]: "quiet calm"
  by (simp add: quiet_def calm_def)

lemma calm_disciplined [simp]: "disciplined calm"
  by (rule quiet_disciplined) simp

definition doc1 :: document where
  "doc1 = \<lparr>doc_id = ''d1'', doc_tenant = ''t1'', doc_subject = ''s1'', doc_user = ''u1'',
     doc_filename = lit ''a.txt'', doc_file_type = lit ''txt'', doc_file_size = 9,
     doc_file_url = lit ''minio://b/o'', doc_status = Uploaded, doc_plain_text = [],
     doc_metadata = JEmpty, doc_error = [], doc_version = 1, doc_content_hash = ''c1'',
     doc_embedding_provider = [], doc_embedding_model = [], doc_embedding_dimension = 0,
     doc_chunk_strategy = [], doc_created_at = 0, doc_updated_at = 0\<rparr>"

definition task1 :: index_task where
  "task1 = \<lparr>task_id = ''k1'', task_tenant = ''t1'', task_doc = ''d1'', task_subject = ''s1'',
     task_user = ''u1'', task_filename = [], task_type = ParseTask, task_status = Pending,
     task_retry_count = 0, task_metadata = JValue ''standard'', task_error = [],
     task_doc_version = 1, task_content_hash = ''c1'', task_embedding_provider = [],
     task_embedding_model = [], task_embedding_dimension = 0, task_chunk_strategy = [],
     task_created_at = 0, task_updated_at = 0\<rparr>"

definition db1 :: db where
  "db1 = snd (CreateWithIndexTask (\<lambda>s. s) 0 doc1 task1 empty_db)"

lemma db1_step: "tx_step (\<lambda>s. s) empty_db db1"
  unfolding db1_def
  by (rule tx_step.upload) (simp_all add: fresh_task_def task1_def doc1_def)

lemma db1_reachable [simp]: "reachable_db (\<lambda>s. s) db1"
  unfolding reachable_db_def using db1_step by blast

lemma db1_ok [simp]: "db_ok db1"
  by (rule reachable_ok) (rule db1_reachable)

definition message1 :: task_message where
  "message1 = \<lparr>msg_task_id = ''k1'', msg_doc_id = ''d1'', msg_processing_mode = ''standard''\<rparr>"

definition world1 :: "unit world" where
  "world1 = \<lparr>w_db = db1, w_ext = (), w_log = []\<rparr>"

lemma world1_ok [simp]: "db_ok (w_db world1)"
  by (simp add: world1_def)

end
