(* ===== verification/WorkerProperties.thy ===== *)
theory WorkerProperties
  imports WorkerGaps Fixtures
begin

text \<open>
  The properties of the publisher and of the workers, each for every behaviour of the outside
  world and of the other processes that its hypotheses allow, and applied in a small world.
\<close>

definition conf1 :: chunking_conf where
  "conf1 = \<lparr>cc_version = [], cc_size = 800, cc_overlap = 120, cc_min_size = 120, cc_lookback = 160\<rparr>"

definition workers1 :: worker_conf where
  "workers1 = \<lparr>wk_parse = 1, wk_chunk = 1, wk_embedding = 1, wk_delete = 1, wk_task_timeout = 60,
     wk_shutdown_timeout = 5\<rparr>"

definition envelope1 :: envelope where
  "envelope1 = \<lparr>env_data = [], env_message = Inr message1\<rparr>"

definition after_parse :: "unit world" where
  "after_parse = snd (run calm workers1 conf1 ParseTask (Some envelope1) world1)"

lemma run1: "run calm workers1 conf1 ParseTask (Some envelope1) world1 = ((AckSync, ''success''), after_parse)"
proof -
  have "fst (run calm workers1 conf1 ParseTask (Some envelope1) world1) = (AckSync, ''success'')"
    by code_simp
  then show ?thesis unfolding after_parse_def by (metis prod.collapse)
qed

section \<open>The publisher\<close>

text \<open>
  Two batches claimed within a minute of each other have no message in common, so two
  publishers that work at the same time do not publish the same message twice.
\<close>

theorem concurrent_batches_are_disjoint:
  assumes "db_ok d" and "ClaimBatch now limit d = (Inr events, d')"
    and "ClaimBatch later limit' d' = (Inr events', d'')"
    and "now \<le> later" and "later \<le> now + 60000"
  shows "set (map ob_id events) \<inter> set (map ob_id events') = {} \<and>
    length events \<le> (if limit < 1 \<or> limit > 100 then 50 else nat limit)"
proof -
  have ids: "distinct (map ob_id (task_outbox d))" using assms(1) by (simp add: db_ok_def db_keys_def)
  show ?thesis
    using ClaimBatch_disjoint [OF assms(2,3) ids assms(4)] assms(5)
      ClaimBatch_events(2) [OF assms(2) ids] by (simp add: lock_timeout_def claim_limit_def)
qed

lemma concurrent_batches_are_disjoint_witness:
  "length (case fst (ClaimBatch 10 50 db1) of Inr es \<Rightarrow> es) = 1 \<and>
   set (map ob_id (case fst (ClaimBatch 10 50 db1) of Inr es \<Rightarrow> es)) \<inter>
   set (map ob_id (case fst (ClaimBatch 20 50 (snd (ClaimBatch 10 50 db1))) of Inr es \<Rightarrow> es)) = {}"
proof -
  let ?d = "snd (ClaimBatch 10 50 db1)"
  have a: "ClaimBatch 10 50 db1 = (Inr (case fst (ClaimBatch 10 50 db1) of Inr es \<Rightarrow> es), ?d)"
    and b: "ClaimBatch 20 50 ?d = (Inr (case fst (ClaimBatch 20 50 ?d) of Inr es \<Rightarrow> es), snd (ClaimBatch 20 50 ?d))"
    by (simp_all add: ClaimBatch_def Let_def)
  have "length (case fst (ClaimBatch 10 50 db1) of Inr es \<Rightarrow> es) = 1" by code_simp
  with concurrent_batches_are_disjoint [OF db1_ok a b] show ?thesis by simp
qed


definition event1 :: outbox_event where
  "event1 = outbox_event.truncate (new_outbox_row (\<lambda>s. s) 0 task1)"


text \<open>
  The delay after a failed publication doubles with every attempt from one second up to 64
  seconds: the message is not due before and is claimable after it.
\<close>

theorem publication_backs_off:
  assumes "ob_row i d = Some r" and "ob_published_at r = None"
  shows "\<exists>s. ob_row i (snd (MarkFailed now i msg d)) = Some s \<and>
    ob_attempts s = Suc (ob_attempts r) \<and>
    (claimable later s \<longleftrightarrow> now + 2 ^ min (ob_attempts r) 6 * 1000 \<le> later)"
proof -
  have "ob_id r = i" using assms(1) by (rule ob_row_id)
  with assms show ?thesis
    by (simp add: ob_row_MarkFailed claimable_def retry_delay_def)
qed

lemma publication_backs_off_witness:
  "\<exists>s. ob_row ''outbox:k1'' (snd (MarkFailed 0 ''outbox:k1'' [] db1)) = Some s \<and>
     \<not> claimable 999 s \<and> claimable 1000 s"
proof -
  have row: "ob_row ''outbox:k1'' db1 = Some (new_outbox_row (\<lambda>s. s) 0 task1)" by code_simp
  have new: "ob_published_at (new_outbox_row (\<lambda>s. s) 0 task1) = None"
    "ob_attempts (new_outbox_row (\<lambda>s. s) 0 task1) = 0" by code_simp+
  from publication_backs_off [OF row new(1), of 0 "[]" 999]
    publication_backs_off [OF row new(1), of 0 "[]" 1000] new(2)
  show ?thesis by auto
qed

section \<open>The workers\<close>

text \<open>
  Whatever the outside answers and whatever the other processes commit in between, running a
  message only changes the database by committed transactions of the repositories, so every
  invariant of reachable databases holds at every moment of a run and after it.
\<close>

theorem workers_keep_the_invariant:
  assumes "disciplined sv" and "db_ok (w_db w)"
  shows "(tx_step (sv_sha sv))\<^sup>*\<^sup>* (w_db w) (w_db (snd (run sv wc conf ty env w))) \<and>
    db_ok (w_db (snd (run sv wc conf ty env w)))"
  using run_reach [OF assms(1), of w wc conf ty env] tx_reach_ok [OF _ assms(2)]
  by (auto simp: tx_reach_def)

lemma workers_keep_the_invariant_witness: "db_ok (w_db after_parse)"
  using workers_keep_the_invariant [OF calm_disciplined world1_ok] unfolding after_parse_def by blast

text \<open>C1
  A message is acknowledged only when its task is settled: at that moment the database holds
  the task as successful or failed. A run that crashes, times out or loses a reply before
  that does not acknowledge, so the message is delivered again.
\<close>

theorem acknowledged_tasks_are_settled:
  assumes "disciplined sv" and "db_ok (w_db w)"
    and "run sv wc conf ty (Some env) w = ((AckSync, st), w')"
  shows "\<exists>message r. env_message env = Inr message \<and>
    task_by_id (msg_task_id message) (w_db w') = Some r \<and>
    (task_status r = Success \<or> task_status r = Failed)"
  using run_ack_settles [OF assms] by (auto simp: task_settled_def)

lemma acknowledged_tasks_are_settled_witness:
  "\<exists>r. task_by_id ''k1'' (w_db after_parse) = Some r \<and> (task_status r = Success \<or> task_status r = Failed)"
  using acknowledged_tasks_are_settled [OF calm_disciplined world1_ok run1]
  by (simp add: envelope1_def message1_def)

text \<open>C3
  A successful stage hands over: when a run reports success its task is successful, and after
  a parse or chunk task the task of the next stage is in the database together with the
  outbox message that will start it.
\<close>

theorem success_hands_over:
  assumes "disciplined sv" and "db_ok (w_db w)"
    and "run sv wc conf ty (Some env) w = ((AckSync, ''success''), w')"
  shows "\<exists>message. env_message env = Inr message \<and>
    (\<exists>r. task_by_id (msg_task_id message) (w_db w') = Some r \<and> task_status r = Success) \<and>
    (\<forall>next_type. (ty = ParseTask \<and> next_type = ChunkTask) \<or> (ty = ChunkTask \<and> next_type = EmbeddingTask) \<longrightarrow>
       (\<exists>t \<in> set (index_tasks (w_db w')).
          task_id t = sv_sha sv (msg_task_id message @ '':'' @ task_type_text next_type)) \<and>
       (\<exists>m \<in> set (task_outbox (w_db w')).
          ob_task_id m = sv_sha sv (msg_task_id message @ '':'' @ task_type_text next_type)))"
proof -
  obtain message where m: "env_message env = Inr message"
    and done_ok: "\<exists>r. task_by_id (msg_task_id message) (w_db w') = Some r \<and> task_status r = Success"
    and succ: "\<forall>n. successor ty = Some n \<longrightarrow>
       has_task (deterministicID sv (msg_task_id message) (task_type_text n)) (w_db w') \<and>
       has_message (deterministicID sv (msg_task_id message) (task_type_text n)) (w_db w')"
    using run_success_effects [OF assms] by blast
  have "successor ty = Some n"
    if "(ty = ParseTask \<and> n = ChunkTask) \<or> (ty = ChunkTask \<and> n = EmbeddingTask)" for n
    using that by auto
  with m done_ok succ show ?thesis
    unfolding has_task_def has_message_def deterministicID_def by blast
qed

lemma success_hands_over_witness:
  "\<exists>m \<in> set (task_outbox (w_db after_parse)). ob_task_id m = ''k1:document.chunk''"
  using success_hands_over [OF calm_disciplined world1_ok run1]
  by (auto simp: envelope1_def message1_def calm_def)


definition after_chunk :: "unit world" where
  "after_chunk = snd (run calm workers1 conf1 ChunkTask (Some \<lparr>env_data = [],
     env_message = Inr (message1\<lparr>msg_task_id := ''k1:document.chunk''\<rparr>)\<rparr>) after_parse)"



definition deleting_world :: "unit world" where
  "deleting_world = world1\<lparr>w_db := snd (doc_UpdateStatus 5 ''d1'' Deleting [] db1)\<rparr>"


text \<open>
  Publication errors are always retried; of the other errors none is retried whose text has
  one of the permanent patterns, even next to a transient one, and none whose text has no
  transient pattern.
\<close>

theorem retry_classification:
  "(errors_is err PublishFailed \<longrightarrow> shouldAutoRetry u err) \<and>
   (\<not> errors_is err PublishFailed \<longrightarrow> shouldAutoRetry u err =
      ((\<forall>p \<in> set permanent_patterns. \<not> (\<exists>a b. ToLower u (TrimSpace (err_text err)) = a @ p @ b)) \<and>
       (\<exists>p \<in> set transient_patterns. \<exists>a b. ToLower u (TrimSpace (err_text err)) = a @ p @ b)))"
proof -
  have "p \<noteq> []" if "p \<in> set transient_patterns" for p
    using that by (auto simp: transient_patterns_def lit_def)
  then have "\<not> (\<exists>p \<in> set transient_patterns. \<exists>a b. [] = a @ p @ b)" by auto
  then show ?thesis
    by (auto simp: shouldAutoRetry_def Let_def list_ex_iff Contains_iff simp del: append_is_Nil_conv)
qed

lemma retry_classification_witness:
  "shouldAutoRetry ascii_tables (Tagged PublishFailed (Plain (lit ''not supported''))) \<and>
   \<not> shouldAutoRetry ascii_tables (Plain (lit ''Timeout: embedding vector count mismatch''))"
proof -
  have "\<not> errors_is (Plain (lit ''Timeout: embedding vector count mismatch'')) PublishFailed"
    and p: "errors_is (Tagged PublishFailed (Plain (lit ''not supported''))) PublishFailed" by simp_all
  moreover have "\<exists>p \<in> set permanent_patterns. \<exists>a b.
      ToLower ascii_tables (TrimSpace (err_text (Plain (lit ''Timeout: embedding vector count mismatch'')))) =
      a @ p @ b"
  proof (intro bexI exI)
    show "ToLower ascii_tables (TrimSpace (err_text (Plain (lit ''Timeout: embedding vector count mismatch'')))) =
        lit ''timeout: embedding '' @ lit ''vector count mismatch'' @ []" by code_simp
    show "lit ''vector count mismatch'' \<in> set permanent_patterns" by (simp add: permanent_patterns_def)
  qed
  ultimately show ?thesis
    using retry_classification [of "Plain (lit ''Timeout: embedding vector count mismatch'')" ascii_tables]
      retry_classification [of "Tagged PublishFailed (Plain (lit ''not supported''))" ascii_tables] by blast
qed

section \<open>Where failures go astray\<close>


definition deleted_world :: "unit world" where
  "deleted_world = world1\<lparr>w_db := snd (CompleteDelete 6 ''d1'' (snd (doc_UpdateStatus 5 ''d1'' Deleting [] db1)))\<rparr>"


text \<open>
  A transient error that comes after the document's status has moved on (such as a lost
  connection while the next stage is enqueued) is not retried: the automatic retry finds the
  document in a status that it cannot reset, fails the task, and then cannot report the
  failure a second time, so the message is given back without a dead letter although the task
  has failed for good.
\<close>

theorem late_transient_error_fails_without_dead_letter:
  assumes "quiet sv" and "db_ok (w_db w)" and "shouldAutoRetry (sv_unicode sv) err"
    and "\<not> errors_is err PublishFailed" and "retryPendingDocumentStatus ty = Some t"
    and "x \<in> set (documents (w_db w))" and "doc_id x = msg_doc_id message" and "doc_deleted_at x = None"
    and "doc_status x \<notin> set (fst (DocumentRetryPreviousStatuses t))"
    and "task_by_id (msg_task_id message) (w_db w) = Some r" and "task_status r = Running"
    and "task_retry_count r < maxAutomaticRetries"
  shows "\<exists>w' s. handle_failure sv ty payload message err w =
      ((NakWithDelay automaticRetryDelay, ''retry''), w') \<and>
    task_by_id (msg_task_id message) (w_db w') = Some s \<and> task_status s = Failed \<and> w_log w' = w_log w"
proof -
  have "doc_in (msg_doc_id message) (doc_status x) (w_db w)"
    using assms(6-8) by (auto simp: doc_in_def live_doc_def)
  from no_dead_letter_after_conflict [OF assms(1-5) this assms(9-12)] show ?thesis by metis
qed

definition parsed_world :: "unit world" where
  "parsed_world = world1\<lparr>w_db := snd (CompleteParse 7 ''d1'' [] JEmpty
     (snd (doc_UpdateStatus 6 ''d1'' Parsing [] (snd (Claim 5 ''k1'' 60000 db1)))))\<rparr>"

lemma late_transient_error_fails_without_dead_letter_witness:
  "w_log (snd (handle_failure calm ParseTask [] message1 (Plain (lit ''connection reset'')) parsed_world)) = []"
proof -
  let ?d = "w_db parsed_world"
  have ok: "db_ok ?d"
    using tx_step_ok [OF tx_step.parsed tx_step_ok [OF tx_step.doc_status tx_step_ok [OF tx_step.claim db1_ok]]]
    by (simp add: parsed_world_def)
  have retry: "shouldAutoRetry (sv_unicode calm) (Plain (lit ''connection reset''))" by code_simp
  have doc: "hd (documents ?d) \<in> set (documents ?d)" "doc_id (hd (documents ?d)) = msg_doc_id message1"
    "doc_deleted_at (hd (documents ?d)) = None"
    "doc_status (hd (documents ?d)) \<notin> set (fst (DocumentRetryPreviousStatuses Uploaded))" by code_simp+
  have row: "task_by_id (msg_task_id message1) ?d = Some (the (task_by_id ''k1'' ?d))" by code_simp
  have "task_status (the (task_by_id ''k1'' ?d)) = Running"
    "task_retry_count (the (task_by_id ''k1'' ?d)) < maxAutomaticRetries" by code_simp+
  from late_transient_error_fails_without_dead_letter [OF calm_quiet ok retry _ _ doc row this, of ParseTask "[]"]
  show ?thesis by (auto simp: retryPendingDocumentStatus_def parsed_world_def world1_def)
qed

end
