(* ===== verification/DbProperties.thy ===== *)
theory DbProperties
  imports Fixtures
begin

text \<open>
  The properties of the task tables: what every reachable database satisfies, what the
  histories of documents and tasks look like, and what single transactions of the
  repositories do.
\<close>

section \<open>Lemmas on single transactions\<close>

lemma Retry_Inr:
  assumes "Retry sha now i user d = (Inr t, d')"
  obtains r docs where "tbl_first (\<lambda>r. task_id r = i \<and> task_user r = user \<and> task_status r = Failed)
      (index_tasks d) = Some r"
    and "t = scan_full_task (r\<lparr>task_status := Pending, task_retry_count := task_retry_count r + 1,
        task_error := [], task_lease_expires_at := None, task_updated_at := now\<rparr>)"
    and "enqueueOutbox sha now t True (d\<lparr>index_tasks := tbl_update
          (\<lambda>r. task_id r = i \<and> task_user r = user \<and> task_status r = Failed)
          (\<lambda>r. r\<lparr>task_status := Pending, task_retry_count := task_retry_count r + 1,
                    task_error := [], task_lease_expires_at := None, task_updated_at := now\<rparr>)
          (index_tasks d), documents := docs\<rparr>) = (Inr (), d')"
    and "docs = tbl_update (\<lambda>x. doc_id x = task_doc t \<and> doc_user x = user \<and> live_doc x \<and>
          doc_status x \<in> set (fst (DocumentRetryPreviousStatuses (retry_document_status (task_type t)))))
        (\<lambda>x. x\<lparr>doc_status := retry_document_status (task_type t), doc_error := [],
               doc_updated_at := now\<rparr>) (documents d)"
    and "tbl_affected (\<lambda>x. doc_id x = task_doc t \<and> doc_user x = user \<and> live_doc x \<and>
          doc_status x \<in> set (fst (DocumentRetryPreviousStatuses (retry_document_status (task_type t)))))
        (documents d) \<noteq> 0"
proof (cases "tbl_first (\<lambda>r. task_id r = i \<and> task_user r = user \<and> task_status r = Failed) (index_tasks d)")
  case None
  with assms show ?thesis by (simp add: Retry_def Let_def)
next
  case (Some r)
  with assms show ?thesis
    by (intro that [OF Some]) (auto simp: Retry_def Let_def split: prod.splits sum.splits if_splits)
qed

lemma task_row_of_Retry:
  "task_by_id i d = Some r \<Longrightarrow> P r \<Longrightarrow> (\<And>r. task_id (f r) = task_id r) \<Longrightarrow>
    tbl_first (\<lambda>x. task_id x = i) (tbl_update P f (index_tasks d)) = Some (f r)"
  unfolding task_by_id_def by (subst tbl_first_update_any) simp_all

lemma Retry_error: "Retry sha now i user d = (Inl e, d') \<Longrightarrow> d' = d"
  by (auto simp: Retry_def Let_def split: option.splits prod.splits sum.splits if_splits)

lemma tbl_first_hit: "r \<in> set rows \<Longrightarrow> P r \<Longrightarrow> \<exists>s. tbl_first P rows = Some s \<and> P s \<and> s \<in> set rows"
  by (cases "tbl_first P rows") (auto simp: tbl_first_None dest: tbl_first_Some)

lemma Retry_effect:
  assumes "db_ok d" and "Retry sha now i user d = (Inr t, d')"
  shows "\<exists>r s. task_by_id i d = Some r \<and> task_status r = Failed \<and> task_user r = user \<and>
      task_by_id i d' = Some s \<and> task_status s = Pending \<and>
      task_retry_count s = task_retry_count r + 1 \<and> task_lease_expires_at s = None"
    and "\<exists>doc. doc_by_id (task_doc t) d' = Some doc \<and>
      doc_status doc = retry_document_status (task_type t) \<and> doc_user doc = user"
    and "\<exists>m. outbox_of i d' = Some m \<and> claimable now m \<and> ob_payload m = task_payload t"
proof -
  let ?P = "\<lambda>r. task_id r = i \<and> task_user r = user \<and> task_status r = Failed"
  let ?f = "\<lambda>r. r\<lparr>task_status := Pending, task_retry_count := task_retry_count r + 1,
                    task_error := [], task_lease_expires_at := None, task_updated_at := now\<rparr>"
  let ?Q = "\<lambda>x. doc_id x = task_doc t \<and> (doc_user x = user \<and> live_doc x \<and>
          doc_status x \<in> set (fst (DocumentRetryPreviousStatuses (retry_document_status (task_type t)))))"
  let ?g = "\<lambda>x. x\<lparr>doc_status := retry_document_status (task_type t), doc_error := [],
               doc_updated_at := now\<rparr>"
  obtain r docs where first: "tbl_first ?P (index_tasks d) = Some r" and t: "t = scan_full_task (?f r)"
    and enq: "enqueueOutbox sha now t True (d\<lparr>index_tasks := tbl_update ?P ?f (index_tasks d),
        documents := docs\<rparr>) = (Inr (), d')"
    and docs: "docs = tbl_update ?Q ?g (documents d)" and hit: "tbl_affected ?Q (documents d) \<noteq> 0"
    by (rule Retry_Inr [OF assms(2)])
  have keys: "distinct (map task_id (index_tasks d))" "distinct (map doc_id (documents d))"
    using assms(1) by (simp_all add: db_ok_def db_keys_def)
  from tbl_first_Some [OF first] have r: "r \<in> set (index_tasks d)" "?P r" by simp_all
  then have row: "task_by_id i d = Some r" using tbl_first_key [OF keys(1)] by (auto simp: task_by_id_def)
  have d': "d' = snd (enqueueOutbox sha now t True (d\<lparr>index_tasks := tbl_update ?P ?f (index_tasks d),
      documents := docs\<rparr>))" using enq by simp
  have "index_tasks d' = tbl_update ?P ?f (index_tasks d)" unfolding d' by simp
  then have "task_by_id i d' = Some (?f r)"
    using row r by (simp add: task_by_id_def tbl_first_update)
  with row r show "\<exists>r s. task_by_id i d = Some r \<and> task_status r = Failed \<and> task_user r = user \<and>
      task_by_id i d' = Some s \<and> task_status s = Pending \<and>
      task_retry_count s = task_retry_count r + 1 \<and> task_lease_expires_at s = None" by auto
  from hit obtain x where x: "x \<in> set (documents d)" "?Q x"
    by (auto simp: tbl_affected_zero simp del: neq0_conv)
  then have "doc_by_id (task_doc t) d = Some x"
    using tbl_first_key [OF keys(2) x(1)] by (simp add: doc_by_id_def)
  moreover have "documents d' = tbl_update ?Q ?g (documents d)" unfolding d' docs by simp
  ultimately have "doc_by_id (task_doc t) d' = Some (?g x)"
    using x(2) by (simp add: doc_by_id_def tbl_first_update)
  with x(2) show "\<exists>doc. doc_by_id (task_doc t) d' = Some doc \<and>
      doc_status doc = retry_document_status (task_type t) \<and> doc_user doc = user" by auto
  have tid: "task_id t = i" using t r(2) by (simp add: scan_full_task_def index_task.truncate_def)
  from enqueueOutbox_present [OF enq] tid obtain m0 where "m0 \<in> set (task_outbox d')" "ob_task_id m0 = i"
    by auto
  from tbl_first_hit [of m0 _ "\<lambda>r. ob_task_id r = i", OF this] obtain m where m: "outbox_of i d' = Some m" "m \<in> set (task_outbox d')"
    "ob_task_id m = i" by (auto simp: outbox_of_def)
  with enqueueOutbox_reset_due [OF enq m(2)] tid
  show "\<exists>m. outbox_of i d' = Some m \<and> claimable now m \<and> ob_payload m = task_payload t" by auto
qed

section \<open>Properties\<close>

text \<open>C2
  In every database that the repositories' transactions can reach, in whatever order workers,
  publishers and requests commit them: identifiers are unique, retry counts are not negative
  and only running tasks hold a lease, every task belongs to a document of the database, and
  the outbox mirrors the tasks exactly: each task has its message, with its type as subject
  and its document in the payload, and there is no message without its task.
\<close>

theorem reachable_db_consistent:
  assumes "reachable_db sha d"
  shows "distinct (map doc_id (documents d)) \<and> distinct (map task_id (index_tasks d)) \<and>
    distinct (map ob_task_id (task_outbox d)) \<and>
    (\<forall>t \<in> set (index_tasks d). 0 \<le> task_retry_count t \<and>
       (task_lease_expires_at t \<noteq> None \<longrightarrow> task_status t = Running) \<and>
       (\<exists>doc \<in> set (documents d). doc_id doc = task_doc t) \<and>
       (\<exists>m \<in> set (task_outbox d). ob_task_id m = task_id t \<and> msg_task_id (ob_payload m) = task_id t \<and>
          ob_subject m = task_type t \<and> msg_doc_id (ob_payload m) = task_doc t)) \<and>
    (\<forall>m \<in> set (task_outbox d). \<exists>t \<in> set (index_tasks d). task_id t = ob_task_id m)"
proof -
  have ok: "db_ok d" using assms by (rule reachable_ok)
  have message: "\<exists>m \<in> set (task_outbox d). ob_sig m = task_sig t" if "t \<in> set (index_tasks d)" for t
    using ok that unfolding db_ok_def outbox_mirror_def by (metis (no_types, lifting) imageE imageI)
  have task: "\<exists>t \<in> set (index_tasks d). task_sig t = ob_sig m" if "m \<in> set (task_outbox d)" for m
    using ok that unfolding db_ok_def outbox_mirror_def by (metis (no_types, lifting) imageE imageI)
  have doc: "\<exists>doc \<in> set (documents d). doc_id doc = task_doc t" if "t \<in> set (index_tasks d)" for t
    using ok that unfolding db_ok_def tasks_have_docs_def by (metis imageE image_subset_iff)
  have wf: "\<forall>t \<in> set (index_tasks d). task_wf t" and keys: "db_keys d" using ok by (simp_all add: db_ok_def)
  show ?thesis
    using keys wf doc message task unfolding db_keys_def task_wf_def task_sig_def ob_sig_def
    by (simp add: Bex_def) blast
qed

lemma reachable_db_consistent_witness:
  "\<exists>m \<in> set (task_outbox db1). ob_task_id m = ''k1'' \<and> ob_subject m = ParseTask"
proof -
  have "\<forall>t \<in> set (index_tasks db1). \<exists>m \<in> set (task_outbox db1). ob_task_id m = task_id t \<and>
      ob_subject m = task_type t"
    using reachable_db_consistent [OF db1_reachable] by blast
  moreover have "\<exists>t \<in> set (index_tasks db1). task_id t = ''k1'' \<and> task_type t = ParseTask" by code_simp
  ultimately show ?thesis by metis
qed

text \<open>C4
  Along any sequence of transactions a document keeps its identifier, tenant, knowledge base,
  owner, file and version; its status only moves along the edges of the transition tables; a
  document that is being deleted can only stay so or fail to be deleted; and a document that
  has been deleted never changes again.
\<close>

theorem document_lifecycle:
  assumes "(tx_step sha)\<^sup>*\<^sup>* d d'" and "doc_by_id i d = Some r"
  shows "\<exists>s. doc_by_id i d' = Some s \<and> doc_tenant s = doc_tenant r \<and> doc_subject s = doc_subject r \<and>
    doc_user s = doc_user r \<and> doc_file_url s = doc_file_url r \<and> doc_version s = doc_version r \<and>
    doc_edge\<^sup>*\<^sup>* (doc_status r) (doc_status s) \<and>
    (deletion_phase (doc_status r) \<longrightarrow> deletion_phase (doc_status s)) \<and>
    (doc_deleted_at r \<noteq> None \<longrightarrow> s = r)"
proof -
  obtain s where s: "doc_by_id i d' = Some s" and ev: "doc_evolves\<^sup>*\<^sup>* r s"
    using doc_history [OF assms] by blast
  note facts = doc_evolves_star [OF ev]
  have "deletion_phase (doc_status r) \<longrightarrow> deletion_phase (doc_status s)"
    using facts deletion_absorbs.run_keeps by blast
  with s facts show ?thesis by (simp add: live_doc_def)
qed

lemma document_lifecycle_witness:
  "\<exists>s. doc_by_id ''d1'' (snd (doc_UpdateStatus 5 ''d1'' Parsing [] db1)) = Some s \<and> doc_user s = ''u1''"
proof -
  have "(tx_step (\<lambda>s. s))\<^sup>*\<^sup>* db1 (snd (doc_UpdateStatus 5 ''d1'' Parsing [] db1))"
    by (rule r_into_rtranclp) (rule tx_step.doc_status)
  moreover have "\<exists>r. doc_by_id ''d1'' db1 = Some r \<and> doc_user r = ''u1''"
    by (intro exI [of _ "document_insert_row doc1"] conjI; code_simp)
  ultimately show ?thesis
    using document_lifecycle [of "\<lambda>s. s" db1 _ "''d1''"] by fastforce
qed

text \<open>C5
  Along any sequence of transactions a task keeps its identifier, document, type and owner,
  its retry count never decreases, and a successful task stays successful.
\<close>

theorem task_lifecycle:
  assumes "(tx_step sha)\<^sup>*\<^sup>* d d'" and "task_by_id i d = Some r"
  shows "\<exists>s. task_by_id i d' = Some s \<and> task_doc s = task_doc r \<and> task_type s = task_type r \<and>
    task_user s = task_user r \<and> task_retry_count r \<le> task_retry_count s \<and>
    (task_status r = Success \<longrightarrow> task_status s = Success)"
  using task_history [OF assms] task_evolves_star by blast

lemma task_lifecycle_witness:
  "\<exists>s. task_by_id ''k1'' (snd (Claim 5 ''k1'' 60000 db1)) = Some s \<and> task_doc s = ''d1''"
proof -
  have "(tx_step (\<lambda>s. s))\<^sup>*\<^sup>* db1 (snd (Claim 5 ''k1'' 60000 db1))"
    by (rule r_into_rtranclp) (rule tx_step.claim)
  moreover have "\<exists>r. task_by_id ''k1'' db1 = Some r \<and> task_doc r = ''d1''"
    by (intro exI [of _ "task_insert_row task1"] conjI; code_simp)
  ultimately show ?thesis
    using task_lifecycle [of "\<lambda>s. s" db1 _ "''k1''"] by fastforce
qed

text \<open>C6
  A claimed task belongs to one worker: until the lease of its claim runs out no other claim
  of the task succeeds, and from then on, if the worker has not settled it, the next one does.
\<close>

theorem claim_is_a_lease:
  assumes "db_ok d" and "fst (Claim now i lease d) = Inr True"
  shows "fst (Claim later i lease' (snd (Claim now i lease d))) =
    Inr (now + max (lease div 1000) 1 * 1000 \<le> later)"
  using Claim_exclusive [OF db_ok_task_ids [OF assms(1)] assms(2), of later lease']
    Claim_after_lease [OF db_ok_task_ids [OF assms(1)] assms(2), of later lease']
  by (fastforce simp: lease_seconds_def not_le)

lemma claim_is_a_lease_witness:
  "fst (Claim 59999 ''k1'' 60000 (snd (Claim 0 ''k1'' 60000 db1))) = Inr False \<and>
   fst (Claim 60000 ''k1'' 60000 (snd (Claim 0 ''k1'' 60000 db1))) = Inr True"
proof -
  have "fst (Claim 0 ''k1'' 60000 db1) = Inr True" by code_simp
  from claim_is_a_lease [OF db1_ok this] show ?thesis by simp
qed

text \<open>
  A manual retry does all of its work or none of it: when it succeeds the failed task of the
  caller is pending again with one more retry, its document is back at the status from which
  the task's stage starts, and its message is due at once; when it fails nothing has changed.
\<close>

theorem manual_retry_is_atomic:
  assumes "db_ok d"
  shows "case Retry sha now i user d of
      (Inl e, d') \<Rightarrow> d' = d
    | (Inr t, d') \<Rightarrow>
       (\<exists>r s. task_by_id i d = Some r \<and> task_status r = Failed \<and> task_user r = user \<and>
          task_by_id i d' = Some s \<and> task_status s = Pending \<and>
          task_retry_count s = task_retry_count r + 1 \<and> task_lease_expires_at s = None) \<and>
       (\<exists>doc. doc_by_id (task_doc t) d' = Some doc \<and>
          doc_status doc = retry_document_status (task_type t) \<and> doc_user doc = user) \<and>
       (\<exists>m. outbox_of i d' = Some m \<and> claimable now m \<and> ob_payload m = task_payload t)"
  using Retry_error [of sha now i user d] Retry_effect [OF assms, of sha now i user]
  by (cases "Retry sha now i user d") (simp split: sum.split)

definition failed_db :: db where
  "failed_db = snd (task_UpdateStatus 5 ''k1'' Failed [] (snd (doc_UpdateStatus 5 ''d1'' DocFailed [] db1)))"

lemma failed_db_ok [simp]: "db_ok failed_db"
  unfolding failed_db_def
  by (rule tx_step_ok [OF tx_step.task_status tx_step_ok [OF tx_step.doc_status db1_ok]])

lemma manual_retry_is_atomic_witness:
  "\<exists>s m. task_by_id ''k1'' (snd (Retry (\<lambda>s. s) 9 ''k1'' ''u1'' failed_db)) = Some s \<and>
     task_status s = Pending \<and>
     outbox_of ''k1'' (snd (Retry (\<lambda>s. s) 9 ''k1'' ''u1'' failed_db)) = Some m \<and> claimable 9 m"
proof -
  note t = manual_retry_is_atomic [OF failed_db_ok, where sha = "\<lambda>s. s" and now = 9 and i = "''k1''"
      and user = "''u1''"]
  have "\<not> isl (fst (Retry (\<lambda>s. s) 9 ''k1'' ''u1'' failed_db))" by code_simp
  then obtain x where "fst (Retry (\<lambda>s. s) 9 ''k1'' ''u1'' failed_db) = Inr x"
    by (cases "fst (Retry (\<lambda>s. s) 9 ''k1'' ''u1'' failed_db)") auto
  with t show ?thesis by (auto simp: case_prod_unfold)
qed

text \<open>
  A task is settled once. After a status update of a task succeeded, an update to the same
  status, or to any status that does not allow the new one as its predecessor, is refused as
  a conflict and changes nothing: of two workers that report the same task only one wins, and
  success and failure exclude each other.
\<close>

theorem task_is_settled_once:
  assumes "db_ok d" and "fst (task_UpdateStatus now i s e d) = Inr ()"
    and "s \<notin> set (fst (TaskPreviousStatuses t))"
  shows "task_UpdateStatus later i t e' (snd (task_UpdateStatus now i s e d)) =
    (Inl (Sentinel IndexTaskStateConflict), snd (task_UpdateStatus now i s e d))"
proof -
  let ?d = "snd (task_UpdateStatus now i s e d)"
  note ids = db_ok_task_ids [OF assms(1)]
  have ids': "task_ids_ok ?d" using ids by (simp add: task_ids_ok_def task_UpdateStatus_ids)
  have "status_of_task ?d i = Some s"
    using tcas.update_sets [OF ids, of now e i s] assms(2) by (simp add: task_cas_def)
  then have "fst (task_UpdateStatus later i t e' ?d) \<noteq> Inr ()"
    using assms(3) by (auto simp: task_UpdateStatus_Inr [OF ids'] status_of_task_def)
  then obtain x where "fst (task_UpdateStatus later i t e' ?d) = Inl x"
    by (cases "fst (task_UpdateStatus later i t e' ?d)") auto
  with task_UpdateStatus_error [OF this] show ?thesis by (metis prod.collapse)
qed

lemma task_is_settled_once_witness:
  "fst (task_UpdateStatus 9 ''k1'' Success [] failed_db) = Inl (Sentinel IndexTaskStateConflict) \<and>
   fst (task_UpdateStatus 9 ''k1'' Failed [] failed_db) = Inl (Sentinel IndexTaskStateConflict)"
proof -
  let ?d = "snd (doc_UpdateStatus 5 ''d1'' DocFailed [] db1)"
  have ok: "db_ok ?d" by (rule tx_step_ok [OF tx_step.doc_status db1_ok])
  have won: "fst (task_UpdateStatus 5 ''k1'' Failed [] ?d) = Inr ()" by code_simp
  have "Failed \<notin> set (fst (TaskPreviousStatuses Success))" "Failed \<notin> set (fst (TaskPreviousStatuses Failed))"
    by code_simp+
  with task_is_settled_once [OF ok won] show ?thesis unfolding failed_db_def by simp
qed



section \<open>Documents and chunks\<close>

lemma insert_chunks_Inr:
  "insert_chunks cs rows = Inr out \<Longrightarrow> out = rows @ map chunk_insert_row cs"
  by (induction cs rows rule: insert_chunks.induct) (auto split: if_splits)

lemma chunk_insert_row_live [simp]:
  "live_chunk (chunk_insert_row c)" "ch_doc (chunk_insert_row c) = ch_doc c"
  "ch_id (chunk_insert_row c) = ch_id c" "ch_content (chunk_insert_row c) = ch_content c"
  by (simp_all add: chunk_insert_row_def live_chunk_def document_chunk.defs chunk_row.defs)

lemma insert_chunks_keys:
  "insert_chunks cs rows = Inr out \<Longrightarrow> distinct (map ch_id rows) \<Longrightarrow> distinct (map ch_id out)"
proof (induction cs rows rule: insert_chunks.induct)
  case (2 c cs rows)
  then have "\<forall>r \<in> set rows. ch_id r \<noteq> ch_id c"
    by (auto simp: tbl_affected_zero simp del: neq0_conv split: if_splits)
  with 2 show ?case by (fastforce split: if_splits)
qed simp

text \<open>
  Replacing the chunks of a document takes away all of its old chunks, stores the new ones in
  their order under fresh identifiers, and leaves the chunks of other documents alone; two
  chunks with one identifier are refused and nothing is replaced.
\<close>

theorem chunks_are_replaced:
  assumes "ReplaceByDocument chunks d = (r, d')" and "\<forall>c \<in> set chunks. ch_doc c = i"
    and "chunks \<noteq> []" and "distinct (map ch_id (document_chunks d))"
  shows "(r = Inr () \<and>
      map ch_content (filter (\<lambda>c. ch_doc c = i) (document_chunks d')) = map ch_content chunks \<and>
      filter (\<lambda>c. ch_doc c \<noteq> i) (document_chunks d') = filter (\<lambda>c. ch_doc c \<noteq> i) (document_chunks d) \<and>
      distinct (map ch_id (document_chunks d'))) \<or>
    (\<exists>e. r = Inl e \<and> d' = d)"
proof -
  obtain c cs where cs: "chunks = c # cs" and ci: "ch_doc c = i" using assms(2,3) by (cases chunks) auto
  let ?rows = "filter (\<lambda>r. ch_doc r \<noteq> i) (document_chunks d)"
  show ?thesis
  proof (cases "insert_chunks chunks ?rows")
    case (Inl e)
    with assms(1) cs ci show ?thesis by (auto simp: ReplaceByDocument_def simp del: insert_chunks.simps)
  next
    case (Inr out)
    with assms(1) cs ci have r: "r = Inr ()" and d': "document_chunks d' = out"
      by (auto simp: ReplaceByDocument_def simp del: insert_chunks.simps)
    have out: "out = ?rows @ map chunk_insert_row chunks" using Inr by (rule insert_chunks_Inr)
    have "filter (\<lambda>c. ch_doc c = i) (map chunk_insert_row chunks) = map chunk_insert_row chunks"
      and "filter (\<lambda>c. ch_doc c \<noteq> i) (map chunk_insert_row chunks) = []"
      using assms(2) by (auto simp: filter_empty_conv intro!: filter_True)
    moreover have "distinct (map ch_id ?rows)" using assms(4) by (rule distinct_map_filter)
    ultimately show ?thesis
      using r insert_chunks_keys [OF Inr] by (simp add: d' out o_def)
  qed
qed

definition chunk1 :: document_chunk where
  "chunk1 = \<lparr>ch_id = ''x1'', ch_tenant = ''t1'', ch_doc = ''d1'', ch_subject = ''s1'',
     ch_user = ''u1'', ch_index = 0, ch_content = lit ''abc'', ch_page = 0, ch_section = [],
     ch_metadata = JEmpty, ch_token_count = 3, ch_doc_version = 1, ch_content_hash = ''h'',
     ch_embedding_provider = [], ch_embedding_model = [], ch_embedding_dimension = 0,
     ch_chunk_strategy = [], ch_created_at = 0, ch_updated_at = 0\<rparr>"

lemma chunks_are_replaced_witness:
  "map ch_content (filter (\<lambda>c. ch_doc c = ''d1'') (document_chunks (snd (ReplaceByDocument [chunk1] db1)))) =
     [lit ''abc'']"
proof -
  have ok: "fst (ReplaceByDocument [chunk1] db1) = Inr ()" by code_simp
  have "distinct (map ch_id (document_chunks db1))" by code_simp
  from chunks_are_replaced [OF prod.collapse [symmetric] _ _ this, of "[chunk1]" "''d1''"] ok
  show ?thesis by (simp add: chunk1_def)
qed

text \<open>
  Completing a deletion removes the document and all of its chunks from the live rows in one
  transaction, and nothing else: it succeeds only for a document that is being deleted, and
  the rows of other documents stay as they were.
\<close>

theorem deletion_is_complete:
  assumes "CompleteDelete now i d = (Inr (), d')"
  shows "(\<forall>r \<in> set (documents d'). doc_id r = i \<and> doc_status r = Deleting \<longrightarrow> doc_deleted_at r \<noteq> None) \<and>
    (\<exists>r \<in> set (documents d). doc_id r = i \<and> doc_status r = Deleting \<and> doc_deleted_at r = None) \<and>
    (\<forall>c \<in> set (document_chunks d'). ch_doc c = i \<longrightarrow> ch_deleted_at c \<noteq> None) \<and>
    filter (\<lambda>r. doc_id r \<noteq> i) (documents d') = filter (\<lambda>r. doc_id r \<noteq> i) (documents d) \<and>
    filter (\<lambda>c. ch_doc c \<noteq> i) (document_chunks d') = filter (\<lambda>c. ch_doc c \<noteq> i) (document_chunks d)"
proof -
  let ?P = "\<lambda>r. (doc_id r = i \<and> doc_status r = Deleting) \<and> live_doc r"
  let ?f = "\<lambda>r. r\<lparr>doc_deleted_at := Some now, doc_updated_at := now\<rparr>"
  let ?C = "\<lambda>c. ch_doc c = i \<and> live_chunk c"
  let ?g = "\<lambda>c. c\<lparr>ch_deleted_at := Some now, ch_updated_at := now\<rparr>"
  have hit: "tbl_affected ?P (documents d) \<noteq> 0"
    and "d' = soft_delete_documents now (\<lambda>r. doc_id r = i \<and> doc_status r = Deleting)
                         (soft_delete_chunks now (\<lambda>c. ch_doc c = i) d)"
    using assms by (simp_all add: CompleteDelete_def Let_def split: if_splits)
  from this(2) have docs: "documents d' = tbl_update ?P ?f (documents d)"
    and chunks: "document_chunks d' = tbl_update ?C ?g (document_chunks d)"
    by (simp_all add: soft_delete_documents_def soft_delete_chunks_def)
  have frame: "filter Q (tbl_update P f rows) = filter Q rows"
    if "\<And>r. P r \<Longrightarrow> \<not> Q r" and "\<And>r. P r \<Longrightarrow> \<not> Q (f r)" for P Q f and rows :: "'x list"
    using that by (induction rows) (auto simp: tbl_simps)
  have "doc_deleted_at r \<noteq> None"
    if "r \<in> set (tbl_update ?P ?f (documents d))" "doc_id r = i" "doc_status r = Deleting" for r
    using that(1) by (cases rule: tbl_updateE) (use that in \<open>auto simp: live_doc_def\<close>)
  then have "\<forall>r \<in> set (documents d'). doc_id r = i \<and> doc_status r = Deleting \<longrightarrow> doc_deleted_at r \<noteq> None"
    unfolding docs by blast
  moreover have "\<exists>r \<in> set (documents d). doc_id r = i \<and> doc_status r = Deleting \<and> doc_deleted_at r = None"
    using hit by (auto simp: tbl_affected_zero live_doc_def simp del: neq0_conv)
  moreover have "ch_deleted_at c \<noteq> None"
    if "c \<in> set (tbl_update ?C ?g (document_chunks d))" "ch_doc c = i" for c
    using that(1) by (cases rule: tbl_updateE) (use that in \<open>auto simp: live_chunk_def\<close>)
  then have "\<forall>c \<in> set (document_chunks d'). ch_doc c = i \<longrightarrow> ch_deleted_at c \<noteq> None"
    unfolding chunks by blast
  moreover have "filter (\<lambda>r. doc_id r \<noteq> i) (documents d') = filter (\<lambda>r. doc_id r \<noteq> i) (documents d)"
    unfolding docs by (rule frame) auto
  moreover have "filter (\<lambda>c. ch_doc c \<noteq> i) (document_chunks d') = filter (\<lambda>c. ch_doc c \<noteq> i) (document_chunks d)"
    unfolding chunks by (rule frame) auto
  ultimately show ?thesis by (intro conjI)
qed

definition deleting_db :: db where
  "deleting_db = snd (doc_UpdateStatus 5 ''d1'' Deleting [] (snd (ReplaceByDocument [chunk1] db1)))"

lemma deletion_is_complete_witness:
  "\<exists>c \<in> set (document_chunks (snd (CompleteDelete 7 ''d1'' deleting_db))).
     ch_doc c = ''d1'' \<and> ch_deleted_at c \<noteq> None"
proof -
  let ?d = "snd (CompleteDelete 7 ''d1'' deleting_db)"
  have "fst (CompleteDelete 7 ''d1'' deleting_db) = Inr ()" by code_simp
  then have "CompleteDelete 7 ''d1'' deleting_db = (Inr (), ?d)" by (simp add: prod_eq_iff)
  from deletion_is_complete [OF this]
  have "\<forall>c \<in> set (document_chunks ?d). ch_doc c = ''d1'' \<longrightarrow> ch_deleted_at c \<noteq> None" by blast
  moreover have "\<exists>c \<in> set (document_chunks ?d). ch_doc c = ''d1''" by code_simp
  ultimately show ?thesis by blast
qed

end
