(* ===== verification/ChunkerProperties.thy ===== *)
theory ChunkerProperties
  imports Chunker Fixtures
begin

text \<open>
  The properties of chunking: for every document and every configuration the cut returns, its
  chunks are bounded and numbered, nothing of the text is lost, and the chunk identifiers of a
  document are different.
\<close>

definition env1 :: chunk_env where
  "env1 = \<lparr>ce_unicode = ascii_tables, ce_sha256 = (\<lambda>_. ''h''), ce_uuid = (\<lambda>s. s), ce_now = 7\<rparr>"

definition conf200 :: chunking_conf where
  "conf200 = \<lparr>cc_version = [], cc_size = 200, cc_overlap = 30, cc_min_size = 40, cc_lookback = 60\<rparr>"

definition text_doc :: document where
  "text_doc = doc1\<lparr>doc_plain_text := lit '' alpha. beta ''\<rparr>"

definition text_chunks :: "document_chunk list" where
  "text_chunks = (case Build env1 text_doc conf200 of Some (Inr chunks) \<Rightarrow> chunks | _ \<Rightarrow> [])"

lemma text_built: "Build env1 text_doc conf200 = Some (Inr text_chunks)"
proof -
  have "length text_chunks = 1" by code_simp
  then show ?thesis
    by (auto simp: text_chunks_def split: option.splits sum.splits)
qed

text \<open>C9
  Chunking always returns, for every document and every configured size, overlap, minimum and
  lookback: no cut is out of range and no loop runs forever. It returns an error, or at least
  one chunk.
\<close>

theorem chunking_always_returns:
  "\<exists>r. Build env doc conf = Some r \<and> r \<noteq> Inr []"
  using Build_spec [of env doc conf] by auto

text \<open>C11
  The chunks that are built are numbered from zero in the order of the list, carry the
  identity of their document, and hold text that is not empty, has no white space around it,
  counts its runes correctly and is at most as long as the configured size, where a size
  below 200 counts as 800.
\<close>

theorem chunks_are_bounded:
  assumes "Build env doc conf = Some (Inr chunks)" and "n < length chunks"
  shows "ch_index (chunks ! n) = int n \<and> ch_doc (chunks ! n) = doc_id doc \<and>
    ch_tenant (chunks ! n) = doc_tenant doc \<and> ch_subject (chunks ! n) = doc_subject doc \<and>
    ch_doc_version (chunks ! n) = doc_version doc \<and>
    ch_content (chunks ! n) \<noteq> [] \<and> TrimSpace (ch_content (chunks ! n)) = ch_content (chunks ! n) \<and>
    ch_token_count (chunks ! n) = int (length (ch_content (chunks ! n))) \<and>
    int (length (ch_content (chunks ! n))) \<le> (if cc_size conf < 200 then 800 else cc_size conf)"
proof -
  from Build_spec [of env doc conf] assms(1) obtain segments
    where "numbered env doc (norm_size conf) segments chunks" by auto
  with assms(2) obtain segment content where c: "chunks ! n = make_chunk env doc segment content n"
    "content \<noteq> []" "trimmed content" "int (length content) \<le> norm_size conf"
    unfolding numbered_def by blast
  then show ?thesis
    by (simp add: make_chunk_def Let_def TrimSpace_of_trimmed norm_size_def normalizeConfig_def)
qed

lemma chunks_are_bounded_witness:
  "ch_index (text_chunks ! 0) = 0 \<and> length (ch_content (text_chunks ! 0)) \<le> 200"
proof -
  have "0 < length text_chunks" by code_simp
  from chunks_are_bounded [OF text_built this] show ?thesis by (simp add: conf200_def)
qed

text \<open>C10
  No text is lost: every rune of a segment that is not white space lies in one of the windows
  that were cut, and the trimmed text of that window is the content of a chunk.
\<close>

theorem every_rune_is_in_a_chunk:
  assumes "Build env doc conf = Some (Inr chunks)" and "document_segments doc = Inr segments"
    and "segment \<in> set segments" and "runes = TrimSpace (seg_content segment)"
    and "i < length runes" and "\<not> isSpace (runes ! i)"
  shows "\<exists>a b c. a \<le> i \<and> i < b \<and> b \<le> length runes \<and> c \<in> set chunks \<and>
    ch_content c = TrimSpace (take (b - a) (drop a runes)) \<and> runes ! i \<in> set (ch_content c)"
proof -
  from Build_spec [of env doc conf] assms(1,2,3)
  have "segment_covered segment (map ch_content chunks)" by auto
  with assms(4-6) have "covers runes (map ch_content chunks) (int i)"
    unfolding segment_covered_def by simp
  then obtain a b piece where ab: "slice runes a b = Some piece" "a \<le> int i" "int i < b"
    and "TrimSpace piece \<in> set (map ch_content chunks)" by (auto simp: covers_def)
  then obtain c where c: "c \<in> set chunks" "ch_content c = TrimSpace piece" by auto
  have piece: "piece = take (nat b - nat a) (drop (nat a) runes)" and range: "0 \<le> a" "b \<le> int (length runes)"
    using ab(1) by (auto simp: slice_def split: if_splits)
  have "runes ! i \<in> set piece" using slice_nth [OF ab] by simp
  then have "runes ! i \<in> set (filter (\<lambda>r. \<not> isSpace r) piece)" using assms(6) by simp
  then have "runes ! i \<in> set (TrimSpace piece)" by (metis TrimSpace_keeps filter_is_subset subsetD)
  moreover have "nat a \<le> i" "i < nat b" "nat b \<le> length runes" using ab(2,3) range by linarith+
  ultimately show ?thesis using c piece by metis
qed

lemma every_rune_is_in_a_chunk_witness:
  "\<exists>c \<in> set text_chunks. 46 \<in> set (ch_content c)"
proof -
  let ?s = "plain_segment text_doc"
  have segs: "document_segments text_doc = Inr [?s]"
    by (simp add: document_segments_def text_doc_def doc1_def)
  have i: "5 < length (TrimSpace (seg_content ?s))" "\<not> isSpace (TrimSpace (seg_content ?s) ! 5)"
    and dot: "TrimSpace (seg_content ?s) ! 5 = 46" by code_simp+
  from every_rune_is_in_a_chunk [OF text_built segs _ refl i] dot show ?thesis by auto
qed

text \<open>C12
  Without overlap a segment is partitioned: the runes of its pieces that are not white space
  are exactly those of the segment, in order, none lost and none doubled.
\<close>

theorem cut_without_overlap_is_a_partition:
  assumes "0 < sz" and "0 \<le> minSize"
  shows "\<exists>contents. splitSegment text_of sz 0 minSize lookback = Some contents \<and>
    concat (map (filter (\<lambda>r. \<not> isSpace r)) contents) = filter (\<lambda>r. \<not> isSpace r) text_of"
proof -
  have "inked = filter (\<lambda>r. \<not> isSpace r)" by (rule ext) (simp add: inked_def)
  with splitSegment_partition [OF assms, of text_of lookback] show ?thesis by simp
qed

lemma cut_without_overlap_is_a_partition_witness:
  "\<exists>contents. splitSegment (lit ''one two. three four'') 8 0 2 4 = Some contents \<and>
     concat (map (filter (\<lambda>r. \<not> isSpace r)) contents) =
       filter (\<lambda>r. \<not> isSpace r) (lit ''one two. three four'')"
  by (rule cut_without_overlap_is_a_partition) simp_all

text \<open>
  If the name-based UUIDs of different names differ, the chunks of a document have different
  identifiers, also where the same text occurs twice, so storing them never collides.
\<close>

theorem chunk_identifiers_differ:
  assumes "inj (ce_uuid env)" and "Build env doc conf = Some (Inr chunks)"
  shows "distinct (map ch_id chunks)"
  using Build_spec [of env doc conf] assms(2) numbered_ids_distinct [OF assms(1)] by auto

lemma chunk_identifiers_differ_witness: "distinct (map ch_id text_chunks)"
  by (rule chunk_identifiers_differ [OF _ text_built]) (simp add: env1_def)

text \<open>
  A chunk has at most eight keywords, all different, of two to 32 runes each, and a summary
  of at most 120 runes.
\<close>

theorem keywords_and_summary_are_bounded:
  "length (extractKeywords u section_name content) \<le> 8 \<and>
   distinct (extractKeywords u section_name content) \<and>
   (\<forall>k \<in> set (extractKeywords u section_name content). 2 \<le> length k \<and> length k \<le> 32) \<and>
   length (summarize content) \<le> 120"
  using collect_keywords_ok [of "[]"] summarize_length by (simp add: extractKeywords_def Let_def)

lemma keywords_and_summary_are_bounded_witness:
  "length (hd (extractKeywords ascii_tables [] (lit ''red red blue''))) \<le> 32"
proof -
  have "extractKeywords ascii_tables [] (lit ''red red blue'') \<noteq> []" by code_simp
  then have "hd (extractKeywords ascii_tables [] (lit ''red red blue'')) \<in>
      set (extractKeywords ascii_tables [] (lit ''red red blue''))" by (rule hd_in_set)
  with keywords_and_summary_are_bounded [of ascii_tables "[]" "lit ''red red blue''"]
  show ?thesis by blast
qed

end
