(* ===== verification/QueryPlan.thy ===== *)
theory QueryPlan
  imports GoText
begin

text \<open>
  \<open>internal/service/retrieval/query_plan.go\<close>: how a question is compacted, split into parts
  and turned into the list of queries that are embedded and searched.
\<close>

section \<open>Compacting and splitting\<close>

definition space :: gostr where
  "space = lit '' ''"

text \<open>The loop from \<open>maxRunes\<close> down to three quarters of it, looking for a place to cut.\<close>

fun scan_cut :: "unicode_tables \<Rightarrow> gostr \<Rightarrow> nat \<Rightarrow> nat \<Rightarrow> nat \<Rightarrow> nat" where
  "scan_cut u runes low dflt 0 = dflt"
| "scan_cut u runes low dflt (Suc index) =
     (if Suc index > low then
        (if isPunct u (runes ! index) \<or> isSpace (runes ! index) then Suc index
         else scan_cut u runes low dflt index)
      else dflt)"

definition compactQuery :: "unicode_tables \<Rightarrow> gostr \<Rightarrow> int \<Rightarrow> gostr" where
  "compactQuery u query0 maxRunes0 =
     (let query = Join (Fields query0) space;
          maxRunes = (if maxRunes0 < 1 then 500 else nat maxRunes0)
      in if length query \<le> maxRunes then query
         else TrimSpace (take (scan_cut u query (maxRunes * 3 div 4) maxRunes maxRunes) query))"

definition question_mark :: "rune \<Rightarrow> bool" where
  "question_mark r \<longleftrightarrow> r \<in> set [63, 0xFF1F, 59, 0xFF1B, 10]"

definition sentence_mark :: "rune \<Rightarrow> bool" where
  "sentence_mark r \<longleftrightarrow> r \<in> set [0x3002, 0xFF01, 33, 63, 0xFF1F, 59, 0xFF1B, 10]"

definition conjunctions :: "gostr list" where
  "conjunctions = [[0x53E6, 0x5916], [0x540C, 0x65F6], [0x4EE5, 0x53CA], [0x5E76, 0x4E14],
     [0x8FD8, 0x60F3, 0x77E5, 0x9053]]"

definition splitLongQuestion :: "gostr \<Rightarrow> gostr list" where
  "splitLongQuestion query =
     (let parts = FieldsFunc sentence_mark query in if parts = [] then [query] else parts)"

text \<open>The loop over the conjunctions stops at the first one the question contains.\<close>

fun split_at_conjunction :: "gostr \<Rightarrow> gostr list \<Rightarrow> gostr list \<Rightarrow> gostr list" where
  "split_at_conjunction query parts [] = parts"
| "split_at_conjunction query parts (separator # separators) =
     (if Contains query separator then Split query separator
      else split_at_conjunction query parts separators)"

definition splitQuestion :: "gostr \<Rightarrow> gostr list" where
  "splitQuestion query =
     (let parts = FieldsFunc question_mark query
      in if length parts = 1 then split_at_conjunction query parts conjunctions else parts)"

section \<open>The plan\<close>

definition appendUniqueQuery :: "unicode_tables \<Rightarrow> gostr list \<Rightarrow> gostr \<Rightarrow> gostr list" where
  "appendUniqueQuery u queries query0 =
     (let query = TrimSpace query0
      in if query = [] then queries
         else if \<exists>existing \<in> set queries. EqualFold u existing query then queries
         else queries @ [query])"

text \<open>The loop over the parts: it appends first and looks at the bound afterwards.\<close>

fun append_parts :: "unicode_tables \<Rightarrow> int \<Rightarrow> int \<Rightarrow> gostr list \<Rightarrow> gostr list \<Rightarrow> gostr list" where
  "append_parts u maxRunes maxSubQueries queries [] = queries"
| "append_parts u maxRunes maxSubQueries queries (part # parts) =
     (let queries' = appendUniqueQuery u queries (compactQuery u part maxRunes)
      in if int (length queries') \<ge> maxSubQueries then queries'
         else append_parts u maxRunes maxSubQueries queries' parts)"

record query_plan =
  qp_original :: gostr
  qp_queries :: "gostr list"

definition buildQueryPlan :: "unicode_tables \<Rightarrow> gostr \<Rightarrow> gostr \<Rightarrow> int \<Rightarrow> int \<Rightarrow> query_plan" where
  "buildQueryPlan u original0 rewritten0 maxRunes0 maxSubQueries0 =
     (let maxRunes = (if maxRunes0 < 1 then 500 else maxRunes0);
          original = Join (Fields original0) space;
          rewritten = compactQuery u rewritten0 maxRunes;
          maxSubQueries = (if maxSubQueries0 < 1 then 4 else maxSubQueries0);
          queries = appendUniqueQuery u [] rewritten;
          parts = splitQuestion original;
          parts' = (if int (length original) > maxRunes \<and> length parts = 1
                    then splitLongQuestion original else parts);
          queries' = append_parts u maxRunes maxSubQueries queries parts'
      in \<lparr>qp_original = original,
          qp_queries = (if queries' = [] then queries' @ [original] else queries')\<rparr>)"

section \<open>What compacting guarantees\<close>

lemma scan_cut_bounds:
  "scan_cut u runes low dflt n = dflt \<or> 0 < scan_cut u runes low dflt n \<and> scan_cut u runes low dflt n \<le> n"
  by (induction n) (auto simp: Let_def)

lemma Fields_fields: "f \<in> set (Fields s) \<Longrightarrow> f \<noteq> [] \<and> (\<forall>r \<in> set f. \<not> isSpace r)"
  unfolding Fields_def using FieldsFunc_fields by blast

text \<open>Fields joined by a space form a trimmed text.\<close>

lemma hd_Join_fields:
  "fs \<noteq> [] \<Longrightarrow> \<forall>f \<in> set fs. f \<noteq> [] \<Longrightarrow> Join fs sep \<noteq> [] \<and> hd (Join fs sep) = hd (hd fs)"
  by (induction fs sep rule: Join.induct) auto

lemma last_Join_fields:
  "fs \<noteq> [] \<Longrightarrow> \<forall>f \<in> set fs. f \<noteq> [] \<Longrightarrow> last (Join fs sep) = last (last fs)"
proof (induction fs sep rule: Join.induct)
  case (3 s t ss sep)
  then have "Join (t # ss) sep \<noteq> []" using hd_Join_fields [of "t # ss" sep] by simp
  with 3 show ?case by (auto simp: last_append)
qed auto

lemma trimmed_Join_Fields: "trimmed (Join (Fields s) space)"
proof (cases "Fields s = []")
  case False
  let ?fs = "Fields s"
  have ne: "\<forall>f \<in> set ?fs. f \<noteq> []" using Fields_fields by blast
  have "hd ?fs \<in> set ?fs" and "last ?fs \<in> set ?fs" using False by simp_all
  then have "\<not> isSpace (hd (hd ?fs))" and "\<not> isSpace (last (last ?fs))"
    using Fields_fields hd_in_set last_in_set by blast+
  then show ?thesis
    using hd_Join_fields [OF False ne] last_Join_fields [OF False ne] by (simp add: trimmed_def)
qed (simp add: trimmed_def)

lemma FieldsFunc_Nil_iff: "FieldsFunc p s = [] \<longleftrightarrow> (\<forall>r \<in> set s. p r)"
  by (subst FieldsFunc.simps)
    (auto split: list.split simp flip: dropWhile_eq_Nil_conv)

lemma Join_Fields_Nil: "Join (Fields s) space = [] \<longleftrightarrow> TrimSpace s = []"
proof
  assume "Join (Fields s) space = []"
  then have "Fields s = []" using hd_Join_fields [of "Fields s" space] Fields_fields by blast
  then show "TrimSpace s = []" by (simp add: Fields_def FieldsFunc_Nil_iff TrimSpace_Nil_iff)
next
  assume "TrimSpace s = []"
  then have "Fields s = []" by (simp add: Fields_def FieldsFunc_Nil_iff TrimSpace_Nil_iff)
  then show "Join (Fields s) space = []" by simp
qed

definition query_runes :: "int \<Rightarrow> nat" where
  "query_runes maxRunes = (if maxRunes < 1 then 500 else nat maxRunes)"

lemma query_runes_pos: "0 < query_runes m"
  by (simp add: query_runes_def)

lemma compactQuery_length: "length (compactQuery u q m) \<le> query_runes m"
proof -
  let ?q = "Join (Fields q) space" and ?m = "query_runes m"
  let ?cut = "scan_cut u ?q (?m * 3 div 4) ?m ?m"
  have "?cut \<le> ?m" using scan_cut_bounds [of u ?q "?m * 3 div 4" ?m ?m] by auto
  then have "length (TrimSpace (take ?cut ?q)) \<le> ?m"
    using length_TrimSpace [of "take ?cut ?q"] by simp
  then show ?thesis by (auto simp: compactQuery_def query_runes_def Let_def)
qed

lemma compactQuery_trimmed: "trimmed (compactQuery u q m)"
  using trimmed_Join_Fields trimmed_TrimSpace by (simp add: compactQuery_def Let_def)

lemma compactQuery_Nil: "compactQuery u q m = [] \<longleftrightarrow> TrimSpace q = []"
proof -
  let ?q = "Join (Fields q) space" and ?m = "query_runes m"
  let ?cut = "scan_cut u ?q (?m * 3 div 4) ?m ?m"
  have pos: "0 < ?cut" using scan_cut_bounds [of u ?q "?m * 3 div 4" ?m ?m] query_runes_pos [of m] by auto
  have "TrimSpace (take ?cut ?q) \<noteq> []" if long: "\<not> length ?q \<le> ?m"
  proof -
    from long have ne: "?q \<noteq> []" by auto
    then have "\<not> isSpace (hd ?q)" using trimmed_Join_Fields [of q] by (simp add: trimmed_def)
    moreover have "hd ?q \<in> set (take ?cut ?q)" using ne pos by (cases ?q; cases ?cut) auto
    ultimately show ?thesis by (auto simp: TrimSpace_Nil_iff)
  qed
  then show ?thesis
    using Join_Fields_Nil [of q]
    by (auto simp: compactQuery_def query_runes_def Let_def)
qed

section \<open>The invariant of the query list\<close>

text \<open>
  What every list of queries satisfies while it is built: the queries are non-empty, trimmed,
  within the configured length, and no two are equal up to case.
\<close>

definition queries_ok :: "unicode_tables \<Rightarrow> nat \<Rightarrow> gostr list \<Rightarrow> bool" where
  "queries_ok u n qs \<longleftrightarrow>
     (\<forall>q \<in> set qs. q \<noteq> [] \<and> trimmed q \<and> length q \<le> n) \<and> distinct (map (map (runeFold u)) qs)"

lemma queries_ok_Nil [simp]: "queries_ok u n []"
  by (simp add: queries_ok_def)

lemma append_query_ok:
  assumes "queries_ok u n qs" and "trimmed q" and "length q \<le> n"
  shows "queries_ok u n (appendUniqueQuery u qs q)"
  using assms TrimSpace_of_trimmed [OF assms(2)]
  by (auto simp: queries_ok_def appendUniqueQuery_def Let_def EqualFold_def)

lemma append_query_prefix: "\<exists>more. appendUniqueQuery u qs q = qs @ more \<and> length more \<le> 1"
  by (auto simp: appendUniqueQuery_def Let_def)

lemma append_parts_ok:
  "queries_ok u (query_runes m) qs \<Longrightarrow> queries_ok u (query_runes m) (append_parts u m k qs parts)"
proof (induction parts arbitrary: qs)
  case (Cons part parts)
  have "queries_ok u (query_runes m) (appendUniqueQuery u qs (compactQuery u part m))"
    by (rule append_query_ok [OF Cons.prems compactQuery_trimmed compactQuery_length])
  with Cons.IH show ?case by (simp add: Let_def)
qed simp

lemma append_parts_prefix: "\<exists>more. append_parts u m k qs parts = qs @ more"
proof (induction parts arbitrary: qs)
  case (Cons part parts)
  let ?qs = "appendUniqueQuery u qs (compactQuery u part m)"
  obtain more where more: "?qs = qs @ more" using append_query_prefix by blast
  obtain more' where "append_parts u m k ?qs parts = ?qs @ more'" using Cons.IH by blast
  with more show ?case by (simp add: Let_def)
qed simp

lemma append_parts_length:
  "int (length qs) < k \<Longrightarrow> int (length (append_parts u m k qs parts)) \<le> k"
proof (induction parts arbitrary: qs)
  case (Cons part parts)
  let ?qs = "appendUniqueQuery u qs (compactQuery u part m)"
  have "length ?qs \<le> Suc (length qs)" using append_query_prefix [of u qs "compactQuery u part m"] by auto
  with Cons show ?case by (auto simp: Let_def)
qed simp

lemma append_parts_length_any:
  "int (length (append_parts u m k qs parts)) \<le> max k (int (length qs) + 1)"
proof (cases "int (length qs) < k")
  case True
  with append_parts_length show ?thesis by fastforce
next
  case False
  show ?thesis
  proof (cases parts)
    case (Cons part rest)
    let ?qs = "appendUniqueQuery u qs (compactQuery u part m)"
    have "length ?qs \<le> Suc (length qs)" and "length qs \<le> length ?qs"
      using append_query_prefix [of u qs "compactQuery u part m"] by auto
    with False Cons show ?thesis by (auto simp: Let_def)
  qed simp
qed

end
