(* ===== verification/Float64.thy ===== *)
theory Float64
  imports Complex_Main "HOL-Library.Log_Nat"
begin

text \<open>
  Go's \<open>float64\<close>: a finite value is the rational number it stands for, and every operation
  rounds its exact result to the nearest number with 53 significant bits, ties to even, with
  the exponent range of subnormal numbers below. The values of the program (similarity scores,
  match counts, ratios of counts, thresholds) are far from the overflow bound and no operation
  divides by zero, so infinities and NaN do not occur; the sign of zero is not observed.
\<close>

type_synonym float64 = rat

section \<open>Rounding\<close>

definition two_to :: "int \<Rightarrow> rat" where
  "two_to e = (if 0 \<le> e then 2 ^ nat e else 1 / 2 ^ nat (- e))"

text \<open>The exponent of the binade of a positive number.\<close>

definition ilog2 :: "rat \<Rightarrow> int" where
  "ilog2 x = (let (p, q) = quotient_of x; e = bitlen p - bitlen q
     in if two_to e \<le> x then e else e - 1)"

definition round_even :: "rat \<Rightarrow> int" where
  "round_even y = (let f = \<lfloor>y\<rfloor>; d = y - of_int f
     in if d < 1 / 2 then f else if d > 1 / 2 then f + 1 else if even f then f else f + 1)"

text \<open>The distance between neighbouring floating-point numbers around \<open>x\<close>.\<close>

definition ulp :: "rat \<Rightarrow> rat" where
  "ulp x = two_to (max (ilog2 x - 52) (- 1074))"

definition rnd :: "rat \<Rightarrow> float64" where
  "rnd x = (if x = 0 then 0 else of_int (round_even (x / ulp \<bar>x\<bar>)) * ulp \<bar>x\<bar>)"

section \<open>Operations\<close>

definition fadd :: "float64 \<Rightarrow> float64 \<Rightarrow> float64" where
  "fadd x y = rnd (x + y)"

definition fsub :: "float64 \<Rightarrow> float64 \<Rightarrow> float64" where
  "fsub x y = rnd (x - y)"

definition fmul :: "float64 \<Rightarrow> float64 \<Rightarrow> float64" where
  "fmul x y = rnd (x * y)"

definition fdiv :: "float64 \<Rightarrow> float64 \<Rightarrow> float64" where
  "fdiv x y = rnd (x / y)"

text \<open>\<open>float64(n)\<close> of an integer and the value of a decimal constant.\<close>

definition float_of_int :: "int \<Rightarrow> float64" where
  "float_of_int n = rnd (of_int n)"

definition const :: "rat \<Rightarrow> float64" where
  "const c = rnd c"

lemmas float_op_defs = fadd_def fsub_def fmul_def fdiv_def float_of_int_def const_def

section \<open>Powers of two\<close>

lemma two_to_pos [simp]: "0 < two_to e"
  by (simp add: two_to_def)

lemma two_to_nonzero [simp]: "two_to e \<noteq> 0"
  using two_to_pos [of e] by linarith

lemma two_to_add: "two_to (a + b) = two_to a * two_to b"
proof -
  have split: "two_to e = 2 powi e" for e
    by (simp add: two_to_def power_int_def field_simps)
  show ?thesis by (simp add: split power_int_add)
qed

lemma two_to_zero [simp]: "two_to 0 = 1"
  by (simp add: two_to_def)

lemma two_to_mono: "a \<le> b \<Longrightarrow> two_to a \<le> two_to b"
proof -
  assume "a \<le> b"
  then have "two_to b = two_to a * two_to (b - a)" by (simp flip: two_to_add)
  moreover have "1 \<le> two_to (b - a)" using \<open>a \<le> b\<close> by (simp add: two_to_def)
  ultimately show ?thesis using two_to_pos [of a] by simp
qed

lemma two_to_int: "0 \<le> e \<Longrightarrow> \<exists>n. two_to e = of_int n"
  by (rule exI [of _ "2 ^ nat e"]) (simp add: two_to_def)

lemma bitlen_bounds_rat:
  assumes "0 < p"
  shows "two_to (bitlen p - 1) \<le> of_int p" and "of_int p < two_to (bitlen p)"
proof -
  have b: "0 < bitlen p" using assms by (metis bitlen_nonneg bitlen_eq_zero_iff le_less not_less)
  from assms bitlen_bounds have r: "2 ^ nat (bitlen p - 1) \<le> p" "p < 2 ^ nat (bitlen p)" by blast+
  have "(of_int (2 ^ nat (bitlen p - 1)) :: rat) \<le> of_int p" using r(1) by (simp only: of_int_le_iff)
  with b show "two_to (bitlen p - 1) \<le> of_int p" by (simp add: two_to_def)
  have "(of_int p :: rat) < of_int (2 ^ nat (bitlen p))" using r(2) by (simp only: of_int_less_iff)
  with b show "of_int p < two_to (bitlen p)" by (simp add: two_to_def)
qed

lemma ilog2_bounds:
  assumes "0 < x"
  shows "two_to (ilog2 x) \<le> x" and "x < two_to (ilog2 x + 1)"
proof -
  obtain p q where pq: "quotient_of x = (p, q)" by (cases "quotient_of x")
  then have q: "0 < q" and x: "x = of_int p / of_int q"
    using quotient_of_denom_pos quotient_of_div by blast+
  with assms have p: "0 < p" by (simp add: zero_less_divide_iff)
  let ?e = "bitlen p - bitlen q"
  note bp = bitlen_bounds_rat [OF p] and bq = bitlen_bounds_rat [OF q]
  have "of_int p < two_to (?e + 1) * of_int q"
  proof -
    have "two_to (bitlen p) = two_to (?e + 1) * two_to (bitlen q - 1)" by (simp flip: two_to_add)
    also have "\<dots> \<le> two_to (?e + 1) * of_int q" using bq(1) by simp
    finally show ?thesis using bp(2) by simp
  qed
  then have up: "x < two_to (?e + 1)" using q by (simp add: x divide_less_eq)
  have "two_to (?e - 1) * of_int q < of_int p"
  proof -
    have "two_to (?e - 1) * of_int q < two_to (?e - 1) * two_to (bitlen q)" using bq(2) by simp
    also have "\<dots> = two_to (bitlen p - 1)" by (simp flip: two_to_add)
    finally show ?thesis using bp(1) by simp
  qed
  then have low: "two_to (?e - 1) \<le> x" using q by (simp add: x le_divide_eq)
  show "two_to (ilog2 x) \<le> x" and "x < two_to (ilog2 x + 1)"
    using up low by (auto simp: ilog2_def pq Let_def)
qed

lemma two_to_less_iff: "two_to a < two_to b \<longleftrightarrow> a < b"
proof
  show "two_to a < two_to b \<Longrightarrow> a < b" using two_to_mono [of b a] by (meson leD not_less)
  assume "a < b"
  then have "two_to (a + 1) \<le> two_to b" by (intro two_to_mono) simp
  moreover have "two_to (a + 1) = 2 * two_to a" by (simp add: two_to_add) (simp add: two_to_def)
  ultimately show "two_to a < two_to b" using two_to_pos [of a] by linarith
qed

lemma ilog2_mono: "0 < x \<Longrightarrow> x \<le> y \<Longrightarrow> ilog2 x \<le> ilog2 y"
proof -
  assume "0 < x" and "x \<le> y"
  then have "two_to (ilog2 x) < two_to (ilog2 y + 1)"
    using ilog2_bounds(1) [of x] ilog2_bounds(2) [of y] by linarith
  then show ?thesis by (simp add: two_to_less_iff)
qed

section \<open>Rounding is monotone\<close>

lemma round_even_int [simp]: "round_even (of_int n) = n"
  by (simp add: round_even_def)

lemma round_even_bounds: "\<lfloor>y\<rfloor> \<le> round_even y" "round_even y \<le> \<lfloor>y\<rfloor> + 1"
  by (auto simp: round_even_def Let_def)

lemma round_even_mono: "y \<le> z \<Longrightarrow> round_even y \<le> round_even z"
proof (cases "\<lfloor>y\<rfloor> = \<lfloor>z\<rfloor>")
  case True
  assume "y \<le> z"
  with True show ?thesis by (auto simp: round_even_def Let_def)
next
  case False
  assume "y \<le> z"
  with False have "\<lfloor>y\<rfloor> + 1 \<le> \<lfloor>z\<rfloor>" using floor_mono [of y z] by linarith
  then show ?thesis using round_even_bounds [of y] round_even_bounds [of z] by linarith
qed

lemma round_even_minus: "round_even (- y) = - round_even y"
proof (cases "y = of_int \<lfloor>y\<rfloor>")
  case True
  then show ?thesis by (metis of_int_minus round_even_int)
next
  case False
  then have c: "\<lceil>y\<rceil> = \<lfloor>y\<rfloor> + 1" by (metis ceiling_altdef)
  show ?thesis by (auto simp: round_even_def Let_def floor_minus c)
qed

lemma ulp_pos [simp]: "0 < ulp x"
  by (simp add: ulp_def)

lemma rnd_zero [simp]: "rnd 0 = 0"
  by (simp add: rnd_def)

lemma rnd_minus: "rnd (- x) = - rnd x"
  by (simp add: rnd_def round_even_minus)

lemma rnd_pos: "0 < x \<Longrightarrow> rnd x = of_int (round_even (x / ulp x)) * ulp x"
  by (simp add: rnd_def)

lemma rnd_nonneg: "0 \<le> x \<Longrightarrow> 0 \<le> rnd x"
proof (cases "x = 0")
  case False
  assume "0 \<le> x"
  with False have "0 < x" by simp
  then have "round_even 0 \<le> round_even (x / ulp x)" by (intro round_even_mono) (simp add: less_imp_le)
  moreover have "round_even 0 = 0" using round_even_int [of 0] by simp
  ultimately show ?thesis using \<open>0 < x\<close> by (simp add: rnd_pos less_imp_le)
qed simp

text \<open>Numbers below a power of two round to at most it, numbers above to at least it.\<close>

lemma rnd_le_two_to:
  assumes "0 < x" and "x \<le> two_to e" and "- 1074 \<le> e"
  shows "rnd x \<le> two_to e"
proof (cases "x = two_to e")
  case False
  with assms have "x < two_to e" by simp
  with assms(1) have "two_to (ilog2 x) < two_to e" using ilog2_bounds(1) [of x] by linarith
  then have "ilog2 x < e" by (simp add: two_to_less_iff)
  let ?s = "max (ilog2 x - 52) (- 1074)"
  have s: "?s \<le> e" using \<open>ilog2 x < e\<close> assms(3) by simp
  then obtain n where n: "two_to (e - ?s) = of_int n" using two_to_int [of "e - ?s"] by auto
  have e: "two_to e = two_to (e - ?s) * ulp x" by (simp add: ulp_def flip: two_to_add)
  have "x / ulp x \<le> of_int n" using assms(2) by (simp add: divide_le_eq e n)
  then have "round_even (x / ulp x) \<le> n" using round_even_mono [of "x / ulp x" "of_int n"] by simp
  then have "of_int (round_even (x / ulp x)) * ulp x \<le> of_int n * ulp x" by (simp add: less_imp_le)
  then show ?thesis by (simp add: rnd_pos assms(1) e n)
next
  case True
  let ?s = "max (ilog2 x - 52) (- 1074)"
  have "two_to (ilog2 x) < two_to (e + 1)" using ilog2_bounds(1) [OF assms(1)] assms(2)
      two_to_less_iff [of e "e + 1"] by linarith
  then have "?s \<le> e" using assms(3) by (simp add: two_to_less_iff)
  then obtain n where n: "two_to (e - ?s) = of_int n" using two_to_int [of "e - ?s"] by auto
  have e: "two_to e = two_to (e - ?s) * ulp x" by (simp add: ulp_def flip: two_to_add)
  have "x = of_int n * ulp x" using True by (simp add: e n)
  moreover have "ulp x \<noteq> 0" using ulp_pos [of x] by linarith
  ultimately have "x / ulp x = of_int n" by (metis nonzero_mult_div_cancel_right)
  then have "rnd x = of_int n * ulp x" by (simp add: rnd_pos assms(1))
  then show ?thesis by (simp add: e n)
qed

lemma two_to_le_rnd:
  assumes "two_to e \<le> x" and "- 1074 \<le> e - 52" and "ilog2 x = e"
  shows "two_to e \<le> rnd x"
proof -
  have x: "0 < x" using assms(1) two_to_pos [of e] by linarith
  obtain n where n: "two_to 52 = of_int n" using two_to_int [of 52] by auto
  have u: "ulp x = two_to (e - 52)" using assms(2,3) by (simp add: ulp_def)
  have e: "two_to e = of_int n * ulp x" by (simp add: u flip: n two_to_add)
  have "of_int n \<le> x / ulp x" using assms(1) by (simp add: le_divide_eq e)
  then have "n \<le> round_even (x / ulp x)" using round_even_mono [of "of_int n" "x / ulp x"] by simp
  then show ?thesis by (simp add: rnd_pos x e)
qed

lemma rnd_mono_pos:
  assumes "0 < x" and "x \<le> y"
  shows "rnd x \<le> rnd y"
proof -
  have y: "0 < y" using assms by simp
  have le: "ilog2 x \<le> ilog2 y" by (rule ilog2_mono [OF assms])
  show ?thesis
  proof (cases "ulp x = ulp y")
    case True
    have "x / ulp x \<le> y / ulp y" using assms(2) True by (simp add: divide_right_mono less_imp_le)
    then have "round_even (x / ulp x) \<le> round_even (y / ulp y)" by (rule round_even_mono)
    with True show ?thesis by (simp add: rnd_pos assms(1) y mult_right_mono less_imp_le)
  next
    case False
    then have "ilog2 x \<noteq> ilog2 y" by (auto simp: ulp_def)
    with le have lt: "ilog2 x < ilog2 y" by simp
    have big: "- 1074 \<le> ilog2 y - 52"
    proof (rule ccontr)
      assume "\<not> - 1074 \<le> ilog2 y - 52"
      with lt have "max (ilog2 x - 52) (- 1074) = max (ilog2 y - 52) (- 1074)" by linarith
      with False show False by (simp add: ulp_def)
    qed
    have "two_to (ilog2 x + 1) \<le> two_to (ilog2 y)" by (rule two_to_mono) (use lt in simp)
    then have "x \<le> two_to (ilog2 y)" using ilog2_bounds(2) [OF assms(1)] by linarith
    then have "rnd x \<le> two_to (ilog2 y)" using rnd_le_two_to [OF assms(1)] big by simp
    also have "\<dots> \<le> rnd y" by (rule two_to_le_rnd [OF ilog2_bounds(1) [OF y] big refl])
    finally show ?thesis .
  qed
qed

lemma rnd_mono: "x \<le> y \<Longrightarrow> rnd x \<le> rnd y"
proof -
  assume le: "x \<le> y"
  consider "0 < x" | "x \<le> 0" "0 \<le> y" | "y < 0" using le by linarith
  then show ?thesis
  proof cases
    case 1
    then show ?thesis using le by (rule rnd_mono_pos)
  next
    case 2
    then have "0 \<le> rnd (- x)" and "0 \<le> rnd y" by (simp_all add: rnd_nonneg)
    then show ?thesis by (simp add: rnd_minus)
  next
    case 3
    then have "rnd (- y) \<le> rnd (- x)" using le by (intro rnd_mono_pos) simp_all
    then show ?thesis by (simp add: rnd_minus)
  qed
qed

lemma rnd_one [simp]: "rnd 1 = 1"
proof (rule antisym)
  show "rnd 1 \<le> 1" using rnd_le_two_to [of 1 0] by simp
  have "ilog2 1 = 0" by (simp add: ilog2_def)
  then show "1 \<le> rnd 1" using two_to_le_rnd [of 0 1] by simp
qed

section \<open>Ratios\<close>

text \<open>A ratio of ordered non-negative values rounds into the unit interval.\<close>

lemma fdiv_unit: "0 \<le> x \<Longrightarrow> x \<le> y \<Longrightarrow> 0 \<le> fdiv x y \<and> fdiv x y \<le> 1"
  unfolding fdiv_def using rnd_nonneg [of "x / y"] rnd_mono [of "x / y" 1]
  by (simp add: divide_le_eq)

lemma rnd_positive:
  assumes "0 < x" and "two_to (- 1074) \<le> x"
  shows "0 < rnd x"
proof -
  have "ulp x \<le> x"
  proof (cases "ilog2 x - 52 \<le> - 1074")
    case True
    then show ?thesis using assms(2) by (simp add: ulp_def)
  next
    case False
    have "two_to (ilog2 x - 52) \<le> two_to (ilog2 x)" by (rule two_to_mono) simp
    with False ilog2_bounds(1) [OF assms(1)] show ?thesis by (simp add: ulp_def)
  qed
  then have "of_int 1 \<le> x / ulp x" by (simp add: le_divide_eq)
  from round_even_mono [OF this] have "1 \<le> round_even (x / ulp x)" by (simp only: round_even_int)
  then show ?thesis by (simp add: rnd_pos assms(1))
qed

section \<open>Floating-point numbers\<close>

definition is_float :: "rat \<Rightarrow> bool" where
  "is_float x \<longleftrightarrow> rnd x = x"

lemma two_to_mult_le: "two_to a \<le> two_to b \<longleftrightarrow> a \<le> b"
  using two_to_less_iff [of b a] by (simp flip: not_less)

lemma rnd_of_multiple:
  assumes "0 < x" and "x = of_int n * ulp x"
  shows "rnd x = x"
proof -
  have "ulp x \<noteq> 0" using ulp_pos [of x] by linarith
  with assms(2) have "x / ulp x = of_int n" by (metis nonzero_mult_div_cancel_right)
  then have "rnd x = of_int n * ulp x" by (simp add: rnd_pos assms(1))
  with assms(2) show ?thesis by simp
qed

text \<open>Every number with a 53-bit significand is one of them.\<close>

lemma rnd_significand:
  assumes "0 < n" and "of_int n \<le> two_to 53" and "- 1074 \<le> k"
  shows "rnd (of_int n * two_to k) = of_int n * two_to k"
proof -
  let ?x = "of_int n * two_to k"
  have x: "0 < ?x" using assms(1) by simp
  have "?x \<le> two_to 53 * two_to k" using assms(2) by simp
  then have le: "?x \<le> two_to (53 + k)" by (simp add: two_to_add)
  obtain j where u: "ulp ?x = two_to j" and j: "j = max (ilog2 ?x - 52) (- 1074)"
    by (simp add: ulp_def)
  have "two_to (ilog2 ?x) \<le> two_to (53 + k)" using ilog2_bounds(1) [OF x] le by linarith
  then have top: "ilog2 ?x \<le> 53 + k" by (simp add: two_to_mult_le)
  show ?thesis
  proof (cases "j \<le> k")
    case True
    then obtain m where "two_to (k - j) = of_int m" using two_to_int [of "k - j"] by auto
    then have "two_to k = of_int m * two_to j" by (metis two_to_add add.commute diff_add_cancel)
    then have "?x = of_int (n * m) * two_to j" by simp
    with u have "?x = of_int (n * m) * ulp ?x" by metis
    with x show ?thesis by (rule rnd_of_multiple)
  next
    case False
    with top j assms(3) have e: "ilog2 ?x = 53 + k" "j = k + 1" by linarith+
    with ilog2_bounds(1) [OF x] le have "?x = two_to (53 + k)" by simp
    moreover have "two_to (53 + k) = two_to 52 * two_to (k + 1)" by (simp flip: two_to_add)
    moreover obtain m where "two_to 52 = of_int m" using two_to_int [of 52] by auto
    ultimately have "?x = of_int m * ulp ?x" using u e(2) by simp
    with x show ?thesis by (rule rnd_of_multiple)
  qed
qed

lemma rnd_idem_pos:
  assumes "0 < x"
  shows "rnd (rnd x) = rnd x"
proof -
  let ?n = "round_even (x / ulp x)" and ?k = "max (ilog2 x - 52) (- 1074)"
  have "two_to (ilog2 x + 1) \<le> two_to (53 + ?k)" by (rule two_to_mono) simp
  then have "x \<le> two_to 53 * ulp x"
    using ilog2_bounds(2) [OF assms] by (simp add: ulp_def two_to_add)
  then have le: "x / ulp x \<le> two_to 53" by (simp add: divide_le_eq)
  obtain m where m: "two_to 53 = of_int m" using two_to_int [of 53] by auto
  from round_even_mono [OF le [unfolded m]] have "?n \<le> m" by simp
  then have top: "of_int ?n \<le> two_to 53" by (simp add: m)
  have r: "rnd x = of_int ?n * two_to ?k" by (simp add: rnd_pos assms) (simp add: ulp_def)
  have "0 \<le> rnd x" using assms by (simp add: rnd_nonneg)
  then have "0 \<le> ?n" unfolding r using two_to_pos [of ?k]
    by (metis mult_neg_pos not_le of_int_less_0_iff)
  then consider "?n = 0" | "0 < ?n" by linarith
  then show ?thesis
  proof cases
    case 1
    then show ?thesis by (simp add: r)
  next
    case 2
    then show ?thesis unfolding r using rnd_significand [OF 2 top, of ?k] by simp
  qed
qed

lemma is_float_rnd [simp]: "is_float (rnd x)"
proof -
  consider "0 < x" | "x = 0" | "0 < - x" by linarith
  then show ?thesis
  proof cases
    case 3
    from rnd_idem_pos [OF 3] show ?thesis by (simp add: is_float_def rnd_minus)
  qed (simp_all add: is_float_def rnd_idem_pos)
qed

lemma is_float_simps [simp]: "is_float 0" "is_float 1"
  by (simp_all add: is_float_def)

lemma is_float_max [simp]: "is_float x \<Longrightarrow> is_float y \<Longrightarrow> is_float (max x y)"
  by (simp add: max_def)

lemma is_float_min [simp]: "is_float x \<Longrightarrow> is_float y \<Longrightarrow> is_float (min x y)"
  by (simp add: min_def)

lemma is_float_ops [simp]:
  "is_float (fadd x y)" "is_float (fsub x y)" "is_float (fmul x y)" "is_float (fdiv x y)"
  "is_float (const c)" "is_float (float_of_int n)"
  by (simp_all add: float_op_defs)

text \<open>Scaling a non-negative number by a factor of at most one does not enlarge it.\<close>

lemma fmul_shrinks: "is_float x \<Longrightarrow> 0 \<le> x \<Longrightarrow> r \<le> 1 \<Longrightarrow> fmul x r \<le> x"
  unfolding fmul_def is_float_def using rnd_mono [of "x * r" x] by (simp add: mult_left_le)

end
