(* ===== verification/ApiTypes.thy ===== *)
theory ApiTypes
  imports Tables Float64
begin

text \<open>
  The structs of \<open>internal/types\<close> that carry answers: retrieved chunks, the metrics of a
  retrieval, links and steps of the agent, and the request of a chat question.
\<close>

text \<open>The value of an \<open>int64\<close> (or 64-bit \<open>int\<close>) operation whose exact result is \<open>x\<close>.\<close>

definition wrap64 :: "int \<Rightarrow> int" where
  "wrap64 x = (x + 2 ^ 63) mod 2 ^ 64 - 2 ^ 63"

lemma wrap64_small: "- (2 ^ 63) \<le> x \<Longrightarrow> x < 2 ^ 63 \<Longrightarrow> wrap64 x = x"
  by (simp add: wrap64_def)

record retrieval_chunk =
  rc_id :: uid
  rc_evidence :: uid
  rc_tenant :: uid
  rc_doc :: uid
  rc_doc_name :: gostr
  rc_subject :: uid
  rc_user :: uid
  rc_index :: int
  rc_page :: int
  rc_section :: gostr
  rc_content :: gostr
  rc_doc_version :: int
  rc_content_hash :: string
  rc_score :: float64
  rc_raw_score :: float64
  rc_source :: string

record retrieval_metrics =
  rm_original_query :: gostr
  rm_search_query :: gostr
  rm_query_rewritten :: bool
  rm_reranked :: bool
  rm_top_k :: int
  rm_candidate_count :: nat
  rm_returned_count :: nat
  rm_sub_query_count :: nat
  rm_expected_count :: nat
  rm_recall_hit_count :: nat
  rm_recall_at_k :: float64
  rm_route :: string
  rm_route_correct :: bool
  rm_latency_ms :: int
  rm_evaluation_passed :: bool
  rm_citation_count :: int
  rm_answered :: bool
  rm_outcome_correct :: bool

text \<open>\<open>types.RetrievalMetrics{}\<close>\<close>

definition zero_metrics :: retrieval_metrics where
  "zero_metrics = \<lparr>rm_original_query = [], rm_search_query = [], rm_query_rewritten = False,
     rm_reranked = False, rm_top_k = 0, rm_candidate_count = 0, rm_returned_count = 0,
     rm_sub_query_count = 0, rm_expected_count = 0, rm_recall_hit_count = 0, rm_recall_at_k = 0,
     rm_route = [], rm_route_correct = False, rm_latency_ms = 0, rm_evaluation_passed = False,
     rm_citation_count = 0, rm_answered = False, rm_outcome_correct = False\<rparr>"

record external_link =
  el_title :: gostr
  el_url :: gostr
  el_snippet :: gostr

record agent_step =
  as_id :: gostr
  as_kind :: gostr
  as_title :: gostr
  as_tool :: gostr
  as_state :: gostr
  as_iteration :: int
  as_status :: gostr
  as_detail :: gostr
  as_duration_ms :: int

record chat_ask_req =
  ca_session :: uid
  ca_message :: uid
  ca_subject :: uid
  ca_query :: gostr
  ca_top_k :: int
  ca_llm_provider :: gostr
  ca_llm_model :: gostr
  ca_web_search :: bool
  ca_expected_docs :: "gostr list"
  ca_expected_chunks :: "gostr list"
  ca_expected_route :: gostr
  ca_expected_outcome :: gostr

end
