(* ===== verification/Scoring.thy ===== *)
theory Scoring
  imports ApiTypes GoText
begin

text \<open>
  \<open>internal/service/retrieval/scoring.go\<close>: the keyword score of a chunk, the tokens of a
  query, merging and limiting candidates, normalising scores and re-ranking.
\<close>

section \<open>Normalised text and tokens\<close>

definition dropped_punctuation :: "rune list" where
  "dropped_punctuation = [0xFF1F, 63, 0x3002, 46, 0xFF0C, 44, 0xFF1A, 58]"

definition normalizeText :: "unicode_tables \<Rightarrow> gostr \<Rightarrow> gostr" where
  "normalizeText u text0 =
     filter (\<lambda>r. r \<notin> set dropped_punctuation) (ToLower u (TrimSpace text0))"

definition containsHan :: "unicode_tables \<Rightarrow> gostr \<Rightarrow> bool" where
  "containsHan u runes \<longleftrightarrow> (\<exists>r \<in> set runes. isHan u r)"

text \<open>The windows of two runes of a Chinese run.\<close>

fun bigrams :: "gostr \<Rightarrow> gostr list" where
  "bigrams (a # b # rest) = [a, b] # bigrams (b # rest)"
| "bigrams _ = []"

definition appendToken :: "unicode_tables \<Rightarrow> gostr list \<Rightarrow> gostr \<Rightarrow> gostr list" where
  "appendToken u tokens token =
     (if length token < 2 then tokens
      else if containsHan u token then
        tokens @ bigrams token @ (if length token \<le> 12 then [token] else [])
      else tokens @ [token])"

fun token_loop :: "unicode_tables \<Rightarrow> gostr list \<Rightarrow> gostr \<Rightarrow> gostr \<Rightarrow> gostr list" where
  "token_loop u tokens builder [] =
     (if builder \<noteq> [] then appendToken u tokens builder else tokens)"
| "token_loop u tokens builder (r # rest) =
     (if isLetter u r \<or> isDigit u r then token_loop u tokens (builder @ [r]) rest
      else if builder \<noteq> [] then token_loop u (appendToken u tokens builder) [] rest
      else token_loop u tokens builder rest)"

definition keywordTokens :: "unicode_tables \<Rightarrow> gostr \<Rightarrow> gostr list" where
  "keywordTokens u text0 = token_loop u [] [] (normalizeText u text0)"

section \<open>Keyword score\<close>

definition chunkMetadataText :: "chunk_metadata json \<Rightarrow> gostr" where
  "chunkMetadataText raw =
     (case raw of JValue m \<Rightarrow> Join (cm_heading_path m @ cm_keywords m @ [cm_summary m]) (lit '' '')
      | _ \<Rightarrow> [])"

definition add_if :: "bool \<Rightarrow> rat \<Rightarrow> float64 \<Rightarrow> float64" where
  "add_if c points score = (if c then fadd score (const points) else score)"

definition token_points :: "gostr \<Rightarrow> gostr \<Rightarrow> gostr \<Rightarrow> gostr \<Rightarrow> float64 \<Rightarrow> float64" where
  "token_points sect content metadataText token score =
     add_if (Contains metadataText token) (3 / 2)
       (add_if (Contains content token) 1 (add_if (Contains sect token) 3 score))"

definition keywordScore :: "unicode_tables \<Rightarrow> gostr \<Rightarrow> document_chunk \<Rightarrow> float64" where
  "keywordScore u query0 chunk =
     (let query = normalizeText u query0;
          sect = normalizeText u (ch_section chunk);
          content = normalizeText u (ch_content chunk);
          metadataText = normalizeText u (chunkMetadataText (ch_metadata chunk))
      in if query = [] then 0
         else fold (token_points sect content metadataText) (keywordTokens u query)
                (add_if (sect \<noteq> [] \<and> Contains content sect) 1
                  (add_if (sect \<noteq> [] \<and> Contains sect query) 5 0)))"

section \<open>Merging and limiting candidates\<close>

definition clamp01 :: "float64 \<Rightarrow> float64" where
  "clamp01 v = max 0 (min 1 v)"

text \<open>The state of the loop: \<open>indexByID\<close> and the merged list.\<close>

fun merge_step ::
    "(uid \<Rightarrow> nat option) \<times> retrieval_chunk list \<Rightarrow> retrieval_chunk \<Rightarrow>
     (uid \<Rightarrow> nat option) \<times> retrieval_chunk list" where
  "merge_step (indexByID, merged) chunk =
     (case indexByID (rc_id chunk) of
        Some index \<Rightarrow>
          (indexByID, merged[index := (merged ! index)
             \<lparr>rc_score := clamp01 (fadd (max (rc_score (merged ! index)) (rc_score chunk)) (const (1 / 10))),
              rc_raw_score := max (rc_raw_score (merged ! index)) (rc_raw_score chunk),
              rc_source := ''hybrid''\<rparr>])
      | None \<Rightarrow> (indexByID(rc_id chunk \<mapsto> length merged), merged @ [chunk]))"

definition mergeChunks :: "retrieval_chunk list \<Rightarrow> retrieval_chunk list \<Rightarrow> retrieval_chunk list" where
  "mergeChunks primary secondary = snd (foldl merge_step (Map.empty, []) (primary @ secondary))"

definition limitCandidates :: "retrieval_chunk list \<Rightarrow> int \<Rightarrow> retrieval_chunk list" where
  "limitCandidates chunks limit =
     (if limit \<le> 0 \<or> int (length chunks) \<le> limit then chunks
      else take (nat limit) (sort_key (\<lambda>c. - rc_score c) chunks))"

section \<open>Normalising\<close>

definition max_raw :: "retrieval_chunk list \<Rightarrow> float64" where
  "max_raw chunks = foldl (\<lambda>m c. max m (rc_raw_score c)) (rc_raw_score (hd chunks)) (tl chunks)"

definition min_raw :: "retrieval_chunk list \<Rightarrow> float64" where
  "min_raw chunks = foldl (\<lambda>m c. min m (rc_raw_score c)) (rc_raw_score (hd chunks)) (tl chunks)"

definition normalizeScores :: "retrieval_chunk list \<Rightarrow> retrieval_chunk list" where
  "normalizeScores chunks =
     (if chunks = [] then []
      else map (\<lambda>c. c\<lparr>rc_score :=
          (if max_raw chunks = min_raw chunks then 1
           else fdiv (fsub (rc_raw_score c) (min_raw chunks)) (fsub (max_raw chunks) (min_raw chunks)))\<rparr>)
        chunks)"

section \<open>Re-ranking\<close>

text \<open>
  The order of the comparison functions: a better score first, and among equal scores the
  earlier chunk of the document.
\<close>

datatype rank = Rank (rank_score: float64) (rank_index: int)

instantiation rank :: linorder
begin

definition less_eq_rank :: "rank \<Rightarrow> rank \<Rightarrow> bool" where
  "less_eq_rank a b \<longleftrightarrow> rank_score a > rank_score b \<or>
     (rank_score a = rank_score b \<and> rank_index a \<le> rank_index b)"

definition less_rank :: "rank \<Rightarrow> rank \<Rightarrow> bool" where
  "less_rank a b \<longleftrightarrow> (if rank_score a = rank_score b then rank_index a < rank_index b
     else rank_score a > rank_score b)"

instance
  by standard (auto simp: less_eq_rank_def less_rank_def rank.expand split: if_splits)

end

definition rank_of :: "retrieval_chunk \<Rightarrow> rank" where
  "rank_of c = Rank (rc_score c) (rc_index c)"

fun overlap_loop :: "gostr \<Rightarrow> gostr list \<Rightarrow> nat \<Rightarrow> gostr list \<Rightarrow> gostr list \<times> nat" where
  "overlap_loop content seen hits [] = (seen, hits)"
| "overlap_loop content seen hits (token # tokens) =
     (if token \<in> set seen then overlap_loop content seen hits tokens
      else overlap_loop content (token # seen)
             (if Contains content token then hits + 1 else hits) tokens)"

definition tokenOverlapScore :: "unicode_tables \<Rightarrow> gostr \<Rightarrow> gostr \<Rightarrow> float64" where
  "tokenOverlapScore u query content =
     (let (seen, hits) = overlap_loop (normalizeText u content) [] 0 (keywordTokens u query)
      in if seen = [] then 0 else fdiv (float_of_int (int hits)) (float_of_int (int (length seen))))"

definition rerank_score :: "unicode_tables \<Rightarrow> gostr \<Rightarrow> retrieval_chunk \<Rightarrow> float64" where
  "rerank_score u query c =
     (let overlap = tokenOverlapScore u query (rc_section c @ lit '' '' @ rc_content c);
          sectionOverlap = tokenOverlapScore u query (rc_section c);
          sourceBoost = (if rc_source c = ''keyword'' then const (1 / 20) else 0)
      in clamp01 (fadd (fadd (fadd (fmul (rc_score c) (const (3 / 10))) (fmul overlap (const (1 / 2))))
           (fmul sectionOverlap (const (3 / 20)))) sourceBoost))"

definition rerankChunks :: "unicode_tables \<Rightarrow> gostr \<Rightarrow> retrieval_chunk list \<Rightarrow> retrieval_chunk list" where
  "rerankChunks u query chunks =
     sort_key rank_of (map (\<lambda>c. c\<lparr>rc_score := rerank_score u query c\<rparr>) chunks)"

section \<open>What scoring guarantees\<close>

definition unit_score :: "float64 \<Rightarrow> bool" where
  "unit_score v \<longleftrightarrow> 0 \<le> v \<and> v \<le> 1"

lemma unit_clamp01 [simp, intro]: "unit_score (clamp01 v)"
  by (simp add: unit_score_def clamp01_def)

declare merge_step.simps [simp del]

text \<open>Merging: the index map and the merged list agree, and every chunk has its own id.\<close>

definition merge_ok :: "(uid \<Rightarrow> nat option) \<times> retrieval_chunk list \<Rightarrow> bool" where
  "merge_ok st \<longleftrightarrow> distinct (map rc_id (snd st)) \<and>
     (\<forall>i k. fst st i = Some k \<longleftrightarrow> k < length (snd st) \<and> rc_id (snd st ! k) = i)"

lemma merge_ok_fresh: "merge_ok (ix, ms) \<Longrightarrow> ix i = None \<longleftrightarrow> i \<notin> rc_id ` set ms"
proof -
  assume "merge_ok (ix, ms)"
  then have "ix i = Some k \<longleftrightarrow> k < length ms \<and> rc_id (ms ! k) = i" for k by (simp add: merge_ok_def)
  then have "(\<exists>k. ix i = Some k) \<longleftrightarrow> i \<in> rc_id ` set ms"
    by (auto simp: in_set_conv_nth image_iff) (metis nth_mem)
  then show ?thesis by auto
qed

lemma map_update_same: "k < length xs \<Longrightarrow> f y = f (xs ! k) \<Longrightarrow> map f (xs[k := y]) = map f xs"
  by (metis list_update_id map_update)

lemma merge_step_ids:
  assumes "merge_ok (ix, ms)" and "merge_step (ix, ms) c = (ix', ms')"
  shows "map rc_id ms' = map rc_id ms @ (if rc_id c \<in> rc_id ` set ms then [] else [rc_id c])"
proof (cases "ix (rc_id c)")
  case None
  with assms merge_ok_fresh [OF assms(1), of "rc_id c"] show ?thesis by (auto simp: merge_step.simps)
next
  case (Some k)
  with assms(1) have "k < length ms" by (auto simp: merge_ok_def)
  with Some assms merge_ok_fresh [OF assms(1), of "rc_id c"] show ?thesis
    by (auto simp: merge_step.simps intro!: map_update_same)
qed

lemma merge_step_ok:
  assumes "merge_ok st"
  shows "merge_ok (merge_step st c)"
proof (cases st)
  case st: (Pair ix ms)
  obtain ix' ms' where r: "merge_step (ix, ms) c = (ix', ms')" by (cases "merge_step (ix, ms) c")
  note ids = merge_step_ids [OF assms [unfolded st] r]
  have d: "distinct (map rc_id ms')"
    using assms ids st by (auto simp: merge_ok_def simp flip: set_map)
  have nth: "k < length ms' \<and> rc_id (ms' ! k) = i \<longleftrightarrow> k < length (map rc_id ms') \<and> map rc_id ms' ! k = i"
    for i k by auto
  have "ix' i = Some k \<longleftrightarrow> k < length ms' \<and> rc_id (ms' ! k) = i" for i k
  proof (cases "ix (rc_id c)")
    case None
    with r have "ix' = ix(rc_id c \<mapsto> length ms)" "ms' = ms @ [c]" by (auto simp: merge_step.simps)
    with assms st merge_ok_fresh [of ix ms "rc_id c"] None show ?thesis
      by (auto simp: merge_ok_def nth_append image_iff in_set_conv_nth) (metis nth_mem)+
  next
    case (Some n)
    with r assms st merge_ok_fresh [of ix ms "rc_id c"] ids have "ix' = ix" "map rc_id ms' = map rc_id ms"
      by (auto simp: merge_step.simps)
    with assms st show ?thesis
      unfolding nth by (auto simp: merge_ok_def)
  qed
  with d st r show ?thesis by (simp add: merge_ok_def)
qed

lemma merge_foldl_ok: "merge_ok st \<Longrightarrow> merge_ok (foldl merge_step st cs)"
proof (induction cs arbitrary: st)
  case (Cons c cs)
  show ?case using Cons.IH [OF merge_step_ok [OF Cons.prems, of c]] by simp
qed simp

lemma merge_ok_start [simp]: "merge_ok (Map.empty, [])"
  by (simp add: merge_ok_def)

lemma merge_foldl_ids:
  "merge_ok st \<Longrightarrow> rc_id ` set (snd (foldl merge_step st cs)) = rc_id ` set (snd st) \<union> rc_id ` set cs"
proof (induction cs arbitrary: st)
  case (Cons c cs)
  obtain ix ms where st: "st = (ix, ms)" by (cases st)
  obtain ix' ms' where r: "merge_step (ix, ms) c = (ix', ms')" by (cases "merge_step (ix, ms) c")
  have "set (map rc_id ms') = set (map rc_id ms) \<union> {rc_id c}"
    using merge_step_ids [OF Cons.prems [unfolded st] r] by auto
  then have "rc_id ` set ms' = rc_id ` set ms \<union> {rc_id c}" by simp
  moreover have "rc_id ` set (snd (foldl merge_step (ix', ms') cs)) = rc_id ` set ms' \<union> rc_id ` set cs"
    using Cons.IH [OF merge_step_ok [OF Cons.prems, of c]] st r by simp
  ultimately show ?case using st r by auto
qed simp

text \<open>A property of single chunks that both branches of the loop keep holds of the result.\<close>

lemma merge_foldl_all:
  assumes "\<And>c. c \<in> set cs \<Longrightarrow> P c" and "\<And>c. c \<in> set (snd st) \<Longrightarrow> P c" and "merge_ok st"
    and "\<And>m c. P m \<Longrightarrow> P c \<Longrightarrow> rc_id m = rc_id c \<Longrightarrow>
      P (m\<lparr>rc_score := clamp01 (fadd (max (rc_score m) (rc_score c)) (const (1 / 10))),
           rc_raw_score := max (rc_raw_score m) (rc_raw_score c), rc_source := ''hybrid''\<rparr>)"
  shows "\<forall>c \<in> set (snd (foldl merge_step st cs)). P c"
  using assms(1-3)
proof (induction cs arbitrary: st)
  case (Cons c cs)
  obtain ix ms where st: "st = (ix, ms)" by (cases st)
  have step: "P x" if x: "x \<in> set (snd (merge_step st c))" for x
  proof (cases "ix (rc_id c)")
    case None
    with x Cons.prems(1) [of c] Cons.prems(2) [of x] st show ?thesis by (auto simp: merge_step.simps)
  next
    case (Some k)
    with Cons.prems(3) st have k: "k < length ms" "rc_id (ms ! k) = rc_id c" by (auto simp: merge_ok_def)
    with x Some st have "x \<in> set ms \<or> x = (ms ! k)
        \<lparr>rc_score := clamp01 (fadd (max (rc_score (ms ! k)) (rc_score c)) (const (1 / 10))),
         rc_raw_score := max (rc_raw_score (ms ! k)) (rc_raw_score c), rc_source := ''hybrid''\<rparr>"
      using set_update_subset_insert by (fastforce simp: merge_step.simps)
    with assms(4) [of "ms ! k" c] Cons.prems(1) [of c] Cons.prems(2) k st show ?thesis
      using nth_mem [OF k(1)] by auto
  qed
  show ?case
    using Cons.IH [of "merge_step st c"] step Cons.prems(1) merge_step_ok [OF Cons.prems(3)] by simp
qed simp

lemma mergeChunks_distinct: "distinct (map rc_id (mergeChunks a b))"
  using merge_foldl_ok [OF merge_ok_start, of "a @ b"] by (simp add: mergeChunks_def merge_ok_def)

lemma mergeChunks_ids: "rc_id ` set (mergeChunks a b) = rc_id ` set a \<union> rc_id ` set b"
  using merge_foldl_ids [OF merge_ok_start, of "a @ b"] by (simp add: mergeChunks_def image_Un)

lemma mergeChunks_all:
  assumes "\<And>c. c \<in> set a \<union> set b \<Longrightarrow> P c"
    and "\<And>m c. P m \<Longrightarrow> P c \<Longrightarrow> rc_id m = rc_id c \<Longrightarrow>
      P (m\<lparr>rc_score := clamp01 (fadd (max (rc_score m) (rc_score c)) (const (1 / 10))),
           rc_raw_score := max (rc_raw_score m) (rc_raw_score c), rc_source := ''hybrid''\<rparr>)"
    and "c \<in> set (mergeChunks a b)"
  shows "P c"
  using merge_foldl_all [of "a @ b" P "(Map.empty, [])"] assms by (auto simp: mergeChunks_def)

text \<open>Normalising: extremes, the unit interval, and the order of the raw scores.\<close>

lemma foldl_max_ge: "m \<le> foldl (\<lambda>m c. max m (f c)) m cs" for m :: rat
  by (induction cs arbitrary: m) (auto intro: order_trans [OF max.cobounded1])

lemma foldl_max_ge_elem: "c \<in> set cs \<Longrightarrow> f c \<le> foldl (\<lambda>m c. max m (f c)) m cs" for m :: rat
proof (induction cs arbitrary: m)
  case (Cons a cs)
  then show ?case
    using foldl_max_ge [of "max m (f a)" f cs] by (auto intro: order_trans [OF max.cobounded2])
qed simp

lemma foldl_min_le: "foldl (\<lambda>m c. min m (f c)) m cs \<le> m" for m :: rat
  by (induction cs arbitrary: m) (auto intro: order_trans [OF _ min.cobounded1])

lemma foldl_min_le_elem: "c \<in> set cs \<Longrightarrow> foldl (\<lambda>m c. min m (f c)) m cs \<le> f c" for m :: rat
proof (induction cs arbitrary: m)
  case (Cons a cs)
  then show ?case
    using foldl_min_le [of f "min m (f a)" cs] by (auto intro: order_trans [OF _ min.cobounded2])
qed simp

lemma raw_bounds:
  assumes "c \<in> set cs"
  shows "min_raw cs \<le> rc_raw_score c" and "rc_raw_score c \<le> max_raw cs"
proof -
  from assms have "cs = hd cs # tl cs" by (cases cs) auto
  with assms have "c = hd cs \<or> c \<in> set (tl cs)" by (metis set_ConsD)
  then show "min_raw cs \<le> rc_raw_score c" and "rc_raw_score c \<le> max_raw cs"
    unfolding min_raw_def max_raw_def
    by (auto intro: foldl_min_le foldl_min_le_elem foldl_max_ge foldl_max_ge_elem)
qed

lemma normalizeScores_score:
  assumes "c \<in> set (normalizeScores cs)"
  obtains x where "x \<in> set cs" and "c = x\<lparr>rc_score := rc_score c\<rparr>"
    and "rc_score c = (if max_raw cs = min_raw cs then 1
           else fdiv (fsub (rc_raw_score x) (min_raw cs)) (fsub (max_raw cs) (min_raw cs)))"
  using assms by (auto simp: normalizeScores_def split: if_splits)

lemma fsub_nonneg: "y \<le> x \<Longrightarrow> 0 \<le> fsub x y"
  unfolding fsub_def by (rule rnd_nonneg) simp

lemma fsub_mono: "x \<le> x' \<Longrightarrow> fsub x y \<le> fsub x' y"
  unfolding fsub_def by (rule rnd_mono) simp

lemma fdiv_mono: "0 \<le> z \<Longrightarrow> x \<le> y \<Longrightarrow> fdiv x z \<le> fdiv y z"
  unfolding fdiv_def by (intro rnd_mono divide_right_mono)

lemma normalizeScores_unit:
  assumes "c \<in> set (normalizeScores cs)"
  shows "unit_score (rc_score c)"
proof -
  obtain x where x: "x \<in> set cs" and c: "rc_score c = (if max_raw cs = min_raw cs then 1
      else fdiv (fsub (rc_raw_score x) (min_raw cs)) (fsub (max_raw cs) (min_raw cs)))"
    by (rule normalizeScores_score [OF assms])
  have "0 \<le> fsub (rc_raw_score x) (min_raw cs)"
    and "fsub (rc_raw_score x) (min_raw cs) \<le> fsub (max_raw cs) (min_raw cs)"
    by (simp_all add: fsub_nonneg fsub_mono raw_bounds [OF x])
  from fdiv_unit [OF this] c show ?thesis by (simp add: unit_score_def)
qed

lemma normalizeScores_mono:
  assumes "c \<in> set (normalizeScores cs)" and "d \<in> set (normalizeScores cs)"
    and "rc_raw_score c \<le> rc_raw_score d"
  shows "rc_score c \<le> rc_score d"
proof -
  obtain x where x: "x \<in> set cs" "c = x\<lparr>rc_score := rc_score c\<rparr>"
    and c: "rc_score c = (if max_raw cs = min_raw cs then 1
      else fdiv (fsub (rc_raw_score x) (min_raw cs)) (fsub (max_raw cs) (min_raw cs)))"
    by (rule normalizeScores_score [OF assms(1)])
  obtain y where y: "y \<in> set cs" "d = y\<lparr>rc_score := rc_score d\<rparr>"
    and d: "rc_score d = (if max_raw cs = min_raw cs then 1
      else fdiv (fsub (rc_raw_score y) (min_raw cs)) (fsub (max_raw cs) (min_raw cs)))"
    by (rule normalizeScores_score [OF assms(2)])
  have "rc_raw_score c = rc_raw_score x" by (subst x(2)) simp
  moreover have "rc_raw_score d = rc_raw_score y" by (subst y(2)) simp
  ultimately have le: "rc_raw_score x \<le> rc_raw_score y" using assms(3) by simp
  have "min_raw cs \<le> max_raw cs" using raw_bounds [OF x(1)] by linarith
  then have "fdiv (fsub (rc_raw_score x) (min_raw cs)) (fsub (max_raw cs) (min_raw cs))
      \<le> fdiv (fsub (rc_raw_score y) (min_raw cs)) (fsub (max_raw cs) (min_raw cs))"
    by (intro fdiv_mono fsub_nonneg fsub_mono le)
  with c d show ?thesis by simp
qed

lemma normalizeScores_frame:
  "map (\<lambda>c. c\<lparr>rc_score := 0\<rparr>) (normalizeScores cs) = map (\<lambda>c. c\<lparr>rc_score := 0\<rparr>) cs"
  by (simp add: normalizeScores_def)

lemma normalizeScores_map:
  "(\<And>c v. f (c\<lparr>rc_score := v\<rparr>) = f c) \<Longrightarrow> map f (normalizeScores cs) = map f cs"
  by (simp add: normalizeScores_def)

text \<open>Re-ranking: a permutation, ordered by rank, with scores in the unit interval.\<close>

lemma overlap_loop_hits:
  "hits \<le> length seen \<Longrightarrow> overlap_loop content seen hits ts = (seen', hits') \<Longrightarrow> hits' \<le> length seen'"
  by (induction content seen hits ts rule: overlap_loop.induct) (auto split: if_splits)

lemma float_of_int_mono: "m \<le> n \<Longrightarrow> float_of_int m \<le> float_of_int n"
  unfolding float_of_int_def by (rule rnd_mono) simp

lemma float_of_int_nonneg: "0 \<le> n \<Longrightarrow> 0 \<le> float_of_int n"
  unfolding float_of_int_def by (rule rnd_nonneg) simp

lemma tokenOverlapScore_unit: "unit_score (tokenOverlapScore u q t)"
proof -
  obtain seen hits where r: "overlap_loop (normalizeText u t) [] 0 (keywordTokens u q) = (seen, hits)"
    by (cases "overlap_loop (normalizeText u t) [] 0 (keywordTokens u q)")
  then have "hits \<le> length seen" by (rule overlap_loop_hits [rotated]) simp
  then show ?thesis
    using fdiv_unit [OF float_of_int_nonneg float_of_int_mono, of "int hits" "int (length seen)"]
    by (auto simp: tokenOverlapScore_def r unit_score_def)
qed

lemma rerankChunks_unit: "c \<in> set (rerankChunks u q cs) \<Longrightarrow> unit_score (rc_score c)"
  by (auto simp: rerankChunks_def rerank_score_def Let_def)

lemma rerankChunks_sorted: "sorted (map rank_of (rerankChunks u q cs))"
  by (simp add: rerankChunks_def)

lemma rerankChunks_all:
  "(\<And>c v. P c \<Longrightarrow> P (c\<lparr>rc_score := v\<rparr>)) \<Longrightarrow> (\<And>c. c \<in> set cs \<Longrightarrow> P c) \<Longrightarrow>
    c \<in> set (rerankChunks u q cs) \<Longrightarrow> P c"
  by (auto simp: rerankChunks_def)

lemma limitCandidates_set: "set (limitCandidates cs n) \<subseteq> set cs"
  by (auto simp: limitCandidates_def dest: in_set_takeD)

lemma limitCandidates_length: "0 < n \<Longrightarrow> int (length (limitCandidates cs n)) \<le> n"
  by (simp add: limitCandidates_def)

text \<open>The candidates that are cut off do not score better than any that is kept.\<close>

lemma sorted_take_drop:
  "sorted xs \<Longrightarrow> x \<in> set (take n xs) \<Longrightarrow> y \<in> set (drop n xs) \<Longrightarrow> x \<le> y"
  by (metis append_take_drop_id sorted_append)

lemma limitCandidates_best:
  assumes "k \<in> set (limitCandidates cs n)" and "c \<in> set cs" and "c \<notin> set (limitCandidates cs n)"
  shows "rc_score c \<le> rc_score k"
proof (cases "n \<le> 0 \<or> int (length cs) \<le> n")
  case False
  let ?s = "sort_key (\<lambda>c. - rc_score c) cs" and ?f = "\<lambda>c. - rc_score c"
  from False assms have k: "k \<in> set (take (nat n) ?s)" and c: "c \<in> set ?s" "c \<notin> set (take (nat n) ?s)"
    by (auto simp: limitCandidates_def)
  then have "c \<in> set (drop (nat n) ?s)" by (metis Un_iff append_take_drop_id set_append)
  then have "?f k \<le> ?f c"
    using sorted_take_drop [of "map ?f ?s" "?f k" "nat n" "?f c"] k
    by (simp add: drop_map take_map)
  then show ?thesis by simp
qed (use assms in \<open>simp add: limitCandidates_def\<close>)

end
