(* ===== verification/Citations.thy ===== *)
theory Citations
  imports Scoring
begin

text \<open>
  \<open>internal/service/retrieval/citations.go\<close> and \<open>evaluation.go\<close>: which of the ranked chunks
  become citations, how neighbouring chunks are joined, and how a retrieval is evaluated.
\<close>

section \<open>The policy\<close>

record citation_policy =
  cp_limit :: int
  cp_absolute :: float64
  cp_relative :: float64
  cp_per_document :: int

definition normalizeCitationPolicy :: "citation_policy \<Rightarrow> citation_policy" where
  "normalizeCitationPolicy p =
     (let p1 = (if cp_limit p \<le> 0 then p\<lparr>cp_limit := 5\<rparr> else p);
          p2 = (if cp_absolute p1 \<le> 0 then p1\<lparr>cp_absolute := const (35 / 100)\<rparr> else p1);
          p3 = (if cp_relative p2 \<le> 0 \<or> cp_relative p2 > 1 then p2\<lparr>cp_relative := const (72 / 100)\<rparr> else p2)
      in if cp_per_document p3 < 1 then p3\<lparr>cp_per_document := 3\<rparr> else p3)"

definition normalizeTopK :: "int \<Rightarrow> int \<Rightarrow> int" where
  "normalizeTopK requested fallback =
     (if requested > 0 then requested else if fallback > 0 then fallback else 5)"

definition go_min :: "int \<Rightarrow> int \<Rightarrow> int" where
  "go_min a b = (if a < b then a else b)"

definition normalizeMultiplier :: "int \<Rightarrow> int" where
  "normalizeMultiplier v = (if v < 1 then 1 else go_min v 10)"

definition normalizeCandidateLimit :: "int \<Rightarrow> int" where
  "normalizeCandidateLimit v = (if v < 1 then 50 else go_min v 200)"

definition normalizeMaxCitations :: "int \<Rightarrow> int" where
  "normalizeMaxCitations v = (if v < 1 then 5 else go_min v 10)"

section \<open>Choosing the citations\<close>

definition dedupeSignature :: "unicode_tables \<Rightarrow> retrieval_chunk \<Rightarrow> gostr" where
  "dedupeSignature u c =
     lit (rc_doc c) @ lit ''|'' @ normalizeText u (rc_section c) @ lit ''|'' @
       (let content = normalizeText u (rc_content c)
        in if length content > 80 then take 80 content else content)"

text \<open>\<open>seenDocCount[docID]++\<close>\<close>

definition count_doc :: "uid \<Rightarrow> (uid \<Rightarrow> nat) \<Rightarrow> uid \<Rightarrow> nat" where
  "count_doc i docs = docs(i := docs i + 1)"

text \<open>The loop: seen signatures, the number of chunks per document, and the chunks kept.\<close>

fun filter_loop ::
    "unicode_tables \<Rightarrow> citation_policy \<Rightarrow> float64 \<Rightarrow> gostr set \<Rightarrow> (uid \<Rightarrow> nat) \<Rightarrow>
     retrieval_chunk list \<Rightarrow> retrieval_chunk list \<Rightarrow> retrieval_chunk list" where
  "filter_loop u p minScore sigs docs kept [] = kept"
| "filter_loop u p minScore sigs docs kept (c # cs) =
     (if int (length kept) \<ge> cp_limit p \<or> rc_score c < minScore then kept
      else if int (docs (rc_doc c)) \<ge> cp_per_document p then filter_loop u p minScore sigs docs kept cs
      else if dedupeSignature u c \<in> sigs then filter_loop u p minScore sigs docs kept cs
      else filter_loop u p minScore (insert (dedupeSignature u c) sigs)
             (count_doc (rc_doc c) docs) (kept @ [c]) cs)"

section \<open>Joining neighbours\<close>

text \<open>A difference of two \<open>int64\<close> values wraps around, and so does negation.\<close>

definition absInt64 :: "int \<Rightarrow> int" where
  "absInt64 v = (if v < 0 then wrap64 (- v) else v)"

definition adjacent :: "retrieval_chunk \<Rightarrow> retrieval_chunk \<Rightarrow> bool" where
  "adjacent c target \<longleftrightarrow> rc_doc c = rc_doc target \<and> rc_section c = rc_section target \<and>
     absInt64 (wrap64 (rc_index c - rc_index target)) = 1"

text \<open>\<open>None\<close> is the index -1.\<close>

fun adjacentChunkIndex :: "retrieval_chunk list \<Rightarrow> retrieval_chunk \<Rightarrow> nat option" where
  "adjacentChunkIndex [] target = None"
| "adjacentChunkIndex (c # cs) target =
     (if adjacent c target then Some 0 else map_option Suc (adjacentChunkIndex cs target))"

definition join_chunk :: "retrieval_chunk \<Rightarrow> retrieval_chunk \<Rightarrow> retrieval_chunk" where
  "join_chunk m c =
     (let m' = (if rc_index c < rc_index m
                then m\<lparr>rc_content := TrimSpace (rc_content c @ [10] @ rc_content m), rc_index := rc_index c\<rparr>
                else m\<lparr>rc_content := TrimSpace (rc_content m @ [10] @ rc_content c)\<rparr>)
      in m'\<lparr>rc_score := max (rc_score m') (rc_score c)\<rparr>)"

definition merge_adjacent_step :: "retrieval_chunk list \<Rightarrow> retrieval_chunk \<Rightarrow> retrieval_chunk list" where
  "merge_adjacent_step merged c =
     (case adjacentChunkIndex merged c of
        None \<Rightarrow> merged @ [c]
      | Some k \<Rightarrow> merged[k := join_chunk (merged ! k) c])"

definition mergeAdjacentChunks :: "retrieval_chunk list \<Rightarrow> retrieval_chunk list" where
  "mergeAdjacentChunks chunks = foldl merge_adjacent_step [] chunks"

definition trimEffectiveChunks ::
    "unicode_tables \<Rightarrow> retrieval_chunk list \<Rightarrow> citation_policy \<Rightarrow> retrieval_chunk list" where
  "trimEffectiveChunks u chunks policy0 =
     (if chunks = [] then chunks
      else let policy = normalizeCitationPolicy policy0;
               ranked = sort_key rank_of chunks;
               minScore = max (cp_absolute policy) (fmul (rc_score (hd ranked)) (cp_relative policy))
           in mergeAdjacentChunks (filter_loop u policy minScore {} (\<lambda>_. 0) [] ranked))"

section \<open>Evaluation\<close>

definition normalizeIDSet :: "gostr list \<Rightarrow> gostr set" where
  "normalizeIDSet ids = set (filter (\<lambda>i. i \<noteq> []) (map TrimSpace ids))"

definition recallAtK ::
    "retrieval_chunk list \<Rightarrow> gostr list \<Rightarrow> gostr list \<Rightarrow> nat \<times> nat \<times> float64" where
  "recallAtK chunks expectedDocIDs expectedChunkIDs =
     (let expectedChunks = normalizeIDSet expectedChunkIDs;
          expectedDocs = normalizeIDSet expectedDocIDs;
          expectedCount = card expectedChunks + card expectedDocs;
          hitChunks = set (filter (\<lambda>i. i \<in> expectedChunks) (map (\<lambda>c. lit (rc_id c)) chunks));
          hitDocs = set (filter (\<lambda>i. i \<in> expectedDocs) (map (\<lambda>c. lit (rc_doc c)) chunks));
          hits = card hitChunks + card hitDocs
      in if expectedCount = 0 then (0, 0, 0)
         else (expectedCount, hits, fdiv (float_of_int (int hits)) (float_of_int (int expectedCount))))"

record evaluation_conf =
  ev_min_recall :: float64
  ev_max_latency_ms :: int

definition evaluateRetrieval :: "retrieval_metrics \<Rightarrow> gostr \<Rightarrow> evaluation_conf \<Rightarrow> bool" where
  "evaluateRetrieval metrics expectedRoute thresholds =
     (if rm_expected_count metrics > 0 \<and> ev_min_recall thresholds > 0 \<and>
         rm_recall_at_k metrics < ev_min_recall thresholds then False
      else if TrimSpace expectedRoute \<noteq> [] \<and> \<not> rm_route_correct metrics then False
      else if ev_max_latency_ms thresholds > 0 \<and>
         rm_latency_ms metrics > ev_max_latency_ms thresholds then False
      else True)"

section \<open>What the filter keeps\<close>

text \<open>
  What the kept chunks satisfy at every turn of the loop, given the bookkeeping of the loop:
  a sublist of the ranked chunks, within the limits, above the threshold, without duplicates.
\<close>

definition kept_ok ::
    "unicode_tables \<Rightarrow> citation_policy \<Rightarrow> float64 \<Rightarrow> retrieval_chunk list \<Rightarrow> bool" where
  "kept_ok u p minScore kept \<longleftrightarrow>
     int (length kept) \<le> cp_limit p \<and> (\<forall>c \<in> set kept. minScore \<le> rc_score c) \<and>
     (\<forall>d. int (length (filter (\<lambda>c. rc_doc c = d) kept)) \<le> cp_per_document p) \<and>
     distinct (map (dedupeSignature u) kept)"

lemma filter_loop_ok:
  assumes "kept_ok u p minScore kept" and "sigs = set (map (dedupeSignature u) kept)"
    and "\<And>d. docs d = length (filter (\<lambda>c. rc_doc c = d) kept)"
  shows "kept_ok u p minScore (filter_loop u p minScore sigs docs kept cs)"
  using assms
proof (induction u p minScore sigs docs kept cs rule: filter_loop.induct)
  case (2 u p minScore sigs docs kept c cs)
  consider (stop) "int (length kept) \<ge> cp_limit p \<or> rc_score c < minScore"
    | (full) "\<not> (int (length kept) \<ge> cp_limit p \<or> rc_score c < minScore)"
        "int (docs (rc_doc c)) \<ge> cp_per_document p"
    | (dup) "\<not> (int (length kept) \<ge> cp_limit p \<or> rc_score c < minScore)"
        "\<not> int (docs (rc_doc c)) \<ge> cp_per_document p" "dedupeSignature u c \<in> sigs"
    | (keep) "\<not> (int (length kept) \<ge> cp_limit p \<or> rc_score c < minScore)"
        "\<not> int (docs (rc_doc c)) \<ge> cp_per_document p" "dedupeSignature u c \<notin> sigs"
    by blast
  then show ?case
  proof cases
    case stop
    with "2.prems" show ?thesis by simp
  next
    case full
    with "2.IH"(1) [OF full "2.prems"] show ?thesis by simp
  next
    case dup
    with "2.IH"(2) [OF dup "2.prems"] show ?thesis by simp
  next
    case keep
    have "kept_ok u p minScore (kept @ [c])"
      using "2.prems" keep by (auto simp: kept_ok_def)
    moreover have "insert (dedupeSignature u c) sigs = set (map (dedupeSignature u) (kept @ [c]))"
      using "2.prems"(2) by auto
    moreover have "count_doc (rc_doc c) docs d = length (filter (\<lambda>x. rc_doc x = d) (kept @ [c]))"
      for d using "2.prems"(3) by (simp add: count_doc_def)
    ultimately have "kept_ok u p minScore (filter_loop u p minScore (insert (dedupeSignature u c) sigs)
        (count_doc (rc_doc c) docs) (kept @ [c]) cs)" by (rule "2.IH"(3) [OF keep])
    with keep show ?thesis by simp
  qed
qed simp

lemma filter_loop_subset:
  "set (filter_loop u p minScore sigs docs kept cs) \<subseteq> set kept \<union> set cs"
proof (induction u p minScore sigs docs kept cs rule: filter_loop.induct)
  case (2 u p minScore sigs docs kept c cs)
  then show ?case by (auto split: if_splits)
qed simp

lemma filter_loop_prefix: "\<exists>more. filter_loop u p minScore sigs docs kept cs = kept @ more"
  by (induction u p minScore sigs docs kept cs rule: filter_loop.induct) auto

text \<open>The best chunk is kept whenever its score reaches the threshold.\<close>

lemma filter_loop_best:
  assumes "cp_limit p > 0" and "cp_per_document p > 0" and "minScore \<le> rc_score c"
  shows "c \<in> set (filter_loop u p minScore {} (\<lambda>_. 0) [] (c # cs))"
  using assms filter_loop_prefix [of u p minScore "{dedupeSignature u c}"
      "count_doc (rc_doc c) (\<lambda>_. 0)" "[c]" cs]
  by auto

lemma normalizeCitationPolicy_ok:
  "0 < cp_limit (normalizeCitationPolicy p)" "0 < cp_per_document (normalizeCitationPolicy p)"
  by (auto simp: normalizeCitationPolicy_def Let_def)

section \<open>What joining neighbours keeps\<close>

lemma adjacentChunkIndex_Some:
  "adjacentChunkIndex cs t = Some k \<Longrightarrow> k < length cs \<and> adjacent (cs ! k) t"
  by (induction cs arbitrary: k) (auto split: if_splits)

lemma join_chunk_fields [simp]:
  "rc_id (join_chunk m c) = rc_id m" "rc_doc (join_chunk m c) = rc_doc m"
  "rc_tenant (join_chunk m c) = rc_tenant m" "rc_subject (join_chunk m c) = rc_subject m"
  "rc_section (join_chunk m c) = rc_section m" "rc_score (join_chunk m c) = max (rc_score m) (rc_score c)"
  by (simp_all add: join_chunk_def Let_def)

text \<open>
  A property of chunks that joining keeps holds of every citation; the number of citations,
  per document too, does not grow.
\<close>

lemma merge_adjacent_step_set:
  assumes "x \<in> set (merge_adjacent_step ms c)"
  shows "x \<in> set ms \<or> x = c \<or> (\<exists>m \<in> set ms. adjacent m c \<and> x = join_chunk m c)"
proof (cases "adjacentChunkIndex ms c")
  case None
  with assms show ?thesis by (auto simp: merge_adjacent_step_def)
next
  case (Some k)
  with adjacentChunkIndex_Some have k: "k < length ms" "adjacent (ms ! k) c" by blast+
  from assms Some have "x \<in> insert (join_chunk (ms ! k) c) (set ms)"
    using set_update_subset_insert by (fastforce simp: merge_adjacent_step_def)
  with k nth_mem show ?thesis by blast
qed

lemma mergeAdjacent_all:
  assumes "\<And>c. c \<in> set cs \<Longrightarrow> P c"
    and "\<And>m c. P m \<Longrightarrow> P c \<Longrightarrow> adjacent m c \<Longrightarrow> P (join_chunk m c)"
    and "x \<in> set (mergeAdjacentChunks cs)"
  shows "P x"
proof -
  have "\<forall>x \<in> set (foldl merge_adjacent_step ms cs). P x"
    if "\<forall>m \<in> set ms. P m" "\<forall>c \<in> set cs. P c" for ms
    using that
  proof (induction cs arbitrary: ms)
    case (Cons c cs)
    have "\<forall>m \<in> set (merge_adjacent_step ms c). P m"
      using merge_adjacent_step_set [of _ ms c] Cons.prems assms(2) by fastforce
    with Cons show ?case by simp
  qed simp
  from this [of "[]"] assms(1,3) show ?thesis by (auto simp: mergeAdjacentChunks_def)
qed

lemma merge_adjacent_step_count:
  "length (filter (\<lambda>c. rc_doc c = d) (merge_adjacent_step ms c)) \<le>
   length (filter (\<lambda>c. rc_doc c = d) ms) + (if rc_doc c = d then 1 else 0)"
proof (cases "adjacentChunkIndex ms c")
  case None
  then show ?thesis by (simp add: merge_adjacent_step_def)
next
  case (Some k)
  then have k: "k < length ms" using adjacentChunkIndex_Some by blast
  have "map rc_doc (ms[k := join_chunk (ms ! k) c]) = map rc_doc ms"
    using k by (intro map_update_same) simp_all
  then have "filter (\<lambda>x. x = d) (map rc_doc (ms[k := join_chunk (ms ! k) c])) =
      filter (\<lambda>x. x = d) (map rc_doc ms)" by simp
  then have "length (filter (\<lambda>c. rc_doc c = d) (ms[k := join_chunk (ms ! k) c])) =
      length (filter (\<lambda>c. rc_doc c = d) ms)" by (simp add: filter_map comp_def) (metis length_map)
  with Some show ?thesis by (simp add: merge_adjacent_step_def)
qed

lemma mergeAdjacent_count:
  "length (filter (\<lambda>c. rc_doc c = d) (mergeAdjacentChunks cs)) \<le> length (filter (\<lambda>c. rc_doc c = d) cs)"
proof -
  have "length (filter (\<lambda>c. rc_doc c = d) (foldl merge_adjacent_step ms cs)) \<le>
      length (filter (\<lambda>c. rc_doc c = d) ms) + length (filter (\<lambda>c. rc_doc c = d) cs)" for ms
  proof (induction cs arbitrary: ms)
    case (Cons c cs)
    show ?case using merge_adjacent_step_count [of d ms c] Cons.IH [of "merge_adjacent_step ms c"]
      by (cases "rc_doc c = d") simp_all
  qed simp
  from this [of "[]"] show ?thesis by (simp add: mergeAdjacentChunks_def)
qed

lemma mergeAdjacent_length: "length (mergeAdjacentChunks cs) \<le> length cs"
proof -
  have "length (foldl merge_adjacent_step ms cs) \<le> length ms + length cs" for ms
  proof (induction cs arbitrary: ms)
    case (Cons c cs)
    have "length (merge_adjacent_step ms c) \<le> Suc (length ms)"
      by (simp add: merge_adjacent_step_def split: option.split)
    with Cons.IH [of "merge_adjacent_step ms c"] show ?case by simp
  qed simp
  from this [of "[]"] show ?thesis by (simp add: mergeAdjacentChunks_def)
qed

text \<open>Joining loses no text: the runes of every chunk that are not white space stay in a citation.\<close>

definition solid :: "gostr \<Rightarrow> gostr" where
  "solid s = filter (\<lambda>r. \<not> isSpace r) s"

lemma solid_append [simp]: "solid (a @ b) = solid a @ solid b"
  by (simp add: solid_def)

lemma solid_TrimSpace [simp]: "solid (TrimSpace s) = solid s"
  by (simp add: solid_def TrimSpace_keeps)

definition covers :: "retrieval_chunk list \<Rightarrow> gostr \<Rightarrow> bool" where
  "covers ms t \<longleftrightarrow> (\<exists>m \<in> set ms. \<exists>a b. solid (rc_content m) = a @ solid t @ b)"

lemma join_chunk_solid:
  "\<exists>a b. solid (rc_content (join_chunk m c)) = a @ solid (rc_content m) @ b"
  "\<exists>a b. solid (rc_content (join_chunk m c)) = a @ solid (rc_content c) @ b"
proof -
  have ten: "solid [10] = []" by (simp add: solid_def isSpace_def)
  have "solid (rc_content (join_chunk m c)) = solid (rc_content c) @ solid (rc_content m) @ [] \<or>
      solid (rc_content (join_chunk m c)) = [] @ solid (rc_content m) @ solid (rc_content c)"
    by (simp add: join_chunk_def Let_def ten solid_append [of _ "10 # _", simplified] del: append.simps)
  then show "\<exists>a b. solid (rc_content (join_chunk m c)) = a @ solid (rc_content m) @ b"
    and "\<exists>a b. solid (rc_content (join_chunk m c)) = a @ solid (rc_content c) @ b"
    by (metis append_Nil append_Nil2)+
qed

lemma merge_adjacent_step_covers:
  "covers ms t \<Longrightarrow> covers (merge_adjacent_step ms c) t"
  "covers (merge_adjacent_step ms c) (rc_content c)"
proof -
  have self: "covers xs (rc_content x)" if "x \<in> set xs" for x xs
    unfolding covers_def using that by (metis append_Nil append_Nil2)
  show "covers (merge_adjacent_step ms c) (rc_content c)"
  proof (cases "adjacentChunkIndex ms c")
    case None
    then show ?thesis by (auto simp: merge_adjacent_step_def intro: self)
  next
    case (Some k)
    then have "k < length ms" using adjacentChunkIndex_Some by blast
    then have "join_chunk (ms ! k) c \<in> set (merge_adjacent_step ms c)"
      using Some by (simp add: merge_adjacent_step_def set_update_memI)
    then show ?thesis unfolding covers_def using join_chunk_solid(2) by blast
  qed
  assume "covers ms t"
  then obtain m a b where m: "m \<in> set ms" "solid (rc_content m) = a @ solid t @ b"
    unfolding covers_def by blast
  show "covers (merge_adjacent_step ms c) t"
  proof (cases "adjacentChunkIndex ms c")
    case None
    with m show ?thesis by (auto simp: merge_adjacent_step_def covers_def)
  next
    case (Some k)
    then have k: "k < length ms" using adjacentChunkIndex_Some by blast
    obtain i where i: "i < length ms" "m = ms ! i" using m(1) by (metis in_set_conv_nth)
    show ?thesis
    proof (cases "i = k")
      case True
      have "join_chunk m c \<in> set (merge_adjacent_step ms c)"
        using Some k i True by (simp add: merge_adjacent_step_def set_update_memI)
      moreover obtain a' b' where "solid (rc_content (join_chunk m c)) = a' @ solid (rc_content m) @ b'"
        using join_chunk_solid(1) by blast
      ultimately show ?thesis unfolding covers_def using m(2) by (metis append.assoc)
    next
      case False
      with i k Some have "m \<in> set (merge_adjacent_step ms c)"
        by (simp add: merge_adjacent_step_def) (metis length_list_update nth_list_update_neq nth_mem)
      with m(2) show ?thesis unfolding covers_def by blast
    qed
  qed
qed

lemma mergeAdjacent_covers:
  assumes "c \<in> set cs"
  shows "covers (mergeAdjacentChunks cs) (rc_content c)"
proof -
  have keep: "covers ms t \<Longrightarrow> covers (foldl merge_adjacent_step ms cs) t" for ms t cs
    by (induction cs arbitrary: ms) (auto intro: merge_adjacent_step_covers(1))
  have "covers (foldl merge_adjacent_step ms cs) (rc_content c)" if "c \<in> set cs" for ms
    using that
  proof (induction cs arbitrary: ms)
    case (Cons x cs)
    then show ?case using keep [OF merge_adjacent_step_covers(2)] by auto
  qed simp
  with assms show ?thesis by (simp add: mergeAdjacentChunks_def)
qed

section \<open>Recall\<close>

lemma finite_normalizeIDSet [simp]: "finite (normalizeIDSet ids)"
  by (simp add: normalizeIDSet_def)

lemma recallAtK_bounds:
  assumes "recallAtK chunks docs ids = (expected, hits, recall)"
  shows "hits \<le> expected \<and> unit_score recall"
proof -
  let ?C = "normalizeIDSet ids" and ?D = "normalizeIDSet docs"
  let ?hc = "set (filter (\<lambda>i. i \<in> ?C) (map (\<lambda>c. lit (rc_id c)) chunks))"
  let ?hd = "set (filter (\<lambda>i. i \<in> ?D) (map (\<lambda>c. lit (rc_doc c)) chunks))"
  have "card ?hc \<le> card ?C" and "card ?hd \<le> card ?D" by (auto intro!: card_mono)
  then have le: "card ?hc + card ?hd \<le> card ?C + card ?D" by simp
  have "unit_score (fdiv (float_of_int (int (card ?hc + card ?hd))) (float_of_int (int (card ?C + card ?D))))"
    unfolding unit_score_def by (rule fdiv_unit [OF float_of_int_nonneg float_of_int_mono]) (use le in simp_all)
  with le assms show ?thesis
    by (auto simp: recallAtK_def Let_def unit_score_def split: if_splits)
qed

end
