(* ===== verification/VectorStore.thy ===== *)
theory VectorStore
  imports Services ApiTypes
begin

text \<open>
  \<open>internal/infrastructure/milvus/store.go\<close>: the client of the vector database. A call builds
  a request with a filter expression, posts it and decodes the answer; the server behind
  \<open>vs_post\<close> is a parameter.
\<close>

section \<open>Requests and answers\<close>

datatype json_value = JStr gostr | JNum float64 | JOther

type_synonym item = "string \<Rightarrow> json_value option"

text \<open>The fields of a collection, the primary key first, and its index.\<close>

datatype field_type = VarChar nat | Int64 | FloatVector int

record collection_schema =
  cs_fields :: "(string \<times> field_type) list"
  cs_metric :: string
  cs_index_type :: string
  cs_m :: nat
  cs_ef_construction :: nat

definition chunk_schema :: "int \<Rightarrow> collection_schema" where
  "chunk_schema dimension = \<lparr>
     cs_fields =
       [(''id'', VarChar 64), (''tenant_id'', VarChar 64), (''doc_id'', VarChar 64),
        (''subject_id'', VarChar 64), (''user_id'', VarChar 64), (''chunk_index'', Int64),
        (''page'', Int64), (''section'', VarChar 512), (''content'', VarChar 65535),
        (''document_version'', Int64), (''content_hash'', VarChar 64),
        (''embedding_model'', VarChar 256), (''chunk_strategy_version'', VarChar 64),
        (''vector'', FloatVector dimension)],
     cs_metric = ''COSINE'', cs_index_type = ''HNSW'', cs_m = 16, cs_ef_construction = 200\<rparr>"

datatype milvus_request =
    CollectionsList
  | CollectionsCreate gostr collection_schema
  | CollectionsLoad
  | EntitiesUpsert "(document_chunk \<times> vector) list"
  | EntitiesSearch gostr vector int
  | EntitiesQuery gostr int
  | EntitiesDelete gostr

datatype milvus_data = Names "gostr list" | Items "item list"

text \<open>
  The body of an answer: not decodable, or its code, message and data. Data that does not have
  the shape the request asks for is a \<open>JInvalid\<close> with the decoder's error.
\<close>

datatype milvus_reply = Undecodable gerr | Reply int gostr "milvus_data json"

record 'e milvus_store =
  vs_collection :: gostr
  vs_dimension :: int
  vs_post :: "milvus_request \<Rightarrow> 'e \<Rightarrow> (gerr + milvus_reply) \<times> 'e"

text \<open>\<open>None\<close>: the answer has no data, the result variable keeps its zero value.\<close>

definition doWithResponse ::
    "'e milvus_store \<Rightarrow> milvus_request \<Rightarrow> 'e \<Rightarrow> (gerr + milvus_data option) \<times> 'e" where
  "doWithResponse st payload e =
     (case vs_post st payload e of
        (Inl err, e') \<Rightarrow> (Inl err, e')
      | (Inr (Undecodable err), e') \<Rightarrow> (Inl err, e')
      | (Inr (Reply code message reply), e') \<Rightarrow>
          (if code \<noteq> 0 then (Inl (Plain message), e')
           else case reply of
               JEmpty \<Rightarrow> (Inr None, e')
             | JInvalid err \<Rightarrow> (Inl err, e')
             | JValue v \<Rightarrow> (Inr (Some v), e')))"

definition do_request :: "'e milvus_store \<Rightarrow> milvus_request \<Rightarrow> 'e \<Rightarrow> gerr option \<times> 'e" where
  "do_request st payload e =
     (case vs_post st payload e of
        (Inl err, e') \<Rightarrow> (Some err, e')
      | (Inr (Undecodable err), e') \<Rightarrow> (Some err, e')
      | (Inr (Reply code message reply), e') \<Rightarrow>
          (if code \<noteq> 0 then (Some (Plain message), e') else (None, e')))"

section \<open>Filters\<close>

definition quote :: gostr where
  "quote = [34]"

definition escapeFilterValue :: "gostr \<Rightarrow> gostr" where
  "escapeFilterValue v = ReplaceAll v quote [92, 34]"

definition quoted :: "gostr \<Rightarrow> gostr" where
  "quoted v = quote @ escapeFilterValue v @ quote"

definition search_filter :: "uid \<Rightarrow> uid \<Rightarrow> gostr \<Rightarrow> gostr" where
  "search_filter tenant subject embeddingModel =
     lit ''tenant_id == '' @ quoted (lit tenant) @ lit '' AND subject_id == '' @ quoted (lit subject) @
     lit '' AND embedding_model == '' @ quoted embeddingModel"

definition docs_filter :: "uid \<Rightarrow> gostr list \<Rightarrow> gostr" where
  "docs_filter user quoted_ids =
     lit ''user_id == '' @ quoted (lit user) @ lit '' AND doc_id in ['' @
     Join quoted_ids (lit '', '') @ lit '']''"

section \<open>Decoding items\<close>

text \<open>\<open>fmt.Sprintf("%.0f", v)\<close>: the nearest integer, ties to even, with its sign.\<close>

definition format_integral :: "float64 \<Rightarrow> string" where
  "format_integral v = (if v < 0 \<and> round_even v = 0 then ''-0'' else Itoa (round_even v))"

definition asString :: "json_value option \<Rightarrow> gostr" where
  "asString v = (case v of Some (JStr s) \<Rightarrow> s | Some (JNum x) \<Rightarrow> lit (format_integral x) | _ \<Rightarrow> [])"

text \<open>Conversion truncates towards zero.\<close>

definition asInt64 :: "json_value option \<Rightarrow> int" where
  "asInt64 v = (case v of Some (JNum x) \<Rightarrow> (if x < 0 then - \<lfloor>- x\<rfloor> else \<lfloor>x\<rfloor>) | _ \<Rightarrow> 0)"

definition asFloat64 :: "json_value option \<Rightarrow> float64" where
  "asFloat64 v = (case v of Some (JNum x) \<Rightarrow> x | _ \<Rightarrow> 0)"

text \<open>\<open>model.RetrievalChunk\<close>\<close>

record vector_hit =
  vh_id :: uid
  vh_evidence :: uid
  vh_tenant :: uid
  vh_doc :: uid
  vh_subject :: uid
  vh_user :: uid
  vh_index :: int
  vh_page :: int
  vh_section :: gostr
  vh_content :: gostr
  vh_doc_version :: int
  vh_content_hash :: string
  vh_score :: float64

definition item_hit :: "item \<Rightarrow> vector_hit" where
  "item_hit item = \<lparr>
     vh_id = text_id (asString (item ''id'')), vh_evidence = text_id (asString (item ''id'')),
     vh_tenant = text_id (asString (item ''tenant_id'')),
     vh_doc = text_id (asString (item ''doc_id'')),
     vh_subject = text_id (asString (item ''subject_id'')),
     vh_user = text_id (asString (item ''user_id'')),
     vh_index = asInt64 (item ''chunk_index''), vh_page = asInt64 (item ''page''),
     vh_section = asString (item ''section''), vh_content = asString (item ''content''),
     vh_doc_version = asInt64 (item ''document_version''),
     vh_content_hash = text_id (asString (item ''content_hash'')),
     vh_score = asFloat64 (item ''distance'')\<rparr>"

section \<open>Operations\<close>

text \<open>\<open>vectors[index]\<close> panics when there are fewer vectors than chunks.\<close>

definition index_panic :: gerr where
  "index_panic = Plain (lit ''runtime error: index out of range'')"

definition UpsertChunks ::
    "'e milvus_store \<Rightarrow> document_chunk list \<Rightarrow> vector list \<Rightarrow> 'e \<Rightarrow> gerr option \<times> 'e" where
  "UpsertChunks st chunks vectors e =
     (if length vectors < length chunks then (Some index_panic, e)
      else do_request st (EntitiesUpsert (zip chunks vectors)) e)"

definition milvus_Search ::
    "'e milvus_store \<Rightarrow> uid \<Rightarrow> uid \<Rightarrow> gostr \<Rightarrow> vector \<Rightarrow> int \<Rightarrow> 'e \<Rightarrow> (gerr + vector_hit list) \<times> 'e" where
  "milvus_Search st tenant subject embeddingModel v topK0 e =
     (let topK = (if topK0 \<le> 0 then 5 else topK0)
      in case doWithResponse st (EntitiesSearch (search_filter tenant subject embeddingModel) v topK) e of
           (Inl err, e') \<Rightarrow> (Inl err, e')
         | (Inr (Some (Items items)), e') \<Rightarrow> (Inr (map item_hit items), e')
         | (Inr _, e') \<Rightarrow> (Inr [], e'))"

definition deleteByFilter :: "'e milvus_store \<Rightarrow> gostr \<Rightarrow> 'e \<Rightarrow> gerr option \<times> 'e" where
  "deleteByFilter st filter_text = do_request st (EntitiesDelete filter_text)"

definition DeleteByDocIDs ::
    "'e milvus_store \<Rightarrow> uid \<Rightarrow> uid list \<Rightarrow> 'e \<Rightarrow> gerr option \<times> 'e" where
  "DeleteByDocIDs st user docIDs e =
     (let quoted_ids = map quoted (filter (\<lambda>i. i \<noteq> []) (map (\<lambda>i. TrimSpace (lit i)) docIDs))
      in if docIDs = [] then (None, e)
         else if quoted_ids = [] then (None, e)
         else deleteByFilter st (docs_filter user quoted_ids) e)"

definition HasDocVectors :: "'e milvus_store \<Rightarrow> uid \<Rightarrow> uid \<Rightarrow> 'e \<Rightarrow> (gerr + bool) \<times> 'e" where
  "HasDocVectors st user0 doc0 e =
     (let doc = trim_id doc0; user = trim_id user0
      in if doc = [] \<or> user = [] then (Inr False, e)
         else case doWithResponse st (EntitiesQuery (lit ''user_id == '' @ quoted (lit user) @
                     lit '' AND doc_id == '' @ quoted (lit doc)) 1) e of
             (Inl err, e') \<Rightarrow> (Inl err, e')
           | (Inr (Some (Items items)), e') \<Rightarrow> (Inr (length items > 0), e')
           | (Inr _, e') \<Rightarrow> (Inr False, e'))"

definition DeleteBySubject :: "'e milvus_store \<Rightarrow> uid \<Rightarrow> uid \<Rightarrow> 'e \<Rightarrow> gerr option \<times> 'e" where
  "DeleteBySubject st user subject0 e =
     (let subject = trim_id subject0
      in if subject = [] then (None, e)
         else deleteByFilter st (lit ''user_id == '' @ quoted (lit user) @
                lit '' AND subject_id == '' @ quoted (lit subject)) e)"

definition hasCollection :: "'e milvus_store \<Rightarrow> 'e \<Rightarrow> (gerr + bool) \<times> 'e" where
  "hasCollection st e =
     (case doWithResponse st CollectionsList e of
        (Inl err, e') \<Rightarrow> (Inl err, e')
      | (Inr (Some (Names names)), e') \<Rightarrow> (Inr (vs_collection st \<in> set names), e')
      | (Inr _, e') \<Rightarrow> (Inr False, e'))"

definition milvus_Ready :: "'e milvus_store \<Rightarrow> 'e \<Rightarrow> gerr option \<times> 'e" where
  "milvus_Ready st e =
     (case hasCollection st e of
        (Inl err, e') \<Rightarrow> (Some err, e')
      | (Inr False, e') \<Rightarrow>
          (Some (Plain (lit ''collection '' @ vs_collection st @ lit '' does not exist'')), e')
      | (Inr True, e') \<Rightarrow> (None, e'))"

definition ensureCollection :: "'e milvus_store \<Rightarrow> 'e \<Rightarrow> gerr option \<times> 'e" where
  "ensureCollection st e =
     (case hasCollection st e of
        (Inl err, e') \<Rightarrow> (Some err, e')
      | (Inr True, e') \<Rightarrow> do_request st CollectionsLoad e'
      | (Inr False, e') \<Rightarrow>
         (case do_request st (CollectionsCreate (vs_collection st) (chunk_schema (vs_dimension st))) e' of
            (Some err, e'') \<Rightarrow> (Some err, e'')
          | (None, e'') \<Rightarrow> do_request st CollectionsLoad e''))"

definition normalizeBaseURL :: "gostr \<Rightarrow> gostr" where
  "normalizeBaseURL address =
     (if HasPrefix address (lit ''http://'') \<or> HasPrefix address (lit ''https://'') then address
      else lit ''http://'' @ address)"

section \<open>Quoting\<close>

text \<open>
  What a filter expression denotes by a quoted literal: the text up to the closing quote, a
  backslash escaping the next rune; the rest of the expression comes after it.
\<close>

fun read_literal :: "gostr \<Rightarrow> (gostr \<times> gostr) option" where
  "read_literal [] = None"
| "read_literal (r # rest) =
     (if r = 34 then Some ([], rest)
      else if r = 92 then
        (case rest of [] \<Rightarrow> None
         | x # rest' \<Rightarrow> map_option (\<lambda>(t, more). (x # t, more)) (read_literal rest'))
      else map_option (\<lambda>(t, more). (r # t, more)) (read_literal rest))"

lemma Split_char_Cons:
  "Split (r # s) [q] = (if r = q then [] # Split s [q]
     else (r # hd (Split s [q])) # tl (Split s [q]))"
proof (cases "r = q")
  case True
  then show ?thesis by (subst Split.simps) (simp add: HasPrefix_def)
next
  case False
  show ?thesis
  proof (cases "Index s [q]")
    case None
    then have "Split s [q] = [s]" by (subst Split.simps) simp
    moreover have "Split (r # s) [q] = [r # s]"
      using None False by (subst Split.simps) (simp add: HasPrefix_def)
    ultimately show ?thesis using False by simp
  next
    case (Some i)
    then have "Split s [q] = take i s # Split (drop (i + 1) s) [q]" by (subst Split.simps) simp
    moreover have "Split (r # s) [q] = take (Suc i) (r # s) # Split (drop (i + 1) s) [q]"
      using Some False by (subst Split.simps) (simp add: HasPrefix_def)
    ultimately show ?thesis using False by simp
  qed
qed

lemma escape_Nil [simp]: "escapeFilterValue [] = []"
  by (simp add: escapeFilterValue_def ReplaceAll_def quote_def Split.simps)

lemma Join_Cons_head: "ss \<noteq> [] \<Longrightarrow> Join ((r # hd ss) # tl ss) sep = r # Join ss sep"
  by (cases ss; cases "tl ss") auto

lemma escape_Cons:
  "escapeFilterValue (r # s) = (if r = 34 then [92, 34] else [r]) @ escapeFilterValue s"
  by (simp add: escapeFilterValue_def ReplaceAll_def quote_def Split_char_Cons Join_Cons Join_Cons_head)

text \<open>A value without backslashes is read back as it is, and the literal ends where it should.\<close>

lemma read_escaped:
  "92 \<notin> set v \<Longrightarrow> read_literal (escapeFilterValue v @ quote @ rest) = Some (v, rest)"
  by (induction v) (auto simp: escape_Cons quote_def)

end
