(* ===== verification/Search.thy ===== *)
theory Search
  imports QueryPlan Citations VectorStore
begin

text \<open>
  \<open>internal/service/retrieval/search.go\<close>: one retrieval. It checks access to the knowledge
  base, plans and embeds the queries, searches the vector store and the keywords of the stored
  chunks, merges and ranks the candidates and trims them to citations. Traces and metrics of the
  process are left out; the metrics of the answer are modelled.
\<close>

record retrieval_conf =
  rt_top_k :: int
  rt_multiplier :: int
  rt_candidate_limit :: int
  rt_similarity :: float64
  rt_relative :: float64
  rt_max_citations :: int
  rt_per_document :: int
  rt_rerank :: bool
  rt_max_query_runes :: int
  rt_max_sub_queries :: int

record search_options =
  so_top_k :: int
  so_expected_docs :: "gostr list"
  so_expected_chunks :: "gostr list"
  so_expected_route :: gostr
  so_search_query :: gostr

text \<open>
  The surroundings of the service: the shared services, the vector store, the callback for the
  stages, and the order in which Go iterates over a map of hits.
\<close>

record 'e search_services =
  ss_base :: "'e services"
  ss_store :: "'e milvus_store"
  ss_conf :: retrieval_conf
  ss_evaluation :: evaluation_conf
  ss_model :: gostr
  ss_stage :: "string \<Rightarrow> 'e \<Rightarrow> gerr option \<times> 'e"
  ss_order :: "'e \<Rightarrow> vector_hit list \<Rightarrow> vector_hit list"

section \<open>Vector hits\<close>

text \<open>\<open>vectorMatches\<close> keeps the best hit of every chunk.\<close>

fun put_match :: "vector_hit list \<Rightarrow> vector_hit \<Rightarrow> vector_hit list" where
  "put_match [] h = [h]"
| "put_match (m # ms) h =
     (if vh_id m = vh_id h then (if vh_score h > vh_score m then h else m) # ms
      else m # put_match ms h)"

fun vector_search ::
    "'e search_services \<Rightarrow> uid \<Rightarrow> uid \<Rightarrow> int \<Rightarrow> vector list \<Rightarrow> vector_hit list \<Rightarrow> ('e, vector_hit list) act" where
  "vector_search ss tenant subject candidateTopK [] matches = return matches"
| "vector_search ss tenant subject candidateTopK (v # vectors) matches =
     attempt (query_ext (milvus_Search (ss_store ss) tenant subject (ss_model ss) v candidateTopK))
       (\<lambda>hits. vector_search ss tenant subject candidateTopK vectors (foldl put_match matches hits))"

definition iterate_map :: "'e search_services \<Rightarrow> vector_hit list \<Rightarrow> ('e, vector_hit list) act" where
  "iterate_map ss matches w = (Inr (ss_order ss (w_ext w) matches), w)"

definition hit_chunk :: "document \<Rightarrow> vector_hit \<Rightarrow> retrieval_chunk" where
  "hit_chunk doc h = \<lparr>rc_id = vh_id h, rc_evidence = vh_id h, rc_tenant = vh_tenant h,
     rc_doc = vh_doc h, rc_doc_name = doc_filename doc, rc_subject = vh_subject h,
     rc_user = vh_user h, rc_index = vh_index h, rc_page = vh_page h, rc_section = vh_section h,
     rc_content = vh_content h, rc_doc_version = vh_doc_version h,
     rc_content_hash = vh_content_hash h, rc_score = vh_score h, rc_raw_score = vh_score h,
     rc_source = ''vector''\<rparr>"

text \<open>
  The loop that looks up the document of each hit: a document that is gone drops the hit, any
  other error ends the search. It is shared by the two searches.
\<close>

fun with_documents ::
    "'e services \<Rightarrow> ('h \<Rightarrow> bool) \<Rightarrow> ('h \<Rightarrow> uid) \<Rightarrow> (document \<Rightarrow> 'h \<Rightarrow> retrieval_chunk) \<Rightarrow>
     'h list \<Rightarrow> retrieval_chunk list \<Rightarrow> ('e, retrieval_chunk list) act" where
  "with_documents sv skip doc_of build [] result w = (Inr result, w)"
| "with_documents sv skip doc_of build (h # hits) result w =
     (if skip h then with_documents sv skip doc_of build hits result w
      else case run_tx sv (\<lambda>_. doc_GetByID (doc_of h)) w of
          (Inl err, w') \<Rightarrow>
            (if errors_is err SqlNoRows then with_documents sv skip doc_of build hits result w'
             else (Inl err, w'))
        | (Inr doc, w') \<Rightarrow> with_documents sv skip doc_of build hits (result @ [build doc h]) w')"

section \<open>Keyword search\<close>

definition scored_chunk :: "document \<Rightarrow> document_chunk \<times> float64 \<Rightarrow> retrieval_chunk" where
  "scored_chunk doc item = (let (c, score) = item in
     \<lparr>rc_id = ch_id c, rc_evidence = ch_id c, rc_tenant = ch_tenant c,
      rc_doc = ch_doc c, rc_doc_name = doc_filename doc, rc_subject = ch_subject c,
      rc_user = ch_user c, rc_index = ch_index c, rc_page = ch_page c, rc_section = ch_section c,
      rc_content = ch_content c, rc_doc_version = ch_doc_version c,
      rc_content_hash = ch_content_hash c, rc_score = score, rc_raw_score = score,
      rc_source = ''keyword''\<rparr>)"

definition keyword_candidates ::
    "unicode_tables \<Rightarrow> gostr \<Rightarrow> int \<Rightarrow> document_chunk list \<Rightarrow> (document_chunk \<times> float64) list" where
  "keyword_candidates u query topK chunks =
     (let scored = sort_key (\<lambda>x. - snd x)
            (filter (\<lambda>x. snd x > 0) (map (\<lambda>c. (c, keywordScore u query c)) chunks))
      in if int (length scored) > topK then take (nat topK) scored else scored)"

definition keywordSearch ::
    "'e search_services \<Rightarrow> uid \<Rightarrow> uid \<Rightarrow> gostr \<Rightarrow> int \<Rightarrow> ('e, retrieval_chunk list) act" where
  "keywordSearch ss tenant subject query topK0 =
     (let topK = (if topK0 \<le> 0 then 5 else topK0)
      in attempt (run_tx (ss_base ss) (\<lambda>_. chunk_ListBySubject tenant subject))
           (\<lambda>chunks. with_documents (ss_base ss) (\<lambda>_. False) (\<lambda>x. ch_doc (fst x)) scored_chunk
              (keyword_candidates (sv_unicode (ss_base ss)) query topK chunks) []))"

section \<open>The search\<close>

definition notify :: "'e search_services \<Rightarrow> string \<Rightarrow> ('e, unit) act" where
  "notify ss stage = call_ext (ss_stage ss stage) []"

text \<open>\<open>candidateTopK *= multiplier\<close> is 64-bit arithmetic.\<close>

definition candidate_top_k :: "retrieval_conf \<Rightarrow> int \<Rightarrow> int" where
  "candidate_top_k conf finalTopK =
     go_min (if rt_rerank conf then wrap64 (finalTopK * normalizeMultiplier (rt_multiplier conf))
             else finalTopK)
       (normalizeCandidateLimit (rt_candidate_limit conf))"

definition citation_policy_of :: "retrieval_conf \<Rightarrow> int \<Rightarrow> citation_policy" where
  "citation_policy_of conf finalTopK =
     \<lparr>cp_limit = go_min finalTopK (normalizeMaxCitations (rt_max_citations conf)),
      cp_absolute = rt_similarity conf, cp_relative = rt_relative conf,
      cp_per_document = rt_per_document conf\<rparr>"

text \<open>From the two candidate lists to the citations, without the stage messages.\<close>

definition merge_candidates ::
    "retrieval_conf \<Rightarrow> int \<Rightarrow> retrieval_chunk list \<Rightarrow> retrieval_chunk list \<Rightarrow> retrieval_chunk list" where
  "merge_candidates conf candidateTopK keywords vectorChunks =
     limitCandidates (mergeChunks (normalizeScores keywords) (normalizeScores vectorChunks)) candidateTopK"

definition rank_candidates ::
    "'e search_services \<Rightarrow> gostr \<Rightarrow> retrieval_chunk list \<Rightarrow> ('e, retrieval_chunk list) act" where
  "rank_candidates ss query merged =
     (if rt_rerank (ss_conf ss) then
        attempt (notify ss ''retrieval.rerank.start'')
          (\<lambda>_. return (rerankChunks (sv_unicode (ss_base ss)) query merged))
      else attempt (notify ss ''retrieval.rerank.skipped'') (\<lambda>_. return merged))"

text \<open>The part of the search up to the candidates: vectors first, then keywords.\<close>

definition find_candidates ::
    "'e search_services \<Rightarrow> uid \<Rightarrow> uid \<Rightarrow> query_plan \<Rightarrow> int \<Rightarrow>
     ('e, retrieval_chunk list \<times> retrieval_chunk list) act" where
  "find_candidates ss tenant subject plan candidateTopK =
     (let conf = ss_conf ss; sv = ss_base ss in
      attempt (notify ss ''retrieval.embedding.start'') (\<lambda>_.
      attempt (query_ext (sv_embed sv tenant (qp_queries plan))) (\<lambda>vectors.
      if vectors = [] then fail (Plain (lit ''query embedding is empty''))
      else
      attempt (notify ss ''retrieval.vector.start'') (\<lambda>_.
      attempt (vector_search ss tenant subject candidateTopK vectors []) (\<lambda>matches.
      attempt (iterate_map ss matches) (\<lambda>hits.
      attempt (with_documents sv
          (\<lambda>h. rt_similarity conf > 0 \<and> vh_score h < rt_similarity conf) vh_doc hit_chunk hits [])
        (\<lambda>vectorChunks.
      attempt (notify ss ''retrieval.keyword.start'') (\<lambda>_.
      attempt (keywordSearch ss tenant subject (Join (qp_queries plan) space) candidateTopK)
        (\<lambda>keywords. return (vectorChunks, keywords))))))))))"

definition final_metrics ::
    "'e search_services \<Rightarrow> search_options \<Rightarrow> int \<Rightarrow> int \<Rightarrow> retrieval_metrics \<Rightarrow> retrieval_chunk list \<Rightarrow>
     retrieval_metrics" where
  "final_metrics ss options startedAt now metrics filtered =
     (let (expected, hits, recall) =
            recallAtK filtered (so_expected_docs options) (so_expected_chunks options);
          m = metrics\<lparr>rm_returned_count := length filtered, rm_latency_ms := now - startedAt,
                rm_expected_count := expected, rm_recall_hit_count := hits, rm_recall_at_k := recall\<rparr>
      in m\<lparr>rm_evaluation_passed := evaluateRetrieval m (so_expected_route options) (ss_evaluation ss)\<rparr>)"

definition start_metrics ::
    "'e search_services \<Rightarrow> search_options \<Rightarrow> gostr \<Rightarrow> int \<Rightarrow> retrieval_metrics" where
  "start_metrics ss options query finalTopK =
     (let u = sv_unicode (ss_base ss); route = TrimSpace (so_expected_route options)
      in zero_metrics\<lparr>rm_original_query := query, rm_search_query := query, rm_top_k := finalTopK,
           rm_reranked := rt_rerank (ss_conf ss), rm_route := ''rag'',
           rm_route_correct := (route = [] \<or> EqualFold u route (lit ''rag''))\<rparr>)"

text \<open>The query that is embedded, and the stage message that says where it comes from.\<close>

definition choose_query ::
    "'e search_services \<Rightarrow> search_options \<Rightarrow> gostr \<Rightarrow> retrieval_metrics \<Rightarrow>
     ('e, gostr \<times> retrieval_metrics) act" where
  "choose_query ss options query metrics =
     (let searchQuery = TrimSpace (so_search_query options)
      in if searchQuery \<noteq> [] then
           attempt (notify ss ''retrieval.query.ready'')
             (\<lambda>_. return (searchQuery, metrics\<lparr>rm_search_query := searchQuery,
                rm_query_rewritten := \<not> EqualFold (sv_unicode (ss_base ss)) searchQuery query\<rparr>))
         else attempt (notify ss ''retrieval.query.original'') (\<lambda>_. return (query, metrics)))"

text \<open>The stages of a search after the candidates, after the query, and after the access check.\<close>

definition search_answer ::
    "'e search_services \<Rightarrow> search_options \<Rightarrow> int \<Rightarrow> int \<Rightarrow> retrieval_metrics \<Rightarrow> retrieval_chunk list \<Rightarrow>
     ('e, retrieval_chunk list \<times> retrieval_metrics) act" where
  "search_answer ss options finalTopK startedAt metrics ranked w =
     (let filtered = trimEffectiveChunks (sv_unicode (ss_base ss)) ranked
            (citation_policy_of (ss_conf ss) finalTopK)
      in (Inr (filtered, final_metrics ss options startedAt (sv_now (ss_base ss) (w_ext w))
            metrics filtered), w))"

definition search_cite ::
    "'e search_services \<Rightarrow> search_options \<Rightarrow> int \<Rightarrow> int \<Rightarrow> retrieval_metrics \<Rightarrow> retrieval_chunk list \<Rightarrow>
     ('e, retrieval_chunk list \<times> retrieval_metrics) act" where
  "search_cite ss options finalTopK startedAt metrics ranked =
     attempt (notify ss ''retrieval.citations.trim'')
       (\<lambda>_. search_answer ss options finalTopK startedAt metrics ranked)"

definition search_rank ::
    "'e search_services \<Rightarrow> gostr \<Rightarrow> search_options \<Rightarrow> int \<Rightarrow> int \<Rightarrow> retrieval_metrics \<Rightarrow>
     retrieval_chunk list \<Rightarrow> ('e, retrieval_chunk list \<times> retrieval_metrics) act" where
  "search_rank ss query options finalTopK startedAt metrics merged =
     attempt (rank_candidates ss query merged)
       (search_cite ss options finalTopK startedAt (metrics\<lparr>rm_candidate_count := length merged\<rparr>))"

definition search_merge ::
    "'e search_services \<Rightarrow> gostr \<Rightarrow> search_options \<Rightarrow> int \<Rightarrow> int \<Rightarrow> retrieval_metrics \<Rightarrow>
     retrieval_chunk list \<times> retrieval_chunk list \<Rightarrow> ('e, retrieval_chunk list \<times> retrieval_metrics) act" where
  "search_merge ss query options finalTopK startedAt metrics candidates =
     attempt (notify ss ''retrieval.merge.start'')
       (\<lambda>_. search_rank ss query options finalTopK startedAt metrics
          (merge_candidates (ss_conf ss) (candidate_top_k (ss_conf ss) finalTopK)
             (snd candidates) (fst candidates)))"

definition search_planned ::
    "'e search_services \<Rightarrow> uid \<Rightarrow> uid \<Rightarrow> gostr \<Rightarrow> search_options \<Rightarrow> int \<Rightarrow> int \<Rightarrow>
     gostr \<times> retrieval_metrics \<Rightarrow> ('e, retrieval_chunk list \<times> retrieval_metrics) act" where
  "search_planned ss tenant subject query options finalTopK startedAt chosen =
     (let (searchQuery, metrics) = chosen; conf = ss_conf ss;
          plan = buildQueryPlan (sv_unicode (ss_base ss)) query searchQuery (rt_max_query_runes conf)
                   (rt_max_sub_queries conf)
      in attempt (if length (qp_queries plan) > 1 then notify ss ''retrieval.query.split'' else return ())
           (\<lambda>_. attempt (find_candidates ss tenant subject plan (candidate_top_k conf finalTopK))
               (search_merge ss query options finalTopK startedAt
                  (metrics\<lparr>rm_sub_query_count := length (qp_queries plan)\<rparr>))))"

definition search_accessible ::
    "'e search_services \<Rightarrow> uid \<Rightarrow> uid \<Rightarrow> gostr \<Rightarrow> search_options \<Rightarrow> int \<Rightarrow> int \<Rightarrow> bool \<Rightarrow>
     ('e, retrieval_chunk list \<times> retrieval_metrics) act" where
  "search_accessible ss tenant subject query options finalTopK startedAt exists =
     (if \<not> exists then fail (Plain (lit ''knowledge base not found''))
      else attempt (choose_query ss options query (start_metrics ss options query finalTopK))
             (search_planned ss tenant subject query options finalTopK startedAt))"

definition SearchWithOptions ::
    "'e search_services \<Rightarrow> uid \<Rightarrow> uid \<Rightarrow> uid \<Rightarrow> gostr \<Rightarrow> search_options \<Rightarrow>
     ('e, retrieval_chunk list \<times> retrieval_metrics) act" where
  "SearchWithOptions ss tenant user subject0 query0 options w =
     (let sv = ss_base ss; subject = trim_id subject0; query = TrimSpace query0;
          startedAt = sv_now sv (w_ext w);
          finalTopK = normalizeTopK (so_top_k options) (rt_top_k (ss_conf ss))
      in if subject = [] \<or> query = [] then
           fail (Plain (lit ''subject_id and query are required'')) w
         else attempt (run_tx sv (\<lambda>_. ExistsAccessible subject user tenant))
                (search_accessible ss tenant subject query options finalTopK startedAt) w)"

definition Search_top ::
    "'e search_services \<Rightarrow> uid \<Rightarrow> uid \<Rightarrow> uid \<Rightarrow> gostr \<Rightarrow> int \<Rightarrow> ('e, retrieval_chunk list) act" where
  "Search_top ss tenant user subject query topK =
     attempt (SearchWithOptions ss tenant user subject query
        \<lparr>so_top_k = topK, so_expected_docs = [], so_expected_chunks = [], so_expected_route = [],
         so_search_query = []\<rparr>) (\<lambda>(chunks, _). return chunks)"

end
