(* ===== verification/SearchSteps.thy ===== *)
theory SearchSteps
  imports Search
begin

text \<open>
  What a search reads while other processes commit transactions, and what its stages keep of
  the candidates: every chunk of the answer comes from the vector store or from the stored
  chunks of the knowledge base, through a document that was not deleted when it was read.
\<close>

section \<open>The predicates\<close>

definition visible_doc :: "uid \<Rightarrow> db \<Rightarrow> bool" where
  "visible_doc i d \<longleftrightarrow> (\<exists>r \<in> set (documents d). doc_id r = i \<and> live_doc r)"

text \<open>At some time during the run, in a database reached from its start.\<close>

definition seen :: "'e services \<Rightarrow> 'e world \<Rightarrow> (db \<Rightarrow> bool) \<Rightarrow> bool" where
  "seen sv w P \<longleftrightarrow> (\<exists>d. tx_reach sv (w_db w) d \<and> P d)"

text \<open>
  What the code relies on from the vector store: it applies the filter of a search, for
  identifiers without a backslash, which a literal of the filter language would read as an
  escape. And a map is iterated over its own entries.
\<close>

definition plain_id :: "uid \<Rightarrow> bool" where
  "plain_id i \<longleftrightarrow> 92 \<notin> set (lit i)"

definition filters_apply :: "'e search_services \<Rightarrow> bool" where
  "filters_apply ss \<longleftrightarrow> (\<forall>tenant subject v k e code msg items e'.
     plain_id tenant \<longrightarrow> plain_id subject \<longrightarrow>
     vs_post (ss_store ss) (EntitiesSearch (search_filter tenant subject (ss_model ss)) v k) e =
       (Inr (Reply code msg (JValue (Items items))), e') \<longrightarrow>
     (\<forall>x \<in> set items. asString (x ''tenant_id'') = lit tenant \<and> asString (x ''subject_id'') = lit subject))"

definition map_order :: "'e search_services \<Rightarrow> bool" where
  "map_order ss \<longleftrightarrow> (\<forall>e ms. set (ss_order ss e ms) = set ms)"

section \<open>Calls that do not touch the database\<close>

lemma notify_frame [simp]: "w_db (snd (notify ss stage w)) = w_db w"
  by (simp add: notify_def)

lemma notify_db: "notify ss stage w = (r, w') \<Longrightarrow> w_db w' = w_db w"
  by (metis notify_frame snd_conv)

lemma query_db: "query_ext f w = (r, w') \<Longrightarrow> w_db w' = w_db w"
  by (metis query_ext_frame(1) snd_conv)

lemma time_now_same [simp]: "time_now sv w = (Inr t, w') \<longleftrightarrow> t = sv_now sv (w_ext w) \<and> w' = w"
  by (auto simp: time_now_def)

lemma read_seen:
  assumes "disciplined sv" and "run_tx sv q w = (Inr a, w')" and "\<And>now d. snd (q now d) = d"
  obtains now where "q now (w_db w') = (Inr a, w_db w')" and "tx_reach sv (w_db w) (w_db w')"
proof -
  from assms(2) obtain now e d where pg: "sv_pg sv (w_ext w) (w_db w) = (Executed, e, d)"
    and q: "q now d = (Inr a, w_db w')" by (rule run_tx_Inr)
  from q assms(3) [of now d] have "d = w_db w'" by simp
  moreover from pg assms(1) have "tx_reach sv (w_db w) d" by (auto simp: disciplined_def tx_reach_def)
  ultimately show thesis using that q by blast
qed

lemma doc_GetByID_read [simp]: "snd (doc_GetByID i d) = d"
  by (simp add: doc_GetByID_def split: option.split)

lemma doc_GetByID_visible: "doc_GetByID i d = (Inr doc, d') \<Longrightarrow> visible_doc i d"
  by (auto simp: doc_GetByID_def visible_doc_def split: option.splits dest!: tbl_first_Some)

lemma run_tx_read_reach:
  assumes "disciplined sv" and "\<And>now d. snd (q now d) = d"
  shows "tx_reach sv (w_db w) (w_db (snd (run_tx sv q w)))"
  by (rule run_tx_reach [OF assms(1)]) (simp add: assms(2))

section \<open>Documents of hits\<close>

lemma with_documents_sound:
  assumes "disciplined sv" and "with_documents sv skip doc_of build hits result w = (Inr out, w')"
  shows "tx_reach sv (w_db w) (w_db w') \<and>
    (\<forall>x \<in> set out. x \<in> set result \<or>
       (\<exists>h \<in> set hits. \<exists>doc. x = build doc h \<and> seen sv w (visible_doc (doc_of h))))"
  using assms(2)
proof (induction hits arbitrary: result w)
  case (Cons h hits)
  show ?case
  proof (cases "skip h")
    case True
    with Cons show ?thesis by fastforce
  next
    case False
    obtain r w1 where tx: "run_tx sv (\<lambda>_. doc_GetByID (doc_of h)) w = (r, w1)" by fastforce
    have first: "tx_reach sv (w_db w) (w_db w1)"
      using run_tx_read_reach [OF assms(1), of "\<lambda>_. doc_GetByID (doc_of h)" w] tx by simp
    have lift: "seen sv w1 P \<Longrightarrow> seen sv w P" for P
      using first tx_reach_trans unfolding seen_def by blast
    show ?thesis
    proof (cases r)
      case (Inl err)
      with False tx Cons.prems have "with_documents sv skip doc_of build hits result w1 = (Inr out, w')"
        by (auto split: if_splits)
      from Cons.IH [OF this] first lift show ?thesis by (fastforce intro: tx_reach_trans)
    next
      case (Inr doc)
      with tx have "run_tx sv (\<lambda>_. doc_GetByID (doc_of h)) w = (Inr doc, w1)" by simp
      then have "visible_doc (doc_of h) (w_db w1)"
        using read_seen [OF assms(1)] doc_GetByID_visible doc_GetByID_read by metis
      with first have here: "seen sv w (visible_doc (doc_of h))" unfolding seen_def by blast
      from False tx Inr Cons.prems
      have "with_documents sv skip doc_of build hits (result @ [build doc h]) w1 = (Inr out, w')" by simp
      from Cons.IH [OF this] first lift here show ?thesis by (fastforce intro: tx_reach_trans)
    qed
  qed
qed simp

section \<open>The two searches\<close>

definition hit_in :: "uid \<Rightarrow> uid \<Rightarrow> vector_hit \<Rightarrow> bool" where
  "hit_in tenant subject h \<longleftrightarrow> vh_tenant h = tenant \<and> vh_subject h = subject"

lemma put_match_all: "P h \<Longrightarrow> \<forall>m \<in> set ms. P m \<Longrightarrow> \<forall>m \<in> set (put_match ms h). P m"
  by (induction ms h rule: put_match.induct) auto

lemma foldl_put_match_all:
  "\<forall>h \<in> set hs. P h \<Longrightarrow> \<forall>m \<in> set ms. P m \<Longrightarrow> \<forall>m \<in> set (foldl put_match ms hs). P m"
proof (induction hs arbitrary: ms)
  case (Cons h hs)
  have "\<forall>m \<in> set (put_match ms h). P m" by (rule put_match_all) (use Cons.prems in auto)
  with Cons.IH [of "put_match ms h"] Cons.prems(1) show ?case by simp
qed simp

lemma milvus_Search_in:
  assumes "filters_apply ss" and "plain_id tenant" and "plain_id subject"
    and "milvus_Search (ss_store ss) tenant subject (ss_model ss) v k e = (Inr hits, e')"
  shows "\<forall>h \<in> set hits. hit_in tenant subject h"
proof -
  obtain k' where r: "(case doWithResponse (ss_store ss)
      (EntitiesSearch (search_filter tenant subject (ss_model ss)) v k') e of
        (Inl err, e') \<Rightarrow> (Inl err, e')
      | (Inr (Some (Items items)), e') \<Rightarrow> (Inr (map item_hit items), e')
      | (Inr _, e') \<Rightarrow> (Inr [], e')) = (Inr hits, e')"
    using assms(4) by (auto simp: milvus_Search_def Let_def)
  then have "hits = [] \<or> (\<exists>items code msg e1. hits = map item_hit items \<and>
      vs_post (ss_store ss) (EntitiesSearch (search_filter tenant subject (ss_model ss)) v k') e =
        (Inr (Reply code msg (JValue (Items items))), e1))"
    by (auto simp: doWithResponse_def split: prod.splits sum.splits milvus_reply.splits if_splits
        json.splits option.splits milvus_data.splits)
  then show ?thesis
  proof (elim disjE exE conjE)
    fix items code msg e1
    assume h: "hits = map item_hit items"
      and post: "vs_post (ss_store ss) (EntitiesSearch (search_filter tenant subject (ss_model ss)) v k') e =
        (Inr (Reply code msg (JValue (Items items))), e1)"
    have "asString (x ''tenant_id'') = lit tenant \<and> asString (x ''subject_id'') = lit subject"
      if "x \<in> set items" for x
      using assms(1-3) post that unfolding filters_apply_def by blast
    then show ?thesis by (auto simp: h hit_in_def item_hit_def)
  qed simp
qed

lemma vector_search_in:
  assumes "filters_apply ss" and "plain_id tenant" and "plain_id subject"
    and "\<forall>m \<in> set ms. hit_in tenant subject m"
    and "vector_search ss tenant subject k vs ms w = (Inr hits, w')"
  shows "w_db w' = w_db w \<and> (\<forall>h \<in> set hits. hit_in tenant subject h)"
  using assms(4,5)
proof (induction vs arbitrary: ms w)
  case Nil
  then show ?case by simp
next
  case (Cons v vs)
  from Cons.prems(2) obtain new w1
    where q: "query_ext (milvus_Search (ss_store ss) tenant subject (ss_model ss) v k) w = (Inr new, w1)"
      and rest: "vector_search ss tenant subject k vs (foldl put_match ms new) w1 = (Inr hits, w')"
    by (auto elim: attempt_Inr)
  have "milvus_Search (ss_store ss) tenant subject (ss_model ss) v k (w_ext w) = (Inr new, w_ext w1)"
    using q by (auto simp: query_ext_def prod_eq_iff)
  from milvus_Search_in [OF assms(1-3) this]
  have "\<forall>m \<in> set (foldl put_match ms new). hit_in tenant subject m"
    using Cons.prems(1) by (rule foldl_put_match_all)
  from Cons.IH [OF this rest] query_db [OF q] show ?case by simp
qed

text \<open>A chunk of the answer belongs to the knowledge base, and its document was there.\<close>

definition chunk_in :: "'e services \<Rightarrow> 'e world \<Rightarrow> uid \<Rightarrow> uid \<Rightarrow> retrieval_chunk \<Rightarrow> bool" where
  "chunk_in sv w tenant subject c \<longleftrightarrow>
     rc_tenant c = tenant \<and> rc_subject c = subject \<and> seen sv w (visible_doc (rc_doc c))"

lemma seen_later: "tx_reach sv (w_db w) (w_db w1) \<Longrightarrow> seen sv w1 P \<Longrightarrow> seen sv w P"
  unfolding seen_def using tx_reach_trans by blast

lemma keywordSearch_in:
  assumes "disciplined sv" and "ss_base ss = sv"
    and "keywordSearch ss tenant subject query k w = (Inr out, w')"
  shows "\<forall>c \<in> set out. chunk_in sv w tenant subject c"
proof -
  let ?read = "\<lambda>_ :: int. chunk_ListBySubject tenant subject"
  have pure: "snd (?read now d) = d" for now d by (simp add: chunk_ListBySubject_def)
  from assms(3) obtain chunks w1 k'
    where tx: "run_tx sv ?read w = (Inr chunks, w1)"
      and rest: "with_documents sv (\<lambda>_. False) (\<lambda>x. ch_doc (fst x)) scored_chunk
        (keyword_candidates (sv_unicode sv) query k' chunks) [] w1 = (Inr out, w')"
    by (auto simp: keywordSearch_def Let_def assms(2) elim!: attempt_Inr)
  from read_seen [OF assms(1) tx pure] obtain now
    where r: "?read now (w_db w1) = (Inr chunks, w_db w1)" and reach: "tx_reach sv (w_db w) (w_db w1)" .
  from r have "\<forall>c \<in> set chunks. ch_tenant c = tenant \<and> ch_subject c = subject"
    by (auto simp: chunk_ListBySubject_def scan_chunk_def document_chunk.truncate_def)
  then have cand: "\<forall>x \<in> set (keyword_candidates (sv_unicode sv) query k' chunks).
      ch_tenant (fst x) = tenant \<and> ch_subject (fst x) = subject"
    by (auto simp: keyword_candidates_def Let_def dest!: in_set_takeD)
  show ?thesis
  proof
    fix c assume "c \<in> set out"
    with with_documents_sound [OF assms(1) rest] obtain x doc
      where x: "x \<in> set (keyword_candidates (sv_unicode sv) query k' chunks)" "c = scored_chunk doc x"
        "seen sv w1 (visible_doc (ch_doc (fst x)))" by auto
    from seen_later [OF reach x(3)] cand x(1,2)
    show "chunk_in sv w tenant subject c" by (auto simp: chunk_in_def scored_chunk_def split: prod.splits)
  qed
qed

lemma find_candidates_in:
  assumes "disciplined sv" and "ss_base ss = sv" and "filters_apply ss" and "map_order ss"
    and "plain_id tenant" and "plain_id subject" and "find_candidates ss tenant subject plan k w = (Inr (vectorChunks, keywords), w')"
  shows "\<forall>c \<in> set vectorChunks \<union> set keywords. chunk_in sv w tenant subject c"
proof -
  from assms(7) obtain w1 vectors w2 w3 matches w4 hits w5 w6 w7
    where n1: "notify ss ''retrieval.embedding.start'' w = (Inr (), w1)"
      and em: "query_ext (sv_embed sv tenant (qp_queries plan)) w1 = (Inr vectors, w2)"
      and n2: "notify ss ''retrieval.vector.start'' w2 = (Inr (), w3)"
      and vs: "vector_search ss tenant subject k vectors [] w3 = (Inr matches, w4)"
      and it: "iterate_map ss matches w4 = (Inr hits, w5)"
      and wd: "with_documents sv (\<lambda>h. rt_similarity (ss_conf ss) > 0 \<and>
          vh_score h < rt_similarity (ss_conf ss)) vh_doc hit_chunk hits [] w5 = (Inr vectorChunks, w6)"
      and n3: "notify ss ''retrieval.keyword.start'' w6 = (Inr (), w7)"
      and ks: "keywordSearch ss tenant subject (Join (qp_queries plan) space) k w7 = (Inr keywords, w')"
    by (auto simp: find_candidates_def Let_def assms(2) split: if_splits elim!: attempt_Inr)
  have m: "w_db w4 = w_db w3" "\<forall>h \<in> set matches. hit_in tenant subject h"
    using vector_search_in [OF assms(3,5,6) _ vs] by auto
  from it have w5: "w5 = w4" and hits: "set hits = set matches"
    using assms(4) by (auto simp: iterate_map_def map_order_def)
  have same: "w_db w5 = w_db w"
    using notify_db [OF n1] query_db [OF em] notify_db [OF n2] m(1) w5 by simp
  note found = with_documents_sound [OF assms(1) wd]
  have reach: "tx_reach sv (w_db w) (w_db w7)" using found same notify_db [OF n3] by simp
  have "chunk_in sv w tenant subject c" if "c \<in> set vectorChunks" for c
  proof -
    from found that obtain h doc where h: "h \<in> set hits" "c = hit_chunk doc h"
      "seen sv w5 (visible_doc (vh_doc h))" by auto
    from h(3) have "seen sv w (visible_doc (vh_doc h))" by (simp add: seen_def same)
    with h(1,2) hits m(2) show ?thesis by (auto simp: chunk_in_def hit_chunk_def hit_in_def)
  qed
  moreover have "chunk_in sv w tenant subject c" if "c \<in> set keywords" for c
    using keywordSearch_in [OF assms(1,2) ks] that seen_later [OF reach]
    by (auto simp: chunk_in_def)
  ultimately show ?thesis by blast
qed

section \<open>Ranking keeps what holds of single chunks\<close>

text \<open>
  A predicate that does not read the fields which ranking and joining rewrite: scores, the
  source, and the text and position of joined neighbours.
\<close>

definition score_free :: "(retrieval_chunk \<Rightarrow> bool) \<Rightarrow> bool" where
  "score_free P \<longleftrightarrow> (\<forall>c score raw source content index. P c \<longrightarrow>
     P (c\<lparr>rc_score := score, rc_raw_score := raw, rc_source := source, rc_content := content,
          rc_index := index\<rparr>))"

lemma score_freeD: "score_free P \<Longrightarrow> P c \<Longrightarrow>
    P (c\<lparr>rc_score := score, rc_raw_score := raw, rc_source := source, rc_content := content,
         rc_index := index\<rparr>)"
  by (simp add: score_free_def)

lemma score_free_score: "score_free P \<Longrightarrow> P c \<Longrightarrow> P (c\<lparr>rc_score := score\<rparr>)"
  using score_freeD [where score = score and raw = "rc_raw_score c" and source = "rc_source c"
      and content = "rc_content c" and index = "rc_index c"] by fastforce

lemma score_free_hybrid: "score_free P \<Longrightarrow> P c \<Longrightarrow>
    P (c\<lparr>rc_score := score, rc_raw_score := raw, rc_source := source\<rparr>)"
  using score_freeD [where score = score and raw = raw and source = source
      and content = "rc_content c" and index = "rc_index c"] by fastforce

lemma score_free_join: "score_free P \<Longrightarrow> P m \<Longrightarrow> P (join_chunk m c)"
proof -
  assume P: "score_free P" "P m"
  have "join_chunk m c = m\<lparr>rc_score := rc_score (join_chunk m c), rc_raw_score := rc_raw_score m,
      rc_source := rc_source m, rc_content := rc_content (join_chunk m c),
      rc_index := rc_index (join_chunk m c)\<rparr>"
    by (simp add: join_chunk_def Let_def)
  with score_freeD [OF P] show ?thesis by metis
qed

lemma chunk_in_free: "score_free (chunk_in sv w tenant subject)"
  by (simp add: score_free_def chunk_in_def)

lemma merge_candidates_all:
  assumes "score_free P" and "\<forall>c \<in> set vectorChunks \<union> set keywords. P c"
    and "c \<in> set (merge_candidates conf k keywords vectorChunks)"
  shows "P c"
proof (rule mergeChunks_all [of "normalizeScores keywords" "normalizeScores vectorChunks"])
  show "c \<in> set (mergeChunks (normalizeScores keywords) (normalizeScores vectorChunks))"
    using assms(3) limitCandidates_set unfolding merge_candidates_def by blast
  show "P x" if "x \<in> set (normalizeScores keywords) \<union> set (normalizeScores vectorChunks)" for x
    using that assms(2) score_free_score [OF assms(1)]
    by (fastforce elim!: normalizeScores_score)
qed (simp add: score_free_hybrid [OF assms(1)])

lemma rank_candidates_all:
  assumes "score_free P" and "\<forall>c \<in> set merged. P c" and "rank_candidates ss query merged w = (Inr ranked, w')"
    and "c \<in> set ranked"
  shows "P c"
  using assms(3,4) rerankChunks_all [of P merged c] assms(2) score_free_score [OF assms(1)]
  by (auto simp: rank_candidates_def split: if_splits elim!: attempt_Inr)

lemma trimEffectiveChunks_all:
  assumes "score_free P" and "\<forall>c \<in> set cs. P c" and "c \<in> set (trimEffectiveChunks u cs p)"
  shows "P c"
proof (cases "cs = []")
  case False
  let ?ms = "max (cp_absolute (normalizeCitationPolicy p))
    (fmul (rc_score (hd (sort_key rank_of cs))) (cp_relative (normalizeCitationPolicy p)))"
  from False assms(3) have "c \<in> set (mergeAdjacentChunks
      (filter_loop u (normalizeCitationPolicy p) ?ms {} (\<lambda>_. 0) [] (sort_key rank_of cs)))"
    by (simp add: trimEffectiveChunks_def Let_def)
  then show ?thesis
  proof (rule mergeAdjacent_all [rotated -1])
    fix x assume "x \<in> set (filter_loop u (normalizeCitationPolicy p) ?ms {} (\<lambda>_. 0) [] (sort_key rank_of cs))"
    then have "x \<in> set cs" using filter_loop_subset by fastforce
    with assms(2) show "P x" by simp
  qed (rule score_free_join [OF assms(1)])
qed (use assms in \<open>simp add: trimEffectiveChunks_def\<close>)

section \<open>The whole search\<close>

text \<open>The steps of a search that returned.\<close>

lemma SearchWithOptions_steps:
  assumes "SearchWithOptions ss tenant user subject0 query0 options w = (Inr (filtered, metrics), w')"
  obtains subject query w1 sq m0 w2 plan w3 vectorChunks kw w4 w5 ranked w6 t1 t2 where
    "subject = trim_id subject0" and "query = TrimSpace query0" and "subject \<noteq> []" and "query \<noteq> []"
    and "run_tx (ss_base ss) (\<lambda>_. ExistsAccessible subject user tenant) w = (Inr True, w1)"
    and "choose_query ss options query (start_metrics ss options query
           (normalizeTopK (so_top_k options) (rt_top_k (ss_conf ss)))) w1 = (Inr (sq, m0), w2)"
    and "plan = buildQueryPlan (sv_unicode (ss_base ss)) query sq (rt_max_query_runes (ss_conf ss))
           (rt_max_sub_queries (ss_conf ss))"
    and "w_db w3 = w_db w2"
    and "find_candidates ss tenant subject plan (candidate_top_k (ss_conf ss)
           (normalizeTopK (so_top_k options) (rt_top_k (ss_conf ss)))) w3 = (Inr (vectorChunks, kw), w4)"
    and "rank_candidates ss query (merge_candidates (ss_conf ss) (candidate_top_k (ss_conf ss)
           (normalizeTopK (so_top_k options) (rt_top_k (ss_conf ss)))) kw vectorChunks) w5 =
           (Inr ranked, w6)"
    and "filtered = trimEffectiveChunks (sv_unicode (ss_base ss)) ranked (citation_policy_of (ss_conf ss)
           (normalizeTopK (so_top_k options) (rt_top_k (ss_conf ss))))"
    and "metrics = final_metrics ss options t1 t2
           (m0\<lparr>rm_sub_query_count := length (qp_queries plan),
               rm_candidate_count := length (merge_candidates (ss_conf ss) (candidate_top_k (ss_conf ss)
           (normalizeTopK (so_top_k options) (rt_top_k (ss_conf ss)))) kw vectorChunks)\<rparr>) filtered"
proof -
  let ?sv = "ss_base ss" and ?conf = "ss_conf ss" and ?s = "trim_id subject0" and ?q = "TrimSpace query0"
  let ?n = "normalizeTopK (so_top_k options) (rt_top_k ?conf)"
  let ?k = "candidate_top_k ?conf ?n"
  from assms have ne: "?s \<noteq> []" "?q \<noteq> []"
    by (auto simp: SearchWithOptions_def Let_def split: if_splits)
  from assms ne obtain w1 sq m0 w2 w3 vc kw w4 w5 ranked w6 w7 t2 where
      a: "run_tx ?sv (\<lambda>_. ExistsAccessible ?s user tenant) w = (Inr True, w1)"
    and b: "choose_query ss options ?q (start_metrics ss options ?q ?n) w1 = (Inr (sq, m0), w2)"
    and c: "(if length (qp_queries (buildQueryPlan (sv_unicode ?sv) ?q sq (rt_max_query_runes ?conf)
           (rt_max_sub_queries ?conf))) > 1 then notify ss ''retrieval.query.split'' else return ()) w2 =
           (Inr (), w3)"
    and d: "find_candidates ss tenant ?s (buildQueryPlan (sv_unicode ?sv) ?q sq (rt_max_query_runes ?conf)
           (rt_max_sub_queries ?conf)) ?k w3 = (Inr (vc, kw), w4)"
    and e: "rank_candidates ss ?q (merge_candidates ?conf ?k kw vc) w5 = (Inr ranked, w6)"
    and f: "filtered = trimEffectiveChunks (sv_unicode ?sv) ranked (citation_policy_of ?conf ?n)"
    and g: "metrics = final_metrics ss options (sv_now ?sv (w_ext w)) t2
           (m0\<lparr>rm_sub_query_count := length (qp_queries (buildQueryPlan (sv_unicode ?sv) ?q sq
              (rt_max_query_runes ?conf) (rt_max_sub_queries ?conf))),
               rm_candidate_count := length (merge_candidates ?conf ?k kw vc)\<rparr>) filtered"
    by (auto simp: SearchWithOptions_def search_accessible_def search_planned_def search_merge_def
        search_rank_def search_cite_def search_answer_def Let_def elim!: attempt_Inr split: if_splits prod.splits sum.splits)
  from c have "w_db w3 = w_db w2" by (auto split: if_splits dest: notify_db)
  from that [OF refl refl ne a b refl this d e f g] show thesis .
qed

section \<open>Scores and limits of the answer\<close>

lemma merge_candidates_unit: "c \<in> set (merge_candidates conf k kws vcs) \<Longrightarrow> unit_score (rc_score c)"
proof (rule mergeChunks_all [where P = "\<lambda>c. unit_score (rc_score c)"
    and a = "normalizeScores kws" and b = "normalizeScores vcs"])
  assume "c \<in> set (merge_candidates conf k kws vcs)"
  then show "c \<in> set (mergeChunks (normalizeScores kws) (normalizeScores vcs))"
    using limitCandidates_set unfolding merge_candidates_def by blast
qed (auto intro: normalizeScores_unit)

lemma rank_candidates_unit:
  assumes "\<forall>c \<in> set merged. unit_score (rc_score c)"
    and "rank_candidates ss query merged w = (Inr ranked, w')"
  shows "\<forall>c \<in> set ranked. unit_score (rc_score c)"
  using assms rerankChunks_unit
  by (auto simp: rank_candidates_def split: if_splits elim!: attempt_Inr)

text \<open>The limits of the citations, for any list of candidates.\<close>

lemma trimEffectiveChunks_limits:
  fixes p :: citation_policy
  defines "p' \<equiv> normalizeCitationPolicy p"
  shows "int (length (trimEffectiveChunks u cs p)) \<le> cp_limit p'"
    and "int (length (filter (\<lambda>c. rc_doc c = d) (trimEffectiveChunks u cs p))) \<le> cp_per_document p'"
    and "c \<in> set (trimEffectiveChunks u cs p) \<Longrightarrow> cp_absolute p' \<le> rc_score c"
    and "\<forall>c \<in> set cs. unit_score (rc_score c) \<Longrightarrow> c \<in> set (trimEffectiveChunks u cs p) \<Longrightarrow>
      unit_score (rc_score c)"
proof -
  let ?ms = "max (cp_absolute p') (fmul (rc_score (hd (sort_key rank_of cs))) (cp_relative p'))"
  let ?kept = "filter_loop u p' ?ms {} (\<lambda>_. 0) [] (sort_key rank_of cs)"
  have r: "trimEffectiveChunks u cs p = mergeAdjacentChunks ?kept" if "cs \<noteq> []"
    using that by (simp add: trimEffectiveChunks_def p'_def Let_def)
  have pos: "0 < cp_limit p'" "0 < cp_per_document p'"
    by (simp_all add: p'_def normalizeCitationPolicy_ok)
  have ok: "kept_ok u p' ?ms ?kept"
    by (rule filter_loop_ok) (use pos in \<open>simp_all add: kept_ok_def\<close>)
  show "int (length (trimEffectiveChunks u cs p)) \<le> cp_limit p'"
    using ok pos mergeAdjacent_length [of ?kept] r
    by (cases "cs = []") (simp_all add: trimEffectiveChunks_def kept_ok_def)
  show "int (length (filter (\<lambda>c. rc_doc c = d) (trimEffectiveChunks u cs p))) \<le> cp_per_document p'"
  proof (cases "cs = []")
    case False
    from ok have "int (length (filter (\<lambda>c. rc_doc c = d) ?kept)) \<le> cp_per_document p'"
      by (simp add: kept_ok_def)
    with r [OF False] mergeAdjacent_count [of d ?kept] show ?thesis by simp
  qed (use pos in \<open>simp add: trimEffectiveChunks_def\<close>)
  show "cp_absolute p' \<le> rc_score c" if c: "c \<in> set (trimEffectiveChunks u cs p)"
  proof -
    from c have ne: "cs \<noteq> []" by (auto simp: trimEffectiveChunks_def)
    show ?thesis
    proof (rule mergeAdjacent_all [of ?kept "\<lambda>c. cp_absolute p' \<le> rc_score c"])
      show "c \<in> set (mergeAdjacentChunks ?kept)" using c r [OF ne] by simp
      show "cp_absolute p' \<le> rc_score x" if "x \<in> set ?kept" for x
        using ok that unfolding kept_ok_def by (meson max.cobounded1 order_trans)
    qed auto
  qed
  show "unit_score (rc_score c)"
    if u: "\<forall>c \<in> set cs. unit_score (rc_score c)" and c: "c \<in> set (trimEffectiveChunks u cs p)"
  proof -
    from c have ne: "cs \<noteq> []" by (auto simp: trimEffectiveChunks_def)
    show ?thesis
    proof (rule mergeAdjacent_all [of ?kept "\<lambda>c. unit_score (rc_score c)"])
      show "c \<in> set (mergeAdjacentChunks ?kept)" using c r [OF ne] by simp
      show "unit_score (rc_score x)" if "x \<in> set ?kept" for x
      proof -
        have "x \<in> set cs" using that filter_loop_subset by fastforce
        with u show ?thesis by blast
      qed
    qed (auto simp: unit_score_def)
  qed
qed

text \<open>The best candidate, and that ranking by score keeps the best score in front.\<close>

lemma best_is_kept:
  assumes "cs \<noteq> []" and "is_float (rc_score best)" and "0 \<le> rc_score best"
    and "best = hd (sort_key rank_of cs)" and "cp_absolute (normalizeCitationPolicy p) \<le> rc_score best"
  shows "covers (trimEffectiveChunks u cs p) (rc_content best)"
proof -
  let ?p = "normalizeCitationPolicy p"
  let ?ms = "max (cp_absolute ?p) (fmul (rc_score best) (cp_relative ?p))"
  obtain rest where rest: "sort_key rank_of cs = best # rest"
    using assms(1,4) by (metis list.collapse length_0_conv length_sort)
  have "cp_relative ?p \<le> 1"
  proof -
    have "const (72 / 100) \<le> 1" unfolding const_def using rnd_mono [of "72 / 100" 1] by simp
    then show ?thesis by (auto simp: normalizeCitationPolicy_def Let_def)
  qed
  then have "fmul (rc_score best) (cp_relative ?p) \<le> rc_score best"
    by (rule fmul_shrinks [OF assms(2,3)])
  with assms(5) have "?ms \<le> rc_score best" by simp
  from filter_loop_best [OF normalizeCitationPolicy_ok this]
  have "best \<in> set (filter_loop u ?p ?ms {} (\<lambda>_. 0) [] (sort_key rank_of cs))"
    by (simp add: rest)
  then have "covers (mergeAdjacentChunks (filter_loop u ?p ?ms {} (\<lambda>_. 0) [] (sort_key rank_of cs)))
      (rc_content best)" by (rule mergeAdjacent_covers)
  with assms(1,4) show ?thesis by (simp add: trimEffectiveChunks_def Let_def)
qed

end
