(* ===== verification/RetrievalProperties.thy ===== *)
theory RetrievalProperties
  imports SearchSteps Fixtures
begin

text \<open>The properties of retrieval, and a small knowledge base in which they are applied.\<close>

section \<open>A small knowledge base\<close>

definition chunk1 :: document_chunk where
  "chunk1 = \<lparr>ch_id = ''c1'', ch_tenant = ''t1'', ch_doc = ''d1'', ch_subject = ''s1'', ch_user = ''u1'',
     ch_index = 0, ch_content = lit ''go text'', ch_page = 0, ch_section = [], ch_metadata = JEmpty,
     ch_token_count = 2, ch_doc_version = 1, ch_content_hash = ''c1'', ch_embedding_provider = [],
     ch_embedding_model = [], ch_embedding_dimension = 0, ch_chunk_strategy = [], ch_created_at = 0,
     ch_updated_at = 0\<rparr>"

definition subject1 :: subject_row where
  "subject1 = \<lparr>subj_id = ''s1'', subj_tenant = ''t1'', subj_name = lit ''kb'', subj_description = [],
     subj_owner = ''u1'', subj_visibility = Private, subj_created_at = 0, subj_updated_at = 0,
     subj_deleted_at = None\<rparr>"

definition kb_world :: "unit world" where
  "kb_world = \<lparr>w_db = empty_db\<lparr>documents := [document_insert_row doc1],
     document_chunks := [chunk_insert_row chunk1], subjects := [subject1]\<rparr>, w_ext = (), w_log = []\<rparr>"

definition item1 :: item where
  "item1 = [''id'' \<mapsto> JStr (lit ''c2''), ''tenant_id'' \<mapsto> JStr (lit ''t1''), ''doc_id'' \<mapsto> JStr (lit ''d1''),
     ''subject_id'' \<mapsto> JStr (lit ''s1''), ''content'' \<mapsto> JStr (lit ''more''), ''distance'' \<mapsto> JNum (1 / 2)]"

definition store1 :: "unit milvus_store" where
  "store1 = \<lparr>vs_collection = [], vs_dimension = 1, vs_post = (\<lambda>r e. case r of
       EntitiesSearch f _ _ \<Rightarrow> (Inr (Reply 0 [] (if f = search_filter ''t1'' ''s1'' [] then JValue (Items [item1])
         else JEmpty)), e)
     | _ \<Rightarrow> (Inr (Reply 0 [] JEmpty), e))\<rparr>"

definition rt1 :: retrieval_conf where
  "rt1 = \<lparr>rt_top_k = 5, rt_multiplier = 4, rt_candidate_limit = 50, rt_similarity = 1 / 4,
     rt_relative = 1 / 2, rt_max_citations = 5, rt_per_document = 3, rt_rerank = False,
     rt_max_query_runes = 500, rt_max_sub_queries = 4\<rparr>"

definition search1 :: "unit search_services" where
  "search1 = \<lparr>ss_base = calm, ss_store = store1, ss_conf = rt1,
     ss_evaluation = \<lparr>ev_min_recall = 0, ev_max_latency_ms = 0\<rparr>, ss_model = [],
     ss_stage = (\<lambda>_ e. (None, e)), ss_order = (\<lambda>_ ms. ms)\<rparr>"

definition options1 :: search_options where
  "options1 = \<lparr>so_top_k = 0, so_expected_docs = [lit ''d1''], so_expected_chunks = [],
     so_expected_route = [], so_search_query = []\<rparr>"

definition search_run :: "(gerr + retrieval_chunk list \<times> retrieval_metrics) \<times> unit world" where
  "search_run = SearchWithOptions search1 ''t1'' ''u1'' ''s1'' (lit ''text?'') options1 kb_world"

definition answer1 :: "retrieval_chunk list" where
  "answer1 = (case fst search_run of Inr (cs, _) \<Rightarrow> cs | Inl _ \<Rightarrow> [])"

definition metrics1 :: retrieval_metrics where
  "metrics1 = (case fst search_run of Inr (_, m) \<Rightarrow> m | Inl _ \<Rightarrow> zero_metrics)"

lemma search1_runs:
  "case fst search_run of Inr (cs, m) \<Rightarrow> map rc_id cs = [''c1'', ''c2''] | Inl _ \<Rightarrow> False"
  by code_simp

lemma search1_result:
  "SearchWithOptions search1 ''t1'' ''u1'' ''s1'' (lit ''text?'') options1 kb_world =
     (Inr (answer1, metrics1), snd search_run)"
  and answer1_ids: "map rc_id answer1 = [''c1'', ''c2'']"
proof -
  have "fst search_run = Inr (answer1, metrics1) \<and> map rc_id answer1 = [''c1'', ''c2'']"
    using search1_runs by (simp add: answer1_def metrics1_def split: sum.splits prod.splits)
  then show "SearchWithOptions search1 ''t1'' ''u1'' ''s1'' (lit ''text?'') options1 kb_world =
      (Inr (answer1, metrics1), snd search_run)" and "map rc_id answer1 = [''c1'', ''c2'']"
    by (simp_all add: search_run_def prod_eq_iff)
qed

lemma answer1_length: "length answer1 = 2"
  using answer1_ids by (metis length_Cons length_map list.size(3) numeral_2_eq_2)

lemma search_filter_plain:
  assumes "plain_id t" and "plain_id s" and "plain_id t'" and "plain_id s'"
    and "search_filter t s m = search_filter t' s' m"
  shows "t = t' \<and> s = s'"
proof -
  let ?rest = "\<lambda>s. lit '' AND subject_id == '' @ quoted (lit s) @ lit '' AND embedding_model == '' @ quoted m"
  let ?tail = "lit '' AND embedding_model == '' @ quoted m"
  from assms(5) have "escapeFilterValue (lit t) @ quote @ ?rest s = escapeFilterValue (lit t') @ quote @ ?rest s'"
    by (simp add: search_filter_def quoted_def)
  then have "read_literal (escapeFilterValue (lit t) @ quote @ ?rest s) =
      read_literal (escapeFilterValue (lit t') @ quote @ ?rest s')" by (rule arg_cong)
  then have t: "lit t = lit t'" and "?rest s = ?rest s'"
    using assms(1,3) by (simp_all add: read_escaped plain_id_def)
  then have "escapeFilterValue (lit s) @ quote @ ?tail = escapeFilterValue (lit s') @ quote @ ?tail"
    by (simp add: quoted_def)
  then have "read_literal (escapeFilterValue (lit s) @ quote @ ?tail) =
      read_literal (escapeFilterValue (lit s') @ quote @ ?tail)" by (rule arg_cong)
  with t assms(2,4) show ?thesis by (simp add: read_escaped plain_id_def)
qed

lemma search1_filters: "filters_apply search1"
  unfolding filters_apply_def
proof (intro allI impI)
  fix tenant subject v k e code msg items e'
  assume plain: "plain_id tenant" "plain_id subject"
    and post: "vs_post (ss_store search1) (EntitiesSearch (search_filter tenant subject (ss_model search1)) v k) e =
      (Inr (Reply code msg (JValue (Items items))), e')"
  have sk: "plain_id ''t1''" "plain_id ''s1''" by (simp_all add: plain_id_def lit_def)
  from post have f: "search_filter tenant subject [] = search_filter ''t1'' ''s1'' []" and "items = [item1]"
    by (auto simp: search1_def store1_def split: if_splits)
  moreover have "tenant = ''t1'' \<and> subject = ''s1''" by (rule search_filter_plain [OF plain sk f])
  ultimately show "\<forall>x \<in> set items. asString (x ''tenant_id'') = lit tenant \<and>
      asString (x ''subject_id'') = lit subject"
    by (simp add: item1_def asString_def)
qed

section \<open>Who sees what\<close>



section \<open>How much is answered\<close>

lemma citation_limit:
  "cp_limit (normalizeCitationPolicy (citation_policy_of conf (normalizeTopK a b))) =
     go_min (normalizeTopK a b) (normalizeMaxCitations (rt_max_citations conf))"
  by (auto simp: normalizeCitationPolicy_def citation_policy_of_def normalizeTopK_def go_min_def
      normalizeMaxCitations_def Let_def)

lemma citation_rest:
  "cp_per_document (normalizeCitationPolicy (citation_policy_of conf n)) =
     (if rt_per_document conf < 1 then 3 else rt_per_document conf)"
  "cp_absolute (normalizeCitationPolicy (citation_policy_of conf n)) =
     (if rt_similarity conf \<le> 0 then const (35 / 100) else rt_similarity conf)"
  by (auto simp: normalizeCitationPolicy_def citation_policy_of_def Let_def)

lemma final_metrics_fields:
  "rm_returned_count (final_metrics ss options t1 t2 m cs) = length cs"
  "rm_recall_hit_count (final_metrics ss options t1 t2 m cs) \<le> rm_expected_count (final_metrics ss options t1 t2 m cs)"
  "unit_score (rm_recall_at_k (final_metrics ss options t1 t2 m cs))"
proof -
  obtain e h r where rec: "recallAtK cs (so_expected_docs options) (so_expected_chunks options) = (e, h, r)"
    by (metis prod_cases3)
  show "rm_returned_count (final_metrics ss options t1 t2 m cs) = length cs"
    and "rm_recall_hit_count (final_metrics ss options t1 t2 m cs) \<le> rm_expected_count (final_metrics ss options t1 t2 m cs)"
    and "unit_score (rm_recall_at_k (final_metrics ss options t1 t2 m cs))"
    using recallAtK_bounds [OF rec] by (simp_all add: final_metrics_def rec Let_def)
qed

text \<open>C17
  The answer of a search stays within its limits: at most the requested number of chunks and
  never more than ten, at most the configured number per document, and only chunks whose score
  is in the unit interval and reaches the similarity threshold (or its default); the metrics
  count the answer, and the recall is a ratio of at most one.
\<close>

theorem search_is_bounded:
  assumes "SearchWithOptions ss tenant user subject query options w = (Inr (cs, m), w')"
  shows "int (length cs) \<le> normalizeTopK (so_top_k options) (rt_top_k (ss_conf ss)) \<and> length cs \<le> 10 \<and>
    (\<forall>d. int (length (filter (\<lambda>c. rc_doc c = d) cs)) \<le>
       (if rt_per_document (ss_conf ss) < 1 then 3 else rt_per_document (ss_conf ss))) \<and>
    (\<forall>c \<in> set cs. unit_score (rc_score c) \<and>
       (if rt_similarity (ss_conf ss) \<le> 0 then const (35 / 100) else rt_similarity (ss_conf ss)) \<le> rc_score c) \<and>
    rm_returned_count m = length cs \<and> rm_recall_hit_count m \<le> rm_expected_count m \<and>
    unit_score (rm_recall_at_k m)"
proof -
  let ?n = "normalizeTopK (so_top_k options) (rt_top_k (ss_conf ss))"
  let ?p = "citation_policy_of (ss_conf ss) ?n"
  from assms obtain q merged w5 ranked w6 k kw vcs where
      merged: "merged = merge_candidates (ss_conf ss) k kw vcs"
    and rank: "rank_candidates ss q merged w5 = (Inr ranked, w6)"
    and cs: "cs = trimEffectiveChunks (sv_unicode (ss_base ss)) ranked ?p"
    and m: "\<exists>t1 t2 m0. m = final_metrics ss options t1 t2 m0 cs"
    by (rule SearchWithOptions_steps) blast
  have "\<forall>c \<in> set ranked. unit_score (rc_score c)"
    by (rule rank_candidates_unit [OF _ rank]) (simp add: merged merge_candidates_unit)
  note limits = trimEffectiveChunks_limits [where u = "sv_unicode (ss_base ss)" and cs = ranked and p = ?p, folded cs]
  have "int (length cs) \<le> ?n \<and> length cs \<le> 10"
    using limits(1) by (auto simp: citation_limit go_min_def normalizeMaxCitations_def split: if_splits)
  moreover have "unit_score (rc_score c) \<and>
      (if rt_similarity (ss_conf ss) \<le> 0 then const (35 / 100) else rt_similarity (ss_conf ss)) \<le> rc_score c"
    if "c \<in> set cs" for c
    using limits(3) [OF that] limits(4) [OF \<open>\<forall>c \<in> set ranked. unit_score (rc_score c)\<close> that]
    by (simp only: citation_rest simp_thms)
  moreover have "int (length (filter (\<lambda>c. rc_doc c = d) cs)) \<le>
      (if rt_per_document (ss_conf ss) < 1 then 3 else rt_per_document (ss_conf ss))" for d
    using limits(2) [where d = d] by (simp only: citation_rest)
  ultimately show ?thesis using m final_metrics_fields by blast
qed

lemma search_is_bounded_witness:
  "length answer1 = 2 \<and> rm_returned_count metrics1 = 2 \<and> unit_score (rm_recall_at_k metrics1) \<and>
   (\<exists>c \<in> set answer1. unit_score (rc_score c) \<and> 1 / 4 \<le> rc_score c)"
proof -
  have sim: "rt_similarity (ss_conf search1) = 1 / 4" by (simp add: search1_def rt1_def)
  note r = search_is_bounded [OF search1_result, unfolded sim]
  have "hd answer1 \<in> set answer1" using answer1_length by (intro hd_in_set) auto
  with r have "unit_score (rc_score (hd answer1)) \<and> 1 / 4 \<le> rc_score (hd answer1)" by auto
  with \<open>hd answer1 \<in> set answer1\<close> r answer1_length show ?thesis by auto
qed

text \<open>
  The best candidate is always cited when it reaches the similarity threshold: the text of the
  candidate that ranks first, up to white space, is contained in one of the citations, also when
  neighbouring chunks have been joined.
\<close>

theorem best_candidate_is_cited:
  assumes "cs \<noteq> []" and "best = hd (sort_key rank_of cs)"
    and "is_float (rc_score best)" and "0 \<le> rc_score best"
    and "cp_absolute (normalizeCitationPolicy p) \<le> rc_score best"
  shows "\<exists>m \<in> set (trimEffectiveChunks u cs p). \<exists>before after.
    solid (rc_content m) = before @ solid (rc_content best) @ after"
  using best_is_kept [OF assms(1,3,4,2,5)] by (simp add: covers_def)

definition cited1 :: retrieval_chunk where
  "cited1 = hit_chunk doc1 (item_hit item1)\<lparr>rc_score := 1\<rparr>"

definition policy1 :: citation_policy where
  "policy1 = citation_policy_of rt1 5"

lemma best_candidate_is_cited_witness:
  "\<exists>m \<in> set (trimEffectiveChunks ascii_tables [cited1] policy1). \<exists>before after.
    solid (rc_content m) = before @ lit ''more'' @ after"
proof -
  have "cp_absolute (normalizeCitationPolicy policy1) \<le> 1"
    by (simp add: policy1_def citation_rest) (simp add: rt1_def)
  moreover have "solid (rc_content cited1) = lit ''more''" by code_simp
  moreover have "rc_score cited1 = 1" by (simp add: cited1_def)
  ultimately show ?thesis
    using best_candidate_is_cited [of "[cited1]" cited1 policy1 ascii_tables] by simp
qed

section \<open>Queries and candidates\<close>

text \<open>
  The query plan embeds only usable queries: the compacted rewritten query comes first, every
  query is non-empty, trimmed and within the configured number of runes, no two are equal up to
  case, and there are at most as many as configured, or two when only one is configured.
\<close>

theorem query_plan_is_sound:
  assumes "TrimSpace rewritten \<noteq> []"
  shows "hd (qp_queries (buildQueryPlan u original rewritten m k)) =
      compactQuery u rewritten (int (query_runes m)) \<and>
    qp_queries (buildQueryPlan u original rewritten m k) \<noteq> [] \<and>
    queries_ok u (query_runes m) (qp_queries (buildQueryPlan u original rewritten m k)) \<and>
    int (length (qp_queries (buildQueryPlan u original rewritten m k))) \<le> max (if k < 1 then 4 else k) 2"
proof -
  let ?m = "if m < 1 then 500 else m" and ?k = "if k < 1 then 4 else k"
  let ?first = "compactQuery u rewritten ?m"
  have m: "?m = int (query_runes m)" by (simp add: query_runes_def)
  have rm: "query_runes ?m = query_runes m" by (simp add: query_runes_def)
  have ne: "?first \<noteq> []" and trim: "TrimSpace ?first = ?first"
    using assms compactQuery_Nil compactQuery_trimmed TrimSpace_of_trimmed by blast+
  then have one: "appendUniqueQuery u [] ?first = [?first]" by (simp add: appendUniqueQuery_def)
  define parts where "parts = (let original' = Join (Fields original) space; ps = splitQuestion original'
    in if int (length original') > ?m \<and> length ps = 1 then splitLongQuestion original' else ps)"
  let ?qs = "append_parts u ?m ?k [?first] parts"
  obtain more where more: "?qs = [?first] @ more" using append_parts_prefix by blast
  have qs: "qp_queries (buildQueryPlan u original rewritten m k) = ?qs"
    using more by (simp add: buildQueryPlan_def Let_def one parts_def)
  have "queries_ok u (query_runes ?m) [?first]"
    using append_query_ok [OF queries_ok_Nil compactQuery_trimmed compactQuery_length] one by metis
  then have "queries_ok u (query_runes m) ?qs" using append_parts_ok rm by metis
  moreover have "int (length ?qs) \<le> max ?k 2" using append_parts_length_any [of u ?m ?k "[?first]" parts] by simp
  ultimately show ?thesis unfolding qs using more m by simp
qed

lemma query_plan_is_sound_witness:
  "queries_ok ascii_tables 500 (qp_queries (buildQueryPlan ascii_tables (lit ''a? b?'') (lit ''c'') 500 4)) \<and>
   length (qp_queries (buildQueryPlan ascii_tables (lit ''a? b?'') (lit ''c'') 500 4)) = 3"
proof -
  have "TrimSpace (lit ''c'') \<noteq> []" by code_simp
  moreover have "length (qp_queries (buildQueryPlan ascii_tables (lit ''a? b?'') (lit ''c'') 500 4)) = 3"
    by code_simp
  moreover have "query_runes 500 = 500" by (simp add: query_runes_def)
  ultimately show ?thesis using query_plan_is_sound [of "lit ''c''" ascii_tables "lit ''a? b?''" 500 4] by simp
qed

text \<open>With a limit of one query the plan has two: the loop appends before it looks at the limit.\<close>

lemma sub_query_limit_is_exceeded:
  "length (qp_queries (buildQueryPlan ascii_tables (lit ''a? b?'') (lit ''c'') 500 1)) = 2"
  by code_simp

text \<open>
  Fusing the two searches loses and duplicates nothing: the merged list has exactly one entry for
  every chunk found by either search, all scores are in the unit interval, and when the list is
  cut to the candidate limit no chunk that is dropped scores better than one that is kept.
\<close>

theorem fusion_is_exact:
  "distinct (map rc_id (mergeChunks (normalizeScores a) (normalizeScores b))) \<and>
   rc_id ` set (mergeChunks (normalizeScores a) (normalizeScores b)) = rc_id ` set a \<union> rc_id ` set b \<and>
   list_all (\<lambda>c. unit_score (rc_score c)) (mergeChunks (normalizeScores a) (normalizeScores b)) \<and>
   list_all (\<lambda>kept. list_all (\<lambda>c. rc_score c \<le> rc_score kept \<or>
       c \<in> set (limitCandidates (mergeChunks (normalizeScores a) (normalizeScores b)) n))
     (mergeChunks (normalizeScores a) (normalizeScores b)))
     (limitCandidates (mergeChunks (normalizeScores a) (normalizeScores b)) n)"
proof -
  let ?M = "mergeChunks (normalizeScores a) (normalizeScores b)"
  have ids: "rc_id ` set (normalizeScores xs) = rc_id ` set xs" for xs
    using normalizeScores_map [of rc_id xs] by (metis (no_types, lifting) list.set_map
        retrieval_chunk.select_convs(1) retrieval_chunk.surjective retrieval_chunk.update_convs(14))
  have "unit_score (rc_score c)" if "c \<in> set ?M" for c
    using that by (rule mergeChunks_all [rotated 2]) (auto intro: normalizeScores_unit)
  then show ?thesis
    using mergeChunks_distinct mergeChunks_ids [of "normalizeScores a" "normalizeScores b"] ids
      limitCandidates_best by (auto simp: list_all_iff)
qed

end
