(* ===== verification/Presenter.thy ===== *)
theory Presenter
  imports ApiTypes GoText
begin

text \<open>
  What the API shows of documents, chunks, tasks, logs and knowledge bases:
  \<open>internal/presenter\<close>, the info structs of \<open>internal/types\<close>, page numbers and visibility. Times
  are kept as times; the API prints them in RFC 3339.
\<close>

record document_info =
  di_id :: uid
  di_subject :: uid
  di_filename :: gostr
  di_file_type :: gostr
  di_file_size :: int
  di_file_url :: gostr
  di_status :: string
  di_error :: gostr
  di_progress :: int
  di_created_at :: int
  di_updated_at :: int

fun progress :: "doc_status \<Rightarrow> int" where
  "progress Uploaded = 10"
| "progress Parsing = 25"
| "progress Parsed = 40"
| "progress Chunking = 50"
| "progress Chunked = 65"
| "progress Embedding = 80"
| "progress Indexed = 100"
| "progress Deleting = 50"
| "progress _ = 0"

definition document_ToInfo :: "document \<Rightarrow> document_info" where
  "document_ToInfo d = \<lparr>di_id = doc_id d, di_subject = doc_subject d, di_filename = doc_filename d,
     di_file_type = doc_file_type d, di_file_size = doc_file_size d, di_file_url = doc_file_url d,
     di_status = doc_status_text (doc_status d), di_error = doc_error d,
     di_progress = progress (doc_status d), di_created_at = doc_created_at d,
     di_updated_at = doc_updated_at d\<rparr>"

record chunk_info =
  ki_id :: uid
  ki_index :: int
  ki_page :: int
  ki_section :: gostr
  ki_content :: gostr
  ki_token_count :: int

definition ChunkToInfo :: "document_chunk \<Rightarrow> chunk_info" where
  "ChunkToInfo c = \<lparr>ki_id = ch_id c, ki_index = ch_index c, ki_page = ch_page c,
     ki_section = ch_section c, ki_content = ch_content c, ki_token_count = ch_token_count c\<rparr>"

record task_info =
  ti_id :: uid
  ti_doc :: uid
  ti_subject :: uid
  ti_filename :: gostr
  ti_type :: string
  ti_status :: string
  ti_retry_count :: int
  ti_error :: gostr
  ti_created_at :: int
  ti_updated_at :: int

definition TaskToInfo :: "index_task \<Rightarrow> task_info" where
  "TaskToInfo t = \<lparr>ti_id = task_id t, ti_doc = task_doc t, ti_subject = task_subject t,
     ti_filename = task_filename t, ti_type = task_type_text (task_type t),
     ti_status = task_status_text (task_status t), ti_retry_count = task_retry_count t,
     ti_error = task_error t, ti_created_at = task_created_at t, ti_updated_at = task_updated_at t\<rparr>"

record log_info =
  li_id :: uid
  li_doc :: uid
  li_filename :: gostr
  li_status :: string
  li_message :: gostr
  li_error :: gostr
  li_created_at :: int

definition LogToInfo :: "parse_log \<Rightarrow> log_info" where
  "LogToInfo l = \<lparr>li_id = log_id l, li_doc = log_doc l, li_filename = log_filename l,
     li_status = task_status_text (log_status l), li_message = log_message l,
     li_error = log_error l, li_created_at = log_created_at l\<rparr>"

record subject_info =
  si_id :: uid
  si_name :: gostr
  si_description :: gostr
  si_visibility :: visibility
  si_created_at :: int
  si_updated_at :: int

definition subject_ToInfo :: "subject \<Rightarrow> subject_info" where
  "subject_ToInfo s = \<lparr>si_id = subj_id s, si_name = subj_name s, si_description = subj_description s,
     si_visibility = subj_visibility s, si_created_at = subj_created_at s,
     si_updated_at = subj_updated_at s\<rparr>"

definition NormalizeVisibility :: "unicode_tables \<Rightarrow> gostr \<Rightarrow> visibility" where
  "NormalizeVisibility u v = (if ToLower u (TrimSpace v) = lit ''public'' then Public else Private)"

text \<open>
  \<open>pagination.Normalize\<close>: page, page size and offset; the product is a 64-bit \<open>int\<close>, so an absurd
  page number gives a negative offset.
\<close>

definition Normalize_page :: "int \<Rightarrow> int \<Rightarrow> int \<times> int \<times> int" where
  "Normalize_page page0 size0 =
     (let page = (if page0 \<le> 0 then 1 else page0);
          pageSize = (if size0 \<le> 0 \<or> size0 > 100 then 20 else size0)
      in (page, pageSize, wrap64 ((page - 1) * pageSize)))"

lemma Normalize_page_size: "Normalize_page p n = (page, k, off) \<Longrightarrow> 1 \<le> k \<and> k \<le> 100 \<and> 1 \<le> page"
  by (auto simp: Normalize_page_def Let_def)

end
