(* ===== verification/Requests.thy ===== *)
theory Requests
  imports WorkerSteps Presenter
begin

text \<open>
  The request logic on documents, tasks, logs and knowledge bases: \<open>internal/logic/document\<close>,
  \<open>internal/logic/subject\<close>, the lists of \<open>internal/logic/admin\<close>, \<open>service/documentupload\<close> and
  \<open>internal/auth\<close>'s current user. A handler decodes the request, calls one of these and encodes
  the result.
\<close>

section \<open>The user of a request\<close>

record user_session =
  us_id :: uid
  us_tenant :: uid
  us_username :: gostr
  us_email :: gostr

definition unauthorized :: gerr where
  "unauthorized = Plain (lit ''unauthorized'')"

definition CurrentUser :: "user_session option \<Rightarrow> gerr + user_session" where
  "CurrentUser ctx =
     (case ctx of None \<Rightarrow> Inl unauthorized
      | Some user \<Rightarrow> if us_id user = [] \<or> us_tenant user = [] then Inl unauthorized else Inr user)"

definition current_user :: "user_session option \<Rightarrow> ('w, user_session) prog" where
  "current_user ctx w = (CurrentUser ctx, w)"

text \<open>A page of a list: PostgreSQL refuses a negative offset.\<close>

definition check_offset :: "int \<Rightarrow> 'a tx \<Rightarrow> 'a tx" where
  "check_offset offset q d =
     (if offset < 0 then (Inl (Plain (lit ''ERROR: OFFSET must not be negative'')), d) else q d)"

section \<open>Uploading\<close>

text \<open>
  A multipart form: the error of \<open>ParseMultipartForm\<close> (and whether it is a \<open>MaxBytesError\<close>), the
  file with the errors of reading it, and the form values.
\<close>

record upload_file =
  uf_name :: gostr
  uf_size :: int
  uf_bytes :: "gerr + gostr"
  uf_seek :: "gerr option"

record upload_form =
  fm_error :: "(bool \<times> gerr) option"
  fm_file :: "gerr + upload_file"
  fm_subject :: uid
  fm_mode :: gostr

record upload_input =
  ui_subject :: uid
  ui_file :: upload_file
  ui_mode :: string

definition MaxFileSize :: int where
  "MaxFileSize = 50 * 2 ^ 20"

definition ErrFileTooLarge :: gerr where
  "ErrFileTooLarge = Plain (lit ''file exceeds the 50 MB limit'')"

definition parseRequest :: "upload_form \<Rightarrow> int \<Rightarrow> gerr + upload_input" where
  "parseRequest form maxFileSize =
     (case fm_error form of
        Some (too_large, err) \<Rightarrow> Inl (if too_large then ErrFileTooLarge else err)
      | None \<Rightarrow>
         (case fm_file form of
            Inl err \<Rightarrow> Inl err
          | Inr f \<Rightarrow> if uf_size f > maxFileSize then Inl ErrFileTooLarge
              else Inr \<lparr>ui_subject = trim_id (fm_subject form), ui_file = f,
                        ui_mode = text_id (TrimSpace (fm_mode form))\<rparr>))"

definition ParseRequest :: "upload_form \<Rightarrow> gerr + upload_input" where
  "ParseRequest form = parseRequest form MaxFileSize"

text \<open>\<open>filepath.Base\<close> and \<open>filepath.Ext\<close> on a Unix system.\<close>

definition filepath_Base :: "gostr \<Rightarrow> gostr" where
  "filepath_Base path =
     (if path = [] then [46]
      else let stripped = rev (dropWhile (\<lambda>r. r = 47) (rev path));
               base = rev (takeWhile (\<lambda>r. r \<noteq> 47) (rev stripped))
           in if base = [] then [47] else base)"

definition filepath_Ext :: "gostr \<Rightarrow> gostr" where
  "filepath_Ext path =
     (let element = takeWhile (\<lambda>r. r \<noteq> 47) (rev path)
      in if 46 \<in> set element then rev (takeWhile (\<lambda>r. r \<noteq> 46) element @ [46]) else [])"

record app_conf =
  ac_bucket :: gostr
  ac_provider :: gostr
  ac_model :: gostr
  ac_dimension :: int
  ac_chunk_version :: gostr

definition canWriteSubject :: "subject \<Rightarrow> uid \<Rightarrow> bool" where
  "canWriteSubject s user \<longleftrightarrow> trim_id (subj_owner s) = trim_id user"

definition object_name :: "uid \<Rightarrow> uid \<Rightarrow> gostr \<Rightarrow> gostr" where
  "object_name tenant docID filename =
     lit ''tenants/'' @ lit tenant @ lit ''/documents/'' @ lit docID @ lit ''/'' @ filename"

definition file_extension :: "unicode_tables \<Rightarrow> gostr \<Rightarrow> gostr" where
  "file_extension u filename =
     (let ext = TrimPrefix (ToLower u (filepath_Ext filename)) [46]
      in if ext = [] then lit ''unknown'' else ext)"

definition new_document ::
    "'e services \<Rightarrow> app_conf \<Rightarrow> user_session \<Rightarrow> uid \<Rightarrow> uid \<Rightarrow> gostr \<Rightarrow> upload_file \<Rightarrow> gostr \<Rightarrow> int \<Rightarrow> document" where
  "new_document sv conf user subjectID docID filename f bytes now =
     \<lparr>doc_id = docID, doc_tenant = us_tenant user, doc_subject = subjectID, doc_user = us_id user,
      doc_filename = filename, doc_file_type = file_extension (sv_unicode sv) filename,
      doc_file_size = uf_size f,
      doc_file_url = lit ''minio://'' @ ac_bucket conf @ lit ''/'' @ object_name (us_tenant user) docID filename,
      doc_status = Uploaded, doc_plain_text = [], doc_metadata = JEmpty, doc_error = [],
      doc_version = 1, doc_content_hash = sv_sha256 sv bytes,
      doc_embedding_provider = ac_provider conf, doc_embedding_model = ac_model conf,
      doc_embedding_dimension = ac_dimension conf, doc_chunk_strategy = ac_chunk_version conf,
      doc_created_at = now, doc_updated_at = now\<rparr>"

text \<open>The first task of a document; the struct of the upload has no file name and no error.\<close>

definition document_task :: "document \<Rightarrow> uid \<Rightarrow> uid \<Rightarrow> uid \<Rightarrow> task_type \<Rightarrow> string json \<Rightarrow> gostr \<Rightarrow> int \<Rightarrow> index_task" where
  "document_task doc taskID tenant user ty metadata filename now =
     \<lparr>task_id = taskID, task_tenant = tenant, task_doc = doc_id doc, task_subject = doc_subject doc,
      task_user = user, task_filename = filename, task_type = ty, task_status = Pending,
      task_retry_count = 0, task_metadata = metadata, task_error = [],
      task_doc_version = doc_version doc, task_content_hash = doc_content_hash doc,
      task_embedding_provider = doc_embedding_provider doc,
      task_embedding_model = doc_embedding_model doc,
      task_embedding_dimension = doc_embedding_dimension doc,
      task_chunk_strategy = doc_chunk_strategy doc, task_created_at = now, task_updated_at = now\<rparr>"

definition upload_save ::
    "'e services \<Rightarrow> user_session \<Rightarrow> string \<Rightarrow> document \<Rightarrow> uid \<Rightarrow> ('e, document_info) act" where
  "upload_save sv user mode doc taskID =
     attempt (run_tx sv (\<lambda>now. CreateWithIndexTask (sv_sha sv) now doc
         (document_task doc taskID (us_tenant user) (us_id user) ParseTask
            (JValue (NormalizeProcessingMode mode)) [] (doc_created_at doc))))
       (\<lambda>_. return (document_ToInfo doc))"

definition upload_record ::
    "'e services \<Rightarrow> app_conf \<Rightarrow> user_session \<Rightarrow> upload_input \<Rightarrow> uid \<Rightarrow> uid \<Rightarrow> gostr \<Rightarrow> gostr \<Rightarrow> int \<Rightarrow>
     ('e, document_info) act" where
  "upload_record sv conf user input subjectID docID filename bytes now =
     attempt (new_uuid sv)
       (upload_save sv user (ui_mode input)
          (new_document sv conf user subjectID docID filename (ui_file input) bytes now))"

definition upload_content ::
    "'e services \<Rightarrow> app_conf \<Rightarrow> user_session \<Rightarrow> upload_input \<Rightarrow> uid \<Rightarrow> uid \<Rightarrow> gostr \<Rightarrow> bool \<Rightarrow>
     ('e, document_info) act" where
  "upload_content sv conf user input subjectID docID filename duplicate =
     (if duplicate then fail (Plain (lit ''document filename already exists''))
      else case uf_bytes (ui_file input) of
          Inl err \<Rightarrow> fail err
        | Inr bytes \<Rightarrow>
           (case uf_seek (ui_file input) of
              Some err \<Rightarrow> fail err
            | None \<Rightarrow>
               (let name = object_name (us_tenant user) docID filename
                in attempt (call_ext (sv_put_object sv (ac_bucket conf) name) [ObjectStored (ac_bucket conf) name])
                     (\<lambda>_. attempt (time_now sv)
                        (upload_record sv conf user input subjectID docID filename bytes)))))"

definition upload_named ::
    "'e services \<Rightarrow> app_conf \<Rightarrow> user_session \<Rightarrow> upload_input \<Rightarrow> uid \<Rightarrow> uid \<Rightarrow> ('e, document_info) act" where
  "upload_named sv conf user input subjectID docID =
     (let filename = filepath_Base (uf_name (ui_file input))
      in if filename = [46] \<or> filename = [47] then fail (Plain (lit ''filename is invalid''))
         else attempt (run_tx sv (\<lambda>_. ExistsActiveFilename (us_id user) subjectID filename))
                (upload_content sv conf user input subjectID docID filename))"

definition upload_into ::
    "'e services \<Rightarrow> app_conf \<Rightarrow> user_session \<Rightarrow> upload_input \<Rightarrow> uid \<Rightarrow> subject \<Rightarrow> ('e, document_info) act" where
  "upload_into sv conf user input subjectID s =
     (if \<not> canWriteSubject s (us_id user) then fail (Plain (lit ''knowledge base not found''))
      else attempt (new_uuid sv) (upload_named sv conf user input subjectID))"

definition upload_as ::
    "'e services \<Rightarrow> app_conf \<Rightarrow> upload_input \<Rightarrow> uid \<Rightarrow> user_session \<Rightarrow> ('e, document_info) act" where
  "upload_as sv conf input subjectID user =
     attempt (run_tx sv (\<lambda>_. GetAccessibleByID subjectID (us_id user) (us_tenant user)))
       (upload_into sv conf user input subjectID)"

definition DocumentUpload ::
    "'e services \<Rightarrow> app_conf \<Rightarrow> user_session option \<Rightarrow> upload_form \<Rightarrow> ('e, document_info) act" where
  "DocumentUpload sv conf ctx form =
     (case ParseRequest form of
        Inl err \<Rightarrow> fail err
      | Inr input \<Rightarrow>
         (let subjectID = trim_id (ui_subject input)
          in if subjectID = [] then fail (Plain (lit ''subject_id is required''))
             else attempt (current_user ctx) (upload_as sv conf input subjectID)))"

section \<open>Deleting, retrying and clearing\<close>

definition delete_as ::
    "'e services \<Rightarrow> user_session \<Rightarrow> document \<Rightarrow> ('e, task_info) act" where
  "delete_as sv user doc =
     attempt (time_now sv) (\<lambda>now.
     attempt (new_uuid sv) (\<lambda>taskID.
     attempt (run_tx sv (\<lambda>t. CreateDeleteTask (sv_sha sv) t (doc_id doc) (us_id user)
         (document_task doc taskID (us_tenant user) (us_id user) DeleteTask JEmpty (doc_filename doc) now)))
       (\<lambda>_. return (TaskToInfo (document_task doc taskID (us_tenant user) (us_id user) DeleteTask JEmpty
               (doc_filename doc) now)))))"

definition DocumentDelete ::
    "'e services \<Rightarrow> user_session option \<Rightarrow> uid \<Rightarrow> ('e, task_info) act" where
  "DocumentDelete sv ctx docID =
     attempt (current_user ctx) (\<lambda>user.
     attempt (run_tx sv (\<lambda>_. doc_GetByIDForUser (trim_id docID) (us_id user)))
       (delete_as sv user))"

text \<open>The error of a manual retry is replaced by a message for the user.\<close>

definition retry_message_error :: "('w, 'a) prog \<Rightarrow> ('w, 'a) prog" where
  "retry_message_error m w =
     (case m w of
        (Inl err, w') \<Rightarrow>
          (if errors_is err IndexTaskNotRetryable then
             (Inl (Plain (lit ''task is no longer retryable'')), w')
           else (Inl err, w'))
      | r \<Rightarrow> r)"

definition IndexTaskRetry :: "'e services \<Rightarrow> user_session option \<Rightarrow> uid \<Rightarrow> ('e, task_info) act" where
  "IndexTaskRetry sv ctx taskID =
     attempt (current_user ctx) (\<lambda>user.
     attempt (retry_message_error (run_tx sv (\<lambda>now. Retry (sv_sha sv) now (trim_id taskID) (us_id user))))
       (\<lambda>task. return (TaskToInfo task)))"

definition DocumentClearFailed :: "'e services \<Rightarrow> user_session option \<Rightarrow> ('e, nat) act" where
  "DocumentClearFailed sv ctx =
     attempt (current_user ctx) (\<lambda>user.
     attempt (run_tx sv (\<lambda>_. ListActiveFailedDocIDsByUser (us_id user))) (\<lambda>docIDs.
     attempt (if length docIDs > 0 then
                call_ext (sv_delete_vectors sv (us_id user) docIDs) [VectorsDeleted (us_id user) docIDs]
              else return ())
       (\<lambda>_. run_tx sv (\<lambda>now. ClearFailedByUser now (us_id user)))))"

section \<open>Reading\<close>

record document_detail =
  dd_document :: document_info
  dd_chunks :: "chunk_info list"
  dd_tasks :: "task_info list"
  dd_logs :: "log_info list"

definition detail_filter :: "user_session \<Rightarrow> uid \<Rightarrow> log_filter" where
  "detail_filter user docID = \<lparr>lf_user = us_id user, lf_tenant = us_tenant user, lf_doc = docID,
     lf_subject = [], lf_status = [], lf_page_size = 100, lf_offset = 0\<rparr>"

definition DocumentDetail :: "'e services \<Rightarrow> user_session option \<Rightarrow> uid \<Rightarrow> ('e, document_detail) act" where
  "DocumentDetail sv ctx docID =
     attempt (current_user ctx) (\<lambda>user.
     attempt (run_tx sv (\<lambda>_. doc_GetByIDForUser (trim_id docID) (us_id user))) (\<lambda>doc.
     attempt (run_tx sv (\<lambda>_. chunk_ListByDocument (doc_id doc))) (\<lambda>chunks.
     attempt (run_tx sv (\<lambda>_. task_ListByDocument (doc_id doc) (us_id user))) (\<lambda>tasks.
     attempt (run_tx sv (\<lambda>_. ListParseLogs (detail_filter user (doc_id doc)))) (\<lambda>(logs, _).
     return \<lparr>dd_document = document_ToInfo doc, dd_chunks = map ChunkToInfo chunks,
       dd_tasks = map TaskToInfo tasks, dd_logs = map LogToInfo logs\<rparr>)))))"

record list_req =
  lq_subject :: uid
  lq_status :: uid
  lq_type :: uid
  lq_keyword :: gostr
  lq_page :: int
  lq_page_size :: int

definition DocumentList ::
    "'e services \<Rightarrow> user_session option \<Rightarrow> list_req \<Rightarrow> ('e, document_info list \<times> nat) act" where
  "DocumentList sv ctx req =
     (let (_, pageSize, offset) = Normalize_page (lq_page req) (lq_page_size req)
      in attempt (current_user ctx) (\<lambda>user.
         attempt (run_tx sv (\<lambda>_. check_offset offset (ListByUser (sv_ilike sv)
             \<lparr>df_user = us_id user, df_tenant = us_tenant user, df_all_tenant_users = False,
              df_subject = trim_id (lq_subject req), df_status = trim_id (lq_status req),
              df_keyword = TrimSpace (lq_keyword req), df_page_size = nat pageSize,
              df_offset = nat offset\<rparr>)))
           (\<lambda>(docs, total). return (map document_ToInfo docs, total))))"

definition AdminTaskList ::
    "'e services \<Rightarrow> user_session option \<Rightarrow> list_req \<Rightarrow> ('e, task_info list \<times> nat) act" where
  "AdminTaskList sv ctx req =
     attempt (current_user ctx) (\<lambda>user.
     let (_, pageSize, offset) = Normalize_page (lq_page req) (lq_page_size req)
     in attempt (run_tx sv (\<lambda>_. check_offset offset (task_List
            \<lparr>tf_user = us_id user, tf_tenant = us_tenant user, tf_subject = trim_id (lq_subject req),
             tf_status = trim_id (lq_status req), tf_type = trim_id (lq_type req),
             tf_page_size = nat pageSize, tf_offset = nat offset\<rparr>)))
          (\<lambda>(tasks, total). return (map TaskToInfo tasks, total)))"

definition AdminLogList ::
    "'e services \<Rightarrow> user_session option \<Rightarrow> list_req \<Rightarrow> ('e, log_info list \<times> nat) act" where
  "AdminLogList sv ctx req =
     attempt (current_user ctx) (\<lambda>user.
     let (_, pageSize, offset) = Normalize_page (lq_page req) (lq_page_size req)
     in attempt (run_tx sv (\<lambda>_. check_offset offset (ListParseLogs
            \<lparr>lf_user = us_id user, lf_tenant = us_tenant user, lf_doc = [],
             lf_subject = trim_id (lq_subject req), lf_status = trim_id (lq_status req),
             lf_page_size = nat pageSize, lf_offset = nat offset\<rparr>)))
          (\<lambda>(logs, total). return (map LogToInfo logs, total)))"

definition AdminTaskClear :: "'e services \<Rightarrow> user_session option \<Rightarrow> ('e, nat) act" where
  "AdminTaskClear sv ctx =
     attempt (current_user ctx) (\<lambda>user. run_tx sv (\<lambda>now. ClearTerminalByUser now (us_id user)))"

definition AdminLogClear :: "'e services \<Rightarrow> user_session option \<Rightarrow> uid \<Rightarrow> ('e, nat) act" where
  "AdminLogClear sv ctx subjectID =
     attempt (current_user ctx)
       (\<lambda>user. run_tx sv (\<lambda>_. ClearParseLogsByUser (us_id user) (trim_id subjectID)))"

section \<open>Knowledge bases\<close>

record subject_req =
  sr_id :: uid
  sr_name :: gostr
  sr_description :: gostr
  sr_visibility :: gostr

text \<open>A sentinel error is replaced by a message for the user.\<close>

definition replace_error :: "sentinel \<Rightarrow> gostr \<Rightarrow> ('w, 'a) prog \<Rightarrow> ('w, 'a) prog" where
  "replace_error s text_shown m w =
     (case m w of
        (Inl err, w') \<Rightarrow> (if errors_is err s then (Inl (Plain text_shown), w') else (Inl err, w'))
      | r \<Rightarrow> r)"

definition create_as :: "'e services \<Rightarrow> subject_req \<Rightarrow> uid \<Rightarrow> int \<Rightarrow> user_session \<Rightarrow> ('e, subject_info) act" where
  "create_as sv req i now user =
     (let s = \<lparr>subj_id = i, subj_tenant = us_tenant user, subj_name = TrimSpace (sr_name req),
            subj_description = TrimSpace (sr_description req), subj_owner = us_id user,
            subj_visibility = NormalizeVisibility (sv_unicode sv) (sr_visibility req),
            subj_created_at = now, subj_updated_at = now\<rparr>
      in attempt (replace_error SubjectNameExists (lit ''knowledge base name already exists'')
             (run_tx sv (\<lambda>_. subject_Create (sv_lower sv) s)))
           (\<lambda>_. return (subject_ToInfo s)))"

definition SubjectCreate ::
    "'e services \<Rightarrow> user_session option \<Rightarrow> subject_req \<Rightarrow> ('e, subject_info) act" where
  "SubjectCreate sv ctx req =
     (if TrimSpace (sr_name req) = [] then fail (Plain (lit ''knowledge base name is required''))
      else attempt (new_uuid sv) (\<lambda>i. attempt (time_now sv) (\<lambda>now.
           attempt (current_user ctx) (create_as sv req i now))))"

definition update_as :: "'e services \<Rightarrow> subject_req \<Rightarrow> user_session \<Rightarrow> int \<Rightarrow> ('e, subject_info) act" where
  "update_as sv req user now =
     (let s = \<lparr>subj_id = trim_id (sr_id req), subj_tenant = us_tenant user,
            subj_name = TrimSpace (sr_name req), subj_description = TrimSpace (sr_description req),
            subj_owner = us_id user,
            subj_visibility = NormalizeVisibility (sv_unicode sv) (sr_visibility req),
            subj_created_at = 0, subj_updated_at = now\<rparr>
      in attempt (replace_error SubjectNotFound (lit ''knowledge base not found'')
             (replace_error SubjectNameExists (lit ''knowledge base name already exists'')
               (run_tx sv (\<lambda>_. UpdateByOwner (sv_lower sv) s))))
           (\<lambda>_. attempt (run_tx sv (\<lambda>_. GetAccessibleByID (trim_id (sr_id req)) (us_id user) (us_tenant user)))
              (\<lambda>updated. return (subject_ToInfo updated))))"

definition SubjectUpdate ::
    "'e services \<Rightarrow> user_session option \<Rightarrow> subject_req \<Rightarrow> ('e, subject_info) act" where
  "SubjectUpdate sv ctx req =
     (if trim_id (sr_id req) = [] \<or> TrimSpace (sr_name req) = [] then
        fail (Plain (lit ''id and name are required''))
      else attempt (current_user ctx) (\<lambda>user. attempt (time_now sv) (update_as sv req user)))"

definition SubjectDetail :: "'e services \<Rightarrow> user_session option \<Rightarrow> uid \<Rightarrow> ('e, subject_info) act" where
  "SubjectDetail sv ctx i =
     (if trim_id i = [] then fail (Plain (lit ''knowledge base id is required''))
      else attempt (current_user ctx) (\<lambda>user.
           attempt (run_tx sv (\<lambda>_. GetAccessibleByID (trim_id i) (us_id user) (us_tenant user)))
             (\<lambda>s. return (subject_ToInfo s))))"

definition SubjectList ::
    "'e services \<Rightarrow> user_session option \<Rightarrow> list_req \<Rightarrow> ('e, subject_info list \<times> nat) act" where
  "SubjectList sv ctx req =
     (let (_, pageSize, offset) = Normalize_page (lq_page req) (lq_page_size req)
      in attempt (current_user ctx) (\<lambda>user.
         attempt (run_tx sv (\<lambda>_. check_offset offset (ListAccessible (sv_ilike sv)
             \<lparr>sf_user = us_id user, sf_tenant = us_tenant user, sf_keyword = TrimSpace (lq_keyword req),
              sf_page_size = nat pageSize, sf_offset = nat offset\<rparr>)))
           (\<lambda>(list, total). return (map subject_ToInfo list, total))))"

definition SubjectDelete :: "'e services \<Rightarrow> user_session option \<Rightarrow> uid \<Rightarrow> ('e, bool) act" where
  "SubjectDelete sv ctx i0 =
     (let i = trim_id i0
      in if i = [] then fail (Plain (lit ''knowledge base id is required''))
         else attempt (current_user ctx) (\<lambda>user.
              attempt (call_ext (sv_delete_subject sv (us_id user) i) [SubjectVectorsDeleted (us_id user) i])
                (\<lambda>_. run_tx sv (\<lambda>now. SoftDeleteByOwner now i (us_id user) (us_tenant user)))))"

end
