(* ===== verification/RequestSteps.thy ===== *)
theory RequestSteps
  imports Requests TaskQueue
begin

text \<open>
  Every request only commits transactions of the repositories; a running system is a sequence of
  requests, worker runs and publisher ticks, in any order.
\<close>

section \<open>Every request only commits transactions\<close>

lemma reaches_sum [reach_intros]:
  "(\<And>e. x = Inl e \<Longrightarrow> reaches sv I (f e)) \<Longrightarrow> (\<And>a. x = Inr a \<Longrightarrow> reaches sv I (g a)) \<Longrightarrow>
    reaches sv I (case x of Inl e \<Rightarrow> f e | Inr a \<Rightarrow> g a)"
  by (cases x) auto

lemma reaches_option [reach_intros]:
  "(x = None \<Longrightarrow> reaches sv I f) \<Longrightarrow> (\<And>a. x = Some a \<Longrightarrow> reaches sv I (g a)) \<Longrightarrow>
    reaches sv I (case x of None \<Rightarrow> f | Some a \<Rightarrow> g a)"
  by (cases x) auto

lemma reaches_current_user [reach_intros]: "reaches sv I (current_user ctx)"
  by (rule reaches_same_db) (simp add: current_user_def)

lemma reaches_retry_message [reach_intros]: "reaches sv I m \<Longrightarrow> reaches sv I (retry_message_error m)"
  unfolding reaches_def retry_message_error_def by (auto split: prod.splits sum.splits)

lemma reaches_replace_error [reach_intros]: "reaches sv I m \<Longrightarrow> reaches sv I (replace_error s text_shown m)"
  unfolding reaches_def replace_error_def by (auto split: prod.splits sum.splits)

lemma check_offset_cases: "snd (check_offset n q d) = d \<or> check_offset n q d = q d"
  by (simp add: check_offset_def)

text \<open>The reading statements of the repositories.\<close>

lemma reads [simp]:
  "snd (ExistsActiveFilename u s f d) = d" "snd (doc_GetByIDForUser i u d) = d"
  "snd (ListActiveFailedDocIDsByUser u d) = d" "snd (chunk_ListByDocument i d) = d"
  "snd (task_ListByDocument i u d) = d" "snd (ListParseLogs lf d) = d"
  "snd (ListByUser il df d) = d" "snd (task_List tf d) = d" "snd (ListAccessible il sf d) = d"
  by (simp_all add: tx_defs Let_def split: option.split)

lemma check_offset_read [simp]:
  "(\<And>d. snd (q d) = d) \<Longrightarrow> snd (check_offset n q d) = d"
  by (simp add: check_offset_def)

lemma upload_step:
  "tx_step sha d (snd (CreateWithIndexTask sha now (new_document sv conf user s i fn f bs t)
     (document_task (new_document sv conf user s i fn f bs t) tid tn u ty meta ff t') d))"
  by (rule tx_step.upload) (simp_all add: fresh_task_def document_task_def new_document_def)

lemma delete_step:
  "tx_step sha d (snd (CreateDeleteTask sha now (doc_id doc) u (document_task doc tid tn v ty meta ff t) d))"
  by (rule tx_step.delete_task) (simp_all add: fresh_task_def document_task_def)

lemmas request_tx = tx_step.manual_retry tx_step.clear_failed tx_step.clear_tasks tx_step.clear_logs
  tx_step.new_subject tx_step.edit_subject tx_step.drop_subject upload_step delete_step

lemmas request_defs = DocumentUpload_def upload_as_def upload_into_def upload_named_def
  upload_content_def upload_record_def upload_save_def DocumentDelete_def delete_as_def
  IndexTaskRetry_def DocumentClearFailed_def DocumentDetail_def DocumentList_def AdminTaskList_def
  AdminLogList_def AdminTaskClear_def AdminLogClear_def SubjectCreate_def create_as_def
  SubjectUpdate_def update_as_def SubjectDetail_def SubjectList_def SubjectDelete_def

text \<open>One proof for all requests: follow the calls; a transaction is a step or only reads.\<close>

lemma requests_reach:
  assumes "disciplined sv"
  shows "reaches sv (\<lambda>_. True) (DocumentUpload sv conf ctx form)"
    and "reaches sv (\<lambda>_. True) (DocumentDelete sv ctx i)"
    and "reaches sv (\<lambda>_. True) (IndexTaskRetry sv ctx i)"
    and "reaches sv (\<lambda>_. True) (DocumentClearFailed sv ctx)"
    and "reaches sv (\<lambda>_. True) (DocumentDetail sv ctx i)"
    and "reaches sv (\<lambda>_. True) (DocumentList sv ctx lreq)"
    and "reaches sv (\<lambda>_. True) (AdminTaskList sv ctx lreq)"
    and "reaches sv (\<lambda>_. True) (AdminLogList sv ctx lreq)"
    and "reaches sv (\<lambda>_. True) (AdminTaskClear sv ctx)"
    and "reaches sv (\<lambda>_. True) (AdminLogClear sv ctx i)"
    and "reaches sv (\<lambda>_. True) (SubjectCreate sv ctx sreq)"
    and "reaches sv (\<lambda>_. True) (SubjectUpdate sv ctx sreq)"
    and "reaches sv (\<lambda>_. True) (SubjectDetail sv ctx i)"
    and "reaches sv (\<lambda>_. True) (SubjectList sv ctx lreq)"
    and "reaches sv (\<lambda>_. True) (SubjectDelete sv ctx i)"
  unfolding request_defs Let_def split_def
  by (intro reach_intros stable_True;
      ((rule reaches_run_tx [OF assms stable_True], blast intro: request_tx) |
       (rule reaches_read [OF assms stable_True], simp)))+

text \<open>Everything a running system does, in any order and with any faults of the outside.\<close>

inductive system_step :: "'e services \<Rightarrow> worker_conf \<Rightarrow> chunking_conf \<Rightarrow> app_conf \<Rightarrow> 'e world \<Rightarrow> 'e world \<Rightarrow> bool"
  for sv wc cc conf where
  worker: "system_step sv wc cc conf w (snd (run sv wc cc ty env w))"
| publisher: "system_step sv wc cc conf w (publish_tick sv w)"
| upload: "system_step sv wc cc conf w (snd (DocumentUpload sv conf ctx form w))"
| delete: "system_step sv wc cc conf w (snd (DocumentDelete sv ctx i w))"
| retry: "system_step sv wc cc conf w (snd (IndexTaskRetry sv ctx i w))"
| clear_failed: "system_step sv wc cc conf w (snd (DocumentClearFailed sv ctx w))"
| detail: "system_step sv wc cc conf w (snd (DocumentDetail sv ctx i w))"
| documents: "system_step sv wc cc conf w (snd (DocumentList sv ctx lreq w))"
| tasks: "system_step sv wc cc conf w (snd (AdminTaskList sv ctx lreq w))"
| logs: "system_step sv wc cc conf w (snd (AdminLogList sv ctx lreq w))"
| clear_tasks: "system_step sv wc cc conf w (snd (AdminTaskClear sv ctx w))"
| clear_logs: "system_step sv wc cc conf w (snd (AdminLogClear sv ctx i w))"
| new_subject: "system_step sv wc cc conf w (snd (SubjectCreate sv ctx sreq w))"
| edit_subject: "system_step sv wc cc conf w (snd (SubjectUpdate sv ctx sreq w))"
| show_subject: "system_step sv wc cc conf w (snd (SubjectDetail sv ctx i w))"
| subjects: "system_step sv wc cc conf w (snd (SubjectList sv ctx lreq w))"
| drop_subject: "system_step sv wc cc conf w (snd (SubjectDelete sv ctx i w))"

lemma system_step_reach:
  assumes "disciplined sv" and "system_step sv wc cc conf w w'"
  shows "tx_reach sv (w_db w) (w_db w')"
  using assms(2)
proof cases
  case worker
  then show ?thesis using run_reach [OF assms(1)] by simp
next
  case publisher
  then show ?thesis using publish_tick_reach [OF assms(1)] by simp
qed (use requests_reach [OF assms(1)] in \<open>simp_all add: reaches_def\<close>)

lemma system_reach:
  assumes "disciplined sv" and "(system_step sv wc cc conf)\<^sup>*\<^sup>* w w'"
  shows "tx_reach sv (w_db w) (w_db w')"
  using assms(2) by induction (auto intro: tx_reach_trans system_step_reach [OF assms(1)])

interpretation running_system:
  invariant_system "system_step sv wc cc conf" "\<lambda>w. disciplined sv \<and> db_ok (w_db w)" for sv wc cc conf
  by unfold_locales (blast intro: tx_reach_ok system_step_reach)

end
