(* ===== verification/RequestEffects.thy ===== *)
theory RequestEffects
  imports RequestSteps Stages
begin

text \<open>
  What the requests that write leave behind: the rows of an upload, and the rows of a deleted
  knowledge base.
\<close>

section \<open>Uploading\<close>

lemma current_user_Inr [simp]: "current_user ctx w = (Inr u, w') \<longleftrightarrow> CurrentUser ctx = Inr u \<and> w' = w"
  by (auto simp: current_user_def)

lemma lit_text_id: "set s \<subseteq> {0..<256} \<Longrightarrow> lit (text_id s) = s"
  by (induction s) (auto simp: lit_def text_id_def of_char_of)

lemma set_lit: "set (lit s) \<subseteq> {0..<256}"
  by (auto simp: lit_def)

lemma trim_id_idem [simp]: "trim_id (trim_id i) = trim_id i"
proof -
  have "lit (trim_id i) = TrimSpace (lit i)"
    unfolding trim_id_def by (rule lit_text_id) (use set_TrimSpace set_lit in blast)
  then show ?thesis by (simp add: trim_id_def [of "trim_id i"]) (simp add: trim_id_def)
qed

lemma new_uuid_Inr: "new_uuid sv w = (Inr i, w') \<Longrightarrow> w_db w' = w_db w \<and> w_log w' = w_log w"
  by (auto simp: new_uuid_def)

lemma time_now_Inr: "time_now sv w = (Inr t, w') \<Longrightarrow> w' = w"
  by (simp add: time_now_def)

text \<open>The three rows of an upload appear in one transaction.\<close>

lemma CreateWithIndexTask_Inr:
  assumes "CreateWithIndexTask sha now doc t d = (Inr u, d')" and "db_ok d"
  shows "d' = d\<lparr>documents := documents d @ [document_insert_row doc],
    index_tasks := index_tasks d @ [task_insert_row t],
    task_outbox := task_outbox d @ [new_outbox_row sha now t]\<rparr>"
proof -
  let ?d = "d\<lparr>documents := documents d @ [document_insert_row doc]\<rparr>"
  have ins: "insert_task sha now t ?d = (Inr (), d')"
    using assms(1) by (auto simp: CreateWithIndexTask_def split: if_splits prod.splits sum.splits)
  then have new: "\<forall>r \<in> set (index_tasks d). task_id r \<noteq> task_id t"
    and enq: "enqueueOutbox sha now t False (?d\<lparr>index_tasks := index_tasks d @ [task_insert_row t]\<rparr>) = (Inr (), d')"
    by (auto simp: insert_task_def tbl_affected_zero simp del: neq0_conv split: if_splits)
  have "\<forall>r \<in> set (task_outbox d). ob_task_id r \<noteq> task_id t"
    by (rule no_message_without_task [OF _ new]) (use assms(2) in \<open>simp add: db_ok_def\<close>)
  with enq show ?thesis by (cases rule: enqueueOutbox_cases) auto
qed

lemma upload_record_Inr:
  assumes "disciplined sv" and "db_ok (w_db w)"
    and "upload_record sv conf user input s i fn bytes now w = (Inr info, w')"
  defines "doc \<equiv> new_document sv conf user s i fn (ui_file input) bytes now"
  obtains t commit d where "tx_reach sv (w_db w) d" and "w_log w' = w_log w" and "info = document_ToInfo doc"
    and "task_doc t = i" and "task_type t = ParseTask" and "task_status t = Pending"
    and "w_db w' = d\<lparr>documents := documents d @ [document_insert_row doc],
      index_tasks := index_tasks d @ [task_insert_row t],
      task_outbox := task_outbox d @ [new_outbox_row (sv_sha sv) commit t]\<rparr>"
proof -
  obtain tid w1 where w1: "new_uuid sv w = (Inr tid, w1)" and "upload_save sv user (ui_mode input) doc tid w1 = (Inr info, w')"
    using assms(3) unfolding upload_record_def doc_def by (auto elim: attempt_Inr)
  define t where "t = document_task doc tid (us_tenant user) (us_id user) ParseTask
         (JValue (NormalizeProcessingMode (ui_mode input))) [] (doc_created_at doc)"
  have "upload_save sv user (ui_mode input) doc tid w1 = (Inr info, w')" by fact
  then have info: "info = document_ToInfo doc"
    and tx: "run_tx sv (\<lambda>now. CreateWithIndexTask (sv_sha sv) now doc t) w1 = (Inr (), w')"
    unfolding upload_save_def t_def by (auto elim!: attempt_Inr)
  from run_tx_Inr [OF tx] obtain commit e d where
    pg: "sv_pg sv (w_ext w1) (w_db w1) = (Executed, e, d)"
    and cr: "CreateWithIndexTask (sv_sha sv) commit doc t d = (Inr (), w_db w')" by blast
  have "tx_reach sv (w_db w) d"
    using pg assms(1) new_uuid_Inr [OF w1] by (auto simp: disciplined_def tx_reach_def)
  moreover from tx_reach_ok [OF this assms(2)] have "db_ok d" .
  moreover have "w_log w' = w_log w"
    using run_tx_log [of sv _ w1] tx new_uuid_Inr [OF w1] by (metis snd_conv)
  moreover have "task_doc t = i" "task_type t = ParseTask" "task_status t = Pending"
    by (simp_all add: t_def document_task_def doc_def new_document_def)
  ultimately show ?thesis using that CreateWithIndexTask_Inr [OF cr] info by blast
qed

lemma run_read_Inr:
  assumes "disciplined sv" and "run_tx sv (\<lambda>_. q) w = (Inr a, w')" and "\<And>d. snd (q d) = d"
  shows "tx_reach sv (w_db w) (w_db w')" and "w_log w' = w_log w" and "fst (q (w_db w')) = Inr a"
proof -
  from run_tx_Inr [OF assms(2)] obtain e d where
    pg: "sv_pg sv (w_ext w) (w_db w) = (Executed, e, d)" and q: "q d = (Inr a, w_db w')" by metis
  from q assms(3) [of d] have d: "d = w_db w'" by simp
  with q show "fst (q (w_db w')) = Inr a" by simp
  from pg d assms(1) show "tx_reach sv (w_db w) (w_db w')" by (auto simp: disciplined_def tx_reach_def)
  show "w_log w' = w_log w" using run_tx_log [of sv _ w] assms(2) by (metis snd_conv)
qed

lemma upload_content_Inr:
  assumes "upload_content sv conf user input s i fn dup w = (Inr info, w')"
  obtains bytes now w1 where "\<not> dup" and "uf_bytes (ui_file input) = Inr bytes"
    and "w_db w1 = w_db w"
    and "w_log w1 = w_log w @ [ObjectStored (ac_bucket conf) (object_name (us_tenant user) i fn)]"
    and "upload_record sv conf user input s i fn bytes now w1 = (Inr info, w')"
proof -
  obtain bytes where b: "\<not> dup" "uf_bytes (ui_file input) = Inr bytes"
    and m: "attempt (call_ext (sv_put_object sv (ac_bucket conf) (object_name (us_tenant user) i fn))
          [ObjectStored (ac_bucket conf) (object_name (us_tenant user) i fn)])
        (\<lambda>_. attempt (time_now sv) (upload_record sv conf user input s i fn bytes)) w = (Inr info, w')"
    using assms unfolding upload_content_def Let_def
    by (auto split: if_splits sum.splits option.splits)
  from m obtain u w1 now w2 where p: "call_ext (sv_put_object sv (ac_bucket conf) (object_name (us_tenant user) i fn))
          [ObjectStored (ac_bucket conf) (object_name (us_tenant user) i fn)] w = (Inr u, w1)"
    and "time_now sv w1 = (Inr now, w2)" and "upload_record sv conf user input s i fn bytes now w2 = (Inr info, w')"
    by (auto elim!: attempt_Inr)
  moreover from this(2) have "w2 = w1" by (rule time_now_Inr)
  moreover from p have "w_db w1 = w_db w" "w_log w1 = w_log w @ [ObjectStored (ac_bucket conf) (object_name (us_tenant user) i fn)]"
    by (auto simp: call_ext_def split: prod.splits option.splits)
  ultimately show ?thesis using that b by blast
qed

lemma upload_into_Inr:
  assumes "disciplined sv" and "upload_into sv conf user input s sub w = (Inr info, w')"
  obtains i w1 where "canWriteSubject sub (us_id user)" and "tx_reach sv (w_db w) (w_db w1)"
    and "w_log w1 = w_log w"
    and "fst (ExistsActiveFilename (us_id user) s (filepath_Base (uf_name (ui_file input))) (w_db w1)) = Inr False"
    and "upload_content sv conf user input s i (filepath_Base (uf_name (ui_file input))) False w1 = (Inr info, w')"
proof -
  let ?fn = "filepath_Base (uf_name (ui_file input))"
  from assms(2) obtain i w0 where can: "canWriteSubject sub (us_id user)" and u: "new_uuid sv w = (Inr i, w0)"
    and n: "upload_named sv conf user input s i w0 = (Inr info, w')"
    unfolding upload_into_def by (auto elim!: attempt_Inr split: if_splits)
  from n obtain dup w1 where r: "run_tx sv (\<lambda>_. ExistsActiveFilename (us_id user) s ?fn) w0 = (Inr dup, w1)"
    and c: "upload_content sv conf user input s i ?fn dup w1 = (Inr info, w')"
    unfolding upload_named_def Let_def by (auto elim!: attempt_Inr split: if_splits)
  note rd = run_read_Inr [OF assms(1) r, simplified]
  from c have "\<not> dup" by (rule upload_content_Inr)
  with rd c new_uuid_Inr [OF u] can show ?thesis using that by simp
qed

section \<open>Deleting a knowledge base\<close>

lemma SoftDeleteByOwner_True:
  assumes "SoftDeleteByOwner now i user tenant d = (Inr True, d')"
  shows "(\<exists>s \<in> set (subjects d). owned i user tenant s) \<and>
    subjects d' = tbl_update (owned i user tenant)
      (\<lambda>r. r\<lparr>subj_deleted_at := Some now, subj_updated_at := now\<rparr>) (subjects d) \<and>
    (\<forall>r \<in> set (documents d'). doc_subject r = i \<and> doc_user r = user \<and> doc_tenant r = tenant \<longrightarrow> \<not> live_doc r) \<and>
    (\<forall>c \<in> set (document_chunks d'). ch_subject c = i \<and> ch_user c = user \<and> ch_tenant c = tenant \<longrightarrow> \<not> live_chunk c)"
proof (intro conjI ballI impI)
  have hit: "tbl_affected (owned i user tenant) (subjects d) \<noteq> 0"
    and d': "d' = soft_delete_chunks now (\<lambda>c. ch_subject c = i \<and> ch_user c = user \<and> ch_tenant c = tenant)
      (soft_delete_documents now (\<lambda>r. doc_subject r = i \<and> doc_user r = user \<and> doc_tenant r = tenant)
        (d\<lparr>subjects := tbl_update (owned i user tenant)
           (\<lambda>r. r\<lparr>subj_deleted_at := Some now, subj_updated_at := now\<rparr>) (subjects d)\<rparr>))"
    using assms by (simp_all add: SoftDeleteByOwner_def Let_def split: if_splits)
  from hit show "\<exists>s \<in> set (subjects d). owned i user tenant s"
    by (auto simp: tbl_affected_zero simp del: neq0_conv)
  have "subjects d' = tbl_update (owned i user tenant)
      (\<lambda>r. r\<lparr>subj_deleted_at := Some now, subj_updated_at := now\<rparr>) (subjects d)"
    and docs: "documents d' = tbl_update (\<lambda>r. (doc_subject r = i \<and> doc_user r = user \<and> doc_tenant r = tenant) \<and> live_doc r)
      (\<lambda>r. r\<lparr>doc_deleted_at := Some now, doc_updated_at := now\<rparr>) (documents d)"
    and chunks: "document_chunks d' = tbl_update (\<lambda>c. (ch_subject c = i \<and> ch_user c = user \<and> ch_tenant c = tenant) \<and> live_chunk c)
      (\<lambda>c. c\<lparr>ch_deleted_at := Some now, ch_updated_at := now\<rparr>) (document_chunks d)"
    unfolding d' by (simp_all add: soft_delete_chunks_def soft_delete_documents_def)
  note rows = this(1) docs chunks
  show "subjects d' = tbl_update (owned i user tenant)
      (\<lambda>r. r\<lparr>subj_deleted_at := Some now, subj_updated_at := now\<rparr>) (subjects d)" by (rule rows(1))
  show "\<not> live_doc r" if "r \<in> set (documents d')"
    and "doc_subject r = i \<and> doc_user r = user \<and> doc_tenant r = tenant" for r
    using that(1) unfolding rows by (cases rule: tbl_updateE) (use that(2) in \<open>auto simp: live_doc_def\<close>)
  show "\<not> live_chunk c" if "c \<in> set (document_chunks d')"
    and "ch_subject c = i \<and> ch_user c = user \<and> ch_tenant c = tenant" for c
    using that(1) unfolding rows by (cases rule: tbl_updateE) (use that(2) in \<open>auto simp: live_chunk_def\<close>)
qed

text \<open>No transaction of any process creates a second knowledge base with an identifier in use.\<close>

definition subject_ids_ok :: "db \<Rightarrow> bool" where
  "subject_ids_ok d \<longleftrightarrow> distinct (map subj_id (subjects d))"

lemma enqueueOutbox_subjects: "subjects (snd (enqueueOutbox sha now t b d)) = subjects d"
  by (simp add: enqueueOutbox_def)

lemma insert_task_subjects:
  assumes "insert_task sha now t d = (r, d')"
  shows "subjects d' = subjects d"
proof -
  have "subjects (snd (insert_task sha now t d)) = subjects d"
    by (simp add: insert_task_def enqueueOutbox_subjects)
  with assms show ?thesis by simp
qed

lemma subjects_frame:
  "subjects (snd (CreateWithIndexTask sha now doc t d)) = subjects d"
  "subjects (snd (task_Create sha now t d)) = subjects d"
  "subjects (snd (CreateDeleteTask sha now i user t d)) = subjects d"
  "subjects (snd (task_UpdateStatus now i s e d)) = subjects d"
  "subjects (snd (Claim now i lease d)) = subjects d"
  "subjects (snd (ScheduleRetry now i m d)) = subjects d"
  "subjects (snd (Retry sha now i user d)) = subjects d"
  "subjects (snd (ClearTerminalByUser now user d)) = subjects d"
  "subjects (snd (doc_UpdateStatus now i ds e d)) = subjects d"
  "subjects (snd (CompleteParse now i text meta d)) = subjects d"
  "subjects (snd (ResetStatusForRetry now i ds d)) = subjects d"
  "subjects (snd (CompleteDelete now i d)) = subjects d"
  "subjects (snd (ClearFailedByUser now user d)) = subjects d"
  "subjects (snd (AddParseLog l d)) = subjects d"
  "subjects (snd (ClearParseLogsByUser user subject d)) = subjects d"
  "subjects (snd (ReplaceByDocument cs d)) = subjects d"
  "subjects (snd (ClaimBatch now limit d)) = subjects d"
  "subjects (snd (MarkPublished now i d)) = subjects d"
  "subjects (snd (MarkFailed now i msg d)) = subjects d"
  by (auto simp: tx_defs Let_def dest: insert_task_subjects
      split: prod.split option.split list.split sum.split)

lemma tx_step_subject_ids:
  assumes "tx_step sha d d'" and "subject_ids_ok d"
  shows "subject_ids_ok d'"
  using assms
proof cases
  case (new_subject lower s)
  with assms(2) show ?thesis
    by (auto simp: subject_ids_ok_def subject_Create_def insert_subject_def tbl_affected_zero
        simp del: neq0_conv split: prod.split sum.split)
next
  case (edit_subject lower s)
  with assms(2) show ?thesis by (simp add: subject_ids_ok_def UpdateByOwner_def Let_def map_tbl_update)
next
  case (drop_subject now i user tenant)
  with assms(2) show ?thesis by (simp add: subject_ids_ok_def SoftDeleteByOwner_def Let_def map_tbl_update)
qed (simp_all add: subject_ids_ok_def subjects_frame)

interpretation subject_ids: invariant_system "tx_step sha" subject_ids_ok for sha
  by unfold_locales (rule tx_step_subject_ids)

lemma SubjectDelete_Inr:
  assumes "SubjectDelete sv ctx i0 w = (Inr deleted, w')"
  obtains user w1 where "CurrentUser ctx = Inr user" and "trim_id i0 \<noteq> []"
    and "w_db w1 = w_db w" and "w_log w1 = w_log w @ [SubjectVectorsDeleted (us_id user) (trim_id i0)]"
    and "run_tx sv (\<lambda>now. SoftDeleteByOwner now (trim_id i0) (us_id user) (us_tenant user)) w1 = (Inr deleted, w')"
proof -
  from assms obtain user w1 where c: "CurrentUser ctx = Inr user" "trim_id i0 \<noteq> []"
    and e: "call_ext (sv_delete_subject sv (us_id user) (trim_id i0))
        [SubjectVectorsDeleted (us_id user) (trim_id i0)] w = (Inr (), w1)"
    and t: "run_tx sv (\<lambda>now. SoftDeleteByOwner now (trim_id i0) (us_id user) (us_tenant user)) w1 = (Inr deleted, w')"
    unfolding SubjectDelete_def Let_def by (auto elim!: attempt_Inr split: if_splits)
  from e have "w_db w1 = w_db w" "w_log w1 = w_log w @ [SubjectVectorsDeleted (us_id user) (trim_id i0)]"
    by (auto simp: call_ext_def split: prod.splits option.splits)
  with c t that show ?thesis by blast
qed

end
