(* ===== verification/RequestProperties.thy ===== *)
theory RequestProperties
  imports RequestEffects Fixtures
begin

text \<open>
  The properties of the requests and of the running system, applied in a small world.
\<close>

definition user1 :: user_session where
  "user1 = \<lparr>us_id = ''u1'', us_tenant = ''t1'', us_username = [], us_email = []\<rparr>"

definition base1 :: subject where
  "base1 = \<lparr>subj_id = ''s1'', subj_tenant = ''t1'', subj_name = lit ''Papers'', subj_description = [],
     subj_owner = ''u1'', subj_visibility = Private, subj_created_at = 0, subj_updated_at = 0\<rparr>"

definition base_db :: db where
  "base_db = snd (subject_Create (ToLower ascii_tables) base1 empty_db)"

definition base_world :: "unit world" where
  "base_world = \<lparr>w_db = base_db, w_ext = (), w_log = []\<rparr>"

definition app1 :: app_conf where
  "app1 = \<lparr>ac_bucket = lit ''b'', ac_provider = [], ac_model = lit ''m'', ac_dimension = 3,
     ac_chunk_version = lit ''v1''\<rparr>"

definition form1 :: upload_form where
  "form1 = \<lparr>fm_error = None,
     fm_file = Inr \<lparr>uf_name = lit ''a.txt'', uf_size = 2, uf_bytes = Inr (lit ''hi''), uf_seek = None\<rparr>,
     fm_subject = ''s1'', fm_mode = []\<rparr>"

lemma base_ok [simp]: "db_ok (w_db base_world)"
proof -
  have "tx_step (\<lambda>s. s) empty_db base_db" unfolding base_db_def by (rule tx_step.new_subject)
  then show ?thesis using tx_step_ok db_ok_empty by (simp add: base_world_def)
qed

text \<open>C18
  An upload that returns without an error is durable and complete: the current user owned the
  open knowledge base, the file was accepted by the object store under the name that the document
  records, and one transaction then inserted the document, its pending parse task and the message
  that will start the parsing. This holds for every fault of the outside and whatever other
  processes commit in between.
\<close>

theorem upload_is_durable:
  assumes "disciplined sv" and "db_ok (w_db w)"
    and "DocumentUpload sv conf ctx form w = (Inr info, w')"
  shows "\<exists>user s doc t commit d0 d.
    CurrentUser ctx = Inr user \<and> tx_reach sv (w_db w) d0 \<and> tx_reach sv d0 d \<and>
    s \<in> set (subjects d0) \<and> accessible (trim_id (fm_subject form)) (us_id user) (us_tenant user) s \<and>
    trim_id (subj_owner s) = trim_id (us_id user) \<and>
    w_log w' = w_log w @ [ObjectStored (ac_bucket conf) (object_name (us_tenant user) (doc_id doc) (doc_filename doc))] \<and>
    doc_file_url doc = lit ''minio://'' @ ac_bucket conf @ lit ''/'' @
      object_name (us_tenant user) (doc_id doc) (doc_filename doc) \<and>
    doc_user doc = us_id user \<and> doc_tenant doc = us_tenant user \<and>
    doc_subject doc = trim_id (fm_subject form) \<and> doc_status doc = Uploaded \<and>
    task_doc t = doc_id doc \<and> task_type t = ParseTask \<and> task_status t = Pending \<and>
    w_db w' = d\<lparr>documents := documents d @ [document_insert_row doc],
      index_tasks := index_tasks d @ [task_insert_row t],
      task_outbox := task_outbox d @ [new_outbox_row (sv_sha sv) commit t]\<rparr> \<and>
    info = document_ToInfo doc"
proof -
  from assms(3) obtain input user where p: "ParseRequest form = Inr input" and u: "CurrentUser ctx = Inr user"
    and up: "upload_as sv conf input (trim_id (ui_subject input)) user w = (Inr info, w')"
    unfolding DocumentUpload_def Let_def by (auto elim!: attempt_Inr split: sum.splits if_splits)
  let ?i = "trim_id (fm_subject form)"
  have s: "trim_id (ui_subject input) = ?i"
    using p by (auto simp: ParseRequest_def parseRequest_def trim_id_idem split: option.splits sum.splits if_splits prod.splits)
  obtain sub w1 where g: "run_tx sv (\<lambda>_. GetAccessibleByID ?i (us_id user) (us_tenant user)) w = (Inr sub, w1)"
    and into: "upload_into sv conf user input ?i sub w1 = (Inr info, w')"
    using up unfolding upload_as_def s by (auto elim!: attempt_Inr)
  note rd = run_read_Inr [OF assms(1) g, simplified]
  from rd(3) obtain r where r: "r \<in> set (subjects (w_db w1))" "accessible ?i (us_id user) (us_tenant user) r"
    and sub: "sub = subject.truncate r"
    using GetAccessibleByID_Inr [of ?i "us_id user" "us_tenant user" "w_db w1" sub] by (metis prod.collapse)
  obtain i w2 where can: "canWriteSubject sub (us_id user)" and r2: "tx_reach sv (w_db w1) (w_db w2)"
    and l2: "w_log w2 = w_log w1"
    and c: "upload_content sv conf user input ?i i (filepath_Base (uf_name (ui_file input))) False w2 = (Inr info, w')"
    by (rule upload_into_Inr [OF assms(1) into]) blast
  obtain bytes now w3 where w3: "w_db w3 = w_db w2"
    "w_log w3 = w_log w2 @ [ObjectStored (ac_bucket conf) (object_name (us_tenant user) i (filepath_Base (uf_name (ui_file input))))]"
    and rec: "upload_record sv conf user input ?i i (filepath_Base (uf_name (ui_file input))) bytes now w3 = (Inr info, w')"
    by (rule upload_content_Inr [OF c]) blast
  have "db_ok (w_db w3)" using w3 r2 rd(1) tx_reach_ok [OF _ assms(2)] tx_reach_trans by metis
  from upload_record_Inr [OF assms(1) this rec]
  obtain t commit d where d: "tx_reach sv (w_db w3) d" "w_log w' = w_log w3"
    "info = document_ToInfo (new_document sv conf user ?i i (filepath_Base (uf_name (ui_file input))) (ui_file input) bytes now)"
    "task_doc t = i" "task_type t = ParseTask" "task_status t = Pending"
    "w_db w' = d\<lparr>documents := documents d @ [document_insert_row (new_document sv conf user ?i i (filepath_Base (uf_name (ui_file input))) (ui_file input) bytes now)],
      index_tasks := index_tasks d @ [task_insert_row t],
      task_outbox := task_outbox d @ [new_outbox_row (sv_sha sv) commit t]\<rparr>" by metis
  have own: "trim_id (subj_owner r) = trim_id (us_id user)"
    using can by (simp add: canWriteSubject_def sub subject.truncate_def)
  show ?thesis
    by (intro exI [of _ user] exI [of _ r] exI [of _ "new_document sv conf user ?i i (filepath_Base (uf_name (ui_file input))) (ui_file input) bytes now"]
        exI [of _ t] exI [of _ commit] exI [of _ "w_db w1"] exI [of _ d])
      (use u r own rd d w3 r2 l2 tx_reach_trans in \<open>simp add: new_document_def\<close>)
qed

definition upload1 :: "(gerr + document_info) \<times> unit world" where
  "upload1 = DocumentUpload calm app1 (Some user1) form1 base_world"

lemma upload1_fst: "(case fst upload1 of Inr info \<Rightarrow> di_id info | Inl e \<Rightarrow> []) = ''u''"
  unfolding upload1_def by code_simp

lemma upload_is_durable_witness:
  "\<exists>r \<in> set (documents (w_db (snd upload1))). doc_status r = Uploaded \<and> doc_user r = ''u1''"
proof -
  obtain info where i: "DocumentUpload calm app1 (Some user1) form1 base_world = (Inr info, snd upload1)"
    using upload1_fst by (cases "fst upload1") (auto simp: upload1_def prod_eq_iff)
  have u: "CurrentUser (Some user1) = Inr user1" by code_simp
  from upload_is_durable [OF calm_disciplined base_ok i] u obtain doc t commit d where
    "doc_user doc = us_id user1" "doc_status doc = Uploaded"
    "w_db (snd upload1) = d\<lparr>documents := documents d @ [document_insert_row doc],
      index_tasks := index_tasks d @ [task_insert_row t],
      task_outbox := task_outbox d @ [new_outbox_row (sv_sha calm) commit t]\<rparr>" by auto
  then show ?thesis by (simp add: document_insert_row_def document.defs user1_def)
qed

text \<open>C19
  Deleting a knowledge base, when it succeeds: its vectors were removed from the vector store
  first; then, in one transaction, the knowledge base, the owner's documents in it and their
  chunks were all marked deleted. From then on the access check of the search and of every
  request fails for every user.
\<close>

theorem deleted_knowledge_base_is_gone:
  assumes "disciplined sv" and "subject_ids_ok (w_db w)"
    and "SubjectDelete sv ctx i w = (Inr True, w')"
  shows "\<exists>user. CurrentUser ctx = Inr user \<and>
    w_log w' = w_log w @ [SubjectVectorsDeleted (us_id user) (trim_id i)] \<and>
    (\<forall>u t. fst (ExistsAccessible (trim_id i) u t (w_db w')) = Inr False) \<and>
    (\<forall>r \<in> set (documents (w_db w')). doc_subject r = trim_id i \<and> doc_user r = us_id user \<and>
       doc_tenant r = us_tenant user \<longrightarrow> \<not> live_doc r) \<and>
    (\<forall>c \<in> set (document_chunks (w_db w')). ch_subject c = trim_id i \<and> ch_user c = us_id user \<and>
       ch_tenant c = us_tenant user \<longrightarrow> \<not> live_chunk c)"
proof -
  obtain user w1 where u: "CurrentUser ctx = Inr user" and w1: "w_db w1 = w_db w"
    "w_log w1 = w_log w @ [SubjectVectorsDeleted (us_id user) (trim_id i)]"
    and t: "run_tx sv (\<lambda>now. SoftDeleteByOwner now (trim_id i) (us_id user) (us_tenant user)) w1 = (Inr True, w')"
    by (rule SubjectDelete_Inr [OF assms(3)])
  from run_tx_Inr [OF t] obtain now e d where
    pg: "sv_pg sv (w_ext w1) (w_db w1) = (Executed, e, d)"
    and del: "SoftDeleteByOwner now (trim_id i) (us_id user) (us_tenant user) d = (Inr True, w_db w')" by blast
  have "subject_ids_ok d"
    using pg assms(1,2) w1 subject_ids.run_keeps by (metis disciplined_def)
  then have ids: "distinct (map subj_id (subjects d))" by (simp add: subject_ids_ok_def)
  note gone = SoftDeleteByOwner_True [OF del]
  then have rows: "subjects (w_db w') = tbl_update (owned (trim_id i) (us_id user) (us_tenant user))
      (\<lambda>r. r\<lparr>subj_deleted_at := Some now, subj_updated_at := now\<rparr>) (subjects d)" by blast
  from gone obtain s0 where s0: "s0 \<in> set (subjects d)" "owned (trim_id i) (us_id user) (us_tenant user) s0"
    by blast
  have "\<not> accessible (trim_id i) v tn s" if "s \<in> set (subjects (w_db w'))" for s v tn
    using that unfolding rows
  proof (cases rule: tbl_updateE)
    case miss
    then have "subj_id s \<noteq> trim_id i" using key_unique [OF ids miss(1) s0(1)] s0(2) by (auto simp: owned_def)
    then show ?thesis by (simp add: accessible_def)
  qed (simp add: accessible_def open_subject_def)
  then have "\<forall>v tn. fst (ExistsAccessible (trim_id i) v tn (w_db w')) = Inr False"
    by (simp add: ExistsAccessible_def)
  moreover have "w_log w' = w_log w @ [SubjectVectorsDeleted (us_id user) (trim_id i)]"
    using run_tx_log [of sv _ w1] t w1 by (metis snd_conv)
  ultimately show ?thesis using u gone by (intro exI [of _ user] conjI) blast+
qed

definition delete1 :: "(gerr + bool) \<times> unit world" where
  "delete1 = SubjectDelete calm (Some user1) ''s1'' (snd upload1)"

lemma deleted_knowledge_base_is_gone_witness:
  "fst (ExistsAccessible ''s1'' ''u1'' ''t1'' (w_db (snd upload1))) = Inr True \<and>
   fst (ExistsAccessible ''s1'' ''u1'' ''t1'' (w_db (snd delete1))) = Inr False"
proof -
  have before: "fst (ExistsAccessible ''s1'' ''u1'' ''t1'' (w_db (snd upload1))) = Inr True"
    unfolding upload1_def by code_simp
  have "fst delete1 = Inr True" unfolding delete1_def upload1_def by code_simp
  then have d: "SubjectDelete calm (Some user1) ''s1'' (snd upload1) = (Inr True, snd delete1)"
    by (simp add: delete1_def prod_eq_iff)
  have ids: "subject_ids_ok (w_db (snd upload1))"
    unfolding subject_ids_ok_def upload1_def by code_simp
  have i: "trim_id ''s1'' = ''s1''" by code_simp
  from deleted_knowledge_base_is_gone [OF calm_disciplined ids d] i before show ?thesis by auto
qed

text \<open>
  Whatever creates, renames and deletes knowledge bases, in any order: identifiers are unique, and
  no owner has two live knowledge bases whose names are equal in lower case. A creation or
  renaming that would break this is refused, and changes nothing.
\<close>

theorem knowledge_base_names_are_unique:
  assumes "(subject_step lower)\<^sup>*\<^sup>* empty_db d"
  shows "distinct (map subj_id (subjects d)) \<and>
    (\<forall>r \<in> set (subjects d). \<forall>s \<in> set (subjects d).
       subj_deleted_at r = None \<and> subj_deleted_at s = None \<and> subj_owner r = subj_owner s \<and>
       lower (subj_name r) = lower (subj_name s) \<longrightarrow> r = s) \<and>
    (\<forall>s. fst (subject_Create lower s d) = Inl (Sentinel SubjectNameExists) \<longrightarrow>
       snd (subject_Create lower s d) = d) \<and>
    (\<forall>s r. r \<in> set (subjects d) \<and> name_taken lower (subj_owner s) (subj_name s) r \<longrightarrow>
       (\<exists>e. subject_Create lower s d = (Inl e, d)))"
proof -
  have ok: "subjects_ok lower d"
    by (rule subject_names.run_keeps [OF assms]) (simp add: subjects_ok_def empty_db_def)
  have "s = r" if "r \<in> set (subjects d)" "s \<in> set (subjects d)" "subj_deleted_at r = None"
    "subj_deleted_at s = None" "subj_owner r = subj_owner s" "lower (subj_name r) = lower (subj_name s)" for r s
  proof -
    have "name_taken lower (subj_owner r) (subj_name r) s" "open_subject r"
      using that by (simp_all add: name_taken_def open_subject_def)
    with ok that show ?thesis unfolding subjects_ok_def by blast
  qed
  moreover have "snd (subject_Create lower s d) = d" if "fst (subject_Create lower s d) = Inl e" for s e
    using that by (auto simp: subject_Create_def insert_subject_def split: if_splits)
  moreover have "\<exists>e. subject_Create lower s d = (Inl e, d)"
    if "r \<in> set (subjects d)" "name_taken lower (subj_owner s) (subj_name s) r" for s r
    using that by (auto simp: subject_Create_def insert_subject_def tbl_affected_zero simp del: neq0_conv)
  ultimately show ?thesis using ok unfolding subjects_ok_def by blast
qed

lemma knowledge_base_names_are_unique_witness:
  "subject_Create (ToLower ascii_tables) (base1\<lparr>subj_id := ''s2'', subj_name := lit ''papers''\<rparr>) base_db =
     (Inl (Sentinel SubjectNameExists), base_db)"
proof -
  let ?s = "base1\<lparr>subj_id := ''s2'', subj_name := lit ''papers''\<rparr>" and ?l = "ToLower ascii_tables"
  have "(subject_step ?l)\<^sup>*\<^sup>* empty_db base_db"
    unfolding base_db_def by (rule r_into_rtranclp) (rule subject_step.create)
  moreover have "fst (subject_Create ?l ?s base_db) = Inl (Sentinel SubjectNameExists)" by code_simp
  ultimately show ?thesis using knowledge_base_names_are_unique [of ?l base_db] by (simp add: prod_eq_iff)
qed

text \<open>C20
  The whole system at work: any sequence of uploads, deletions, retries, clean-ups, lists and
  changes of knowledge bases, of worker runs on any messages and of ticks of the publisher, with
  any faults of the outside, keeps the database consistent; no document is ever lost, changes its
  owner, tenant or file, or comes back once deleted; and a task once successful stays so.
\<close>

theorem system_keeps_the_invariant:
  assumes "disciplined sv" and "db_ok (w_db w)" and "(system_step sv wc cc conf)\<^sup>*\<^sup>* w w'"
  shows "db_ok (w_db w') \<and>
    (\<forall>i r. doc_by_id i (w_db w) = Some r \<longrightarrow> (\<exists>s. doc_by_id i (w_db w') = Some s \<and>
       doc_user s = doc_user r \<and> doc_tenant s = doc_tenant r \<and> doc_file_url s = doc_file_url r \<and>
       (doc_deleted_at r \<noteq> None \<longrightarrow> s = r))) \<and>
    (\<forall>i t. task_by_id i (w_db w) = Some t \<longrightarrow> (\<exists>s. task_by_id i (w_db w') = Some s \<and>
       (task_status t = Success \<longrightarrow> task_status s = Success)))"
proof -
  have ok: "db_ok (w_db w')" using running_system.run_keeps [OF assms(3)] assms(1,2) by blast
  have h: "(tx_step (sv_sha sv))\<^sup>*\<^sup>* (w_db w) (w_db w')"
    using system_reach [OF assms(1,3)] by (simp add: tx_reach_def)
  have "\<exists>s. doc_by_id i (w_db w') = Some s \<and> doc_user s = doc_user r \<and> doc_tenant s = doc_tenant r \<and>
      doc_file_url s = doc_file_url r \<and> (doc_deleted_at r \<noteq> None \<longrightarrow> s = r)"
    if "doc_by_id i (w_db w) = Some r" for i r
    using doc_history [OF h that] by (auto dest!: doc_evolves_star simp: live_doc_def)
  moreover have "\<exists>s. task_by_id i (w_db w') = Some s \<and> (task_status t = Success \<longrightarrow> task_status s = Success)"
    if "task_by_id i (w_db w) = Some t" for i t
    using task_history [OF h that] by (auto dest!: task_evolves_star)
  ultimately show ?thesis using ok by blast
qed

lemma system_keeps_the_invariant_witness: "db_ok (w_db (snd delete1)) \<and> length (documents (w_db (snd delete1))) = 1"
proof -
  let ?step = "system_step calm \<lparr>wk_parse = 1, wk_chunk = 1, wk_embedding = 1, wk_delete = 1,
    wk_task_timeout = 60, wk_shutdown_timeout = 5\<rparr> \<lparr>cc_version = [], cc_size = 800, cc_overlap = 120,
    cc_min_size = 120, cc_lookback = 160\<rparr> app1"
  have "?step base_world (snd upload1)" unfolding upload1_def by (rule system_step.upload)
  moreover have "?step (snd upload1) (snd delete1)" unfolding delete1_def by (rule system_step.drop_subject)
  ultimately have "?step\<^sup>*\<^sup>* base_world (snd delete1)" by (meson converse_rtranclp_into_rtranclp r_into_rtranclp)
  from system_keeps_the_invariant [OF calm_disciplined base_ok this]
  have "db_ok (w_db (snd delete1))" by blast
  moreover have "length (documents (w_db (snd delete1))) = 1" unfolding delete1_def upload1_def by code_simp
  ultimately show ?thesis by blast
qed

end
