(* ===== verification/ChatDb.thy ===== *)
theory ChatDb
  imports ApiTypes Subjects
begin

text \<open>
  The chat tables and their repositories: \<open>internal/model/run.go\<close>, \<open>internal/model/chat.go\<close>,
  \<open>internal/repository/postgres/runrepo.go\<close> and \<open>chatrepo.go\<close>. They live in the same database as
  the documents and knowledge bases. Every operation is one transaction.
\<close>

section \<open>The rows\<close>

text \<open>What the agent answers; a run stores it as its result.\<close>

record agent_result =
  ar_answer :: gostr
  ar_chunks :: "retrieval_chunk list"
  ar_links :: "external_link list"
  ar_metrics :: retrieval_metrics
  ar_steps :: "agent_step list"

record chat_run =
  run_id :: uid
  run_tenant :: uid
  run_user :: uid
  run_session :: uid
  run_message :: uid
  run_subject :: uid
  run_status :: run_status
  run_request :: "chat_ask_req json"
  run_result :: "agent_result json"
  run_error :: gostr
  run_cancel_requested :: bool
  run_created_at :: int
  run_updated_at :: int
  run_completed_at :: "int option"

text \<open>The payloads of the events of a run.\<close>

datatype event_payload =
    PRun uid
  | PMessage gostr
  | PStep agent_step
  | PSources "retrieval_chunk list"
  | PLinks "external_link list"
  | PMetrics retrieval_metrics
  | PContent gostr

record chat_run_event =
  ev_run :: uid
  ev_sequence :: int
  ev_tenant :: uid
  ev_type :: string
  ev_payload :: event_payload
  ev_created_at :: int

record message_metadata =
  mm_metrics :: retrieval_metrics
  mm_label :: gostr
  mm_model :: gostr
  mm_web_search :: bool
  mm_links :: "external_link list"
  mm_steps :: "agent_step list"

record chat_message =
  cm_id :: uid
  cm_tenant :: uid
  cm_session :: uid
  cm_user :: uid
  cm_question :: gostr
  cm_answer :: gostr
  cm_citations :: "retrieval_chunk list json"
  cm_metadata :: "message_metadata json"
  cm_created_at :: int

record chat_session =
  se_id :: uid
  se_tenant :: uid
  se_user :: uid
  se_subject :: uid
  se_title :: gostr
  se_llm_provider :: gostr
  se_llm_model :: gostr
  se_created_at :: int
  se_updated_at :: int

record session_row = chat_session +
  se_deleted_at :: "int option"

record chat_store =
  cs_base :: db
  chat_sessions :: "session_row list"
  chat_messages :: "chat_message list"
  chat_runs :: "chat_run list"
  chat_run_events :: "chat_run_event list"

type_synonym 'a ctx = "chat_store \<Rightarrow> (gerr + 'a) \<times> chat_store"

definition on_base :: "'a tx \<Rightarrow> 'a ctx" where
  "on_base q s = (fst (q (cs_base s)), s\<lparr>cs_base := snd (q (cs_base s))\<rparr>)"

text \<open>A \<open>VARCHAR(n)\<close> column refuses longer text.\<close>

definition too_long :: gerr where
  "too_long = Plain (lit ''ERROR: value too long for type character varying'')"

section \<open>Runs\<close>

definition runs_pkey :: gerr where
  "runs_pkey = Sentinel (UniqueViolation ''chat_runs_pkey'')"

text \<open>A new row has no result and no error, whatever the struct says.\<close>

definition run_insert_row :: "chat_run \<Rightarrow> chat_run" where
  "run_insert_row r = r\<lparr>run_result := JEmpty, run_error := [], run_cancel_requested := False,
     run_updated_at := run_created_at r, run_completed_at := None\<rparr>"

definition run_Create :: "chat_run \<Rightarrow> unit ctx" where
  "run_Create r s =
     (if tbl_affected (\<lambda>x. run_id x = run_id r) (chat_runs s) \<noteq> 0 then (Inl runs_pkey, s)
      else (Inr (), s\<lparr>chat_runs := chat_runs s @ [run_insert_row r]\<rparr>))"

definition own_run :: "uid \<Rightarrow> uid \<Rightarrow> uid \<Rightarrow> chat_run \<Rightarrow> bool" where
  "own_run i tenant user r \<longleftrightarrow> run_id r = i \<and> run_tenant r = tenant \<and> run_user r = user"

definition run_GetForUser :: "uid \<Rightarrow> uid \<Rightarrow> uid \<Rightarrow> chat_run ctx" where
  "run_GetForUser i tenant user s =
     (case tbl_first (own_run i tenant user) (chat_runs s) of
        None \<Rightarrow> (Inl (Sentinel PgxNoRows), s)
      | Some r \<Rightarrow> (Inr r, s))"

definition active :: "chat_run \<Rightarrow> bool" where
  "active r \<longleftrightarrow> run_status r = RunCreated \<or> run_status r = RunRunning"

text \<open>An \<open>UPDATE chat_runs\<close> of one's own run; the result is whether a row was affected.\<close>

definition update_run ::
    "uid \<Rightarrow> uid \<Rightarrow> uid \<Rightarrow> (chat_run \<Rightarrow> bool) \<Rightarrow> (chat_run \<Rightarrow> chat_run) \<Rightarrow> chat_store \<Rightarrow> bool \<times> chat_store" where
  "update_run i tenant user P f s =
     (let Q = (\<lambda>r. own_run i tenant user r \<and> P r)
      in (tbl_affected Q (chat_runs s) \<noteq> 0, s\<lparr>chat_runs := tbl_update Q f (chat_runs s)\<rparr>))"

definition coalesce_result :: "agent_result json \<Rightarrow> agent_result json \<Rightarrow> agent_result json" where
  "coalesce_result new old = (case new of JEmpty \<Rightarrow> old | _ \<Rightarrow> new)"

definition updateStatus ::
    "int \<Rightarrow> uid \<Rightarrow> uid \<Rightarrow> uid \<Rightarrow> run_status \<Rightarrow> gostr \<Rightarrow> agent_result json \<Rightarrow> bool \<Rightarrow> unit ctx" where
  "updateStatus now i tenant user status message result terminal s =
     (case update_run i tenant user active
         (\<lambda>r. r\<lparr>run_status := status, run_result := coalesce_result result (run_result r),
               run_error := message, run_completed_at := (if terminal then Some now else None),
               run_updated_at := now\<rparr>) s of
        (False, s') \<Rightarrow> (Inl (Sentinel PgxNoRows), s')
      | (True, s') \<Rightarrow> (Inr (), s'))"

definition MarkRunning :: "int \<Rightarrow> uid \<Rightarrow> uid \<Rightarrow> uid \<Rightarrow> unit ctx" where
  "MarkRunning now i tenant user = updateStatus now i tenant user RunRunning [] JEmpty False"

definition run_Fail :: "int \<Rightarrow> uid \<Rightarrow> uid \<Rightarrow> uid \<Rightarrow> run_status \<Rightarrow> gostr \<Rightarrow> unit ctx" where
  "run_Fail now i tenant user status message =
     updateStatus now i tenant user (if status \<noteq> RunCancelled then RunFailed else status) message JEmpty True"

text \<open>The first statement of \<open>Complete\<close>, and the second one, sent when the first affected no row.\<close>

definition complete_running ::
    "int \<Rightarrow> uid \<Rightarrow> uid \<Rightarrow> uid \<Rightarrow> agent_result json \<Rightarrow> bool ctx" where
  "complete_running now i tenant user result s =
     (case update_run i tenant user (\<lambda>r. run_status r = RunRunning \<and> \<not> run_cancel_requested r)
         (\<lambda>r. r\<lparr>run_status := RunCompleted, run_result := result, run_error := [],
               run_completed_at := Some now, run_updated_at := now\<rparr>) s of
        (b, s') \<Rightarrow> (Inr b, s'))"

definition complete_cancelled :: "int \<Rightarrow> uid \<Rightarrow> uid \<Rightarrow> uid \<Rightarrow> unit ctx" where
  "complete_cancelled now i tenant user s =
     (case update_run i tenant user (\<lambda>r. run_cancel_requested r \<and> active r)
         (\<lambda>r. r\<lparr>run_status := RunCancelled, run_error := err_text (Sentinel ContextCanceled),
               run_completed_at := Some now, run_updated_at := now\<rparr>) s of
        (True, s') \<Rightarrow> (Inl (Sentinel ContextCanceled), s')
      | (False, s') \<Rightarrow> (Inl (Sentinel PgxNoRows), s'))"

definition RequestCancel :: "int \<Rightarrow> uid \<Rightarrow> uid \<Rightarrow> uid \<Rightarrow> bool ctx" where
  "RequestCancel now i tenant user s =
     (case update_run i tenant user active (\<lambda>r. r\<lparr>run_cancel_requested := True, run_updated_at := now\<rparr>) s of
        (b, s') \<Rightarrow> (Inr b, s'))"

definition not_resumable :: gerr where
  "not_resumable = Plain (lit ''run is not resumable'')"

definition ResetForResume :: "int \<Rightarrow> uid \<Rightarrow> uid \<Rightarrow> uid \<Rightarrow> unit ctx" where
  "ResetForResume now i tenant user s =
     (case update_run i tenant user (\<lambda>r. run_status r = RunFailed \<or> run_status r = RunCancelled)
         (\<lambda>r. r\<lparr>run_status := RunCreated, run_result := JEmpty, run_error := [],
               run_cancel_requested := False, run_completed_at := None, run_updated_at := now\<rparr>) s of
        (False, s') \<Rightarrow> (Inl not_resumable, s')
      | (True, s') \<Rightarrow> (Inr (), s'))"

section \<open>Events\<close>

text \<open>\<open>COALESCE(MAX(sequence), 0)\<close> over the events of the run.\<close>

definition last_sequence :: "uid \<Rightarrow> chat_run_event list \<Rightarrow> int" where
  "last_sequence i events =
     (case map ev_sequence (filter (\<lambda>e. ev_run e = i) events) of [] \<Rightarrow> 0 | n # ns \<Rightarrow> foldl max n ns)"

definition AppendEvent :: "int \<Rightarrow> uid \<Rightarrow> uid \<Rightarrow> string \<Rightarrow> event_payload \<Rightarrow> int ctx" where
  "AppendEvent now i tenant ty payload s =
     (let sequence = last_sequence i (chat_run_events s) + 1
      in (Inr sequence, s\<lparr>chat_run_events := chat_run_events s @
            [\<lparr>ev_run = i, ev_sequence = sequence, ev_tenant = tenant, ev_type = ty,
              ev_payload = payload, ev_created_at = now\<rparr>]\<rparr>))"

definition event_visible :: "uid \<Rightarrow> uid \<Rightarrow> uid \<Rightarrow> int \<Rightarrow> chat_run list \<Rightarrow> chat_run_event \<Rightarrow> bool" where
  "event_visible i tenant user after runs e \<longleftrightarrow>
     ev_run e = i \<and> ev_tenant e = tenant \<and> ev_sequence e > after \<and>
     (\<exists>r \<in> set runs. run_id r = ev_run e \<and> run_user r = user)"

definition event_limit :: "int \<Rightarrow> nat" where
  "event_limit limit = (if limit < 1 \<or> limit > 500 then 200 else nat limit)"

definition ListEvents :: "uid \<Rightarrow> uid \<Rightarrow> uid \<Rightarrow> int \<Rightarrow> int \<Rightarrow> chat_run_event list ctx" where
  "ListEvents i tenant user after limit s =
     (Inr (take (event_limit limit) (sort_key ev_sequence
        (filter (event_visible i tenant user after (chat_runs s)) (chat_run_events s)))), s)"

section \<open>Sessions and messages\<close>

definition session_insert_row :: "chat_session \<Rightarrow> session_row" where
  "session_insert_row c = chat_session.extend (c\<lparr>se_updated_at := se_created_at c\<rparr>) (session_row.fields None)"

definition CreateSession :: "chat_session \<Rightarrow> unit ctx" where
  "CreateSession c s =
     (if length (se_title c) > 255 \<or> length (se_llm_provider c) > 100 \<or> length (se_llm_model c) > 255 then
        (Inl too_long, s)
      else if tbl_affected (\<lambda>r. se_id r = se_id c) (chat_sessions s) \<noteq> 0 then
        (Inl (Sentinel (UniqueViolation ''chat_sessions_pkey'')), s)
      else (Inr (), s\<lparr>chat_sessions := chat_sessions s @ [session_insert_row c]\<rparr>))"

definition own_session :: "uid \<Rightarrow> uid \<Rightarrow> session_row \<Rightarrow> bool" where
  "own_session i user r \<longleftrightarrow> se_id r = i \<and> se_user r = user \<and> se_deleted_at r = None"

definition listMessages :: "uid \<Rightarrow> uid \<Rightarrow> chat_message list ctx" where
  "listMessages session user s =
     (Inr (sort_key cm_created_at
        (filter (\<lambda>m. cm_session m = session \<and> cm_user m = user) (chat_messages s))), s)"

text \<open>The newest session first; the statement does not select the tenant.\<close>

definition ListSessionRows :: "uid \<Rightarrow> chat_session list ctx" where
  "ListSessionRows user s =
     (Inr (map (\<lambda>r. (chat_session.truncate r)\<lparr>se_tenant := []\<rparr>)
        (sort_key (\<lambda>r. - se_updated_at r)
          (filter (\<lambda>r. se_user r = user \<and> se_deleted_at r = None) (chat_sessions s)))), s)"

definition UpdateSession :: "int \<Rightarrow> uid \<Rightarrow> uid \<Rightarrow> gostr \<Rightarrow> bool ctx" where
  "UpdateSession now i user title s =
     (let P = own_session i user
      in if tbl_affected P (chat_sessions s) \<noteq> 0 \<and> length title > 255 then (Inl too_long, s)
         else (Inr (tbl_affected P (chat_sessions s) > 0),
           s\<lparr>chat_sessions := tbl_update P (\<lambda>r. r\<lparr>se_title := title, se_updated_at := now\<rparr>) (chat_sessions s)\<rparr>))"

definition DeleteSession :: "int \<Rightarrow> uid \<Rightarrow> uid \<Rightarrow> bool ctx" where
  "DeleteSession now i user s =
     (let P = own_session i user
      in (Inr (tbl_affected P (chat_sessions s) > 0),
          s\<lparr>chat_sessions := tbl_update P (\<lambda>r. r\<lparr>se_deleted_at := Some now, se_updated_at := now\<rparr>)
             (chat_sessions s)\<rparr>))"

text \<open>\<open>INSERT \<dots> ON CONFLICT (id) DO UPDATE\<close>: a message with the same identifier is rewritten.\<close>

definition put_message :: "chat_message \<Rightarrow> chat_message list \<Rightarrow> chat_message list" where
  "put_message m rows =
     (if tbl_affected (\<lambda>r. cm_id r = cm_id m) rows = 0 then rows @ [m]
      else tbl_update (\<lambda>r. cm_id r = cm_id m)
        (\<lambda>r. r\<lparr>cm_question := cm_question m, cm_answer := cm_answer m,
              cm_citations := cm_citations m, cm_metadata := cm_metadata m\<rparr>) rows)"

definition SaveTurn :: "int \<Rightarrow> chat_session \<Rightarrow> chat_message \<Rightarrow> unit ctx" where
  "SaveTurn now c m s =
     (let P = own_session (se_id c) (se_user c)
      in if tbl_affected P (chat_sessions s) = 0 then (Inl (Sentinel SqlNoRows), s)
         else if length (se_llm_provider c) > 100 \<or> length (se_llm_model c) > 255 then (Inl too_long, s)
         else (Inr (), s\<lparr>chat_sessions := tbl_update P
             (\<lambda>r. r\<lparr>se_subject := se_subject c, se_llm_provider := se_llm_provider c,
                   se_llm_model := se_llm_model c, se_updated_at := now\<rparr>) (chat_sessions s),
           chat_messages := put_message m (chat_messages s)\<rparr>))"

end
