(* ===== verification/ChatSteps.thy ===== *)
theory ChatSteps
  imports ChatDb DbSteps
begin

text \<open>
  How the chat tables change: a run evolves along its status graph, completion is final, a
  requested cancellation stays until the run is reset; the events of a run are numbered from
  one without gaps.
\<close>

section \<open>The transactions\<close>

inductive chat_step :: "chat_store \<Rightarrow> chat_store \<Rightarrow> bool" where
  create: "run_status r = RunCreated \<Longrightarrow> chat_step s (snd (run_Create r s))"
| mark: "chat_step s (snd (MarkRunning now i tenant user s))"
| complete: "chat_step s (snd (complete_running now i tenant user result s))"
| cancelled: "chat_step s (snd (complete_cancelled now i tenant user s))"
| fail: "chat_step s (snd (run_Fail now i tenant user status msg s))"
| request_cancel: "chat_step s (snd (RequestCancel now i tenant user s))"
| reset: "chat_step s (snd (ResetForResume now i tenant user s))"
| event: "chat_step s (snd (AppendEvent now i tenant ty payload s))"
| new_session: "chat_step s (snd (CreateSession c s))"
| rename_session: "chat_step s (snd (UpdateSession now i user title s))"
| drop_session: "chat_step s (snd (DeleteSession now i user s))"
| turn: "chat_step s (snd (SaveTurn now c m s))"
| other_tables: "chat_step s (s\<lparr>cs_base := d\<rparr>)"

section \<open>Histories of runs\<close>

definition terminal_status :: "run_status \<Rightarrow> bool" where
  "terminal_status st \<longleftrightarrow> st \<noteq> RunCreated \<and> st \<noteq> RunRunning"

fun run_edge :: "run_status \<Rightarrow> run_status \<Rightarrow> bool" where
  "run_edge RunCreated t \<longleftrightarrow> t = RunRunning \<or> t = RunFailed \<or> t = RunCancelled"
| "run_edge RunRunning t \<longleftrightarrow> t = RunCompleted \<or> t = RunFailed \<or> t = RunCancelled"
| "run_edge RunFailed t \<longleftrightarrow> t = RunCreated"
| "run_edge RunCancelled t \<longleftrightarrow> t = RunCreated"
| "run_edge RunCompleted t \<longleftrightarrow> False"

text \<open>
  One transaction on a run: identity, owner and request stay; the status moves along an edge or
  not at all; a completed run does not change; a requested cancellation is only withdrawn by a
  reset, and a run with one does not complete.
\<close>

definition run_evolves :: "chat_run \<Rightarrow> chat_run \<Rightarrow> bool" where
  "run_evolves r s \<longleftrightarrow>
     run_id s = run_id r \<and> run_tenant s = run_tenant r \<and> run_user s = run_user r \<and>
     run_session s = run_session r \<and> run_message s = run_message r \<and> run_subject s = run_subject r \<and>
     run_request s = run_request r \<and> run_created_at s = run_created_at r \<and>
     (run_status s = run_status r \<or> run_edge (run_status r) (run_status s)) \<and>
     (run_status r = RunCompleted \<longrightarrow> s = r) \<and>
     (run_cancel_requested r \<longrightarrow> run_status s \<noteq> RunCompleted \<or> run_status r = RunCompleted) \<and>
     (run_cancel_requested r \<longrightarrow> run_cancel_requested s \<or>
        (run_status r = RunFailed \<or> run_status r = RunCancelled) \<and> run_status s = RunCreated)"

definition run_wf :: "chat_run \<Rightarrow> bool" where
  "run_wf r \<longleftrightarrow> (run_completed_at r \<noteq> None \<longleftrightarrow> terminal_status (run_status r)) \<and>
     (run_status r = RunCompleted \<longrightarrow> \<not> run_cancel_requested r \<and> run_error r = [])"

definition run_born :: "chat_run \<Rightarrow> bool" where
  "run_born r \<longleftrightarrow> run_status r = RunCreated \<and> \<not> run_cancel_requested r \<and> run_completed_at r = None"

interpretation runs: row_history run_id run_born run_evolves
  by unfold_locales (auto simp: run_evolves_def)

lemma run_insert_born: "run_status r = RunCreated \<Longrightarrow> run_born (run_insert_row r)"
  by (simp add: run_born_def run_insert_row_def)

lemma run_insert_id [simp]: "run_id (run_insert_row r) = run_id r"
  by (simp add: run_insert_row_def)

lemmas run_update_defs = MarkRunning_def run_Fail_def updateStatus_def complete_running_def
  complete_cancelled_def RequestCancel_def ResetForResume_def update_run_def Let_def

lemma run_updates_evolve:
  "table_step run_id run_born run_evolves (chat_runs s) (chat_runs (snd (MarkRunning now i t u s)))"
  "table_step run_id run_born run_evolves (chat_runs s) (chat_runs (snd (complete_running now i t u result s)))"
  "table_step run_id run_born run_evolves (chat_runs s) (chat_runs (snd (complete_cancelled now i t u s)))"
  "table_step run_id run_born run_evolves (chat_runs s) (chat_runs (snd (run_Fail now i t u status msg s)))"
  "table_step run_id run_born run_evolves (chat_runs s) (chat_runs (snd (RequestCancel now i t u s)))"
  "table_step run_id run_born run_evolves (chat_runs s) (chat_runs (snd (ResetForResume now i t u s)))"
  by (auto simp: run_update_defs run_evolves_def active_def split: bool.splits
      intro!: table_step.changed)

lemma chat_step_runs:
  assumes "chat_step s s'"
  shows "table_step run_id run_born run_evolves (chat_runs s) (chat_runs s')"
  using assms
proof cases
  case (create r)
  then show ?thesis
    by (auto simp: run_Create_def tbl_affected_zero run_insert_born
        intro!: table_step.inserted table_step.same)
qed (auto simp: run_updates_evolve AppendEvent_def CreateSession_def UpdateSession_def DeleteSession_def
    SaveTurn_def Let_def intro: table_step.same)

lemma run_history:
  assumes "chat_step\<^sup>*\<^sup>* s s'" and "tbl_first (\<lambda>r. run_id r = i) (chat_runs s) = Some r"
  shows "\<exists>r'. tbl_first (\<lambda>r. run_id r = i) (chat_runs s') = Some r' \<and> run_evolves\<^sup>*\<^sup>* r r'"
  using assms
proof (induction rule: rtranclp_induct)
  case (step x y)
  then obtain r1 where r1: "tbl_first (\<lambda>r. run_id r = i) (chat_runs x) = Some r1" "run_evolves\<^sup>*\<^sup>* r r1" by auto
  obtain r2 where "tbl_first (\<lambda>r. run_id r = i) (chat_runs y) = Some r2" "run_evolves r1 r2"
    by (rule runs.step_first [OF chat_step_runs [OF step.hyps(2)] r1(1)])
  with r1(2) show ?case by (meson rtranclp.rtrancl_into_rtrancl)
qed auto

lemma run_evolves_star:
  "run_evolves\<^sup>*\<^sup>* r s \<Longrightarrow>
    run_id s = run_id r \<and> run_tenant s = run_tenant r \<and> run_user s = run_user r \<and>
    run_request s = run_request r \<and> run_edge\<^sup>*\<^sup>* (run_status r) (run_status s) \<and>
    (run_status r = RunCompleted \<longrightarrow> s = r)"
proof (induction rule: rtranclp_induct)
  case (step x y)
  then show ?case unfolding run_evolves_def by (metis rtranclp.rtrancl_into_rtrancl)
qed auto

section \<open>The invariant\<close>

definition events_of :: "uid \<Rightarrow> chat_store \<Rightarrow> chat_run_event list" where
  "events_of i s = filter (\<lambda>e. ev_run e = i) (chat_run_events s)"

text \<open>The events of a run are numbered from one, in the order they were appended.\<close>

definition events_numbered :: "chat_store \<Rightarrow> bool" where
  "events_numbered s \<longleftrightarrow>
     (\<forall>i. map ev_sequence (events_of i s) = map int [1..<Suc (length (events_of i s))])"

definition chat_ok :: "chat_store \<Rightarrow> bool" where
  "chat_ok s \<longleftrightarrow> distinct (map run_id (chat_runs s)) \<and> (\<forall>r \<in> set (chat_runs s). run_wf r) \<and>
     events_numbered s"

lemma events_of_append:
  "events_of j (s\<lparr>chat_run_events := chat_run_events s @ [e]\<rparr>) =
     events_of j s @ (if ev_run e = j then [e] else [])"
  by (simp add: events_of_def)

lemma last_sequence_numbered:
  assumes "events_numbered s"
  shows "last_sequence i (chat_run_events s) = int (length (events_of i s))"
proof -
  have e: "map ev_sequence (filter (\<lambda>e. ev_run e = i) (chat_run_events s)) =
      map int [1..<Suc (length (events_of i s))]"
    using assms by (simp add: events_numbered_def events_of_def)
  show ?thesis
  proof (cases "length (events_of i s)")
    case 0
    with e show ?thesis by (simp add: last_sequence_def)
  next
    case (Suc n)
    have "[1..<Suc (Suc n)] = 1 # [Suc 1..<Suc (Suc n)]" by (rule upt_conv_Cons) simp
    then have "[1..<Suc (Suc n)] = 1 # [2..<Suc (Suc n)]" by (simp only: Suc_1)
    moreover have "foldl max 1 (map int [2..<Suc (Suc n)]) = int (Suc n)"
    proof (induction n)
      case (Suc n)
      then show ?case by (simp add: upt_Suc max_def)
    qed simp
    ultimately show ?thesis using e Suc by (simp add: last_sequence_def)
  qed
qed

lemma AppendEvent_numbered:
  assumes "events_numbered s"
  shows "events_numbered (snd (AppendEvent now i tenant ty payload s))"
  unfolding events_numbered_def
proof
  fix j
  let ?s = "snd (AppendEvent now i tenant ty payload s)"
  have "events_of j ?s = events_of j s @ (if j = i then
      [\<lparr>ev_run = i, ev_sequence = int (length (events_of i s)) + 1, ev_tenant = tenant, ev_type = ty,
        ev_payload = payload, ev_created_at = now\<rparr>] else [])"
    by (simp add: AppendEvent_def Let_def events_of_append last_sequence_numbered [OF assms])
  moreover have "map ev_sequence (events_of j s) = map int [1..<Suc (length (events_of j s))]"
    using assms by (simp add: events_numbered_def)
  ultimately show "map ev_sequence (events_of j ?s) = map int [1..<Suc (length (events_of j ?s))]"
    by simp
qed

lemma run_wf_insert: "run_status r = RunCreated \<Longrightarrow> run_wf (run_insert_row r)"
  by (simp add: run_wf_def run_insert_row_def terminal_status_def)

lemma update_run_wf:
  assumes "\<forall>r \<in> set (chat_runs s). run_wf r" and "\<And>r. P r \<Longrightarrow> run_wf r \<Longrightarrow> run_wf (f r)"
    and "update_run i t u P f s = (b, s')"
  shows "\<forall>r \<in> set (chat_runs s'). run_wf r"
proof
  fix r assume "r \<in> set (chat_runs s')"
  then have "r \<in> set (tbl_update (\<lambda>r. own_run i t u r \<and> P r) f (chat_runs s))"
    using assms(3) by (auto simp: update_run_def Let_def)
  then show "run_wf r" by (cases rule: tbl_updateE) (use assms(1,2) in auto)
qed

lemma run_updates_wf:
  assumes "\<forall>r \<in> set (chat_runs s). run_wf r"
  shows "\<forall>r \<in> set (chat_runs (snd (MarkRunning now i t u s))). run_wf r"
    and "\<forall>r \<in> set (chat_runs (snd (complete_running now i t u result s))). run_wf r"
    and "\<forall>r \<in> set (chat_runs (snd (complete_cancelled now i t u s))). run_wf r"
    and "\<forall>r \<in> set (chat_runs (snd (run_Fail now i t u status msg s))). run_wf r"
    and "\<forall>r \<in> set (chat_runs (snd (RequestCancel now i t u s))). run_wf r"
    and "\<forall>r \<in> set (chat_runs (snd (ResetForResume now i t u s))). run_wf r"
  unfolding MarkRunning_def complete_running_def complete_cancelled_def run_Fail_def updateStatus_def
    RequestCancel_def ResetForResume_def
  by (auto split: prod.split bool.split if_splits dest!: update_run_wf [OF assms, rotated]
      simp: run_wf_def terminal_status_def active_def)

lemma events_of_cong: "chat_run_events s' = chat_run_events s \<Longrightarrow> events_numbered s \<Longrightarrow> events_numbered s'"
  by (simp add: events_numbered_def events_of_def)

lemma chat_events_frame [simp]:
  "chat_run_events (snd (run_Create r s)) = chat_run_events s"
  "chat_run_events (snd (MarkRunning now i t u s)) = chat_run_events s"
  "chat_run_events (snd (complete_running now i t u result s)) = chat_run_events s"
  "chat_run_events (snd (complete_cancelled now i t u s)) = chat_run_events s"
  "chat_run_events (snd (run_Fail now i t u status msg s)) = chat_run_events s"
  "chat_run_events (snd (RequestCancel now i t u s)) = chat_run_events s"
  "chat_run_events (snd (ResetForResume now i t u s)) = chat_run_events s"
  "chat_run_events (snd (CreateSession c s)) = chat_run_events s"
  "chat_run_events (snd (UpdateSession now i u title s)) = chat_run_events s"
  "chat_run_events (snd (DeleteSession now i u s)) = chat_run_events s"
  "chat_run_events (snd (SaveTurn now c m s)) = chat_run_events s"
  by (simp_all add: run_update_defs run_Create_def CreateSession_def UpdateSession_def
      DeleteSession_def SaveTurn_def split: bool.split)

lemma chat_step_ok:
  assumes "chat_step s s'" and "chat_ok s"
  shows "chat_ok s'"
proof -
  have ids: "distinct (map run_id (chat_runs s'))"
    using runs.step_distinct [OF chat_step_runs [OF assms(1)]] assms(2) by (simp add: chat_ok_def)
  have wf: "\<forall>r \<in> set (chat_runs s). run_wf r" and ev: "events_numbered s"
    using assms(2) by (simp_all add: chat_ok_def)
  from assms(1) have "\<forall>r \<in> set (chat_runs s'). run_wf r"
  proof cases
    case (create r)
    with wf show ?thesis by (auto simp: run_Create_def run_wf_insert)
  qed (use wf run_updates_wf [OF wf] in \<open>simp_all add: AppendEvent_def CreateSession_def
    UpdateSession_def DeleteSession_def SaveTurn_def Let_def\<close>)
  moreover from assms(1) have "events_numbered s'"
  proof cases
    case event
    then show ?thesis using AppendEvent_numbered [OF ev] by simp
  qed (auto intro: events_of_cong [OF _ ev])
  ultimately show ?thesis using ids by (simp add: chat_ok_def)
qed

interpretation chats: invariant_system chat_step chat_ok
  by unfold_locales (rule chat_step_ok)

section \<open>Statuses are written by guarded updates\<close>

text \<open>
  The statuses that \<open>updateStatus\<close> writes, as the contract of a guarded status column: it needs an
  active run, so a terminal status is final for it, and of two competing ends only one wins.
\<close>

definition run_status_of :: "chat_store \<Rightarrow> uid \<times> uid \<times> uid \<Rightarrow> run_status option" where
  "run_status_of s k = (case k of (i, tenant, user) \<Rightarrow>
     map_option run_status (tbl_first (own_run i tenant user) (chat_runs s)))"

definition run_write :: "int \<Rightarrow> gostr \<Rightarrow> uid \<times> uid \<times> uid \<Rightarrow> run_status \<Rightarrow> chat_store \<Rightarrow> bool \<times> chat_store" where
  "run_write now msg k status s = (case k of (i, tenant, user) \<Rightarrow>
     (fst (updateStatus now i tenant user status msg JEmpty (terminal_status status) s) = Inr (),
      snd (updateStatus now i tenant user status msg JEmpty (terminal_status status) s)))"

definition active_statuses :: "run_status \<Rightarrow> run_status list" where
  "active_statuses _ = [RunCreated, RunRunning]"

lemma own_run_key: "own_run i tenant user = (\<lambda>r. (run_id r, run_tenant r, run_user r) = (i, tenant, user))"
  by (auto simp: own_run_def fun_eq_iff)

lemma run_keys_distinct:
  "distinct (map run_id rows) \<Longrightarrow> distinct (map (\<lambda>r. (run_id r, run_tenant r, run_user r)) rows)"
  by (induction rows) (auto simp: image_iff)

lemma active_run_iff:
  assumes "distinct (map run_id (chat_runs s))"
  shows "tbl_affected (\<lambda>r. own_run i tenant user r \<and> P r) (chat_runs s) \<noteq> 0 \<longleftrightarrow>
    (\<exists>r. tbl_first (own_run i tenant user) (chat_runs s) = Some r \<and> P r)"
  unfolding own_run_key tbl_affected_key_iff [OF run_keys_distinct [OF assms]] by auto

lemma update_run_first:
  assumes "\<And>r. own_run i tenant user (f r) = own_run i tenant user r"
    and "\<And>r. run_id (f r) = run_id r \<and> run_tenant (f r) = run_tenant r \<and> run_user (f r) = run_user r"
  shows "tbl_first (own_run j t u) (chat_runs (snd (update_run i tenant user P f s))) =
    map_option (\<lambda>r. if own_run i tenant user r \<and> P r then f r else r)
      (tbl_first (own_run j t u) (chat_runs s))"
proof -
  have k: "(run_id (f r), run_tenant (f r), run_user (f r)) = (run_id r, run_tenant r, run_user r)" for r
    using assms(2) by simp
  show ?thesis
    unfolding update_run_def Let_def own_run_key [of j t u]
    by (simp add: tbl_first_update_any [where k = "\<lambda>r. (run_id r, run_tenant r, run_user r)", OF k] del: prod.inject)
qed

definition run_ids_ok :: "chat_store \<Rightarrow> bool" where
  "run_ids_ok s \<longleftrightarrow> distinct (map run_id (chat_runs s))"

interpretation run_statuses: guarded_status run_status_of "run_write now msg" active_statuses run_ids_ok for now msg
proof
  fix s :: chat_store and k :: "uid \<times> uid \<times> uid" and n
  assume ok: "run_ids_ok s"
  obtain i tenant user where k: "k = (i, tenant, user)" by (cases k)
  let ?f = "\<lambda>r. r\<lparr>run_status := n, run_result := coalesce_result JEmpty (run_result r), run_error := msg,
    run_completed_at := (if terminal_status n then Some now else None), run_updated_at := now\<rparr>"
  have as_update: "run_write now msg k n s = update_run i tenant user active ?f s"
    by (simp add: run_write_def k updateStatus_def split: prod.split bool.split)
  have hit: "fst (run_write now msg k n s) \<longleftrightarrow>
      (\<exists>r. tbl_first (own_run i tenant user) (chat_runs s) = Some r \<and> active r)"
    unfolding as_update using active_run_iff [of s] ok by (simp add: update_run_def Let_def run_ids_ok_def)
  then show "fst (run_write now msg k n s) \<longleftrightarrow>
      (\<exists>st. run_status_of s k = Some st \<and> st \<in> set (active_statuses n))"
    by (auto simp: run_status_of_def k active_def active_statuses_def)
  have first: "tbl_first (own_run i' t' u') (chat_runs (snd (run_write now msg k n s))) =
      map_option (\<lambda>r. if own_run i tenant user r \<and> active r then ?f r else r)
        (tbl_first (own_run i' t' u') (chat_runs s))" for i' t' u'
    unfolding as_update by (rule update_run_first) (simp_all add: own_run_def)
  have own: "own_run i' t' u' r" if "tbl_first (own_run i' t' u') (chat_runs s) = Some r" for i' t' u' r
    using tbl_first_Some [OF that] by simp
  show "run_status_of (snd (run_write now msg k n s)) k = Some n" if "fst (run_write now msg k n s)"
  proof -
    from that obtain r where r: "tbl_first (own_run i tenant user) (chat_runs s) = Some r" "active r"
      unfolding hit by blast
    with own [OF r(1)] show ?thesis by (simp add: run_status_of_def k first [unfolded k])
  qed
  show "run_status_of (snd (run_write now msg k n s)) j = run_status_of s j"
    if "j \<noteq> k \<or> \<not> fst (run_write now msg k n s)" for j
  proof -
    obtain i' t' u' where j: "j = (i', t', u')" by (cases j)
    have "own_run i tenant user r \<Longrightarrow> own_run i' t' u' r \<Longrightarrow> j = k" for r
      by (simp add: own_run_def j k)
    then show ?thesis
      using that own [of i' t' u'] unfolding hit
      by (cases "tbl_first (own_run i' t' u') (chat_runs s)") (auto simp: run_status_of_def j k first [unfolded k])
  qed
  show "run_ids_ok (snd (run_write now msg k n s))"
    using ok unfolding as_update by (simp add: run_ids_ok_def update_run_def Let_def map_tbl_update)
qed

end
