(* ===== verification/ChatServices.thy ===== *)
theory ChatServices
  imports ChatSteps Requests
begin

text \<open>
  What a chat request sees: the database, the cancel functions registered by the process
  (\<open>internal/service/runcontrol\<close>), and the outside - clock, contexts, the agent service and the
  client's connection - behind an interface; and the client of the agent service
  (\<open>internal/infrastructure/agent/client.go\<close>).
\<close>

section \<open>The run controller\<close>

text \<open>The cancel functions by run; a cancel function is a handle of the outside.\<close>

type_synonym controller = "uid \<Rightarrow> nat option"

definition Register :: "controller \<Rightarrow> uid \<Rightarrow> nat \<Rightarrow> controller" where
  "Register cancels i handle = cancels(i := Some handle)"

text \<open>The function that \<open>Register\<close> returns.\<close>

definition Unregister :: "controller \<Rightarrow> uid \<Rightarrow> controller" where
  "Unregister cancels i = cancels(i := None)"

section \<open>Requests to the agent service\<close>

record agent_request =
  aq_run :: uid
  aq_tenant :: uid
  aq_session :: uid
  aq_message :: uid
  aq_user :: uid
  aq_subject :: uid
  aq_question :: gostr
  aq_top_k :: int
  aq_llm_provider :: gostr
  aq_llm_model :: gostr
  aq_web_search :: bool
  aq_expected_docs :: "gostr list"
  aq_expected_chunks :: "gostr list"
  aq_expected_route :: gostr
  aq_expected_outcome :: gostr

datatype agent_body = RunBody agent_request | CleanupBody uid uid

text \<open>
  A payload of the stream, by what the strict decoder makes of it for each target; a result is
  decoded over the one already there. The type of an event also comes as \<open>%q\<close> prints it.
\<close>

record stream_payload =
  sp_message :: "gerr + gostr"
  sp_step :: "gerr + agent_step"
  sp_chunks :: "gerr + retrieval_chunk list"
  sp_links :: "gerr + external_link list"
  sp_metrics :: "gerr + retrieval_metrics"
  sp_content :: "gerr + gostr"
  sp_result :: "agent_result \<Rightarrow> gerr + agent_result"

record stream_event =
  st_type :: gostr
  st_quoted_type :: gostr
  st_payload :: stream_payload

text \<open>
  A response: the status, the body as text, as one strictly decoded result, and as the lines of a
  stream with the error of the scanner at its end.
\<close>

record agent_response =
  rs_status :: int
  rs_text :: "gerr + gostr"
  rs_result :: "gerr + agent_result"
  rs_lines :: "(gerr + stream_event) list"
  rs_scan_error :: "gerr option"

section \<open>The world of a chat request\<close>

record 'e chat_world =
  cw_db :: chat_store
  cw_ext :: 'e
  cw_cancels :: controller

record 'e chat_services =
  cv_pg :: "'e \<Rightarrow> chat_store \<Rightarrow> pg_fault \<times> 'e \<times> chat_store"
  cv_now :: "'e \<Rightarrow> int"
  cv_uuid :: "'e \<Rightarrow> uid \<times> 'e"
  cv_is_uuid :: "uid \<Rightarrow> bool"
  cv_with_cancel :: "'e \<Rightarrow> nat \<times> 'e"
  cv_cancel :: "nat \<Rightarrow> 'e \<Rightarrow> 'e"
  cv_ctx_err :: "nat \<Rightarrow> 'e \<Rightarrow> gerr option"
  cv_url_error :: "gerr option"
  cv_post :: "string \<Rightarrow> agent_body \<Rightarrow> 'e \<Rightarrow> (gerr + agent_response) \<times> 'e"
  cv_top_k :: int

type_synonym ('e, 'a) chat_act = "('e chat_world, 'a) prog"

definition chat_tx :: "'e chat_services \<Rightarrow> (int \<Rightarrow> 'a ctx) \<Rightarrow> ('e, 'a) chat_act" where
  "chat_tx sv q w =
     (case cv_pg sv (cw_ext w) (cw_db w) of
        (Refused x, e, d) \<Rightarrow> (Inl x, w\<lparr>cw_db := d, cw_ext := e\<rparr>)
      | (Executed, e, d) \<Rightarrow>
          (fst (q (cv_now sv e) d), w\<lparr>cw_db := snd (q (cv_now sv e) d), cw_ext := e\<rparr>)
      | (ReplyLost x, e, d) \<Rightarrow>
          (Inl x, w\<lparr>cw_db := snd (q (cv_now sv e) d), cw_ext := e\<rparr>))"

definition chat_uuid :: "'e chat_services \<Rightarrow> ('e, uid) chat_act" where
  "chat_uuid sv w = (Inr (fst (cv_uuid sv (cw_ext w))), w\<lparr>cw_ext := snd (cv_uuid sv (cw_ext w))\<rparr>)"

definition chat_now :: "'e chat_services \<Rightarrow> ('e, int) chat_act" where
  "chat_now sv w = (Inr (cv_now sv (cw_ext w)), w)"

definition ask_ext :: "('e \<Rightarrow> (gerr + 'a) \<times> 'e) \<Rightarrow> ('e, 'a) chat_act" where
  "ask_ext f w = (fst (f (cw_ext w)), w\<lparr>cw_ext := snd (f (cw_ext w))\<rparr>)"

text \<open>\<open>callStreamCallback\<close>: a callback that is not set does nothing.\<close>

definition callStreamCallback :: "('a \<Rightarrow> 'e \<Rightarrow> gerr option \<times> 'e) option \<Rightarrow> 'a \<Rightarrow> ('e, unit) chat_act" where
  "callStreamCallback callback v w =
     (case callback of None \<Rightarrow> (Inr (), w)
      | Some f \<Rightarrow>
         (case f v (cw_ext w) of
            (None, e) \<Rightarrow> (Inr (), w\<lparr>cw_ext := e\<rparr>)
          | (Some err, e) \<Rightarrow> (Inl err, w\<lparr>cw_ext := e\<rparr>)))"

section \<open>The agent client\<close>

definition agent_post :: "'e chat_services \<Rightarrow> string \<Rightarrow> agent_body \<Rightarrow> ('e, agent_response) chat_act" where
  "agent_post sv path body =
     (case cv_url_error sv of
        Some err \<Rightarrow> fail (Wrapped (lit ''create agent request'') err)
      | None \<Rightarrow> wrap_error (lit ''call agent service'') (ask_ext (cv_post sv path body)))"

definition responseError :: "agent_response \<Rightarrow> gerr option" where
  "responseError r =
     (if 200 \<le> rs_status r \<and> rs_status r < 300 then None
      else case rs_text r of
          Inl err \<Rightarrow> Some err
        | Inr body \<Rightarrow> Some (Plain (lit ''agent service returned HTTP '' @ lit (Itoa (rs_status r)) @ lit '': '' @
            TrimSpace body)))"

definition accepted :: "agent_response \<Rightarrow> ('w, unit) prog" where
  "accepted r = (case responseError r of Some err \<Rightarrow> fail err | None \<Rightarrow> return ())"

definition lift_result :: "gerr + 'a \<Rightarrow> ('w, 'a) prog" where
  "lift_result r w = (r, w)"

definition Invoke :: "'e chat_services \<Rightarrow> agent_request \<Rightarrow> ('e, agent_result) chat_act" where
  "Invoke sv request =
     attempt (agent_post sv ''/internal/v1/runs/invoke'' (RunBody request)) (\<lambda>response.
     attempt (accepted response) (\<lambda>_.
       wrap_error (lit ''decode agent response'') (lift_result (rs_result response))))"

definition Cleanup :: "'e chat_services \<Rightarrow> uid \<Rightarrow> uid \<Rightarrow> ('e, unit) chat_act" where
  "Cleanup sv tenant i =
     attempt (agent_post sv ''/internal/v1/runs/cleanup'' (CleanupBody tenant i)) accepted"

record 'w agent_callbacks =
  on_status :: "(gostr \<Rightarrow> ('w, unit) prog) option"
  on_step :: "(agent_step \<Rightarrow> ('w, unit) prog) option"
  on_sources :: "(retrieval_chunk list \<Rightarrow> ('w, unit) prog) option"
  on_links :: "(external_link list \<Rightarrow> ('w, unit) prog) option"
  on_metrics :: "(retrieval_metrics \<Rightarrow> ('w, unit) prog) option"
  on_delta :: "(gostr \<Rightarrow> ('w, unit) prog) option"

definition agent_call :: "('a \<Rightarrow> ('w, unit) prog) option \<Rightarrow> 'a \<Rightarrow> ('w, unit) prog" where
  "agent_call callback v = (case callback of None \<Rightarrow> return () | Some f \<Rightarrow> f v)"

definition decodeAndCall :: "gerr + 'a \<Rightarrow> ('a \<Rightarrow> ('w, unit) prog) option \<Rightarrow> ('w, unit) prog" where
  "decodeAndCall payload callback = attempt (lift_result payload) (agent_call callback)"

definition defaultString :: "gostr \<Rightarrow> gostr \<Rightarrow> gostr" where
  "defaultString v fallback = (if TrimSpace v = [] then fallback else v)"

text \<open>The result decoded so far and whether one was found.\<close>

definition keep_state :: "('w, unit) prog \<Rightarrow> 's \<Rightarrow> ('w, 's) prog" where
  "keep_state m s = attempt m (\<lambda>_. return s)"

definition dispatchEvent ::
    "stream_event \<Rightarrow> 'w agent_callbacks \<Rightarrow> agent_result \<times> bool \<Rightarrow> ('w, agent_result \<times> bool) prog" where
  "dispatchEvent event cbs s =
     (let p = st_payload event; ty = st_type event
      in if ty = lit ''status'' then keep_state (decodeAndCall (sp_message p) (on_status cbs)) s
         else if ty = lit ''agent_step'' then keep_state (decodeAndCall (sp_step p) (on_step cbs)) s
         else if ty = lit ''sources'' then keep_state (decodeAndCall (sp_chunks p) (on_sources cbs)) s
         else if ty = lit ''web_sources'' then keep_state (decodeAndCall (sp_links p) (on_links cbs)) s
         else if ty = lit ''metrics'' then keep_state (decodeAndCall (sp_metrics p) (on_metrics cbs)) s
         else if ty = lit ''delta'' then keep_state (decodeAndCall (sp_content p) (on_delta cbs)) s
         else if ty = lit ''result'' then
           (case sp_result p (fst s) of
              Inl err \<Rightarrow> fail (Wrapped (lit ''decode agent result'') err)
            | Inr result \<Rightarrow> return (result, True))
         else if ty = lit ''error'' then
           (case sp_message p of
              Inl err \<Rightarrow> fail (Wrapped (lit ''decode agent error'') err)
            | Inr text_sent \<Rightarrow> fail (Plain (defaultString text_sent (lit ''agent execution failed''))))
         else fail (Plain (lit ''unsupported agent stream event '' @ st_quoted_type event)))"

fun stream_loop ::
    "'w agent_callbacks \<Rightarrow> (gerr + stream_event) list \<Rightarrow> agent_result \<times> bool \<Rightarrow> ('w, agent_result \<times> bool) prog" where
  "stream_loop cbs [] s = return s"
| "stream_loop cbs (Inl err # _) s = fail (Wrapped (lit ''decode agent stream event'') err)"
| "stream_loop cbs (Inr event # lines) s = attempt (dispatchEvent event cbs s) (stream_loop cbs lines)"

definition no_result :: agent_result where
  "no_result = \<lparr>ar_answer = [], ar_chunks = [], ar_links = [], ar_metrics = zero_metrics, ar_steps = []\<rparr>"

definition finish_stream :: "agent_response \<Rightarrow> agent_result \<times> bool \<Rightarrow> ('w, agent_result) prog" where
  "finish_stream response s =
     (case rs_scan_error response of
        Some err \<Rightarrow> fail (Wrapped (lit ''read agent stream'') err)
      | None \<Rightarrow> if \<not> snd s then fail (Plain (lit ''agent stream ended without a result''))
          else return (fst s))"

definition Stream :: "'e chat_services \<Rightarrow> agent_request \<Rightarrow> 'e chat_world agent_callbacks \<Rightarrow> ('e, agent_result) chat_act" where
  "Stream sv request cbs =
     attempt (agent_post sv ''/internal/v1/runs/stream'' (RunBody request)) (\<lambda>response.
     attempt (accepted response) (\<lambda>_.
     attempt (stream_loop cbs (rs_lines response) (no_result, False)) (finish_stream response)))"

end
