(* ===== verification/ChatRuns.thy ===== *)
theory ChatRuns
  imports ChatServices
begin

text \<open>
  The logic of chat requests: \<open>internal/logic/chat\<close>, \<open>service/conversation\<close> and
  \<open>presenter/chat\<close>. A run is created, marked running, asked of the agent, its turn saved, and
  completed; every error on the way fails it.
\<close>

section \<open>Beginning and ending a run\<close>

definition appendRunEvent ::
    "'e chat_services \<Rightarrow> uid \<Rightarrow> uid \<Rightarrow> string \<Rightarrow> event_payload \<Rightarrow> ('e, unit) chat_act" where
  "appendRunEvent sv tenant i ty payload =
     attempt (chat_tx sv (\<lambda>now. AppendEvent now i tenant ty payload)) (\<lambda>_. return ())"

definition new_run :: "user_session \<Rightarrow> chat_ask_req \<Rightarrow> uid \<Rightarrow> int \<Rightarrow> chat_run" where
  "new_run user req i now =
     \<lparr>run_id = i, run_tenant = us_tenant user, run_user = us_id user, run_session = ca_session req,
      run_message = ca_message req, run_subject = ca_subject req, run_status = RunCreated,
      run_request = JValue req, run_result = JEmpty, run_error = [], run_cancel_requested = False,
      run_created_at = now, run_updated_at = now, run_completed_at = None\<rparr>"

definition create_run :: "'e chat_services \<Rightarrow> user_session \<Rightarrow> chat_ask_req \<Rightarrow> uid \<Rightarrow> ('e, unit) chat_act" where
  "create_run sv user req i =
     attempt (chat_now sv) (\<lambda>now. chat_tx sv (\<lambda>_. run_Create (new_run user req i now)))"

definition register_run :: "'e chat_services \<Rightarrow> uid \<Rightarrow> ('e, nat) chat_act" where
  "register_run sv i w =
     (let (handle, e) = cv_with_cancel sv (cw_ext w)
      in (Inr handle, w\<lparr>cw_ext := e, cw_cancels := Register (cw_cancels w) i handle\<rparr>))"

definition announce_run :: "'e chat_services \<Rightarrow> user_session \<Rightarrow> uid \<Rightarrow> nat \<Rightarrow> ('e, nat) chat_act" where
  "announce_run sv user i handle =
     attempt (ignore_error (appendRunEvent sv (us_tenant user) i ''run.running'' (PRun i)))
       (\<lambda>_. return handle)"

definition start_run :: "'e chat_services \<Rightarrow> user_session \<Rightarrow> uid \<Rightarrow> ('e, nat) chat_act" where
  "start_run sv user i =
     attempt (chat_tx sv (\<lambda>now. MarkRunning now i (us_tenant user) (us_id user))) (\<lambda>_.
     attempt (register_run sv i) (announce_run sv user i))"

definition beginRun ::
    "'e chat_services \<Rightarrow> user_session \<Rightarrow> chat_ask_req \<Rightarrow> uid \<Rightarrow> bool \<Rightarrow> ('e, uid \<times> nat) chat_act" where
  "beginRun sv user req runID create =
     attempt (if runID = [] then chat_uuid sv else return runID) (\<lambda>i.
     attempt (if create then create_run sv user req i else return ()) (\<lambda>_.
     attempt (start_run sv user i) (\<lambda>handle. return (i, handle))))"

text \<open>The deferred cleanup: the watcher is stopped, the run unregistered and its context cancelled.\<close>

definition cleanup_run :: "'e chat_services \<Rightarrow> uid \<Rightarrow> nat \<Rightarrow> 'e chat_world \<Rightarrow> 'e chat_world" where
  "cleanup_run sv i handle w =
     w\<lparr>cw_cancels := Unregister (cw_cancels w) i, cw_ext := cv_cancel sv handle (cw_ext w)\<rparr>"

definition deferred :: "('w \<Rightarrow> 'w) \<Rightarrow> ('w, 'a) prog \<Rightarrow> ('w, 'a) prog" where
  "deferred f m w = (fst (m w), f (snd (m w)))"

text \<open>One poll of the watcher of persistent cancellations.\<close>

definition watch_poll :: "'e chat_services \<Rightarrow> user_session \<Rightarrow> uid \<Rightarrow> nat \<Rightarrow> 'e chat_world \<Rightarrow> 'e chat_world" where
  "watch_poll sv user i handle w =
     (case chat_tx sv (\<lambda>_. run_GetForUser i (us_tenant user) (us_id user)) w of
        (Inr r, w') \<Rightarrow> (if run_cancel_requested r then w'\<lparr>cw_ext := cv_cancel sv handle (cw_ext w')\<rparr> else w')
      | (Inl _, w') \<Rightarrow> w')"

text \<open>\<open>RunRepo.Complete\<close> sends its second statement only when the first affected no row.\<close>

definition Complete :: "'e chat_services \<Rightarrow> uid \<Rightarrow> uid \<Rightarrow> uid \<Rightarrow> agent_result json \<Rightarrow> ('e, unit) chat_act" where
  "Complete sv i tenant user result =
     attempt (chat_tx sv (\<lambda>now. complete_running now i tenant user result)) (\<lambda>affected.
       if affected then return () else chat_tx sv (\<lambda>now. complete_cancelled now i tenant user))"

definition completeRun ::
    "'e chat_services \<Rightarrow> user_session \<Rightarrow> uid \<Rightarrow> agent_result \<Rightarrow> ('e, unit) chat_act" where
  "completeRun sv user i output =
     attempt (Complete sv i (us_tenant user) (us_id user) (JValue output)) (\<lambda>_.
     attempt (ignore_error (appendRunEvent sv (us_tenant user) i ''run.completed'' (PRun i)))
       (\<lambda>_. ignore_error (Cleanup sv (us_tenant user) i)))"

definition failRun :: "'e chat_services \<Rightarrow> user_session \<Rightarrow> uid \<Rightarrow> gerr \<Rightarrow> ('e, unit) chat_act" where
  "failRun sv user i err =
     (let status = (if errors_is err ContextCanceled then RunCancelled else RunFailed)
      in attempt (ignore_error (chat_tx sv
             (\<lambda>now. run_Fail now i (us_tenant user) (us_id user) status (err_text err))))
           (\<lambda>_. ignore_error (appendRunEvent sv (us_tenant user) i (''run.'' @ run_status_text status)
              (PMessage (err_text err)))))"

definition effectiveRunError :: "'e chat_services \<Rightarrow> nat \<Rightarrow> gerr \<Rightarrow> 'e chat_world \<Rightarrow> gerr" where
  "effectiveRunError sv handle err w =
     (case cv_ctx_err sv handle (cw_ext w) of Some x \<Rightarrow> x | None \<Rightarrow> err)"

text \<open>\<open>if err := m; err != nil { h(err); return err }\<close>\<close>

definition on_error :: "(gerr \<Rightarrow> 'w \<Rightarrow> 'w) \<Rightarrow> ('w, 'a) prog \<Rightarrow> ('w, 'a) prog" where
  "on_error h m w = (case m w of (Inl err, w') \<Rightarrow> (Inl err, h err w') | (Inr a, w') \<Rightarrow> (Inr a, w'))"

definition fail_effective :: "'e chat_services \<Rightarrow> user_session \<Rightarrow> uid \<Rightarrow> nat \<Rightarrow> gerr \<Rightarrow> 'e chat_world \<Rightarrow> 'e chat_world" where
  "fail_effective sv user i handle err w = snd (failRun sv user i (effectiveRunError sv handle err w) w)"

definition or_fail ::
    "'e chat_services \<Rightarrow> user_session \<Rightarrow> uid \<Rightarrow> nat \<Rightarrow> ('e, 'a) chat_act \<Rightarrow> ('e, 'a) chat_act" where
  "or_fail sv user i handle = on_error (fail_effective sv user i handle)"

section \<open>Saving the turn\<close>

definition BuildSessionTitle :: "gostr \<Rightarrow> gostr" where
  "BuildSessionTitle question =
     (let runes = TrimSpace question
      in if length runes \<le> 18 then runes else take 18 runes @ lit ''...'')"

definition tenantIDFromContext :: "user_session option \<Rightarrow> uid" where
  "tenantIDFromContext ctx = (case CurrentUser ctx of Inl _ \<Rightarrow> [] | Inr user \<Rightarrow> us_tenant user)"

definition turn_session :: "user_session option \<Rightarrow> uid \<Rightarrow> chat_ask_req \<Rightarrow> chat_session" where
  "turn_session ctx user req =
     \<lparr>se_id = trim_id (ca_session req), se_tenant = tenantIDFromContext ctx, se_user = user,
      se_subject = ca_subject req, se_title = BuildSessionTitle (ca_query req),
      se_llm_provider = ca_llm_provider req, se_llm_model = ca_llm_model req,
      se_created_at = 0, se_updated_at = 0\<rparr>"

definition turn_message :: "user_session option \<Rightarrow> uid \<Rightarrow> chat_ask_req \<Rightarrow> agent_result \<Rightarrow> int \<Rightarrow> chat_message" where
  "turn_message ctx user req output now =
     \<lparr>cm_id = trim_id (ca_message req), cm_tenant = tenantIDFromContext ctx,
      cm_session = trim_id (ca_session req), cm_user = user, cm_question = ca_query req,
      cm_answer = ar_answer output, cm_citations = JValue (ar_chunks output),
      cm_metadata = JValue \<lparr>mm_metrics = ar_metrics output, mm_label = ca_llm_model req,
        mm_model = ca_llm_model req, mm_web_search = ca_web_search req, mm_links = ar_links output,
        mm_steps = ar_steps output\<rparr>, cm_created_at = now\<rparr>"

definition PersistTurn ::
    "'e chat_services \<Rightarrow> user_session option \<Rightarrow> uid \<Rightarrow> chat_ask_req \<Rightarrow> agent_result \<Rightarrow> ('e, unit) chat_act" where
  "PersistTurn sv ctx user req output =
     (let sessionID = trim_id (ca_session req); messageID = trim_id (ca_message req)
      in if sessionID = [] \<and> messageID = [] then return ()
         else if \<not> cv_is_uuid sv sessionID then fail (Plain (lit ''invalid session id''))
         else if \<not> cv_is_uuid sv messageID then fail (Plain (lit ''invalid message id''))
         else attempt (chat_now sv) (\<lambda>now. chat_tx sv (\<lambda>t.
                SaveTurn t (turn_session ctx user req) (turn_message ctx user req output now))))"

section \<open>Asking, resuming and streaming\<close>

definition agentRequest :: "uid \<Rightarrow> uid \<Rightarrow> uid \<Rightarrow> chat_ask_req \<Rightarrow> int \<Rightarrow> agent_request" where
  "agentRequest i tenant user req defaultTopK =
     \<lparr>aq_run = i, aq_tenant = tenant, aq_session = ca_session req, aq_message = ca_message req,
      aq_user = user, aq_subject = ca_subject req, aq_question = ca_query req,
      aq_top_k = (if ca_top_k req \<le> 0 then defaultTopK else ca_top_k req),
      aq_llm_provider = ca_llm_provider req, aq_llm_model = ca_llm_model req,
      aq_web_search = ca_web_search req, aq_expected_docs = ca_expected_docs req,
      aq_expected_chunks = ca_expected_chunks req, aq_expected_route = ca_expected_route req,
      aq_expected_outcome = ca_expected_outcome req\<rparr>"

record chat_ask_resp =
  ca_run :: uid
  ca_answer :: gostr
  ca_chunks :: "retrieval_chunk list"
  ca_links :: "external_link list"
  ca_metrics :: retrieval_metrics
  ca_steps :: "agent_step list"

definition ask_response :: "uid \<Rightarrow> agent_result \<Rightarrow> chat_ask_resp" where
  "ask_response i output =
     \<lparr>ca_run = i, ca_answer = ar_answer output, ca_chunks = ar_chunks output,
      ca_links = ar_links output, ca_metrics = ar_metrics output, ca_steps = ar_steps output\<rparr>"

text \<open>After the agent has answered: the turn is saved and the run completed.\<close>

definition settle_run ::
    "'e chat_services \<Rightarrow> user_session option \<Rightarrow> user_session \<Rightarrow> chat_ask_req \<Rightarrow> uid \<Rightarrow> nat \<Rightarrow> agent_result \<Rightarrow>
     ('e, agent_result) chat_act" where
  "settle_run sv ctx user req i handle output =
     attempt (or_fail sv user i handle (PersistTurn sv ctx (us_id user) req output)) (\<lambda>_.
     attempt (or_fail sv user i handle (completeRun sv user i output)) (\<lambda>_. return output))"

definition ask_agent ::
    "'e chat_services \<Rightarrow> user_session option \<Rightarrow> user_session \<Rightarrow> chat_ask_req \<Rightarrow> ('e, agent_result) chat_act \<Rightarrow>
     uid \<Rightarrow> nat \<Rightarrow> ('e, agent_result) chat_act" where
  "ask_agent sv ctx user req agent i handle =
     attempt (or_fail sv user i handle agent) (settle_run sv ctx user req i handle)"

definition invoke_run ::
    "'e chat_services \<Rightarrow> user_session option \<Rightarrow> user_session \<Rightarrow> chat_ask_req \<Rightarrow> uid \<times> nat \<Rightarrow> ('e, chat_ask_resp) chat_act" where
  "invoke_run sv ctx user req begun =
     (case begun of (i, handle) \<Rightarrow>
       deferred (cleanup_run sv i handle)
         (attempt (ask_agent sv ctx user req
              (Invoke sv (agentRequest i (us_tenant user) (us_id user) req (cv_top_k sv))) i handle)
           (\<lambda>output. return (ask_response i output))))"

definition ask_as ::
    "'e chat_services \<Rightarrow> user_session option \<Rightarrow> chat_ask_req \<Rightarrow> user_session \<Rightarrow> uid \<Rightarrow> ('e, chat_ask_resp) chat_act" where
  "ask_as sv ctx req user i = attempt (beginRun sv user req i True) (invoke_run sv ctx user req)"

definition missing_query :: "chat_ask_req \<Rightarrow> bool" where
  "missing_query req \<longleftrightarrow> trim_id (ca_subject req) = [] \<or> TrimSpace (ca_query req) = []"

definition ChatAsk :: "'e chat_services \<Rightarrow> user_session option \<Rightarrow> chat_ask_req \<Rightarrow> ('e, chat_ask_resp) chat_act" where
  "ChatAsk sv ctx req =
     (if missing_query req then fail (Plain (lit ''subject_id and query are required''))
      else attempt (current_user ctx) (\<lambda>user. attempt (chat_uuid sv) (ask_as sv ctx req user)))"

definition json_value :: "'a json \<Rightarrow> gerr + 'a" where
  "json_value j =
     (case j of JValue a \<Rightarrow> Inr a | JInvalid err \<Rightarrow> Inl err
      | JEmpty \<Rightarrow> Inl (Plain (lit ''unexpected end of JSON input'')))"

definition resume_run ::
    "'e chat_services \<Rightarrow> user_session option \<Rightarrow> uid \<Rightarrow> user_session \<Rightarrow> chat_ask_req \<Rightarrow> ('e, chat_ask_resp) chat_act" where
  "resume_run sv ctx i user req =
     attempt (chat_tx sv (\<lambda>now. ResetForResume now i (us_tenant user) (us_id user))) (\<lambda>_.
     attempt (beginRun sv user req i False) (invoke_run sv ctx user req))"

definition resume_as ::
    "'e chat_services \<Rightarrow> user_session option \<Rightarrow> uid \<Rightarrow> user_session \<Rightarrow> ('e, chat_ask_resp) chat_act" where
  "resume_as sv ctx i user =
     attempt (chat_tx sv (\<lambda>_. run_GetForUser i (us_tenant user) (us_id user))) (\<lambda>r.
     attempt (lift_result (json_value (run_request r))) (resume_run sv ctx i user))"

definition ChatRunResume :: "'e chat_services \<Rightarrow> user_session option \<Rightarrow> uid \<Rightarrow> ('e, chat_ask_resp) chat_act" where
  "ChatRunResume sv ctx i0 =
     (let i = trim_id i0
      in if \<not> cv_is_uuid sv i then fail (Plain (lit ''invalid run id''))
         else attempt (current_user ctx) (resume_as sv ctx i))"

record 'e stream_callbacks =
  cb_run_created :: "(uid \<Rightarrow> 'e \<Rightarrow> gerr option \<times> 'e) option"
  cb_status :: "(gostr \<Rightarrow> 'e \<Rightarrow> gerr option \<times> 'e) option"
  cb_step :: "(agent_step \<Rightarrow> 'e \<Rightarrow> gerr option \<times> 'e) option"
  cb_sources :: "(retrieval_chunk list \<Rightarrow> 'e \<Rightarrow> gerr option \<times> 'e) option"
  cb_links :: "(external_link list \<Rightarrow> 'e \<Rightarrow> gerr option \<times> 'e) option"
  cb_metrics :: "(retrieval_metrics \<Rightarrow> 'e \<Rightarrow> gerr option \<times> 'e) option"
  cb_delta :: "(gostr \<Rightarrow> 'e \<Rightarrow> gerr option \<times> 'e) option"
  cb_done :: "(gostr \<Rightarrow> 'e \<Rightarrow> gerr option \<times> 'e) option"

text \<open>Each event is persisted before it is sent to the client.\<close>

definition persist_then ::
    "'e chat_services \<Rightarrow> uid \<Rightarrow> uid \<Rightarrow> string \<Rightarrow> ('a \<Rightarrow> event_payload) \<Rightarrow> ('a \<Rightarrow> 'e \<Rightarrow> gerr option \<times> 'e) option \<Rightarrow>
     'a \<Rightarrow> ('e, unit) chat_act" where
  "persist_then sv tenant i ty payload callback v =
     attempt (appendRunEvent sv tenant i ty (payload v)) (\<lambda>_. callStreamCallback callback v)"

definition persisting :: "'e chat_services \<Rightarrow> uid \<Rightarrow> uid \<Rightarrow> 'e stream_callbacks \<Rightarrow> 'e chat_world agent_callbacks" where
  "persisting sv tenant i cbs =
     \<lparr>on_status = Some (persist_then sv tenant i ''status'' PMessage (cb_status cbs)),
      on_step = Some (persist_then sv tenant i ''agent_step'' PStep (cb_step cbs)),
      on_sources = Some (persist_then sv tenant i ''sources'' PSources (cb_sources cbs)),
      on_links = Some (persist_then sv tenant i ''web_sources'' PLinks (cb_links cbs)),
      on_metrics = Some (persist_then sv tenant i ''metrics'' PMetrics (cb_metrics cbs)),
      on_delta = Some (persist_then sv tenant i ''delta'' PContent (cb_delta cbs))\<rparr>"

text \<open>When the client cannot be told about its run, the run fails with that error.\<close>

definition tell_created ::
    "'e chat_services \<Rightarrow> user_session \<Rightarrow> 'e stream_callbacks \<Rightarrow> uid \<Rightarrow> ('e, unit) chat_act" where
  "tell_created sv user cbs i =
     on_error (\<lambda>err w. snd (failRun sv user i err w)) (callStreamCallback (cb_run_created cbs) i)"

definition stream_run ::
    "'e chat_services \<Rightarrow> user_session option \<Rightarrow> user_session \<Rightarrow> chat_ask_req \<Rightarrow> 'e stream_callbacks \<Rightarrow>
     uid \<times> nat \<Rightarrow> ('e, unit) chat_act" where
  "stream_run sv ctx user req cbs begun =
     (case begun of (i, handle) \<Rightarrow>
       deferred (cleanup_run sv i handle)
         (attempt (tell_created sv user cbs i) (\<lambda>_.
          attempt (ask_agent sv ctx user req
              (Stream sv (agentRequest i (us_tenant user) (us_id user) req (cv_top_k sv))
                (persisting sv (us_tenant user) i cbs)) i handle)
            (\<lambda>output. callStreamCallback (cb_done cbs) (ar_answer output)))))"

definition stream_as ::
    "'e chat_services \<Rightarrow> user_session option \<Rightarrow> chat_ask_req \<Rightarrow> 'e stream_callbacks \<Rightarrow> user_session \<Rightarrow> uid \<Rightarrow>
     ('e, unit) chat_act" where
  "stream_as sv ctx req cbs user i =
     attempt (beginRun sv user req i True) (stream_run sv ctx user req cbs)"

definition ChatStream ::
    "'e chat_services \<Rightarrow> user_session option \<Rightarrow> chat_ask_req \<Rightarrow> 'e stream_callbacks \<Rightarrow> ('e, unit) chat_act" where
  "ChatStream sv ctx req cbs =
     (if missing_query req then fail (Plain (lit ''subject_id and query are required''))
      else attempt (current_user ctx) (\<lambda>user. attempt (chat_uuid sv) (stream_as sv ctx req cbs user)))"

section \<open>Cancelling and reading runs\<close>

text \<open>\<open>Controller.Cancel\<close>: calls the registered cancel function, if there is one.\<close>

definition controller_Cancel :: "'e chat_services \<Rightarrow> uid \<Rightarrow> ('e, bool) chat_act" where
  "controller_Cancel sv i w =
     (case cw_cancels w i of
        None \<Rightarrow> (Inr False, w)
      | Some handle \<Rightarrow> (Inr True, w\<lparr>cw_ext := cv_cancel sv handle (cw_ext w)\<rparr>))"

definition cancel_as :: "'e chat_services \<Rightarrow> uid \<Rightarrow> user_session \<Rightarrow> ('e, bool) chat_act" where
  "cancel_as sv i user =
     attempt (chat_tx sv (\<lambda>now. RequestCancel now i (us_tenant user) (us_id user))) (\<lambda>requested.
       if requested then
         attempt (controller_Cancel sv i) (\<lambda>_.
         attempt (ignore_error (appendRunEvent sv (us_tenant user) i ''run.cancel_requested'' (PRun i)))
           (\<lambda>_. return requested))
       else return requested)"

definition ChatRunCancel :: "'e chat_services \<Rightarrow> user_session option \<Rightarrow> uid \<Rightarrow> ('e, bool) chat_act" where
  "ChatRunCancel sv ctx i0 =
     (let i = trim_id i0
      in if \<not> cv_is_uuid sv i then fail (Plain (lit ''invalid run id''))
         else attempt (current_user ctx) (cancel_as sv i))"

record chat_run_event_info =
  ei_sequence :: int
  ei_type :: string
  ei_payload :: event_payload
  ei_created_at :: int

definition event_info :: "chat_run_event \<Rightarrow> chat_run_event_info" where
  "event_info e = \<lparr>ei_sequence = ev_sequence e, ei_type = ev_type e, ei_payload = ev_payload e,
     ei_created_at = ev_created_at e\<rparr>"

definition ChatRunEvents ::
    "'e chat_services \<Rightarrow> user_session option \<Rightarrow> uid \<Rightarrow> int \<Rightarrow> int \<Rightarrow> ('e, chat_run_event_info list) chat_act" where
  "ChatRunEvents sv ctx i0 after limit =
     (let i = trim_id i0
      in if \<not> cv_is_uuid sv i then fail (Plain (lit ''invalid run id''))
         else attempt (current_user ctx) (\<lambda>user.
              attempt (chat_tx sv (\<lambda>_. ListEvents i (us_tenant user) (us_id user) after limit))
                (\<lambda>events. return (map event_info events))))"

record chat_run_info =
  ri_id :: uid
  ri_status :: string
  ri_subject :: uid
  ri_session :: uid
  ri_message :: uid
  ri_error :: gostr
  ri_cancel_requested :: bool
  ri_created_at :: int
  ri_updated_at :: int

definition mapRunInfo :: "chat_run \<Rightarrow> chat_run_info" where
  "mapRunInfo r = \<lparr>ri_id = run_id r, ri_status = run_status_text (run_status r),
     ri_subject = run_subject r, ri_session = run_session r, ri_message = run_message r,
     ri_error = run_error r, ri_cancel_requested = run_cancel_requested r,
     ri_created_at = run_created_at r, ri_updated_at = run_updated_at r\<rparr>"

text \<open>The stored result is shown as it is; no result is shown as an empty object.\<close>

definition shown_result :: "agent_result json \<Rightarrow> gerr + agent_result option" where
  "shown_result j = (case j of JEmpty \<Rightarrow> Inr None | JInvalid err \<Rightarrow> Inl err | JValue r \<Rightarrow> Inr (Some r))"

definition ChatRunDetail ::
    "'e chat_services \<Rightarrow> user_session option \<Rightarrow> uid \<Rightarrow> ('e, chat_run_info \<times> agent_result option) chat_act" where
  "ChatRunDetail sv ctx i0 =
     (let i = trim_id i0
      in if \<not> cv_is_uuid sv i then fail (Plain (lit ''invalid run id''))
         else attempt (current_user ctx) (\<lambda>user.
              attempt (chat_tx sv (\<lambda>_. run_GetForUser i (us_tenant user) (us_id user))) (\<lambda>r.
              attempt (lift_result (shown_result (run_result r))) (\<lambda>result.
                return (mapRunInfo r, result)))))"

section \<open>Sessions\<close>

record chat_message_info =
  mi_id :: uid
  mi_question :: gostr
  mi_answer :: gostr
  mi_chunks :: "retrieval_chunk list"
  mi_links :: "external_link list"
  mi_metrics :: retrieval_metrics
  mi_label :: gostr
  mi_model :: gostr
  mi_web_search :: bool
  mi_steps :: "agent_step list"
  mi_created_at :: int

record chat_session_info =
  ci_id :: uid
  ci_title :: gostr
  ci_subject :: uid
  ci_llm_provider :: gostr
  ci_llm_model :: gostr
  ci_created_at :: int
  ci_updated_at :: int
  ci_messages :: "chat_message_info list"

text \<open>A column that does not decode is shown as the zero value; the code only writes ones that do.\<close>

definition decoded_or :: "'a \<Rightarrow> 'a json \<Rightarrow> 'a" where
  "decoded_or zero j = (case j of JValue a \<Rightarrow> a | _ \<Rightarrow> zero)"

definition no_metadata :: message_metadata where
  "no_metadata = \<lparr>mm_metrics = zero_metrics, mm_label = [], mm_model = [], mm_web_search = False,
     mm_links = [], mm_steps = []\<rparr>"

definition message_info :: "chat_message \<Rightarrow> chat_message_info" where
  "message_info m =
     (let metadata = decoded_or no_metadata (cm_metadata m)
      in \<lparr>mi_id = cm_id m, mi_question = cm_question m, mi_answer = cm_answer m,
          mi_chunks = decoded_or [] (cm_citations m), mi_links = mm_links metadata,
          mi_metrics = mm_metrics metadata, mi_label = mm_label metadata, mi_model = mm_model metadata,
          mi_web_search = mm_web_search metadata, mi_steps = mm_steps metadata,
          mi_created_at = cm_created_at m\<rparr>)"

definition MapSession :: "chat_session \<Rightarrow> chat_message list \<Rightarrow> chat_session_info" where
  "MapSession c messages =
     \<lparr>ci_id = se_id c, ci_title = se_title c, ci_subject = se_subject c,
      ci_llm_provider = se_llm_provider c, ci_llm_model = se_llm_model c,
      ci_created_at = se_created_at c, ci_updated_at = se_updated_at c,
      ci_messages = map message_info messages\<rparr>"

record session_req =
  sq_id :: uid
  sq_title :: gostr
  sq_subject :: uid
  sq_llm_provider :: gostr
  sq_llm_model :: gostr

definition create_session_as :: "'e chat_services \<Rightarrow> session_req \<Rightarrow> user_session \<Rightarrow> int \<Rightarrow> ('e, chat_session_info) chat_act" where
  "create_session_as sv req user now =
     (let c = \<lparr>se_id = sq_id req, se_tenant = us_tenant user, se_user = us_id user,
            se_subject = sq_subject req, se_title = TrimSpace (sq_title req),
            se_llm_provider = sq_llm_provider req, se_llm_model = sq_llm_model req,
            se_created_at = now, se_updated_at = now\<rparr>
      in attempt (chat_tx sv (\<lambda>_. CreateSession c)) (\<lambda>_. return (MapSession c [])))"

definition check_subject :: "'e chat_services \<Rightarrow> session_req \<Rightarrow> user_session \<Rightarrow> ('e, unit) chat_act" where
  "check_subject sv req user =
     (if sq_subject req = [] then return ()
      else attempt (chat_tx sv (\<lambda>_. on_base (ExistsAccessible (sq_subject req) (us_id user) (us_tenant user))))
             (\<lambda>exists. if \<not> exists then fail (Plain (lit ''knowledge base not found'')) else return ()))"

definition ChatSessionCreate ::
    "'e chat_services \<Rightarrow> user_session option \<Rightarrow> session_req \<Rightarrow> ('e, chat_session_info) chat_act" where
  "ChatSessionCreate sv ctx req =
     attempt (current_user ctx) (\<lambda>user.
       if \<not> cv_is_uuid sv (sq_id req) then fail (Plain (lit ''invalid session id''))
       else if TrimSpace (sq_title req) = [] then fail (Plain (lit ''title is required''))
       else attempt (check_subject sv req user) (\<lambda>_.
            attempt (chat_now sv) (create_session_as sv req user)))"

text \<open>\<open>ListSessions\<close>: one query for the sessions and one more for the messages of each.\<close>

fun load_messages ::
    "'e chat_services \<Rightarrow> uid \<Rightarrow> chat_session list \<Rightarrow> ('e, (chat_session \<times> chat_message list) list) chat_act" where
  "load_messages sv user [] = return []"
| "load_messages sv user (c # cs) =
     attempt (chat_tx sv (\<lambda>_. listMessages (se_id c) user)) (\<lambda>messages.
     attempt (load_messages sv user cs) (\<lambda>rest. return ((c, messages) # rest)))"

definition ListSessions :: "'e chat_services \<Rightarrow> uid \<Rightarrow> ('e, (chat_session \<times> chat_message list) list) chat_act" where
  "ListSessions sv user =
     attempt (chat_tx sv (\<lambda>_. ListSessionRows user)) (load_messages sv user)"

definition ChatSessionList ::
    "'e chat_services \<Rightarrow> user_session option \<Rightarrow> ('e, chat_session_info list) chat_act" where
  "ChatSessionList sv ctx =
     attempt (current_user ctx) (\<lambda>user.
     attempt (ListSessions sv (us_id user)) (\<lambda>found.
       return (map (\<lambda>(c, messages). MapSession c messages) found)))"

definition ChatSessionUpdate ::
    "'e chat_services \<Rightarrow> user_session option \<Rightarrow> uid \<Rightarrow> gostr \<Rightarrow> ('e, bool) chat_act" where
  "ChatSessionUpdate sv ctx i title =
     attempt (current_user ctx) (\<lambda>user.
       if TrimSpace title = [] then fail (Plain (lit ''title is required''))
       else chat_tx sv (\<lambda>now. UpdateSession now i (us_id user) (TrimSpace title)))"

definition ChatSessionDelete :: "'e chat_services \<Rightarrow> user_session option \<Rightarrow> uid \<Rightarrow> ('e, bool) chat_act" where
  "ChatSessionDelete sv ctx i =
     attempt (current_user ctx) (\<lambda>user. chat_tx sv (\<lambda>now. DeleteSession now i (us_id user)))"

end
