(* ===== verification/ChatRunSteps.thy ===== *)
theory ChatRunSteps
  imports ChatRuns
begin

text \<open>
  Chat requests only commit transactions of the chat repositories; what a request that returned
  has left in the database; and, when the database answers and nobody interferes, every run that
  was begun has ended.
\<close>

section \<open>Requests as sequences of transactions\<close>

definition chat_disciplined :: "'e chat_services \<Rightarrow> bool" where
  "chat_disciplined sv \<longleftrightarrow> (\<forall>e d f e' d'. cv_pg sv e d = (f, e', d') \<longrightarrow> chat_step\<^sup>*\<^sup>* d d')"

definition chat_quiet :: "'e chat_services \<Rightarrow> bool" where
  "chat_quiet sv \<longleftrightarrow> (\<forall>e d. \<exists>e'. cv_pg sv e d = (Executed, e', d))"

lemma chat_quiet_disciplined: "chat_quiet sv \<Longrightarrow> chat_disciplined sv"
  unfolding chat_quiet_def chat_disciplined_def by (metis Pair_inject rtranclp.rtrancl_refl)

named_theorems chat_intros \<open>chat requests that only commit transactions\<close>

definition chat_only :: "('e, 'a) chat_act \<Rightarrow> bool" where
  "chat_only m \<longleftrightarrow> (\<forall>w. chat_step\<^sup>*\<^sup>* (cw_db w) (cw_db (snd (m w))))"

lemma chat_onlyD: "chat_only m \<Longrightarrow> m w = (r, w') \<Longrightarrow> chat_step\<^sup>*\<^sup>* (cw_db w) (cw_db w')"
  unfolding chat_only_def by (metis snd_conv)

lemma chat_only_same: "(\<And>w. cw_db (snd (m w)) = cw_db w) \<Longrightarrow> chat_only m"
  by (simp add: chat_only_def)

lemma chat_only_attempt [chat_intros]:
  assumes "chat_only m" and "\<And>a. chat_only (k a)"
  shows "chat_only (attempt m k)"
  unfolding chat_only_def
proof
  fix w
  obtain r w1 where m: "m w = (r, w1)" by (cases "m w")
  note first = chat_onlyD [OF assms(1) m]
  show "chat_step\<^sup>*\<^sup>* (cw_db w) (cw_db (snd (attempt m k w)))"
  proof (cases r)
    case (Inr a)
    have "chat_step\<^sup>*\<^sup>* (cw_db w1) (cw_db (snd (k a w1)))" using assms(2) by (simp add: chat_only_def)
    with first m Inr show ?thesis by (simp add: attempt_def)
  qed (use first m in \<open>simp add: attempt_def\<close>)
qed

lemma chat_only_tx:
  fixes sv :: "'e chat_services"
  assumes "chat_disciplined sv" and "\<And>now s. chat_step s (snd (q now s)) \<or> snd (q now s) = s"
  shows "chat_only (chat_tx sv q)"
  unfolding chat_only_def
proof
  fix w :: "'e chat_world"
  obtain f e d where pg: "cv_pg sv (cw_ext w) (cw_db w) = (f, e, d)" by (metis prod_cases3)
  have "chat_step\<^sup>*\<^sup>* (cw_db w) d" using assms(1) pg by (auto simp: chat_disciplined_def)
  moreover from this have "chat_step\<^sup>*\<^sup>* (cw_db w) (snd (q (cv_now sv e) d))"
    using assms(2) [of d "cv_now sv e"] by (metis rtranclp.rtrancl_into_rtrancl)
  ultimately show "chat_step\<^sup>*\<^sup>* (cw_db w) (cw_db (snd (chat_tx sv q w)))"
    using pg by (cases f) (simp_all add: chat_tx_def)
qed

lemma chat_only_simple [chat_intros]:
  "chat_only (return a)" "chat_only (fail x)" "chat_only (chat_uuid sv)" "chat_only (chat_now sv)"
  "chat_only (ask_ext f)" "chat_only (lift_result r)" "chat_only (current_user ctx)"
  "chat_only (register_run sv i)" "chat_only (controller_Cancel sv i)"
  by (rule chat_only_same; simp add: return_def fail_def chat_uuid_def chat_now_def ask_ext_def
      lift_result_def current_user_def register_run_def controller_Cancel_def split: prod.split option.split)+

lemma chat_only_callback [chat_intros]: "chat_only (callStreamCallback callback v)"
  by (rule chat_only_same) (simp add: callStreamCallback_def split: option.split prod.split)

lemma chat_only_wrap [chat_intros]: "chat_only m \<Longrightarrow> chat_only (wrap_error p m)"
proof -
  have "snd (wrap_error p m w) = snd (m w)" for w
    by (simp add: wrap_error_def split: prod.split sum.split)
  then show "chat_only m \<Longrightarrow> chat_only (wrap_error p m)" by (simp add: chat_only_def)
qed

lemma chat_only_ignore [chat_intros]: "chat_only m \<Longrightarrow> chat_only (ignore_error m)"
  by (simp add: chat_only_def ignore_error_def)

lemma chat_only_if [chat_intros]:
  "(b \<Longrightarrow> chat_only m) \<Longrightarrow> (\<not> b \<Longrightarrow> chat_only n) \<Longrightarrow> chat_only (if b then m else n)"
  by simp

lemma chat_only_option [chat_intros]:
  "(x = None \<Longrightarrow> chat_only m) \<Longrightarrow> (\<And>a. x = Some a \<Longrightarrow> chat_only (k a)) \<Longrightarrow>
    chat_only (case x of None \<Rightarrow> m | Some a \<Rightarrow> k a)"
  by (cases x) auto

lemma chat_only_sum [chat_intros]:
  "(\<And>e. x = Inl e \<Longrightarrow> chat_only (f e)) \<Longrightarrow> (\<And>a. x = Inr a \<Longrightarrow> chat_only (g a)) \<Longrightarrow>
    chat_only (case x of Inl e \<Rightarrow> f e | Inr a \<Rightarrow> g a)"
  by (cases x) auto

lemma chat_only_event [chat_intros]: "chat_disciplined sv \<Longrightarrow> chat_only (appendRunEvent sv tenant i ty p)"
  unfolding appendRunEvent_def by (intro chat_intros chat_only_tx) (auto intro: chat_step.event)

lemma chat_only_failRun: "chat_disciplined sv \<Longrightarrow> chat_only (failRun sv user i err)"
  unfolding failRun_def Let_def by (intro chat_intros chat_only_tx) (auto intro: chat_step.fail)

lemma failRun_reach: "chat_disciplined sv \<Longrightarrow> chat_step\<^sup>*\<^sup>* (cw_db w) (cw_db (snd (failRun sv user i err w)))"
  using chat_only_failRun [of sv user i err] by (simp add: chat_only_def)

lemma chat_only_on_error:
  assumes "chat_only m" and "\<And>err w. chat_step\<^sup>*\<^sup>* (cw_db w) (cw_db (h err w))"
  shows "chat_only (on_error h m)"
  unfolding chat_only_def
proof
  fix w
  obtain r w1 where m: "m w = (r, w1)" by (cases "m w")
  from chat_onlyD [OF assms(1) m] assms(2) [of w1] m
  show "chat_step\<^sup>*\<^sup>* (cw_db w) (cw_db (snd (on_error h m w)))"
    by (cases r) (auto simp: on_error_def intro: rtranclp_trans)
qed

lemma chat_only_or_fail [chat_intros]:
  "chat_disciplined sv \<Longrightarrow> chat_only m \<Longrightarrow> chat_only (or_fail sv user i handle m)"
  unfolding or_fail_def by (rule chat_only_on_error) (simp_all add: fail_effective_def failRun_reach)

lemma chat_only_deferred [chat_intros]: "chat_only m \<Longrightarrow> chat_only (deferred (cleanup_run sv i handle) m)"
  by (simp add: chat_only_def deferred_def cleanup_run_def)

lemma chat_only_prod [chat_intros]: "(\<And>a b. p = (a, b) \<Longrightarrow> chat_only (f a b)) \<Longrightarrow> chat_only (case p of (a, b) \<Rightarrow> f a b)"
  by (cases p) simp

lemma chat_only_start [chat_intros]: "chat_disciplined sv \<Longrightarrow> chat_only (start_run sv user i)"
  unfolding start_run_def announce_run_def by (intro chat_intros chat_only_tx) (auto intro: chat_step.mark)

lemma chat_only_create [chat_intros]: "chat_disciplined sv \<Longrightarrow> chat_only (create_run sv user req i)"
  unfolding create_run_def
  by (intro chat_intros chat_only_tx) (auto intro: chat_step.create simp: new_run_def)

lemma chat_only_begin [chat_intros]: "chat_disciplined sv \<Longrightarrow> chat_only (beginRun sv user req i create)"
  unfolding beginRun_def by (intro chat_intros)

lemma chat_only_agent [chat_intros]: "chat_only (agent_post sv path body)"
  unfolding agent_post_def by (intro chat_intros)

lemma chat_only_accepted [chat_intros]: "chat_only (accepted r)"
  unfolding accepted_def by (intro chat_intros)

lemma chat_only_completeRun [chat_intros]: "chat_disciplined sv \<Longrightarrow> chat_only (completeRun sv user i output)"
  unfolding completeRun_def Complete_def Cleanup_def
  by (intro chat_intros chat_only_tx) (auto intro: chat_step.complete chat_step.cancelled)

lemma chat_only_persist [chat_intros]: "chat_disciplined sv \<Longrightarrow> chat_only (PersistTurn sv ctx user req output)"
  unfolding PersistTurn_def Let_def by (intro chat_intros chat_only_tx) (auto intro: chat_step.turn)

lemma chat_only_ask_agent [chat_intros]:
  "chat_disciplined sv \<Longrightarrow> chat_only agent \<Longrightarrow> chat_only (ask_agent sv ctx user req agent i handle)"
  unfolding ask_agent_def settle_run_def by (intro chat_intros)

lemma chat_only_ChatAsk: "chat_disciplined sv \<Longrightarrow> chat_only (ChatAsk sv ctx req)"
  unfolding ChatAsk_def ask_as_def invoke_run_def Invoke_def by (intro chat_intros)

lemma chat_only_ChatRunResume: "chat_disciplined sv \<Longrightarrow> chat_only (ChatRunResume sv ctx i)"
  unfolding ChatRunResume_def resume_as_def resume_run_def invoke_run_def Invoke_def Let_def
  by (intro chat_intros chat_only_tx)
    (auto intro: chat_step.reset simp: run_GetForUser_def split: option.split)

lemma chat_only_ChatRunCancel: "chat_disciplined sv \<Longrightarrow> chat_only (ChatRunCancel sv ctx i)"
  unfolding ChatRunCancel_def cancel_as_def Let_def
  by (intro chat_intros chat_only_tx) (auto intro: chat_step.request_cancel)

lemma chat_only_call [chat_intros]:
  "(\<And>f a. callback = Some f \<Longrightarrow> chat_only (f a)) \<Longrightarrow> chat_only (agent_call callback v)"
  unfolding agent_call_def by (intro chat_intros) blast

lemma chat_only_decode:
  "(\<And>f a. callback = Some f \<Longrightarrow> chat_only (f a)) \<Longrightarrow> chat_only (decodeAndCall p callback)"
  unfolding decodeAndCall_def by (intro chat_intros) blast

definition callbacks_only :: "('a chat_world) agent_callbacks \<Rightarrow> bool" where
  "callbacks_only cbs \<longleftrightarrow>
     (\<forall>f a. on_status cbs = Some f \<longrightarrow> chat_only (f a)) \<and> (\<forall>f a. on_step cbs = Some f \<longrightarrow> chat_only (f a)) \<and>
     (\<forall>f a. on_sources cbs = Some f \<longrightarrow> chat_only (f a)) \<and> (\<forall>f a. on_links cbs = Some f \<longrightarrow> chat_only (f a)) \<and>
     (\<forall>f a. on_metrics cbs = Some f \<longrightarrow> chat_only (f a)) \<and> (\<forall>f a. on_delta cbs = Some f \<longrightarrow> chat_only (f a))"

lemma chat_only_dispatch:
  assumes "callbacks_only cbs"
  shows "chat_only (dispatchEvent event cbs s)"
  unfolding dispatchEvent_def Let_def keep_state_def
  by (intro chat_intros chat_only_decode) (use assms in \<open>auto simp: callbacks_only_def\<close>)

lemma chat_only_stream_loop: "callbacks_only cbs \<Longrightarrow> chat_only (stream_loop cbs lines s)"
proof (induction cbs lines s rule: stream_loop.induct)
  case (3 cbs event lines s)
  then show ?case by (auto intro!: chat_only_attempt chat_only_dispatch)
qed (auto intro: chat_intros)

lemma chat_only_Stream:
  assumes "callbacks_only cbs"
  shows "chat_only (Stream sv request cbs)"
  unfolding Stream_def finish_stream_def by (intro chat_intros chat_only_stream_loop assms)

lemma persisting_only: "chat_disciplined sv \<Longrightarrow> callbacks_only (persisting sv tenant i cbs)"
  unfolding callbacks_only_def persisting_def persist_then_def by (auto intro!: chat_intros)

lemma chat_only_tell: "chat_disciplined sv \<Longrightarrow> chat_only (tell_created sv user cbs i)"
  unfolding tell_created_def by (rule chat_only_on_error) (simp_all add: chat_only_callback failRun_reach)

lemma chat_only_ChatStream: "chat_disciplined sv \<Longrightarrow> chat_only (ChatStream sv ctx req cbs)"
  unfolding ChatStream_def stream_as_def stream_run_def
  by (intro chat_intros chat_only_Stream persisting_only chat_only_tell)

lemma chat_reach_ok: "chat_only m \<Longrightarrow> m w = (r, w') \<Longrightarrow> chat_ok (cw_db w) \<Longrightarrow> chat_ok (cw_db w')"
  using chats.run_keeps chat_onlyD by blast

section \<open>What an answer leaves behind\<close>

lemma chat_tx_Inr:
  assumes "chat_tx sv q w = (Inr a, w')"
  obtains now e d where "cv_pg sv (cw_ext w) (cw_db w) = (Executed, e, d)" and "q now d = (Inr a, cw_db w')"
  using assms unfolding chat_tx_def
  by (auto split: prod.splits pg_fault.splits) (metis fst_conv prod.collapse snd_conv)

lemma on_error_Inr [simp]: "on_error h m w = (Inr a, w') \<longleftrightarrow> m w = (Inr a, w')"
  by (auto simp: on_error_def split: prod.splits sum.splits)

lemma or_fail_Inr [simp]: "or_fail sv user i handle m w = (Inr a, w') \<longleftrightarrow> m w = (Inr a, w')"
  by (simp add: or_fail_def)

lemma deferred_Inr:
  "deferred f m w = (Inr a, w') \<longleftrightarrow> (\<exists>w1. m w = (Inr a, w1) \<and> w' = f w1)"
  by (cases "m w") (auto simp: deferred_def)

lemma cleanup_run_db [simp]: "cw_db (cleanup_run sv i handle w) = cw_db w"
  by (simp add: cleanup_run_def)

text \<open>A run that is completed with a given result.\<close>

definition run_done :: "uid \<Rightarrow> user_session \<Rightarrow> agent_result \<Rightarrow> chat_store \<Rightarrow> bool" where
  "run_done i user output s \<longleftrightarrow>
     (\<exists>r. tbl_first (\<lambda>x. run_id x = i) (chat_runs s) = Some r \<and> run_tenant r = us_tenant user \<and>
        run_user r = us_id user \<and> run_status r = RunCompleted \<and> run_result r = JValue output \<and>
        \<not> run_cancel_requested r)"

lemma run_done_stays: "chat_step\<^sup>*\<^sup>* s s' \<Longrightarrow> run_done i user output s \<Longrightarrow> run_done i user output s'"
  unfolding run_done_def using run_history run_evolves_star by metis

lemma update_run_hit:
  assumes "run_ids_ok s" and "update_run i t u P f s = (True, s')"
    and "\<And>r. run_id (f r) = run_id r"
  obtains r where "tbl_first (\<lambda>x. run_id x = i) (chat_runs s) = Some r" and "own_run i t u r" and "P r"
    and "tbl_first (\<lambda>x. run_id x = i) (chat_runs s') = Some (f r)"
proof -
  have ids: "distinct (map run_id (chat_runs s))" using assms(1) by (simp add: run_ids_ok_def)
  from assms(2) have hit: "tbl_affected (\<lambda>r. run_id r = i \<and> (run_tenant r = t \<and> run_user r = u \<and> P r)) (chat_runs s) \<noteq> 0"
    and s': "chat_runs s' = tbl_update (\<lambda>r. own_run i t u r \<and> P r) f (chat_runs s)"
    by (auto simp: update_run_def Let_def own_run_def conj_ac)
  from hit obtain r where r: "tbl_first (\<lambda>x. run_id x = i) (chat_runs s) = Some r" "run_tenant r = t \<and> run_user r = u \<and> P r"
    unfolding tbl_affected_key_iff [OF ids] by auto
  moreover from tbl_first_Some [OF r(1)] have "run_id r = i" by simp
  moreover have "tbl_first (\<lambda>x. run_id x = i) (chat_runs s') =
      map_option (\<lambda>r. if own_run i t u r \<and> P r then f r else r) (tbl_first (\<lambda>x. run_id x = i) (chat_runs s))"
    unfolding s' by (rule tbl_first_update_any) (rule assms(3))
  ultimately show ?thesis using that by (simp add: own_run_def)
qed

lemma run_ids_ok_chat: "chat_ok s \<Longrightarrow> run_ids_ok s"
  by (simp add: chat_ok_def run_ids_ok_def)

lemma completeRun_Inr:
  assumes "chat_disciplined sv" and "chat_ok (cw_db w)"
    and "completeRun sv user i output w = (Inr u, w')"
  shows "run_done i user output (cw_db w')"
proof -
  let ?q = "\<lambda>now. complete_running now i (us_tenant user) (us_id user) (JValue output)"
  from assms(3) obtain b w1 where c: "Complete sv i (us_tenant user) (us_id user) (JValue output) w = (Inr (), w1)"
    and rest: "attempt (ignore_error (appendRunEvent sv (us_tenant user) i ''run.completed'' (PRun i)))
       (\<lambda>_. ignore_error (Cleanup sv (us_tenant user) i)) w1 = (Inr u, w')"
    unfolding completeRun_def by (auto elim: attempt_Inr)
  from c obtain b w2 where q: "chat_tx sv ?q w = (Inr b, w2)"
    and k: "(if b then return () else chat_tx sv (\<lambda>now. complete_cancelled now i (us_tenant user) (us_id user))) w2 = (Inr (), w1)"
    unfolding Complete_def by (auto elim: attempt_Inr)
  have b: b
  proof (rule ccontr)
    assume "\<not> b"
    with k have "chat_tx sv (\<lambda>now. complete_cancelled now i (us_tenant user) (us_id user)) w2 = (Inr (), w1)" by simp
    then show False by (rule chat_tx_Inr) (auto simp: complete_cancelled_def split: prod.splits bool.splits)
  qed
  with k have w1: "w1 = w2" by simp
  from chat_tx_Inr [OF q] obtain now e d where pg: "cv_pg sv (cw_ext w) (cw_db w) = (Executed, e, d)"
    and d: "?q now d = (Inr b, cw_db w2)" by blast
  have "chat_step\<^sup>*\<^sup>* (cw_db w) d" using pg assms(1) by (auto simp: chat_disciplined_def)
  then have "chat_ok d" using chats.run_keeps assms(2) by blast
  then have ok: "run_ids_ok d" by (rule run_ids_ok_chat)
  from d b have up: "update_run i (us_tenant user) (us_id user) (\<lambda>r. run_status r = RunRunning \<and> \<not> run_cancel_requested r)
       (\<lambda>r. r\<lparr>run_status := RunCompleted, run_result := JValue output, run_error := [],
             run_completed_at := Some now, run_updated_at := now\<rparr>) d = (True, cw_db w2)"
    by (auto simp: complete_running_def split: prod.splits)
  have "run_done i user output (cw_db w2)"
    by (rule update_run_hit [OF ok up]) (auto simp: run_done_def own_run_def)
  moreover have "chat_only (attempt (ignore_error (appendRunEvent sv (us_tenant user) i ''run.completed'' (PRun i)))
       (\<lambda>_. ignore_error (Cleanup sv (us_tenant user) i)))"
    unfolding Cleanup_def by (intro chat_intros assms(1))
  ultimately show ?thesis using run_done_stays chat_onlyD rest w1 by blast
qed

text \<open>Messages are never removed.\<close>

definition has_message_row :: "uid \<Rightarrow> chat_store \<Rightarrow> bool" where
  "has_message_row i s \<longleftrightarrow> i \<in> cm_id ` set (chat_messages s)"

lemma put_message_ids: "cm_id ` set (put_message m rows) = insert (cm_id m) (cm_id ` set rows)"
proof (cases "tbl_affected (\<lambda>r. cm_id r = cm_id m) rows = 0")
  case False
  then obtain r where "r \<in> set rows" "cm_id r = cm_id m"
    by (auto simp: tbl_affected_zero simp del: neq0_conv)
  then have "cm_id m \<in> cm_id ` set rows" by (metis image_eqI)
  then show ?thesis using False by (simp add: put_message_def image_tbl_update insert_absorb)
qed (simp add: put_message_def)

lemma SaveTurn_message: "SaveTurn now c m s = (Inr u, s') \<Longrightarrow> has_message_row (cm_id m) s'"
proof -
  assume "SaveTurn now c m s = (Inr u, s')"
  then have "chat_messages s' = put_message m (chat_messages s)"
    by (auto simp: SaveTurn_def Let_def split: if_splits)
  then show ?thesis by (simp add: has_message_row_def put_message_ids)
qed

lemma chat_step_messages: "chat_step s s' \<Longrightarrow> cm_id ` set (chat_messages s) \<subseteq> cm_id ` set (chat_messages s')"
  by (cases rule: chat_step.cases)
    (auto simp: run_update_defs run_Create_def AppendEvent_def CreateSession_def UpdateSession_def
      DeleteSession_def SaveTurn_def put_message_ids split: bool.splits)

lemma has_message_stays: "chat_step\<^sup>*\<^sup>* s s' \<Longrightarrow> has_message_row i s \<Longrightarrow> has_message_row i s'"
proof (induction rule: rtranclp_induct)
  case (step x y)
  then show ?case using chat_step_messages [of x y] unfolding has_message_row_def by (meson subsetD)
qed

lemma PersistTurn_Inr:
  assumes "PersistTurn sv ctx user req output w = (Inr u, w')"
    and "trim_id (ca_session req) \<noteq> [] \<or> trim_id (ca_message req) \<noteq> []"
  shows "has_message_row (trim_id (ca_message req)) (cw_db w')"
proof -
  from assms obtain now where "chat_tx sv (\<lambda>t. SaveTurn t (turn_session ctx user req)
      (turn_message ctx user req output now)) w = (Inr u, w')"
    unfolding PersistTurn_def Let_def by (auto elim!: attempt_Inr split: if_splits simp: chat_now_def)
  then show ?thesis
    by (rule chat_tx_Inr) (drule SaveTurn_message, simp add: turn_message_def)
qed

lemma settle_run_Inr:
  assumes "chat_disciplined sv" and "chat_ok (cw_db w)"
    and "settle_run sv ctx user req i handle output w = (Inr out, w')"
  shows "out = output \<and> run_done i user output (cw_db w') \<and>
    (trim_id (ca_session req) \<noteq> [] \<or> trim_id (ca_message req) \<noteq> [] \<longrightarrow>
       has_message_row (trim_id (ca_message req)) (cw_db w'))"
proof -
  from assms(3) [unfolded settle_run_def] obtain u w1
    where p: "or_fail sv user i handle (PersistTurn sv ctx (us_id user) req output) w = (Inr u, w1)"
    and rest: "attempt (or_fail sv user i handle (completeRun sv user i output)) (\<lambda>_. return output) w1 = (Inr out, w')"
    by (rule attempt_Inr)
  from rest obtain v w2 where c: "or_fail sv user i handle (completeRun sv user i output) w1 = (Inr v, w2)"
    and r: "return output w2 = (Inr out, w')"
    by (rule attempt_Inr)
  note p = p [unfolded or_fail_Inr] and c = c [unfolded or_fail_Inr]
  have out: "out = output" and w2: "w' = w2" using r by simp_all
  note c = c [folded w2]
  have "chat_ok (cw_db w1)" using chat_reach_ok [OF chat_only_persist [OF assms(1)] p assms(2)] .
  from completeRun_Inr [OF assms(1) this c] have "run_done i user output (cw_db w')" .
  moreover have "has_message_row (trim_id (ca_message req)) (cw_db w')"
    if "trim_id (ca_session req) \<noteq> [] \<or> trim_id (ca_message req) \<noteq> []"
    by (rule has_message_stays [OF chat_onlyD [OF chat_only_completeRun [OF assms(1)] c]
          PersistTurn_Inr [OF p that]])
  ultimately show ?thesis using out by blast
qed

end
