(* ===== verification/ChatEnds.thy ===== *)
theory ChatEnds
  imports ChatRunSteps
begin

text \<open>
  When the database answers and no other process writes, a run that was begun has ended when its
  request returns: completed with the answer, or failed or cancelled with the error.
\<close>

section \<open>Requests that leave the runs alone\<close>

named_theorems keeps_intros \<open>actions that do not change any run\<close>

definition keeps_runs :: "('e, 'a) chat_act \<Rightarrow> bool" where
  "keeps_runs m \<longleftrightarrow> (\<forall>w. chat_runs (cw_db (snd (m w))) = chat_runs (cw_db w))"

lemma keeps_runsD: "keeps_runs m \<Longrightarrow> m w = (r, w') \<Longrightarrow> chat_runs (cw_db w') = chat_runs (cw_db w)"
  unfolding keeps_runs_def by (metis snd_conv)

lemma keeps_same: "(\<And>w. cw_db (snd (m w)) = cw_db w) \<Longrightarrow> keeps_runs m"
  by (simp add: keeps_runs_def)

lemma keeps_attempt [keeps_intros]:
  assumes "keeps_runs m" and "\<And>a. keeps_runs (k a)"
  shows "keeps_runs (attempt m k)"
  unfolding keeps_runs_def
proof
  fix w
  obtain r w1 where m: "m w = (r, w1)" by (cases "m w")
  show "chat_runs (cw_db (snd (attempt m k w))) = chat_runs (cw_db w)"
    using keeps_runsD [OF assms(1) m] assms(2) m
    by (cases r) (auto simp: attempt_def keeps_runs_def)
qed

lemma chat_tx_quiet:
  assumes "chat_quiet sv"
  obtains now e where "chat_tx sv q w = (fst (q now (cw_db w)), w\<lparr>cw_db := snd (q now (cw_db w)), cw_ext := e\<rparr>)"
proof -
  obtain e where e: "cv_pg sv (cw_ext w) (cw_db w) = (Executed, e, cw_db w)"
    using assms unfolding chat_quiet_def by blast
  show thesis by (rule that [of "cv_now sv e" e]) (simp add: chat_tx_def e)
qed

lemma keeps_tx:
  assumes "chat_quiet sv" and "\<And>now s. chat_runs (snd (q now s)) = chat_runs s"
  shows "keeps_runs (chat_tx sv q)"
  unfolding keeps_runs_def
proof
  fix w
  obtain now e where "chat_tx sv q w = (fst (q now (cw_db w)), w\<lparr>cw_db := snd (q now (cw_db w)), cw_ext := e\<rparr>)"
    by (rule chat_tx_quiet [OF assms(1)])
  then show "chat_runs (cw_db (snd (chat_tx sv q w))) = chat_runs (cw_db w)" by (simp add: assms(2))
qed

lemma keeps_simple [keeps_intros]:
  "keeps_runs (return a)" "keeps_runs (fail x)" "keeps_runs (chat_uuid sv)" "keeps_runs (chat_now sv)"
  "keeps_runs (ask_ext f)" "keeps_runs (lift_result r)" "keeps_runs (current_user ctx)"
  "keeps_runs (register_run sv i)"
  by (rule keeps_same; simp add: return_def fail_def chat_uuid_def chat_now_def ask_ext_def
      lift_result_def current_user_def register_run_def split: prod.split)+

lemma keeps_callback [keeps_intros]: "keeps_runs (callStreamCallback callback v)"
  by (rule keeps_same) (simp add: callStreamCallback_def split: option.split prod.split)

lemma keeps_wrap [keeps_intros]: "keeps_runs m \<Longrightarrow> keeps_runs (wrap_error p m)"
proof -
  have "snd (wrap_error p m w) = snd (m w)" for w
    by (simp add: wrap_error_def split: prod.split sum.split)
  then show "keeps_runs m \<Longrightarrow> keeps_runs (wrap_error p m)" by (simp add: keeps_runs_def)
qed

lemma keeps_ignore [keeps_intros]: "keeps_runs m \<Longrightarrow> keeps_runs (ignore_error m)"
  by (simp add: keeps_runs_def ignore_error_def)

lemma keeps_if [keeps_intros]:
  "(b \<Longrightarrow> keeps_runs m) \<Longrightarrow> (\<not> b \<Longrightarrow> keeps_runs n) \<Longrightarrow> keeps_runs (if b then m else n)"
  by simp

lemma keeps_option [keeps_intros]:
  "(x = None \<Longrightarrow> keeps_runs m) \<Longrightarrow> (\<And>a. x = Some a \<Longrightarrow> keeps_runs (k a)) \<Longrightarrow>
    keeps_runs (case x of None \<Rightarrow> m | Some a \<Rightarrow> k a)"
  by (cases x) auto

lemma keeps_sum [keeps_intros]:
  "(\<And>e. x = Inl e \<Longrightarrow> keeps_runs (f e)) \<Longrightarrow> (\<And>a. x = Inr a \<Longrightarrow> keeps_runs (g a)) \<Longrightarrow>
    keeps_runs (case x of Inl e \<Rightarrow> f e | Inr a \<Rightarrow> g a)"
  by (cases x) auto

lemma keeps_event [keeps_intros]: "chat_quiet sv \<Longrightarrow> keeps_runs (appendRunEvent sv tenant i ty p)"
  unfolding appendRunEvent_def by (intro keeps_intros keeps_tx) (simp_all add: AppendEvent_def Let_def)

lemma keeps_persist [keeps_intros]: "chat_quiet sv \<Longrightarrow> keeps_runs (PersistTurn sv ctx user req output)"
  unfolding PersistTurn_def Let_def by (intro keeps_intros keeps_tx) (simp_all add: SaveTurn_def Let_def)

lemma keeps_post [keeps_intros]: "keeps_runs (agent_post sv path body)"
  unfolding agent_post_def by (intro keeps_intros)

lemma keeps_accepted [keeps_intros]: "keeps_runs (accepted r)"
  unfolding accepted_def by (intro keeps_intros)

lemma keeps_Invoke [keeps_intros]: "keeps_runs (Invoke sv request)"
  unfolding Invoke_def by (intro keeps_intros)

lemma keeps_Cleanup [keeps_intros]: "keeps_runs (Cleanup sv tenant i)"
  unfolding Cleanup_def by (intro keeps_intros)

definition callbacks_keep :: "('a chat_world) agent_callbacks \<Rightarrow> bool" where
  "callbacks_keep cbs \<longleftrightarrow>
     (\<forall>f a. on_status cbs = Some f \<longrightarrow> keeps_runs (f a)) \<and> (\<forall>f a. on_step cbs = Some f \<longrightarrow> keeps_runs (f a)) \<and>
     (\<forall>f a. on_sources cbs = Some f \<longrightarrow> keeps_runs (f a)) \<and> (\<forall>f a. on_links cbs = Some f \<longrightarrow> keeps_runs (f a)) \<and>
     (\<forall>f a. on_metrics cbs = Some f \<longrightarrow> keeps_runs (f a)) \<and> (\<forall>f a. on_delta cbs = Some f \<longrightarrow> keeps_runs (f a))"

lemma keeps_decode:
  "(\<And>f a. callback = Some f \<Longrightarrow> keeps_runs (f a)) \<Longrightarrow> keeps_runs (decodeAndCall p callback)"
  unfolding decodeAndCall_def agent_call_def by (intro keeps_intros) blast

lemma keeps_dispatch:
  assumes "callbacks_keep cbs"
  shows "keeps_runs (dispatchEvent event cbs s)"
  unfolding dispatchEvent_def Let_def keep_state_def
  by (intro keeps_intros keeps_decode) (use assms in \<open>auto simp: callbacks_keep_def\<close>)

lemma keeps_stream_loop: "callbacks_keep cbs \<Longrightarrow> keeps_runs (stream_loop cbs lines s)"
proof (induction cbs lines s rule: stream_loop.induct)
  case (3 cbs event lines s)
  then show ?case by (auto intro!: keeps_attempt keeps_dispatch)
qed (auto intro: keeps_intros)

lemma keeps_Stream: "callbacks_keep cbs \<Longrightarrow> keeps_runs (Stream sv request cbs)"
  unfolding Stream_def finish_stream_def by (intro keeps_intros keeps_stream_loop)

lemma persisting_keep: "chat_quiet sv \<Longrightarrow> callbacks_keep (persisting sv tenant i cbs)"
  unfolding callbacks_keep_def persisting_def persist_then_def by (auto intro!: keeps_intros)

section \<open>The status of a run at the end of its request\<close>

definition run_of :: "uid \<Rightarrow> user_session \<Rightarrow> chat_store \<Rightarrow> chat_run option" where
  "run_of i user s = tbl_first (own_run i (us_tenant user) (us_id user)) (chat_runs s)"

definition running :: "uid \<Rightarrow> user_session \<Rightarrow> chat_store \<Rightarrow> bool" where
  "running i user s \<longleftrightarrow> run_ids_ok s \<and>
     (\<exists>r. run_of i user s = Some r \<and> run_status r = RunRunning \<and> \<not> run_cancel_requested r)"

definition ended_with_error :: "uid \<Rightarrow> user_session \<Rightarrow> chat_store \<Rightarrow> bool" where
  "ended_with_error i user s \<longleftrightarrow>
     (\<exists>r. run_of i user s = Some r \<and> (run_status r = RunFailed \<or> run_status r = RunCancelled) \<and>
        run_completed_at r \<noteq> None)"

definition completed_with :: "uid \<Rightarrow> user_session \<Rightarrow> agent_result \<Rightarrow> chat_store \<Rightarrow> bool" where
  "completed_with i user output s \<longleftrightarrow>
     (\<exists>r. run_of i user s = Some r \<and> run_status r = RunCompleted \<and> run_result r = JValue output \<and>
        run_error r = [])"

lemma run_predicates_cong:
  assumes "chat_runs s' = chat_runs s"
  shows "running i user s' = running i user s" and "ended_with_error i user s' = ended_with_error i user s"
    and "completed_with i user output s' = completed_with i user output s"
  by (simp_all add: running_def ended_with_error_def completed_with_def run_of_def run_ids_ok_def assms)

lemma keeps_predicates:
  assumes "keeps_runs m"
  shows "running i user (cw_db (snd (m w))) = running i user (cw_db w)"
    and "ended_with_error i user (cw_db (snd (m w))) = ended_with_error i user (cw_db w)"
    and "completed_with i user output (cw_db (snd (m w))) = completed_with i user output (cw_db w)"
  by (rule run_predicates_cong, use assms in \<open>simp add: keeps_runs_def\<close>)+

lemma update_run_cases:
  assumes "run_ids_ok s" and "run_of i user s = Some r" and "P r"
    and "\<And>x. run_id (f x) = run_id x \<and> run_tenant (f x) = run_tenant x \<and> run_user (f x) = run_user x"
  shows "fst (update_run i (us_tenant user) (us_id user) P f s)"
    and "run_of i user (snd (update_run i (us_tenant user) (us_id user) P f s)) = Some (f r)"
    and "run_ids_ok (snd (update_run i (us_tenant user) (us_id user) P f s))"
proof -
  have ids: "distinct (map run_id (chat_runs s))" using assms(1) by (simp add: run_ids_ok_def)
  show "fst (update_run i (us_tenant user) (us_id user) P f s)"
  proof -
    have "tbl_affected (\<lambda>r. own_run i (us_tenant user) (us_id user) r \<and> P r) (chat_runs s) \<noteq> 0"
      by (rule active_run_iff [OF ids, THEN iffD2]) (use assms(2,3) in \<open>simp add: run_of_def\<close>)
    then show ?thesis by (simp add: update_run_def Let_def)
  qed
  have "own_run i (us_tenant user) (us_id user) r"
    using tbl_first_Some [OF assms(2) [unfolded run_of_def]] by simp
  moreover have "run_of i user (snd (update_run i (us_tenant user) (us_id user) P f s)) =
      map_option (\<lambda>r. if own_run i (us_tenant user) (us_id user) r \<and> P r then f r else r) (run_of i user s)"
    unfolding run_of_def by (rule update_run_first) (simp_all add: own_run_def assms(4))
  ultimately show "run_of i user (snd (update_run i (us_tenant user) (us_id user) P f s)) = Some (f r)"
    using assms(2,3) by simp
  show "run_ids_ok (snd (update_run i (us_tenant user) (us_id user) P f s))"
    using ids assms(4) by (simp add: update_run_def Let_def run_ids_ok_def map_tbl_update)
qed

lemma updateStatus_snd:
  "snd (updateStatus now i t u status msg result terminal s) =
     snd (update_run i t u active (\<lambda>r. r\<lparr>run_status := status,
       run_result := coalesce_result result (run_result r), run_error := msg,
       run_completed_at := (if terminal then Some now else None), run_updated_at := now\<rparr>) s)"
  by (simp add: updateStatus_def split: prod.split bool.split)

lemma updateStatus_fst:
  "fst (updateStatus now i t u status msg result terminal s) =
     (if fst (update_run i t u active (\<lambda>r. r\<lparr>run_status := status,
       run_result := coalesce_result result (run_result r), run_error := msg,
       run_completed_at := (if terminal then Some now else None), run_updated_at := now\<rparr>) s)
      then Inr () else Inl (Sentinel PgxNoRows))"
  by (simp add: updateStatus_def split: prod.split bool.split)

lemma complete_running_eq:
  "complete_running now i t u result s =
     (let p = update_run i t u (\<lambda>r. run_status r = RunRunning \<and> \<not> run_cancel_requested r)
         (\<lambda>r. r\<lparr>run_status := RunCompleted, run_result := result, run_error := [],
               run_completed_at := Some now, run_updated_at := now\<rparr>) s
      in (Inr (fst p), snd p))"
  by (simp add: complete_running_def split_def Let_def)

lemma failRun_ends:
  assumes "chat_quiet sv" and "running i user (cw_db w)"
  shows "ended_with_error i user (cw_db (snd (failRun sv user i err w)))"
proof -
  define status where "status = (if errors_is err ContextCanceled then RunCancelled else RunFailed)"
  let ?q = "\<lambda>now. run_Fail now i (us_tenant user) (us_id user) status (err_text err)"
  obtain r where ids: "run_ids_ok (cw_db w)" and r: "run_of i user (cw_db w) = Some r" "active r"
    using assms(2) by (auto simp: running_def active_def)
  obtain now e where tx: "chat_tx sv ?q w = (fst (?q now (cw_db w)), w\<lparr>cw_db := snd (?q now (cw_db w)), cw_ext := e\<rparr>)"
    by (rule chat_tx_quiet [OF assms(1)])
  have "ended_with_error i user (snd (?q now (cw_db w)))"
    by (simp add: run_Fail_def updateStatus_snd ended_with_error_def status_def
        update_run_cases(2) [OF ids r(1), of active, OF r(2)])
  then have ended: "ended_with_error i user (cw_db (snd (chat_tx sv ?q w)))" unfolding tx by simp
  have "keeps_runs (ignore_error (appendRunEvent sv (us_tenant user) i (''run.'' @ run_status_text status)
        (PMessage (err_text err))))" by (intro keeps_intros assms(1))
  from keeps_predicates(2) [OF this] ended show ?thesis
    unfolding failRun_def Let_def status_def [symmetric]
    by (simp add: attempt_def ignore_error_def)
qed

lemma completeRun_completes:
  assumes "chat_quiet sv" and "running i user (cw_db w)"
  shows "fst (completeRun sv user i output w) = Inr ()"
    and "completed_with i user output (cw_db (snd (completeRun sv user i output w)))"
proof -
  let ?q = "\<lambda>now. complete_running now i (us_tenant user) (us_id user) (JValue output)"
  obtain r where ids: "run_ids_ok (cw_db w)" and r: "run_of i user (cw_db w) = Some r"
    "run_status r = RunRunning \<and> \<not> run_cancel_requested r"
    using assms(2) by (auto simp: running_def)
  obtain now e where tx: "chat_tx sv ?q w = (fst (?q now (cw_db w)), w\<lparr>cw_db := snd (?q now (cw_db w)), cw_ext := e\<rparr>)"
    by (rule chat_tx_quiet [OF assms(1)])
  note up = update_run_cases(1,2) [OF ids r(1), of "\<lambda>r. run_status r = RunRunning \<and> \<not> run_cancel_requested r", OF r(2)]
  have q: "fst (?q now (cw_db w)) = Inr True" "completed_with i user output (snd (?q now (cw_db w)))"
    by (simp_all add: complete_running_eq completed_with_def up Let_def)
  have c: "Complete sv i (us_tenant user) (us_id user) (JValue output) w =
      (Inr (), w\<lparr>cw_db := snd (?q now (cw_db w)), cw_ext := e\<rparr>)"
    by (simp add: Complete_def attempt_def tx q return_def)
  let ?rest = "attempt (ignore_error (appendRunEvent sv (us_tenant user) i ''run.completed'' (PRun i)))
       (\<lambda>_. ignore_error (Cleanup sv (us_tenant user) i))"
  have rest: "keeps_runs ?rest" by (intro keeps_intros assms(1))
  have "completed_with i user output (cw_db (snd (?rest (w\<lparr>cw_db := snd (?q now (cw_db w)), cw_ext := e\<rparr>))))"
    unfolding keeps_predicates(3) [OF rest] using q(2) by simp
  then show "completed_with i user output (cw_db (snd (completeRun sv user i output w)))"
    unfolding completeRun_def by (subst attempt_def) (simp add: c)
  show "fst (completeRun sv user i output w) = Inr ()"
    unfolding completeRun_def by (simp add: attempt_def c ignore_error_def)
qed

text \<open>An action in a running run, with the failure handling of the chat logic around it.\<close>

lemma or_fail_ends:
  assumes "chat_quiet sv" and "running i user (cw_db (snd (m w)))"
    and "or_fail sv user i handle m w = (r, w')"
  shows "(case r of Inl e \<Rightarrow> ended_with_error i user (cw_db w') | Inr a \<Rightarrow> m w = (Inr a, w') \<and> running i user (cw_db w'))"
proof (cases "m w")
  case (Pair r1 w1)
  with assms(2) have "running i user (cw_db w1)" by simp
  with assms(1,3) Pair show ?thesis
    by (cases r1) (auto simp: or_fail_def on_error_def fail_effective_def intro: failRun_ends)
qed

lemma settle_run_ends:
  assumes "chat_quiet sv" and "running i user (cw_db w)"
    and "settle_run sv ctx user req i handle output w = (r, w')"
  shows "(case r of Inl e \<Rightarrow> ended_with_error i user (cw_db w')
          | Inr out \<Rightarrow> out = output \<and> completed_with i user output (cw_db w'))"
proof -
  let ?m = "PersistTurn sv ctx (us_id user) req output"
  have "keeps_runs ?m" by (intro keeps_intros assms(1))
  with assms(2) have "running i user (cw_db (snd (?m w)))" by (simp add: keeps_predicates(1))
  note p = or_fail_ends [where m = ?m and w = w, OF assms(1) this]
  obtain r1 w1 where r1: "or_fail sv user i handle ?m w = (r1, w1)" by fastforce
  show ?thesis
  proof (cases r1)
    case (Inl e)
    with assms(3) r1 p [OF r1] show ?thesis by (auto simp: settle_run_def attempt_def)
  next
    case (Inr u)
    with p [OF r1] have "running i user (cw_db w1)" by simp
    note c = completeRun_completes [OF assms(1) this, of "output"]
    obtain w2 where "completeRun sv user i output w1 = (Inr (), w2)" using c(1) by (metis prod.collapse)
    with c(2) assms(3) r1 Inr show ?thesis
      by (auto simp: settle_run_def attempt_def or_fail_def on_error_def return_def)
  qed
qed

lemma ask_agent_ends:
  assumes "chat_quiet sv" and "running i user (cw_db w)" and "keeps_runs agent"
    and "ask_agent sv ctx user req agent i handle w = (r, w')"
  shows "(case r of Inl e \<Rightarrow> ended_with_error i user (cw_db w')
          | Inr out \<Rightarrow> completed_with i user out (cw_db w'))"
proof -
  have "running i user (cw_db (snd (agent w)))" using assms(2,3) by (simp add: keeps_predicates(1))
  note p = or_fail_ends [where m = agent and w = w, OF assms(1) this]
  obtain r1 w1 where r1: "or_fail sv user i handle agent w = (r1, w1)" by fastforce
  show ?thesis
  proof (cases r1)
    case (Inl e)
    with assms(4) r1 p [OF r1] show ?thesis by (auto simp: ask_agent_def attempt_def)
  next
    case (Inr out)
    with p [OF r1] have "running i user (cw_db w1)" by simp
    moreover have "settle_run sv ctx user req i handle out w1 = (r, w')"
      using assms(4) r1 Inr by (simp add: ask_agent_def attempt_def)
    ultimately show ?thesis using settle_run_ends [OF assms(1)] by (cases r) fastforce+
  qed
qed

text \<open>A new run is running when \<open>beginRun\<close> returns.\<close>

lemma start_run_running:
  assumes "chat_quiet sv" and "run_ids_ok (cw_db w)" and "run_of i user (cw_db w) = Some r"
    and "active r" and "\<not> run_cancel_requested r"
  obtains handle w' where "start_run sv user i w = (Inr handle, w')" and "running i user (cw_db w')"
proof -
  let ?q = "\<lambda>now. MarkRunning now i (us_tenant user) (us_id user)"
  obtain now e where tx: "chat_tx sv ?q w = (fst (?q now (cw_db w)), w\<lparr>cw_db := snd (?q now (cw_db w)), cw_ext := e\<rparr>)"
    by (rule chat_tx_quiet [OF assms(1)])
  note up = update_run_cases [OF assms(2,3), of active, OF assms(4)]
  have q: "fst (?q now (cw_db w)) = Inr ()" "running i user (snd (?q now (cw_db w)))"
    using assms(5) by (simp_all add: MarkRunning_def updateStatus_fst updateStatus_snd running_def up)
  let ?w = "w\<lparr>cw_db := snd (?q now (cw_db w)), cw_ext := e\<rparr>"
  let ?rest = "attempt (register_run sv i) (announce_run sv user i)"
  have "keeps_runs ?rest" unfolding announce_run_def by (intro keeps_intros assms(1))
  from keeps_predicates(1) [OF this] q(2) have "running i user (cw_db (snd (?rest ?w)))" by simp
  moreover have "\<exists>handle. fst (?rest ?w) = Inr handle"
    by (simp add: attempt_def register_run_def announce_run_def ignore_error_def return_def split: prod.split)
  moreover have "start_run sv user i w = ?rest ?w"
    unfolding start_run_def by (subst attempt_def) (simp add: tx q)
  ultimately show ?thesis using that by (metis prod.collapse)
qed

lemma beginRun_new:
  assumes "chat_quiet sv" and "run_ids_ok (cw_db w)" and "i \<noteq> []"
    and "\<forall>r \<in> set (chat_runs (cw_db w)). run_id r \<noteq> i"
  obtains handle w' where "beginRun sv user req i True w = (Inr (i, handle), w')" and "running i user (cw_db w')"
proof -
  let ?row = "\<lambda>now. new_run user req i now"
  obtain now w1 where c: "create_run sv user req i w = (Inr (), w1)"
    and rows: "chat_runs (cw_db w1) = chat_runs (cw_db w) @ [run_insert_row (?row now)]"
  proof -
    let ?t = "cv_now sv (cw_ext w)"
    let ?q = "\<lambda>_. run_Create (?row ?t)"
    obtain n e where tx: "chat_tx sv ?q w = (fst (?q n (cw_db w)), w\<lparr>cw_db := snd (?q n (cw_db w)), cw_ext := e\<rparr>)"
      by (rule chat_tx_quiet [OF assms(1)])
    have "tbl_affected (\<lambda>x. run_id x = run_id (?row ?t)) (chat_runs (cw_db w)) = 0"
      using assms(4) by (simp add: tbl_affected_zero new_run_def)
    then show thesis
      using that [of "w\<lparr>cw_db := snd (?q n (cw_db w)), cw_ext := e\<rparr>" ?t] tx
      by (simp add: create_run_def attempt_def chat_now_def run_Create_def)
  qed
  have new: "tbl_first (own_run i (us_tenant user) (us_id user)) (chat_runs (cw_db w)) = None"
    using assms(4) by (auto simp: tbl_first_None own_run_def)
  have r: "run_of i user (cw_db w1) = Some (run_insert_row (?row now))"
    using assms(4) unfolding run_of_def rows
    by (simp add: tbl_first_def own_run_def run_insert_row_def new_run_def filter_empty_conv)
  have ids: "run_ids_ok (cw_db w1)"
    using assms(2,4) by (auto simp: run_ids_ok_def rows run_insert_row_def new_run_def)
  have "active (run_insert_row (?row now))" "\<not> run_cancel_requested (run_insert_row (?row now))"
    by (simp_all add: active_def run_insert_row_def new_run_def)
  from start_run_running [OF assms(1) ids r this] obtain handle w' where
    s: "start_run sv user i w1 = (Inr handle, w')" "running i user (cw_db w')" by metis
  have "beginRun sv user req i True w = (Inr (i, handle), w')"
    using assms(3) c s(1) by (simp add: beginRun_def attempt_def return_def)
  with s(2) that show ?thesis by blast
qed

end
