(* ===== verification/ChatProperties.thy ===== *)
theory ChatProperties
  imports ChatEnds RequestProperties
begin

text \<open>
  The properties of chat runs and of their events, applied in a small world.
\<close>

definition ask1 :: chat_ask_req where
  "ask1 = \<lparr>ca_session = [], ca_message = [], ca_subject = ''s1'', ca_query = lit ''why?'', ca_top_k = 0,
     ca_llm_provider = [], ca_llm_model = [], ca_web_search = False, ca_expected_docs = [],
     ca_expected_chunks = [], ca_expected_route = [], ca_expected_outcome = []\<rparr>"

definition result1 :: agent_result where
  "result1 = no_result\<lparr>ar_answer := lit ''because''\<rparr>"

definition response1 :: agent_response where
  "response1 = \<lparr>rs_status = 200, rs_text = Inr [], rs_result = Inr result1, rs_lines = [], rs_scan_error = None\<rparr>"

definition calm_chat :: "unit chat_services" where
  "calm_chat = \<lparr>cv_pg = (\<lambda>e d. (Executed, e, d)), cv_now = (\<lambda>_. 1000), cv_uuid = (\<lambda>e. (''r1'', e)),
     cv_is_uuid = (\<lambda>_. True), cv_with_cancel = (\<lambda>e. (0, e)), cv_cancel = (\<lambda>_ e. e),
     cv_ctx_err = (\<lambda>_ _. None), cv_url_error = None, cv_post = (\<lambda>_ _ e. (Inr response1, e)), cv_top_k = 5\<rparr>"

lemma calm_chat_quiet [simp]: "chat_quiet calm_chat"
  by (simp add: chat_quiet_def calm_chat_def)

definition empty_chat :: chat_store where
  "empty_chat = \<lparr>cs_base = empty_db, chat_sessions = [], chat_messages = [], chat_runs = [], chat_run_events = []\<rparr>"

lemma empty_chat_ok [simp]: "chat_ok empty_chat"
  by (simp add: chat_ok_def empty_chat_def events_numbered_def events_of_def)

definition chat_world1 :: "unit chat_world" where
  "chat_world1 = \<lparr>cw_db = empty_chat, cw_ext = (), cw_cancels = (\<lambda>_. None)\<rparr>"

definition run1 :: chat_run where
  "run1 = \<lparr>run_id = ''r1'', run_tenant = ''t1'', run_user = ''u1'', run_session = [], run_message = [],
     run_subject = ''s1'', run_status = RunCreated, run_request = JEmpty, run_result = JEmpty, run_error = [],
     run_cancel_requested = False, run_created_at = 5, run_updated_at = 5, run_completed_at = None\<rparr>"

definition asked1 :: "(gerr + chat_ask_resp) \<times> unit chat_world" where
  "asked1 = ChatAsk calm_chat (Some user1) ask1 chat_world1"

lemma asked1_fst: "(case fst asked1 of Inr resp \<Rightarrow> ca_run resp | Inl e \<Rightarrow> []) = ''r1''"
  unfolding asked1_def by code_simp

lemma user1_ids [simp]: "us_id user1 = ''u1''" "us_tenant user1 = ''t1''"
  by (simp_all add: user1_def)

lemma user1_current [simp]: "CurrentUser (Some user1) = Inr user1"
  by code_simp

section \<open>Asking\<close>

text \<open>C21
  An answer to a chat question is never lost or half recorded: when the request returns it, the run
  is completed with exactly that answer under the identifier returned and belongs to the asking
  user, was not cancelled, and, if the question came with a session or a message, its message row
  is in the database. This holds for every fault of the database, the agent and the client and
  whatever other requests commit in between, and no later transaction can change it.
\<close>

theorem answer_is_recorded:
  assumes "chat_disciplined sv" and "chat_ok (cw_db w)" and "ChatAsk sv ctx req w = (Inr resp, w')"
    and "chat_step\<^sup>*\<^sup>* (cw_db w') s"
  shows "\<exists>user r. CurrentUser ctx = Inr user \<and>
    tbl_first (\<lambda>x. run_id x = ca_run resp) (chat_runs s) = Some r \<and>
    run_tenant r = us_tenant user \<and> run_user r = us_id user \<and> run_status r = RunCompleted \<and>
    \<not> run_cancel_requested r \<and>
    (\<exists>out. run_result r = JValue out \<and> resp = ask_response (ca_run resp) out) \<and>
    (trim_id (ca_session req) \<noteq> [] \<or> trim_id (ca_message req) \<noteq> [] \<longrightarrow>
       trim_id (ca_message req) \<in> cm_id ` set (chat_messages s))"
proof -
  from assms(3) obtain user i w1 where u: "CurrentUser ctx = Inr user" and i: "chat_uuid sv w = (Inr i, w1)"
    and a: "ask_as sv ctx req user i w1 = (Inr resp, w')"
    unfolding ChatAsk_def by (auto elim!: attempt_Inr split: if_splits)
  from a obtain j handle w2 where b: "beginRun sv user req i True w1 = (Inr (j, handle), w2)"
    and inv: "invoke_run sv ctx user req (j, handle) w2 = (Inr resp, w')"
    unfolding ask_as_def by (elim attempt_Inr) (metis surj_pair)
  let ?agent = "Invoke sv (agentRequest j (us_tenant user) (us_id user) req (cv_top_k sv))"
  from inv obtain w3 where "attempt (ask_agent sv ctx user req ?agent j handle)
      (\<lambda>out. return (ask_response j out)) w2 = (Inr resp, w3)" and w': "w' = cleanup_run sv j handle w3"
    by (auto simp: invoke_run_def deferred_Inr)
  then obtain out where ask: "ask_agent sv ctx user req ?agent j handle w2 = (Inr out, w3)"
    and resp: "resp = ask_response j out" by (auto elim: attempt_Inr)
  from ask obtain out0 w4 where ag: "?agent w2 = (Inr out0, w4)"
    and st: "settle_run sv ctx user req j handle out0 w4 = (Inr out, w3)"
    unfolding ask_agent_def by (elim attempt_Inr) simp
  have ok1: "chat_ok (cw_db w1)" using assms(2) i by (auto simp: chat_uuid_def)
  have ok2: "chat_ok (cw_db w2)" by (rule chat_reach_ok [OF chat_only_begin [OF assms(1)] b ok1])
  have "chat_only ?agent" unfolding Invoke_def by (intro chat_intros)
  from chat_reach_ok [OF this ag ok2] have "chat_ok (cw_db w4)" .
  from settle_run_Inr [OF assms(1) this st] have fin: "run_done j user out (cw_db w3)"
    and msg: "trim_id (ca_session req) \<noteq> [] \<or> trim_id (ca_message req) \<noteq> [] \<longrightarrow>
       has_message_row (trim_id (ca_message req)) (cw_db w3)" by auto
  have later: "chat_step\<^sup>*\<^sup>* (cw_db w3) s" using assms(4) w' by simp
  from run_done_stays [OF later fin] obtain r where
    "tbl_first (\<lambda>x. run_id x = j) (chat_runs s) = Some r" "run_tenant r = us_tenant user"
    "run_user r = us_id user" "run_status r = RunCompleted" "run_result r = JValue out"
    "\<not> run_cancel_requested r" unfolding run_done_def by blast
  moreover have "ca_run resp = j" by (simp add: resp ask_response_def)
  ultimately show ?thesis
    using u msg has_message_stays [OF later] resp unfolding has_message_row_def
    by (intro exI [of _ user] exI [of _ r]) auto
qed

lemma answer_is_recorded_witness:
  "\<exists>r. tbl_first (\<lambda>x. run_id x = ''r1'') (chat_runs (cw_db (snd asked1))) = Some r \<and>
     run_status r = RunCompleted \<and> run_user r = ''u1''"
proof -
  obtain resp where r: "ChatAsk calm_chat (Some user1) ask1 chat_world1 = (Inr resp, snd asked1)"
    and i: "ca_run resp = ''r1''"
    using asked1_fst by (cases "fst asked1") (auto simp: asked1_def prod_eq_iff)
  have "chat_ok (cw_db chat_world1)" by (simp add: chat_world1_def)
  from answer_is_recorded [OF chat_quiet_disciplined [OF calm_chat_quiet] this r rtranclp.rtrancl_refl] i
  show ?thesis by auto
qed



section \<open>Runs in any history\<close>

text \<open>C23
  In any history of transactions a run keeps its owner and its question, its status only moves
  along the edges created, running, completed, failed, cancelled and back to created by a resume; a
  completed run never changes again; and a run has a completion time exactly when it is in a
  terminal status.
\<close>

theorem completed_runs_are_final:
  assumes "chat_ok s" and "chat_step\<^sup>*\<^sup>* s s'" and "tbl_first (\<lambda>x. run_id x = i) (chat_runs s) = Some r"
  shows "\<exists>r'. tbl_first (\<lambda>x. run_id x = i) (chat_runs s') = Some r' \<and>
    run_tenant r' = run_tenant r \<and> run_user r' = run_user r \<and> run_request r' = run_request r \<and>
    run_edge\<^sup>*\<^sup>* (run_status r) (run_status r') \<and> (run_status r = RunCompleted \<longrightarrow> r' = r) \<and>
    (run_completed_at r' \<noteq> None \<longleftrightarrow> terminal_status (run_status r'))"
proof -
  from run_history [OF assms(2,3)] obtain r' where
    r': "tbl_first (\<lambda>x. run_id x = i) (chat_runs s') = Some r'" "run_evolves\<^sup>*\<^sup>* r r'" by blast
  have "chat_ok s'" by (rule chats.run_keeps [OF assms(2,1)])
  then have "run_wf r'" using tbl_first_Some [OF r'(1)] by (simp add: chat_ok_def)
  with r' run_evolves_star [OF r'(2)] show ?thesis by (simp add: run_wf_def)
qed

lemma completed_runs_are_final_witness:
  "\<exists>r. tbl_first (\<lambda>x. run_id x = ''r1'')
      (chat_runs (snd (run_Fail 5 ''r1'' ''t1'' ''u1'' RunFailed [] (cw_db (snd asked1))))) = Some r \<and>
     run_status r = RunCompleted"
proof -
  let ?s = "cw_db (snd asked1)"
  have "chat_only (ChatAsk calm_chat (Some user1) ask1)"
    by (rule chat_only_ChatAsk [OF chat_quiet_disciplined [OF calm_chat_quiet]])
  then have ok: "chat_ok ?s"
    using chat_reach_ok [of "ChatAsk calm_chat (Some user1) ask1" chat_world1 "fst asked1" "snd asked1"]
    by (simp add: asked1_def chat_world1_def)
  have step: "chat_step\<^sup>*\<^sup>* ?s (snd (run_Fail 5 ''r1'' ''t1'' ''u1'' RunFailed [] ?s))"
    by (rule r_into_rtranclp) (rule chat_step.fail)
  have "map_option run_status (tbl_first (\<lambda>x. run_id x = ''r1'') (chat_runs ?s)) = Some RunCompleted"
    unfolding asked1_def by code_simp
  then obtain r where r: "tbl_first (\<lambda>x. run_id x = ''r1'') (chat_runs ?s) = Some r" "run_status r = RunCompleted"
    by auto
  from completed_runs_are_final [OF ok step r(1)] r(2) show ?thesis by metis
qed

text \<open>A transaction that does not bring the run back to its first status.\<close>

definition no_reset :: "uid \<Rightarrow> chat_store \<Rightarrow> chat_store \<Rightarrow> bool" where
  "no_reset i s s' \<longleftrightarrow> chat_step s s' \<and>
     (\<forall>r r'. tbl_first (\<lambda>x. run_id x = i) (chat_runs s) = Some r \<and>
        tbl_first (\<lambda>x. run_id x = i) (chat_runs s') = Some r' \<and> run_status r' = RunCreated \<longrightarrow>
        run_status r = RunCreated)"

definition cancelling :: "uid \<Rightarrow> uid \<Rightarrow> uid \<Rightarrow> chat_store \<Rightarrow> bool" where
  "cancelling i t u s \<longleftrightarrow> (\<exists>r. tbl_first (\<lambda>x. run_id x = i) (chat_runs s) = Some r \<and>
     run_tenant r = t \<and> run_user r = u \<and> run_cancel_requested r \<and> run_status r \<noteq> RunCompleted)"

lemma cancelling_stays:
  assumes "(no_reset i)\<^sup>*\<^sup>* s s'" and "cancelling i t u s"
  shows "cancelling i t u s'"
  using assms
proof (induction rule: rtranclp_induct)
  case (step x y)
  then obtain r where r: "tbl_first (\<lambda>x. run_id x = i) (chat_runs x) = Some r" "run_tenant r = t"
    "run_user r = u" "run_cancel_requested r" "run_status r \<noteq> RunCompleted"
    by (auto simp: cancelling_def)
  from step.hyps(2) have xy: "chat_step x y" by (simp add: no_reset_def)
  obtain r' where r': "tbl_first (\<lambda>x. run_id x = i) (chat_runs y) = Some r'" "run_evolves r r'"
    by (rule runs.step_first [OF chat_step_runs [OF xy] r(1)])
  have "run_status r' = RunCreated \<longrightarrow> run_status r = RunCreated"
    using step.hyps(2) r(1) r'(1) by (auto simp: no_reset_def)
  with r r' show ?case by (auto simp: cancelling_def run_evolves_def)
qed

lemma RequestCancel_cancelling:
  assumes "chat_ok s" and "RequestCancel now i t u s = (Inr True, s')"
  shows "cancelling i t u s'"
proof -
  let ?f = "\<lambda>r. r\<lparr>run_cancel_requested := True, run_updated_at := now\<rparr>"
  have ids: "distinct (map run_id (chat_runs s))" using assms(1) by (simp add: chat_ok_def)
  have hit: "tbl_affected (\<lambda>r. own_run i t u r \<and> active r) (chat_runs s) \<noteq> 0"
    and s': "chat_runs s' = tbl_update (\<lambda>r. own_run i t u r \<and> active r) ?f (chat_runs s)"
    using assms(2) by (auto simp: RequestCancel_def update_run_def Let_def)
  from hit obtain r where r: "r \<in> set (chat_runs s)" "own_run i t u r" "active r"
    by (auto simp: tbl_affected_zero)
  then have first: "tbl_first (\<lambda>x. run_id x = i) (chat_runs s) = Some r"
    using tbl_first_key [OF ids r(1)] by (simp add: own_run_def)
  have "tbl_first (\<lambda>x. run_id x = i) (chat_runs s') = Some (?f r)"
    unfolding s' using r(2,3) by (subst tbl_first_update_any [where k = run_id]) (simp_all add: first)
  with r show ?thesis by (auto simp: cancelling_def own_run_def active_def)
qed

text \<open>C24
  A cancellation that was accepted wins: whatever other transactions commit from then on, until the
  run is reset for a resume, it is not completed and an attempt to complete it changes no row.
\<close>

theorem accepted_cancellation_wins:
  assumes "chat_ok s" and "RequestCancel now i t u s = (Inr True, s1)" and "(no_reset i)\<^sup>*\<^sup>* s1 s2"
  shows "\<exists>r. tbl_first (\<lambda>x. run_id x = i) (chat_runs s2) = Some r \<and> run_status r \<noteq> RunCompleted \<and>
    fst (complete_running later i t u result s2) = Inr False"
proof -
  from cancelling_stays [OF assms(3) RequestCancel_cancelling [OF assms(1,2)]] obtain r where
    r: "tbl_first (\<lambda>x. run_id x = i) (chat_runs s2) = Some r" "run_tenant r = t" "run_user r = u"
      "run_cancel_requested r" "run_status r \<noteq> RunCompleted" by (auto simp: cancelling_def)
  have "chat_step s s1" using chat_step.request_cancel [of s now i t u] assms(2) by simp
  moreover have "chat_step\<^sup>*\<^sup>* s1 s2"
    using assms(3) by (induction rule: rtranclp_induct) (auto simp: no_reset_def intro: rtranclp.rtrancl_into_rtrancl)
  ultimately have "chat_ok s2" using chats.run_keeps assms(1) chat_step_ok by blast
  then have ids: "distinct (map run_id (chat_runs s2))" by (simp add: chat_ok_def)
  have "\<not> (own_run i t u x \<and> run_status x = RunRunning \<and> \<not> run_cancel_requested x)"
    if "x \<in> set (chat_runs s2)" for x
  proof
    assume own: "own_run i t u x \<and> run_status x = RunRunning \<and> \<not> run_cancel_requested x"
    then have "tbl_first (\<lambda>x. run_id x = i) (chat_runs s2) = Some x"
      using tbl_first_key [OF ids that] by (simp add: own_run_def)
    with own r(1,4) show False by simp
  qed
  then have "tbl_affected (\<lambda>x. own_run i t u x \<and> run_status x = RunRunning \<and> \<not> run_cancel_requested x)
      (chat_runs s2) = 0" unfolding tbl_affected_zero by blast
  then have "fst (complete_running later i t u result s2) = Inr False"
    by (simp add: complete_running_def update_run_def Let_def)
  with r show ?thesis by blast
qed

lemma accepted_cancellation_wins_witness:
  "\<exists>s1. RequestCancel 7 ''r1'' ''t1'' ''u1'' (snd (run_Create run1 empty_chat)) = (Inr True, s1) \<and>
     fst (complete_running 9 ''r1'' ''t1'' ''u1'' JEmpty (snd (MarkRunning 8 ''r1'' ''t1'' ''u1'' s1))) = Inr False"
proof -
  let ?s = "snd (run_Create run1 empty_chat)"
  let ?s1 = "snd (RequestCancel 7 ''r1'' ''t1'' ''u1'' ?s)"
  let ?s2 = "snd (MarkRunning 8 ''r1'' ''t1'' ''u1'' ?s1)"
  have ok: "chat_ok ?s" by (rule chat_step_ok [OF chat_step.create]) (simp_all add: run1_def)
  have req: "RequestCancel 7 ''r1'' ''t1'' ''u1'' ?s = (Inr True, ?s1)" by code_simp
  have "map_option run_status (tbl_first (\<lambda>x. run_id x = ''r1'') (chat_runs ?s2)) = Some RunRunning" by code_simp
  then have "no_reset ''r1'' ?s1 ?s2" by (auto simp: no_reset_def intro: chat_step.mark)
  from accepted_cancellation_wins [OF ok req r_into_rtranclp [of "no_reset ''r1''", OF this]] req
  show ?thesis by blast
qed

section \<open>The stream of events\<close>

lemma sorted_sequences:
  assumes "events_numbered s"
  shows "sorted (map ev_sequence (events_of i s))"
proof -
  have "sorted (map int xs)" if "sorted xs" for xs using that by (induction xs) auto
  with assms show ?thesis unfolding events_numbered_def by (metis sorted_upt)
qed

lemma numbered_after:
  assumes "map ev_sequence es = map int [1..<Suc (length es)]"
  shows "filter (\<lambda>e. ev_sequence e > int k) es = drop k es"
  using assms
proof (induction es rule: rev_induct)
  case (snoc e es)
  then show ?case by (cases "k \<le> length es") auto
qed simp

lemma ListEvents_numbered:
  assumes "events_numbered s" and "r \<in> set (chat_runs s)" and "own_run i t u r"
    and "\<forall>e \<in> set (events_of i s). ev_tenant e = t"
  shows "fst (ListEvents i t u (int k) limit s) = Inr (take (event_limit limit) (drop k (events_of i s)))"
proof -
  have "filter (event_visible i t u (int k) (chat_runs s)) (chat_run_events s) =
      filter (\<lambda>e. ev_sequence e > int k) (events_of i s)"
    unfolding events_of_def filter_filter
    by (rule filter_cong) (use assms(2-4) in \<open>auto simp: event_visible_def events_of_def own_run_def\<close>)
  also have "\<dots> = drop k (events_of i s)"
    by (rule numbered_after) (use assms(1) in \<open>simp add: events_numbered_def\<close>)
  finally show ?thesis
    using sorted_sequences [OF assms(1), of i]
    by (simp add: ListEvents_def sort_key_id_if_sorted drop_map [symmetric] sorted_wrt_drop)
qed

text \<open>C25
  The events of a run are a gapless log: an event is stored under the next number, asking for the
  events after the number one has seen last returns exactly the events that follow, in order and up
  to the page size, and the event just appended is read back as it was written.
\<close>

theorem events_are_replayed:
  assumes "chat_ok s" and "r \<in> set (chat_runs s)" and "own_run i t u r"
    and "\<forall>e \<in> set (events_of i s). ev_tenant e = t"
    and "AppendEvent now i t ty payload s = (Inr n, s')"
  shows "fst (ListEvents i t u (int seen) limit s) =
      Inr (take (event_limit limit) (drop seen (events_of i s))) \<and>
    map ev_sequence (events_of i s) = map int [1..<nat n] \<and>
    fst (ListEvents i t u (n - 1) limit s') = Inr [\<lparr>ev_run = i, ev_sequence = n, ev_tenant = t,
      ev_type = ty, ev_payload = payload, ev_created_at = now\<rparr>]"
proof -
  have num: "events_numbered s" using assms(1) by (simp add: chat_ok_def)
  let ?e = "\<lparr>ev_run = i, ev_sequence = n, ev_tenant = t, ev_type = ty, ev_payload = payload, ev_created_at = now\<rparr>"
  have n: "n = int (length (events_of i s)) + 1" and s': "s' = s\<lparr>chat_run_events := chat_run_events s @ [?e]\<rparr>"
    using assms(5) last_sequence_numbered [OF num] by (auto simp: AppendEvent_def Let_def)
  have "events_numbered s'" using AppendEvent_numbered [OF num, of now i t ty payload] assms(5) by simp
  have evs: "events_of i s' = events_of i s @ [?e]" by (simp add: s' events_of_append)
  have listed: "fst (ListEvents i t u (int k) limit s2) =
      Inr (take (event_limit limit) (drop k (events_of i s2)))"
    if "events_numbered s2" "chat_runs s2 = chat_runs s" "\<forall>e \<in> set (events_of i s2). ev_tenant e = t" for k s2
    by (rule ListEvents_numbered [OF that(1) _ assms(3) that(3)]) (simp add: that(2) assms(2))
  have "fst (ListEvents i t u (int (length (events_of i s))) limit s') =
      Inr (take (event_limit limit) (drop (length (events_of i s)) (events_of i s')))"
    by (rule listed) (use \<open>events_numbered s'\<close> assms(4) evs in \<open>simp_all add: s'\<close>)
  then have "fst (ListEvents i t u (n - 1) limit s') = Inr (take (event_limit limit) [?e])"
    unfolding evs by (simp add: n)
  moreover have "take (event_limit limit) [?e] = [?e]" unfolding event_limit_def by (cases "limit < 1") auto
  ultimately have "fst (ListEvents i t u (n - 1) limit s') = Inr [?e]" by (simp only:)
  then show ?thesis
    using listed [OF num _ assms(4)] num by (simp add: n events_numbered_def nat_add_distrib)
qed

lemma events_are_replayed_witness:
  "\<exists>s'. AppendEvent 6 ''r1'' ''t1'' ''run'' (PRun ''r1'') (snd (run_Create run1 empty_chat)) = (Inr 1, s') \<and>
     fst (ListEvents ''r1'' ''t1'' ''u1'' (1 - 1) 0 s') = Inr [\<lparr>ev_run = ''r1'', ev_sequence = 1, ev_tenant = ''t1'',
       ev_type = ''run'', ev_payload = PRun ''r1'', ev_created_at = 6\<rparr>]"
proof -
  let ?s = "snd (run_Create run1 empty_chat)"
  let ?p = "AppendEvent 6 ''r1'' ''t1'' ''run'' (PRun ''r1'') ?s"
  have ok: "chat_ok ?s" by (rule chat_step_ok [OF chat_step.create]) (simp_all add: run1_def)
  have runs: "run_insert_row run1 \<in> set (chat_runs ?s)"
    by (simp add: run_Create_def empty_chat_def tbl_simps)
  have own: "own_run ''r1'' ''t1'' ''u1'' (run_insert_row run1)" by code_simp
  have none: "\<forall>e \<in> set (events_of ''r1'' ?s). ev_tenant e = ''t1''" by code_simp
  have "fst ?p = Inr 1" by code_simp
  then have app: "?p = (Inr 1, snd ?p)" by (metis prod.collapse)
  from events_are_replayed [OF ok runs own none app] app show ?thesis by blast
qed

end
