(* ===== verification/ChatGaps.thy ===== *)
theory ChatGaps
  imports ChatProperties
begin

text \<open>
  Where the chat handling leaves something it should not: a turn rewrites a message of another
  user, and a run whose start fails stays in its first status for good.
\<close>

section \<open>Messages of other users\<close>

text \<open>
  \<open>SaveTurn\<close> checks the owner of the session but not of the message: the row with the message
  identifier of the request gets the new question and answer and keeps its owner.
\<close>

theorem turn_rewrites_any_message:
  assumes "r \<in> set (chat_sessions s)" and "own_session (se_id c) (se_user c) r"
    and "length (se_llm_provider c) \<le> 100" and "length (se_llm_model c) \<le> 255"
    and "m0 \<in> set (chat_messages s)" and "cm_id m0 = cm_id m"
  shows "\<exists>s'. SaveTurn now c m s = (Inr (), s') \<and>
    m0\<lparr>cm_question := cm_question m, cm_answer := cm_answer m, cm_citations := cm_citations m,
      cm_metadata := cm_metadata m\<rparr> \<in> set (chat_messages s')"
proof -
  have "tbl_affected (own_session (se_id c) (se_user c)) (chat_sessions s) \<noteq> 0"
    and hit: "tbl_affected (\<lambda>x. cm_id x = cm_id m) (chat_messages s) \<noteq> 0"
    unfolding tbl_affected_zero using assms(1,2,5,6) by blast+
  then have "\<exists>s'. SaveTurn now c m s = (Inr (), s') \<and> chat_messages s' = put_message m (chat_messages s)"
    using assms(3,4) by (simp add: SaveTurn_def Let_def)
  moreover have "m0\<lparr>cm_question := cm_question m, cm_answer := cm_answer m, cm_citations := cm_citations m,
      cm_metadata := cm_metadata m\<rparr> \<in> set (put_message m (chat_messages s))"
    using assms(5,6) hit by (auto simp: put_message_def tbl_update_def image_iff intro!: bexI [of _ m0])
  ultimately show ?thesis by metis
qed

section \<open>Runs that never start\<close>

text \<open>A resume needs a failed or cancelled run, and a cancellation leaves the status alone.\<close>

theorem created_run_is_stuck:
  assumes "distinct (map run_id (chat_runs s))" and "r \<in> set (chat_runs s)" and "own_run i t u r"
    and "run_status r = RunCreated"
  shows "ResetForResume now i t u s = (Inl not_resumable, s) \<and>
    r\<lparr>run_cancel_requested := True, run_updated_at := now\<rparr> \<in> set (chat_runs (snd (RequestCancel now i t u s)))"
proof -
  let ?P = "\<lambda>x. own_run i t u x \<and> (run_status x = RunFailed \<or> run_status x = RunCancelled)"
  have first: "tbl_first (\<lambda>x. run_id x = i) (chat_runs s) = Some r"
    using tbl_first_key [OF assms(1,2)] assms(3) by (simp add: own_run_def)
  have none: "\<forall>x \<in> set (chat_runs s). \<not> ?P x"
  proof
    fix x assume "x \<in> set (chat_runs s)"
    from tbl_first_key [OF assms(1) this] first have "own_run i t u x \<Longrightarrow> x = r" by (simp add: own_run_def)
    with assms(4) show "\<not> ?P x" by auto
  qed
  have zero: "tbl_affected ?P (chat_runs s) = 0" unfolding tbl_affected_zero by (rule none)
  have "ResetForResume now i t u s = (Inl not_resumable, s)"
    unfolding ResetForResume_def update_run_def Let_def tbl_update_none [OF none] zero by simp
  moreover have "r\<lparr>run_cancel_requested := True, run_updated_at := now\<rparr> \<in>
      set (chat_runs (snd (RequestCancel now i t u s)))"
    using assms(2-4) by (auto simp: RequestCancel_def update_run_def Let_def tbl_update_def active_def
        image_iff intro!: bexI [of _ r])
  ultimately show ?thesis by blast
qed

text \<open>The database refuses its second transaction.\<close>

definition second_fails :: "nat chat_services" where
  "second_fails = \<lparr>cv_pg = (\<lambda>e d. (if e = 1 then Refused (Plain (lit ''connection reset'')) else Executed, e + 1, d)),
     cv_now = (\<lambda>_. 1000), cv_uuid = (\<lambda>e. (''r1'', e)), cv_is_uuid = (\<lambda>_. True),
     cv_with_cancel = (\<lambda>e. (0, e)), cv_cancel = (\<lambda>_ e. e), cv_ctx_err = (\<lambda>_ _. None),
     cv_url_error = None, cv_post = (\<lambda>_ _ e. (Inr response1, e)), cv_top_k = 5\<rparr>"

theorem failed_start_leaves_created:
  "map run_status (chat_runs (cw_db (snd (ChatAsk second_fails (Some user1) ask1
     \<lparr>cw_db = empty_chat, cw_ext = 0, cw_cancels = (\<lambda>_. None)\<rparr>)))) = [RunCreated]"
  by code_simp

end
