(* ===== verification/Accounts.thy ===== *)
theory Accounts
  imports Requests
begin

text \<open>
  User accounts: \<open>internal/model/user.go\<close>, \<open>internal/repository/postgres/userrepo.go\<close>, the handlers of
  \<open>internal/logic/auth\<close>, the tokens of \<open>internal/auth/token.go\<close> and the authentication of
  \<open>internal/middleware/authmiddleware.go\<close>. bcrypt and the JWT library are parameters.
\<close>

section \<open>The tables\<close>

record user =
  user_id :: uid
  user_tenant :: uid
  user_username :: gostr
  user_nickname :: gostr
  user_email :: gostr
  user_language :: gostr
  user_password_hash :: gostr
  user_created_at :: int
  user_updated_at :: int

record user_row = user +
  user_deleted_at :: "int option"

record tenant_row =
  tn_id :: uid
  tn_name :: gostr
  tn_created_at :: int

record account_store =
  users :: "user_row list"
  tenants :: "tenant_row list"

type_synonym 'a atx = "account_store \<Rightarrow> (gerr + 'a) \<times> account_store"

definition live_user :: "user_row \<Rightarrow> bool" where
  "live_user u \<longleftrightarrow> user_deleted_at u = None"

definition varchar_error :: gerr where
  "varchar_error = Plain (lit ''ERROR: value too long for type character varying'')"

section \<open>The repository\<close>

definition one_user :: "(user_row \<Rightarrow> bool) \<Rightarrow> user atx" where
  "one_user P s =
     (case tbl_first (\<lambda>u. P u \<and> live_user u) (users s) of
        None \<Rightarrow> (Inl (Sentinel PgxNoRows), s)
      | Some u \<Rightarrow> (Inr (user.truncate u), s))"

definition FindByUsername :: "gostr \<Rightarrow> user atx" where
  "FindByUsername username = one_user (\<lambda>u. user_username u = username)"

definition user_GetByID :: "uid \<Rightarrow> user atx" where
  "user_GetByID i = one_user (\<lambda>u. user_id u = i)"

definition profile_fits :: "gostr \<Rightarrow> gostr \<Rightarrow> gostr \<Rightarrow> bool" where
  "profile_fits nickname email language \<longleftrightarrow>
     length nickname \<le> 100 \<and> length email \<le> 255 \<and> length language \<le> 20"

text \<open>The empty string is not a UUID.\<close>

definition uuid_error :: gerr where
  "uuid_error = Plain (lit ''ERROR: invalid input syntax for type uuid'')"

definition insert_tenant :: "uid \<Rightarrow> gostr \<Rightarrow> int \<Rightarrow> account_store \<Rightarrow> gerr + account_store" where
  "insert_tenant i name now s =
     (if i = [] then Inl uuid_error
      else if length name > 255 then Inl varchar_error
      else if tbl_affected (\<lambda>t. tn_id t = i) (tenants s) \<noteq> 0 then
        Inl (Sentinel (UniqueViolation ''tenants_pkey''))
      else Inr (s\<lparr>tenants := tenants s @ [\<lparr>tn_id = i, tn_name = name, tn_created_at = now\<rparr>]\<rparr>))"

definition new_user_row :: "user \<Rightarrow> user_row" where
  "new_user_row u = user.extend (u\<lparr>user_updated_at := user_created_at u\<rparr>) (user_row.fields None)"

definition insert_user :: "user \<Rightarrow> account_store \<Rightarrow> gerr + account_store" where
  "insert_user u s =
     (if user_id u = [] \<or> user_tenant u = [] then Inl uuid_error
      else if length (user_username u) > 100 \<or> \<not> profile_fits (user_nickname u) (user_email u) (user_language u) then
        Inl varchar_error
      else if tbl_affected (\<lambda>r. user_id r = user_id u) (users s) \<noteq> 0 then
        Inl (Sentinel (UniqueViolation ''users_pkey''))
      else if tbl_affected (\<lambda>r. user_username r = user_username u \<and> live_user r) (users s) \<noteq> 0 then
        Inl (Sentinel (UniqueViolation ''idx_users_username_unique_active''))
      else Inr (s\<lparr>users := users s @ [new_user_row u]\<rparr>))"

definition user_Create :: "user \<Rightarrow> unit atx" where
  "user_Create u s =
     (case insert_tenant (user_tenant u) (user_nickname u) (user_created_at u) s of
        Inl err \<Rightarrow> (Inl err, s)
      | Inr s1 \<Rightarrow> (case insert_user u s1 of Inl err \<Rightarrow> (Inl err, s) | Inr s2 \<Rightarrow> (Inr (), s2)))"

text \<open>An \<open>UPDATE users \<dots> WHERE id = $1 AND deleted_at IS NULL\<close>.\<close>

definition update_user :: "uid \<Rightarrow> (user_row \<Rightarrow> user_row) \<Rightarrow> account_store \<Rightarrow> account_store" where
  "update_user i f s = s\<lparr>users := tbl_update (\<lambda>u. user_id u = i \<and> live_user u) f (users s)\<rparr>"

definition UpdateProfile :: "int \<Rightarrow> uid \<Rightarrow> gostr \<Rightarrow> gostr \<Rightarrow> gostr \<Rightarrow> user atx" where
  "UpdateProfile now i nickname email language s =
     (if tbl_affected (\<lambda>u. user_id u = i \<and> live_user u) (users s) \<noteq> 0 \<and>
         \<not> profile_fits nickname email language then (Inl varchar_error, s)
      else user_GetByID i (update_user i
        (\<lambda>u. u\<lparr>user_nickname := nickname, user_email := email, user_language := language,
              user_updated_at := now\<rparr>) s))"

definition UpdatePassword :: "int \<Rightarrow> uid \<Rightarrow> gostr \<Rightarrow> unit atx" where
  "UpdatePassword now i hash s =
     (Inr (), update_user i (\<lambda>u. u\<lparr>user_password_hash := hash, user_updated_at := now\<rparr>) s)"

section \<open>Tokens\<close>

text \<open>Numeric dates are in whole seconds; the clock is in milliseconds.\<close>

record claims =
  cl_user :: uid
  cl_tenant :: uid
  cl_username :: gostr
  cl_email :: gostr
  cl_expires_at :: int
  cl_issued_at :: int

datatype signing_method = HS256 | OtherMethod string

text \<open>
  \<open>ac_sign secret claims\<close> is the HS256-signed token; \<open>ac_parse key token now\<close> decodes a token, asks
  \<open>key\<close> for the key of its method, and checks signature and dates: the claims and \<open>Valid\<close>.
\<close>

record 'e account_services =
  ac_pg :: "'e \<Rightarrow> account_store \<Rightarrow> pg_fault \<times> 'e \<times> account_store"
  ac_now :: "'e \<Rightarrow> int"
  ac_uuid :: "'e \<Rightarrow> uid \<times> 'e"
  ac_hash :: "gostr \<Rightarrow> 'e \<Rightarrow> (gerr + gostr) \<times> 'e"
  ac_compare :: "gostr \<Rightarrow> gostr \<Rightarrow> bool"
  ac_sign :: "gostr \<Rightarrow> claims \<Rightarrow> gerr + gostr"
  ac_parse :: "(signing_method \<Rightarrow> gerr + gostr) \<Rightarrow> gostr \<Rightarrow> int \<Rightarrow> gerr + claims \<times> bool"
  ac_secret :: gostr
  ac_expire_hours :: int

record 'e account_world =
  aw_db :: account_store
  aw_ext :: 'e

type_synonym ('e, 'a) account_act = "('e account_world, 'a) prog"

definition expire_hours :: "int \<Rightarrow> int" where
  "expire_hours h = (if h \<le> 0 then 24 else h)"

definition session_claims :: "int \<Rightarrow> int \<Rightarrow> user_session \<Rightarrow> claims" where
  "session_claims hours now user =
     \<lparr>cl_user = us_id user, cl_tenant = us_tenant user, cl_username = us_username user,
      cl_email = us_email user, cl_expires_at = (now + expire_hours hours * 3600000) div 1000,
      cl_issued_at = now div 1000\<rparr>"

definition GenerateToken :: "'e account_services \<Rightarrow> user_session \<Rightarrow> ('e, gostr) account_act" where
  "GenerateToken sv user w =
     (if ac_secret sv = [] then (Inl (Plain (lit ''auth secret is required'')), w)
      else (ac_sign sv (ac_secret sv) (session_claims (ac_expire_hours sv) (ac_now sv (aw_ext w)) user), w))"

definition token_key :: "gostr \<Rightarrow> signing_method \<Rightarrow> gerr + gostr" where
  "token_key secret m = (if m \<noteq> HS256 then Inl (Plain (lit ''unexpected signing method'')) else Inr secret)"

definition claims_session :: "claims \<Rightarrow> user_session" where
  "claims_session c =
     \<lparr>us_id = cl_user c, us_tenant = (if cl_tenant c = [] then cl_user c else cl_tenant c),
      us_username = cl_username c, us_email = cl_email c\<rparr>"

definition ParseToken :: "'e account_services \<Rightarrow> gostr \<Rightarrow> int \<Rightarrow> gerr + user_session" where
  "ParseToken sv tok now =
     (case ac_parse sv (token_key (ac_secret sv)) tok now of
        Inl err \<Rightarrow> Inl err
      | Inr (c, valid) \<Rightarrow> if \<not> valid then Inl (Plain (lit ''invalid token'')) else Inr (claims_session c))"

text \<open>
  The authentication middleware: the user that the next handler finds in its context, or nothing
  when the request is answered with 401.
\<close>

definition auth_Handle :: "'e account_services \<Rightarrow> gostr \<Rightarrow> int \<Rightarrow> user_session option" where
  "auth_Handle sv header now =
     (let tok = TrimSpace (TrimPrefix (TrimSpace header) (lit ''Bearer ''))
      in if tok = [] then None
         else case ParseToken sv tok now of Inl _ \<Rightarrow> None | Inr user \<Rightarrow> Some user)"

section \<open>The world of an account request\<close>

definition account_tx :: "'e account_services \<Rightarrow> (int \<Rightarrow> 'a atx) \<Rightarrow> ('e, 'a) account_act" where
  "account_tx sv q w =
     (case ac_pg sv (aw_ext w) (aw_db w) of
        (Refused x, e, d) \<Rightarrow> (Inl x, w\<lparr>aw_db := d, aw_ext := e\<rparr>)
      | (Executed, e, d) \<Rightarrow>
          (fst (q (ac_now sv e) d), w\<lparr>aw_db := snd (q (ac_now sv e) d), aw_ext := e\<rparr>)
      | (ReplyLost x, e, d) \<Rightarrow>
          (Inl x, w\<lparr>aw_db := snd (q (ac_now sv e) d), aw_ext := e\<rparr>))"

definition account_uuid :: "'e account_services \<Rightarrow> ('e, uid) account_act" where
  "account_uuid sv w = (Inr (fst (ac_uuid sv (aw_ext w))), w\<lparr>aw_ext := snd (ac_uuid sv (aw_ext w))\<rparr>)"

definition account_now :: "'e account_services \<Rightarrow> ('e, int) account_act" where
  "account_now sv w = (Inr (ac_now sv (aw_ext w)), w)"

definition hash_password :: "'e account_services \<Rightarrow> gostr \<Rightarrow> ('e, gostr) account_act" where
  "hash_password sv password w =
     (fst (ac_hash sv password (aw_ext w)), w\<lparr>aw_ext := snd (ac_hash sv password (aw_ext w))\<rparr>)"

definition check_that :: "bool \<Rightarrow> gerr \<Rightarrow> ('w, unit) prog" where
  "check_that b err = (if b then return () else fail err)"

section \<open>Answers\<close>

record user_info =
  ui_id :: uid
  ui_tenant :: uid
  ui_username :: gostr
  ui_nickname :: gostr
  ui_email :: gostr
  ui_language :: gostr

record login_resp =
  lr_token :: gostr
  lr_user :: user_info

definition info_of :: "user \<Rightarrow> user_info" where
  "info_of u = \<lparr>ui_id = user_id u, ui_tenant = user_tenant u, ui_username = user_username u,
     ui_nickname = user_nickname u, ui_email = user_email u, ui_language = user_language u\<rparr>"

definition session_of :: "user \<Rightarrow> user_session" where
  "session_of u = \<lparr>us_id = user_id u, us_tenant = user_tenant u, us_username = user_username u,
     us_email = user_email u\<rparr>"

definition signed_in :: "'e account_services \<Rightarrow> user \<Rightarrow> ('e, login_resp) account_act" where
  "signed_in sv u =
     attempt (GenerateToken sv (session_of u)) (\<lambda>tok. return \<lparr>lr_token = tok, lr_user = info_of u\<rparr>)"

section \<open>Signing in\<close>

definition credentials_required :: gerr where
  "credentials_required = Plain (lit ''username and password are required'')"

definition credentials_invalid :: gerr where
  "credentials_invalid = Plain (lit ''username or password is invalid'')"

definition hide_no_rows :: "gerr \<Rightarrow> ('w, 'a) prog \<Rightarrow> ('w, 'a) prog" where
  "hide_no_rows err m w =
     (case m w of (Inl e, w') \<Rightarrow> (Inl (if errors_is e PgxNoRows then err else e), w') | r \<Rightarrow> r)"

definition check_and_sign :: "'e account_services \<Rightarrow> gostr \<Rightarrow> user \<Rightarrow> ('e, login_resp) account_act" where
  "check_and_sign sv password u =
     attempt (check_that (ac_compare sv (user_password_hash u) password) credentials_invalid)
       (\<lambda>_. signed_in sv u)"

definition AuthLogin :: "'e account_services \<Rightarrow> gostr \<Rightarrow> gostr \<Rightarrow> ('e, login_resp) account_act" where
  "AuthLogin sv username0 password0 =
     (let username = TrimSpace username0; password = TrimSpace password0
      in if username = [] \<or> password = [] then fail credentials_required
         else attempt (hide_no_rows credentials_invalid (account_tx sv (\<lambda>_. FindByUsername username)))
           (check_and_sign sv password))"

section \<open>Registering\<close>

record register_req =
  rg_username :: gostr
  rg_password :: gostr
  rg_confirm_password :: gostr
  rg_nickname :: gostr
  rg_email :: gostr

text \<open>The user name must be free: finding a row is the error, not finding one is not.\<close>

definition username_free :: "'e account_services \<Rightarrow> gostr \<Rightarrow> ('e, unit) account_act" where
  "username_free sv username w =
     (case account_tx sv (\<lambda>_. FindByUsername username) w of
        (Inr _, w') \<Rightarrow> (Inl (Plain (lit ''username already exists'')), w')
      | (Inl err, w') \<Rightarrow> (if errors_is err PgxNoRows then (Inr (), w') else (Inl err, w')))"

definition new_user :: "register_req \<Rightarrow> gostr \<Rightarrow> int \<Rightarrow> uid \<Rightarrow> uid \<Rightarrow> user" where
  "new_user req hash now tenant i =
     \<lparr>user_id = i, user_tenant = tenant, user_username = TrimSpace (rg_username req),
      user_nickname = TrimSpace (rg_nickname req), user_email = TrimSpace (rg_email req),
      user_language = lit ''zh-CN'', user_password_hash = hash, user_created_at = now, user_updated_at = now\<rparr>"

definition create_account :: "'e account_services \<Rightarrow> user \<Rightarrow> ('e, login_resp) account_act" where
  "create_account sv u = attempt (account_tx sv (\<lambda>_. user_Create u)) (\<lambda>_. signed_in sv u)"

definition register_checks :: "register_req \<Rightarrow> ('w, unit) prog" where
  "register_checks req =
     attempt (check_that (TrimSpace (rg_username req) \<noteq> [] \<and> TrimSpace (rg_password req) \<noteq> []) credentials_required)
       (\<lambda>_.
     attempt (check_that (TrimSpace (rg_nickname req) \<noteq> [] \<and> TrimSpace (rg_email req) \<noteq> [])
         (Plain (lit ''nickname and email are required''))) (\<lambda>_.
     check_that (TrimSpace (rg_password req) = TrimSpace (rg_confirm_password req))
         (Plain (lit ''password confirmation does not match''))))"

definition AuthRegister :: "'e account_services \<Rightarrow> register_req \<Rightarrow> ('e, login_resp) account_act" where
  "AuthRegister sv req =
     attempt (register_checks req) (\<lambda>_.
     attempt (username_free sv (TrimSpace (rg_username req))) (\<lambda>_.
     attempt (hash_password sv (TrimSpace (rg_password req))) (\<lambda>hash.
     attempt (account_now sv) (\<lambda>now.
     attempt (account_uuid sv) (\<lambda>tenant.
     attempt (account_uuid sv) (\<lambda>i. create_account sv (new_user req hash now tenant i)))))))"

section \<open>The signed-in user\<close>

definition UserMe :: "'e account_services \<Rightarrow> user_session option \<Rightarrow> ('e, user_info) account_act" where
  "UserMe sv ctx =
     attempt (current_user ctx) (\<lambda>session.
     attempt (account_tx sv (\<lambda>_. user_GetByID (us_id session))) (\<lambda>u. return (info_of u)))"

definition languages :: "gostr list" where
  "languages = [lit ''zh-CN'', lit ''en-US'', lit ''ja-JP'']"

definition chosen_language :: "gostr \<Rightarrow> gostr" where
  "chosen_language l = (if TrimSpace l = [] then lit ''zh-CN'' else TrimSpace l)"

definition UserUpdate ::
    "'e account_services \<Rightarrow> user_session option \<Rightarrow> gostr \<Rightarrow> gostr \<Rightarrow> gostr \<Rightarrow> ('e, user_info) account_act" where
  "UserUpdate sv ctx nickname email language =
     attempt (current_user ctx) (\<lambda>session.
     attempt (check_that (TrimSpace nickname \<noteq> [] \<and> TrimSpace email \<noteq> [])
         (Plain (lit ''nickname and email are required''))) (\<lambda>_.
     attempt (check_that (chosen_language language \<in> set languages) (Plain (lit ''language is invalid''))) (\<lambda>_.
     attempt (account_tx sv (\<lambda>now. UpdateProfile now (us_id session) (TrimSpace nickname) (TrimSpace email)
         (chosen_language language))) (\<lambda>u. return (info_of u)))))"

record password_req =
  pw_old :: gostr
  pw_new :: gostr
  pw_confirm :: gostr

definition password_checks :: "password_req \<Rightarrow> ('w, unit) prog" where
  "password_checks req =
     attempt (check_that (TrimSpace (pw_old req) \<noteq> []) (Plain (lit ''old password is required''))) (\<lambda>_.
     attempt (check_that (TrimSpace (pw_new req) \<noteq> []) (Plain (lit ''new password is required''))) (\<lambda>_.
     check_that (TrimSpace (pw_new req) = TrimSpace (pw_confirm req))
       (Plain (lit ''password confirmation does not match''))))"

definition change_password ::
    "'e account_services \<Rightarrow> password_req \<Rightarrow> user_session \<Rightarrow> ('e, unit) account_act" where
  "change_password sv req session =
     attempt (account_tx sv (\<lambda>_. user_GetByID (us_id session))) (\<lambda>u.
     attempt (check_that (ac_compare sv (user_password_hash u) (TrimSpace (pw_old req)))
         (Plain (lit ''old password is incorrect''))) (\<lambda>_.
     attempt (hash_password sv (TrimSpace (pw_new req))) (\<lambda>hash.
       account_tx sv (\<lambda>now. UpdatePassword now (us_id session) hash))))"

definition UserPasswordUpdate ::
    "'e account_services \<Rightarrow> user_session option \<Rightarrow> password_req \<Rightarrow> ('e, unit) account_act" where
  "UserPasswordUpdate sv ctx req =
     attempt (current_user ctx) (\<lambda>session.
     attempt (password_checks req) (\<lambda>_. change_password sv req session))"

end
