(* ===== verification/AccountProperties.thy ===== *)
theory AccountProperties
  imports Accounts RequestSteps ChatRunSteps
begin

text \<open>
  The properties of accounts: names stay unique and nobody's identity changes, and who registered or
  changed the password signs in and is recognised by the token.
\<close>

section \<open>How the tables change\<close>

inductive account_step :: "account_store \<Rightarrow> account_store \<Rightarrow> bool" where
  create: "account_step s (snd (user_Create u s))"
| profile: "account_step s (snd (UpdateProfile now i nickname email language s))"
| password: "account_step s (snd (UpdatePassword now i hash s))"

definition user_evolves :: "user_row \<Rightarrow> user_row \<Rightarrow> bool" where
  "user_evolves u v \<longleftrightarrow> user_id v = user_id u \<and> user_tenant v = user_tenant u \<and>
     user_username v = user_username u \<and> user_created_at v = user_created_at u \<and>
     user_deleted_at v = user_deleted_at u"

definition user_born :: "user_row \<Rightarrow> bool" where
  "user_born u \<longleftrightarrow> live_user u \<and> user_id u \<noteq> [] \<and> user_tenant u \<noteq> []"

interpretation user_rows: row_history user_id user_born user_evolves
  by unfold_locales (auto simp: user_evolves_def)

definition live_names :: "account_store \<Rightarrow> gostr list" where
  "live_names s = map user_username (filter live_user (users s))"

definition account_ok :: "account_store \<Rightarrow> bool" where
  "account_ok s \<longleftrightarrow> distinct (map user_id (users s)) \<and> distinct (live_names s) \<and>
     distinct (map tn_id (tenants s)) \<and>
     (\<forall>u \<in> set (users s). user_id u \<noteq> [] \<and> user_tenant u \<noteq> [] \<and> user_tenant u \<in> tn_id ` set (tenants s))"

lemma new_user_row_simps [simp]:
  "user_id (new_user_row u) = user_id u" "user_tenant (new_user_row u) = user_tenant u"
  "user_username (new_user_row u) = user_username u" "user_password_hash (new_user_row u) = user_password_hash u"
  "live_user (new_user_row u)" "user.truncate (new_user_row u) = u\<lparr>user_updated_at := user_created_at u\<rparr>"
  by (simp_all add: new_user_row_def user.extend_def user_row.fields_def user.truncate_def live_user_def)

lemma one_user_snd [simp]: "snd (one_user P s) = s"
  by (simp add: one_user_def split: option.split)

lemma user_reads_snd [simp]: "snd (FindByUsername n s) = s" "snd (user_GetByID i s) = s"
  by (simp_all add: FindByUsername_def user_GetByID_def)

lemma user_Create_cases:
  obtains (failed) err where "user_Create u s = (Inl err, s)"
    | (created) "user_Create u s = (Inr (), s\<lparr>
         tenants := tenants s @ [\<lparr>tn_id = user_tenant u, tn_name = user_nickname u, tn_created_at = user_created_at u\<rparr>],
         users := users s @ [new_user_row u]\<rparr>)"
      "user_id u \<noteq> []" "user_tenant u \<noteq> []" "user_tenant u \<notin> tn_id ` set (tenants s)"
      "user_id u \<notin> user_id ` set (users s)" "user_username u \<notin> set (live_names s)"
proof (cases "user_Create u s")
  case (Pair r s')
  show thesis
  proof (cases r)
    case Inl
    with Pair have "user_Create u s = (Inl (projl r), s)"
      by (auto simp: user_Create_def split: sum.splits)
    then show thesis by (rule failed)
  next
    case Inr
    with Pair show thesis
      by (intro created)
        (auto simp: user_Create_def insert_tenant_def insert_user_def tbl_affected_zero live_names_def
          image_iff split: sum.splits if_splits)
  qed
qed

lemma UpdateProfile_snd:
  "snd (UpdateProfile now i nickname email language s) =
     (if tbl_affected (\<lambda>u. user_id u = i \<and> live_user u) (users s) \<noteq> 0 \<and> \<not> profile_fits nickname email language
      then s else update_user i (\<lambda>u. u\<lparr>user_nickname := nickname, user_email := email,
        user_language := language, user_updated_at := now\<rparr>) s)"
  by (simp add: UpdateProfile_def)

lemma account_step_users:
  assumes "account_step s s'"
  shows "table_step user_id user_born user_evolves (users s) (users s')"
  using assms
proof cases
  case (create u)
  then show ?thesis
    by (cases rule: user_Create_cases [of u s])
      (auto simp: user_born_def intro: table_step.same table_step.inserted)
qed (auto simp: UpdateProfile_snd UpdatePassword_def update_user_def user_evolves_def
    intro!: table_step.changed table_step.same)

lemma update_user_names:
  assumes "\<And>u. user_username (f u) = user_username u" and "\<And>u. live_user (f u) = live_user u"
  shows "live_names (update_user i f s) = live_names s"
proof -
  have "map user_username (filter live_user (tbl_update P f rows)) = map user_username (filter live_user rows)" for P rows
    by (induction rows) (auto simp: tbl_simps assms)
  then show ?thesis by (simp add: live_names_def update_user_def)
qed

lemma update_user_tenants [simp]: "tenants (update_user i f s) = tenants s"
  by (simp add: update_user_def)

lemma account_step_names:
  assumes "account_step s s'" and "distinct (live_names s)"
  shows "distinct (live_names s')"
  using assms(1)
proof cases
  case (create u)
  then show ?thesis
    using assms(2) by (cases rule: user_Create_cases [of u s]) (simp_all add: live_names_def)
qed (use assms(2) in \<open>auto simp: UpdateProfile_snd UpdatePassword_def update_user_names live_user_def\<close>)

lemma account_step_tenants:
  assumes "account_step s s'" and "distinct (map tn_id (tenants s))"
    and "\<forall>u \<in> set (users s). user_tenant u \<in> tn_id ` set (tenants s)"
  shows "distinct (map tn_id (tenants s')) \<and> (\<forall>u \<in> set (users s'). user_tenant u \<in> tn_id ` set (tenants s'))"
  using assms(1)
proof cases
  case (create u)
  then show ?thesis
    using assms(2,3) by (cases rule: user_Create_cases [of u s]) auto
next
  case (profile now i nickname email language)
  with assms(2,3) show ?thesis
    by (auto simp: UpdateProfile_snd update_user_def tbl_update_def)
next
  case (password now i hash)
  with assms(2,3) show ?thesis
    by (auto simp: UpdatePassword_def update_user_def tbl_update_def)
qed

lemma account_step_ok:
  assumes "account_step s s'" and "account_ok s"
  shows "account_ok s'"
proof -
  note rows = account_step_users [OF assms(1)]
  have "\<forall>u \<in> set (users s'). user_id u \<noteq> [] \<and> user_tenant u \<noteq> []"
    by (rule user_rows.step_all [OF rows])
      (use assms(2) in \<open>auto simp: account_ok_def user_born_def user_evolves_def\<close>)
  moreover have "distinct (map user_id (users s'))"
    using user_rows.step_distinct [OF rows] assms(2) by (simp add: account_ok_def)
  moreover have "distinct (live_names s')"
    using account_step_names [OF assms(1)] assms(2) by (simp add: account_ok_def)
  moreover have "distinct (map tn_id (tenants s')) \<and> (\<forall>u \<in> set (users s'). user_tenant u \<in> tn_id ` set (tenants s'))"
    by (rule account_step_tenants [OF assms(1)]) (use assms(2) in \<open>simp_all add: account_ok_def\<close>)
  ultimately show ?thesis by (simp add: account_ok_def)
qed

interpretation accounts: invariant_system account_step account_ok
  by unfold_locales (rule account_step_ok)

lemma user_history:
  assumes "account_step\<^sup>*\<^sup>* s s'" and "tbl_first (\<lambda>u. user_id u = i) (users s) = Some u"
  shows "\<exists>v. tbl_first (\<lambda>u. user_id u = i) (users s') = Some v \<and> user_evolves u v"
  using assms
proof (induction rule: rtranclp_induct)
  case (step x y)
  then obtain v where v: "tbl_first (\<lambda>u. user_id u = i) (users x) = Some v" "user_evolves u v" by auto
  obtain v' where "tbl_first (\<lambda>u. user_id u = i) (users y) = Some v'" "user_evolves v v'"
    by (rule user_rows.step_first [OF account_step_users [OF step.hyps(2)] v(1)])
  with v(2) show ?case by (auto simp: user_evolves_def)
qed (auto simp: user_evolves_def)

section \<open>The requests only commit such transactions\<close>

definition account_disciplined :: "'e account_services \<Rightarrow> bool" where
  "account_disciplined sv \<longleftrightarrow> (\<forall>e d f e' d'. ac_pg sv e d = (f, e', d') \<longrightarrow> account_step\<^sup>*\<^sup>* d d')"

definition account_quiet :: "'e account_services \<Rightarrow> bool" where
  "account_quiet sv \<longleftrightarrow> (\<forall>e d. \<exists>e'. ac_pg sv e d = (Executed, e', d))"

definition account_only :: "('e, 'a) account_act \<Rightarrow> bool" where
  "account_only m \<longleftrightarrow> (\<forall>w. account_step\<^sup>*\<^sup>* (aw_db w) (aw_db (snd (m w))))"

named_theorems account_intros

lemma account_only_attempt [account_intros]:
  assumes "account_only m" and "\<And>a. account_only (k a)"
  shows "account_only (attempt m k)"
  unfolding account_only_def
proof
  fix w
  have 1: "account_step\<^sup>*\<^sup>* (aw_db w) (aw_db (snd (m w)))" using assms(1) by (simp add: account_only_def)
  show "account_step\<^sup>*\<^sup>* (aw_db w) (aw_db (snd (attempt m k w)))"
  proof (cases "m w")
    case (Pair r w1)
    then show ?thesis
      using 1 assms(2) by (cases r) (auto simp: attempt_def account_only_def intro: rtranclp_trans)
  qed
qed

lemma account_only_still [account_intros]:
  "account_only (return a)" "account_only (fail e)" "account_only (current_user ctx)"
  "account_only (check_that b e)" "account_only (account_uuid sv)" "account_only (account_now sv)"
  "account_only (hash_password sv p)" "account_only (GenerateToken sv u)"
  by (simp_all add: account_only_def return_def fail_def current_user_def check_that_def account_uuid_def
      account_now_def hash_password_def GenerateToken_def)

lemma account_only_tx:
  assumes "account_disciplined sv" and "\<And>now s. account_step\<^sup>*\<^sup>* s (snd (q now s))"
  shows "account_only (account_tx sv q)"
  unfolding account_only_def
proof
  fix w :: "'a account_world"
  obtain f e d where pg: "ac_pg sv (aw_ext w) (aw_db w) = (f, e, d)" by (metis prod_cases3)
  have 1: "account_step\<^sup>*\<^sup>* (aw_db w) d" using assms(1) pg by (auto simp: account_disciplined_def)
  have "aw_db (snd (account_tx sv q w)) = d \<or> aw_db (snd (account_tx sv q w)) = snd (q (ac_now sv e) d)"
    by (cases f) (simp_all add: account_tx_def pg)
  then show "account_step\<^sup>*\<^sup>* (aw_db w) (aw_db (snd (account_tx sv q w)))"
    using 1 assms(2) by (metis rtranclp_trans)
qed

lemma account_only_reads:
  assumes "account_disciplined sv"
  shows "account_only (account_tx sv (\<lambda>_. FindByUsername n))" and "account_only (account_tx sv (\<lambda>_. user_GetByID i))"
  by (rule account_only_tx [OF assms]; simp)+

lemma account_only_hide: "account_only m \<Longrightarrow> account_only (hide_no_rows e m)"
  by (simp add: account_only_def hide_no_rows_def split: prod.splits sum.splits) (metis snd_conv)

lemma account_only_free:
  assumes "account_disciplined sv"
  shows "account_only (username_free sv n)"
proof -
  have "snd (username_free sv n w) = snd (account_tx sv (\<lambda>_. FindByUsername n) w)" for w
    by (simp add: username_free_def split: prod.splits sum.splits)
  with account_only_reads(1) [OF assms, of n] show ?thesis by (simp add: account_only_def)
qed

lemma account_only_requests:
  assumes "account_disciplined sv"
  shows "account_only (AuthLogin sv name password)" and "account_only (AuthRegister sv req)"
    and "account_only (UserMe sv ctx)" and "account_only (UserUpdate sv ctx nickname email language)"
    and "account_only (UserPasswordUpdate sv ctx pw)"
proof -
  note intros = account_intros account_only_reads [OF assms] account_only_tx [OF assms] account_only_hide account_only_free [OF assms]
    r_into_rtranclp [of account_step] account_step.intros
  have signed: "account_only (signed_in sv u)" for u
    unfolding signed_in_def by (intro intros)
  show "account_only (AuthLogin sv name password)"
    unfolding AuthLogin_def Let_def check_and_sign_def
    by (cases "TrimSpace name = [] \<or> TrimSpace password = []") (simp_all add: account_intros, intro intros signed)
  show "account_only (AuthRegister sv req)"
    unfolding AuthRegister_def register_checks_def create_account_def by (intro intros signed)
  show "account_only (UserMe sv ctx)"
    unfolding UserMe_def by (intro intros)
  show "account_only (UserUpdate sv ctx nickname email language)"
    unfolding UserUpdate_def by (intro intros)
  show "account_only (UserPasswordUpdate sv ctx pw)"
    unfolding UserPasswordUpdate_def password_checks_def change_password_def by (intro intros)
qed

section \<open>What the libraries promise\<close>

text \<open>A password matches the hash generated for it.\<close>

definition bcrypt_library :: "'e account_services \<Rightarrow> bool" where
  "bcrypt_library sv \<longleftrightarrow> (\<forall>p e h e'. ac_hash sv p e = (Inr h, e') \<longrightarrow> ac_compare sv h p)"

text \<open>
  Signing does not fail and gives a text without surrounding white space; a signed token is valid,
  with its claims, from the time of issue until it expires, under the key it was signed with.
\<close>

definition jwt_library :: "'e account_services \<Rightarrow> bool" where
  "jwt_library sv \<longleftrightarrow> (\<forall>secret c. \<exists>tok. ac_sign sv secret c = Inr tok \<and> trimmed tok \<and> tok \<noteq> [] \<and>
     (\<forall>key now. key HS256 = Inr secret \<and> cl_issued_at c * 1000 \<le> now \<and> now < cl_expires_at c * 1000 \<longrightarrow>
        ac_parse sv key tok now = Inr (c, True)))"

section \<open>Signing in\<close>

lemma account_tx_quiet:
  assumes "account_quiet sv"
  obtains now e where "account_tx sv q w = (fst (q now (aw_db w)), w\<lparr>aw_db := snd (q now (aw_db w)), aw_ext := e\<rparr>)"
proof -
  obtain e where "ac_pg sv (aw_ext w) (aw_db w) = (Executed, e, aw_db w)"
    using assms by (auto simp: account_quiet_def)
  then show thesis by (intro that [of "ac_now sv e" e]) (simp add: account_tx_def)
qed

lemma distinct_filter_first:
  assumes "distinct (map f (filter P xs))" and "x \<in> set xs" and "P x"
  shows "tbl_first (\<lambda>y. f y = f x \<and> P y) xs = Some x"
  using assms by (induction xs) (auto simp: tbl_simps image_iff split: if_splits)

lemma FindByUsername_live:
  assumes "account_ok s" and "u \<in> set (users s)" and "live_user u"
  shows "FindByUsername (user_username u) s = (Inr (user.truncate u), s)"
  using distinct_filter_first [of user_username live_user "users s" u] assms
  by (simp add: FindByUsername_def one_user_def account_ok_def live_names_def)

lemma signed_in_eq:
  assumes "ac_sign sv (ac_secret sv) (session_claims (ac_expire_hours sv) (ac_now sv (aw_ext w)) (session_of u)) = Inr tok"
    and "ac_secret sv \<noteq> []"
  shows "signed_in sv u w = (Inr \<lparr>lr_token = tok, lr_user = info_of u\<rparr>, w)"
  using assms by (simp add: signed_in_def attempt_def GenerateToken_def return_def)

lemma login_succeeds:
  assumes "account_quiet sv" and "jwt_library sv" and "ac_secret sv \<noteq> []" and "account_ok (aw_db w)"
    and "u \<in> set (users (aw_db w))" and "live_user u"
    and "user_username u = TrimSpace name" and "TrimSpace name \<noteq> []" and "TrimSpace password \<noteq> []"
    and "ac_compare sv (user_password_hash u) (TrimSpace password)"
  obtains tok w' where "AuthLogin sv name password w = (Inr \<lparr>lr_token = tok, lr_user = info_of (user.truncate u)\<rparr>, w')"
    and "ac_sign sv (ac_secret sv) (session_claims (ac_expire_hours sv) (ac_now sv (aw_ext w'))
           (session_of (user.truncate u))) = Inr tok"
proof -
  obtain e where tx: "account_tx sv (\<lambda>_. FindByUsername (TrimSpace name)) w =
      (Inr (user.truncate u), w\<lparr>aw_ext := e\<rparr>)"
    by (rule account_tx_quiet [OF assms(1), of "\<lambda>_. FindByUsername (TrimSpace name)" w])
      (use FindByUsername_live [OF assms(4-6)] assms(7) in auto)
  let ?w = "w\<lparr>aw_ext := e\<rparr>"
  obtain tok where tok: "ac_sign sv (ac_secret sv) (session_claims (ac_expire_hours sv) (ac_now sv (aw_ext ?w))
      (session_of (user.truncate u))) = Inr tok" using assms(2) unfolding jwt_library_def by blast
  have "user_password_hash (user.truncate u) = user_password_hash u" by (simp add: user.truncate_def)
  then have "AuthLogin sv name password w = signed_in sv (user.truncate u) ?w"
    using assms(8-10) tx
    by (simp add: AuthLogin_def Let_def attempt_def hide_no_rows_def check_and_sign_def check_that_def return_def)
  then have "AuthLogin sv name password w = (Inr \<lparr>lr_token = tok, lr_user = info_of (user.truncate u)\<rparr>, ?w)"
    using signed_in_eq [OF tok assms(3)] by simp
  then show thesis using tok by (rule that)
qed

lemma token_recognised:
  assumes "jwt_library sv" and "ac_sign sv (ac_secret sv) (session_claims hours t0 session) = Inr tok"
    and "us_tenant session \<noteq> []" and "t0 \<le> now" and "now + 1000 \<le> t0 + expire_hours hours * 3600000"
  shows "auth_Handle sv (lit ''Bearer '' @ tok) now = Some session"
proof -
  let ?c = "session_claims hours t0 session"
  obtain tok' where "ac_sign sv (ac_secret sv) ?c = Inr tok'" and text_ok: "trimmed tok'" "tok' \<noteq> []"
    and valid: "\<And>key now. key HS256 = Inr (ac_secret sv) \<and> cl_issued_at ?c * 1000 \<le> now \<and>
      now < cl_expires_at ?c * 1000 \<Longrightarrow> ac_parse sv key tok' now = Inr (?c, True)"
    using assms(1) unfolding jwt_library_def by blast
  with assms(2) have tok: "tok' = tok" by simp
  have i: "cl_issued_at ?c * 1000 \<le> now" and e: "now < cl_expires_at ?c * 1000"
    using assms(4,5) by (simp_all add: session_claims_def)
  have parse: "ac_parse sv (token_key (ac_secret sv)) tok now = Inr (?c, True)"
    using valid [of "token_key (ac_secret sv)" now] i e tok by (simp add: token_key_def)
  have "trimmed (lit ''Bearer '' @ tok)"
    using text_ok tok by (simp add: trimmed_def lit_def isSpace_def)
  then have "TrimSpace (lit ''Bearer '' @ tok) = lit ''Bearer '' @ tok" by (rule TrimSpace_of_trimmed)
  moreover have "TrimPrefix (lit ''Bearer '' @ tok) (lit ''Bearer '') = tok"
    by (simp add: TrimPrefix_def HasPrefix_def)
  moreover have "claims_session ?c = session" using assms(3) by (simp add: claims_session_def session_claims_def)
  ultimately show ?thesis
    using text_ok tok parse by (simp add: auth_Handle_def Let_def TrimSpace_of_trimmed ParseToken_def)
qed

lemma quiet_account_disciplined: "account_quiet sv \<Longrightarrow> account_disciplined sv"
  unfolding account_quiet_def account_disciplined_def by (metis Pair_inject rtranclp.rtrancl_refl)

lemma account_reach_ok:
  "account_only m \<Longrightarrow> m w = (r, w') \<Longrightarrow> account_ok (aw_db w) \<Longrightarrow> account_ok (aw_db w')"
  using accounts.run_keeps unfolding account_only_def by (metis snd_conv)

lemma signed_in_Inr:
  assumes "signed_in sv u w = (Inr resp, w')"
  shows "ac_secret sv \<noteq> [] \<and> lr_user resp = info_of u \<and> w' = w"
  using assms unfolding signed_in_def
  by (elim attempt_Inr) (auto simp: GenerateToken_def split: if_splits)

lemma AuthRegister_Inr:
  assumes "account_quiet sv" and "bcrypt_library sv" and "AuthRegister sv req w = (Inr resp, w')"
  obtains u where "u \<in> set (users (aw_db w'))" and "live_user u"
    and "user_username u = TrimSpace (rg_username req)"
    and "ac_compare sv (user_password_hash u) (TrimSpace (rg_password req))"
    and "lr_user resp = info_of (user.truncate u)" and "user_tenant u \<noteq> []"
    and "TrimSpace (rg_username req) \<noteq> []" and "TrimSpace (rg_password req) \<noteq> []" and "ac_secret sv \<noteq> []"
proof -
  from assms(3) obtain w1 w2 w3 hash w4 now w5 tenant w6 i w7 x y where
    c: "register_checks req w = (Inr x, w1)" and "username_free sv (TrimSpace (rg_username req)) w1 = (Inr y, w2)"
    and h: "hash_password sv (TrimSpace (rg_password req)) w2 = (Inr hash, w3)"
    and "account_now sv w3 = (Inr now, w4)" and "account_uuid sv w4 = (Inr tenant, w5)"
    and "account_uuid sv w5 = (Inr i, w6)"
    and create: "create_account sv (new_user req hash now tenant i) w6 = (Inr resp, w')"
    unfolding AuthRegister_def by (elim attempt_Inr)
  let ?u = "new_user req hash now tenant i"
  from create obtain z w8 where tx: "account_tx sv (\<lambda>_. user_Create ?u) w6 = (Inr z, w8)"
    and sign: "signed_in sv ?u w8 = (Inr resp, w')"
    unfolding create_account_def by (elim attempt_Inr)
  note signed = signed_in_Inr [OF sign]
  obtain e where eq: "account_tx sv (\<lambda>_. user_Create ?u) w6 =
      (fst (user_Create ?u (aw_db w6)), w6\<lparr>aw_db := snd (user_Create ?u (aw_db w6)), aw_ext := e\<rparr>)"
    by (rule account_tx_quiet [OF assms(1)])
  have "new_user_row ?u \<in> set (users (aw_db w')) \<and> tenant \<noteq> []"
    using eq tx signed by (cases rule: user_Create_cases [of ?u "aw_db w6"]) (auto simp: new_user_def)
  moreover have "ac_compare sv hash (TrimSpace (rg_password req))"
    using h assms(2) by (auto simp: hash_password_def bcrypt_library_def prod_eq_iff)
  moreover have "?u\<lparr>user_updated_at := user_created_at ?u\<rparr> = ?u" by (simp add: new_user_def)
  moreover have "TrimSpace (rg_username req) \<noteq> [] \<and> TrimSpace (rg_password req) \<noteq> []"
    using c by (auto simp: register_checks_def check_that_def elim!: attempt_Inr split: if_splits)
  ultimately show thesis
    using signed by (intro that [of "new_user_row ?u"]) (simp_all add: new_user_def)
qed


section \<open>A world with simple libraries\<close>

text \<open>Tokens and hashes that can be read back: every list is preceded by its length.\<close>

definition shift :: nat where
  "shift = 100000"

definition put_list :: "nat list \<Rightarrow> nat list" where
  "put_list xs = (length xs + shift) # map (\<lambda>x. x + shift) xs"

definition get_list :: "nat list \<Rightarrow> nat list \<times> nat list" where
  "get_list ts =
     (case ts of [] \<Rightarrow> ([], [])
      | n # rest \<Rightarrow> (map (\<lambda>x. x - shift) (take (n - shift) rest), drop (n - shift) rest))"

lemma get_put [simp]: "get_list (put_list xs @ ts) = (xs, ts)"
  by (simp add: get_list_def put_list_def comp_def)

lemma get_put_last [simp]: "get_list (put_list xs) = (xs, [])"
  using get_put [of xs "[]"] by simp

definition put_int :: "int \<Rightarrow> nat list" where
  "put_int i = put_list [if i < 0 then 1 else 0, nat \<bar>i\<bar>]"

definition int_of_list :: "nat list \<Rightarrow> int" where
  "int_of_list xs = (if hd xs = 1 then - int (hd (tl xs)) else int (hd (tl xs)))"

lemma int_of_put [simp]: "int_of_list [if i < 0 then 1 else 0, nat \<bar>i\<bar>] = i"
  by (simp add: int_of_list_def)

definition plain_sign :: "gostr \<Rightarrow> claims \<Rightarrow> gerr + gostr" where
  "plain_sign secret c = Inr (put_list secret @ put_list (lit (cl_user c)) @ put_list (lit (cl_tenant c)) @
     put_list (cl_username c) @ put_list (cl_email c) @ put_int (cl_expires_at c) @ put_int (cl_issued_at c))"

definition plain_parse :: "(signing_method \<Rightarrow> gerr + gostr) \<Rightarrow> gostr \<Rightarrow> int \<Rightarrow> gerr + claims \<times> bool" where
  "plain_parse key tok now =
     (let (secret, t1) = get_list tok; (i, t2) = get_list t1; (tenant, t3) = get_list t2;
          (name, t4) = get_list t3; (email, t5) = get_list t4; (e, t6) = get_list t5; (a, _) = get_list t6
      in if key HS256 = Inr secret \<and> int_of_list a * 1000 \<le> now \<and> now < int_of_list e * 1000 then
           Inr (\<lparr>cl_user = text_id i, cl_tenant = text_id tenant, cl_username = name, cl_email = email,
             cl_expires_at = int_of_list e, cl_issued_at = int_of_list a\<rparr>, True)
         else Inl (Plain (lit ''token is invalid'')))"

lemma plain_read:
  assumes "key HS256 = Inr secret" and "cl_issued_at c * 1000 \<le> now" and "now < cl_expires_at c * 1000"
  shows "plain_parse key (projr (plain_sign secret c)) now = Inr (c, True)"
  using assms by (simp add: plain_parse_def plain_sign_def put_int_def)

lemma put_list_spaceless: "r \<in> set (put_list xs) \<Longrightarrow> \<not> isSpace r"
  by (auto simp: put_list_def shift_def isSpace_def)

definition calm_accounts :: "nat account_services" where
  "calm_accounts = \<lparr>ac_pg = (\<lambda>e d. (Executed, e, d)), ac_now = (\<lambda>_. 1500), ac_uuid = (\<lambda>e. (replicate (Suc e) CHR ''u'', Suc e)),
     ac_hash = (\<lambda>p e. (Inr (102 # p), e)), ac_compare = (\<lambda>h p. h = 102 # p),
     ac_sign = plain_sign, ac_parse = plain_parse, ac_secret = lit ''key'', ac_expire_hours = 0\<rparr>"

lemma calm_accounts_quiet: "account_quiet calm_accounts"
  by (simp add: account_quiet_def calm_accounts_def)

lemma calm_accounts_bcrypt: "bcrypt_library calm_accounts"
  by (auto simp: bcrypt_library_def calm_accounts_def)

lemma calm_accounts_jwt: "jwt_library calm_accounts"
  unfolding jwt_library_def
proof (intro allI)
  fix secret c
  let ?tok = "projr (plain_sign secret c)"
  have s: "plain_sign secret c = Inr ?tok" by (simp add: plain_sign_def)
  have none: "\<forall>r \<in> set ?tok. \<not> isSpace r"
    by (auto simp: plain_sign_def put_int_def dest: put_list_spaceless)
  have ne: "?tok \<noteq> []" by (simp add: plain_sign_def put_list_def)
  have "trimmed ?tok" using none ne by (simp add: trimmed_def)
  with s ne plain_read [of _ secret c] show "\<exists>tok. ac_sign calm_accounts secret c = Inr tok \<and> trimmed tok \<and> tok \<noteq> [] \<and>
     (\<forall>key now. key HS256 = Inr secret \<and> cl_issued_at c * 1000 \<le> now \<and> now < cl_expires_at c * 1000 \<longrightarrow>
        ac_parse calm_accounts key tok now = Inr (c, True))"
    unfolding calm_accounts_def by (intro exI [of _ ?tok]) simp
qed

definition no_accounts :: "nat account_world" where
  "no_accounts = \<lparr>aw_db = \<lparr>users = [], tenants = []\<rparr>, aw_ext = 0\<rparr>"

definition register1 :: register_req where
  "register1 = \<lparr>rg_username = lit ''ada '', rg_password = lit ''pw'', rg_confirm_password = lit ''pw'',
     rg_nickname = lit ''Ada'', rg_email = lit ''a@b''\<rparr>"

lemma no_accounts_ok: "account_ok (aw_db no_accounts)"
  by (simp add: no_accounts_def account_ok_def live_names_def)

definition registered1 :: "(gerr + login_resp) \<times> nat account_world" where
  "registered1 = AuthRegister calm_accounts register1 no_accounts"

lemma registered1_id: "(case fst registered1 of Inr resp \<Rightarrow> ui_id (lr_user resp) | Inl e \<Rightarrow> []) = ''uu''"
  unfolding registered1_def by code_simp

lemma registered1_eq:
  obtains resp where "AuthRegister calm_accounts register1 no_accounts = (Inr resp, snd registered1)"
    and "ui_id (lr_user resp) = ''uu''"
proof (cases registered1)
  case (Pair r w)
  from registered1_id have "\<exists>resp. r = Inr resp \<and> ui_id (lr_user resp) = ''uu''"
    unfolding Pair by (cases r) simp_all
  with Pair that show ?thesis by (auto simp: registered1_def)
qed


lemma change_password_Inr:
  assumes "account_quiet sv" and "account_ok (aw_db w)"
    and "change_password sv req session w = (Inr x, w')"
  obtains u hash now where "u \<in> set (users (aw_db w))" and "live_user u" and "user_id u = us_id session"
    and "ac_compare sv (user_password_hash u) (TrimSpace (pw_old req))"
    and "\<exists>e e'. ac_hash sv (TrimSpace (pw_new req)) e = (Inr hash, e')"
    and "u\<lparr>user_password_hash := hash, user_updated_at := now\<rparr> \<in> set (users (aw_db w'))"
proof -
  let ?i = "us_id session"
  from assms(3) obtain v w1 w2 hash w3 y where get: "account_tx sv (\<lambda>_. user_GetByID ?i) w = (Inr v, w1)"
    and cmp: "check_that (ac_compare sv (user_password_hash v) (TrimSpace (pw_old req)))
         (Plain (lit ''old password is incorrect'')) w1 = (Inr y, w2)"
    and h: "hash_password sv (TrimSpace (pw_new req)) w2 = (Inr hash, w3)"
    and upd: "account_tx sv (\<lambda>now. UpdatePassword now ?i hash) w3 = (Inr x, w')"
    unfolding change_password_def by (elim attempt_Inr)
  obtain e where "account_tx sv (\<lambda>_. user_GetByID ?i) w =
      (fst (user_GetByID ?i (aw_db w)), w\<lparr>aw_db := snd (user_GetByID ?i (aw_db w)), aw_ext := e\<rparr>)"
    by (rule account_tx_quiet [OF assms(1)])
  with get have g: "fst (user_GetByID ?i (aw_db w)) = Inr v" and d1: "aw_db w1 = aw_db w" by auto
  then obtain u where u: "tbl_first (\<lambda>u. user_id u = ?i \<and> live_user u) (users (aw_db w)) = Some u" "v = user.truncate u"
    by (auto simp: user_GetByID_def one_user_def split: option.splits)
  note u_in = tbl_first_Some [OF u(1)]
  have "w2 = w1" and c: "ac_compare sv (user_password_hash u) (TrimSpace (pw_old req))"
    using cmp u(2) by (auto simp: check_that_def user.truncate_def split: if_splits)
  then have d3: "aw_db w3 = aw_db w" using h d1 by (auto simp: hash_password_def)
  obtain now e' where "account_tx sv (\<lambda>now. UpdatePassword now ?i hash) w3 =
      (Inr (), w3\<lparr>aw_db := snd (UpdatePassword now ?i hash (aw_db w3)), aw_ext := e'\<rparr>)"
    by (rule account_tx_quiet [OF assms(1), of "\<lambda>now. UpdatePassword now ?i hash" w3]) (auto simp: UpdatePassword_def)
  with upd d3 have "users (aw_db w') = tbl_update (\<lambda>u. user_id u = ?i \<and> live_user u)
      (\<lambda>u. u\<lparr>user_password_hash := hash, user_updated_at := now\<rparr>) (users (aw_db w))"
    by (auto simp: UpdatePassword_def update_user_def)
  then have "u\<lparr>user_password_hash := hash, user_updated_at := now\<rparr> \<in> set (users (aw_db w'))"
    using u_in by (auto simp: tbl_update_def image_iff intro!: bexI [of _ u])
  moreover have "ac_hash sv (TrimSpace (pw_new req)) (aw_ext w2) = (Inr hash, snd (ac_hash sv (TrimSpace (pw_new req)) (aw_ext w2)))"
    using h by (auto simp: hash_password_def prod_eq_iff)
  ultimately show thesis using u_in c by (intro that) auto
qed

text \<open>
  A password change takes effect: when it succeeds the old password given was the right one, and,
  with the database answering, the same user signs in with the new password from then on.
\<close>

theorem password_change_takes_effect:
  assumes "account_quiet sv" and "bcrypt_library sv" and "jwt_library sv" and "ac_secret sv \<noteq> []"
    and "account_ok (aw_db w)" and "CurrentUser ctx = Inr session"
    and "tbl_first (\<lambda>u. user_id u = us_id session) (users (aw_db w)) = Some u"
    and "user_username u = TrimSpace name" and "TrimSpace name \<noteq> []"
    and "UserPasswordUpdate sv ctx req w = (Inr x, w1)"
  shows "ac_compare sv (user_password_hash u) (TrimSpace (pw_old req)) \<and>
    (\<exists>resp w2. AuthLogin sv name (pw_new req) w1 = (Inr resp, w2) \<and> ui_id (lr_user resp) = us_id session)"
proof -
  from assms(6,10) have "attempt (password_checks req) (\<lambda>_. change_password sv req session) w = (Inr x, w1)"
    by (simp add: UserPasswordUpdate_def attempt_def current_user_def)
  then obtain y w0 where c: "password_checks req w = (Inr y, w0)" and ch: "change_password sv req session w0 = (Inr x, w1)"
    by (rule attempt_Inr)
  from c have new: "TrimSpace (pw_new req) \<noteq> []" and w0: "w0 = w"
    by (auto simp: password_checks_def check_that_def elim!: attempt_Inr split: if_splits)
  from change_password_Inr [OF assms(1) _ ch] assms(5) w0 obtain v hash now where v: "v \<in> set (users (aw_db w))" "live_user v"
      "user_id v = us_id session" "ac_compare sv (user_password_hash v) (TrimSpace (pw_old req))"
      "\<exists>e e'. ac_hash sv (TrimSpace (pw_new req)) e = (Inr hash, e')"
      "v\<lparr>user_password_hash := hash, user_updated_at := now\<rparr> \<in> set (users (aw_db w1))" by metis
  have "distinct (map user_id (users (aw_db w)))" using assms(5) by (simp add: account_ok_def)
  from tbl_first_key [OF this v(1)] assms(7) v(3) have vu: "v = u" by simp
  let ?u = "v\<lparr>user_password_hash := hash, user_updated_at := now\<rparr>"
  have ok: "account_ok (aw_db w1)"
    by (rule account_reach_ok [OF account_only_requests(5) [OF quiet_account_disciplined [OF assms(1)]] assms(10,5)])
  have "ac_compare sv (user_password_hash ?u) (TrimSpace (pw_new req))"
    using v(5) assms(2) by (auto simp: bcrypt_library_def)
  moreover have "live_user ?u" "user_username ?u = TrimSpace name" using v(2) vu assms(8) by (simp_all add: live_user_def)
  ultimately obtain tok w2 where "AuthLogin sv name (pw_new req) w1 =
      (Inr \<lparr>lr_token = tok, lr_user = info_of (user.truncate ?u)\<rparr>, w2)"
    using login_succeeds [OF assms(1,3,4) ok v(6) _ _ assms(9) new] by metis
  then show ?thesis using v(3,4) vu by (simp add: info_of_def user.truncate_def)
qed

definition password1 :: password_req where
  "password1 = \<lparr>pw_old = lit ''pw'', pw_new = lit ''secret'', pw_confirm = lit ''secret''\<rparr>"

definition session1 :: user_session where
  "session1 = \<lparr>us_id = ''uu'', us_tenant = ''u'', us_username = lit ''ada'', us_email = lit ''a@b''\<rparr>"

lemma password_change_takes_effect_witness:
  "\<exists>resp w2. AuthLogin calm_accounts (lit ''ada'') (lit ''secret'')
       (snd (UserPasswordUpdate calm_accounts (Some session1) password1 (snd registered1))) = (Inr resp, w2) \<and>
     ui_id (lr_user resp) = ''uu''"
proof -
  let ?w = "snd registered1"
  obtain resp where reg: "AuthRegister calm_accounts register1 no_accounts = (Inr resp, ?w)" by (rule registered1_eq)
  have ok: "account_ok (aw_db ?w)"
    by (rule account_reach_ok [OF account_only_requests(2) [OF quiet_account_disciplined [OF calm_accounts_quiet]] reg no_accounts_ok])
  have cur: "CurrentUser (Some session1) = Inr session1" by code_simp
  have "map_option user_username (tbl_first (\<lambda>u. user_id u = us_id session1) (users (aw_db ?w))) = Some (TrimSpace (lit ''ada''))"
    unfolding registered1_def by code_simp
  then obtain u where u: "tbl_first (\<lambda>u. user_id u = us_id session1) (users (aw_db ?w)) = Some u"
    "user_username u = TrimSpace (lit ''ada'')" by auto
  have ne: "TrimSpace (lit ''ada'') \<noteq> []" "ac_secret calm_accounts \<noteq> []" by code_simp+
  have "fst (UserPasswordUpdate calm_accounts (Some session1) password1 ?w) = Inr ()"
    unfolding registered1_def by code_simp
  then have upd: "UserPasswordUpdate calm_accounts (Some session1) password1 ?w =
      (Inr (), snd (UserPasswordUpdate calm_accounts (Some session1) password1 ?w))" by (metis prod.collapse)
  from password_change_takes_effect [OF calm_accounts_quiet calm_accounts_bcrypt calm_accounts_jwt ne(2) ok cur u ne(1) upd]
  show ?thesis by (simp add: password1_def session1_def)
qed

text \<open>C27
  Accounts stay well formed: whatever the database, bcrypt and the JWT library answer and whatever
  the other requests commit in between, signing in, registering and changing the profile or the
  password keep the user names of the live users, the identifiers of users and of tenants unique
  and every user in a tenant that exists, and no user ever changes identifier, tenant or name.
\<close>

theorem accounts_stay_well_formed:
  assumes "account_disciplined sv" and "account_ok (aw_db w)"
    and "w' = snd (AuthLogin sv name password w) \<or> w' = snd (AuthRegister sv reg w) \<or>
      w' = snd (UserUpdate sv ctx nickname email language w) \<or> w' = snd (UserPasswordUpdate sv ctx req w)"
  shows "account_ok (aw_db w') \<and>
    (\<forall>i u. tbl_first (\<lambda>u. user_id u = i) (users (aw_db w)) = Some u \<longrightarrow>
       (\<exists>v. tbl_first (\<lambda>u. user_id u = i) (users (aw_db w')) = Some v \<and>
          user_tenant v = user_tenant u \<and> user_username v = user_username u))"
proof -
  have "account_step\<^sup>*\<^sup>* (aw_db w) (aw_db w')"
    using assms(3) account_only_requests [OF assms(1)] unfolding account_only_def by metis
  with accounts.run_keeps assms(2) user_history show ?thesis unfolding user_evolves_def by blast
qed

lemma accounts_stay_well_formed_witness:
  "account_ok (aw_db (snd registered1))"
  using accounts_stay_well_formed [OF quiet_account_disciplined [OF calm_accounts_quiet] no_accounts_ok,
      of "snd registered1" "[]" "[]" register1] by (simp add: registered1_def)

end
