(* ===== verification/RateLimit.thy ===== *)
theory RateLimit
  imports Accounts
begin

text \<open>
  The rate limiter \<open>internal/infrastructure/ratelimit/limiter.go\<close>, with the script it runs on
  Redis, and its middleware \<open>internal/middleware/ratelimitmiddleware.go\<close>. Times are in
  milliseconds, as in the script.
\<close>

section \<open>Redis\<close>

text \<open>
  A sorted set holds members with their scores and may have a time to live; a key without one has no
  entries. An expired key is gone.
\<close>

record sorted_set =
  zs_entries :: "(uid \<times> int) list"
  zs_expires :: "int option"

type_synonym redis = "gostr \<Rightarrow> sorted_set"

definition no_keys :: redis where
  "no_keys = (\<lambda>_. \<lparr>zs_entries = [], zs_expires = None\<rparr>)"

definition entries_at :: "int \<Rightarrow> sorted_set \<Rightarrow> (uid \<times> int) list" where
  "entries_at now z =
     (case zs_expires z of
        Some e \<Rightarrow> if e \<le> now then [] else zs_entries z
      | None \<Rightarrow> zs_entries z)"

text \<open>\<open>ZREMRANGEBYSCORE key 0 hi\<close>\<close>

definition rem_range :: "int \<Rightarrow> (uid \<times> int) list \<Rightarrow> (uid \<times> int) list" where
  "rem_range hi es = filter (\<lambda>(m, s). \<not> (0 \<le> s \<and> s \<le> hi)) es"

text \<open>\<open>ZADD key score member\<close>: a member that is there gets the new score.\<close>

definition zadd :: "int \<Rightarrow> uid \<Rightarrow> (uid \<times> int) list \<Rightarrow> (uid \<times> int) list" where
  "zadd score member es = filter (\<lambda>(m, s). m \<noteq> member) es @ [(member, score)]"

text \<open>\<open>ZRANGE key 0 0 WITHSCORES\<close>: the lowest score.\<close>

definition oldest :: "(uid \<times> int) list \<Rightarrow> int option" where
  "oldest es = (case map snd es of [] \<Rightarrow> None | s # ss \<Rightarrow> Some (foldl min s ss))"

text \<open>\<open>math.ceil(x / 1000)\<close>\<close>

definition ceil_seconds :: "int \<Rightarrow> int" where
  "ceil_seconds x = - ((- x) div 1000)"

definition retry_seconds :: "int \<Rightarrow> int \<Rightarrow> (uid \<times> int) list \<Rightarrow> int" where
  "retry_seconds now window es =
     (case oldest es of None \<Rightarrow> 1 | Some s \<Rightarrow> max 1 (ceil_seconds (s + window - now)))"

text \<open>A key with no entries is removed, and setting its time to live then does nothing.\<close>

definition store_entries :: "int \<Rightarrow> (uid \<times> int) list \<Rightarrow> sorted_set" where
  "store_entries e es = \<lparr>zs_entries = es, zs_expires = (if es = [] then None else Some e)\<rparr>"

definition slidingWindowScript ::
    "int \<Rightarrow> gostr \<Rightarrow> int \<Rightarrow> int \<Rightarrow> uid \<Rightarrow> redis \<Rightarrow> (int \<times> int) \<times> redis" where
  "slidingWindowScript now key window quota member rs =
     (let es = rem_range (now - window) (entries_at now (rs key))
      in if int (length es) \<ge> quota then
           ((0, retry_seconds now window es), rs(key := store_entries (now + window) es))
         else ((1, 0), rs(key := store_entries (now + window) (zadd now member es))))"

section \<open>The limiter\<close>

record decision =
  dc_allowed :: bool
  dc_retry_after :: int

record rate_limit_conf =
  rl_period :: int
  rl_chat_quota :: int
  rl_retrieval_quota :: int
  rl_upload_quota :: int

definition policy :: "rate_limit_conf \<Rightarrow> gostr \<Rightarrow> (gostr \<times> int) option" where
  "policy conf path =
     (if path = lit ''/api/chat/ask'' \<or> path = lit ''/api/chat/stream'' \<or> path = lit ''/api/chat/runs/resume'' then
        Some (lit ''chat'', rl_chat_quota conf)
      else if path = lit ''/api/retrieval/search'' then Some (lit ''retrieval'', rl_retrieval_quota conf)
      else if path = lit ''/api/documents/upload'' then Some (lit ''upload'', rl_upload_quota conf)
      else None)"

text \<open>A value of a reply of Redis, as the client library decodes it.\<close>

datatype redis_value = RInt int | RText gostr | ROther gostr

definition digit_rune :: "rune \<Rightarrow> bool" where
  "digit_rune r \<longleftrightarrow> 48 \<le> r \<and> r \<le> 57"

definition decimal_value :: "gostr \<Rightarrow> int" where
  "decimal_value ds = foldl (\<lambda>a r. a * 10 + (int r - 48)) 0 ds"

text \<open>\<open>strconv.ParseInt(s, 10, 64)\<close>; its errors carry only their kind.\<close>

definition ParseInt :: "gostr \<Rightarrow> gerr + int" where
  "ParseInt s =
     (let (negative, ds) = (case s of [] \<Rightarrow> (False, [])
            | r # rest \<Rightarrow> if r = 45 then (True, rest) else if r = 43 then (False, rest) else (False, s));
          n = (if negative then - decimal_value ds else decimal_value ds)
      in if ds = [] \<or> \<not> list_all digit_rune ds \<or> n < - (2 ^ 63) \<or> n \<ge> 2 ^ 63 then
           Inl (Plain (lit ''strconv.ParseInt''))
         else Inr n)"

definition integer :: "redis_value \<Rightarrow> gerr + int" where
  "integer v =
     (case v of
        RInt n \<Rightarrow> Inr n
      | RText s \<Rightarrow> (case ParseInt s of
            Inl err \<Rightarrow> Inl (Wrapped (lit ''parse redis rate limiter result'') err) | Inr n \<Rightarrow> Inr n)
      | ROther ty \<Rightarrow> Inl (Plain (lit ''unexpected redis rate limiter result type '' @ ty)))"

definition rate_key :: "gostr \<Rightarrow> gostr \<Rightarrow> gostr" where
  "rate_key scope userID = lit ''enterprise-rag:rate:'' @ scope @ lit '':'' @ userID"

definition decode_decision :: "redis_value list \<Rightarrow> gerr + decision" where
  "decode_decision reply =
     (case reply of
        [a, r] \<Rightarrow>
          (case integer a of
             Inl err \<Rightarrow> Inl err
           | Inr allowed \<Rightarrow>
               (case integer r of
                  Inl err \<Rightarrow> Inl err
                | Inr retry \<Rightarrow> Inr \<lparr>dc_allowed = (allowed = 1), dc_retry_after = max retry 1\<rparr>))
      | _ \<Rightarrow> Inl (Plain (lit ''invalid redis rate limiter result'')))"

text \<open>
  Redis runs the script, or the call fails without or after it. Other clients may run scripts of
  their own before that.
\<close>

record 'e limiter_services =
  ls_redis :: "'e \<Rightarrow> redis \<Rightarrow> pg_fault \<times> 'e \<times> redis"
  ls_now :: "'e \<Rightarrow> int"
  ls_uuid :: "'e \<Rightarrow> uid \<times> 'e"
  ls_conf :: rate_limit_conf

record 'e limiter_world =
  lw_redis :: redis
  lw_ext :: 'e

definition run_script ::
    "'e limiter_services \<Rightarrow> gostr \<Rightarrow> int \<Rightarrow> int \<Rightarrow> uid \<Rightarrow> ('e limiter_world, redis_value list) prog" where
  "run_script ls key window quota member w =
     (case ls_redis ls (lw_ext w) (lw_redis w) of
        (f, e, rs) \<Rightarrow>
          (let ((a, r), rs') = slidingWindowScript (ls_now ls e) key window quota member rs
           in case f of
                Executed \<Rightarrow> (Inr [RInt a, RInt r], w\<lparr>lw_redis := rs', lw_ext := e\<rparr>)
              | Refused err \<Rightarrow> (Inl err, w\<lparr>lw_redis := rs, lw_ext := e\<rparr>)
              | ReplyLost err \<Rightarrow> (Inl err, w\<lparr>lw_redis := rs', lw_ext := e\<rparr>)))"

definition limiter_uuid :: "'e limiter_services \<Rightarrow> ('e limiter_world, uid) prog" where
  "limiter_uuid ls w = (Inr (fst (ls_uuid ls (lw_ext w))), w\<lparr>lw_ext := snd (ls_uuid ls (lw_ext w))\<rparr>)"

definition Allow :: "'e limiter_services \<Rightarrow> gostr \<Rightarrow> gostr \<Rightarrow> ('e limiter_world, decision) prog" where
  "Allow ls userID path =
     (case policy (ls_conf ls) path of
        None \<Rightarrow> return \<lparr>dc_allowed = True, dc_retry_after = 0\<rparr>
      | Some (scope, quota) \<Rightarrow>
          attempt (limiter_uuid ls) (\<lambda>member.
          attempt (wrap_error (lit ''run redis rate limiter'')
              (run_script ls (rate_key scope userID) (rl_period (ls_conf ls) * 1000) quota member)) (\<lambda>reply w.
            (decode_decision reply, w))))"

section \<open>The middleware\<close>

datatype gate = Unauthorized401 | Unavailable503 | TooMany429 int | PassedTo user_session

definition rate_Handle ::
    "'e limiter_services \<Rightarrow> user_session option \<Rightarrow> gostr \<Rightarrow> 'e limiter_world \<Rightarrow> gate \<times> 'e limiter_world" where
  "rate_Handle ls ctx path w =
     (case CurrentUser ctx of
        Inl _ \<Rightarrow> (Unauthorized401, w)
      | Inr user \<Rightarrow>
          (case Allow ls (lit (us_tenant user) @ lit '':'' @ lit (us_id user)) path w of
             (Inl _, w') \<Rightarrow> (Unavailable503, w')
           | (Inr d, w') \<Rightarrow>
               (if \<not> dc_allowed d then (TooMany429 (dc_retry_after d), w') else (PassedTo user, w'))))"

text \<open>The chain of the routes that are limited: the token, then the quota, then the handler.\<close>

definition limited_route ::
    "'a account_services \<Rightarrow> 'e limiter_services \<Rightarrow> gostr \<Rightarrow> int \<Rightarrow> gostr \<Rightarrow> 'e limiter_world \<Rightarrow> gate \<times> 'e limiter_world" where
  "limited_route sv ls header now path w =
     (case auth_Handle sv header now of
        None \<Rightarrow> (Unauthorized401, w)
      | Some user \<Rightarrow> rate_Handle ls (Some user) path w)"

end
