(* ===== verification/RateProperties.thy ===== *)
theory RateProperties
  imports RateLimit
begin

text \<open>
  The limiter over any sequence of requests of any users: it grants exactly the requests that a
  count of the requests granted in the window before would grant.
\<close>

section \<open>Sequences of requests\<close>

record limiter_call =
  lc_user :: gostr
  lc_path :: gostr
  lc_now :: int
  lc_member :: uid

abbreviation window_of :: "rate_limit_conf \<Rightarrow> int" where
  "window_of conf \<equiv> rl_period conf * 1000"

text \<open>The answer of the script to a request, the limiter's two numbers, and Redis afterwards.\<close>

definition call_script :: "rate_limit_conf \<Rightarrow> limiter_call \<Rightarrow> redis \<Rightarrow> (int \<times> int) \<times> redis" where
  "call_script conf c rs =
     (case policy conf (lc_path c) of
        None \<Rightarrow> ((1, 0), rs)
      | Some (scope, quota) \<Rightarrow>
          slidingWindowScript (lc_now c) (rate_key scope (lc_user c)) (window_of conf) quota (lc_member c) rs)"

definition serve_call ::
    "rate_limit_conf \<Rightarrow> limiter_call list \<times> redis \<Rightarrow> limiter_call \<Rightarrow> limiter_call list \<times> redis" where
  "serve_call conf st c =
     (let ((a, r), rs) = call_script conf c (snd st)
      in (if a = 1 then fst st @ [c] else fst st, rs))"

text \<open>The requests granted, and Redis in the end.\<close>

definition serve :: "rate_limit_conf \<Rightarrow> limiter_call list \<Rightarrow> limiter_call list \<times> redis" where
  "serve conf calls = foldl (serve_call conf) ([], no_keys) calls"

section \<open>The reference\<close>

text \<open>Two requests that share a quota.\<close>

definition same_quota :: "rate_limit_conf \<Rightarrow> limiter_call \<Rightarrow> limiter_call \<Rightarrow> bool" where
  "same_quota conf c x \<longleftrightarrow> lc_user x = lc_user c \<and> policy conf (lc_path x) = policy conf (lc_path c)"

definition granted_since :: "rate_limit_conf \<Rightarrow> limiter_call \<Rightarrow> int \<Rightarrow> limiter_call list \<Rightarrow> limiter_call list" where
  "granted_since conf c t g = filter (\<lambda>x. same_quota conf c x \<and> t < lc_now x) g"

definition within_quota :: "rate_limit_conf \<Rightarrow> limiter_call \<Rightarrow> limiter_call list \<Rightarrow> bool" where
  "within_quota conf c g =
     (case policy conf (lc_path c) of
        None \<Rightarrow> True
      | Some (scope, quota) \<Rightarrow> int (length (granted_since conf c (lc_now c - window_of conf) g)) < quota)"

definition grants :: "rate_limit_conf \<Rightarrow> limiter_call list \<Rightarrow> limiter_call list" where
  "grants conf calls = foldl (\<lambda>g c. if within_quota conf c g then g @ [c] else g) [] calls"

section \<open>Keys\<close>

lemma policy_cases:
  assumes "policy conf path = Some (scope, quota)"
  shows "scope = lit ''chat'' \<and> quota = rl_chat_quota conf \<or>
    scope = lit ''retrieval'' \<and> quota = rl_retrieval_quota conf \<or>
    scope = lit ''upload'' \<and> quota = rl_upload_quota conf"
  using assms by (auto simp: policy_def split: if_splits)

lemma rate_key_scope:
  assumes "policy conf p = Some (scope, quota)" and "policy conf p' = Some (scope', quota')"
  shows "rate_key scope u = rate_key scope' u' \<longleftrightarrow> u = u' \<and> scope = scope' \<and> quota = quota'"
  using policy_cases [OF assms(1)] policy_cases [OF assms(2)]
  by (auto simp: rate_key_def lit_def)

section \<open>The state of a key\<close>

text \<open>Key \<open>k\<close> holds, at and after \<open>T\<close>, the requests \<open>g\<close> granted within the window.\<close>

definition key_ok :: "int \<Rightarrow> int \<Rightarrow> limiter_call list \<Rightarrow> sorted_set \<Rightarrow> bool" where
  "key_ok W T g z \<longleftrightarrow>
     (\<forall>m s. (m, s) \<in> set (zs_entries z) \<longrightarrow> 0 \<le> s \<and> m \<in> lc_member ` set g) \<and>
     (\<forall>t \<ge> T. filter (\<lambda>(m, s). t - W < s) (entries_at t z) =
        map (\<lambda>c. (lc_member c, lc_now c)) (filter (\<lambda>c. t - W < lc_now c) g))"

lemma set_entries_at: "set (entries_at t z) \<subseteq> set (zs_entries z)"
  by (auto simp: entries_at_def split: option.splits if_splits)

lemma key_ok_later: "key_ok W T g z \<Longrightarrow> T \<le> T' \<Longrightarrow> key_ok W T' g z"
  by (simp add: key_ok_def)

lemma key_ok_pruned:
  assumes "key_ok W T g z" and "T \<le> now"
  shows "rem_range (now - W) (entries_at now z) =
    map (\<lambda>c. (lc_member c, lc_now c)) (filter (\<lambda>c. now - W < lc_now c) g)"
proof -
  have "rem_range (now - W) (entries_at now z) = filter (\<lambda>(m, s). now - W < s) (entries_at now z)"
    unfolding rem_range_def
    by (rule filter_cong) (use assms(1) set_entries_at [of now z] in \<open>auto simp: key_ok_def\<close>)
  with assms show ?thesis by (simp add: key_ok_def)
qed

lemma key_ok_stored:
  assumes "0 < W" and "\<forall>c \<in> set g. 0 \<le> lc_now c \<and> lc_now c \<le> now"
    and "es = map (\<lambda>c. (lc_member c, lc_now c)) (filter (\<lambda>c. now - W < lc_now c) g)"
  shows "key_ok W now g (store_entries (now + W) es)"
  unfolding key_ok_def
proof (intro conjI allI impI)
  fix m s
  assume "(m, s) \<in> set (zs_entries (store_entries (now + W) es))"
  then show "0 \<le> s" "m \<in> lc_member ` set g" using assms(2,3) by (auto simp: store_entries_def)
next
  fix t
  assume t: "now \<le> t"
  let ?f = "\<lambda>c. (lc_member c, lc_now c)"
  show "filter (\<lambda>(m, s). t - W < s) (entries_at t (store_entries (now + W) es)) =
      map ?f (filter (\<lambda>c. t - W < lc_now c) g)"
  proof (cases "now + W \<le> t")
    case True
    then have "filter (\<lambda>c. t - W < lc_now c) g = []" using assms(2) by (auto simp: filter_empty_conv)
    with True show ?thesis by (auto simp: entries_at_def store_entries_def split: if_splits)
  next
    case False
    then have "entries_at t (store_entries (now + W) es) = es"
      by (simp add: entries_at_def store_entries_def)
    moreover have "filter (\<lambda>(m, s). t - W < s) es = map ?f (filter (\<lambda>c. t - W < lc_now c \<and> now - W < lc_now c) g)"
      by (simp add: assms(3) filter_map comp_def conj_commute)
    moreover have "filter (\<lambda>c. t - W < lc_now c \<and> now - W < lc_now c) g = filter (\<lambda>c. t - W < lc_now c) g"
      using t by (auto intro!: filter_cong)
    ultimately show ?thesis by simp
  qed
qed

section \<open>The limiter implements the reference\<close>

definition calls_ok :: "limiter_call list \<Rightarrow> bool" where
  "calls_ok calls \<longleftrightarrow> sorted (map lc_now calls) \<and> distinct (map lc_member calls) \<and> (\<forall>c \<in> set calls. 0 \<le> lc_now c)"

definition on_key :: "rate_limit_conf \<Rightarrow> gostr \<Rightarrow> limiter_call \<Rightarrow> bool" where
  "on_key conf k c \<longleftrightarrow> (\<exists>scope quota. policy conf (lc_path c) = Some (scope, quota) \<and> k = rate_key scope (lc_user c))"

definition limiter_ok :: "rate_limit_conf \<Rightarrow> int \<Rightarrow> limiter_call list \<Rightarrow> redis \<Rightarrow> bool" where
  "limiter_ok conf T g rs \<longleftrightarrow> (\<forall>k. key_ok (window_of conf) T (filter (on_key conf k) g) (rs k))"

lemma on_key_same:
  assumes "policy conf (lc_path c) = Some (scope, quota)"
  shows "on_key conf (rate_key scope (lc_user c)) x = same_quota conf c x"
proof (cases "policy conf (lc_path x)")
  case None
  with assms show ?thesis by (simp add: on_key_def same_quota_def)
next
  case (Some p)
  obtain scope' quota' where p: "p = (scope', quota')" by (cases p)
  from rate_key_scope [OF assms Some [unfolded p]] show ?thesis
    using assms Some p by (auto simp: on_key_def same_quota_def)
qed

lemma serve_call_ok:
  assumes "0 < rl_period conf" and "limiter_ok conf T g rs" and "T \<le> lc_now c" and "0 \<le> lc_now c"
    and "lc_member c \<notin> lc_member ` set g" and "\<forall>x \<in> set g. 0 \<le> lc_now x \<and> lc_now x \<le> T"
  shows "\<exists>rs'. serve_call conf (g, rs) c = ((if within_quota conf c g then g @ [c] else g), rs') \<and>
    limiter_ok conf (lc_now c) (if within_quota conf c g then g @ [c] else g) rs'"
proof (cases "policy conf (lc_path c)")
  case None
  then have "\<not> on_key conf k c" for k by (simp add: on_key_def)
  then have "limiter_ok conf (lc_now c) (g @ [c]) rs"
    using assms(2,3) unfolding limiter_ok_def by (auto intro: key_ok_later)
  with None show ?thesis by (simp add: serve_call_def call_script_def within_quota_def)
next
  case (Some p)
  obtain scope quota where p: "policy conf (lc_path c) = Some (scope, quota)" using Some by (cases p) simp
  let ?W = "window_of conf" and ?k = "rate_key scope (lc_user c)" and ?now = "lc_now c"
  let ?g = "filter (on_key conf ?k) g"
  let ?f = "\<lambda>c. (lc_member c, lc_now c)"
  let ?es = "rem_range (?now - ?W) (entries_at ?now (rs ?k))"
  have W: "0 < ?W" using assms(1) by simp
  have key: "key_ok ?W T ?g (rs ?k)" using assms(2) by (simp add: limiter_ok_def)
  have es: "?es = map ?f (filter (\<lambda>c. ?now - ?W < lc_now c) ?g)" by (rule key_ok_pruned [OF key assms(3)])
  have count: "within_quota conf c g \<longleftrightarrow> \<not> int (length ?es) \<ge> quota"
    unfolding es within_quota_def p
    by (simp add: granted_since_def on_key_same [OF p] conj_commute not_le)
  have old: "\<forall>x \<in> set ?g. 0 \<le> lc_now x \<and> lc_now x \<le> ?now" using assms(3,6) by auto
  have others: "key_ok ?W ?now (filter (on_key conf k) (g @ [c])) (rs k)" if "k \<noteq> ?k" for k
  proof -
    have "\<not> on_key conf k c" using that p by (auto simp: on_key_def)
    moreover have "key_ok ?W ?now (filter (on_key conf k) g) (rs k)"
      by (rule key_ok_later [OF _ assms(3)]) (use assms(2) in \<open>simp add: limiter_ok_def\<close>)
    ultimately show ?thesis by simp
  qed
  have others': "key_ok ?W ?now (filter (on_key conf k) g) (rs k)" for k
    by (rule key_ok_later [OF _ assms(3)]) (use assms(2) in \<open>simp add: limiter_ok_def\<close>)
  show ?thesis
  proof (cases "within_quota conf c g")
    case True
    have fresh: "zadd ?now (lc_member c) ?es = ?es @ [(lc_member c, ?now)]"
      using assms(5) by (auto simp: zadd_def es intro!: filter_True)
    have "filter (on_key conf ?k) (g @ [c]) = ?g @ [c]" using on_key_same [OF p, of c] by (simp add: same_quota_def)
    moreover have "key_ok ?W ?now (?g @ [c]) (store_entries (?now + ?W) (?es @ [(lc_member c, ?now)]))"
      by (rule key_ok_stored [OF W]) (use old assms(4) W es in auto)
    ultimately have "limiter_ok conf ?now (g @ [c]) (rs(?k := store_entries (?now + ?W) (?es @ [(lc_member c, ?now)])))"
      using others by (simp add: limiter_ok_def)
    with True count fresh show ?thesis
      by (simp add: serve_call_def call_script_def p slidingWindowScript_def Let_def)
  next
    case False
    have "key_ok ?W ?now ?g (store_entries (?now + ?W) ?es)"
      by (rule key_ok_stored [OF W old es])
    then have "limiter_ok conf ?now g (rs(?k := store_entries (?now + ?W) ?es))"
      using others' by (simp add: limiter_ok_def)
    with False count show ?thesis
      by (simp add: serve_call_def call_script_def p slidingWindowScript_def Let_def)
  qed
qed

lemma grants_snoc:
  "grants conf (cs @ [c]) = (if within_quota conf c (grants conf cs) then grants conf cs @ [c] else grants conf cs)"
  by (simp add: grants_def)

lemma serve_snoc: "serve conf (cs @ [c]) = serve_call conf (serve conf cs) c"
  by (simp add: serve_def)

lemma set_grants: "set (grants conf cs) \<subseteq> set cs"
  by (induction cs rule: rev_induct) (auto simp: grants_snoc, simp add: grants_def)

text \<open>The time of the last request.\<close>

definition last_time :: "limiter_call list \<Rightarrow> int" where
  "last_time cs = (if cs = [] then 0 else lc_now (last cs))"

lemma calls_ok_snoc:
  assumes "calls_ok (cs @ [c])"
  shows "calls_ok cs" and "last_time cs \<le> lc_now c" and "0 \<le> lc_now c"
    and "lc_member c \<notin> lc_member ` set cs"
    and "\<forall>x \<in> set cs. 0 \<le> lc_now x \<and> lc_now x \<le> last_time cs"
proof -
  show "calls_ok cs" and "0 \<le> lc_now c" and "lc_member c \<notin> lc_member ` set cs"
    using assms by (auto simp: calls_ok_def sorted_append)
  show "last_time cs \<le> lc_now c"
    using assms by (auto simp: calls_ok_def sorted_append last_time_def)
  have "sorted (map lc_now cs)" using assms by (simp add: calls_ok_def sorted_append)
  then have "lc_now x \<le> lc_now (last cs)" if "x \<in> set cs" for x
    using that by (induction cs) auto
  then show "\<forall>x \<in> set cs. 0 \<le> lc_now x \<and> lc_now x \<le> last_time cs"
    using assms by (auto simp: calls_ok_def last_time_def)
qed

lemma limiter_ok_start: "limiter_ok conf T [] no_keys"
  by (simp add: limiter_ok_def key_ok_def no_keys_def entries_at_def)

lemma serve_grants:
  assumes "0 < rl_period conf" and "calls_ok cs"
  shows "\<exists>rs. serve conf cs = (grants conf cs, rs) \<and> limiter_ok conf (last_time cs) (grants conf cs) rs"
  using assms(2)
proof (induction cs rule: rev_induct)
  case Nil
  then show ?case by (simp add: serve_def grants_def limiter_ok_start)
next
  case (snoc c cs)
  note ok = calls_ok_snoc [OF snoc.prems]
  from snoc.IH [OF ok(1)] obtain rs where rs: "serve conf cs = (grants conf cs, rs)"
    "limiter_ok conf (last_time cs) (grants conf cs) rs" by blast
  have "lc_member c \<notin> lc_member ` set (grants conf cs)" and
    "\<forall>x \<in> set (grants conf cs). 0 \<le> lc_now x \<and> lc_now x \<le> last_time cs"
    using ok(4,5) set_grants [of conf cs] by auto
  from serve_call_ok [OF assms(1) rs(2) ok(2,3) this] show ?case
    by (simp add: serve_snoc grants_snoc rs(1) last_time_def)
qed

section \<open>Properties\<close>

lemma granted_bounded:
  assumes "0 < rl_period conf" and "calls_ok cs" and "policy conf (lc_path c) = Some (scope, quota)" and "0 \<le> quota"
  shows "int (length (filter (\<lambda>x. same_quota conf c x \<and> t - window_of conf < lc_now x \<and> lc_now x \<le> t) (grants conf cs))) \<le> quota"
  using assms(2)
proof (induction cs arbitrary: t rule: rev_induct)
  case Nil
  with assms(4) show ?case by (simp add: grants_def)
next
  case (snoc d cs)
  note ok = calls_ok_snoc [OF snoc.prems]
  let ?W = "window_of conf"
  let ?in = "\<lambda>t x. same_quota conf c x \<and> t - ?W < lc_now x \<and> lc_now x \<le> t"
  note IH = snoc.IH [OF ok(1)]
  show ?case
  proof (cases "within_quota conf d (grants conf cs) \<and> ?in t d")
    case False
    with IH [of t] show ?thesis by (auto simp: grants_snoc)
  next
    case True
    then have d: "same_quota conf c d" "lc_now d \<le> t" by simp_all
    then have same: "same_quota conf d = same_quota conf c" and pol: "policy conf (lc_path d) = Some (scope, quota)"
      using assms(3) by (auto simp: same_quota_def fun_eq_iff)
    have "length (filter (?in t) (grants conf cs)) \<le> length (granted_since conf d (lc_now d - ?W) (grants conf cs))"
      unfolding granted_since_def same length_filter_conv_card
      by (rule card_mono) (use d in auto)
    moreover have "int (length (granted_since conf d (lc_now d - ?W) (grants conf cs))) < quota"
      using True pol by (simp add: within_quota_def)
    ultimately show ?thesis using True by (simp add: grants_snoc)
  qed
qed

text \<open>C28
  The limiter counts exactly: over any sequence of requests of any users and paths, with the times
  in order and fresh members, the script on Redis, with its expiring keys, grants a request if and
  only if it needs no quota or fewer requests of the same user and scope were granted in the window
  before it than the quota allows; so no window of that length ever holds more than the quota.
\<close>

theorem rate_limit_is_a_sliding_window:
  assumes "0 < rl_period conf" and "calls_ok calls"
    and "policy conf (lc_path c) = Some (scope, quota)" and "0 \<le> quota"
  shows "fst (serve conf calls) = grants conf calls \<and>
    int (length (filter (\<lambda>x. same_quota conf c x \<and> t - rl_period conf * 1000 < lc_now x \<and> lc_now x \<le> t)
      (fst (serve conf calls)))) \<le> quota"
  using serve_grants [OF assms(1,2)] granted_bounded [OF assms] by auto

definition rate_conf1 :: rate_limit_conf where
  "rate_conf1 = \<lparr>rl_period = 60, rl_chat_quota = 1, rl_retrieval_quota = 1, rl_upload_quota = 1\<rparr>"

definition chat_call :: "int \<Rightarrow> uid \<Rightarrow> limiter_call" where
  "chat_call now member = \<lparr>lc_user = lit ''t1:u1'', lc_path = lit ''/api/chat/ask'', lc_now = now, lc_member = member\<rparr>"

lemma rate_limit_is_a_sliding_window_witness:
  "fst (serve rate_conf1 [chat_call 10 ''a'', chat_call 20 ''b'']) = grants rate_conf1 [chat_call 10 ''a'', chat_call 20 ''b''] \<and>
   grants rate_conf1 [chat_call 10 ''a'', chat_call 20 ''b''] = [chat_call 10 ''a'']"
proof -
  have ok: "calls_ok [chat_call 10 ''a'', chat_call 20 ''b'']" by (simp add: calls_ok_def chat_call_def)
  have pol: "policy rate_conf1 (lc_path (chat_call 10 ''a'')) = Some (lit ''chat'', 1)" by code_simp
  have pos: "0 < rl_period rate_conf1" "(0::int) \<le> 1" by (simp_all add: rate_conf1_def)
  have "grants rate_conf1 [chat_call 10 ''a'', chat_call 20 ''b''] = [chat_call 10 ''a'']" by code_simp
  with rate_limit_is_a_sliding_window [OF pos(1) ok pol pos(2)] show ?thesis by blast
qed

lemma oldest_least:
  assumes "oldest es = Some s"
  shows "s \<in> snd ` set es" and "\<And>e. e \<in> set es \<Longrightarrow> s \<le> snd e"
proof -
  have low: "foldl min a xs \<in> insert a (set xs) \<and> (\<forall>x \<in> insert a (set xs). foldl min a xs \<le> x)" for a :: int and xs
  proof (induction xs arbitrary: a)
    case (Cons x xs)
    from Cons.IH [of "min a x"] show ?case by (auto simp: min_def split: if_splits)
  qed simp
  from assms obtain a xs where xs: "map snd es = a # xs" "s = foldl min a xs"
    by (auto simp: oldest_def split: list.splits)
  then have "s \<in> set (map snd es) \<and> (\<forall>x \<in> set (map snd es). s \<le> x)" using low [of a xs] by simp
  then show "s \<in> snd ` set es" and "\<And>e. e \<in> set es \<Longrightarrow> s \<le> snd e" by auto
qed

lemma ceil_seconds_bounds: "x \<le> ceil_seconds x * 1000" "x \<le> p * 1000 \<Longrightarrow> ceil_seconds x \<le> p"
  unfolding ceil_seconds_def by linarith+

lemma denied_retry:
  assumes "0 < rl_period conf" and "calls_ok (calls @ [c])" and "policy conf (lc_path c) = Some (scope, quota)"
    and "1 \<le> quota" and "call_script conf c (snd (serve conf calls)) = ((0, retry), rs)"
  obtains x where "x \<in> set (granted_since conf c (lc_now c - window_of conf) (grants conf calls))"
    and "lc_now x + window_of conf \<le> lc_now c + retry * 1000" and "1 \<le> retry" and "retry \<le> rl_period conf"
proof -
  note ok = calls_ok_snoc [OF assms(2)]
  let ?W = "window_of conf" and ?k = "rate_key scope (lc_user c)" and ?now = "lc_now c"
  let ?g = "filter (on_key conf ?k) (grants conf calls)"
  let ?f = "\<lambda>c. (lc_member c, lc_now c)"
  obtain rs0 where rs0: "serve conf calls = (grants conf calls, rs0)"
    and lim: "limiter_ok conf (last_time calls) (grants conf calls) rs0"
    using serve_grants [OF assms(1) ok(1)] by blast
  let ?es = "rem_range (?now - ?W) (entries_at ?now (rs0 ?k))"
  have key: "key_ok ?W (last_time calls) ?g (rs0 ?k)" using lim by (simp add: limiter_ok_def)
  have es: "?es = map ?f (granted_since conf c (?now - ?W) (grants conf calls))"
    using key_ok_pruned [OF key ok(2)] by (simp add: granted_since_def on_key_same [OF assms(3)] conj_commute)
  have den: "int (length ?es) \<ge> quota" and retry: "retry = retry_seconds ?now ?W ?es"
    using assms(5) by (auto simp: call_script_def assms(3) rs0 slidingWindowScript_def Let_def split: if_splits)
  then have "?es \<noteq> []" using assms(4) by auto
  then obtain s where s: "oldest ?es = Some s" by (cases "map snd ?es") (auto simp: oldest_def)
  from oldest_least(1) [OF s] obtain x where x: "x \<in> set (granted_since conf c (?now - ?W) (grants conf calls))" "s = lc_now x"
    unfolding es by auto
  then have "s \<le> ?now" using ok(2,5) set_grants [of conf calls] by (force simp: granted_since_def)
  then have "retry \<le> rl_period conf" and "1 \<le> retry" and "s + ?W - ?now \<le> retry * 1000"
    using assms(1) ceil_seconds_bounds [of "s + ?W - ?now"] by (auto simp: retry retry_seconds_def s max_def)
  with x show thesis by (intro that) auto
qed

text \<open>
  The advice of a refusal is right: it names between one second and the period, and a request of the
  same user and scope that comes at least that many seconds later, with no other request in between,
  is granted.
\<close>

theorem retry_after_is_enough:
  assumes "0 < rl_period conf" and "calls_ok (calls @ [c, c'])" and "policy conf (lc_path c) = Some (scope, quota)"
    and "1 \<le> quota" and "call_script conf c (snd (serve conf calls)) = ((0, retry), rs)"
    and "same_quota conf c c'" and "lc_now c + retry * 1000 \<le> lc_now c'"
  shows "1 \<le> retry \<and> retry \<le> rl_period conf \<and> c' \<in> set (fst (serve conf (calls @ [c, c'])))"
proof -
  have ok2: "calls_ok ((calls @ [c]) @ [c'])" using assms(2) by simp
  note ok1 = calls_ok_snoc(1) [OF ok2]
  note ok = calls_ok_snoc [OF ok1]
  let ?W = "window_of conf" and ?g = "grants conf calls"
  obtain x where x: "x \<in> set (granted_since conf c (lc_now c - ?W) ?g)" "lc_now x + ?W \<le> lc_now c + retry * 1000"
    "1 \<le> retry" "retry \<le> rl_period conf"
    by (rule denied_retry [OF assms(1) ok1 assms(3-5)])
  obtain rs0 where rs0: "serve conf calls = (?g, rs0)" using serve_grants [OF assms(1) ok(1)] by blast
  have "fst (serve conf (calls @ [c])) = ?g"
    using assms(5) by (simp add: serve_snoc serve_call_def rs0)
  moreover have "fst (serve conf (calls @ [c])) = grants conf (calls @ [c])"
    using serve_grants [OF assms(1) ok1] by auto
  ultimately have g: "grants conf (calls @ [c]) = ?g" by simp
  have same: "same_quota conf c' = same_quota conf c" and pol: "policy conf (lc_path c') = Some (scope, quota)"
    using assms(3,6) by (auto simp: same_quota_def fun_eq_iff)
  have sub: "{i. i < length ?g \<and> same_quota conf c (?g ! i) \<and> lc_now c' - ?W < lc_now (?g ! i)} \<subset>
      {i. i < length ?g \<and> same_quota conf c (?g ! i) \<and> lc_now c - ?W < lc_now (?g ! i)}"
  proof (rule psubsetI)
    from x(1) obtain i where "i < length ?g" "?g ! i = x" "same_quota conf c x" "lc_now c - ?W < lc_now x"
      by (auto simp: granted_since_def in_set_conv_nth)
    moreover from this x(2) assms(7) have "\<not> lc_now c' - ?W < lc_now (?g ! i)" by simp
    ultimately show "{i. i < length ?g \<and> same_quota conf c (?g ! i) \<and> lc_now c' - ?W < lc_now (?g ! i)} \<noteq>
      {i. i < length ?g \<and> same_quota conf c (?g ! i) \<and> lc_now c - ?W < lc_now (?g ! i)}" by blast
    have "lc_now c \<le> lc_now c'" using calls_ok_snoc(5) [OF ok2] calls_ok_snoc(2) [OF ok2] by force
    then show "{i. i < length ?g \<and> same_quota conf c (?g ! i) \<and> lc_now c' - ?W < lc_now (?g ! i)} \<subseteq>
      {i. i < length ?g \<and> same_quota conf c (?g ! i) \<and> lc_now c - ?W < lc_now (?g ! i)}" by auto
  qed
  have "length (granted_since conf c (lc_now c' - ?W) ?g) < length (granted_since conf c (lc_now c - ?W) ?g)"
    unfolding granted_since_def length_filter_conv_card by (rule psubset_card_mono [OF _ sub]) simp
  moreover have "filter (\<lambda>x. same_quota conf c x \<and> lc_now c - ?W < lc_now x \<and> lc_now x \<le> lc_now c) ?g =
      granted_since conf c (lc_now c - ?W) ?g"
    unfolding granted_since_def using ok(2,5) set_grants [of conf calls] by (force intro!: filter_cong)
  then have "int (length (granted_since conf c (lc_now c - ?W) ?g)) \<le> quota"
    using granted_bounded [OF assms(1) ok(1) assms(3), of "lc_now c"] assms(4) by simp
  ultimately have "within_quota conf c' ?g"
    unfolding within_quota_def pol by (simp add: granted_since_def same)
  then have "grants conf ((calls @ [c]) @ [c']) = ?g @ [c']"
    unfolding grants_snoc [of conf "calls @ [c]" c'] g by simp
  moreover have "fst (serve conf ((calls @ [c]) @ [c'])) = grants conf ((calls @ [c]) @ [c'])"
    using serve_grants [OF assms(1) ok2] by auto
  ultimately show ?thesis using x(3,4) by simp
qed

lemma retry_after_is_enough_witness:
  "chat_call 60020 ''c'' \<in> set (fst (serve rate_conf1 ([chat_call 10 ''a''] @ [chat_call 20 ''b'', chat_call 60020 ''c''])))"
proof -
  have ok: "calls_ok ([chat_call 10 ''a''] @ [chat_call 20 ''b'', chat_call 60020 ''c''])"
    by (simp add: calls_ok_def chat_call_def)
  have pol: "policy rate_conf1 (lc_path (chat_call 20 ''b'')) = Some (lit ''chat'', 1)" by code_simp
  have pos: "0 < rl_period rate_conf1" "(1::int) \<le> 1" by (simp_all add: rate_conf1_def)
  let ?r = "call_script rate_conf1 (chat_call 20 ''b'') (snd (serve rate_conf1 [chat_call 10 ''a'']))"
  have "fst ?r = (0, 60)" by code_simp
  then have den: "?r = ((0, 60), snd ?r)" by (metis prod.collapse)
  have same: "same_quota rate_conf1 (chat_call 20 ''b'') (chat_call 60020 ''c'')"
    and later: "lc_now (chat_call 20 ''b'') + 60 * 1000 \<le> lc_now (chat_call 60020 ''c'')"
    by (simp_all add: same_quota_def chat_call_def)
  from retry_after_is_enough [OF pos(1) ok pol pos(2) den same later] show ?thesis by blast
qed

end
