(* ===== verification/Regexp.thy ===== *)
theory Regexp
  imports GoText
begin

text \<open>
  The part of Go's \<open>regexp\<close> that the program uses: expressions as a data type, all matches from a
  position in the order of preference (leftmost-first, greedy or lazy repetition), submatches, and
  replacement.
\<close>

section \<open>Expressions and their matches\<close>

datatype regexp =
    RNone
  | RRune "rune \<Rightarrow> bool"
  | RSeq regexp regexp
  | RAlt regexp regexp
  | RStar regexp
  | RStarLazy regexp
  | RGroup nat regexp
  | RBegin
  | REnd

text \<open>A position and the bounds of the groups closed so far, the newest first.\<close>

type_synonym spot = "nat \<times> (nat \<times> nat \<times> nat) list"

text \<open>An iteration that does not move ends a repetition, so \<open>n\<close> is the number of runes left.\<close>

fun repeat_greedy :: "(spot \<Rightarrow> spot list) \<Rightarrow> nat \<Rightarrow> spot \<Rightarrow> spot list" where
  "repeat_greedy f 0 x = [x]"
| "repeat_greedy f (Suc n) x =
     concat (map (\<lambda>y. if fst y > fst x then repeat_greedy f n y else []) (f x)) @ [x]"

fun repeat_lazy :: "(spot \<Rightarrow> spot list) \<Rightarrow> nat \<Rightarrow> spot \<Rightarrow> spot list" where
  "repeat_lazy f 0 x = [x]"
| "repeat_lazy f (Suc n) x =
     x # concat (map (\<lambda>y. if fst y > fst x then repeat_lazy f n y else []) (f x))"

primrec matches :: "gostr \<Rightarrow> regexp \<Rightarrow> spot \<Rightarrow> spot list" where
  "matches s RNone = (\<lambda>x. [x])"
| "matches s (RRune p) = (\<lambda>x. if fst x < length s \<and> p (s ! fst x) then [(Suc (fst x), snd x)] else [])"
| "matches s (RSeq a b) = (\<lambda>x. concat (map (matches s b) (matches s a x)))"
| "matches s (RAlt a b) = (\<lambda>x. matches s a x @ matches s b x)"
| "matches s (RStar a) = (\<lambda>x. repeat_greedy (matches s a) (length s - fst x) x)"
| "matches s (RStarLazy a) = (\<lambda>x. repeat_lazy (matches s a) (length s - fst x) x)"
| "matches s (RGroup n a) = (\<lambda>x. map (\<lambda>y. (fst y, (n, fst x, fst y) # snd y)) (matches s a x))"
| "matches s RBegin = (\<lambda>x. if fst x = 0 then [x] else [])"
| "matches s REnd = (\<lambda>x. if fst x = length s then [x] else [])"

text \<open>\<open>x?\<close>, \<open>x+\<close>, \<open>x+?\<close> and a literal.\<close>

definition ROpt :: "regexp \<Rightarrow> regexp" where
  "ROpt a = RAlt a RNone"

definition RPlus :: "regexp \<Rightarrow> regexp" where
  "RPlus a = RSeq a (RStar a)"

definition RPlusLazy :: "regexp \<Rightarrow> regexp" where
  "RPlusLazy a = RSeq a (RStarLazy a)"

definition RChar :: "rune \<Rightarrow> regexp" where
  "RChar c = RRune (\<lambda>r. r = c)"

definition RLit :: "gostr \<Rightarrow> regexp" where
  "RLit t = foldr (\<lambda>c. RSeq (RChar c)) t RNone"

fun RAny :: "regexp list \<Rightarrow> regexp" where
  "RAny [] = RRune (\<lambda>_. False)"
| "RAny [a] = a"
| "RAny (a # b # as) = RAlt a (RAny (b # as))"

text \<open>The classes: \<open>.\<close>, \<open>\d\<close>, \<open>\s\<close> and a set of runes.\<close>

definition RDot :: regexp where
  "RDot = RRune (\<lambda>r. r \<noteq> 10)"

definition RDigit :: regexp where
  "RDigit = RRune (\<lambda>r. 48 \<le> r \<and> r \<le> 57)"

definition RSpace :: regexp where
  "RSpace = RRune (\<lambda>r. r \<in> {9, 10, 12, 13, 32})"

definition ROneOf :: "rune list \<Rightarrow> regexp" where
  "ROneOf cs = RRune (\<lambda>r. r \<in> set cs)"

definition RNotOf :: "rune list \<Rightarrow> regexp" where
  "RNotOf cs = RRune (\<lambda>r. r \<notin> set cs)"

section \<open>Searching\<close>

text \<open>The first match from a position on: its start, its end and its groups.\<close>

definition match_from :: "gostr \<Rightarrow> regexp \<Rightarrow> nat \<Rightarrow> (nat \<times> spot) option" where
  "match_from s re start =
     (case concat (map (\<lambda>i. map (Pair i) (take 1 (matches s re (i, [])))) [start..<Suc (length s)]) of
        [] \<Rightarrow> None | m # _ \<Rightarrow> Some m)"

definition MatchString :: "regexp \<Rightarrow> gostr \<Rightarrow> bool" where
  "MatchString re s \<longleftrightarrow> match_from s re 0 \<noteq> None"

definition submatch :: "gostr \<Rightarrow> (nat \<times> nat \<times> nat) list \<Rightarrow> nat \<Rightarrow> gostr" where
  "submatch s caps n = (case map_of caps n of None \<Rightarrow> [] | Some (i, j) \<Rightarrow> take (j - i) (drop i s))"

text \<open>\<open>FindStringSubmatch\<close>: the whole match and the given number of groups.\<close>

definition FindStringSubmatch :: "regexp \<Rightarrow> nat \<Rightarrow> gostr \<Rightarrow> gostr list" where
  "FindStringSubmatch re groups s =
     (case match_from s re 0 of
        None \<Rightarrow> []
      | Some (i, j, caps) \<Rightarrow> take (j - i) (drop i s) # map (submatch s caps) [1..<Suc groups])"

text \<open>
  \<open>ReplaceAllString\<close>; the template is a function of the groups. \<open>n\<close> bounds the number of searches,
  each of which starts later than the one before.
\<close>

fun replace_from :: "nat \<Rightarrow> gostr \<Rightarrow> regexp \<Rightarrow> ((nat \<Rightarrow> gostr) \<Rightarrow> gostr) \<Rightarrow> nat \<Rightarrow> nat \<Rightarrow> gostr" where
  "replace_from 0 s re template last_end pos = drop last_end s"
| "replace_from (Suc n) s re template last_end pos =
     (if pos > length s then drop last_end s
      else case match_from s re pos of
        None \<Rightarrow> drop last_end s
      | Some (i, j, caps) \<Rightarrow>
          take (i - last_end) (drop last_end s) @
          (if j > last_end \<or> i = 0 then template (submatch s caps) else []) @
          replace_from n s re template j (if Suc pos > j then Suc pos else j))"

definition ReplaceAllString :: "regexp \<Rightarrow> ((nat \<Rightarrow> gostr) \<Rightarrow> gostr) \<Rightarrow> gostr \<Rightarrow> gostr" where
  "ReplaceAllString re template s = replace_from (Suc (Suc (length s))) s re template 0 0"

section \<open>Matches move forward within the text\<close>

lemma repeat_SucE:
  assumes "y \<in> set (repeat_greedy f (Suc k) x) \<or> y \<in> set (repeat_lazy f (Suc k) x)"
  shows "y = x \<or> (\<exists>z \<in> set (f x). fst x < fst z \<and> (y \<in> set (repeat_greedy f k z) \<or> y \<in> set (repeat_lazy f k z)))"
  using assms by (auto split: if_splits)

lemma repeat_within:
  assumes step: "\<And>x y. y \<in> set (f x) \<Longrightarrow> fst x \<le> n \<Longrightarrow> fst x \<le> fst y \<and> fst y \<le> n"
    and "y \<in> set (repeat_greedy f k x) \<or> y \<in> set (repeat_lazy f k x)" and "fst x \<le> n"
  shows "fst x \<le> fst y \<and> fst y \<le> n"
  using assms(2,3)
proof (induction k arbitrary: x)
  case (Suc k)
  from repeat_SucE [OF Suc.prems(1)] show ?case
  proof
    assume "\<exists>z \<in> set (f x). fst x < fst z \<and> (y \<in> set (repeat_greedy f k z) \<or> y \<in> set (repeat_lazy f k z))"
    then obtain z where z: "z \<in> set (f x)" "y \<in> set (repeat_greedy f k z) \<or> y \<in> set (repeat_lazy f k z)" by blast
    from Suc.IH [OF z(2)] step [OF z(1) Suc.prems(2)] show ?thesis by simp
  qed (use Suc.prems(2) in simp)
qed auto

lemma matches_within:
  "y \<in> set (matches s re x) \<Longrightarrow> fst x \<le> length s \<Longrightarrow> fst x \<le> fst y \<and> fst y \<le> length s"
proof (induction re arbitrary: x y)
  case (RSeq a b)
  from RSeq.prems obtain z where z: "z \<in> set (matches s a x)" "y \<in> set (matches s b z)" by auto
  from RSeq.IH(1) [OF z(1) RSeq.prems(2)] RSeq.IH(2) [OF z(2)] show ?case by simp
next
  case (RStar a)
  show ?case by (rule repeat_within [OF RStar.IH]) (use RStar.prems in auto)
next
  case (RStarLazy a)
  show ?case by (rule repeat_within [OF RStarLazy.IH]) (use RStarLazy.prems in auto)
next
  case (RGroup n a)
  then obtain z where "z \<in> set (matches s a x)" "fst y = fst z" by auto
  with RGroup.IH RGroup.prems(2) show ?case by simp
qed (auto split: if_splits)

lemma first_in: "(case xs of [] \<Rightarrow> None | m # _ \<Rightarrow> Some m) = Some x \<Longrightarrow> x \<in> set xs"
  by (cases xs) auto

lemma match_from_bounds:
  assumes "match_from s re start = Some (i, j, caps)" and "start \<le> length s"
  shows "start \<le> i \<and> i \<le> j \<and> j \<le> length s"
proof -
  let ?all = "concat (map (\<lambda>i. map (Pair i) (take 1 (matches s re (i, [])))) [start..<Suc (length s)])"
  have "(i, j, caps) \<in> set ?all"
    by (rule first_in) (use assms(1) in \<open>simp only: match_from_def\<close>)
  then obtain i' where i: "i' \<in> set [start..<Suc (length s)]" "(i, j, caps) \<in> Pair i' ` set (take 1 (matches s re (i', [])))"
    by (simp only: set_concat set_map UN_iff image_image) blast
  then have m: "(j, caps) \<in> set (matches s re (i, []))" and i: "start \<le> i" "i \<le> length s"
    using set_take_subset [of 1 "matches s re (i', [])"] by auto
  from matches_within [OF m] i show ?thesis by simp
qed

text \<open>A pattern that does not match leaves the text alone.\<close>

lemma ReplaceAllString_none: "match_from s re 0 = None \<Longrightarrow> ReplaceAllString re template s = s"
  by (simp add: ReplaceAllString_def)

end
