(* ===== verification/KnowledgeText.thy ===== *)
theory KnowledgeText
  imports Regexp ApiTypes
begin

text \<open>
  \<open>internal/service/knowledge/format.go\<close> and the text functions of \<open>overview.go\<close> and
  \<open>navigation.go\<close>. Chinese texts are written as their code points.
\<close>

section \<open>Trimming by a set of runes\<close>

definition TrimLeft :: "gostr \<Rightarrow> rune list \<Rightarrow> gostr" where
  "TrimLeft s cutset = dropWhile (\<lambda>r. r \<in> set cutset) s"

definition TrimRight :: "gostr \<Rightarrow> rune list \<Rightarrow> gostr" where
  "TrimRight s cutset = rev (dropWhile (\<lambda>r. r \<in> set cutset) (rev s))"

definition Trim :: "gostr \<Rightarrow> rune list \<Rightarrow> gostr" where
  "Trim s cutset = TrimRight (TrimLeft s cutset) cutset"

section \<open>Answer text\<close>

text \<open>The marks that may follow a number, and the two colons.\<close>

definition number_marks :: "rune list" where
  "number_marks = [46, 65294, 12289, 41, 65289]"

definition colons :: "rune list" where
  "colons = [65306, 58]"

text \<open>Headings without content: conclusion, remarks, notes, summary.\<close>

definition boilerplateHeadingPattern :: regexp where
  "boilerplateHeadingPattern =
     RSeq RBegin (RSeq (RGroup 1 (RAny [RLit [26680, 24515, 32467, 35770],
         RSeq (RLit [34917, 20805, 35828, 26126]) (ROpt (RLit [22914, 19979])), RLit [35828,
           26126, 22914, 19979],
         RLit [24635, 32467], RLit [32467, 35770]]))
       (RSeq (ROpt (ROneOf colons)) REnd))"

definition brokenNumberedLinePattern :: regexp where
  "brokenNumberedLinePattern =
     RSeq (RGroup 1 (RAlt RBegin (RChar 10)))
       (RSeq (RGroup 2 (RSeq (RPlus RDigit) (ROneOf number_marks)))
         (RSeq (RStar RSpace) (RSeq (RPlus (RChar 10)) (RGroup 3 (RPlus (RNotOf [10]))))))"

text \<open>A line that starts with a citation: an optional label and digits in brackets.\<close>

definition citationLinePattern :: regexp where
  "citationLinePattern =
     RSeq (RPlus (RChar 10)) (RSeq (RStar (ROneOf [32, 9]))
       (RGroup 1 (RSeq (RChar 91) (RSeq (ROpt (RAlt (RLit [24341, 29992]) (RLit [22806, 38142])))
         (RSeq (RPlus RDigit) (RSeq (RChar 93) (RStar (RNotOf [10]))))))))"

definition numberedLineOnly :: "unicode_tables \<Rightarrow> gostr \<Rightarrow> bool" where
  "numberedLineOnly u line =
     (let runes = TrimSpace line; rest = dropWhile (isDigit u) runes
      in rest \<noteq> runes \<and> rest \<noteq> [] \<and> hd rest \<in> set number_marks \<and> list_all isSpace (tl rest))"

fun normalize_lines :: "unicode_tables \<Rightarrow> gostr list \<Rightarrow> gostr list \<Rightarrow> gostr list" where
  "normalize_lines u normalized [] = normalized"
| "normalize_lines u normalized (raw # rest) =
     (let line = TrimSpace raw
      in normalize_lines u
        (if line = [] then (if normalized \<noteq> [] \<and> last normalized \<noteq> [] then normalized @ [[]] else normalized)
         else if normalized \<noteq> [] \<and> numberedLineOnly u (last normalized) then
           butlast normalized @ [last normalized @ [32] @ line]
         else if MatchString boilerplateHeadingPattern line then normalized
         else normalized @ [line]) rest)"

text \<open>\<open>for strings.Contains(text, "\n\n")\<close>: every round makes the text shorter.\<close>

lemma length_Join_shorter:
  "length new \<le> length old \<Longrightarrow> length (Join ss new) \<le> length (Join ss old)"
  by (induction ss new rule: Join.induct) auto

lemma length_ReplaceAll:
  assumes "old \<noteq> []" and "Contains s old" and "length new < length old"
  shows "length (ReplaceAll s old new) < length s"
proof -
  from assms(2) obtain i where i: "Index s old = Some i" by (auto simp: Contains_def)
  let ?rest = "Split (drop (i + length old) s) old"
  have split: "Split s old = take i s # ?rest"
    using assms(1) i by (subst Split.simps) simp
  then have join: "Join (Split s old) sep = take i s @ sep @ Join ?rest sep" for sep
    by (simp add: Join_Cons)
  have "length (Join ?rest new) \<le> length (Join ?rest old)"
    by (rule length_Join_shorter) (use assms(3) in simp)
  then have "length (Join (Split s old) new) < length (Join (Split s old) old)"
    unfolding join using assms(3) by simp
  then show ?thesis by (simp add: ReplaceAll_def Join_Split)
qed

function collapse_newlines :: "gostr \<Rightarrow> gostr" where
  "collapse_newlines s =
     (if Contains s [10, 10] then collapse_newlines (ReplaceAll s [10, 10] [10]) else s)"
  by pat_completeness auto
termination
  by (relation "measure length") (simp_all add: length_ReplaceAll)

declare collapse_newlines.simps [simp del]

definition normalizeAnswerText :: "unicode_tables \<Rightarrow> gostr \<Rightarrow> gostr" where
  "normalizeAnswerText u answer =
     (let lines = Split (ReplaceAll answer [13, 10] [10]) [10];
          s1 = Join (normalize_lines u [] lines) [10];
          s2 = ReplaceAllString brokenNumberedLinePattern (\<lambda>g. g 1 @ g 2 @ [32] @ g 3) s1;
          s3 = ReplaceAllString citationLinePattern (\<lambda>g. [32] @ g 1) s2;
          s4 = ReplaceAll (ReplaceAll s3 [65306, 10] [65306]) [58, 10] [58]
      in TrimSpace (collapse_newlines s4))"

lemma collapsed_no_blank_line: "\<not> Contains (collapse_newlines s) [10, 10]"
  by (induction s rule: collapse_newlines.induct) (subst collapse_newlines.simps, simp)

section \<open>Sections\<close>

text \<open>Sections that say nothing: the words text and page, tables of contents,
  test questions, numbers.\<close>

definition isWeakSection :: "unicode_tables \<Rightarrow> gostr \<Rightarrow> bool" where
  "isWeakSection u section0 =
     (let s = TrimSpace (ToLower u section0)
      in s = [] \<or> s = lit ''text'' \<or> s = lit ''page'' \<or> Contains s [30446, 24405] \<or>
         Contains s [27979, 35797, 38382, 39064] \<or>
         Trim s ([31532] @ lit ''0123456789.'' @ [65294] @ lit ''-_ /'' @ [92] @ [39029] @ lit ''page'') = [])"

text \<open>A Chinese ordinal in front, then digits, dots and blanks.\<close>

definition section_prefixes :: "gostr list" where
  "section_prefixes = [[31532], [19968, 12289], [20108, 12289], [19977, 12289], [22235, 12289],
    [20116, 12289], [20845, 12289], [19971, 12289], [20843, 12289], [20061, 12289], [21313, 12289]]"

function trim_numbering :: "unicode_tables \<Rightarrow> gostr \<Rightarrow> gostr" where
  "trim_numbering u s =
     (case s of [] \<Rightarrow> []
      | r # rest \<Rightarrow>
          if isDigit u r \<or> r \<in> {46, 65294, 12289, 32,
            9} then trim_numbering u (TrimSpace rest) else s)"
  by pat_completeness auto
termination
  by (relation "measure (\<lambda>(u, s). length s)") (auto simp: less_Suc_eq_le length_TrimSpace)

declare trim_numbering.simps [simp del]

definition trimSectionPrefix :: "unicode_tables \<Rightarrow> gostr \<Rightarrow> gostr" where
  "trimSectionPrefix u section0 =
     (let s = TrimSpace section0
      in trim_numbering u
        (case filter (\<lambda>p. HasPrefix s p \<and> length s > length p + 1) section_prefixes of
           [] \<Rightarrow> s | p # _ \<Rightarrow> TrimSpace (TrimPrefix s p)))"

definition isMeaninglessTheme :: "unicode_tables \<Rightarrow> gostr \<Rightarrow> bool" where
  "isMeaninglessTheme u s \<longleftrightarrow>
     s = [] \<or> length (filter (\<lambda>r. isDigit u r \<or> r = 46 \<or> r = 65294) s) \<ge> length s div 2"

definition clean_section :: "unicode_tables \<Rightarrow> gostr list \<Rightarrow> gostr \<Rightarrow> gostr list" where
  "clean_section u cleaned section0 =
     (let s = TrimSpace section0; t = trimSectionPrefix u s
      in if s = [] \<or> isWeakSection u s \<or> t = [] \<or> isMeaninglessTheme u t \<or> t \<in> set cleaned then cleaned
         else cleaned @ [t])"

definition cleanOverviewSections :: "unicode_tables \<Rightarrow> gostr list \<Rightarrow> gostr" where
  "cleanOverviewSections u sections = Join (foldl (clean_section u) [] sections) [12289]"

section \<open>Titles and descriptions\<close>

definition compactRunes :: "gostr \<Rightarrow> nat \<Rightarrow> gostr" where
  "compactRunes s limit =
     (let runes = TrimSpace s in if length runes \<le> limit then runes else take limit runes @ lit ''...'')"

definition title_separators :: "gostr list" where
  "title_separators = [[65306], [58], [65292], [44], [12289], [65288], [40]]"

fun cut_title :: "gostr \<Rightarrow> gostr list \<Rightarrow> gostr" where
  "cut_title title [] = title"
| "cut_title title (sep # seps) =
     (case Cut title sep of
        Some (head,
          _) \<Rightarrow> if TrimSpace head \<noteq> [] then TrimSpace head else cut_title title seps
      | None \<Rightarrow> cut_title title seps)"

definition shortenOverviewTitle :: "gostr \<Rightarrow> nat \<Rightarrow> gostr" where
  "shortenOverviewTitle title limit =
     (let runes = cut_title (TrimSpace title) title_separators
      in if length runes \<le> limit then runes else take limit runes @ lit ''...'')"

text \<open>Words such as explains, defines, states, describes at the start, and the marks after them.\<close>

definition lead_words :: "gostr list" where
  "lead_words = [[35828, 26126], [20027, 35201, 35828, 26126], [35814, 32454, 23450, 20041],
    [37325, 28857, 35828, 26126], [32473, 20986], [35268, 23450], [29992, 20110], [25551,
      36848], [20171, 32461]]"

definition lead_marks :: "rune list" where
  "lead_marks = [65306, 58, 65292, 44, 12290, 59, 65307, 12289, 32]"

definition trimRepeatedLead :: "gostr \<Rightarrow> gostr" where
  "trimRepeatedLead s =
     (case filter (\<lambda>p. HasPrefix s p \<and> length s > length p + 2) lead_words of
        [] \<Rightarrow> s | p # _ \<Rightarrow> TrimLeft (TrimPrefix s p) lead_marks)"

definition overviewListLinePattern :: regexp where
  "overviewListLinePattern =
     RSeq RBegin (RSeq (RGroup 1 (RSeq (RPlus RDigit) (ROneOf number_marks)))
       (RSeq (RStar RSpace) (RSeq (RGroup 2 (RPlusLazy RDot)) (RSeq (RGroup 3 (ROneOf colons))
         (RSeq (RStar RSpace) (RSeq (RGroup 4 (RPlus RDot)) REnd))))))"

definition format_line :: "gostr \<Rightarrow> gostr" where
  "format_line line =
     (case FindStringSubmatch overviewListLinePattern 4 (TrimSpace line) of
        [whole, mark, title0, colon, description0] \<Rightarrow>
          (let title = TrimSpace title0; description = TrimSpace description0
           in if title = [] \<or> description = [] \<or> Contains title (lit ''**'') then line
              else mark @ lit '' **'' @ shortenOverviewTitle title 32 @ lit ''**'' @ [65306] @ description)
      | _ \<Rightarrow> line)"

definition formatOverviewAnswer :: "unicode_tables \<Rightarrow> gostr \<Rightarrow> gostr" where
  "formatOverviewAnswer u answer = Join (map format_line (Split (normalizeAnswerText u answer) [10])) [10]"

section \<open>Scores\<close>

definition overviewChunkScore :: "unicode_tables \<Rightarrow> gostr \<Rightarrow> gostr \<Rightarrow> int \<Rightarrow> float64" where
  "overviewChunkScore u section0 content index =
     (let contentLength = length (TrimSpace content)
      in if contentLength = 0 then -1
         else let base = fdiv (float_of_int (int (min contentLength 1000))) 100;
                  s1 = (if \<not> isWeakSection u section0 \<and> \<not> isMeaninglessTheme u (trimSectionPrefix u section0)
                        then fadd base 12 else base)
              in if index < 5 then fadd s1 (float_of_int (5 - index)) else s1)"

text \<open>\<open>routeNormalizeText\<close> deletes question marks, dots, commas,
  colons and brackets of both scripts.\<close>

definition route_marks :: "rune list" where
  "route_marks = [65311, 63, 12290, 46, 65292, 44, 65306, 58, 65288, 65289, 40, 41]"

definition routeNormalizeText :: "unicode_tables \<Rightarrow> gostr \<Rightarrow> gostr" where
  "routeNormalizeText u s = filter (\<lambda>r. r \<notin> set route_marks) (ToLower u (TrimSpace s))"

definition appendRouteToken :: "unicode_tables \<Rightarrow> gostr list \<Rightarrow> gostr \<Rightarrow> gostr list" where
  "appendRouteToken u tokens runes =
     (if length runes < 2 then tokens
      else if list_ex (isHan u) runes then
        tokens @ map (\<lambda>i. take 2 (drop i runes)) [0..<length runes - 1] @ [runes]
      else tokens @ [runes])"

fun route_tokens :: "unicode_tables \<Rightarrow> gostr list \<Rightarrow> gostr \<Rightarrow> gostr \<Rightarrow> gostr list" where
  "route_tokens u tokens builder [] = (if builder \<noteq> [] then appendRouteToken u tokens builder else tokens)"
| "route_tokens u tokens builder (r # rest) =
     (if isLetter u r \<or> isDigit u r then route_tokens u tokens (builder @ [r]) rest
      else if builder \<noteq> [] then route_tokens u (appendRouteToken u tokens builder) [] rest
      else route_tokens u tokens [] rest)"

definition routeKeywordTokens :: "unicode_tables \<Rightarrow> gostr \<Rightarrow> gostr list" where
  "routeKeywordTokens u s = route_tokens u [] [] (routeNormalizeText u s)"

definition add_if :: "bool \<Rightarrow> float64 \<Rightarrow> float64 \<Rightarrow> float64" where
  "add_if b x score = (if b then fadd score x else score)"

definition routedChunkScore :: "unicode_tables \<Rightarrow> gostr \<Rightarrow> gostr \<Rightarrow> gostr \<Rightarrow> gostr \<Rightarrow> float64" where
  "routedChunkScore u topic0 filename0 section0 content0 =
     (let topic = routeNormalizeText u topic0; filename = routeNormalizeText u filename0;
          sec = routeNormalizeText u section0; content = routeNormalizeText u content0
      in if topic = [] then 0
         else foldl (\<lambda>score tok. add_if (Contains content tok) 1
               (add_if (Contains sec tok) 2 (add_if (Contains filename tok) 3 score)))
             (add_if (Contains content topic) 2 (add_if (Contains sec topic) 5 (add_if (Contains filename topic) 6 0)))
             (routeKeywordTokens u topic))"

definition extractNavigationTopic :: "gostr \<Rightarrow> gostr" where
  "extractNavigationTopic query =
     (let topic = Join (Fields query) [32] in if topic = [] then [24403, 21069, 38382, 39064] else topic)"

end
