(* ===== verification/Knowledge.thy ===== *)
theory Knowledge
  imports KnowledgeText Search Requests "HOL-Library.Product_Lexorder"
begin

text \<open>
  The tools of the agent: the overview of a knowledge base (\<open>internal/service/knowledge/overview.go\<close>),
  the navigation to its documents (\<open>navigation.go\<close>), and the handlers that serve them
  (\<open>internal/transport/internaltools/handler.go\<close>).
\<close>

section \<open>The overview\<close>

record overview_doc =
  od_document :: document
  od_sections :: "gostr list"
  od_chunk :: "retrieval_chunk option"
  od_score :: float64
  od_count :: nat

record overview_result =
  or_content :: gostr
  or_chunks :: "retrieval_chunk list"
  or_total :: nat
  or_covered :: nat

definition overviewCatalogCharacterBudget :: int where
  "overviewCatalogCharacterBudget = 11000"

definition overviewEvidenceLimit :: nat where
  "overviewEvidenceLimit = 5"

text \<open>The indexed documents of the knowledge base, of all users of the tenant, the newest 200.\<close>

definition indexed_filter :: "uid \<Rightarrow> uid \<Rightarrow> uid \<Rightarrow> document_filter" where
  "indexed_filter tenant user subject =
     \<lparr>df_user = user, df_tenant = tenant, df_all_tenant_users = True, df_subject = subject,
      df_status = doc_status_text Indexed, df_keyword = [], df_page_size = 200, df_offset = 0\<rparr>"

text \<open>The summaries are a map with the document as key, here in the order of insertion.\<close>

fun put_summary :: "overview_doc list \<Rightarrow> document \<Rightarrow> overview_doc list" where
  "put_summary [] doc = [\<lparr>od_document = doc, od_sections = [], od_chunk = None,
    od_score = 0, od_count = 0\<rparr>]"
| "put_summary (s # ss) doc =
     (if doc_id (od_document s) = doc_id doc
      then \<lparr>od_document = doc, od_sections = [], od_chunk = None, od_score = 0,
        od_count = 0\<rparr> # ss
      else s # put_summary ss doc)"

definition shown_chunk :: "string \<Rightarrow> document \<Rightarrow> document_chunk \<Rightarrow> retrieval_chunk" where
  "shown_chunk source doc c =
     \<lparr>rc_id = ch_id c, rc_evidence = [], rc_tenant = ch_tenant c, rc_doc = ch_doc c,
      rc_doc_name = doc_filename doc, rc_subject = ch_subject c, rc_user = ch_user c,
      rc_index = ch_index c, rc_page = ch_page c, rc_section = ch_section c, rc_content = ch_content c,
      rc_doc_version = 0, rc_content_hash = [], rc_score = 0, rc_raw_score = 0, rc_source = source\<rparr>"

definition absorb :: "unicode_tables \<Rightarrow> document_chunk \<Rightarrow> overview_doc \<Rightarrow> overview_doc" where
  "absorb u c s =
     (let sec = (if isWeakSection u (TrimSpace (ch_section c)) then [] else TrimSpace (ch_section c));
          score = overviewChunkScore u (ch_section c) (ch_content c) (ch_index c);
          s1 = s\<lparr>od_count := Suc (od_count s),
                 od_sections := (if sec \<noteq> [] \<and> length (od_sections s) < 8 \<and> sec \<notin> set (od_sections s)
                   then od_sections s @ [sec] else od_sections s)\<rparr>
      in if TrimSpace (ch_content c) \<noteq> [] \<and> (od_chunk s = None \<or> score > od_score s)
         then s1\<lparr>od_chunk := Some (shown_chunk ''overview'' (od_document s) c),
           od_score := score\<rparr>
         else s1)"

definition absorb_chunk :: "unicode_tables \<Rightarrow> overview_doc list \<Rightarrow> document_chunk \<Rightarrow> overview_doc list" where
  "absorb_chunk u ss c = map (\<lambda>s. if doc_id (od_document s) = ch_doc c then absorb u c s else s) ss"

definition overview_sort :: "overview_doc list \<Rightarrow> overview_doc list" where
  "overview_sort = sort_key (\<lambda>s. (- int (od_count s), - doc_created_at (od_document s)))"

definition buildOverviewTitle :: "overview_doc \<Rightarrow> gostr" where
  "buildOverviewTitle s =
     shortenOverviewTitle (TrimSuffix (doc_filename (od_document s)) (filepath_Ext (doc_filename (od_document s)))) 60"

definition see_document :: gostr where
  "see_document = [21487, 36827, 19968, 27493, 26597, 30475, 23545, 24212, 25991, 26723, 20869, 23481, 12290]"

definition buildOverviewDescription :: "unicode_tables \<Rightarrow> overview_doc \<Rightarrow> gostr" where
  "buildOverviewDescription u s =
     (case od_chunk s of
        None \<Rightarrow> see_document
      | Some c \<Rightarrow>
          (let c1 = TrimSpace (compactRunes (TrimSpace (rc_content c)) 220);
               c2 = trimRepeatedLead (TrimLeft (TrimPrefix c1 (buildOverviewTitle s)) lead_marks);
               secs = cleanOverviewSections u (od_sections s);
               c3 = (if secs \<noteq> [] then [20195, 34920, 31456, 33410,
                 65306] @ compactRunes secs 100 @ [12290, 20195, 34920, 20869, 23481, 65306] @ c2 else c2)
           in if TrimSpace c3 = [] then see_document else c3))"

definition catalog_line :: "unicode_tables \<Rightarrow> nat \<Rightarrow> nat \<Rightarrow> nat \<Rightarrow> overview_doc \<Rightarrow> gostr" where
  "catalog_line u titleLimit descriptionLimit index s =
     lit (Itoa (int index + 1)) @ lit ''. '' @ shortenOverviewTitle (buildOverviewTitle s) titleLimit @ [65306] @
     compactRunes (buildOverviewDescription u s) descriptionLimit"

definition buildStructuredKnowledgeOverview :: "unicode_tables \<Rightarrow> gostr \<Rightarrow> nat \<Rightarrow> overview_doc list \<Rightarrow> gostr" where
  "buildStructuredKnowledgeOverview u subjectName documentCount summaries =
     (let covered = length summaries;
          coverage = (if covered = documentCount
            then [26412, 27425, 27010, 35272, 24050, 35206, 30422, 20840, 37096,
              32] @ lit (Itoa (int documentCount)) @ [32, 31687, 12290]
            else [26412, 27425, 27010, 35272, 24050, 35206, 30422, 20854, 20013,
              32] @ lit (Itoa (int covered)) @ [32, 31687, 12290]);
          header = [30693, 35782, 24211, 8220] @ subjectName @ [8221, 24403, 21069, 20849,
            21253, 21547, 32] @ lit (Itoa (int documentCount)) @
            [32, 31687, 24050, 32034, 24341, 25991, 26723, 65292] @ coverage @ [20197, 19979,
              20869, 23481, 25353, 20840, 37096, 21487, 29992, 25991, 26723, 25972, 29702, 65306];
          perDocument = overviewCatalogCharacterBudget div max (int covered) 1;
          titleLimit = min 48 (max 16 (perDocument div 3));
          descriptionLimit = min 220 (max 24 (perDocument - titleLimit - 16))
      in normalizeAnswerText u (Join (header #
           map (\<lambda>(i,
             s). catalog_line u (nat titleLimit) (nat descriptionLimit) i s) (enumerate 0 summaries)) [10]))"

text \<open>The services, and the orders in which Go iterates over the maps.\<close>

record nav_match =
  nm_document :: document
  nm_score :: float64
  nm_section :: gostr
  nm_chunk :: retrieval_chunk

record 'e tool_services =
  ts_base :: "'e services"
  ts_overview_order :: "'e \<Rightarrow> overview_doc list \<Rightarrow> overview_doc list"
  ts_match_order :: "'e \<Rightarrow> nav_match list \<Rightarrow> nav_match list"

definition overview_summaries ::
    "unicode_tables \<Rightarrow> document list \<Rightarrow> document_chunk list \<Rightarrow> overview_doc list" where
  "overview_summaries u docs chunks = foldl (absorb_chunk u) (foldl put_summary [] docs) chunks"

definition overview_answer ::
    "'e tool_services \<Rightarrow> subject \<Rightarrow> document list \<Rightarrow> document_chunk list \<Rightarrow> ('e, overview_result) act" where
  "overview_answer ts subject docs chunks w =
     (let u = sv_unicode (ts_base ts);
          summaries = ts_overview_order ts (w_ext w) (overview_summaries u docs chunks);
          ordered = overview_sort (filter (\<lambda>s. od_chunk s \<noteq> None) summaries)
      in (Inr (if ordered = [] then
           \<lparr>or_content = [30693, 35782, 24211, 8220] @ subj_name subject @ [8221, 24403,
             21069, 26242, 26080, 21487, 29992, 20110, 22238, 31572, 30340, 24050, 35299,
               26512, 20869, 23481, 12290],
            or_chunks = [], or_total = length docs, or_covered = 0\<rparr>
         else
           \<lparr>or_content = formatOverviewAnswer u
              (buildStructuredKnowledgeOverview u (subj_name subject) (length docs) ordered),
            or_chunks = map (\<lambda>s. the (od_chunk s)) (take overviewEvidenceLimit ordered),
            or_total = length docs, or_covered = length ordered\<rparr>), w))"

definition overview_listed ::
    "'e tool_services \<Rightarrow> uid \<Rightarrow> uid \<Rightarrow> subject \<Rightarrow> document list \<Rightarrow> ('e, overview_result) act" where
  "overview_listed ts tenant i subject docs =
     (if docs = [] then
        return \<lparr>or_content = [30693, 35782, 24211, 8220] @ subj_name subject @ [8221,
          24403, 21069, 26242, 26080, 24050, 32034, 24341, 25991, 26723, 12290],
          or_chunks = [], or_total = 0, or_covered = 0\<rparr>
      else attempt (run_tx (ts_base ts) (\<lambda>_. chunk_ListBySubject tenant i)) (overview_answer ts subject docs))"

definition overview_documents ::
    "'e tool_services \<Rightarrow> uid \<Rightarrow> uid \<Rightarrow> uid \<Rightarrow> subject \<Rightarrow> ('e, overview_result) act" where
  "overview_documents ts tenant user i subject =
     attempt (run_tx (ts_base ts) (\<lambda>_. ListByUser (sv_ilike (ts_base ts)) (indexed_filter tenant user i)))
       (\<lambda>page. overview_listed ts tenant i subject (fst page))"

definition BuildKnowledgeOverviewTool ::
    "'e tool_services \<Rightarrow> uid \<Rightarrow> uid \<Rightarrow> uid \<Rightarrow> ('e,
      overview_result) act" where
  "BuildKnowledgeOverviewTool ts tenant user i =
     attempt (run_tx (ts_base ts) (\<lambda>_. GetAccessibleByID i user tenant)) (overview_documents ts tenant user i)"

section \<open>Navigation\<close>

text \<open>The best chunk of every document; the map has the document as key.\<close>

fun put_nav :: "nav_match list \<Rightarrow> nav_match \<Rightarrow> nav_match list" where
  "put_nav [] m = [m]"
| "put_nav (x # xs) m =
     (if rc_doc (nm_chunk x) = rc_doc (nm_chunk m) then (if nm_score m > nm_score x then m else x) # xs
      else x # put_nav xs m)"

definition nav_chunk ::
    "unicode_tables \<Rightarrow> gostr \<Rightarrow> document list \<Rightarrow> nav_match list \<Rightarrow> document_chunk \<Rightarrow> nav_match list" where
  "nav_chunk u topic docs ms c =
     (case tbl_first (\<lambda>d. doc_id d = ch_doc c) (rev docs) of
        None \<Rightarrow> ms
      | Some doc \<Rightarrow>
          (let score = routedChunkScore u topic (doc_filename doc) (ch_section c) (ch_content c)
           in if score \<le> 0 then ms
              else put_nav ms \<lparr>nm_document = doc, nm_score = score,
                nm_section = TrimSpace (ch_section c),
                nm_chunk = shown_chunk ''navigation'' doc c\<rparr>))"

definition nav_sort :: "nav_match list \<Rightarrow> nav_match list" where
  "nav_sort = sort_key (\<lambda>m. (- nm_score m, - doc_created_at (nm_document m)))"

definition nav_line :: "unicode_tables \<Rightarrow> nat \<Rightarrow> nav_match \<Rightarrow> gostr" where
  "nav_line u index m =
     lit (Itoa (int index + 1)) @ lit ''. '' @ doc_filename (nm_document m) @ [65306, 21487,
       20248, 20808, 26597, 30475, 32] @
     (if \<not> isWeakSection u (nm_section m) \<and> nm_section m \<noteq> [] then nm_section m else [30456, 20851, 20869, 23481]) @
     [12290, 91, 24341, 29992] @ lit (Itoa (int index + 1)) @ lit '']''"

definition nav_answer ::
    "'e tool_services \<Rightarrow> gostr \<Rightarrow> document list \<Rightarrow> document_chunk list \<Rightarrow> ('e, gostr \<times> retrieval_chunk list) act" where
  "nav_answer ts topic docs chunks w =
     (let u = sv_unicode (ts_base ts);
          ms = ts_match_order ts (w_ext w) (foldl (nav_chunk u topic docs) [] chunks);
          ordered = nav_sort ms; shown = take 6 ordered
      in (Inr (if ordered = [] then ([26410, 25214, 21040, 19982, 8220] @ topic @ [8221, 30452,
        25509, 30456, 20851, 30340, 24050, 32034, 24341, 25991, 26723, 12290], [])
         else (Join (([19982, 8220] @ topic @ [8221, 30452, 25509, 30456, 20851, 30340, 24050,
           32034, 24341, 25991, 26723, 26377, 32] @ lit (Itoa (int (length ordered))) @ [32, 31687, 65306]) #
             map (\<lambda>(i, m). nav_line u i m) (enumerate 0 shown)) [10], map nm_chunk shown)), w))"

definition nav_listed ::
    "'e tool_services \<Rightarrow> uid \<Rightarrow> uid \<Rightarrow> gostr \<Rightarrow> document list \<Rightarrow> ('e, gostr \<times> retrieval_chunk list) act" where
  "nav_listed ts tenant i query docs =
     (if docs = [] then return ([24403, 21069, 30693, 35782, 24211, 26242, 26080, 24050, 32034,
       24341, 25991, 26723, 12290], [])
      else attempt (run_tx (ts_base ts) (\<lambda>_. chunk_ListBySubject tenant i))
        (nav_answer ts (extractNavigationTopic query) docs))"

definition buildDocumentNavigation ::
    "'e tool_services \<Rightarrow> uid \<Rightarrow> uid \<Rightarrow> uid \<Rightarrow> gostr \<Rightarrow> ('e, gostr \<times> retrieval_chunk list) act" where
  "buildDocumentNavigation ts tenant user i query =
     attempt (run_tx (ts_base ts) (\<lambda>_. ListByUser (sv_ilike (ts_base ts)) (indexed_filter tenant user i)))
       (\<lambda>page. nav_listed ts tenant i query (fst page))"

definition BuildDocumentNavigationTool ::
    "'e tool_services \<Rightarrow> uid \<Rightarrow> uid \<Rightarrow> uid \<Rightarrow> gostr \<Rightarrow> ('e, gostr \<times> retrieval_chunk list) act" where
  "BuildDocumentNavigationTool = buildDocumentNavigation"

end
