(* ===== verification/InternalTools.thy ===== *)
theory InternalTools
  imports Knowledge
begin

text \<open>
  The tools that the agent calls: \<open>internal/transport/internaltools/handler.go\<close>, and the retrieval
  request of the API, \<open>internal/logic/retrieval/retrievalsearchlogic.go\<close>. A request body is what the
  strict decoder makes of it, \<open>None\<close> when it refuses it.
\<close>

section \<open>Requests and replies\<close>

record request_context =
  rq_tenant :: uid
  rq_user :: uid
  rq_subject :: uid

record search_request = request_context +
  rq_query :: gostr
  rq_search_query :: gostr
  rq_top_k :: int
  rq_expected_docs :: "gostr list"
  rq_expected_chunks :: "gostr list"
  rq_expected_route :: gostr

record navigation_request = request_context +
  rq_topic :: gostr

record tool_coverage =
  cov_total :: nat
  cov_covered :: nat
  cov_complete :: bool

record tool_response =
  tr_content :: gostr
  tr_chunks :: "retrieval_chunk list"
  tr_metrics :: retrieval_metrics
  tr_stages :: "string list"
  tr_coverage :: tool_coverage

datatype tool_reply = ToolError int gostr | ToolAnswer tool_response

type_synonym 'e tool_handler = "'e world \<Rightarrow> tool_reply \<times> 'e world"

text \<open>
  The service token; for the search the services with a stage callback that collects the stages
  outside, emptied before and read after.
\<close>

record 'e tools =
  tl_token :: gostr
  tl_tools :: "'e tool_services"
  tl_search :: "'e search_services"
  tl_no_stages :: "'e \<Rightarrow> 'e"
  tl_stages :: "'e \<Rightarrow> string list"

definition authorize :: "'e tools \<Rightarrow> gostr \<Rightarrow> 'e tool_handler \<Rightarrow> 'e tool_handler" where
  "authorize tv provided next w =
     (if provided \<noteq> tl_token tv then (ToolError 401 (lit ''unauthorized''), w) else next w)"

definition invalid_body :: gostr where
  "invalid_body = lit ''invalid request body''"

definition validateContext :: "'r request_context_scheme \<Rightarrow> gerr option" where
  "validateContext req =
     (if trim_id (rq_tenant req) = [] \<or> trim_id (rq_user req) = [] \<or> trim_id (rq_subject req) = [] then
        Some (Plain (lit ''tenant_id, user_id and subject_id are required''))
      else None)"

definition overviewMetrics :: "string \<Rightarrow> nat \<Rightarrow> retrieval_metrics" where
  "overviewMetrics route n =
     zero_metrics\<lparr>rm_route := route, rm_route_correct := True, rm_returned_count := n,
       rm_citation_count := int n, rm_evaluation_passed := (n > 0)\<rparr>"

definition no_coverage :: tool_coverage where
  "no_coverage = \<lparr>cov_total = 0, cov_covered = 0, cov_complete = False\<rparr>"

definition newToolResponse ::
    "gostr \<Rightarrow> retrieval_chunk list \<Rightarrow> retrieval_metrics \<Rightarrow> string list \<Rightarrow> tool_response" where
  "newToolResponse content chunks metrics stages =
     \<lparr>tr_content = content, tr_chunks = chunks, tr_metrics = metrics, tr_stages = stages, tr_coverage = no_coverage\<rparr>"

section \<open>The handlers\<close>

definition tool_result :: "('a \<Rightarrow> 'e \<Rightarrow> tool_response) \<Rightarrow> ('e, 'a) act \<Rightarrow> 'e tool_handler" where
  "tool_result answer m w =
     (case m w of
        (Inl err, w') \<Rightarrow> (ToolError 422 (err_text err), w')
      | (Inr a, w') \<Rightarrow> (ToolAnswer (answer a (w_ext w')), w'))"

definition knowledgeSearch :: "'e tools \<Rightarrow> search_request option \<Rightarrow> 'e tool_handler" where
  "knowledgeSearch tv body w =
     (case body of
        None \<Rightarrow> (ToolError 400 invalid_body, w)
      | Some req \<Rightarrow>
          if validateContext req \<noteq> None \<or> TrimSpace (rq_query req) = [] then
            (ToolError 400 (lit ''tenant_id, user_id, subject_id and query are required''), w)
          else tool_result (\<lambda>(chunks, metrics) e. newToolResponse [] chunks metrics (tl_stages tv e))
            (SearchWithOptions (tl_search tv) (rq_tenant req) (rq_user req) (rq_subject req) (rq_query req)
              \<lparr>so_top_k = rq_top_k req, so_expected_docs = rq_expected_docs req,
               so_expected_chunks = rq_expected_chunks req, so_expected_route = rq_expected_route req,
               so_search_query = rq_search_query req\<rparr>)
            (w\<lparr>w_ext := tl_no_stages tv (w_ext w)\<rparr>))"

definition overview_response :: "overview_result \<Rightarrow> tool_response" where
  "overview_response result =
     (let n = length (or_chunks result);
          complete = (or_total result > 0 \<and> or_covered result = or_total result);
          r = newToolResponse (or_content result) (or_chunks result) (overviewMetrics ''overview'' n) []
      in r\<lparr>tr_coverage := \<lparr>cov_total = or_total result, cov_covered = or_covered result, cov_complete = complete\<rparr>,
           tr_metrics := (tr_metrics r)\<lparr>rm_candidate_count := or_total result, rm_evaluation_passed := complete\<rparr>\<rparr>)"

definition knowledgeOverview :: "'e tools \<Rightarrow> request_context option \<Rightarrow> 'e tool_handler" where
  "knowledgeOverview tv body w =
     (case body of
        None \<Rightarrow> (ToolError 400 invalid_body, w)
      | Some req \<Rightarrow>
          (case validateContext req of
             Some err \<Rightarrow> (ToolError 400 (err_text err), w)
           | None \<Rightarrow> tool_result (\<lambda>result _. overview_response result)
               (BuildKnowledgeOverviewTool (tl_tools tv) (rq_tenant req) (rq_user req) (rq_subject req)) w))"

definition documentNavigation :: "'e tools \<Rightarrow> navigation_request option \<Rightarrow> 'e tool_handler" where
  "documentNavigation tv body w =
     (case body of
        None \<Rightarrow> (ToolError 400 invalid_body, w)
      | Some req \<Rightarrow>
          if validateContext req \<noteq> None \<or> TrimSpace (rq_topic req) = [] then
            (ToolError 400 (lit ''tenant_id, user_id, subject_id and topic are required''), w)
          else tool_result
            (\<lambda>(content, chunks) _. newToolResponse content chunks (overviewMetrics ''navigation'' (length chunks)) [])
            (BuildDocumentNavigationTool (tl_tools tv) (rq_tenant req) (rq_user req) (rq_subject req) (rq_topic req)) w)"

section \<open>The retrieval request of the API\<close>

record retrieval_req =
  rr_subject :: uid
  rr_query :: gostr
  rr_top_k :: int
  rr_expected_docs :: "gostr list"
  rr_expected_chunks :: "gostr list"
  rr_expected_route :: gostr

definition RetrievalSearch ::
    "'e search_services \<Rightarrow> user_session option \<Rightarrow> retrieval_req \<Rightarrow>
     ('e, retrieval_chunk list \<times> retrieval_metrics) act" where
  "RetrievalSearch ss ctx req =
     (let subject = trim_id (rr_subject req); query = TrimSpace (rr_query req)
      in if subject = [] \<or> query = [] then fail (Plain (lit ''subject_id and query are required''))
         else attempt (current_user ctx) (\<lambda>user.
           SearchWithOptions ss (us_tenant user) (us_id user) subject query
             \<lparr>so_top_k = rr_top_k req, so_expected_docs = rr_expected_docs req,
              so_expected_chunks = rr_expected_chunks req, so_expected_route = rr_expected_route req,
              so_search_query = []\<rparr>))"

end
