(* ===== verification/KnowledgeSteps.thy ===== *)
theory KnowledgeSteps
  imports InternalTools SearchSteps
begin

text \<open>What the tools of the agent read, and how the overview picks the chunk of a document.\<close>

section \<open>The documents listed\<close>

definition listable :: "uid \<Rightarrow> uid \<Rightarrow> db \<Rightarrow> document_row \<Rightarrow> bool" where
  "listable tenant i d r \<longleftrightarrow> live_doc r \<and> doc_tenant r = tenant \<and> live_subject d (doc_subject r) \<and>
     (i = [] \<or> doc_subject r = i) \<and> doc_status r = Indexed"

text \<open>The newest 200, as they are shown.\<close>

definition listed :: "uid \<Rightarrow> uid \<Rightarrow> db \<Rightarrow> document list" where
  "listed tenant i d = map scan_listed_document (take 200 (sort_key (\<lambda>r. - doc_created_at r)
     (filter (listable tenant i d) (documents d))))"

definition subject_chunks :: "uid \<Rightarrow> uid \<Rightarrow> db \<Rightarrow> document_chunk list" where
  "subject_chunks tenant i d = map scan_chunk (sort_key ch_index
     (filter (\<lambda>r. ch_tenant r = tenant \<and> ch_subject r = i \<and> live_chunk r) (document_chunks d)))"

lemma doc_status_text_Indexed: "doc_status_text st = ''indexed'' \<longleftrightarrow> st = Indexed"
  by (cases st) simp_all

lemma ListByUser_indexed:
  "ListByUser ilike (indexed_filter tenant user i) d =
     (Inr (listed tenant i d, length (filter (listable tenant i d) (documents d))), d)"
proof -
  have "document_matches ilike d (indexed_filter tenant user i) = listable tenant i d"
    by (rule ext) (auto simp: document_matches_def indexed_filter_def listable_def doc_status_text_Indexed)
  then show ?thesis by (simp add: ListByUser_def Let_def listed_def tbl_page_def) (simp add: indexed_filter_def)
qed

lemma chunk_ListBySubject_eq: "chunk_ListBySubject tenant i d = (Inr (subject_chunks tenant i d), d)"
  by (simp add: chunk_ListBySubject_def subject_chunks_def)

lemma length_listed: "length (listed tenant i d) = min 200 (length (filter (listable tenant i d) (documents d)))"
  by (simp add: listed_def)

lemma scan_listed_fields [simp]:
  "doc_id (scan_listed_document r) = doc_id r" "doc_filename (scan_listed_document r) = doc_filename r"
  "doc_created_at (scan_listed_document r) = doc_created_at r"
  by (simp_all add: scan_listed_document_def document.truncate_def)

lemma listed_in: "x \<in> set (listed tenant i d) \<Longrightarrow>
    \<exists>r \<in> set (documents d). listable tenant i d r \<and> doc_id r = doc_id x \<and> doc_filename r = doc_filename x"
  by (auto simp: listed_def dest!: in_set_takeD)

lemma listed_distinct:
  assumes "distinct (map doc_id (documents d))"
  shows "distinct (map doc_id (listed tenant i d))"
proof -
  let ?rows = "sort_key (\<lambda>r. - doc_created_at r) (filter (listable tenant i d) (documents d))"
  have "distinct (map doc_id ?rows)"
    using assms by (simp add: distinct_map inj_on_def)
  then have "distinct (take 200 (map doc_id ?rows))" by (rule distinct_take)
  then show ?thesis by (simp add: listed_def take_map comp_def)
qed

lemma scan_chunk_fields [simp]:
  "ch_id (scan_chunk r) = ch_id r" "ch_tenant (scan_chunk r) = ch_tenant r" "ch_doc (scan_chunk r) = ch_doc r"
  "ch_subject (scan_chunk r) = ch_subject r" "ch_content (scan_chunk r) = ch_content r"
  by (simp_all add: scan_chunk_def document_chunk.truncate_def)

lemma subject_chunks_in: "c \<in> set (subject_chunks tenant i d) \<Longrightarrow>
    ch_tenant c = tenant \<and> ch_subject c = i \<and>
    (\<exists>r \<in> set (document_chunks d). live_chunk r \<and> ch_id r = ch_id c \<and> ch_doc r = ch_doc c \<and> ch_content r = ch_content c)"
  by (auto simp: subject_chunks_def)

section \<open>The summaries\<close>

text \<open>A chunk with text, and what the summary of a document holds after some chunks.\<close>

definition telling :: "document_chunk \<Rightarrow> bool" where
  "telling c \<longleftrightarrow> TrimSpace (ch_content c) \<noteq> []"

definition chunk_score :: "unicode_tables \<Rightarrow> document_chunk \<Rightarrow> float64" where
  "chunk_score u c = overviewChunkScore u (ch_section c) (ch_content c) (ch_index c)"

definition summarises :: "unicode_tables \<Rightarrow> document \<Rightarrow> document_chunk list \<Rightarrow> overview_doc \<Rightarrow> bool" where
  "summarises u doc cs s \<longleftrightarrow>
     od_document s = doc \<and> od_count s = length (filter (\<lambda>c. ch_doc c = doc_id doc) cs) \<and>
     (let told = filter (\<lambda>c. ch_doc c = doc_id doc \<and> telling c) cs
      in (od_chunk s = None \<longleftrightarrow> told = []) \<and>
         (\<forall>rc. od_chunk s = Some rc \<longrightarrow>
            (\<exists>c \<in> set told. rc = shown_chunk ''overview'' doc c \<and> (\<forall>c' \<in> set told. chunk_score u c' \<le> chunk_score u c) \<and>
               od_score s = chunk_score u c)))"

lemma absorb_fields:
  "od_document (absorb u c s) = od_document s" "od_count (absorb u c s) = Suc (od_count s)"
  "od_chunk (absorb u c s) = (if telling c \<and> (od_chunk s = None \<or> chunk_score u c > od_score s)
     then Some (shown_chunk ''overview'' (od_document s) c) else od_chunk s)"
  "od_score (absorb u c s) = (if telling c \<and> (od_chunk s = None \<or> chunk_score u c > od_score s)
     then chunk_score u c else od_score s)"
  by (simp_all add: absorb_def Let_def telling_def chunk_score_def)

lemma summarises_absorb:
  assumes "summarises u doc cs s"
  shows "summarises u doc (cs @ [c]) (if doc_id doc = ch_doc c then absorb u c s else s)"
proof (cases "doc_id doc = ch_doc c")
  case True
  show ?thesis
  proof (cases "od_chunk s")
    case None
    with assms True show ?thesis by (auto simp: summarises_def absorb_fields Let_def)
  next
    case (Some rc)
    with assms obtain b where b: "b \<in> set (filter (\<lambda>c. ch_doc c = doc_id doc \<and> telling c) cs)"
      "rc = shown_chunk ''overview'' doc b" "od_score s = chunk_score u b"
      "\<forall>c' \<in> set (filter (\<lambda>c. ch_doc c = doc_id doc \<and> telling c) cs). chunk_score u c' \<le> chunk_score u b"
      by (auto simp: summarises_def Let_def)
    show ?thesis
    proof (cases "telling c \<and> chunk_score u c > od_score s")
      case new: True
      then have "\<forall>c' \<in> set (filter (\<lambda>c. ch_doc c = doc_id doc \<and> telling c) cs). chunk_score u c' \<le> chunk_score u c"
        using b(3,4) by fastforce
      with assms True new Some show ?thesis by (auto simp: summarises_def absorb_fields Let_def)
    next
      case False
      with b(3,4) have "\<forall>c' \<in> set (filter (\<lambda>c. ch_doc c = doc_id doc \<and> telling c) (cs @ [c])). chunk_score u c' \<le> chunk_score u b"
        by auto
      with assms True False Some b(1-3) show ?thesis
        by (auto simp: summarises_def absorb_fields Let_def intro!: bexI [of _ b])
    qed
  qed
next
  case False
  with assms show ?thesis by (simp add: summarises_def)
qed

definition fresh_summary :: "document \<Rightarrow> overview_doc" where
  "fresh_summary doc = \<lparr>od_document = doc, od_sections = [], od_chunk = None, od_score = 0, od_count = 0\<rparr>"

lemma put_summary_new:
  "doc_id doc \<notin> doc_id ` set (map od_document ss) \<Longrightarrow> put_summary ss doc = ss @ [fresh_summary doc]"
  by (induction ss) (auto simp: fresh_summary_def)

lemma put_summaries:
  assumes "distinct (map doc_id docs)"
  shows "foldl put_summary [] docs = map fresh_summary docs"
  using assms
proof (induction docs rule: rev_induct)
  case (snoc doc docs)
  then have "doc_id doc \<notin> doc_id ` set (map od_document (map fresh_summary docs))"
    by (auto simp: fresh_summary_def image_iff)
  with snoc show ?case by (simp add: put_summary_new del: map_map)
qed simp

lemma overview_summaries_list:
  assumes "distinct (map doc_id docs)"
  shows "list_all2 (\<lambda>doc s. summarises u doc chunks s) docs (overview_summaries u docs chunks)"
proof (induction chunks rule: rev_induct)
  case Nil
  have "summarises u doc [] (fresh_summary doc)" for doc
    by (simp add: summarises_def fresh_summary_def Let_def)
  then show ?case
    by (simp add: overview_summaries_def put_summaries [OF assms] list_all2_conv_all_nth)
next
  case (snoc c chunks)
  have "list_all2 (\<lambda>doc s. summarises u doc (chunks @ [c]) s) docs
      (map (\<lambda>s. if doc_id (od_document s) = ch_doc c then absorb u c s else s) (overview_summaries u docs chunks))"
    unfolding list_all2_map2
  proof (rule list_all2_mono [OF snoc.IH])
    fix doc s assume s: "summarises u doc chunks s"
    then have "od_document s = doc" by (simp add: summarises_def)
    with summarises_absorb [OF s, of c]
    show "summarises u doc (chunks @ [c]) (if doc_id (od_document s) = ch_doc c then absorb u c s else s)" by simp
  qed
  then show ?case by (simp add: overview_summaries_def absorb_chunk_def)
qed

end
