(* ===== verification/KnowledgeProperties.thy ===== *)
theory KnowledgeProperties
  imports KnowledgeSteps RetrievalProperties "HOL-Library.Multiset"
begin

text \<open>
  The properties of the tools of the agent, and what the navigation leaves out: the access check.
\<close>

section \<open>The overview\<close>

text \<open>Go iterates over a map in some order of its entries.\<close>

definition overview_order :: "'e tool_services \<Rightarrow> bool" where
  "overview_order ts \<longleftrightarrow> (\<forall>e ss. mset (ts_overview_order ts e ss) = mset ss)"

text \<open>The documents of the list that have a chunk with text.\<close>

definition told_docs :: "document list \<Rightarrow> document_chunk list \<Rightarrow> document list" where
  "told_docs docs chunks = filter (\<lambda>doc. \<exists>c \<in> set chunks. ch_doc c = doc_id doc \<and> telling c) docs"

lemma summaries_told:
  assumes "list_all2 (\<lambda>doc s. summarises u doc chunks s) docs ss"
  shows "map od_document (filter (\<lambda>s. od_chunk s \<noteq> None) ss) = told_docs docs chunks"
  using assms
proof (induction rule: list_all2_induct)
  case (Cons doc docs s ss)
  have "od_chunk s \<noteq> None \<longleftrightarrow> (\<exists>c \<in> set chunks. ch_doc c = doc_id doc \<and> telling c)" and "od_document s = doc"
    using Cons.hyps(1) by (auto simp: summarises_def Let_def filter_empty_conv)
  with Cons.IH show ?case by (simp add: told_docs_def)
qed (simp add: told_docs_def)

lemma list_all2_right: "list_all2 P xs ys \<Longrightarrow> y \<in> set ys \<Longrightarrow> \<exists>x \<in> set xs. P x y"
  by (induction rule: list_all2_induct) auto

text \<open>What an answer of the overview shows for documents and chunks that it read.\<close>

definition overview_shows :: "unicode_tables \<Rightarrow> document list \<Rightarrow> document_chunk list \<Rightarrow> overview_result \<Rightarrow> bool" where
  "overview_shows u docs chunks r \<longleftrightarrow>
     or_total r = length docs \<and> or_covered r = length (told_docs docs chunks) \<and>
     length (or_chunks r) = min 5 (or_covered r) \<and> distinct (map rc_doc (or_chunks r)) \<and>
     (\<forall>x \<in> set (or_chunks r). \<exists>doc \<in> set docs. \<exists>c \<in> set chunks. ch_doc c = doc_id doc \<and> telling c \<and>
        x = shown_chunk ''overview'' doc c \<and>
        (\<forall>c' \<in> set chunks. ch_doc c' = doc_id doc \<and> telling c' \<longrightarrow> chunk_score u c' \<le> chunk_score u c))"

lemma overview_answer_shows:
  assumes "overview_order ts" and "distinct (map doc_id docs)"
    and "overview_answer ts subject docs chunks w = (Inr r, w')"
  shows "overview_shows (sv_unicode (ts_base ts)) docs chunks r \<and> w' = w"
proof -
  let ?u = "sv_unicode (ts_base ts)"
  let ?ss = "overview_summaries ?u docs chunks"
  let ?ordered = "overview_sort (filter (\<lambda>s. od_chunk s \<noteq> None) (ts_overview_order ts (w_ext w) ?ss))"
  note all = overview_summaries_list [OF assms(2), of ?u chunks]
  have perm: "mset ?ordered = mset (filter (\<lambda>s. od_chunk s \<noteq> None) ?ss)"
    using assms(1) by (simp add: overview_sort_def overview_order_def)
  have told: "mset (map od_document ?ordered) = mset (told_docs docs chunks)"
    using summaries_told [OF all] perm by (metis mset_map)
  have len: "length ?ordered = length (told_docs docs chunks)" using told by (metis length_map size_mset)
  have "distinct (map doc_id (told_docs docs chunks))" using assms(2) by (simp add: told_docs_def distinct_map_filter)
  then have ids: "distinct (map (\<lambda>s. doc_id (od_document s)) ?ordered)"
    using told by (metis (no_types, lifting) list.map_comp comp_def map_eq_conv mset_eq_imp_distinct_iff mset_map)
  have best: "\<exists>doc \<in> set docs. \<exists>c \<in> set chunks. od_document s = doc \<and> ch_doc c = doc_id doc \<and> telling c \<and>
      the (od_chunk s) = shown_chunk ''overview'' doc c \<and>
      (\<forall>c' \<in> set chunks. ch_doc c' = doc_id doc \<and> telling c' \<longrightarrow> chunk_score ?u c' \<le> chunk_score ?u c)"
    if "s \<in> set ?ordered" for s
  proof -
    have "set ?ordered = set (filter (\<lambda>s. od_chunk s \<noteq> None) ?ss)" using perm by (rule mset_eq_setD)
    with that have s: "s \<in> set ?ss" "od_chunk s \<noteq> None" by auto
    then obtain doc where doc: "doc \<in> set docs" "summarises ?u doc chunks s"
      using list_all2_right [OF all] by blast
    obtain rc where "od_chunk s = Some rc" using s(2) by auto
    with doc(2) obtain c where "c \<in> set (filter (\<lambda>c. ch_doc c = doc_id doc \<and> telling c) chunks)"
      "rc = shown_chunk ''overview'' doc c"
      "\<forall>c' \<in> set (filter (\<lambda>c. ch_doc c = doc_id doc \<and> telling c) chunks). chunk_score ?u c' \<le> chunk_score ?u c"
      by (auto simp: summarises_def Let_def)
    with doc \<open>od_chunk s = Some rc\<close> show ?thesis
      by (intro bexI [of _ doc] bexI [of _ c]) (auto simp: summarises_def)
  qed
  have doc_of: "rc_doc (the (od_chunk s)) = doc_id (od_document s)" if "s \<in> set ?ordered" for s
    using best [OF that] by (auto simp: shown_chunk_def)
  have cited: "map rc_doc (map (\<lambda>s. the (od_chunk s)) (take 5 ?ordered)) = take 5 (map (\<lambda>s. doc_id (od_document s)) ?ordered)"
    using doc_of by (auto simp: take_map dest!: in_set_takeD)
  have "or_total r = length docs \<and> or_covered r = length ?ordered \<and>
      or_chunks r = map (\<lambda>s. the (od_chunk s)) (take 5 ?ordered) \<and> w' = w"
    using assms(3) by (auto simp: overview_answer_def Let_def overviewEvidenceLimit_def)
  then show ?thesis
    unfolding overview_shows_def using len best ids cited
    by (auto simp del: map_map dest!: in_set_takeD intro: distinct_take) blast
qed


lemma read_quiet:
  assumes "quiet sv" and "\<And>now. q now (w_db w) = (Inr a, w_db w)"
  obtains e where "run_tx sv q w = (Inr a, w\<lparr>w_ext := e\<rparr>)"
  by (rule run_tx_quiet [OF assms(1), of q w]) (simp add: assms(2))

lemma overview_available:
  assumes "quiet (ts_base ts)" and "\<exists>s \<in> set (subjects (w_db w)). accessible i user tenant s"
  shows "\<exists>r w'. BuildKnowledgeOverviewTool ts tenant user i w = (Inr r, w')"
proof -
  let ?sv = "ts_base ts"
  from assms(2) obtain s where s: "tbl_first (accessible i user tenant) (subjects (w_db w)) = Some s"
    by (cases "tbl_first (accessible i user tenant) (subjects (w_db w))") (auto simp: tbl_first_None)
  obtain e1 where 1: "run_tx ?sv (\<lambda>_. GetAccessibleByID i user tenant) w = (Inr (subject.truncate s), w\<lparr>w_ext := e1\<rparr>)"
    by (rule read_quiet [OF assms(1), of "\<lambda>_. GetAccessibleByID i user tenant" w "subject.truncate s"])
      (simp_all add: GetAccessibleByID_def s)
  let ?w1 = "w\<lparr>w_ext := e1\<rparr>" and ?L = "\<lambda>_ :: int. ListByUser (sv_ilike ?sv) (indexed_filter tenant user i)"
  obtain e2 where 2: "run_tx ?sv ?L ?w1 = (Inr (listed tenant i (w_db ?w1),
      length (filter (listable tenant i (w_db ?w1)) (documents (w_db ?w1)))), ?w1\<lparr>w_ext := e2\<rparr>)"
    by (rule read_quiet [OF assms(1), of ?L ?w1]) (simp only: ListByUser_indexed)
  let ?w2 = "w\<lparr>w_ext := e2\<rparr>"
  obtain e3 where 3: "run_tx ?sv (\<lambda>_. chunk_ListBySubject tenant i) ?w2 = (Inr (subject_chunks tenant i (w_db ?w2)), ?w2\<lparr>w_ext := e3\<rparr>)"
    by (rule read_quiet [OF assms(1), of "\<lambda>_. chunk_ListBySubject tenant i" ?w2]) (simp only: chunk_ListBySubject_eq)
  from 1 2 3 show ?thesis
    by (simp add: BuildKnowledgeOverviewTool_def overview_documents_def overview_listed_def attempt_def
        return_def overview_answer_def Let_def)
qed

definition tools1 :: "unit tool_services" where
  "tools1 = \<lparr>ts_base = calm, ts_overview_order = (\<lambda>_ xs. xs), ts_match_order = (\<lambda>_ xs. xs)\<rparr>"

definition kb_indexed :: "unit world" where
  "kb_indexed = kb_world\<lparr>w_db := (w_db kb_world)\<lparr>documents := [document_insert_row (doc1\<lparr>doc_status := Indexed\<rparr>)]\<rparr>\<rparr>"

lemma tools1_simps [simp]: "ts_base tools1 = calm" "overview_order tools1"
  by (simp_all add: tools1_def overview_order_def)


section \<open>Navigation\<close>

text \<open>
  The navigation tool does not look at who asks: for one tenant and knowledge base every user gets
  the same answer in every state of the system, so that a private knowledge base, for which the
  search and the overview refuse other users, is open to them here.
\<close>

theorem navigation_ignores_the_user:
  assumes "trim_id u \<noteq> []" and "trim_id u' \<noteq> []"
  shows "documentNavigation tv (Some (req\<lparr>rq_user := u\<rparr>)) w = documentNavigation tv (Some (req\<lparr>rq_user := u'\<rparr>)) w"
proof -
  have "ListByUser ilike (indexed_filter tenant u i) = ListByUser ilike (indexed_filter tenant u' i)" for ilike tenant i
    by (rule ext) (simp add: ListByUser_indexed)
  with assms show ?thesis
    by (simp add: documentNavigation_def validateContext_def BuildDocumentNavigationTool_def buildDocumentNavigation_def)
qed

definition server1 :: "unit tools" where
  "server1 = \<lparr>tl_token = lit ''key'', tl_tools = tools1, tl_search = search1, tl_no_stages = (\<lambda>e. e), tl_stages = (\<lambda>_. [])\<rparr>"

definition nav_request :: "uid \<Rightarrow> navigation_request" where
  "nav_request user = \<lparr>rq_tenant = ''t1'', rq_user = user, rq_subject = ''s1'', rq_topic = lit ''text''\<rparr>"

lemma navigation_ignores_the_user_witness:
  "documentNavigation server1 (Some (nav_request ''u2'')) kb_indexed = documentNavigation server1 (Some (nav_request ''u1'')) kb_indexed \<and>
   fst (BuildKnowledgeOverviewTool tools1 ''t1'' ''u2'' ''s1'' kb_indexed) = Inl (Sentinel PgxNoRows)"
proof -
  have t: "trim_id ''u1'' \<noteq> []" "trim_id ''u2'' \<noteq> []" by code_simp+
  have "nav_request ''u2'' = nav_request ''u1''\<lparr>rq_user := ''u2''\<rparr>" and "nav_request ''u1'' = nav_request ''u1''\<lparr>rq_user := ''u1''\<rparr>"
    by (simp_all add: nav_request_def)
  with navigation_ignores_the_user [OF t(2,1), of server1 "nav_request ''u1''" kb_indexed]
  have "documentNavigation server1 (Some (nav_request ''u2'')) kb_indexed = documentNavigation server1 (Some (nav_request ''u1'')) kb_indexed"
    by metis
  moreover have "fst (BuildKnowledgeOverviewTool tools1 ''t1'' ''u2'' ''s1'' kb_indexed) = Inl (Sentinel PgxNoRows)"
    by code_simp
  ultimately show ?thesis by blast
qed

text \<open>The answer that the other user gets: the chunk of the private knowledge base.\<close>

lemma listed_indexed: "listed ''t1'' ''s1'' (w_db kb_indexed) = [scan_listed_document (document_insert_row (doc1\<lparr>doc_status := Indexed\<rparr>))]"
  by code_simp

theorem navigation_shows_private_chunks:
  "case fst (nav_answer tools1 (lit ''text'') (listed ''t1'' ''s1'' (w_db kb_indexed))
     (subject_chunks ''t1'' ''s1'' (w_db kb_indexed)) kb_indexed) of
     Inr r \<Rightarrow> map rc_id (snd r) = [''c1''] | Inl _ \<Rightarrow> False"
  by code_simp

section \<open>What complete coverage means\<close>

text \<open>
  The number of documents of an overview is that of the page, at most 200: an overview that says it
  is complete may leave out any number of older documents.
\<close>

theorem complete_coverage_is_of_a_page:
  assumes "overview_shows u (listed tenant i d) chunks r" and "cov_complete (tr_coverage (overview_response r))"
  shows "cov_total (tr_coverage (overview_response r)) \<le> 200 \<and>
    length (filter (listable tenant i d) (documents d)) - cov_covered (tr_coverage (overview_response r)) =
      length (filter (listable tenant i d) (documents d)) - 200"
  using assms by (auto simp: overview_shows_def overview_response_def Let_def length_listed newToolResponse_def)

end
