(* ===== verification/Embedding.thy ===== *)
theory Embedding
  imports Services
begin

text \<open>
  The embedding client: \<open>internal/infrastructure/embedding/embedder.go\<close> and \<open>openrouter.go\<close>. HTTP
  and JSON are a parameter: a response comes with its status, its body and what the decoder makes of
  it. The report of the usage to the tracer is left out.
\<close>

type_synonym bytes = "nat list"

text \<open>The UTF-8 encoding of a text, and the byte strings that PostgreSQL accepts as text.\<close>

definition utf8_rune :: "rune \<Rightarrow> bytes" where
  "utf8_rune r =
     (if r < 0x80 then [r]
      else if r < 0x800 then [0xC0 + r div 64, 0x80 + r mod 64]
      else if r < 0x10000 then [0xE0 + r div 4096, 0x80 + r div 64 mod 64, 0x80 + r mod 64]
      else [0xF0 + r div 262144, 0x80 + r div 4096 mod 64, 0x80 + r div 64 mod 64, 0x80 + r mod 64])"

definition utf8 :: "gostr \<Rightarrow> bytes" where
  "utf8 s = concat (map utf8_rune s)"

definition continuation :: "nat \<Rightarrow> bool" where
  "continuation b \<longleftrightarrow> 0x80 \<le> b \<and> b \<le> 0xBF"

fun valid_utf8 :: "bytes \<Rightarrow> bool" where
  "valid_utf8 [] \<longleftrightarrow> True"
| "valid_utf8 (a # bs) \<longleftrightarrow>
     (if a < 0x80 then valid_utf8 bs
      else if 0xC2 \<le> a \<and> a \<le> 0xDF then
        (case bs of b # cs \<Rightarrow> continuation b \<and> valid_utf8 cs | _ \<Rightarrow> False)
      else if 0xE0 \<le> a \<and> a \<le> 0xEF then
        (case bs of b # c # cs \<Rightarrow>
             continuation b \<and> (a = 0xE0 \<longrightarrow> 0xA0 \<le> b) \<and> (a = 0xED \<longrightarrow> b \<le> 0x9F) \<and>
             continuation c \<and> valid_utf8 cs
         | _ \<Rightarrow> False)
      else if 0xF0 \<le> a \<and> a \<le> 0xF4 then
        (case bs of b # c # d # cs \<Rightarrow>
             continuation b \<and> (a = 0xF0 \<longrightarrow> 0x90 \<le> b) \<and> (a = 0xF4 \<longrightarrow> b \<le> 0x8F) \<and>
             continuation c \<and> continuation d \<and> valid_utf8 cs
         | _ \<Rightarrow> False)
      else False)"

definition pg_text :: "bytes \<Rightarrow> bool" where
  "pg_text bs \<longleftrightarrow> valid_utf8 bs \<and> 0 \<notin> set bs"

record embed_conf =
  em_provider :: gostr
  em_model :: gostr
  em_dimension :: int
  em_api_key :: gostr
  em_base_url :: gostr

record embed_client =
  oc_key :: bytes
  oc_model :: gostr
  oc_base :: gostr
  oc_dimension :: int

record embed_request =
  er_url :: gostr
  er_key :: bytes
  er_model :: gostr
  er_input :: "gostr list"
  er_dimensions :: "int option"

record embed_response =
  eh_status :: int
  eh_body :: "gerr + gostr"
  eh_data :: "gerr + vector list"

type_synonym 'w embed_post = "embed_request \<Rightarrow> ('w, embed_response) prog"

definition providerName :: "unicode_tables \<Rightarrow> gostr \<Rightarrow> gostr" where
  "providerName u v = (let p = ToLower u (TrimSpace v) in if p = [] then lit ''openrouter'' else p)"

definition TrimRightSlash :: "gostr \<Rightarrow> gostr" where
  "TrimRightSlash s = rev (dropWhile (\<lambda>r. r = 47) (rev s))"

definition newOpenRouterClient :: "bytes \<Rightarrow> embed_conf \<Rightarrow> embed_client" where
  "newOpenRouterClient key conf =
     \<lparr>oc_key = key, oc_model = em_model conf, oc_base = TrimRightSlash (TrimSpace (em_base_url conf)),
      oc_dimension = em_dimension conf\<rparr>"

definition batch_request :: "embed_client \<Rightarrow> gostr list \<Rightarrow> embed_request" where
  "batch_request c texts =
     \<lparr>er_url = oc_base c @ lit ''/embeddings'', er_key = oc_key c,
       er_model = oc_model c, er_input = texts,
      er_dimensions = (if oc_dimension c > 0 then Some (oc_dimension c) else None)\<rparr>"

definition embedBatch :: "'w embed_post \<Rightarrow> embed_client \<Rightarrow> gostr list \<Rightarrow> ('w, vector list) prog" where
  "embedBatch post c texts =
     attempt (post (batch_request c texts)) (\<lambda>resp.
       case eh_body resp of
         Inl err \<Rightarrow> fail err
       | Inr body \<Rightarrow>
           if eh_status resp \<ge> 300 then
             fail (Plain (lit ''openrouter embedding request failed: status='' @ lit (Itoa (eh_status resp)) @
               lit '' body='' @ body))
           else case eh_data resp of
             Inl err \<Rightarrow> fail err
           | Inr data \<Rightarrow>
               if length data \<noteq> length texts then
                 fail (Plain (lit ''embedding response count mismatch: want='' @ lit (Itoa (int (length texts))) @
                   lit '' got='' @ lit (Itoa (int (length data)))))
               else if [] \<in> set data then fail (Plain (lit ''embedding vector is empty''))
               else return data)"

definition openRouterEmbeddingBatchSize :: nat where
  "openRouterEmbeddingBatchSize = 10"

function embed_loop ::
    "'w embed_post \<Rightarrow> embed_client \<Rightarrow> vector list \<Rightarrow> gostr list \<Rightarrow> ('w, vector list) prog" where
  "embed_loop post c vectors texts =
     (if texts = [] then return vectors
      else attempt (embedBatch post c (take openRouterEmbeddingBatchSize texts)) (\<lambda>batch.
        embed_loop post c (vectors @ batch) (drop openRouterEmbeddingBatchSize texts)))"
  by pat_completeness auto
termination
  by (relation "measure (\<lambda>(post, c, vectors, texts). length texts)")
    (auto simp: openRouterEmbeddingBatchSize_def)

declare embed_loop.simps [simp del]

definition client_Embed :: "'w embed_post \<Rightarrow> embed_client \<Rightarrow> gostr list \<Rightarrow> ('w, vector list) prog" where
  "client_Embed post c texts = embed_loop post c [] texts"

section \<open>The embedder\<close>

text \<open>
  \<open>NewEmbedder\<close>: the checked configuration,
    or an error. \<open>resolving\<close> says whether a resolver of
  keys was given; otherwise the configured key is needed.
\<close>

definition NewEmbedder :: "unicode_tables \<Rightarrow> embed_conf \<Rightarrow> bool \<Rightarrow> gerr + embed_conf" where
  "NewEmbedder u conf resolving =
     (let provider = providerName u (em_provider conf); model = TrimSpace (em_model conf);
          base = TrimRightSlash (TrimSpace (em_base_url conf))
      in if provider \<noteq> lit ''openrouter'' \<and> provider \<noteq> lit ''openai_compatible'' then
           Inl (Plain (lit ''embedding provider must be openrouter or openai_compatible''))
         else if model = [] then Inl (Plain (lit ''embedding model is required''))
         else if base = [] then Inl (Plain (lit ''embedding base url is required''))
         else if em_dimension conf < 1 then Inl (Plain (lit ''embedding dimension must be positive''))
         else if \<not> resolving \<and> TrimSpace (em_api_key conf) = [] then
           Inl (Plain (lit ''embedding api key is required''))
         else Inr (conf\<lparr>em_model := model, em_base_url := base\<rparr>))"

definition Embed ::
    "'w embed_post \<Rightarrow> (uid \<Rightarrow> ('w,
      bytes) prog) \<Rightarrow> embed_conf \<Rightarrow> uid \<Rightarrow> gostr list \<Rightarrow> ('w, vector list) prog" where
  "Embed post resolve conf tenant texts =
     attempt (resolve tenant) (\<lambda>key. client_Embed post (newOpenRouterClient key conf) texts)"

definition ValidateAPIKey :: "'w embed_post \<Rightarrow> embed_conf \<Rightarrow> gostr \<Rightarrow> ('w, unit) prog" where
  "ValidateAPIKey post conf key0 =
     (let key = TrimSpace key0
      in if key = [] then fail (Plain (lit ''API key is required''))
         else attempt (client_Embed post (newOpenRouterClient (utf8 key) conf)
             [lit ''Enterprise-RAG configuration check'']) (\<lambda>vectors.
           if length vectors \<noteq> 1 \<or> int (length (hd vectors)) \<noteq> em_dimension conf then
             fail (Plain (lit ''embedding model returned an unexpected vector dimension''))
           else return ()))"

section \<open>What is returned\<close>

lemma embedBatch_Inr:
  assumes "embedBatch post c texts w = (Inr vs, w')"
  shows "length vs = length texts \<and> [] \<notin> set vs"
  using assms unfolding embedBatch_def
  by (elim attempt_Inr) (auto split: sum.splits if_splits)

lemma embed_loop_Inr:
  "embed_loop post c vectors texts w = (Inr vs, w') \<Longrightarrow>
     \<exists>new. vs = vectors @ new \<and> length new = length texts \<and> [] \<notin> set new"
proof (induction post c vectors texts arbitrary: w rule: embed_loop.induct)
  case (1 post c vectors texts)
  show ?case
  proof (cases "texts = []")
    case True
    with "1.prems" show ?thesis by (simp add: embed_loop.simps)
  next
    case False
    with "1.prems" have "attempt (embedBatch post c (take openRouterEmbeddingBatchSize texts)) (\<lambda>batch.
        embed_loop post c (vectors @ batch) (drop openRouterEmbeddingBatchSize texts)) w = (Inr vs, w')"
      by (subst (asm) embed_loop.simps) simp
    then obtain batch w1 where b: "embedBatch post c (take openRouterEmbeddingBatchSize texts) w = (Inr batch, w1)"
      and rest: "embed_loop post c (vectors @ batch) (drop openRouterEmbeddingBatchSize texts) w1 = (Inr vs, w')"
      by (rule attempt_Inr)
    from "1.IH" [OF False rest] obtain new where "vs = vectors @ batch @ new"
      "length new = length texts - openRouterEmbeddingBatchSize" "[] \<notin> set new" by auto
    with embedBatch_Inr [OF b] show ?thesis by (intro exI [of _ "batch @ new"]) auto
  qed
qed

text \<open>One vector for every text, in order, and none is empty.\<close>

theorem Embed_one_vector_per_text:
  assumes "Embed post resolve conf tenant texts w = (Inr vs, w')"
  shows "length vs = length texts \<and> [] \<notin> set vs"
proof -
  from assms obtain key w1 where "embed_loop post (newOpenRouterClient key conf) [] texts w1 = (Inr vs, w')"
    unfolding Embed_def client_Embed_def by (rule attempt_Inr)
  from embed_loop_Inr [OF this] show ?thesis by simp
qed

end
