(* ===== verification/ModelSettings.thy ===== *)
theory ModelSettings
  imports Embedding Accounts
begin

text \<open>
  The model keys of the tenants: \<open>internal/model/modelsettings.go\<close>, the table
  \<open>tenant_model_settings\<close> with \<open>internal/repository/postgres/modelsettingsrepo.go\<close>,
  \<open>internal/service/modelsettings/service.go\<close>, the handlers of
  \<open>internal/logic/settings/modelservicesettingslogic.go\<close> and the credentials tool of
  \<open>internal/transport/internaltools/handler.go\<close>. SHA-256, AES-GCM and the random source are
  parameters; keys are byte strings.
\<close>

section \<open>The table\<close>

record tenant_model_settings =
  ms_tenant :: uid
  ms_provider :: gostr
  ms_ciphertext :: bytes
  ms_hint :: bytes
  ms_created_at :: int
  ms_updated_at :: int

record settings_store = account_store +
  model_settings :: "tenant_model_settings list"

type_synonym 'a stx = "settings_store \<Rightarrow> (gerr + 'a) \<times> settings_store"

definition on_accounts :: "'a atx \<Rightarrow> 'a stx" where
  "on_accounts q s =
     (case q (account_store.truncate s) of (r, a) \<Rightarrow> (r, s\<lparr>users := users a,
       tenants := tenants a\<rparr>))"

definition foreign_key_error :: gerr where
  "foreign_key_error = Plain (lit ''ERROR: insert or update on table violates foreign key constraint'')"

definition encoding_error :: gerr where
  "encoding_error = Plain (lit ''ERROR: invalid byte sequence for encoding UTF8'')"

definition GetByTenant :: "uid \<Rightarrow> tenant_model_settings stx" where
  "GetByTenant tenant s =
     (if tenant = [] then (Inl uuid_error, s)
      else case tbl_first (\<lambda>r. ms_tenant r = tenant) (model_settings s) of
        None \<Rightarrow> (Inl (Sentinel PgxNoRows), s)
      | Some r \<Rightarrow> (Inr r, s))"

definition settings_row :: "int \<Rightarrow> tenant_model_settings \<Rightarrow> tenant_model_settings" where
  "settings_row now r = r\<lparr>ms_created_at := now, ms_updated_at := now\<rparr>"

definition replace_settings :: "int \<Rightarrow> tenant_model_settings \<Rightarrow> tenant_model_settings \<Rightarrow> tenant_model_settings" where
  "replace_settings now new r =
     r\<lparr>ms_provider := ms_provider new, ms_ciphertext := ms_ciphertext new, ms_hint := ms_hint new,
       ms_updated_at := now\<rparr>"

definition Upsert :: "int \<Rightarrow> tenant_model_settings \<Rightarrow> unit stx" where
  "Upsert now new s =
     (if ms_tenant new = [] then (Inl uuid_error, s)
      else if \<not> pg_text (ms_hint new) then (Inl encoding_error, s)
      else if length (ms_provider new) > 64 then (Inl varchar_error, s)
      else if tbl_affected (\<lambda>r. ms_tenant r = ms_tenant new) (model_settings s) \<noteq> 0 then
        (Inr (), s\<lparr>model_settings :=
           tbl_update (\<lambda>r. ms_tenant r = ms_tenant new) (replace_settings now new) (model_settings s)\<rparr>)
      else if tbl_affected (\<lambda>t. tn_id t = ms_tenant new) (tenants s) = 0 then (Inl foreign_key_error, s)
      else (Inr (), s\<lparr>model_settings := model_settings s @ [settings_row now new]\<rparr>))"

section \<open>The service\<close>

text \<open>
  \<open>sg_seal key nonce plaintext data\<close> and \<open>sg_open key nonce ciphertext data\<close> are AES-GCM with the
  key; \<open>sg_random n\<close> reads \<open>n\<close> random bytes.
\<close>

record 'e settings_services =
  sg_pg :: "'e \<Rightarrow> settings_store \<Rightarrow> pg_fault \<times> 'e \<times> settings_store"
  sg_now :: "'e \<Rightarrow> int"
  sg_sha256 :: "bytes \<Rightarrow> bytes"
  sg_seal :: "bytes \<Rightarrow> bytes \<Rightarrow> bytes \<Rightarrow> bytes \<Rightarrow> bytes"
  sg_open :: "bytes \<Rightarrow> bytes \<Rightarrow> bytes \<Rightarrow> bytes \<Rightarrow> gerr + bytes"
  sg_random :: "nat \<Rightarrow> 'e \<Rightarrow> (gerr + bytes) \<times> 'e"
  sg_post :: "embed_request \<Rightarrow> 'e \<Rightarrow> (gerr + embed_response) \<times> 'e"
  sg_unicode :: unicode_tables
  sg_embedding :: embed_conf
  sg_embedder :: embed_conf
  sg_service_token :: gostr

record 'e settings_world =
  sw_db :: settings_store
  sw_ext :: 'e

type_synonym ('e, 'a) settings_act = "('e settings_world, 'a) prog"

definition settings_tx :: "'e settings_services \<Rightarrow> (int \<Rightarrow> 'a stx) \<Rightarrow> ('e, 'a) settings_act" where
  "settings_tx sv q w =
     (case sg_pg sv (sw_ext w) (sw_db w) of
        (Refused x, e, d) \<Rightarrow> (Inl x, w\<lparr>sw_db := d, sw_ext := e\<rparr>)
      | (Executed, e, d) \<Rightarrow>
          (fst (q (sg_now sv e) d), w\<lparr>sw_db := snd (q (sg_now sv e) d), sw_ext := e\<rparr>)
      | (ReplyLost x, e, d) \<Rightarrow>
          (Inl x, w\<lparr>sw_db := snd (q (sg_now sv e) d), sw_ext := e\<rparr>))"

definition settings_ext :: "('e \<Rightarrow> (gerr + 'a) \<times> 'e) \<Rightarrow> ('e,
  'a) settings_act" where
  "settings_ext f w = (fst (f (sw_ext w)), w\<lparr>sw_ext := snd (f (sw_ext w))\<rparr>)"

text \<open>The service keeps the fallback configuration and the key of its AEAD.\<close>

record model_service =
  mv_fallback :: embed_conf
  mv_key :: bytes

definition encryptionPurpose :: gostr where
  "encryptionPurpose = lit ''enterprise-rag/tenant-model-api-key/v1''"

text \<open>\<open>NewService\<close>: AES takes keys of 16, 24 or 32 bytes; GCM takes any AES cipher.\<close>

definition modelsettings_NewService ::
    "'e settings_services \<Rightarrow> embed_conf \<Rightarrow> gostr \<Rightarrow> gerr + model_service" where
  "modelsettings_NewService sv embedding accessSecret =
     (let key = sg_sha256 sv (utf8 (encryptionPurpose @ [0] @ TrimSpace accessSecret))
      in if length key \<notin> {16, 24, 32} then
           Inl (Wrapped (lit ''create model settings cipher'')
             (Plain (lit ''crypto/aes: invalid key size '' @ lit (Itoa (int (length key))))))
         else Inr \<lparr>mv_fallback = embedding, mv_key = key\<rparr>)"

definition gcm_nonce_size :: nat where
  "gcm_nonce_size = 12"

definition ErrAPIKeyNotConfigured :: gerr where
  "ErrAPIKeyNotConfigured = Plain (lit ''model API key is not configured'')"

definition IsConfiguredSecret :: "gostr \<Rightarrow> bool" where
  "IsConfiguredSecret v \<longleftrightarrow> TrimSpace v \<noteq> [] \<and> \<not> HasPrefix (TrimSpace v) (lit ''replace-with-'')"

definition bullets :: bytes where
  "bullets = utf8 [0x2022, 0x2022, 0x2022, 0x2022]"

definition APIKeyHint :: "gostr \<Rightarrow> bytes" where
  "APIKeyHint v =
     (let b = utf8 (TrimSpace v) in if length b \<le> 4 then bullets else bullets @ drop (length b - 4) b)"

definition encrypt :: "'e settings_services \<Rightarrow> model_service \<Rightarrow> uid \<Rightarrow> bytes \<Rightarrow> ('e, bytes) settings_act" where
  "encrypt sv m tenant plaintext =
     attempt (wrap_error (lit ''create model settings nonce'') (settings_ext (sg_random sv gcm_nonce_size)))
       (\<lambda>nonce. return (nonce @ sg_seal sv (mv_key m) nonce plaintext (utf8 (lit tenant))))"

definition decrypt :: "'e settings_services \<Rightarrow> model_service \<Rightarrow> uid \<Rightarrow> bytes \<Rightarrow> gerr + bytes" where
  "decrypt sv m tenant ciphertext =
     (if length ciphertext < gcm_nonce_size then Inl (Plain (lit ''invalid encrypted value''))
      else sg_open sv (mv_key m) (take gcm_nonce_size ciphertext) (drop gcm_nonce_size ciphertext) (utf8 (lit tenant)))"

record settings_status =
  ss_configured :: bool
  ss_source :: string
  ss_hint :: bytes

definition fallback_status :: "model_service \<Rightarrow> settings_status" where
  "fallback_status m =
     (if IsConfiguredSecret (em_api_key (mv_fallback m)) then
        \<lparr>ss_configured = True, ss_source = ''environment'',
          ss_hint = APIKeyHint (em_api_key (mv_fallback m))\<rparr>
      else \<lparr>ss_configured = False, ss_source = ''none'', ss_hint = []\<rparr>)"

definition Status :: "'e settings_services \<Rightarrow> model_service \<Rightarrow> uid \<Rightarrow> ('e, settings_status) settings_act" where
  "Status sv m tenant w =
     (case settings_tx sv (\<lambda>_. GetByTenant tenant) w of
        (Inr r, w') \<Rightarrow> (Inr \<lparr>ss_configured = True, ss_source = ''page'',
          ss_hint = ms_hint r\<rparr>, w')
      | (Inl err, w') \<Rightarrow> (if errors_is err PgxNoRows then (Inr (fallback_status m),
        w') else (Inl err, w')))"

definition fallback_key :: "model_service \<Rightarrow> gerr + bytes" where
  "fallback_key m =
     (if IsConfiguredSecret (em_api_key (mv_fallback m)) then Inr (utf8 (TrimSpace (em_api_key (mv_fallback m))))
      else Inl ErrAPIKeyNotConfigured)"

definition stored_key :: "'e settings_services \<Rightarrow> model_service \<Rightarrow> uid \<Rightarrow> tenant_model_settings \<Rightarrow> gerr + bytes" where
  "stored_key sv m tenant r =
     (case decrypt sv m tenant (ms_ciphertext r) of
        Inl err \<Rightarrow> Inl (Wrapped (lit ''decrypt tenant model API key'') err) | Inr key \<Rightarrow> Inr key)"

definition ResolveAPIKey :: "'e settings_services \<Rightarrow> model_service \<Rightarrow> uid \<Rightarrow> ('e, bytes) settings_act" where
  "ResolveAPIKey sv m tenant w =
     (case settings_tx sv (\<lambda>_. GetByTenant tenant) w of
        (Inr r, w') \<Rightarrow> (stored_key sv m tenant r, w')
      | (Inl err, w') \<Rightarrow> (if errors_is err PgxNoRows then (fallback_key m,
        w') else (Inl err, w')))"

text \<open>The time stamps are those of the database.\<close>

definition saved_settings ::
    "'e settings_services \<Rightarrow> model_service \<Rightarrow> uid \<Rightarrow> gostr \<Rightarrow> bytes \<Rightarrow> tenant_model_settings" where
  "saved_settings sv m tenant apiKey ciphertext =
     \<lparr>ms_tenant = tenant, ms_provider = providerName (sg_unicode sv) (em_provider (mv_fallback m)),
      ms_ciphertext = ciphertext, ms_hint = APIKeyHint apiKey, ms_created_at = 0, ms_updated_at = 0\<rparr>"

definition Save :: "'e settings_services \<Rightarrow> model_service \<Rightarrow> uid \<Rightarrow> gostr \<Rightarrow> ('e, unit) settings_act" where
  "Save sv m tenant apiKey =
     (if \<not> IsConfiguredSecret (TrimSpace apiKey) then fail ErrAPIKeyNotConfigured
      else attempt (encrypt sv m tenant (utf8 (TrimSpace apiKey))) (\<lambda>ciphertext.
        settings_tx sv (\<lambda>now. Upsert now (saved_settings sv m tenant (TrimSpace apiKey) ciphertext))))"

section \<open>The handlers\<close>

record settings_resp =
  sr_provider :: gostr
  sr_base_url :: gostr
  sr_model :: gostr
  sr_dimension :: int
  sr_configured :: bool
  sr_hint :: bytes
  sr_source :: string

definition settings_response :: "'e settings_services \<Rightarrow> settings_status \<Rightarrow> settings_resp" where
  "settings_response sv st =
     \<lparr>sr_provider = providerName (sg_unicode sv) (em_provider (sg_embedding sv)),
      sr_base_url = em_base_url (sg_embedding sv), sr_model = em_model (sg_embedding sv),
      sr_dimension = em_dimension (sg_embedding sv), sr_configured = ss_configured st,
      sr_hint = ss_hint st, sr_source = ss_source st\<rparr>"

definition answer_status ::
    "'e settings_services \<Rightarrow> model_service \<Rightarrow> uid \<Rightarrow> ('e,
      settings_resp) settings_act" where
  "answer_status sv m tenant = attempt (Status sv m tenant) (\<lambda>st. return (settings_response sv st))"

definition ModelServiceSettings ::
    "'e settings_services \<Rightarrow> model_service \<Rightarrow> user_session option \<Rightarrow> ('e, settings_resp) settings_act" where
  "ModelServiceSettings sv m ctx =
     attempt (current_user ctx) (\<lambda>session. answer_status sv m (us_tenant session))"

definition ErrInvalidAPIKey :: gerr where
  "ErrInvalidAPIKey = Plain [65, 80, 73, 32, 75, 101, 121, 32, 26657, 39564, 22833, 36133,
    65292, 35831, 30830, 35748, 32, 75, 101, 121, 32, 26377, 25928, 19988, 36134, 25143, 39069,
      24230, 20805, 36275]"

text \<open>Whatever goes wrong in the validation, the answer is that the key is invalid.\<close>

definition validate_key :: "'e settings_services \<Rightarrow> gostr \<Rightarrow> ('e,
  unit) settings_act" where
  "validate_key sv apiKey w =
     (case ValidateAPIKey (\<lambda>req. settings_ext (sg_post sv req)) (sg_embedder sv) apiKey w of
        (Inl _, w') \<Rightarrow> (Inl ErrInvalidAPIKey, w') | (Inr u, w') \<Rightarrow> (Inr u, w'))"

definition settings_Update ::
    "'e settings_services \<Rightarrow> model_service \<Rightarrow> user_session option \<Rightarrow> gostr \<Rightarrow> ('e, settings_resp) settings_act" where
  "settings_Update sv m ctx key0 =
     attempt (current_user ctx) (\<lambda>session.
     attempt (check_that (length (utf8 (TrimSpace key0)) \<ge> 8 \<and> IsConfiguredSecret (TrimSpace key0))
         ErrInvalidAPIKey) (\<lambda>_.
     attempt (validate_key sv (TrimSpace key0)) (\<lambda>_.
     attempt (Save sv m (us_tenant session) (TrimSpace key0)) (\<lambda>_.
       answer_status sv m (us_tenant session)))))"

text \<open>The tool that hands the key of a tenant to the agent.\<close>

record credentials =
  cr_provider :: gostr
  cr_base_url :: gostr
  cr_api_key :: bytes

datatype credentials_reply = CredentialsError int gostr | Credentials credentials

definition tenant_key ::
    "'e settings_services \<Rightarrow> model_service \<Rightarrow> uid \<Rightarrow> 'e settings_world \<Rightarrow> credentials_reply \<times> 'e settings_world" where
  "tenant_key sv m tenant w =
     (case ResolveAPIKey sv m tenant w of
        (Inl _, w') \<Rightarrow> (CredentialsError 422 (lit ''model API key is not configured''), w')
      | (Inr key, w') \<Rightarrow>
          (Credentials \<lparr>cr_provider = em_provider (sg_embedding sv),
            cr_base_url = em_base_url (sg_embedding sv),
             cr_api_key = key\<rparr>, w'))"

definition credentials_forbidden :: credentials_reply where
  "credentials_forbidden = CredentialsError 403 (lit ''model credentials are not available for this context'')"

text \<open>The body is what the strict decoder makes of it: tenant and user.\<close>

definition modelCredentials ::
    "'e settings_services \<Rightarrow> model_service \<Rightarrow> (uid \<times> uid) option \<Rightarrow> 'e settings_world
       \<Rightarrow> credentials_reply \<times> 'e settings_world" where
  "modelCredentials sv m body w =
     (case body of
        None \<Rightarrow> (CredentialsError 400 (lit ''invalid request body''), w)
      | Some (tenant0, user0) \<Rightarrow>
          (let tenant = trim_id tenant0; user = trim_id user0
           in if tenant = [] \<or> user = [] then (CredentialsError 400 (lit ''tenant_id and user_id are required''), w)
              else case settings_tx sv (\<lambda>_. on_accounts (user_GetByID user)) w of
                (Inl _, w') \<Rightarrow> (credentials_forbidden, w')
              | (Inr u, w') \<Rightarrow>
                  if user_tenant u \<noteq> tenant then (credentials_forbidden, w')
                  else tenant_key sv m tenant w'))"

definition authorized_credentials ::
    "'e settings_services \<Rightarrow> model_service \<Rightarrow> gostr \<Rightarrow> (uid \<times> uid) option \<Rightarrow> 'e settings_world
       \<Rightarrow> credentials_reply \<times> 'e settings_world" where
  "authorized_credentials sv m provided body w =
     (if provided \<noteq> sg_service_token sv then (CredentialsError 401 (lit ''unauthorized''), w)
      else modelCredentials sv m body w)"

end
