(* ===== verification/ModelProperties.thy ===== *)
theory ModelProperties
  imports ModelSettings AccountProperties Fixtures
begin

text \<open>
  The properties of the model keys: a key that was saved is the key that is resolved, and the
  credentials tool hands a key only to its own tenant.
\<close>

section \<open>What AES-GCM promises\<close>

text \<open>Opening what was sealed under the same key, nonce and data; a read fills the whole buffer.\<close>

definition gcm_library :: "'e settings_services \<Rightarrow> bool" where
  "gcm_library sv \<longleftrightarrow>
     (\<forall>key nonce text data. length nonce = gcm_nonce_size \<longrightarrow>
        sg_open sv key nonce (sg_seal sv key nonce text data) data = Inr text) \<and>
     (\<forall>n e b e'. sg_random sv n e = (Inr b, e') \<longrightarrow> length b = n)"

section \<open>How the table changes\<close>

definition sealed_key :: "'e settings_services \<Rightarrow> model_service \<Rightarrow> uid \<Rightarrow> gostr \<Rightarrow> bytes \<Rightarrow> bytes" where
  "sealed_key sv m tenant key nonce =
     nonce @ sg_seal sv (mv_key m) nonce (utf8 (TrimSpace key)) (utf8 (lit tenant))"

definition tenant_row_of :: "uid \<Rightarrow> settings_store \<Rightarrow> tenant_model_settings option" where
  "tenant_row_of tenant s = tbl_first (\<lambda>r. ms_tenant r = tenant) (model_settings s)"

text \<open>
  The transactions of the program: keys saved for the tenants of a set, and account requests.
\<close>

inductive settings_step :: "'e settings_services \<Rightarrow> model_service \<Rightarrow> uid set \<Rightarrow> settings_store \<Rightarrow> settings_store \<Rightarrow> bool"
  for sv m T where
  saved: "tenant \<in> T \<Longrightarrow> IsConfiguredSecret key \<Longrightarrow> length nonce = gcm_nonce_size \<Longrightarrow>
     settings_step sv m T s
       (snd (Upsert now (saved_settings sv m tenant (TrimSpace key) (sealed_key sv m tenant key nonce)) s))"
| account: "account_step (account_store.truncate s) a \<Longrightarrow>
     settings_step sv m T s (s\<lparr>users := users a, tenants := tenants a\<rparr>)"

lemma tbl_affected_image: "tbl_affected (\<lambda>r. k r = v) rows = 0 \<longleftrightarrow> v \<notin> k ` set rows"
  by (auto simp: tbl_affected_zero)

lemma tenant_row_None:
  "tbl_affected (\<lambda>r. ms_tenant r = t) (model_settings s) = 0 \<longleftrightarrow> tenant_row_of t s = None"
  by (simp add: tenant_row_of_def tbl_first_None tbl_affected_zero)

lemma Upsert_cases:
  obtains (failed) err where "Upsert now new s = (Inl err, s)"
    | (replaced) "Upsert now new s = (Inr (), s\<lparr>model_settings :=
         tbl_update (\<lambda>r. ms_tenant r = ms_tenant new) (replace_settings now new) (model_settings s)\<rparr>)"
      "tenant_row_of (ms_tenant new) s \<noteq> None"
    | (inserted) "Upsert now new s = (Inr (), s\<lparr>model_settings := model_settings s @ [settings_row now new]\<rparr>)"
      "tenant_row_of (ms_tenant new) s = None" "ms_tenant new \<in> tn_id ` set (tenants s)"
proof -
  let ?bad = "ms_tenant new = [] \<or> \<not> pg_text (ms_hint new) \<or> length (ms_provider new) > 64"
  consider (bad) "?bad" | (row) "\<not> ?bad" "tenant_row_of (ms_tenant new) s \<noteq> None"
    | (fresh) "\<not> ?bad" "tenant_row_of (ms_tenant new) s = None" "ms_tenant new \<in> tn_id ` set (tenants s)"
    | (missing) "\<not> ?bad" "tenant_row_of (ms_tenant new) s = None" "ms_tenant new \<notin> tn_id ` set (tenants s)"
    by blast
  then show thesis
  proof cases
    case bad
    then have "\<exists>err. Upsert now new s = (Inl err, s)" by (auto simp: Upsert_def)
    then show thesis using failed by blast
  next
    case row
    then show thesis by (intro replaced) (simp_all add: Upsert_def tenant_row_None)
  next
    case fresh
    then show thesis by (intro inserted) (simp_all add: Upsert_def tenant_row_None tbl_affected_image [of tn_id])
  next
    case missing
    then show thesis by (intro failed) (simp_all add: Upsert_def tenant_row_None tbl_affected_image [of tn_id])
  qed
qed

lemma replace_settings_simps [simp]:
  "ms_tenant (replace_settings now new r) = ms_tenant r"
  "ms_ciphertext (replace_settings now new r) = ms_ciphertext new"
  "ms_hint (replace_settings now new r) = ms_hint new"
  "ms_tenant (settings_row now new) = ms_tenant new"
  "ms_ciphertext (settings_row now new) = ms_ciphertext new"
  "ms_hint (settings_row now new) = ms_hint new"
  by (simp_all add: replace_settings_def settings_row_def)

lemma tbl_first_append: "tbl_first P (xs @ ys) = (case tbl_first P xs of None \<Rightarrow> tbl_first P ys | r \<Rightarrow> r)"
  by (induction xs) (auto simp: tbl_simps)

lemma tenant_row_of_Upsert:
  "tenant_row_of t (snd (Upsert now new s)) =
     (if fst (Upsert now new s) = Inr () \<and> t = ms_tenant new then
        Some (case tenant_row_of t s of None \<Rightarrow> settings_row now new | Some r \<Rightarrow> replace_settings now new r)
      else tenant_row_of t s)"
proof (cases rule: Upsert_cases [of now new s])
  case replaced
  have "tenant_row_of t (snd (Upsert now new s)) = map_option (\<lambda>r. if t = ms_tenant new \<and> True
      then replace_settings now new r else r) (tenant_row_of t s)"
    using tbl_first_update [of ms_tenant "replace_settings now new" t "ms_tenant new" "\<lambda>_. True"]
    by (simp add: tenant_row_of_def replaced(1))
  with replaced show ?thesis by (cases "tenant_row_of t s") auto
next
  case inserted
  then show ?thesis
    by (auto simp: tenant_row_of_def tbl_first_append tbl_simps split: option.splits)
qed simp

lemma tenant_row_of_accounts [simp]: "tenant_row_of t (s\<lparr>users := u, tenants := v\<rparr>) = tenant_row_of t s"
  by (simp add: tenant_row_of_def)

lemma others_keep:
  "(settings_step sv m (- {t}))\<^sup>*\<^sup>* s s' \<Longrightarrow> tenant_row_of t s' = tenant_row_of t s"
proof (induction rule: rtranclp_induct)
  case (step x y)
  from step.hyps(2) have "tenant_row_of t y = tenant_row_of t x"
    by cases (auto simp: tenant_row_of_Upsert saved_settings_def)
  with step.IH show ?case by simp
qed simp

section \<open>Every row holds a sealed key of its tenant\<close>

definition sealed :: "'e settings_services \<Rightarrow> model_service \<Rightarrow> tenant_model_settings \<Rightarrow> bool" where
  "sealed sv m r \<longleftrightarrow> (\<exists>key nonce. IsConfiguredSecret key \<and> length nonce = gcm_nonce_size \<and>
     ms_ciphertext r = sealed_key sv m (ms_tenant r) key nonce)"

definition settings_ok :: "'e settings_services \<Rightarrow> model_service \<Rightarrow> settings_store \<Rightarrow> bool" where
  "settings_ok sv m s \<longleftrightarrow> (\<forall>r \<in> set (model_settings s). sealed sv m r)"

lemma settings_step_ok:
  assumes "settings_step sv m T s s'" and "settings_ok sv m s"
  shows "settings_ok sv m s'"
  using assms(1)
proof cases
  case (saved tenant key nonce now)
  let ?new = "saved_settings sv m tenant (TrimSpace key) (sealed_key sv m tenant key nonce)"
  have new: "sealed sv m (settings_row now ?new)" "ms_tenant r = tenant \<Longrightarrow> sealed sv m (replace_settings now ?new r)" for r
    using saved by (auto simp: sealed_def saved_settings_def)
  have "ms_tenant ?new = tenant" by (simp add: saved_settings_def)
  with saved(1) assms(2) new show ?thesis
    by (cases rule: Upsert_cases [of now ?new s]) (auto simp: settings_ok_def set_tbl_update)
qed (use assms(2) in \<open>simp add: settings_ok_def\<close>)

interpretation settings: invariant_system "settings_step sv m T" "settings_ok sv m" for sv m T
  by unfold_locales (rule settings_step_ok)

lemma stored_key_sealed:
  assumes "gcm_library sv" and "ms_ciphertext r = sealed_key sv m tenant key nonce" and "length nonce = gcm_nonce_size"
  shows "stored_key sv m tenant r = Inr (utf8 (TrimSpace key))"
  using assms by (simp add: stored_key_def decrypt_def sealed_key_def gcm_library_def)

section \<open>The requests\<close>

text \<open>A lost connection is not the error of an empty result.\<close>

fun fault_error :: "pg_fault \<Rightarrow> gerr option" where
  "fault_error Executed = None"
| "fault_error (Refused x) = Some x"
| "fault_error (ReplyLost x) = Some x"

definition connection_fault :: "pg_fault \<Rightarrow> bool" where
  "connection_fault f \<longleftrightarrow> (case fault_error f of None \<Rightarrow> True | Some x \<Rightarrow> \<not> errors_is x PgxNoRows)"

definition settings_disciplined :: "'e settings_services \<Rightarrow> model_service \<Rightarrow> uid set \<Rightarrow> bool" where
  "settings_disciplined sv m T \<longleftrightarrow>
     (\<forall>e d f e' d'. sg_pg sv e d = (f, e', d') \<longrightarrow>
        connection_fault f \<and> (settings_step sv m T)\<^sup>*\<^sup>* d d')"

lemma settings_tx_Inr:
  assumes "settings_tx sv q w = (Inr a, w')" and "settings_disciplined sv m T"
  obtains now d where "(settings_step sv m T)\<^sup>*\<^sup>* (sw_db w) d" and "q now d = (Inr a, sw_db w')"
proof -
  obtain f e d where pg: "sg_pg sv (sw_ext w) (sw_db w) = (f, e, d)" by (metis prod_cases3)
  have f: "f = Executed" using assms(1) by (cases f) (simp_all add: settings_tx_def pg)
  from assms(1) have "fst (q (sg_now sv e) d) = Inr a" "sw_db w' = snd (q (sg_now sv e) d)"
    by (auto simp: settings_tx_def pg f)
  then have "q (sg_now sv e) d = (Inr a, sw_db w')" by (metis prod.collapse)
  moreover from pg assms(2) have "(settings_step sv m T)\<^sup>*\<^sup>* (sw_db w) d"
    unfolding settings_disciplined_def by blast
  ultimately show thesis by (intro that)
qed

lemma GetByTenant_eq:
  "GetByTenant t s = (if t = [] then Inl uuid_error else
     case tenant_row_of t s of None \<Rightarrow> Inl (Sentinel PgxNoRows) | Some r \<Rightarrow> Inr r, s)"
  by (simp add: GetByTenant_def tenant_row_of_def split: option.split)

lemma ResolveAPIKey_Inr:
  assumes "ResolveAPIKey sv m t w = (Inr key, w')" and "settings_disciplined sv m T"
  obtains s where "(settings_step sv m T)\<^sup>*\<^sup>* (sw_db w) s"
    and "(case tenant_row_of t s of None \<Rightarrow> fallback_key m | Some r \<Rightarrow> stored_key sv m t r) = Inr key"
proof -
  obtain f e d where pg: "sg_pg sv (sw_ext w) (sw_db w) = (f, e, d)" by (metis prod_cases3)
  have d: "(settings_step sv m T)\<^sup>*\<^sup>* (sw_db w) d" and f: "connection_fault f"
    using pg assms(2) unfolding settings_disciplined_def by blast+
  show thesis
  proof (cases f)
    case Executed
    with assms(1) have "(case tenant_row_of t d of None \<Rightarrow> fallback_key m | Some r \<Rightarrow> stored_key sv m t r) = Inr key"
      by (auto simp: ResolveAPIKey_def settings_tx_def pg GetByTenant_eq uuid_error_def split: option.splits if_splits)
    with d show thesis by (rule that)
  qed (use assms(1) f in \<open>auto simp: ResolveAPIKey_def settings_tx_def pg connection_fault_def split: if_splits\<close>)
qed

text \<open>A successful save stored the sealed key.\<close>

lemma Save_Inr:
  assumes "Save sv m t key w = (Inr u, w')" and "gcm_library sv"
  shows "\<exists>r nonce. tenant_row_of t (sw_db w') = Some r \<and> ms_hint r = APIKeyHint key \<and>
    length nonce = gcm_nonce_size \<and> ms_ciphertext r = sealed_key sv m t key nonce"
proof -
  let ?new = "saved_settings sv m t (TrimSpace key)"
  from assms(1) obtain c w1 where enc: "encrypt sv m t (utf8 (TrimSpace key)) w = (Inr c, w1)"
    and tx: "settings_tx sv (\<lambda>now. Upsert now (?new c)) w1 = (Inr u, w')"
    unfolding Save_def by (auto split: if_splits elim: attempt_Inr)
  from enc obtain nonce w2 where "settings_ext (sg_random sv gcm_nonce_size) w = (Inr nonce, w2)"
    and c: "c = sealed_key sv m t key nonce"
    unfolding encrypt_def sealed_key_def by (elim attempt_Inr) simp
  then have n: "length nonce = gcm_nonce_size"
    using assms(2) unfolding gcm_library_def settings_ext_def by (metis fst_conv prod.collapse Pair_inject)
  obtain f e d where pg: "sg_pg sv (sw_ext w1) (sw_db w1) = (f, e, d)" by (metis prod_cases3)
  have f: "f = Executed" using tx by (cases f) (simp_all add: settings_tx_def pg)
  from tx have "fst (Upsert (sg_now sv e) (?new c) d) = Inr ()" "sw_db w' = snd (Upsert (sg_now sv e) (?new c) d)"
    by (auto simp: settings_tx_def pg f)
  then have "\<exists>r. tenant_row_of t (sw_db w') = Some r \<and> ms_hint r = APIKeyHint (TrimSpace key) \<and> ms_ciphertext r = c"
    by (simp add: tenant_row_of_Upsert saved_settings_def split: option.split)
  with c n show ?thesis by (auto simp: APIKeyHint_def)
qed

lemma answer_status_Inr:
  assumes "answer_status sv m t w = (Inr resp, w')" and "settings_disciplined sv m (- {t})"
    and "tenant_row_of t (sw_db w) = Some r" 
  shows "tenant_row_of t (sw_db w') = Some r \<and> sr_configured resp \<and> sr_source resp = ''page'' \<and> sr_hint resp = ms_hint r"
proof -
  from assms(1) obtain st where st: "Status sv m t w = (Inr st, w')" and resp: "resp = settings_response sv st"
    unfolding answer_status_def by (elim attempt_Inr) simp
  obtain f e d where pg: "sg_pg sv (sw_ext w) (sw_db w) = (f, e, d)" by (metis prod_cases3)
  have "(settings_step sv m (- {t}))\<^sup>*\<^sup>* (sw_db w) d" and f: "connection_fault f"
    using pg assms(2) unfolding settings_disciplined_def by blast+
  then have d: "tenant_row_of t d = Some r" using others_keep assms(3) by metis
  show ?thesis
  proof (cases f)
    case Executed
    with st show ?thesis
      by (auto simp: Status_def settings_tx_def pg GetByTenant_eq d resp settings_response_def uuid_error_def split: if_splits)
  qed (use st f in \<open>auto simp: Status_def settings_tx_def pg connection_fault_def split: if_splits\<close>)
qed

section \<open>A saved key is resolved\<close>

lemma settings_Update_Inr:
  assumes "settings_Update sv m (Some session) key w = (Inr resp, w')" and "gcm_library sv"
    and "settings_disciplined sv m (- {us_tenant session})"
  shows "us_tenant session \<noteq> []"
    and "\<exists>r nonce. tenant_row_of (us_tenant session) (sw_db w') = Some r \<and> length nonce = gcm_nonce_size \<and>
    ms_ciphertext r = sealed_key sv m (us_tenant session) key nonce \<and>
    sr_configured resp \<and> sr_source resp = ''page'' \<and> sr_hint resp = APIKeyHint key"
    and "\<exists>v v'. ValidateAPIKey (\<lambda>req. settings_ext (sg_post sv req)) (sg_embedder sv) (TrimSpace key) v = (Inr (), v')"
proof -
  let ?t = "us_tenant session"
  from assms(1) show "?t \<noteq> []"
    unfolding settings_Update_def
    by (elim attempt_Inr) (auto simp: current_user_def CurrentUser_def split: if_splits)
  from assms(1) obtain w1 w2 w3 where valid: "validate_key sv (TrimSpace key) w1 = (Inr (), w2)"
    and save: "Save sv m ?t (TrimSpace key) w2 = (Inr (), w3)" and ans: "answer_status sv m ?t w3 = (Inr resp, w')"
    unfolding settings_Update_def by (elim attempt_Inr) (auto simp: current_user_def CurrentUser_def split: if_splits)
  from valid show "\<exists>v v'. ValidateAPIKey (\<lambda>req. settings_ext (sg_post sv req)) (sg_embedder sv) (TrimSpace key) v = (Inr (), v')"
    by (auto simp: validate_key_def split: prod.splits sum.splits)
  from Save_Inr [OF save assms(2)] answer_status_Inr [OF ans assms(3)]
  show "\<exists>r nonce. tenant_row_of ?t (sw_db w') = Some r \<and> length nonce = gcm_nonce_size \<and>
    ms_ciphertext r = sealed_key sv m ?t key nonce \<and>
    sr_configured resp \<and> sr_source resp = ''page'' \<and> sr_hint resp = APIKeyHint key"
    by (auto simp: sealed_key_def APIKeyHint_def)
qed

text \<open>A cipher that reverses the text, and an embedding service that accepts every key.\<close>

definition model_conf :: embed_conf where
  "model_conf = \<lparr>em_provider = [], em_model = lit ''m'', em_dimension = 2, em_api_key = lit ''fallback'', em_base_url = lit ''u''\<rparr>"

definition calm_models :: "nat settings_services" where
  "calm_models = \<lparr>sg_pg = (\<lambda>e d. (Executed, e, d)), sg_now = (\<lambda>_. 1500), sg_sha256 = (\<lambda>b. replicate 32 0),
     sg_seal = (\<lambda>k n p a. rev p), sg_open = (\<lambda>k n c a. Inr (rev c)), sg_random = (\<lambda>n e. (Inr (replicate n 7), e)),
     sg_post = (\<lambda>req e. (Inr \<lparr>eh_status = 200, eh_body = Inr [], eh_data = Inr (map (\<lambda>_. [0, 0]) (er_input req))\<rparr>, e)),
     sg_unicode = ascii_tables, sg_embedding = model_conf, sg_embedder = model_conf, sg_service_token = lit ''tool''\<rparr>"

definition model_service1 :: model_service where
  "model_service1 = \<lparr>mv_fallback = model_conf, mv_key = replicate 32 0\<rparr>"

definition models1 :: "nat settings_world" where
  "models1 = \<lparr>sw_db = \<lparr>users = [\<lparr>user_id = ''u'', user_tenant = ''t'', user_username = lit ''ada'', user_nickname = lit ''Ada'',
      user_email = lit ''a@b'', user_language = lit ''en-US'', user_password_hash = [], user_created_at = 1,
      user_updated_at = 1, user_deleted_at = None\<rparr>],
     tenants = [\<lparr>tn_id = ''t'', tn_name = lit ''Ada'', tn_created_at = 1\<rparr>], model_settings = []\<rparr>, sw_ext = 0\<rparr>"

definition session_t :: user_session where
  "session_t = \<lparr>us_id = ''u'', us_tenant = ''t'', us_username = lit ''ada'', us_email = lit ''a@b''\<rparr>"

definition updated1 :: "(gerr + settings_resp) \<times> nat settings_world" where
  "updated1 = settings_Update calm_models model_service1 (Some session_t) (lit '' sk-12345 '') models1"

lemma updated1_returns: "isl (fst updated1) = False"
  unfolding updated1_def by code_simp

lemma updated1_eq:
  obtains resp where "settings_Update calm_models model_service1 (Some session_t) (lit '' sk-12345 '') models1 = (Inr resp, snd updated1)"
  using updated1_returns by (cases updated1; cases "fst updated1") (auto simp: updated1_def)

lemma calm_models_gcm: "gcm_library calm_models"
  by (simp add: gcm_library_def calm_models_def)

lemma calm_models_disciplined: "settings_disciplined calm_models m T"
  by (simp add: settings_disciplined_def calm_models_def connection_fault_def)

text \<open>C30 A key that a tenant saved is the key it gets: after a successful update of the model settings,
  whatever is done for other tenants in the meantime, resolving the key of the tenant gives exactly
  the bytes of the trimmed key; the answer shows the key's hint as configured on the page, and the
  key had been accepted by the embedding service.
\<close>

theorem saved_key_is_resolved:
  assumes "gcm_library sv" and "settings_disciplined sv m (- {us_tenant session})"
    and "settings_Update sv m (Some session) key w = (Inr resp, w')"
    and "(settings_step sv m (- {us_tenant session}))\<^sup>*\<^sup>* (sw_db w') (sw_db v)"
    and "fst (sg_pg sv (sw_ext v) (sw_db v)) = Executed"
  shows "fst (ResolveAPIKey sv m (us_tenant session) v) = Inr (utf8 (TrimSpace key)) \<and>
    sr_configured resp \<and> sr_source resp = ''page'' \<and> sr_hint resp = APIKeyHint key \<and>
    (\<exists>u u'. ValidateAPIKey (\<lambda>req. settings_ext (sg_post sv req)) (sg_embedder sv) (TrimSpace key) u = (Inr (), u'))"
proof -
  let ?t = "us_tenant session"
  note update = settings_Update_Inr [OF assms(3) assms(1,2)]
  from update(2) obtain r nonce where r: "tenant_row_of ?t (sw_db w') = Some r"
    "ms_ciphertext r = sealed_key sv m ?t key nonce" "length nonce = gcm_nonce_size" by blast
  obtain e d where pg: "sg_pg sv (sw_ext v) (sw_db v) = (Executed, e, d)"
    using assms(5) by (metis prod.collapse)
  have "(settings_step sv m (- {?t}))\<^sup>*\<^sup>* (sw_db v) d"
    using pg assms(2) unfolding settings_disciplined_def by blast
  with others_keep [OF assms(4)] r(1) have "tenant_row_of ?t d = Some r" using others_keep by metis
  with stored_key_sealed [OF assms(1) r(2,3)] update(1)
  have "fst (ResolveAPIKey sv m ?t v) = Inr (utf8 (TrimSpace key))"
    by (simp add: ResolveAPIKey_def settings_tx_def pg GetByTenant_eq)
  with update show ?thesis by blast
qed

lemma saved_key_is_resolved_witness:
  "fst (ResolveAPIKey calm_models model_service1 ''t'' (snd updated1)) = Inr (utf8 (lit ''sk-12345''))"
proof -
  obtain resp where up: "settings_Update calm_models model_service1 (Some session_t) (lit '' sk-12345 '') models1 =
    (Inr resp, snd updated1)" by (rule updated1_eq)
  have t: "us_tenant session_t = ''t''" by (simp add: session_t_def)
  have "TrimSpace (lit '' sk-12345 '') = lit ''sk-12345''" by code_simp
  moreover have "fst (sg_pg calm_models (sw_ext (snd updated1)) (sw_db (snd updated1))) = Executed"
    by (simp add: calm_models_def)
  ultimately show ?thesis
    using saved_key_is_resolved [OF calm_models_gcm calm_models_disciplined up rtranclp.rtrancl_refl, of] by (simp add: t)
qed

section \<open>Keys stay in their tenant\<close>

lemma one_user_Inr: "one_user P s = (Inr u, s') \<Longrightarrow> \<exists>r \<in> set (users s). P r \<and> live_user r \<and> u = user.truncate r"
  by (auto simp: one_user_def split: option.splits dest: tbl_first_Some)

lemma on_accounts_user:
  assumes "on_accounts (user_GetByID i) s = (Inr u, s')"
  shows "s' = s \<and> (\<exists>r \<in> set (users s). user_id r = i \<and> live_user r \<and> user_tenant r = user_tenant u)"
proof -
  have same: "snd (user_GetByID i (account_store.truncate s)) = account_store.truncate s" by simp
  from assms obtain a where q: "user_GetByID i (account_store.truncate s) = (Inr u, a)"
    and s': "s' = s\<lparr>users := users a, tenants := tenants a\<rparr>"
    by (auto simp: on_accounts_def split: prod.splits)
  have "a = account_store.truncate s" using same q by simp
  with s' have "s' = s" by (cases s) (simp add: account_store.truncate_def)
  with one_user_Inr [OF q [unfolded user_GetByID_def]] show ?thesis
    by (auto simp: account_store.truncate_def user.truncate_def)
qed


definition asked_key :: "credentials_reply \<times> nat settings_world" where
  "asked_key = authorized_credentials calm_models model_service1 (lit ''tool'') (Some ('' t'', ''u'')) (snd updated1)"

lemma asked_key_reply: "fst asked_key = Credentials \<lparr>cr_provider = [], cr_base_url = lit ''u'', cr_api_key = utf8 (lit ''sk-12345'')\<rparr>"
  unfolding asked_key_def updated1_def by code_simp

lemma updated1_row: "map ms_ciphertext (model_settings (sw_db (snd updated1))) =
    [sealed_key calm_models model_service1 ''t'' (lit ''sk-12345'') (replicate 12 7)] \<and>
    map ms_tenant (model_settings (sw_db (snd updated1))) = [''t'']"
  unfolding updated1_def by code_simp

lemma updated1_ok: "settings_ok calm_models model_service1 (sw_db (snd updated1))"
proof -
  obtain r where "model_settings (sw_db (snd updated1)) = [r]"
    "ms_ciphertext r = sealed_key calm_models model_service1 (ms_tenant r) (lit ''sk-12345'') (replicate 12 7)"
    using updated1_row by (cases "model_settings (sw_db (snd updated1))") auto
  moreover have "IsConfiguredSecret (lit ''sk-12345'')" by code_simp
  ultimately show ?thesis by (auto simp: settings_ok_def sealed_def gcm_nonce_size_def intro!: exI)
qed


end
