(* ===== verification/ParserText.thy ===== *)
theory ParserText
  imports Regexp KnowledgeText Embedding
begin

text \<open>
  Reading text files: \<open>internal/infrastructure/parser/common.go\<close>, \<open>plaintext.go\<close> and
  \<open>markdown.go\<close>. The content of a file is a list of runes in which a byte \<open>b\<close> that belongs to no
  UTF-8 sequence stands as the rune \<open>0x110000 + b\<close>. Chinese texts are written as their code points.
\<close>

section \<open>Bytes that are no text\<close>

definition stray :: "nat \<Rightarrow> rune" where
  "stray b = 0x110000 + b"

definition rune_bytes :: "rune \<Rightarrow> bytes" where
  "rune_bytes r = (if r \<ge> 0x110000 then [r - 0x110000] else utf8_rune r)"

definition byte_length :: "gostr \<Rightarrow> nat" where
  "byte_length s = sum_list (map (\<lambda>r. length (rune_bytes r)) s)"

text \<open>\<open>json.Marshal\<close> replaces a stray byte by the replacement character.\<close>

definition json_rune :: "rune \<Rightarrow> rune" where
  "json_rune r = (if r \<ge> 0x110000 then 0xFFFD else r)"

definition json_text :: "gostr \<Rightarrow> gostr" where
  "json_text s = map json_rune s"

definition json_segment :: "parse_segment \<Rightarrow> parse_segment" where
  "json_segment s =
     s\<lparr>seg_section := json_text (seg_section s),
       seg_heading_path := map json_text (seg_heading_path s),
       seg_block_type := json_text (seg_block_type s), seg_content := json_text (seg_content s)\<rparr>"

text \<open>The text written so far and the segments.\<close>

type_synonym parse_result = "gostr \<times> parse_segment list"

definition finalizeParseResult :: "parse_result \<Rightarrow> parse_result" where
  "finalizeParseResult b = (TrimSpace (fst b), map json_segment (snd b))"

section \<open>Headings and lists\<close>

definition line_of :: "regexp \<Rightarrow> regexp" where
  "line_of marker = RSeq RBegin (RSeq marker (RSeq (RStar RSpace) (RSeq (RPlus RDot) REnd)))"

definition numerals :: gostr where
  "numerals = [19968, 20108, 19977, 22235, 20116, 20845, 19971, 20843, 20061, 21313]"

definition big_numerals :: gostr where
  "big_numerals = [19968, 20108, 19977, 22235, 20116, 20845, 19971, 20843, 20061, 21313, 30334, 21315, 19975]"

definition plainTextNumberedItemPattern :: regexp where
  "plainTextNumberedItemPattern = line_of (RSeq (RPlus RDigit) (ROneOf [12289, 46, 65294]))"

definition plainTextListMarkerPattern :: regexp where
  "plainTextListMarkerPattern = line_of (RGroup 1 (RAny
     [ROneOf [42, 45],
      RSeq (RPlus RDigit) (ROneOf [12289, 46, 65294, 41]),
      RSeq (ROneOf [65288, 40]) (RSeq (RPlus RDigit) (ROneOf [41, 65289])),
      RSeq (RPlus (ROneOf numerals)) (ROneOf [12289, 46, 65294])]))"

text \<open>\<open>\d+\.\d+(?:\.\d+)*\<close>\<close>

definition dotted_numbers :: regexp where
  "dotted_numbers =
     RSeq (RPlus RDigit) (RSeq (RChar 46) (RSeq (RPlus RDigit) (RStar (RSeq (RChar 46) (RPlus RDigit)))))"

text \<open>\<open>x{m,n}\<close>: \<open>m\<close> times, then greedily up to \<open>n\<close> times.\<close>

primrec up_to :: "nat \<Rightarrow> regexp \<Rightarrow> regexp" where
  "up_to 0 a = RNone"
| "up_to (Suc n) a = ROpt (RSeq a (up_to n a))"

definition plainTextHeadingPatterns :: "(regexp \<times> nat) list" where
  "plainTextHeadingPatterns =
     [(RSeq RBegin (RSeq (RLit [31532]) (RSeq (RPlus (ROneOf (big_numerals @ lit ''0123456789'')))
         (RSeq (ROneOf [31456, 33410, 37096, 20998, 31687]) (RSeq (RStar RDot) REnd)))), 1),
      (line_of (RSeq (RPlus (ROneOf big_numerals)) (ROneOf [12289, 46, 65294])), 1),
      (plainTextNumberedItemPattern, 1),
      (line_of (RSeq (RPlus RDigit) (ROneOf [41, 65289])), 1),
      (line_of (RSeq (ROneOf [40,
        65288]) (RSeq (RPlus (ROneOf (big_numerals @ lit ''0123456789''))) (ROneOf [41, 65289]))), 2),
      (line_of dotted_numbers, 2),
      (line_of (RSeq dotted_numbers (ROneOf [41, 65289])), 2),
      (line_of (RSeq (RGroup 1 (RAlt (RChar 81) (RChar 113))) (RSeq (RPlus RDigit) (ROneOf [58, 65306]))), 2),
      (RSeq RBegin (RSeq (RLit [12304]) (RSeq (RSeq (RNotOf [12305]) (up_to 39 (RNotOf [12305])))
         (RSeq (RLit [12305]) REnd))), 2)]"

definition detectPlainTextHeading :: "gostr \<Rightarrow> nat option" where
  "detectPlainTextHeading line0 =
     (let line = TrimSpace line0
      in if line = [] \<or> length line > 80 \<or> Contains line [10] then None
         else map_option snd (find (\<lambda>p. MatchString (fst p) line) plainTextHeadingPatterns))"

definition isPlainTextListBlock :: "gostr list \<Rightarrow> bool" where
  "isPlainTextListBlock lines \<longleftrightarrow> length lines \<ge> 2 \<and>
     MatchString plainTextNumberedItemPattern (TrimSpace (lines ! 0)) \<and>
     MatchString plainTextNumberedItemPattern (TrimSpace (lines ! 1))"

definition currentSection :: "gostr list \<Rightarrow> gostr" where
  "currentSection headings = (if headings = [] then lit ''text'' else Join headings (lit '' / ''))"

definition trimHeadingPath :: "gostr list \<Rightarrow> nat \<Rightarrow> gostr list" where
  "trimHeadingPath headings level =
     (if level \<le> 1 then [] else if level - 1 < length headings then take (level - 1) headings else headings)"

definition cleanHeadingText :: "gostr \<Rightarrow> gostr" where
  "cleanHeadingText line = TrimSpace (TrimSuffix (TrimSuffix (TrimSpace line) (lit '':'')) [65306])"

section \<open>Segments\<close>

definition normalizeTextBlock :: "gostr \<Rightarrow> gostr" where
  "normalizeTextBlock block = Join (filter (\<lambda>l. l \<noteq> []) (map TrimSpace (Split block [10]))) [10]"

definition splitHeadingPath :: "unicode_tables \<Rightarrow> gostr \<Rightarrow> gostr list" where
  "splitHeadingPath u section =
     (if TrimSpace section = [] \<or> EqualFold u (TrimSpace section) (lit ''text'') then []
      else filter (\<lambda>p. p \<noteq> []) (map TrimSpace (Split section (lit '' / ''))))"

definition list_line :: "gostr \<Rightarrow> bool" where
  "list_line l \<longleftrightarrow> HasPrefix (TrimSpace l) (lit ''- '') \<or> HasPrefix (TrimSpace l) (lit ''* '') \<or>
     MatchString plainTextListMarkerPattern (TrimSpace l)"

definition fence :: "gostr \<Rightarrow> bool" where
  "fence l \<longleftrightarrow> HasPrefix l [96, 96, 96] \<or> HasPrefix l [126, 126, 126]"

definition detectBlockType :: "gostr \<Rightarrow> gostr" where
  "detectBlockType content =
     (let trimmed = TrimSpace content; lines = Split trimmed [10]
      in if fence trimmed then lit ''code''
         else if length lines \<ge> 2 \<and> Contains (lines ! 0) (lit ''|'') \<and> Contains (lines ! 1) (lit ''|'') then lit ''table''
         else if length lines > 1 \<and> length (filter list_line lines) * 2 \<ge> length lines then lit ''list''
         else lit ''paragraph'')"

definition add_text :: "gostr \<Rightarrow> gostr \<Rightarrow> gostr" where
  "add_text plain content = (if plain = [] then content else plain @ [10, 10] @ content)"

definition append_to_segments ::
    "unicode_tables \<Rightarrow> parse_segment list \<Rightarrow> gostr \<Rightarrow> gostr \<Rightarrow> parse_segment list" where
  "append_to_segments u segments section content =
     (if segments \<noteq> [] \<and> seg_section (last segments) = section then
        butlast segments @
          [(last segments)\<lparr>seg_content := seg_content (last segments) @ [10, 10] @ content,
             seg_block_type := (if seg_block_type (last segments) \<noteq> detectBlockType content then lit ''mixed''
               else seg_block_type (last segments))\<rparr>]
      else segments @
          [\<lparr>seg_page = 0, seg_section = section, seg_heading_path = splitHeadingPath u section,
             seg_block_type = detectBlockType content, seg_content = content\<rparr>])"

definition appendParseSegment :: "unicode_tables \<Rightarrow> parse_result \<Rightarrow> gostr \<Rightarrow> gostr \<Rightarrow> parse_result" where
  "appendParseSegment u b section0 content0 =
     (let content = TrimSpace content0; section = (if TrimSpace section0 = [] then lit ''text'' else section0)
      in if content = [] then b
         else (add_text (fst b) content, append_to_segments u (snd b) section content))"

section \<open>Plain text\<close>

definition unix_lines :: "gostr \<Rightarrow> gostr" where
  "unix_lines s = ReplaceAll (ReplaceAll s [13, 10] [10]) [13] [10]"

text \<open>A block that starts with a heading, and the rest of it.\<close>

definition block_heading :: "gostr \<Rightarrow> nat option" where
  "block_heading block =
     (let lines = Split block [10]
      in case detectPlainTextHeading (TrimSpace (lines ! 0)) of
           None \<Rightarrow> None
         | Some level \<Rightarrow> if isPlainTextListBlock lines then None else Some level)"

definition block_rest :: "gostr \<Rightarrow> gostr" where
  "block_rest block = normalizeTextBlock (Join (tl (Split block [10])) [10])"

definition plain_block :: "unicode_tables \<Rightarrow> gostr \<Rightarrow> parse_result \<times> gostr list \<Rightarrow> parse_result \<times> gostr list" where
  "plain_block u raw st =
     (let (b, headings) = st; block = normalizeTextBlock raw
      in if block = [] then st
         else case block_heading block of
           Some level \<Rightarrow>
             (let headings1 = trimHeadingPath headings level @ [cleanHeadingText (TrimSpace (Split block [10] ! 0))]
              in if block_rest block = [] then (b, headings1)
                 else (appendParseSegment u b (Join headings1 (lit '' / '')) (block_rest block), headings1))
         | None \<Rightarrow> (appendParseSegment u b (currentSection headings) block, headings))"

definition parsePlainText :: "unicode_tables \<Rightarrow> gostr \<Rightarrow> gerr + parse_result" where
  "parsePlainText u data =
     (let normalized = unix_lines data;
          b = fst (fold (plain_block u) (Split normalized [10, 10]) (([], []), []))
      in Inr (finalizeParseResult
           (if snd b = [] then appendParseSegment u b (lit ''text'') (TrimSpace normalized) else b)))"

section \<open>Markdown\<close>

text \<open>\<open>line[level]\<close> is a byte; runes below 128 are their byte.\<close>

definition detectMarkdownHeading :: "gostr \<Rightarrow> (nat \<times> gostr) option" where
  "detectMarkdownHeading line =
     (let level = length (takeWhile (\<lambda>r. r = 35) line); title = cleanHeadingText (TrimSpace (drop level line))
      in if line = [] \<or> level = 0 \<or> level > 6 then None
         else if length line > level \<and> line ! level \<noteq> 32 \<and> line ! level \<noteq> 9 then None
         else if title = [] then None
         else Some (level, title))"

fun clean_lines :: "gostr list \<Rightarrow> bool \<Rightarrow> bool \<Rightarrow> gostr list \<Rightarrow> gostr list" where
  "clean_lines cleaned inCode lastBlank [] = cleaned"
| "clean_lines cleaned inCode lastBlank (line # rest) =
     (let trimmedRight = TrimRight line [32, 9]; trimmed = TrimSpace trimmedRight
      in if fence trimmed then clean_lines (cleaned @ [trimmedRight]) (\<not> inCode) False rest
         else if inCode then clean_lines (cleaned @ [trimmedRight]) inCode False rest
         else if trimmed = [] then
           (if cleaned = [] \<or> lastBlank then clean_lines cleaned inCode lastBlank rest
            else clean_lines (cleaned @ [[]]) inCode True rest)
         else clean_lines (cleaned @ [trimmedRight]) inCode False rest)"

definition normalizeMarkdownBlock :: "gostr \<Rightarrow> gostr" where
  "normalizeMarkdownBlock block =
     TrimSpace (Join (clean_lines [] False False (Split (unix_lines block) [10])) [10])"

text \<open>
  \<open>bufio.Scanner\<close> with \<open>ScanLines\<close>: the lines up to the first that does not fit into the buffer,
  without a final carriage return, and whether all were read.
\<close>

definition max_line_bytes :: nat where
  "max_line_bytes = 65535"

definition raw_lines :: "gostr \<Rightarrow> gostr list" where
  "raw_lines data = (let ls = Split data [10] in if last ls = [] then butlast ls else ls)"

definition scan_lines :: "gostr \<Rightarrow> gostr list \<times> bool" where
  "scan_lines data =
     (let ls = takeWhile (\<lambda>l. byte_length l \<le> max_line_bytes) (raw_lines data)
      in (map (\<lambda>l. TrimSuffix l [13]) ls, length ls = length (raw_lines data)))"

record markdown_state =
  md_out :: parse_result
  md_buffer :: gostr
  md_headings :: "gostr list"
  md_in_code :: bool

definition md_start :: markdown_state where
  "md_start = \<lparr>md_out = ([], []), md_buffer = [], md_headings = [], md_in_code = False\<rparr>"

definition md_flush :: "unicode_tables \<Rightarrow> markdown_state \<Rightarrow> markdown_state" where
  "md_flush u st =
     (let content = normalizeMarkdownBlock (md_buffer st)
      in if content = [] then st
         else st\<lparr>md_out := appendParseSegment u (md_out st) (currentSection (md_headings st)) content, md_buffer := []\<rparr>)"

definition md_write :: "gostr \<Rightarrow> markdown_state \<Rightarrow> markdown_state" where
  "md_write line st = st\<lparr>md_buffer := (if md_buffer st = [] then line else md_buffer st @ [10] @ line)\<rparr>"

definition md_untouched :: "markdown_state \<Rightarrow> bool" where
  "md_untouched st \<longleftrightarrow> fst (md_out st) = [] \<and> snd (md_out st) = [] \<and> md_buffer st = []"

definition isMarkdownFrontMatterBoundary :: "gostr \<Rightarrow> bool" where
  "isMarkdownFrontMatterBoundary line \<longleftrightarrow> line = lit ''---''"

definition md_line :: "unicode_tables \<Rightarrow> gostr \<Rightarrow> markdown_state \<Rightarrow> markdown_state" where
  "md_line u line st =
     (let trimmed = TrimSpace line;
          text = (if HasPrefix trimmed (lit ''---'') \<and> md_untouched st then md_flush u st else md_write line st)
      in if fence trimmed then md_write line (st\<lparr>md_in_code := \<not> md_in_code st\<rparr>)
         else if md_in_code st then text
         else case detectMarkdownHeading trimmed of
           Some (level, title) \<Rightarrow>
             (let st1 = md_flush u st in st1\<lparr>md_headings := trimHeadingPath (md_headings st1) level @ [title]\<rparr>)
         | None \<Rightarrow> if isMarkdownFrontMatterBoundary trimmed \<and> md_untouched st then st else text)"

definition parseMarkdown :: "unicode_tables \<Rightarrow> gostr \<Rightarrow> gerr + parse_result" where
  "parseMarkdown u data =
     (let (lines, complete) = scan_lines data;
          b = md_out (md_flush u (fold (md_line u) lines md_start))
      in if \<not> complete then Inl (Plain (lit ''bufio.Scanner: token too long''))
         else Inr (finalizeParseResult
           (if snd b = [] then appendParseSegment u b (lit ''text'') (normalizeMarkdownBlock data) else b)))"

end
