(* ===== verification/ParserOffice.thy ===== *)
theory ParserOffice
  imports ParserText RateLimit Outbox
begin

text \<open>
  Reading Office files: \<open>internal/infrastructure/parser/docx.go\<close> and \<open>pptx.go\<close>. The zip reader and
  the XML tokenizer are parameters: an archive is its list of files, a document its tokens and the
  error after the last one, \<open>None\<close> at the end of the file.
\<close>

section \<open>Archives and tokens\<close>

type_synonym zip_files = "(gostr \<times> (gerr + gostr)) list"

type_synonym xml_name = "gostr \<times> gostr"

datatype xml_token =
    XStart xml_name "(xml_name \<times> gostr) list"
  | XEnd xml_name
  | XText gostr
  | XOther

type_synonym xml_stream = "xml_token list \<times> gerr option"

record office_readers =
  of_unicode :: unicode_tables
  of_zip :: "gostr \<Rightarrow> gerr + zip_files"
  of_xml :: "gostr \<Rightarrow> xml_stream"

definition zip_lookup :: "zip_files \<Rightarrow> gostr \<Rightarrow> gostr \<Rightarrow> gerr + gostr" where
  "zip_lookup files name alias =
     (case find (\<lambda>f. fst f = name) files of
        None \<Rightarrow> Inl (Plain (alias @ lit '' not found''))
      | Some f \<Rightarrow> snd f)"

definition zipContainsPrefix :: "zip_files \<Rightarrow> gostr \<Rightarrow> bool" where
  "zipContainsPrefix files p \<longleftrightarrow> list_ex (\<lambda>f. HasPrefix (fst f) p) files"

definition stream_error :: "gerr option \<Rightarrow> gerr" where
  "stream_error final = (case final of None \<Rightarrow> Plain (lit ''EOF'') | Some err \<Rightarrow> err)"

definition attrValue :: "(xml_name \<times> gostr) list \<Rightarrow> gostr \<Rightarrow> gostr" where
  "attrValue attrs name = (case find (\<lambda>a. snd (fst a) = name) attrs of None \<Rightarrow> [] | Some a \<Rightarrow> snd a)"

text \<open>
  \<open>DecodeElement\<close> into a string,
    after the start element: the character data up to the matching end
  element, without that of nested elements; \<open>depth\<close> counts those.
\<close>

fun decode_text :: "nat \<Rightarrow> gostr \<Rightarrow> xml_token list \<Rightarrow> (gostr \<times> xml_token list) option" where
  "decode_text depth acc [] = None"
| "decode_text depth acc (XStart _ _ # ts) = decode_text (Suc depth) acc ts"
| "decode_text 0 acc (XEnd _ # ts) = Some (acc, ts)"
| "decode_text (Suc depth) acc (XEnd _ # ts) = decode_text depth acc ts"
| "decode_text depth acc (XText t # ts) = decode_text depth (if depth = 0 then acc @ t else acc) ts"
| "decode_text depth acc (XOther # ts) = decode_text depth acc ts"

lemma decode_text_shorter [termination_simp]:
  "decode_text depth acc ts = Some (t, rest) \<Longrightarrow> length rest < length ts"
  by (induction depth acc ts rule: decode_text.induct) (auto split: if_splits)

section \<open>Word documents\<close>

datatype docxBlockKind = docxBlockParagraph | docxBlockHeading | docxBlockTable

record docxBlock =
  db_kind :: docxBlockKind
  db_level :: nat
  db_content :: gostr

text \<open>\<open>strconv.Atoi\<close>, and the level of a style of headings.\<close>

definition docxHeadingLevel :: "unicode_tables \<Rightarrow> gostr \<Rightarrow> gostr \<Rightarrow> bool \<Rightarrow> nat option" where
  "docxHeadingLevel u styleName0 content isList =
     (let styleName = TrimSpace (ToLower u styleName0)
      in if HasPrefix styleName (lit ''heading'') then
           (case ParseInt (TrimPrefix styleName (lit ''heading'')) of
              Inr level \<Rightarrow> if level > 0 then Some (nat level) else Some 1
            | Inl _ \<Rightarrow> Some 1)
         else if isList then None
         else detectPlainTextHeading content)"

text \<open>What is read of a paragraph so far: its text,
  its style and whether it is an item of a list.\<close>

record docx_paragraph =
  dp_text :: gostr
  dp_style :: gostr
  dp_list :: bool

definition dp_start :: docx_paragraph where
  "dp_start = \<lparr>dp_text = [], dp_style = [], dp_list = False\<rparr>"

definition paragraph_block :: "unicode_tables \<Rightarrow> docx_paragraph \<Rightarrow> docxBlock option" where
  "paragraph_block u p =
     (let content = normalizeTextBlock (dp_text p)
      in if content = [] then None
         else case docxHeadingLevel u (dp_style p) content (dp_list p) of
           Some level \<Rightarrow> Some \<lparr>db_kind = docxBlockHeading, db_level = level,
             db_content = content\<rparr>
         | None \<Rightarrow> Some \<lparr>db_kind = docxBlockParagraph, db_level = 0, db_content =
             (if dp_list p \<and> \<not> MatchString plainTextListMarkerPattern content then lit ''- '' @ content else content)\<rparr>)"

definition paragraph_element :: "gostr \<Rightarrow> (xml_name \<times> gostr) list \<Rightarrow> docx_paragraph \<Rightarrow> docx_paragraph" where
  "paragraph_element local attrs p =
     (if local = lit ''pStyle'' then p\<lparr>dp_style := attrValue attrs (lit ''val'')\<rparr>
      else if local = lit ''numPr'' then p\<lparr>dp_list := True\<rparr>
      else if local = lit ''tab'' then p\<lparr>dp_text := dp_text p @ [9]\<rparr>
      else if local = lit ''br'' \<or> local = lit ''cr'' then p\<lparr>dp_text := dp_text p @ [10]\<rparr>
      else p)"

text \<open>\<open>None\<close> stands for the error of the stream.\<close>

function parseDOCXParagraph ::
    "unicode_tables \<Rightarrow> gostr \<Rightarrow> docx_paragraph \<Rightarrow> xml_token list \<Rightarrow> (docxBlock option \<times> xml_token list) option" where
  "parseDOCXParagraph u start p [] = None"
| "parseDOCXParagraph u start p (XStart (space, local) attrs # ts) =
     (if local = lit ''t'' then
        (case decode_text 0 [] ts of
           None \<Rightarrow> None
         | Some (t,
           rest) \<Rightarrow> parseDOCXParagraph u start (p\<lparr>dp_text := dp_text p @ t\<rparr>) rest)
      else parseDOCXParagraph u start (paragraph_element local attrs p) ts)"
| "parseDOCXParagraph u start p (XEnd (space, local) # ts) =
     (if local \<noteq> start then parseDOCXParagraph u start p ts else Some (paragraph_block u p, ts))"
| "parseDOCXParagraph u start p (XText _ # ts) = parseDOCXParagraph u start p ts"
| "parseDOCXParagraph u start p (XOther # ts) = parseDOCXParagraph u start p ts"
  by pat_completeness auto
termination
  by (relation "measure (\<lambda>(u, start, p, ts). length ts)") (auto dest: decode_text_shorter)

lemma parseDOCXParagraph_shorter [termination_simp]:
  "parseDOCXParagraph u start p ts = Some (b, rest) \<Longrightarrow> length rest < length ts"
proof (induction u start p ts rule: parseDOCXParagraph.induct)
  case (2 u start p space local attrs ts)
  show ?case
  proof (cases "local = lit ''t''")
    case True
    with 2 show ?thesis by (fastforce dest: decode_text_shorter split: option.splits)
  qed (use 2 in auto)
qed (auto split: if_splits)

function parseDOCXTableCell ::
    "unicode_tables \<Rightarrow> gostr \<Rightarrow> gostr list \<Rightarrow> xml_token list \<Rightarrow> (gostr \<times> xml_token list) option" where
  "parseDOCXTableCell u start parts [] = None"
| "parseDOCXTableCell u start parts (XStart (space, local) attrs # ts) =
     (if local \<noteq> lit ''p'' then parseDOCXTableCell u start parts ts
      else case parseDOCXParagraph u local dp_start ts of
        None \<Rightarrow> None
      | Some (None, rest) \<Rightarrow> parseDOCXTableCell u start parts rest
      | Some (Some block, rest) \<Rightarrow>
          parseDOCXTableCell u start (if db_content block \<noteq> [] then parts @ [db_content block] else parts) rest)"
| "parseDOCXTableCell u start parts (XEnd (space, local) # ts) =
     (if local \<noteq> start then parseDOCXTableCell u start parts ts else Some (Join parts [10], ts))"
| "parseDOCXTableCell u start parts (XText _ # ts) = parseDOCXTableCell u start parts ts"
| "parseDOCXTableCell u start parts (XOther # ts) = parseDOCXTableCell u start parts ts"
  by pat_completeness auto
termination
  by (relation "measure (\<lambda>(u, start, parts, ts). length ts)") (auto dest: parseDOCXParagraph_shorter)

lemma parseDOCXTableCell_shorter [termination_simp]:
  "parseDOCXTableCell u start parts ts = Some (c, rest) \<Longrightarrow> length rest < length ts"
proof (induction u start parts ts rule: parseDOCXTableCell.induct)
  case (2 u start parts space local attrs ts)
  show ?case
  proof (cases "local = lit ''p''")
    case True
    with 2 show ?thesis
      by (auto split: option.splits prod.splits) (fastforce dest: parseDOCXParagraph_shorter)+
  qed (use 2 in auto)
qed (auto split: if_splits)

function parseDOCXTableRow ::
    "unicode_tables \<Rightarrow> gostr \<Rightarrow> gostr list \<Rightarrow> xml_token list \<Rightarrow> (gostr \<times> xml_token list) option" where
  "parseDOCXTableRow u start cells [] = None"
| "parseDOCXTableRow u start cells (XStart (space, local) attrs # ts) =
     (if local \<noteq> lit ''tc'' then parseDOCXTableRow u start cells ts
      else case parseDOCXTableCell u local [] ts of
        None \<Rightarrow> None
      | Some (cell,
        rest) \<Rightarrow> parseDOCXTableRow u start (if cell \<noteq> [] then cells @ [cell] else cells) rest)"
| "parseDOCXTableRow u start cells (XEnd (space, local) # ts) =
     (if local \<noteq> start then parseDOCXTableRow u start cells ts else Some (Join cells (lit '' | ''), ts))"
| "parseDOCXTableRow u start cells (XText _ # ts) = parseDOCXTableRow u start cells ts"
| "parseDOCXTableRow u start cells (XOther # ts) = parseDOCXTableRow u start cells ts"
  by pat_completeness auto
termination
  by (relation "measure (\<lambda>(u, start, cells, ts). length ts)") (auto dest: parseDOCXTableCell_shorter)

lemma parseDOCXTableRow_shorter [termination_simp]:
  "parseDOCXTableRow u start cells ts = Some (c, rest) \<Longrightarrow> length rest < length ts"
proof (induction u start cells ts rule: parseDOCXTableRow.induct)
  case (2 u start cells space local attrs ts)
  show ?case
  proof (cases "local = lit ''tc''")
    case True
    with 2 show ?thesis by (fastforce dest: parseDOCXTableCell_shorter split: option.splits)
  qed (use 2 in auto)
qed (auto split: if_splits)

definition table_block :: "gostr list \<Rightarrow> docxBlock option" where
  "table_block rows =
     (let content = TrimSpace (Join rows [10])
      in if content = [] then None else Some \<lparr>db_kind = docxBlockTable, db_level = 0,
        db_content = content\<rparr>)"

function parseDOCXTable ::
    "unicode_tables \<Rightarrow> gostr \<Rightarrow> gostr list \<Rightarrow> xml_token list \<Rightarrow> (docxBlock option \<times> xml_token list) option" where
  "parseDOCXTable u start rows [] = None"
| "parseDOCXTable u start rows (XStart (space, local) attrs # ts) =
     (if local \<noteq> lit ''tr'' then parseDOCXTable u start rows ts
      else case parseDOCXTableRow u local [] ts of
        None \<Rightarrow> None
      | Some (row,
        rest) \<Rightarrow> parseDOCXTable u start (if row \<noteq> [] then rows @ [row] else rows) rest)"
| "parseDOCXTable u start rows (XEnd (space, local) # ts) =
     (if local \<noteq> start then parseDOCXTable u start rows ts else Some (table_block rows, ts))"
| "parseDOCXTable u start rows (XText _ # ts) = parseDOCXTable u start rows ts"
| "parseDOCXTable u start rows (XOther # ts) = parseDOCXTable u start rows ts"
  by pat_completeness auto
termination
  by (relation "measure (\<lambda>(u, start, rows, ts). length ts)") (auto dest: parseDOCXTableRow_shorter)

lemma parseDOCXTable_shorter [termination_simp]:
  "parseDOCXTable u start rows ts = Some (b, rest) \<Longrightarrow> length rest < length ts"
proof (induction u start rows ts rule: parseDOCXTable.induct)
  case (2 u start rows space local attrs ts)
  show ?case
  proof (cases "local = lit ''tr''")
    case True
    with 2 show ?thesis by (fastforce dest: parseDOCXTableRow_shorter split: option.splits)
  qed (use 2 in auto)
qed (auto split: if_splits)

definition body_element ::
    "unicode_tables \<Rightarrow> gostr \<Rightarrow> xml_token list \<Rightarrow> (docxBlock option \<times> xml_token list) option" where
  "body_element u local ts =
     (if local = lit ''p'' then parseDOCXParagraph u local dp_start ts
      else if local = lit ''tbl'' then parseDOCXTable u local [] ts
      else Some (None, ts))"

lemma body_element_shorter [termination_simp]:
  "body_element u local ts = Some (b, rest) \<Longrightarrow> length rest \<le> length ts"
  by (auto simp: body_element_def split: if_splits dest!: parseDOCXParagraph_shorter parseDOCXTable_shorter)

function docx_body :: "unicode_tables \<Rightarrow> docxBlock list \<Rightarrow> xml_token list \<Rightarrow> docxBlock list option" where
  "docx_body u blocks [] = Some blocks"
| "docx_body u blocks (XStart (space, local) attrs # ts) =
     (case body_element u local ts of
        None \<Rightarrow> None
      | Some (block,
        rest) \<Rightarrow> docx_body u (case block of None \<Rightarrow> blocks | Some b \<Rightarrow> blocks @ [b]) rest)"
| "docx_body u blocks (XEnd _ # ts) = docx_body u blocks ts"
| "docx_body u blocks (XText _ # ts) = docx_body u blocks ts"
| "docx_body u blocks (XOther # ts) = docx_body u blocks ts"
  by pat_completeness auto
termination
  by (relation "measure (\<lambda>(u, blocks, ts). length ts)") (auto dest!: body_element_shorter)

text \<open>The end of the file ends the body, any other error or an open element fails.\<close>

definition extractDOCXBody :: "unicode_tables \<Rightarrow> xml_stream \<Rightarrow> gerr + docxBlock list" where
  "extractDOCXBody u stream =
     (case docx_body u [] (fst stream) of
        None \<Rightarrow> Inl (stream_error (snd stream))
      | Some blocks \<Rightarrow> (case snd stream of None \<Rightarrow> Inr blocks | Some err \<Rightarrow> Inl err))"

definition docx_block ::
    "unicode_tables \<Rightarrow> docxBlock \<Rightarrow> parse_result \<times> gostr list \<Rightarrow> parse_result \<times> gostr list" where
  "docx_block u block st =
     (case st of (b, headings) \<Rightarrow>
        (if db_kind block = docxBlockHeading then
           (b, trimHeadingPath headings (db_level block) @ [cleanHeadingText (db_content block)])
         else (appendParseSegment u b (currentSection headings) (db_content block), headings)))"

definition docx_result :: "unicode_tables \<Rightarrow> zip_files \<Rightarrow> string \<Rightarrow> docxBlock list \<Rightarrow> gerr + parse_result" where
  "docx_result u files mode body =
     (let b = fst (fold (docx_block u) body (([], []), []))
      in if mode = ''enhanced'' \<and> snd b = [] \<and> zipContainsPrefix files (lit ''word/media/'') then
           Inl (Plain [25991, 26723, 26410, 25552, 21462, 21040, 21487, 35835, 25991, 23383,
             65292, 30097, 20284, 20197, 22270, 29255, 20869, 23481, 20026, 20027, 65292,
               24403, 21069, 26410, 21551, 29992, 32, 79, 67, 82])
         else if snd b = [] then Inl (Plain (lit ''document has no readable content''))
         else Inr (finalizeParseResult b))"

definition parseDOCX :: "office_readers \<Rightarrow> gostr \<Rightarrow> string \<Rightarrow> gerr + parse_result" where
  "parseDOCX rd data mode =
     (case of_zip rd data of
        Inl err \<Rightarrow> Inl err
      | Inr files \<Rightarrow> (case zip_lookup files (lit ''word/document.xml'') (lit ''docx document.xml'') of
          Inl err \<Rightarrow> Inl err
        | Inr documentXML \<Rightarrow> (case extractDOCXBody (of_unicode rd) (of_xml rd documentXML) of
            Inl err \<Rightarrow> Inl err
          | Inr body \<Rightarrow> docx_result (of_unicode rd) files mode body)))"

section \<open>Presentations\<close>

definition drawingMLNamespace :: gostr where
  "drawingMLNamespace = lit ''http://schemas.openxmlformats.org/drawingml/2006/main''"

definition pptxSlidePathPattern :: regexp where
  "pptxSlidePathPattern =
     RSeq RBegin (RSeq (RLit (lit ''ppt/slides/slide'')) (RSeq (RGroup 1 (RPlus RDigit))
       (RSeq (RLit (lit ''.xml'')) REnd)))"

definition slideIndexOf :: "gostr \<Rightarrow> int" where
  "slideIndexOf name =
     (let m = FindStringSubmatch pptxSlidePathPattern 1 name
      in if length m \<noteq> 2 then 0 else case ParseInt (m ! 1) of Inr v \<Rightarrow> v | Inl _ \<Rightarrow> 0)"

definition listSlideXMLNames :: "zip_files \<Rightarrow> gostr list" where
  "listSlideXMLNames files =
     sort_key slideIndexOf (filter (MatchString pptxSlidePathPattern) (map fst files))"

record slide_state =
  sl_paragraphs :: "gostr list"
  sl_in_table :: bool
  sl_in_paragraph :: bool
  sl_row :: "gostr list"
  sl_rows :: "gostr list"
  sl_cell :: "gostr list"
  sl_text :: gostr

definition slide_start :: slide_state where
  "slide_start = \<lparr>sl_paragraphs = [], sl_in_table = False, sl_in_paragraph = False,
    sl_row = [], sl_rows = [],
     sl_cell = [], sl_text = []\<rparr>"

definition slide_element :: "xml_name \<Rightarrow> slide_state \<Rightarrow> slide_state" where
  "slide_element name st =
     (if snd name = lit ''tbl'' then st\<lparr>sl_in_table := True, sl_rows := []\<rparr>
      else if snd name = lit ''tr'' then (if sl_in_table st then st\<lparr>sl_row := []\<rparr> else st)
      else if snd name = lit ''tc'' then (if sl_in_table st then st\<lparr>sl_cell := []\<rparr> else st)
      else if snd name = lit ''p'' then
        (if fst name = drawingMLNamespace then st\<lparr>sl_in_paragraph := True,
          sl_text := []\<rparr> else st)
      else st)"

definition slide_text :: "gostr \<Rightarrow> slide_state \<Rightarrow> slide_state" where
  "slide_text t0 st =
     (let t = normalizeTextBlock t0
      in if t = [] then st
         else if sl_in_table st then st\<lparr>sl_cell := sl_cell st @ [t]\<rparr>
         else if sl_in_paragraph st then
           st\<lparr>sl_text := (if sl_text st = [] then t else sl_text st @ [32] @ t)\<rparr>
         else st)"

definition slide_end :: "xml_name \<Rightarrow> slide_state \<Rightarrow> slide_state" where
  "slide_end name st =
     (if snd name = lit ''p'' then
        (if fst name \<noteq> drawingMLNamespace \<or> \<not> sl_in_paragraph st \<or> sl_in_table st then st
         else let t = normalizeTextBlock (sl_text st)
           in st\<lparr>sl_in_paragraph := False,
             sl_paragraphs := (if t \<noteq> [] then sl_paragraphs st @ [t] else sl_paragraphs st)\<rparr>)
      else if snd name = lit ''tc'' then
        (if sl_in_table st \<and> sl_cell st \<noteq> [] then st\<lparr>sl_row := sl_row st @ [Join (sl_cell st) [32]]\<rparr> else st)
      else if snd name = lit ''tr'' then
        (if sl_in_table st \<and> sl_row st \<noteq> [] then st\<lparr>sl_rows := sl_rows st @ [Join (sl_row st) (lit '' | '')]\<rparr> else st)
      else if snd name = lit ''tbl'' then
        st\<lparr>sl_in_table := False, sl_paragraphs :=
          (if sl_in_table st \<and> sl_rows st \<noteq> [] then sl_paragraphs st @ [Join (sl_rows st) [10]] else sl_paragraphs st)\<rparr>
      else st)"

function slide_body :: "slide_state \<Rightarrow> xml_token list \<Rightarrow> slide_state option" where
  "slide_body st [] = Some st"
| "slide_body st (XStart name attrs # ts) =
     (if snd name = lit ''t'' then
        (case decode_text 0 [] ts of None \<Rightarrow> None | Some (t,
          rest) \<Rightarrow> slide_body (slide_text t st) rest)
      else slide_body (slide_element name st) ts)"
| "slide_body st (XEnd name # ts) = slide_body (slide_end name st) ts"
| "slide_body st (XText _ # ts) = slide_body st ts"
| "slide_body st (XOther # ts) = slide_body st ts"
  by pat_completeness auto
termination
  by (relation "measure (\<lambda>(st, ts). length ts)") (auto dest: decode_text_shorter)

definition extractPPTXParagraphs :: "xml_stream \<Rightarrow> gerr + gostr list" where
  "extractPPTXParagraphs stream =
     (case slide_body slide_start (fst stream) of
        None \<Rightarrow> Inl (stream_error (snd stream))
      | Some st \<Rightarrow> (case snd stream of None \<Rightarrow> Inr (sl_paragraphs st) | Some err \<Rightarrow> Inl err))"

definition looksLikePPTXTitle :: "gostr \<Rightarrow> bool" where
  "looksLikePPTXTitle t0 \<longleftrightarrow>
     (let t = TrimSpace t0
      in t \<noteq> [] \<and> length t \<le> 40 \<and> \<not> Contains t (lit '' | '') \<and> \<not> Contains t [10] \<and>
         \<not> MatchString plainTextListMarkerPattern t)"

definition buildPPTXSlideContent :: "gostr list \<Rightarrow> gostr \<times> gostr" where
  "buildPPTXSlideContent paragraphs =
     (let titled = (paragraphs \<noteq> [] \<and> looksLikePPTXTitle (paragraphs ! 0));
          title = (if titled then cleanHeadingText (paragraphs ! 0) else []);
          bodyParts = filter (\<lambda>p. p \<noteq> []) (map normalizeTextBlock (if titled then tl paragraphs else paragraphs))
      in if bodyParts = [] \<and> title \<noteq> [] then ([], Join [title] [10, 10])
         else (title, Join bodyParts [10, 10]))"

definition slide_section :: "nat \<Rightarrow> gostr \<Rightarrow> gostr" where
  "slide_section index title =
     [31532] @ lit (Itoa (int index + 1)) @ [39029] @ (if title \<noteq> [] then lit '' / '' @ title else [])"

fun pptx_slides ::
    "office_readers \<Rightarrow> zip_files \<Rightarrow> parse_result \<Rightarrow> nat \<Rightarrow> gostr list \<Rightarrow> gerr + parse_result" where
  "pptx_slides rd files b index [] = Inr b"
| "pptx_slides rd files b index (slideName # rest) =
     (case zip_lookup files slideName (lit ''pptx slide'') of
        Inl err \<Rightarrow> Inl err
      | Inr slideXML \<Rightarrow> (case extractPPTXParagraphs (of_xml rd slideXML) of
          Inl err \<Rightarrow> Inl err
        | Inr paragraphs \<Rightarrow>
            pptx_slides rd files
              (if paragraphs = [] then b
               else case buildPPTXSlideContent paragraphs of (title, content) \<Rightarrow>
                 appendParseSegment (of_unicode rd) b (slide_section index title) content)
              (Suc index) rest))"

definition parsePPTX :: "office_readers \<Rightarrow> gostr \<Rightarrow> string \<Rightarrow> gerr + parse_result" where
  "parsePPTX rd data mode =
     (case of_zip rd data of
        Inl err \<Rightarrow> Inl err
      | Inr files \<Rightarrow>
          if listSlideXMLNames files = [] then Inl (Plain (lit ''pptx slides not found''))
          else case pptx_slides rd files ([], []) 0 (listSlideXMLNames files) of
            Inl err \<Rightarrow> Inl err
          | Inr b \<Rightarrow>
              if mode = ''enhanced'' \<and> snd b = [] \<and> zipContainsPrefix files (lit ''ppt/media/'') then
                Inl (Plain [28436, 31034, 25991, 31295, 26410, 25552, 21462, 21040, 21487,
                  35835, 25991, 23383, 65292, 30097, 20284, 20197, 22270, 29255, 20869, 23481,
                    20026, 20027, 65292, 24403, 21069, 26410, 21551, 29992, 32, 79, 67, 82])
              else if snd b = [] then Inl (Plain (lit ''presentation has no readable content''))
              else Inr (finalizeParseResult b))"

end
