(* ===== verification/ParserPdf.thy ===== *)
theory ParserPdf
  imports ParserText
begin

text \<open>
  Reading PDF files: \<open>internal/infrastructure/parser/pdf.go\<close>. The PDF library is a parameter: a document
  is its pages, \<open>None\<close> for a page that is null, else its text or an error.
\<close>

type_synonym pdf_pages = "(gerr + gostr) option list"

section \<open>Lines\<close>

definition pdfTableGapPattern :: regexp where
  "pdfTableGapPattern = RSeq RSpace (RPlus RSpace)"

definition pdfListMarkerPattern :: regexp where
  "pdfListMarkerPattern = line_of (RGroup 1 (RAny
     [ROneOf [42, 45],
      RSeq (RPlus RDigit) (ROneOf [46, 12289, 65294, 41]),
      RSeq (ROneOf [65288, 40]) (RSeq (RPlus RDigit) (ROneOf [41, 65289])),
      RSeq (RPlus (ROneOf numerals)) (ROneOf [12289, 46, 65294])]))"

definition ascii_alnum :: "rune \<Rightarrow> bool" where
  "ascii_alnum r \<longleftrightarrow> (97 \<le> r \<and> r \<le> 122) \<or> (65 \<le> r \<and> r \<le> 90) \<or> (48 \<le> r \<and> r \<le> 57)"

definition pdfLikelyWrappedEnglishLinePattern :: regexp where
  "pdfLikelyWrappedEnglishLinePattern =
     (let word = RSeq (RPlus RSpace) (RSeq (RRune (\<lambda>r. 97 \<le> r \<and> r \<le> 122))
        (RStar (RRune (\<lambda>r. ascii_alnum r \<or> r = 47 \<or> r = 45))))
      in RSeq RBegin (RSeq (RPlus (RRune ascii_alnum)) (RSeq (RSeq word (RPlus word)) REnd)))"

definition splitPDFLines :: "gostr \<Rightarrow> gostr list" where
  "splitPDFLines block = filter (\<lambda>l. l \<noteq> []) (map TrimSpace (Split block [10]))"

definition table_row :: "gostr \<Rightarrow> bool" where
  "table_row line \<longleftrightarrow> Contains line (lit ''|'') \<or> Contains line [9] \<or> MatchString pdfTableGapPattern line"

definition isPDFTableBlock :: "gostr list \<Rightarrow> bool" where
  "isPDFTableBlock lines \<longleftrightarrow> length lines \<ge> 2 \<and>
     length (filter (\<lambda>l. TrimSpace l \<noteq> [] \<and> table_row (TrimSpace l)) lines) \<ge> 2"

definition sentence_marks :: gostr where
  "sentence_marks = [12290, 65307, 59, 65292, 44, 65281, 65311, 63, 33, 46, 58, 65306]"

definition detectPDFHeading :: "gostr \<Rightarrow> gostr list \<Rightarrow> nat option" where
  "detectPDFHeading firstLine0 lines =
     (case (if isPlainTextListBlock lines then None else detectPlainTextHeading firstLine0) of
        Some level \<Rightarrow> Some level
      | None \<Rightarrow>
          (let firstLine = TrimSpace firstLine0
           in if firstLine = [] \<or> length lines > 2 then None
              else if length firstLine > 28 \<or> length firstLine < 2 then None
              else if list_ex (\<lambda>r. r \<in> set sentence_marks) firstLine then None
              else if MatchString pdfLikelyWrappedEnglishLinePattern firstLine then None
              else Some 1))"

definition detectPDFListLine :: "gostr \<Rightarrow> bool" where
  "detectPDFListLine line \<longleftrightarrow> TrimSpace line \<noteq> [] \<and> MatchString pdfListMarkerPattern (TrimSpace line)"

definition closing_marks :: gostr where
  "closing_marks = [12290, 65281, 65311, 65307, 59, 58, 65306]"

definition shouldJoinPDFLine :: "gostr \<Rightarrow> gostr \<Rightarrow> bool" where
  "shouldJoinPDFLine previous current =
     (if previous = [] \<or> current = [] then False
      else if detectPDFListLine current \<or> detectPDFListLine previous then False
      else if detectPDFHeading current [current] \<noteq> None then False
      else if isPDFTableBlock [previous, current] then False
      else last previous \<notin> set closing_marks)"

definition endsWithASCIIWord :: "gostr \<Rightarrow> bool" where
  "endsWithASCIIWord t \<longleftrightarrow> TrimSpace t \<noteq> [] \<and> ascii_alnum (last (TrimSpace t))"

definition startsWithASCIIWord :: "gostr \<Rightarrow> bool" where
  "startsWithASCIIWord t \<longleftrightarrow> TrimSpace t \<noteq> [] \<and> ascii_alnum (hd (TrimSpace t))"

definition isCJKRune :: "rune \<Rightarrow> bool" where
  "isCJKRune r \<longleftrightarrow> (0x4E00 \<le> r \<and> r \<le> 0x9FFF) \<or> (0x3400 \<le> r \<and> r \<le> 0x4DBF)"

definition endsWithCJK :: "gostr \<Rightarrow> bool" where
  "endsWithCJK t \<longleftrightarrow> TrimSpace t \<noteq> [] \<and> isCJKRune (last (TrimSpace t))"

definition startsWithCJK :: "gostr \<Rightarrow> bool" where
  "startsWithCJK t \<longleftrightarrow> TrimSpace t \<noteq> [] \<and> isCJKRune (hd (TrimSpace t))"

text \<open>\<open>s[:len(s)-1]\<close> cuts a byte: of a longer rune the other bytes stay.\<close>

definition drop_last_byte :: "gostr \<Rightarrow> gostr" where
  "drop_last_byte s = butlast s @ map stray (butlast (rune_bytes (last s)))"

definition hyphen_end :: "gostr \<Rightarrow> bool" where
  "hyphen_end s \<longleftrightarrow> HasSuffix s (lit ''-'') \<or> HasSuffix s [0x2011] \<or> HasSuffix s [0x2013]"

definition joinPDFLine :: "gostr \<Rightarrow> gostr \<Rightarrow> gostr" where
  "joinPDFLine previous current =
     (if hyphen_end previous then TrimRight (drop_last_byte previous) [32, 9] @ current
      else if endsWithASCIIWord previous \<and> startsWithASCIIWord current then previous @ [32] @ current
      else if endsWithCJK previous \<or> startsWithCJK current then previous @ current
      else previous @ [32] @ current)"

definition put_line :: "gostr \<Rightarrow> gostr list \<Rightarrow> gostr list" where
  "put_line line paragraphs =
     (if paragraphs = [] then [line]
      else if shouldJoinPDFLine (last paragraphs) line then
        butlast paragraphs @ [joinPDFLine (last paragraphs) line]
      else paragraphs @ [line])"

definition normalizePDFParagraph :: "gostr \<Rightarrow> gostr" where
  "normalizePDFParagraph block = TrimSpace (Join (fold put_line (splitPDFLines block) []) [10])"

section \<open>Tables and blocks\<close>

text \<open>\<open>Split\<close> at the matches of a pattern that never matches the empty text.\<close>

fun split_from :: "nat \<Rightarrow> gostr \<Rightarrow> regexp \<Rightarrow> nat \<Rightarrow> gostr list" where
  "split_from 0 s re start = [drop start s]"
| "split_from (Suc n) s re start =
     (case match_from s re start of
        None \<Rightarrow> [drop start s]
      | Some (i, j, caps) \<Rightarrow> take (i - start) (drop start s) # split_from n s re j)"

definition regexp_Split :: "regexp \<Rightarrow> gostr \<Rightarrow> gostr list" where
  "regexp_Split re s = split_from (length s) s re 0"

definition trimPDFCells :: "gostr list \<Rightarrow> gostr list" where
  "trimPDFCells parts = filter (\<lambda>p. p \<noteq> []) (map TrimSpace parts)"

definition table_line :: "gostr \<Rightarrow> gostr" where
  "table_line line =
     (if Contains line (lit ''|'') then line
      else if Contains line [9] then Join (trimPDFCells (Split line [9])) (lit '' | '')
      else if MatchString pdfTableGapPattern line then Join (trimPDFCells (regexp_Split pdfTableGapPattern line)) (lit '' | '')
      else line)"

definition normalizePDFTableBlock :: "gostr list \<Rightarrow> gostr" where
  "normalizePDFTableBlock lines = Join (map table_line (filter (\<lambda>l. l \<noteq> []) (map TrimSpace lines))) [10]"

definition pdf_blank_lines :: regexp where
  "pdf_blank_lines = RSeq (RChar 10) (RSeq (RStar RSpace) (RPlus (RChar 10)))"

definition splitPDFBlocks :: "gostr \<Rightarrow> gostr list" where
  "splitPDFBlocks t = filter (\<lambda>b. b \<noteq> []) (map TrimSpace (regexp_Split pdf_blank_lines (unix_lines t)))"

section \<open>Pages\<close>

definition appendPDFSegment :: "int \<Rightarrow> parse_result \<Rightarrow> gostr \<Rightarrow> gostr \<Rightarrow> parse_result" where
  "appendPDFSegment page b section0 content0 =
     (let content = TrimSpace content0; section = (if TrimSpace section0 = [] then lit ''page'' else section0); segs = snd b
      in if content = [] then b
         else (add_text (fst b) content,
           if segs \<noteq> [] \<and> seg_page (last segs) = page \<and> seg_section (last segs) = section then
             butlast segs @ [(last segs)\<lparr>seg_content := seg_content (last segs) @ [10,
               10] @ content\<rparr>]
           else segs @ [\<lparr>seg_page = page, seg_section = section, seg_heading_path = [],
             seg_block_type = [],
             seg_content = content\<rparr>]))"

definition pdf_block_text :: "gostr \<Rightarrow> gostr \<times> gostr list" where
  "pdf_block_text block =
     (let lines = splitPDFLines block
      in if isPDFTableBlock lines then (normalizePDFTableBlock lines, lines)
         else let p = normalizePDFParagraph block in (p, Split p [10]))"

fun pdf_blocks :: "int \<Rightarrow> parse_result \<times> gostr list \<Rightarrow> gostr list \<Rightarrow> parse_result \<times> gostr list" where
  "pdf_blocks page st [] = st"
| "pdf_blocks page (b, headings) (raw # rest) =
     (case pdf_block_text raw of (block, lines) \<Rightarrow>
        if block = [] then pdf_blocks page (b, headings) rest
        else let firstLine = TrimSpace (lines ! 0)
          in case detectPDFHeading firstLine lines of
            Some level \<Rightarrow>
              (let headings1 = trimHeadingPath headings level @ [cleanHeadingText firstLine];
                   remainder = normalizePDFParagraph (Join (tl lines) [10])
               in if remainder = [] then pdf_blocks page (b, headings1) rest
                  else pdf_blocks page (appendPDFSegment page b (currentSection headings1) remainder, headings1) rest)
          | None \<Rightarrow> pdf_blocks page (appendPDFSegment page b (currentSection headings) block, headings) rest)"

definition appendPDFSegments :: "int \<Rightarrow> parse_result \<Rightarrow> gostr \<Rightarrow> parse_result" where
  "appendPDFSegments page b t =
     (let blocks = splitPDFBlocks t
      in fst (pdf_blocks page (b, []) (if blocks = [] then [normalizePDFParagraph t] else blocks)))"

definition append_page :: "string \<Rightarrow> int \<Rightarrow> gostr \<Rightarrow> parse_result \<Rightarrow> parse_result" where
  "append_page mode pageNum t b =
     (if mode = ''standard'' then
        appendPDFSegment pageNum b ([31532] @ lit (Itoa pageNum) @ [39029]) (normalizePDFParagraph t)
      else appendPDFSegments pageNum b t)"

fun pdf_pages_loop :: "string \<Rightarrow> int \<Rightarrow> parse_result \<Rightarrow> nat \<Rightarrow> pdf_pages \<Rightarrow> gerr + parse_result \<times> nat" where
  "pdf_pages_loop mode pageNum b extracted [] = Inr (b, extracted)"
| "pdf_pages_loop mode pageNum b extracted (None # rest) = pdf_pages_loop mode (pageNum + 1) b extracted rest"
| "pdf_pages_loop mode pageNum b extracted (Some (Inl err) # rest) = Inl err"
| "pdf_pages_loop mode pageNum b extracted (Some (Inr t) # rest) =
     (if TrimSpace t = [] then pdf_pages_loop mode (pageNum + 1) b extracted rest
      else pdf_pages_loop mode (pageNum + 1) (append_page mode pageNum (TrimSpace t) b) (Suc extracted) rest)"

definition encrypted_error :: "unicode_tables \<Rightarrow> gerr \<Rightarrow> bool" where
  "encrypted_error u err \<longleftrightarrow> Contains (ToLower u (err_text err)) (lit ''encryption version'') \<or>
     Contains (ToLower u (err_text err)) (lit ''/filter /standard'')"

definition parsePDF :: "unicode_tables \<Rightarrow> (gostr \<Rightarrow> gerr + pdf_pages) \<Rightarrow> gostr \<Rightarrow> string \<Rightarrow> gerr + parse_result" where
  "parsePDF u open_pdf data mode =
     (case open_pdf data of
        Inl err \<Rightarrow> Inl (if encrypted_error u err
          then Plain [35813, 32, 80, 68, 70, 32, 21551, 29992, 20102, 21152, 23494, 25110,
            26435, 38480, 38480, 21046, 65292, 35831, 20808, 31227, 38500, 23494, 30721, 25110,
              21478, 23384, 20026, 26410, 21152, 23494, 32, 80, 68, 70, 32, 21518, 20877,
                19978, 20256] else err)
      | Inr pages \<Rightarrow> (case pdf_pages_loop mode 1 ([], []) 0 pages of
          Inl err \<Rightarrow> Inl err
        | Inr (b, extracted) \<Rightarrow>
            if extracted = 0 \<and> mode = ''enhanced'' then
              Inl (Plain [25991, 26723, 26410, 25552, 21462, 21040, 21487, 35835, 25991, 23383,
                65292, 30097, 20284, 25195, 25551, 20214, 25110, 22270, 29255, 22411, 32, 80,
                  68, 70, 65292, 24403, 21069, 26410, 21551, 29992, 32, 79, 67, 82])
            else Inr (finalizeParseResult b)))"

end
