(* ===== verification/Parser.thy ===== *)
theory Parser
  imports ParserOffice ParserPdf
begin

text \<open>
  Reading a file by its type: \<open>internal/infrastructure/parser/parser.go\<close> and \<open>doc.go\<close>. The object store and the converters for legacy Word files are parameters.
\<close>

section \<open>Legacy Word files\<close>

text \<open>
  What a converter does: an error of the temporary file, of looking up the program and of running it,
  and what it wrote.
\<close>

record converter_run =
  cv_temp :: "gerr option"
  cv_path :: "gerr option"
  cv_run :: "gerr option"
  cv_stdout :: gostr
  cv_stderr :: gostr

definition runTempFileConverter :: "converter_run \<Rightarrow> gerr + gostr" where
  "runTempFileConverter r =
     (case cv_temp r of
        Some err \<Rightarrow> Inl err
      | None \<Rightarrow> (case cv_path r of
          Some err \<Rightarrow> Inl err
        | None \<Rightarrow> (case cv_run r of
            Some err \<Rightarrow> Inl (if cv_stderr r \<noteq> [] then Plain (err_text err @ lit '': '' @ TrimSpace (cv_stderr r)) else err)
          | None \<Rightarrow> if TrimSpace (cv_stdout r) = [] then Inl (Plain (lit ''converted text is empty''))
              else Inr (TrimSpace (cv_stdout r)))))"

record 'e parsers =
  ps_object :: "gostr \<Rightarrow> gostr \<Rightarrow> 'e \<Rightarrow> (gerr + gostr) \<times> 'e"
  ps_office :: office_readers
  ps_pdf :: "gostr \<Rightarrow> gerr + pdf_pages"
  ps_convert :: "string \<Rightarrow> gostr \<Rightarrow> 'e \<Rightarrow> converter_run \<times> 'e"

fun try_converters :: "'e parsers \<Rightarrow> gostr \<Rightarrow> string list \<Rightarrow> 'e \<Rightarrow> (gerr + gostr) \<times> 'e" where
  "try_converters pv data [] e =
     (Inl (Plain [24403, 21069, 29615, 22659, 26080, 27861, 35299, 26512, 32, 46, 100, 111, 99,
       32, 25991, 20214, 65292, 35831, 20808, 23558, 20854, 36716, 25442, 20026, 32, 100, 111,
         99, 120, 12289, 112, 100, 102, 12289, 116, 120, 116, 65292, 25110, 23433, 35013, 32,
           116, 101, 120, 116, 117, 116, 105, 108, 32, 47, 32, 97, 110, 116, 105, 119, 111,
             114, 100, 32, 47, 32, 99, 97, 116, 100, 111, 99, 32, 21518, 37325, 35797]), e)"
| "try_converters pv data (binary # rest) e =
     (case ps_convert pv binary data e of (r, e') \<Rightarrow>
        (case runTempFileConverter r of Inr out \<Rightarrow> (Inr out,
          e') | Inl _ \<Rightarrow> try_converters pv data rest e'))"

definition convertLegacyWordToText :: "'e parsers \<Rightarrow> gostr \<Rightarrow> 'e \<Rightarrow> (gerr + gostr) \<times> 'e" where
  "convertLegacyWordToText pv data = try_converters pv data [''textutil'', ''antiword'', ''catdoc'']"

definition parseDOC :: "'e parsers \<Rightarrow> gostr \<Rightarrow> 'e \<Rightarrow> (gerr + parse_result) \<times> 'e" where
  "parseDOC pv data e =
     (case convertLegacyWordToText pv data e of
        (Inl err, e') \<Rightarrow> (Inl err, e')
      | (Inr plainText, e') \<Rightarrow> (parsePlainText (of_unicode (ps_office pv)) plainText, e'))"

section \<open>By type\<close>

definition parse_data :: "'e parsers \<Rightarrow> gostr \<Rightarrow> string \<Rightarrow> gostr \<Rightarrow> 'e \<Rightarrow> (gerr + parse_result) \<times> 'e" where
  "parse_data pv fileType mode data e =
     (let u = of_unicode (ps_office pv); ty = ToLower u fileType
      in if ty = lit ''md'' \<or> ty = lit ''markdown'' then (parseMarkdown u data, e)
         else if ty = lit ''txt'' then (parsePlainText u data, e)
         else if ty = lit ''pdf'' then (parsePDF u (ps_pdf pv) data mode, e)
         else if ty = lit ''docx'' then (parseDOCX (ps_office pv) data mode, e)
         else if ty = lit ''pptx'' then (parsePPTX (ps_office pv) data mode, e)
         else if ty = lit ''doc'' then parseDOC pv data e
         else (Inl (Plain [26242, 19981, 25903, 25345, 35813, 25991, 20214, 26684, 24335]), e))"

definition Parse ::
    "'e parsers \<Rightarrow> gostr \<Rightarrow> gostr \<Rightarrow> gostr \<Rightarrow> string \<Rightarrow> 'e \<Rightarrow> (gerr + gostr \<times> document_metadata json) \<times> 'e" where
  "Parse pv bucket objectName fileType mode e =
     (case ps_object pv bucket objectName e of
        (Inl err, e') \<Rightarrow> (Inl err, e')
      | (Inr data, e') \<Rightarrow>
          (case parse_data pv fileType (NormalizeProcessingMode mode) data e' of
             (Inl err, e'') \<Rightarrow> (Inl err, e'')
           | (Inr (plain, segments), e'') \<Rightarrow> (Inr (plain, JValue segments), e'')))"

end
