(* ===== verification/ParserProperties.thy ===== *)
theory ParserProperties
  imports Parser Fixtures
begin

text \<open>
  What all formats have in common: the text of a file is that of its segments; reading plain text
  loses only headings; and where headings and text are lost or damaged.
\<close>

lemma fold_keeps:
  assumes "\<And>x s. P s \<Longrightarrow> P (f x s)" and "P s"
  shows "P (fold f xs s)"
  using assms(2) by (induction xs arbitrary: s) (simp_all add: assms(1))

section \<open>Joined texts\<close>

lemma Join_snoc: "Join (xs @ [y]) sep = (if xs = [] then y else Join xs sep @ sep @ y)"
  by (induction xs rule: induct_list012) auto

lemma Join_eq_Nil: "\<forall>x \<in> set xs. x \<noteq> [] \<Longrightarrow> Join xs sep = [] \<longleftrightarrow> xs = []"
  by (cases xs rule: remdups_adj.cases) auto

lemma trimmed_append: "trimmed a \<Longrightarrow> trimmed b \<Longrightarrow> a \<noteq> [] \<Longrightarrow> b \<noteq> [] \<Longrightarrow> trimmed (a @ c @ b)"
  by (auto simp: trimmed_def)

lemma trimmed_Join:
  assumes "\<forall>x \<in> set xs. trimmed x \<and> x \<noteq> []"
  shows "trimmed (Join xs sep)"
  using assms
proof (induction xs rule: rev_induct)
  case (snoc x xs)
  then have "trimmed (Join xs sep)" "trimmed x" "x \<noteq> []" "xs \<noteq> [] \<longrightarrow> Join xs sep \<noteq> []"
    using Join_eq_Nil [of xs sep] by auto
  then show ?case using trimmed_append [of "Join xs sep" x sep] by (auto simp: Join_snoc)
qed (simp add: trimmed_def)

lemma trimmed_block: "trimmed (normalizeTextBlock b)"
  unfolding normalizeTextBlock_def by (rule trimmed_Join) (auto simp: trimmed_TrimSpace)

lemma json_text_Join: "json_text (Join xs sep) = Join (map json_text xs) (json_text sep)"
  by (induction xs sep rule: Join.induct) (auto simp: json_text_def)

lemma json_rune_space [simp]: "isSpace (json_rune r) \<longleftrightarrow> isSpace r"
  by (auto simp: json_rune_def isSpace_def)

lemma trimmed_json [simp]: "trimmed (json_text s) \<longleftrightarrow> trimmed s"
  by (cases "s = []") (simp_all add: trimmed_def json_text_def hd_map last_map)

lemma TrimSpace_json_Nil [simp]: "TrimSpace (json_text s) = [] \<longleftrightarrow> TrimSpace s = []"
  by (simp add: TrimSpace_Nil_iff json_text_def)

lemma json_text_Nil [simp]: "json_text s = [] \<longleftrightarrow> s = []"
  by (simp add: json_text_def)

section \<open>The text is that of the segments\<close>

definition segment_ok :: "parse_segment \<Rightarrow> bool" where
  "segment_ok s \<longleftrightarrow> trimmed (seg_content s) \<and> seg_content s \<noteq> [] \<and> TrimSpace (seg_section s) \<noteq> []"

definition result_ok :: "parse_result \<Rightarrow> bool" where
  "result_ok b \<longleftrightarrow> fst b = Join (map seg_content (snd b)) [10, 10] \<and> (\<forall>s \<in> set (snd b). segment_ok s)"

lemma result_ok_start: "result_ok ([], [])"
  by (simp add: result_ok_def)

lemma default_section: "TrimSpace (lit ''text'') \<noteq> []" "TrimSpace (lit ''page'') \<noteq> []"
  by code_simp+

lemma result_ok_Nil: "result_ok b \<Longrightarrow> fst b = [] \<longleftrightarrow> snd b = []"
  using Join_eq_Nil [of "map seg_content (snd b)"] by (auto simp: result_ok_def segment_ok_def)

text \<open>A new segment, or more content in the last one.\<close>

lemma result_ok_new:
  assumes "result_ok b" and "segment_ok s"
  shows "result_ok (add_text (fst b) (seg_content s), snd b @ [s])"
  using assms result_ok_Nil [OF assms(1)] by (auto simp: result_ok_def add_text_def Join_snoc)

lemma result_ok_more:
  assumes "result_ok b" and "snd b \<noteq> []" and "trimmed c" and "c \<noteq> []"
    and "seg_content s = seg_content (last (snd b)) @ [10, 10] @ c" and "seg_section s = seg_section (last (snd b))"
  shows "result_ok (add_text (fst b) c, butlast (snd b) @ [s])"
proof -
  obtain segs l where b: "snd b = segs @ [l]" using assms(2) by (cases "snd b" rule: rev_cases) auto
  with assms have "segment_ok l" "\<forall>s \<in> set segs. segment_ok s" by (auto simp: result_ok_def)
  moreover from this have "segment_ok s"
    using assms(3-6) b trimmed_append [of "seg_content l" c "[10, 10]"] by (auto simp: segment_ok_def)
  ultimately show ?thesis
    using assms b result_ok_Nil [OF assms(1)] by (auto simp: result_ok_def add_text_def Join_snoc)
qed

lemma result_ok_append: "result_ok b \<Longrightarrow> result_ok (appendParseSegment u b section content)"
proof -
  assume b: "result_ok b"
  let ?c = "TrimSpace content" and ?s = "if TrimSpace section = [] then lit ''text'' else section"
  have s: "TrimSpace ?s \<noteq> []" by (simp add: default_section)
  show ?thesis
  proof (cases "?c = [] \<or> (snd b \<noteq> [] \<and> seg_section (last (snd b)) = ?s)")
    case True
    then show ?thesis
      using b result_ok_more [OF b _ trimmed_TrimSpace [of content]]
      by (auto simp: appendParseSegment_def append_to_segments_def Let_def)
  next
    case False
    define new where "new = \<lparr>seg_page = 0, seg_section = ?s, seg_heading_path = splitHeadingPath u ?s,
      seg_block_type = detectBlockType ?c, seg_content = ?c\<rparr>"
    have "segment_ok new" using False s by (simp add: new_def segment_ok_def trimmed_TrimSpace)
    from result_ok_new [OF b this] False show ?thesis
      by (auto simp: appendParseSegment_def append_to_segments_def Let_def new_def)
  qed
qed

lemma result_ok_page: "result_ok b \<Longrightarrow> result_ok (appendPDFSegment page b section content)"
proof -
  assume b: "result_ok b"
  let ?c = "TrimSpace content" and ?s = "if TrimSpace section = [] then lit ''page'' else section"
  have s: "TrimSpace ?s \<noteq> []" by (simp add: default_section)
  show ?thesis
  proof (cases "?c = [] \<or> (snd b \<noteq> [] \<and> seg_page (last (snd b)) = page \<and> seg_section (last (snd b)) = ?s)")
    case True
    then show ?thesis
      using b result_ok_more [OF b _ trimmed_TrimSpace [of content]]
      by (auto simp: appendPDFSegment_def Let_def)
  next
    case False
    define new where "new = \<lparr>seg_page = page, seg_section = ?s, seg_heading_path = [], seg_block_type = [], seg_content = ?c\<rparr>"
    have "segment_ok new" using False s by (simp add: new_def segment_ok_def trimmed_TrimSpace)
    from result_ok_new [OF b this] False show ?thesis
      by (auto simp: appendPDFSegment_def Let_def new_def)
  qed
qed

text \<open>The loops of the formats.\<close>

lemma plain_block_ok: "result_ok (fst st) \<Longrightarrow> result_ok (fst (plain_block u raw st))"
  by (cases st) (auto simp: plain_block_def Let_def result_ok_append split: option.splits)

lemma plain_blocks_ok: "result_ok (fst st) \<Longrightarrow> result_ok (fst (fold (plain_block u) raws st))"
  by (rule fold_keeps [where P = "\<lambda>st. result_ok (fst st)"]) (rule plain_block_ok)

lemma md_flush_ok: "result_ok (md_out st) \<Longrightarrow> result_ok (md_out (md_flush u st))"
  by (simp add: md_flush_def Let_def result_ok_append)

lemma md_line_ok: "result_ok (md_out st) \<Longrightarrow> result_ok (md_out (md_line u line st))"
  by (auto simp: md_line_def Let_def md_write_def md_flush_ok split: option.splits)

lemma md_lines_ok: "result_ok (md_out st) \<Longrightarrow> result_ok (md_out (fold (md_line u) lines st))"
  by (rule fold_keeps [where P = "\<lambda>st. result_ok (md_out st)"]) (rule md_line_ok)

lemma docx_block_ok: "result_ok (fst st) \<Longrightarrow> result_ok (fst (docx_block u block st))"
  by (cases st) (auto simp: docx_block_def result_ok_append)

lemma docx_blocks_ok: "result_ok (fst st) \<Longrightarrow> result_ok (fst (fold (docx_block u) body st))"
  by (rule fold_keeps [where P = "\<lambda>st. result_ok (fst st)"]) (rule docx_block_ok)

lemma pptx_slides_ok: "pptx_slides rd files b index names = Inr b' \<Longrightarrow> result_ok b \<Longrightarrow> result_ok b'"
  by (induction rd files b index names rule: pptx_slides.induct)
    (auto simp: result_ok_append split: sum.splits prod.splits if_splits)

lemma pdf_blocks_ok: "result_ok (fst st) \<Longrightarrow> result_ok (fst (pdf_blocks page st raws))"
  by (induction page st raws rule: pdf_blocks.induct)
    (auto simp: Let_def result_ok_page split: option.splits prod.splits)

lemma append_page_ok: "result_ok b \<Longrightarrow> result_ok (append_page mode page t b)"
  by (auto simp: append_page_def appendPDFSegments_def Let_def result_ok_page pdf_blocks_ok)

lemma pdf_pages_ok: "pdf_pages_loop mode page b n pages = Inr (b', n') \<Longrightarrow> result_ok b \<Longrightarrow> result_ok b'"
  by (induction mode page b n pages rule: pdf_pages_loop.induct) (auto simp: append_page_ok split: if_splits)

text \<open>What is handed on: the text of the segments, up to stray bytes.\<close>

definition handed_on :: "parse_result \<Rightarrow> bool" where
  "handed_on r \<longleftrightarrow> trimmed (fst r) \<and> json_text (fst r) = Join (map seg_content (snd r)) [10, 10] \<and>
     (\<forall>s \<in> set (snd r). segment_ok s)"

lemma handed_on_final:
  assumes "result_ok b"
  shows "handed_on (finalizeParseResult b)"
proof -
  have t: "trimmed (fst b)"
    using assms trimmed_Join [of "map seg_content (snd b)" "[10, 10]"] by (auto simp: result_ok_def segment_ok_def)
  have "json_text (fst b) = Join (map json_text (map seg_content (snd b))) [10, 10]"
    using assms by (simp only: result_ok_def json_text_Join) (simp add: json_text_def json_rune_def)
  with t assms show ?thesis
    by (auto simp: handed_on_def finalizeParseResult_def TrimSpace_of_trimmed json_segment_def comp_def
        result_ok_def segment_ok_def)
qed

lemma parsePlainText_handed: "parsePlainText u data = Inr r \<Longrightarrow> handed_on r"
  using plain_blocks_ok [of "(([], []), [])"]
  by (auto simp: parsePlainText_def Let_def result_ok_start intro!: handed_on_final result_ok_append)

lemma parseMarkdown_handed: "parseMarkdown u data = Inr r \<Longrightarrow> handed_on r"
  using md_lines_ok [of md_start]
  by (auto simp: parseMarkdown_def Let_def md_start_def result_ok_start split: prod.splits if_splits
      intro!: handed_on_final result_ok_append md_flush_ok)

lemma parsePDF_handed: "parsePDF u pdf data mode = Inr r \<Longrightarrow> handed_on r"
  by (auto simp: parsePDF_def split: sum.splits if_splits prod.splits
      intro!: handed_on_final intro: pdf_pages_ok [OF _ result_ok_start])

lemma parseDOCX_handed: "parseDOCX rd data mode = Inr r \<Longrightarrow> handed_on r"
  using docx_blocks_ok [of "(([], []), [])"]
  by (auto simp: parseDOCX_def docx_result_def Let_def result_ok_start split: sum.splits if_splits intro!: handed_on_final)

lemma parsePPTX_handed: "parsePPTX rd data mode = Inr r \<Longrightarrow> handed_on r"
  by (auto simp: parsePPTX_def split: sum.splits if_splits intro!: handed_on_final
      intro: pptx_slides_ok [OF _ result_ok_start])

lemma parse_data_handed: "parse_data pv fileType mode data e = (Inr r, e') \<Longrightarrow> handed_on r"
  by (auto simp: parse_data_def parseDOC_def Let_def parsePlainText_handed parseMarkdown_handed parsePDF_handed
      parseDOCX_handed parsePPTX_handed split: if_splits prod.splits sum.splits)

text \<open>C32 Whatever the format, the text that is stored for a document is the text of its segments: they
  are non-empty, trimmed and have a section, and joined by blank lines they are the text, but for
  stray bytes that the metadata cannot carry.
\<close>

theorem parsed_text_is_that_of_the_segments:
  assumes "Parse pv bucket objectName fileType mode e = (Inr (plain, metadata), e')"
  shows "\<exists>segments. metadata = JValue segments \<and> trimmed plain \<and>
    json_text plain = Join (map seg_content segments) [10, 10] \<and>
    (\<forall>s \<in> set segments. seg_content s \<noteq> [] \<and> trimmed (seg_content s) \<and> TrimSpace (seg_section s) \<noteq> [])"
proof -
  from assms obtain data e1 segments where "metadata = JValue segments"
    and "parse_data pv fileType (NormalizeProcessingMode mode) data e1 = (Inr (plain, segments), e')"
    by (auto simp: Parse_def split: prod.splits sum.splits)
  with parse_data_handed [OF this(2)] show ?thesis by (auto simp: handed_on_def segment_ok_def)
qed

text \<open>A store with one file, whose content is the text of a small document.\<close>

definition two_sections :: gostr where
  "two_sections = lit ''# One'' @ [10] @ lit ''alpha'' @ [10, 10, 10] @ lit ''beta'' @ [10] @ lit ''## Two'' @ [10] @ lit ''gamma''"

definition file_parsers :: "nat parsers" where
  "file_parsers = \<lparr>ps_object = (\<lambda>_ _ e. (Inr two_sections, e)),
     ps_office = \<lparr>of_unicode = ascii_tables, of_zip = (\<lambda>_. Inr []), of_xml = (\<lambda>_. ([], None))\<rparr>,
     ps_pdf = (\<lambda>_. Inr []),
     ps_convert = (\<lambda>_ _ e. (\<lparr>cv_temp = None, cv_path = None, cv_run = None, cv_stdout = [], cv_stderr = []\<rparr>, e))\<rparr>"

lemma parsed_two_sections:
  "Parse file_parsers [] [] (lit ''MD'') [] 0 =
     (Inr (lit ''alpha'' @ [10, 10] @ lit ''beta'' @ [10, 10] @ lit ''gamma'', JValue
       [\<lparr>seg_page = 0, seg_section = lit ''One'', seg_heading_path = [lit ''One''], seg_block_type = lit ''paragraph'',
          seg_content = lit ''alpha'' @ [10, 10] @ lit ''beta''\<rparr>,
        \<lparr>seg_page = 0, seg_section = lit ''One / Two'', seg_heading_path = [lit ''One'', lit ''Two''],
          seg_block_type = lit ''paragraph'', seg_content = lit ''gamma''\<rparr>]), 0)"
  by code_simp

lemma parsed_text_is_that_of_the_segments_witness:
  "trimmed (lit ''alpha'' @ [10, 10] @ lit ''beta'' @ [10, 10] @ lit ''gamma'')"
  using parsed_text_is_that_of_the_segments [OF parsed_two_sections] by blast

section \<open>Plain text loses only headings\<close>

definition in_result :: "gostr \<Rightarrow> parse_segment list \<Rightarrow> bool" where
  "in_result t segments \<longleftrightarrow> (\<exists>s \<in> set segments. Contains (seg_content s) t)"

lemma Contains_self: "Contains t t"
  unfolding Contains_iff by (intro exI [of _ "[]"]) simp

lemma Contains_before: "Contains s t \<Longrightarrow> Contains (s @ x) t"
  unfolding Contains_iff by (metis append_assoc)

lemma Contains_after: "Contains s t \<Longrightarrow> Contains (x @ s) t"
  unfolding Contains_iff by (metis append_assoc)

text \<open>What is kept of a block: all of it, or what follows its heading.\<close>

definition kept_text :: "gostr \<Rightarrow> gostr" where
  "kept_text block = (if block_heading block = None then block else block_rest block)"

lemma in_result_append_segments:
  assumes "in_result t segs"
  shows "in_result t (append_to_segments u segs section content)"
proof -
  obtain ss l where segs: "segs = ss @ [l]" using assms by (cases segs rule: rev_cases) (auto simp: in_result_def)
  then show ?thesis
    using assms Contains_before [of "seg_content l" t] by (auto simp: in_result_def append_to_segments_def)
qed

lemma in_result_added: "in_result content (append_to_segments u segs section content)"
  using Contains_after [OF Contains_self, of "seg_content (last segs) @ [10, 10]" content]
  by (auto simp: in_result_def append_to_segments_def Contains_self)

lemma in_result_append: "in_result t (snd b) \<Longrightarrow> in_result t (snd (appendParseSegment u b section content))"
  by (simp add: appendParseSegment_def Let_def in_result_append_segments)

lemma in_result_appended:
  "trimmed content \<Longrightarrow> content \<noteq> [] \<Longrightarrow> in_result content (snd (appendParseSegment u b section content))"
  by (simp add: appendParseSegment_def Let_def in_result_added TrimSpace_of_trimmed)

lemma trimmed_rest: "trimmed (block_rest block)"
  by (simp add: block_rest_def trimmed_block)

lemma plain_block_mono: "in_result t (snd (fst st)) \<Longrightarrow> in_result t (snd (fst (plain_block u raw st)))"
  by (cases st) (auto simp: plain_block_def Let_def in_result_append split: option.splits)

lemma plain_blocks_mono: "in_result t (snd (fst st)) \<Longrightarrow> in_result t (snd (fst (fold (plain_block u) raws st)))"
  by (rule fold_keeps [where P = "\<lambda>st. in_result t (snd (fst st))"]) (rule plain_block_mono)

lemma plain_block_kept:
  assumes "normalizeTextBlock raw \<noteq> []" and "kept_text (normalizeTextBlock raw) \<noteq> []"
  shows "in_result (kept_text (normalizeTextBlock raw)) (snd (fst (plain_block u raw st)))"
  using assms by (cases st)
    (auto simp: plain_block_def Let_def kept_text_def in_result_appended trimmed_block trimmed_rest split: option.splits)

lemma plain_blocks_kept:
  assumes "raw \<in> set raws" and "normalizeTextBlock raw \<noteq> []" and "kept_text (normalizeTextBlock raw) \<noteq> []"
  shows "in_result (kept_text (normalizeTextBlock raw)) (snd (fst (fold (plain_block u) raws st)))"
proof -
  from split_list [OF assms(1)] obtain xs ys where "raws = xs @ raw # ys" by blast
  then show ?thesis by (simp add: plain_blocks_mono plain_block_kept assms)
qed

lemma in_result_json:
  assumes "in_result t segs"
  shows "in_result (json_text t) (map json_segment segs)"
proof -
  obtain s a b where s: "s \<in> set segs" "seg_content s = a @ t @ b" using assms by (auto simp: in_result_def Contains_iff)
  then have "seg_content (json_segment s) = json_text a @ json_text t @ json_text b"
    by (simp add: json_segment_def json_text_def)
  with s(1) show ?thesis unfolding in_result_def Contains_iff by auto
qed

lemma kept_nothing: "kept_text [] = []"
proof -
  have "block_rest [] = []" by code_simp
  then show ?thesis by (simp add: kept_text_def)
qed

text \<open>
  Reading plain text loses only headings: every block between blank lines is, line by line, inside
  the content of one segment, all of it or without the heading it starts with.
\<close>

theorem plain_text_loses_only_headings:
  assumes "parsePlainText u data = Inr (plain, segments)"
    and "raw \<in> set (Split (unix_lines data) [10, 10])" and "kept_text (normalizeTextBlock raw) \<noteq> []"
  shows "in_result (json_text (kept_text (normalizeTextBlock raw))) segments"
proof -
  have "normalizeTextBlock raw \<noteq> []"
    using assms(3) kept_nothing by metis
  from plain_blocks_kept [OF assms(2) this assms(3)]
  have "in_result (kept_text (normalizeTextBlock raw))
      (snd (fst (fold (plain_block u) (Split (unix_lines data) [10, 10]) (([], []), []))))" .
  from in_result_json [OF this] in_result_json [OF in_result_append [OF this]] assms(1) show ?thesis
    by (auto simp: parsePlainText_def Let_def finalizeParseResult_def split: if_splits)
qed

definition list_file :: gostr where
  "list_file = lit ''1. Apples'' @ [10, 10] @ lit ''2. Bananas'' @ [10, 10] @ lit ''The end''"

lemma list_file_parsed:
  "parsePlainText ascii_tables list_file =
     Inr (lit ''The end'', [\<lparr>seg_page = 0, seg_section = lit ''2. Bananas'', seg_heading_path = [lit ''2. Bananas''],
       seg_block_type = lit ''paragraph'', seg_content = lit ''The end''\<rparr>])"
  by code_simp

lemma plain_text_loses_only_headings_witness:
  "in_result (lit ''The end'') [\<lparr>seg_page = 0, seg_section = lit ''2. Bananas'', seg_heading_path = [lit ''2. Bananas''],
     seg_block_type = lit ''paragraph'', seg_content = lit ''The end''\<rparr>]"
proof -
  have 1: "lit ''The end'' \<in> set (Split (unix_lines list_file) [10, 10])" by code_simp
  have 2: "kept_text (normalizeTextBlock (lit ''The end'')) = lit ''The end''" by code_simp
  have 3: "lit ''The end'' \<noteq> []" and 4: "json_text (lit ''The end'') = lit ''The end''" by code_simp+
  from plain_text_loses_only_headings [OF list_file_parsed 1] show ?thesis
    unfolding 2 4 using 3 by blast
qed

section \<open>Where text and headings go wrong\<close>

text \<open>
  The items of a list that stand in blocks of their own are headings; one without text after it
  leaves no trace: the first item of the list above is in no segment and in no section.
\<close>

lemma list_items_are_lost:
  "\<exists>plain segments. parsePlainText ascii_tables list_file = Inr (plain, segments) \<and>
     \<not> Contains plain (lit ''Apples'') \<and> map seg_section segments = [lit ''2. Bananas''] \<and>
     map seg_content segments = [lit ''The end'']"
proof -
  have "\<not> Contains (lit ''The end'') (lit ''Apples'')" by code_simp
  then show ?thesis using list_file_parsed by auto
qed

text \<open>
  A heading path is cut at the level less one, counted from the first heading: when a level is
  skipped, the second heading of a level is filed under the first.
\<close>

lemma siblings_nest:
  assumes "length headings + 1 < level"
  shows "trimHeadingPath (trimHeadingPath headings level @ [a]) level @ [b] = headings @ [a, b]"
  using assms by (auto simp: trimHeadingPath_def)

lemma questions_nest:
  "\<exists>plain segments. parsePlainText ascii_tables
     (lit ''Q1:a'' @ [10] @ lit ''x'' @ [10, 10] @ lit ''Q2:b'' @ [10] @ lit ''y'') = Inr (plain, segments) \<and>
     map seg_section segments = [lit ''Q1:a'', lit ''Q1:a / Q2:b'']"
proof -
  have "parsePlainText ascii_tables (lit ''Q1:a'' @ [10] @ lit ''x'' @ [10, 10] @ lit ''Q2:b'' @ [10] @ lit ''y'') =
    Inr (lit ''x'' @ [10, 10] @ lit ''y'',
      [\<lparr>seg_page = 0, seg_section = lit ''Q1:a'', seg_heading_path = [lit ''Q1:a''],
         seg_block_type = lit ''paragraph'', seg_content = lit ''x''\<rparr>,
       \<lparr>seg_page = 0, seg_section = lit ''Q1:a / Q2:b'', seg_heading_path = [lit ''Q1:a'', lit ''Q2:b''],
         seg_block_type = lit ''paragraph'', seg_content = lit ''y''\<rparr>])"
    by code_simp
  then show ?thesis by auto
qed

text \<open>
  Joining the lines of a PDF, the last byte of a line that ends in a non-ASCII hyphen or dash is cut;
  the other two bytes of the rune stay and are no UTF-8, so PostgreSQL refuses the text.
\<close>

lemma dash_leaves_stray_bytes:
  "joinPDFLine (s @ [0x2013]) t = s @ [stray 0xE2, stray 0x80] @ t"
  "joinPDFLine (s @ [0x2011]) t = s @ [stray 0xE2, stray 0x80] @ t"
  by (simp_all add: joinPDFLine_def hyphen_end_def HasSuffix_def HasPrefix_def drop_last_byte_def rune_bytes_def utf8_rune_def
      TrimRight_def stray_def)

lemma stray_is_no_text: "\<not> pg_text (concat (map rune_bytes [stray 0xE2, stray 0x80, 97]))"
  by code_simp

end
