(* ===== verification/Lifecycle.thy ===== *)
theory Lifecycle
  imports Worker
begin

text \<open>
  The life of the worker manager,
    \<open>internal/worker/manager.go\<close>: subscribing at the start, the messages
  that are tracked while the manager is open, and closing it while handlers and the publisher still
  run. The two streams that \<open>internal/service/taskqueue/taskqueue.go\<close> sets up are here too.
  The NATS library is a parameter.
\<close>

section \<open>The streams\<close>

datatype retention = WorkQueuePolicy | LimitsPolicy

datatype discard = DiscardOld | DiscardNew

datatype storage = FileStorage | MemoryStorage

text \<open>Ages and windows in seconds; a limit that is not set is 0, without limit is -1.\<close>

record stream_config =
  sc_name :: string
  sc_description :: string
  sc_subjects :: "string list"
  sc_retention :: retention
  sc_max_consumers :: int
  sc_max_msgs :: int
  sc_max_bytes :: int
  sc_discard :: discard
  sc_max_age :: int
  sc_max_msgs_per_subject :: int
  sc_max_msg_size :: int
  sc_storage :: storage
  sc_replicas :: int
  sc_duplicates :: int

text \<open>\<open>js_not_found\<close> recognises the library's error for a stream that does not exist.\<close>

record 'w jetstream =
  js_info :: "string \<Rightarrow> ('w, unit) prog"
  js_add :: "stream_config \<Rightarrow> ('w, unit) prog"
  js_update :: "stream_config \<Rightarrow> ('w, unit) prog"
  js_not_found :: "gerr \<Rightarrow> bool"

definition StreamName :: string where
  "StreamName = ''DOCUMENT_TASKS''"

definition DeadLetterStreamName :: string where
  "DeadLetterStreamName = ''DOCUMENT_TASKS_DLQ''"

definition task_stream :: stream_config where
  "task_stream = \<lparr>sc_name = StreamName,
    sc_description = ''Durable Enterprise-RAG document processing tasks'',
     sc_subjects = [''document.parse'', ''document.chunk'', ''document.embedding'', ''document.delete''],
     sc_retention = WorkQueuePolicy, sc_max_consumers = -1, sc_max_msgs = -1, sc_max_bytes = 10 * 2 ^ 30,
     sc_discard = DiscardOld, sc_max_age = 7 * 24 * 3600, sc_max_msgs_per_subject = -1,
       sc_max_msg_size = 2 ^ 20,
     sc_storage = FileStorage, sc_replicas = 1, sc_duplicates = 600\<rparr>"

definition dead_letter_stream :: stream_config where
  "dead_letter_stream = \<lparr>sc_name = DeadLetterStreamName,
    sc_description = ''Permanent document processing failures'',
     sc_subjects = [DeadLetterSubject], sc_retention = LimitsPolicy, sc_max_consumers = 0, sc_max_msgs = 0,
     sc_max_bytes = 2 * 2 ^ 30, sc_discard = DiscardOld, sc_max_age = 30 * 24 * 3600,
       sc_max_msgs_per_subject = 0,
     sc_max_msg_size = 2 * 2 ^ 20, sc_storage = FileStorage, sc_replicas = 1, sc_duplicates = 0\<rparr>"

text \<open>A stream is created when it is not found, updated when it is.\<close>

definition create_or_update :: "'w jetstream \<Rightarrow> stream_config \<Rightarrow> string \<Rightarrow> ('w, unit) prog" where
  "create_or_update js desired what w =
     (case js_info js (sc_name desired) w of
        (Inl err, w') \<Rightarrow>
          if js_not_found js err then
            wrap_error (lit (''create NATS JetStream '' @ what @ '' stream'')) (js_add js desired) w'
          else (Inl (Wrapped (lit (''inspect NATS JetStream '' @ what @ '' stream'')) err), w')
      | (Inr _, w') \<Rightarrow>
          wrap_error (lit (''update NATS JetStream '' @ what @ '' stream'')) (js_update js desired) w')"

definition ensureDeadLetterStream :: "'w jetstream \<Rightarrow> ('w, unit) prog" where
  "ensureDeadLetterStream js = create_or_update js dead_letter_stream ''dead-letter''"

definition EnsureStream :: "'w jetstream \<Rightarrow> ('w, unit) prog" where
  "EnsureStream js = attempt (create_or_update js task_stream ''task'') (\<lambda>_. ensureDeadLetterStream js)"

section \<open>The manager\<close>

text \<open>
  A closed channel is \<open>True\<close>; \<open>mg_waiter\<close> is where the goroutine that \<open>Close\<close> starts stands,
  \<open>mg_in_flight\<close> the counter of the wait group,
    \<open>mg_cancelled\<close> the context of the handlers.
\<close>

datatype waiter = NoWaiter | AwaitOutbox | AwaitHandlers | Cancelling | Waited

record manager =
  mg_closing :: bool
  mg_subscriptions :: "nat list"
  mg_in_flight :: nat
  mg_close_done :: bool
  mg_close_err :: "gerr option"
  mg_outbox_started :: bool
  mg_outbox_stop :: bool
  mg_outbox_done :: bool
  mg_cancelled :: bool
  mg_waiter :: waiter

definition NewManager :: "worker_conf \<Rightarrow> gerr + manager" where
  "NewManager conf =
     (case validateConfig conf of
        Some err \<Rightarrow> Inl err
      | None \<Rightarrow> Inr \<lparr>mg_closing = False, mg_subscriptions = [],
        mg_in_flight = 0, mg_close_done = False,
          mg_close_err = None, mg_outbox_started = False, mg_outbox_stop = False, mg_outbox_done = False,
          mg_cancelled = False, mg_waiter = NoWaiter\<rparr>)"

text \<open>\<open>errors.Join\<close>: the texts in lines of their own.\<close>

definition join_errors :: "gerr option \<Rightarrow> gerr option \<Rightarrow> gerr option" where
  "join_errors a b =
     (case a of None \<Rightarrow> b
      | Some e \<Rightarrow> (case b of None \<Rightarrow> Some e | Some f \<Rightarrow> Some (Plain (err_text e @ [10] @ err_text f))))"

record subscription =
  sub_subject :: task_type
  sub_queue :: string
  sub_stream :: string
  sub_durable :: string
  sub_ack_wait :: int
  sub_max_deliver :: int

record 'e nats =
  ns_subscribe :: "subscription \<Rightarrow> 'e \<Rightarrow> (gerr + nat) \<times> 'e"
  ns_unsubscribe :: "nat \<Rightarrow> 'e \<Rightarrow> gerr option \<times> 'e"
  ns_bad_subscription :: "gerr \<Rightarrow> bool"
  ns_flush :: "'e \<Rightarrow> gerr option \<times> 'e"

record 'e manager_world =
  mw_manager :: manager
  mw_ext :: 'e

fun unsubscribe_each :: "'e nats \<Rightarrow> gerr option \<Rightarrow> nat list \<Rightarrow> 'e \<Rightarrow> gerr option \<times> 'e" where
  "unsubscribe_each ns result [] e = (result, e)"
| "unsubscribe_each ns result (s # ss) e =
     (case ns_unsubscribe ns s e of
        (Some err, e') \<Rightarrow>
          unsubscribe_each ns (if ns_bad_subscription ns err then result
            else join_errors result (Some (Wrapped (lit ''unsubscribe worker'') err))) ss e'
      | (None, e') \<Rightarrow> unsubscribe_each ns result ss e')"

definition unsubscribeAllLocked :: "'e nats \<Rightarrow> 'e manager_world \<Rightarrow> gerr option \<times> 'e manager_world" where
  "unsubscribeAllLocked ns w =
     (case unsubscribe_each ns None (mg_subscriptions (mw_manager w)) (mw_ext w) of
        (result, e) \<Rightarrow> (result,
          w\<lparr>mw_manager := (mw_manager w)\<lparr>mg_subscriptions := []\<rparr>, mw_ext := e\<rparr>))"

definition worker_subscription :: "worker_conf \<Rightarrow> task_type \<Rightarrow> string \<Rightarrow> subscription" where
  "worker_subscription conf subject queue =
     \<lparr>sub_subject = subject, sub_queue = queue, sub_stream = StreamName, sub_durable = queue,
      sub_ack_wait = wk_task_timeout conf + 30, sub_max_deliver = maxAutomaticRetries + 2\<rparr>"

text \<open>The loop \<open>for range concurrency\<close>.\<close>

fun subscribe_times ::
    "'e nats \<Rightarrow> worker_conf \<Rightarrow> task_type \<Rightarrow> string \<Rightarrow> nat \<Rightarrow> ('e manager_world, unit) prog" where
  "subscribe_times ns conf subject queue 0 w = (Inr (), w)"
| "subscribe_times ns conf subject queue (Suc n) w =
     (case ns_subscribe ns (worker_subscription conf subject queue) (mw_ext w) of
        (Inl err, e) \<Rightarrow>
          (Inl (Wrapped (lit (''subscribe '' @ task_type_text subject @ '' worker'')) err),
            w\<lparr>mw_ext := e\<rparr>)
      | (Inr s, e) \<Rightarrow>
          subscribe_times ns conf subject queue n
            (w\<lparr>mw_ext := e,
              mw_manager := (mw_manager w)\<lparr>mg_subscriptions := mg_subscriptions (mw_manager w) @ [s]\<rparr>\<rparr>))"

definition subscribe :: "'e nats \<Rightarrow> worker_conf \<Rightarrow> task_type \<times> string \<times> int \<Rightarrow> ('e manager_world, unit) prog" where
  "subscribe ns conf d = (case d of (subject, queue,
    n) \<Rightarrow> subscribe_times ns conf subject queue (nat n))"

definition worker_handlers :: "worker_conf \<Rightarrow> (task_type \<times> string \<times> int) list" where
  "worker_handlers conf =
     [(ParseTask, ''parse-workers'', wk_parse conf), (ChunkTask, ''chunk-workers'', wk_chunk conf),
      (EmbeddingTask, ''embedding-workers'', wk_embedding conf), (DeleteTask,
        ''delete-workers'', wk_delete conf)]"

fun subscribe_handlers ::
    "'e nats \<Rightarrow> worker_conf \<Rightarrow> (task_type \<times> string \<times> int) list \<Rightarrow> ('e manager_world, unit) prog" where
  "subscribe_handlers ns conf [] w = (Inr (), w)"
| "subscribe_handlers ns conf (d # ds) w =
     (case subscribe ns conf d w of
        (Inl err, w') \<Rightarrow>
          (case unsubscribeAllLocked ns w' of (result,
            w'') \<Rightarrow> (Inl (the (join_errors (Some err) result)), w''))
      | (Inr _, w') \<Rightarrow> subscribe_handlers ns conf ds w')"

definition start_publisher :: "'e nats \<Rightarrow> ('e manager_world, unit) prog" where
  "start_publisher ns w =
     (let w1 = w\<lparr>mw_manager := (mw_manager w)\<lparr>mg_outbox_started := True\<rparr>\<rparr>
      in case ns_flush ns (mw_ext w1) of
        (Some err, e) \<Rightarrow> (Inl err, w1\<lparr>mw_ext := e\<rparr>) | (None,
          e) \<Rightarrow> (Inr (), w1\<lparr>mw_ext := e\<rparr>))"

definition Start :: "'e nats \<Rightarrow> worker_conf \<Rightarrow> ('e manager_world, unit) prog" where
  "Start ns conf = attempt (subscribe_handlers ns conf (worker_handlers conf)) (\<lambda>_. start_publisher ns)"

section \<open>Tracking and closing\<close>

text \<open>The entry of a tracked handler: refused with a delay when the manager is closing; its exit.\<close>

definition track_enter :: "manager \<Rightarrow> bool \<times> manager" where
  "track_enter m = (if mg_closing m then (False, m) else (True,
    m\<lparr>mg_in_flight := mg_in_flight m + 1\<rparr>))"

definition track_leave :: "manager \<Rightarrow> manager" where
  "track_leave m = m\<lparr>mg_in_flight := mg_in_flight m - 1\<rparr>"

text \<open>The first part of \<open>Close\<close>,
  under the lock; \<open>err\<close> is what unsubscribing returned.\<close>

definition begin_close :: "gerr option \<Rightarrow> manager \<Rightarrow> manager" where
  "begin_close err m =
     (if mg_closing m then m
      else m\<lparr>mg_closing := True, mg_subscriptions := [], mg_close_err := err,
        mg_outbox_stop := mg_outbox_started m,
             mg_waiter := AwaitOutbox\<rparr>)"

definition Close_begin :: "'e nats \<Rightarrow> 'e manager_world \<Rightarrow> 'e manager_world" where
  "Close_begin ns w =
     (if mg_closing (mw_manager w) then w
      else case unsubscribeAllLocked ns w of
        (err, w') \<Rightarrow> w'\<lparr>mw_manager := begin_close err (mw_manager w')\<rparr>)"

text \<open>The goroutine of \<open>Close\<close>: a blocked step is \<open>None\<close>.\<close>

definition waiter_step :: "manager \<Rightarrow> manager option" where
  "waiter_step m =
     (case mg_waiter m of
        AwaitOutbox \<Rightarrow> if mg_outbox_started m \<and> \<not> mg_outbox_done m then None else Some (m\<lparr>mg_waiter := AwaitHandlers\<rparr>)
      | AwaitHandlers \<Rightarrow> if mg_in_flight m \<noteq> 0 then None else Some (m\<lparr>mg_waiter := Cancelling\<rparr>)
      | Cancelling \<Rightarrow> Some (m\<lparr>mg_cancelled := True, mg_close_done := True,
        mg_waiter := Waited\<rparr>)
      | _ \<Rightarrow> None)"

text \<open>The publisher leaves its loop when it is told to stop.\<close>

definition publisher_exit :: "manager \<Rightarrow> manager option" where
  "publisher_exit m =
     (if mg_outbox_started m \<and> mg_outbox_stop m \<and> \<not> mg_outbox_done m then Some (m\<lparr>mg_outbox_done := True\<rparr>) else None)"

text \<open>The end of \<open>Close\<close>: all is done, or the context of the caller is.\<close>

definition Close_done :: "manager \<Rightarrow> gerr option option" where
  "Close_done m = (if mg_close_done m then Some (mg_close_err m) else None)"

definition Close_timeout :: "gerr \<Rightarrow> manager \<Rightarrow> gerr option \<times> manager" where
  "Close_timeout err m =
     (join_errors (mg_close_err m) (Some (Wrapped (lit ''wait for workers to stop'') err)),
       m\<lparr>mg_cancelled := True\<rparr>)"

datatype lifecycle_event =
    HandlerStarts | HandlerEnds | MessageRefused | CloseCalled | PublisherEnds | WaiterMoves
  | CloseReturns "gerr option" | CloseTimesOut

inductive lifecycle_step :: "manager \<Rightarrow> lifecycle_event \<Rightarrow> manager \<Rightarrow> bool" where
  start: "track_enter m = (True, m') \<Longrightarrow> lifecycle_step m HandlerStarts m'"
| refuse: "track_enter m = (False, m') \<Longrightarrow> lifecycle_step m MessageRefused m'"
| finish: "mg_in_flight m > 0 \<Longrightarrow> lifecycle_step m HandlerEnds (track_leave m)"
| closing: "lifecycle_step m CloseCalled (begin_close err m)"
| publisher: "publisher_exit m = Some m' \<Longrightarrow> lifecycle_step m PublisherEnds m'"
| waits: "waiter_step m = Some m' \<Longrightarrow> lifecycle_step m WaiterMoves m'"
| closed: "Close_done m = Some err \<Longrightarrow> lifecycle_step m (CloseReturns err) m"
| timeout: "Close_timeout err m = (x,
  m') \<Longrightarrow> mg_closing m \<Longrightarrow> lifecycle_step m CloseTimesOut m'"

inductive lifecycle :: "manager \<Rightarrow> lifecycle_event list \<Rightarrow> manager \<Rightarrow> bool" where
  refl: "lifecycle m [] m"
| step: "lifecycle m es m' \<Longrightarrow> lifecycle_step m' e m'' \<Longrightarrow> lifecycle m (es @ [e]) m''"

inductive_cases lifecycle_stepE: "lifecycle_step m e m'"

end
