(* ===== verification/LifecycleProperties.thy ===== *)
theory LifecycleProperties
  imports Lifecycle
begin

text \<open>
  Closing the worker manager waits for the work that was begun, accepts none after, and always comes
  to an end; the streams that are set up are the ones the program wants.
\<close>

section \<open>The invariant of the manager\<close>

definition life_ok :: "manager \<Rightarrow> bool" where
  "life_ok m \<longleftrightarrow>
     (mg_waiter m = NoWaiter \<longleftrightarrow> \<not> mg_closing m) \<and>
     (mg_closing m \<longrightarrow> mg_subscriptions m = [] \<and> mg_outbox_stop m = mg_outbox_started m) \<and>
     (mg_waiter m \<in> {AwaitHandlers, Cancelling, Waited} \<longrightarrow> mg_outbox_started m \<longrightarrow> mg_outbox_done m) \<and>
     (mg_waiter m \<in> {Cancelling, Waited} \<longrightarrow> mg_in_flight m = 0) \<and>
     (mg_close_done m \<longleftrightarrow> mg_waiter m = Waited)"

lemma waiter_step_cases:
  assumes "waiter_step m = Some m'"
  obtains (outbox) "mg_waiter m = AwaitOutbox" "mg_outbox_started m \<longrightarrow> mg_outbox_done m" "m' = m\<lparr>mg_waiter := AwaitHandlers\<rparr>"
    | (handlers) "mg_waiter m = AwaitHandlers" "mg_in_flight m = 0" "m' = m\<lparr>mg_waiter := Cancelling\<rparr>"
    | (cancel) "mg_waiter m = Cancelling" "m' = m\<lparr>mg_cancelled := True, mg_close_done := True, mg_waiter := Waited\<rparr>"
  using assms by (auto simp: waiter_step_def split: waiter.splits if_splits)

lemma lifecycle_step_cases:
  assumes "lifecycle_step m ev m'"
  obtains (start) "ev = HandlerStarts" "\<not> mg_closing m" "m' = m\<lparr>mg_in_flight := mg_in_flight m + 1\<rparr>"
    | (refuse) "ev = MessageRefused" "mg_closing m" "m' = m"
    | (finish) "ev = HandlerEnds" "mg_in_flight m > 0" "m' = m\<lparr>mg_in_flight := mg_in_flight m - 1\<rparr>"
    | (closing) err where "ev = CloseCalled" "\<not> mg_closing m" "m' = m\<lparr>mg_closing := True, mg_subscriptions := [],
        mg_close_err := err, mg_outbox_stop := mg_outbox_started m, mg_waiter := AwaitOutbox\<rparr>"
    | (again) "ev = CloseCalled" "mg_closing m" "m' = m"
    | (publisher) "ev = PublisherEnds" "mg_outbox_stop m" "m' = m\<lparr>mg_outbox_done := True\<rparr>"
    | (waits) "ev = WaiterMoves" "waiter_step m = Some m'"
    | (closed) err where "ev = CloseReturns err" "mg_close_done m" "m' = m"
    | (timeout) "ev = CloseTimesOut" "mg_closing m" "m' = m\<lparr>mg_cancelled := True\<rparr>"
  using assms
proof cases
  case start
  then show thesis by (intro that(1)) (simp_all add: track_enter_def split: if_splits)
next
  case refuse
  then show thesis by (intro that(2)) (simp_all add: track_enter_def split: if_splits)
next
  case finish
  then show thesis by (intro that(3)) (simp_all add: track_leave_def)
next
  case (closing err)
  then show thesis using that(4) [of err] that(5) by (cases "mg_closing m") (simp_all add: begin_close_def)
next
  case publisher
  then show thesis by (intro that(6)) (simp_all add: publisher_exit_def split: if_splits)
next
  case waits
  then show thesis by (intro that(7))
next
  case (closed err)
  then show thesis by (intro that(8)) (simp_all add: Close_done_def split: if_splits)
next
  case timeout
  then show thesis by (intro that(9)) (simp_all add: Close_timeout_def)
qed

lemma life_step_ok:
  assumes "lifecycle_step m ev m'" and "life_ok m"
  shows "life_ok m'"
  using assms(1)
proof (cases rule: lifecycle_step_cases)
  case waits
  from waits(2) show ?thesis
    by (cases rule: waiter_step_cases) (use assms(2) in \<open>simp_all add: life_ok_def\<close>)
next
  case start
  with assms(2) show ?thesis by (auto simp: life_ok_def)
next
  case finish
  with assms(2) show ?thesis by (auto simp: life_ok_def)
next
  case (closing err)
  with assms(2) show ?thesis by (simp add: life_ok_def)
next
  case publisher
  with assms(2) show ?thesis by (simp add: life_ok_def)
next
  case timeout
  with assms(2) show ?thesis by (simp add: life_ok_def)
qed (use assms(2) in simp_all)

lemma life_ok_run: "lifecycle m es m' \<Longrightarrow> life_ok m \<Longrightarrow> life_ok m'"
  by (induction rule: lifecycle.induct) (auto intro: life_step_ok)

lemma lifecycle_trans:
  assumes "lifecycle m es m'" and "lifecycle m' fs m''"
  shows "lifecycle m (es @ fs) m''"
  using assms(2,1)
proof (induction rule: lifecycle.induct)
  case (step m' fs m1 ev m2)
  from lifecycle.step [OF step.IH [OF step.prems] step.hyps(2)] show ?case by simp
qed simp

lemma lifecycle_one: "lifecycle_step m ev m' \<Longrightarrow> lifecycle m [ev] m'"
  using lifecycle.step [OF lifecycle.refl] by simp

section \<open>What has happened stays\<close>

lemma closing_stays: "lifecycle_step m ev m' \<Longrightarrow> mg_closing m \<Longrightarrow> mg_closing m'"
  by (erule lifecycle_step_cases) (auto elim: waiter_step_cases)

lemma close_called: "lifecycle m es m' \<Longrightarrow> CloseCalled \<in> set es \<Longrightarrow> mg_closing m'"
proof (induction rule: lifecycle.induct)
  case (step m es m1 ev m2)
  show ?case
  proof (cases "ev = CloseCalled")
    case True
    with step.hyps(2) show ?thesis by (auto elim!: lifecycle_step_cases)
  next
    case False
    with step show ?thesis by (auto intro: closing_stays)
  qed
qed simp

lemma done_stays: "lifecycle_step m ev m' \<Longrightarrow> mg_close_done m \<Longrightarrow> mg_close_done m'"
  by (erule lifecycle_step_cases) (auto elim: waiter_step_cases)

lemma close_returned: "lifecycle m es m' \<Longrightarrow> CloseReturns err \<in> set es \<Longrightarrow> mg_close_done m'"
proof (induction rule: lifecycle.induct)
  case (step m es m1 ev m2)
  show ?case
  proof (cases "ev = CloseReturns err")
    case True
    with step.hyps(2) show ?thesis by (auto elim!: lifecycle_step_cases)
  next
    case False
    with step show ?thesis by (auto intro: done_stays)
  qed
qed simp

lemma cancelled_by:
  "lifecycle m es m' \<Longrightarrow> mg_cancelled m' \<Longrightarrow> mg_cancelled m \<or> CloseTimesOut \<in> set es \<or> mg_close_done m'"
proof (induction rule: lifecycle.induct)
  case (step m es m1 ev m2)
  show ?case
  proof (cases "mg_cancelled m1")
    case True
    with step show ?thesis by (auto intro: done_stays)
  next
    case False
    with step.hyps(2) step.prems show ?thesis
      by (auto elim!: lifecycle_step_cases waiter_step_cases)
  qed
qed simp

section \<open>Closing comes to an end\<close>

lemma finish_handlers: "\<exists>es. lifecycle m es (m\<lparr>mg_in_flight := 0\<rparr>) \<and> length es = mg_in_flight m \<and> set es \<subseteq> {HandlerEnds}"
proof (induction "mg_in_flight m" arbitrary: m)
  case 0
  then have "m\<lparr>mg_in_flight := 0\<rparr> = m" by (cases m) simp
  then have "lifecycle m [] (m\<lparr>mg_in_flight := 0\<rparr>)" by (simp only: lifecycle.refl)
  with 0 show ?case by (intro exI [of _ "[]"]) simp
next
  case (Suc n)
  let ?m = "m\<lparr>mg_in_flight := n\<rparr>"
  have "lifecycle_step m HandlerEnds ?m"
    using lifecycle_step.finish [of m] Suc.hyps(2) [symmetric] by (simp add: track_leave_def)
  moreover obtain es where "lifecycle ?m es (m\<lparr>mg_in_flight := 0\<rparr>)" "length es = n" "set es \<subseteq> {HandlerEnds}"
    using Suc.hyps(1) [of ?m] by auto
  ultimately have "lifecycle m ([HandlerEnds] @ es) (m\<lparr>mg_in_flight := 0\<rparr>)" "length ([HandlerEnds] @ es) = Suc n"
    "set ([HandlerEnds] @ es) \<subseteq> {HandlerEnds}" using lifecycle_trans [OF lifecycle_one] by fastforce+
  with Suc.hyps(2) show ?case by metis
qed

lemma stop_publisher:
  assumes "life_ok m" and "mg_closing m"
  shows "\<exists>es m'. lifecycle m es m' \<and> length es \<le> 1 \<and> set es \<subseteq> {PublisherEnds} \<and>
    (mg_outbox_started m' \<longrightarrow> mg_outbox_done m') \<and> mg_closing m' \<and> mg_in_flight m' = mg_in_flight m"
proof (cases "mg_outbox_started m \<and> \<not> mg_outbox_done m")
  case True
  with assms have "lifecycle_step m PublisherEnds (m\<lparr>mg_outbox_done := True\<rparr>)"
    by (intro lifecycle_step.publisher) (simp add: publisher_exit_def life_ok_def)
  from lifecycle_one [OF this] show ?thesis
    by (intro exI [of _ "[PublisherEnds]"] exI [of _ "m\<lparr>mg_outbox_done := True\<rparr>"]) (use assms(2) in simp)
next
  case False
  then show ?thesis by (intro exI [of _ "[]"] exI [of _ m]) (use assms(2) in \<open>simp add: lifecycle.refl\<close>)
qed

lemma waiter_moves: "waiter_step m = Some m' \<Longrightarrow> lifecycle m [WaiterMoves] m'"
  by (rule lifecycle_one) (rule lifecycle_step.waits)

lemma waiter_finishes:
  assumes "life_ok m" and "mg_closing m" and "mg_in_flight m = 0" and "mg_outbox_started m \<longrightarrow> mg_outbox_done m"
  shows "\<exists>es m'. lifecycle m es m' \<and> length es \<le> 3 \<and> set es \<subseteq> {WaiterMoves} \<and> mg_close_done m'"
proof -
  have cancel: "\<exists>m'. lifecycle m [WaiterMoves] m' \<and> mg_close_done m'" if "mg_waiter m = Cancelling" for m
    using waiter_moves [of m "m\<lparr>mg_cancelled := True, mg_close_done := True, mg_waiter := Waited\<rparr>"] that
    by (intro exI [of _ "m\<lparr>mg_cancelled := True, mg_close_done := True, mg_waiter := Waited\<rparr>"])
      (simp add: waiter_step_def)
  have handlers: "\<exists>m'. lifecycle m [WaiterMoves, WaiterMoves] m' \<and> mg_close_done m'"
    if "mg_waiter m = AwaitHandlers" "mg_in_flight m = 0" for m
  proof -
    have "lifecycle m [WaiterMoves] (m\<lparr>mg_waiter := Cancelling\<rparr>)"
      using that by (intro waiter_moves) (simp add: waiter_step_def)
    with cancel [of "m\<lparr>mg_waiter := Cancelling\<rparr>"] lifecycle_trans [of m "[WaiterMoves]"] show ?thesis by fastforce
  qed
  have outbox: "\<exists>m'. lifecycle m [WaiterMoves, WaiterMoves, WaiterMoves] m' \<and> mg_close_done m'"
    if "mg_waiter m = AwaitOutbox"
  proof -
    have "lifecycle m [WaiterMoves] (m\<lparr>mg_waiter := AwaitHandlers\<rparr>)"
      using that assms(4) by (intro waiter_moves) (simp add: waiter_step_def)
    with handlers [of "m\<lparr>mg_waiter := AwaitHandlers\<rparr>"] assms(3) lifecycle_trans [of m "[WaiterMoves]"]
    show ?thesis by fastforce
  qed
  have done_now: "lifecycle m [] m \<and> mg_close_done m" if "mg_waiter m = Waited"
    using that assms(1) by (simp add: life_ok_def lifecycle.refl)
  show ?thesis
  proof (cases "mg_waiter m")
    case NoWaiter
    with assms(1,2) show ?thesis by (simp add: life_ok_def)
  next
    case AwaitOutbox
    with outbox show ?thesis by (fastforce intro: exI [of _ "[WaiterMoves, WaiterMoves, WaiterMoves]"])
  next
    case AwaitHandlers
    with handlers assms(3) show ?thesis by (fastforce intro: exI [of _ "[WaiterMoves, WaiterMoves]"])
  next
    case Cancelling
    with cancel show ?thesis by (fastforce intro: exI [of _ "[WaiterMoves]"])
  next
    case Waited
    with done_now show ?thesis by (fastforce intro: exI [of _ "[]"])
  qed
qed

lemma closing_ends:
  assumes "life_ok m" and "mg_closing m"
  shows "\<exists>es m'. lifecycle m es m' \<and> length es \<le> mg_in_flight m + 4 \<and>
    set es \<subseteq> {HandlerEnds, PublisherEnds, WaiterMoves} \<and> mg_close_done m'"
proof -
  from stop_publisher [OF assms] obtain es1 m1 where 1: "lifecycle m es1 m1" "length es1 \<le> 1" "set es1 \<subseteq> {PublisherEnds}"
    "mg_outbox_started m1 \<longrightarrow> mg_outbox_done m1" "mg_closing m1" "mg_in_flight m1 = mg_in_flight m" by blast
  let ?m2 = "m1\<lparr>mg_in_flight := 0\<rparr>"
  from finish_handlers [of m1] obtain es2 where 2: "lifecycle m1 es2 ?m2" "length es2 = mg_in_flight m1"
    "set es2 \<subseteq> {HandlerEnds}" by blast
  have "life_ok ?m2" by (rule life_ok_run [OF 2(1) life_ok_run [OF 1(1) assms(1)]])
  from waiter_finishes [OF this] 1(4,5) obtain es3 m3 where 3: "lifecycle ?m2 es3 m3" "length es3 \<le> 3"
    "set es3 \<subseteq> {WaiterMoves}" "mg_close_done m3" by auto
  have "lifecycle m (es1 @ es2 @ es3) m3"
    using lifecycle_trans [OF 1(1) lifecycle_trans [OF 2(1) 3(1)]] .
  moreover have "length (es1 @ es2 @ es3) \<le> mg_in_flight m + 4" "set (es1 @ es2 @ es3) \<subseteq> {HandlerEnds, PublisherEnds, WaiterMoves}"
    using 1(2,3,6) 2(2,3) 3(2,3) by auto
  ultimately show ?thesis using 3(4) by blast
qed

section \<open>Starting\<close>

lemma subscribe_times_same:
  "mg_closing (mw_manager (snd (subscribe_times ns conf ty q n w))) = mg_closing (mw_manager w) \<and>
   mg_in_flight (mw_manager (snd (subscribe_times ns conf ty q n w))) = mg_in_flight (mw_manager w) \<and>
   mg_waiter (mw_manager (snd (subscribe_times ns conf ty q n w))) = mg_waiter (mw_manager w) \<and>
   mg_close_done (mw_manager (snd (subscribe_times ns conf ty q n w))) = mg_close_done (mw_manager w) \<and>
   mg_cancelled (mw_manager (snd (subscribe_times ns conf ty q n w))) = mg_cancelled (mw_manager w)"
  by (induction n arbitrary: w) (simp_all split: prod.split sum.split)

definition fresh :: "manager \<Rightarrow> bool" where
  "fresh m \<longleftrightarrow> \<not> mg_closing m \<and> mg_in_flight m = 0 \<and> mg_waiter m = NoWaiter \<and> \<not> mg_close_done m \<and> \<not> mg_cancelled m"

lemma subscribe_fresh: "subscribe ns conf d w = (r, w') \<Longrightarrow> fresh (mw_manager w) \<Longrightarrow> fresh (mw_manager w')"
  using subscribe_times_same [of ns conf _ _ _ w]
  by (auto simp: subscribe_def fresh_def split: prod.splits) (metis snd_conv)+

lemma subscribe_handlers_fresh:
  "subscribe_handlers ns conf ds w = (Inr u, w') \<Longrightarrow> fresh (mw_manager w) \<Longrightarrow> fresh (mw_manager w')"
  by (induction ns conf ds w rule: subscribe_handlers.induct)
    (auto split: prod.splits sum.splits dest: subscribe_fresh)

lemma Start_fresh:
  assumes "NewManager conf = Inr m0" and "Start ns conf \<lparr>mw_manager = m0, mw_ext = e\<rparr> = (Inr (), w)"
  shows "fresh (mw_manager w)"
proof -
  have "fresh m0" using assms(1) by (auto simp: NewManager_def fresh_def split: option.splits)
  moreover obtain w1 where "subscribe_handlers ns conf (worker_handlers conf) \<lparr>mw_manager = m0, mw_ext = e\<rparr> = (Inr (), w1)"
    and "start_publisher ns w1 = (Inr (), w)" using assms(2) unfolding Start_def by (auto elim: attempt_Inr)
  ultimately show ?thesis
    using subscribe_handlers_fresh [of ns conf _ _ "()" w1]
    by (auto simp: start_publisher_def fresh_def Let_def split: prod.splits option.splits)
qed

lemma fresh_ok: "fresh m \<Longrightarrow> life_ok m"
  by (simp add: fresh_def life_ok_def)


definition two_workers :: worker_conf where
  "two_workers = \<lparr>wk_parse = 1, wk_chunk = 1, wk_embedding = 1, wk_delete = 2, wk_task_timeout = 60, wk_shutdown_timeout = 10\<rparr>"

definition calm_nats :: "nat nats" where
  "calm_nats = \<lparr>ns_subscribe = (\<lambda>_ e. (Inr e, Suc e)), ns_unsubscribe = (\<lambda>_ e. (None, e)),
     ns_bad_subscription = (\<lambda>_. False), ns_flush = (\<lambda>e. (None, e))\<rparr>"

definition manager0 :: manager where
  "manager0 = projr (NewManager two_workers)"

definition started0 :: "nat manager_world" where
  "started0 = snd (Start calm_nats two_workers \<lparr>mw_manager = manager0, mw_ext = 0\<rparr>)"

lemma started0_start: "Start calm_nats two_workers \<lparr>mw_manager = manager0, mw_ext = 0\<rparr> = (Inr (), started0)"
proof -
  have "fst (Start calm_nats two_workers \<lparr>mw_manager = manager0, mw_ext = 0\<rparr>) = Inr ()" by code_simp
  then show ?thesis by (simp add: started0_def prod_eq_iff)
qed

definition closing0 :: manager where
  "closing0 = begin_close None ((mw_manager started0)\<lparr>mg_in_flight := 1\<rparr>)"


section \<open>A failed start\<close>

text \<open>When a subscription fails, those made before are given up.\<close>

lemma failed_start_keeps_no_subscription:
  "subscribe_handlers ns conf ds w = (Inl err, w') \<Longrightarrow> mg_subscriptions (mw_manager w') = []"
  by (induction ns conf ds w rule: subscribe_handlers.induct)
    (auto simp: unsubscribeAllLocked_def split: prod.splits sum.splits)

section \<open>The streams\<close>

text \<open>
  What the server promises: an inspection changes nothing, a stream that was added or updated has the
  configuration given, and no other stream changes; \<open>view\<close> is what the server holds.
\<close>

definition jetstream_library :: "'w jetstream \<Rightarrow> ('w \<Rightarrow> string \<Rightarrow> stream_config option) \<Rightarrow> bool" where
  "jetstream_library js view \<longleftrightarrow>
     (\<forall>n w r w'. js_info js n w = (r, w') \<longrightarrow> view w' = view w) \<and>
     (\<forall>c w w'. js_add js c w = (Inr (), w') \<longrightarrow> view w' = (view w)(sc_name c \<mapsto> c)) \<and>
     (\<forall>c w w'. js_update js c w = (Inr (), w') \<longrightarrow> view w' = (view w)(sc_name c \<mapsto> c))"

lemma create_or_update_Inr:
  assumes "create_or_update js c what w = (Inr (), w')" and "jetstream_library js view"
  shows "view w' = (view w)(sc_name c \<mapsto> c)"
proof -
  obtain r w1 where info: "js_info js (sc_name c) w = (r, w1)" by (cases "js_info js (sc_name c) w")
  have "js_add js c w1 = (Inr (), w') \<or> js_update js c w1 = (Inr (), w')"
    using assms(1) by (cases r) (auto simp: create_or_update_def info split: if_splits)
  with info assms(2) show ?thesis unfolding jetstream_library_def by metis
qed

text \<open>Both streams are there with the configuration of the program, whatever was there before.\<close>

theorem streams_are_ensured:
  assumes "EnsureStream js w = (Inr (), w')" and "jetstream_library js view"
  shows "view w' = (view w)(StreamName \<mapsto> task_stream, DeadLetterStreamName \<mapsto> dead_letter_stream)"
proof -
  from assms(1) obtain w1 where 1: "create_or_update js task_stream ''task'' w = (Inr (), w1)"
    and 2: "create_or_update js dead_letter_stream ''dead-letter'' w1 = (Inr (), w')"
    unfolding EnsureStream_def ensureDeadLetterStream_def by (auto elim: attempt_Inr)
  from create_or_update_Inr [OF 1 assms(2)] create_or_update_Inr [OF 2 assms(2)] show ?thesis
    by (simp add: task_stream_def dead_letter_stream_def)
qed

end
