(* ===== verification/Config.thy ===== *)
theory Config
  imports Search RateLimit ParserText
begin

text \<open>
  The configuration: \<open>internal/config/config.go\<close>. Files are merged,
    environment variables are put in, the
  result is decoded, overridden and checked. Reading files, the YAML library, the decoder of go-zero and
  the environment are parameters; the functions of \<open>path/filepath\<close> and \<open>os.Expand\<close> are written out for a
  Unix system.
\<close>

section \<open>Paths\<close>

definition slash_rune :: "rune \<Rightarrow> bool" where
  "slash_rune r \<longleftrightarrow> r = 47"

definition path_parts :: "gostr \<Rightarrow> gostr list" where
  "path_parts path = FieldsFunc slash_rune path"

definition parent :: gostr where
  "parent = lit ''..''"

definition IsAbs :: "gostr \<Rightarrow> bool" where
  "IsAbs path = HasPrefix path (lit ''/'')"

text \<open>\<open>filepath.Clean\<close>, element by element.\<close>

definition clean_part :: "bool \<Rightarrow> gostr list \<Rightarrow> gostr \<Rightarrow> gostr list" where
  "clean_part rooted acc c =
     (if c = lit ''.'' then acc
      else if c \<noteq> parent then acc @ [c]
      else if acc \<noteq> [] \<and> last acc \<noteq> parent then butlast acc
      else if rooted then acc else acc @ [c])"

definition clean_parts :: "gostr \<Rightarrow> gostr list" where
  "clean_parts path = foldl (clean_part (IsAbs path)) [] (path_parts path)"

definition render_path :: "bool \<Rightarrow> gostr list \<Rightarrow> gostr" where
  "render_path rooted parts =
     (if rooted then lit ''/'' @ Join parts (lit ''/'')
      else if parts = [] then lit ''.'' else Join parts (lit ''/''))"

definition Clean :: "gostr \<Rightarrow> gostr" where
  "Clean path = render_path (IsAbs path) (clean_parts path)"

definition Dir :: "gostr \<Rightarrow> gostr" where
  "Dir path = Clean (rev (dropWhile (\<lambda>r. \<not> slash_rune r) (rev path)))"

definition filepath_Join :: "gostr \<Rightarrow> gostr \<Rightarrow> gostr" where
  "filepath_Join a b =
     (if a = [] then (if b = [] then [] else Clean b) else if b = [] then Clean a else Clean (a @ lit ''/'' @ b))"

text \<open>\<open>filepath.Rel\<close>: what remains of both paths after the elements they share.\<close>

fun rel_walk :: "gostr list \<Rightarrow> gostr list \<Rightarrow> gostr list \<times> gostr list" where
  "rel_walk (b # bs) (t # ts) = (if t = b then rel_walk bs ts else (b # bs, t # ts))"
| "rel_walk bs ts = (bs, ts)"

definition Rel :: "gostr \<Rightarrow> gostr \<Rightarrow> gostr option" where
  "Rel basepath targpath =
     (let base = Clean basepath; targ = Clean targpath
      in if targ = base then Some (lit ''.'')
         else if IsAbs base \<noteq> IsAbs targ then None
         else case rel_walk (if base = lit ''.'' then [] else path_parts base) (path_parts targ) of
           (bs, ts) \<Rightarrow>
             if bs \<noteq> [] \<and> hd bs = parent then None
             else Some (Join (replicate (length bs) parent @ ts) (lit ''/'')))"

section \<open>The environment in a text\<close>

definition special_variable :: "rune \<Rightarrow> bool" where
  "special_variable r \<longleftrightarrow> r \<in> set (lit ''*#$@!?-'') \<or> (48 \<le> r \<and> r \<le> 57)"

definition name_rune :: "rune \<Rightarrow> bool" where
  "name_rune r \<longleftrightarrow> r = 95 \<or> (48 \<le> r \<and> r \<le> 57) \<or> (97 \<le> r \<and> r \<le> 122) \<or> (65 \<le> r \<and> r \<le> 90)"

text \<open>\<open>getShellName\<close>: the name after a dollar sign,
  and how much of the text it takes.\<close>

definition shell_name :: "gostr \<Rightarrow> gostr \<times> nat" where
  "shell_name s =
     (case s of
        [] \<Rightarrow> ([], 0)
      | r # rest \<Rightarrow>
          if r = 123 then
            (if length s > 2 \<and> special_variable (s ! 1) \<and> s ! 2 = 125 then ([s ! 1], 3)
             else if 125 \<in> set rest then
               (let name = takeWhile (\<lambda>x. x \<noteq> 125) rest in (name, length name + 2))
             else ([], 1))
          else if special_variable r then ([r], 1)
          else (let name = takeWhile name_rune s in (name, length name)))"

lemma shell_name_rest: "length (drop (snd (shell_name s)) s) \<le> length s"
  by simp

text \<open>\<open>os.Expand\<close>: what is no name is eaten, a lone dollar sign stays.\<close>

function ExpandEnv :: "(gostr \<Rightarrow> gostr) \<Rightarrow> gostr \<Rightarrow> gostr" where
  "ExpandEnv env [] = []"
| "ExpandEnv env [r] = [r]"
| "ExpandEnv env (r # s # rest) =
     (if r \<noteq> 36 then r # ExpandEnv env (s # rest)
      else let (name, n) = shell_name (s # rest)
           in (if name = [] then (if n > 0 then [] else [r]) else env name) @ ExpandEnv env (drop n (s # rest)))"
  by pat_completeness auto
termination
  by (relation "measure (\<lambda>(_, s). length s)") auto

section \<open>The values of a file\<close>

text \<open>A value of a YAML file that is a map with text keys, or any other.\<close>

datatype 'y yaml = YLeaf 'y | YMap "gostr \<Rightarrow> 'y yaml option"

type_synonym 'y yaml_map = "gostr \<Rightarrow> 'y yaml option"

primrec merge_value :: "'y yaml \<Rightarrow> 'y yaml option \<Rightarrow> 'y yaml" where
  "merge_value (YLeaf v) old = YLeaf v"
| "merge_value (YMap m) old =
     (case old of
        Some (YMap t) \<Rightarrow>
          YMap (\<lambda>k. case map_option merge_value (m k) of None \<Rightarrow> t k | Some f \<Rightarrow> Some (f (t k)))
      | _ \<Rightarrow> YMap m)"

definition mergeYAMLMap :: "'y yaml_map \<Rightarrow> 'y yaml_map \<Rightarrow> 'y yaml_map" where
  "mergeYAMLMap target source =
     (\<lambda>k. case source k of None \<Rightarrow> target k | Some v \<Rightarrow> Some (merge_value v (target k)))"

section \<open>The configuration\<close>

record postgres_conf =
  pc_data_source :: gostr
  pc_max_conns :: int
  pc_min_conns :: int
  pc_max_lifetime_minutes :: int
  pc_max_idle_minutes :: int
  pc_health_check_seconds :: int

record redis_conf =
  rc_host :: gostr
  rc_password :: gostr
  rc_db :: int

record minio_conf =
  mc_endpoint :: gostr
  mc_access_key :: gostr
  mc_secret_key :: gostr
  mc_bucket :: gostr
  mc_use_ssl :: bool

record milvus_conf =
  vc_address :: gostr
  vc_collection :: gostr
  vc_dimension :: int
  vc_metric_type :: gostr
  vc_index_type :: gostr

record agent_conf =
  as_url :: gostr
  as_token :: gostr
  as_timeout :: int

record metrics_conf =
  me_enabled :: bool
  me_path :: gostr

record auth_conf =
  au_secret :: gostr
  au_expire_hours :: int

text \<open>Of go-zero's own part the program reads the address of the collector of traces; the rest is \<open>'r\<close>.\<close>

record 'r config =
  cf_rest :: 'r
  cf_telemetry_endpoint :: gostr
  cf_postgres :: postgres_conf
  cf_redis :: redis_conf
  cf_nats_url :: gostr
  cf_minio :: minio_conf
  cf_milvus :: milvus_conf
  cf_worker :: worker_conf
  cf_rate_limit :: rate_limit_conf
  cf_chunking :: chunking_conf
  cf_retrieval :: retrieval_conf
  cf_agent :: agent_conf
  cf_metrics :: metrics_conf
  cf_evaluation :: evaluation_conf
  cf_auth :: auth_conf
  cf_embedding :: embed_conf

record ('y, 'r, 'w) config_library =
  cl_read :: "gostr \<Rightarrow> ('w, gostr) prog"
  cl_yaml_map :: "gostr \<Rightarrow> gerr + 'y yaml_map"
  cl_includes :: "gostr \<Rightarrow> gerr + gostr list"
  cl_marshal :: "'y yaml_map \<Rightarrow> gerr + gostr"
  cl_load :: "gostr \<Rightarrow> gerr + 'r config"
  cl_env :: "gostr \<Rightarrow> gostr"
  cl_quote :: "gostr \<Rightarrow> gostr"
  cl_unicode :: unicode_tables

definition resolveIncludePath :: "(gostr \<Rightarrow> gostr) \<Rightarrow> gostr \<Rightarrow> gostr \<Rightarrow> gerr + gostr" where
  "resolveIncludePath quoted_form baseDir include0 =
     (let include = TrimSpace include0
      in if include = [] \<or> IsAbs include then Inl (Plain (lit ''invalid config include '' @ quoted_form include))
         else let path = filepath_Join baseDir (Clean include)
              in case Rel baseDir path of
                   None \<Rightarrow> Inl (Plain (lit ''config include escapes base directory: '' @ quoted_form include))
                 | Some relative \<Rightarrow>
                     if relative = parent \<or> HasPrefix relative (parent @ lit ''/'') then
                       Inl (Plain (lit ''config include escapes base directory: '' @ quoted_form include))
                     else Inr path)"

definition readYAMLMap :: "('y, 'r, 'w) config_library \<Rightarrow> gostr \<Rightarrow> ('w,
  'y yaml_map) prog" where
  "readYAMLMap cl path =
     attempt (wrap_error (lit ''read config '' @ path) (cl_read cl path)) (\<lambda>raw.
       wrap_error (lit ''parse config '' @ path) (\<lambda>w. (cl_yaml_map cl raw, w)))"

section \<open>Overrides\<close>

definition string_overrides :: "(gostr \<times> (gostr \<Rightarrow> 'r config \<Rightarrow> 'r config)) list" where
  "string_overrides =
     [(lit ''RAG_POSTGRES_DSN'',
       \<lambda>v c. c\<lparr>cf_postgres := (cf_postgres c)\<lparr>pc_data_source := v\<rparr>\<rparr>),
      (lit ''RAG_REDIS_HOST'',
        \<lambda>v c. c\<lparr>cf_redis := (cf_redis c)\<lparr>rc_host := v\<rparr>\<rparr>),
      (lit ''RAG_REDIS_PASSWORD'',
        \<lambda>v c. c\<lparr>cf_redis := (cf_redis c)\<lparr>rc_password := v\<rparr>\<rparr>),
      (lit ''RAG_NATS_URL'', \<lambda>v c. c\<lparr>cf_nats_url := v\<rparr>),
      (lit ''RAG_MINIO_ENDPOINT'',
        \<lambda>v c. c\<lparr>cf_minio := (cf_minio c)\<lparr>mc_endpoint := v\<rparr>\<rparr>),
      (lit ''RAG_MINIO_ACCESS_KEY'',
        \<lambda>v c. c\<lparr>cf_minio := (cf_minio c)\<lparr>mc_access_key := v\<rparr>\<rparr>),
      (lit ''RAG_MINIO_SECRET_KEY'',
        \<lambda>v c. c\<lparr>cf_minio := (cf_minio c)\<lparr>mc_secret_key := v\<rparr>\<rparr>),
      (lit ''RAG_MILVUS_ADDRESS'',
        \<lambda>v c. c\<lparr>cf_milvus := (cf_milvus c)\<lparr>vc_address := v\<rparr>\<rparr>),
      (lit ''RAG_AGENT_URL'',
        \<lambda>v c. c\<lparr>cf_agent := (cf_agent c)\<lparr>as_url := v\<rparr>\<rparr>),
      (lit ''RAG_EMBEDDING_BASE_URL'',
        \<lambda>v c. c\<lparr>cf_embedding := (cf_embedding c)\<lparr>em_base_url := v\<rparr>\<rparr>),
      (lit ''RAG_AUTH_SECRET'',
        \<lambda>v c. c\<lparr>cf_auth := (cf_auth c)\<lparr>au_secret := v\<rparr>\<rparr>),
      (lit ''OTEL_EXPORTER_OTLP_ENDPOINT'', \<lambda>v c. c\<lparr>cf_telemetry_endpoint := v\<rparr>)]"

definition integer_overrides :: "(gostr \<times> (int \<Rightarrow> 'r config \<Rightarrow> 'r config)) list" where
  "integer_overrides =
     [(lit ''RAG_REDIS_DB'',
       \<lambda>n c. c\<lparr>cf_redis := (cf_redis c)\<lparr>rc_db := n\<rparr>\<rparr>),
      (lit ''RAG_RATE_LIMIT_PERIOD_SECONDS'',
        \<lambda>n c. c\<lparr>cf_rate_limit := (cf_rate_limit c)\<lparr>rl_period := n\<rparr>\<rparr>),
      (lit ''RAG_RATE_LIMIT_CHAT_QUOTA'',
        \<lambda>n c. c\<lparr>cf_rate_limit := (cf_rate_limit c)\<lparr>rl_chat_quota := n\<rparr>\<rparr>),
      (lit ''RAG_RATE_LIMIT_RETRIEVAL_QUOTA'',
        \<lambda>n c. c\<lparr>cf_rate_limit := (cf_rate_limit c)\<lparr>rl_retrieval_quota := n\<rparr>\<rparr>),
      (lit ''RAG_RATE_LIMIT_UPLOAD_QUOTA'',
        \<lambda>n c. c\<lparr>cf_rate_limit := (cf_rate_limit c)\<lparr>rl_upload_quota := n\<rparr>\<rparr>)]"

fun override_strings :: "(gostr \<Rightarrow> gostr) \<Rightarrow> (gostr \<times> (gostr \<Rightarrow> 'c \<Rightarrow> 'c)) list \<Rightarrow> 'c \<Rightarrow> 'c" where
  "override_strings env [] c = c"
| "override_strings env ((name, f) # fs) c =
     (let v = TrimSpace (env name) in override_strings env fs (if v \<noteq> [] then f v c else c))"

fun override_integers :: "(gostr \<Rightarrow> gostr) \<Rightarrow> (gostr \<times> (int \<Rightarrow> 'c \<Rightarrow> 'c)) list \<Rightarrow> 'c \<Rightarrow> gerr + 'c" where
  "override_integers env [] c = Inr c"
| "override_integers env ((name, f) # fs) c =
     (let v = TrimSpace (env name)
      in if v = [] then override_integers env fs c
         else case ParseInt v of
           Inl err \<Rightarrow> Inl (Wrapped (lit ''environment variable '' @ name @ lit '' must be an integer'') err)
         | Inr n \<Rightarrow> override_integers env fs (f n c))"

definition applyRuntimeOverrides :: "(gostr \<Rightarrow> gostr) \<Rightarrow> 'r config \<Rightarrow> gerr + 'r config" where
  "applyRuntimeOverrides env c = override_integers env integer_overrides (override_strings env string_overrides c)"

section \<open>Loading\<close>

text \<open>The trimmed values and their defaults, and the checks in their order.\<close>

definition check_metrics :: "'r config \<Rightarrow> gerr + 'r config" where
  "check_metrics c =
     (if me_enabled (cf_metrics c) then
        let trimmed = TrimSpace (me_path (cf_metrics c));
            path = (if trimmed = [] then lit ''/metrics'' else trimmed)
        in if \<not> HasPrefix path (lit ''/'') \<or> path = lit ''/'' \<or> HasPrefix path (lit ''/api/'') then
             Inl (Plain (lit ''metrics path must be an absolute non-API path''))
           else Inr (c\<lparr>cf_metrics := (cf_metrics c)\<lparr>me_path := path\<rparr>\<rparr>)
      else Inr c)"

definition or_default :: "gostr \<Rightarrow> gostr \<Rightarrow> gostr" where
  "or_default v d = (if v = [] then d else v)"

definition trim_config :: "unicode_tables \<Rightarrow> 'r config \<Rightarrow> 'r config" where
  "trim_config u c =
     c\<lparr>cf_agent := (cf_agent c)\<lparr>as_url := TrimRightSlash (TrimSpace (as_url (cf_agent c))),
           as_token := TrimSpace (as_token (cf_agent c))\<rparr>,
       cf_auth := (cf_auth c)\<lparr>au_secret := TrimSpace (au_secret (cf_auth c))\<rparr>,
       cf_redis := (cf_redis c)\<lparr>rc_host := TrimSpace (rc_host (cf_redis c)),
           rc_password := TrimSpace (rc_password (cf_redis c))\<rparr>,
       cf_chunking := (cf_chunking c)\<lparr>cc_version := or_default (TrimSpace (cc_version (cf_chunking c))) (lit ''v1'')\<rparr>,
       cf_embedding := (cf_embedding c)\<lparr>em_provider :=
           or_default (ToLower u (TrimSpace (em_provider (cf_embedding c)))) (lit ''openrouter'')\<rparr>\<rparr>"

definition pool_invalid :: "postgres_conf \<Rightarrow> bool" where
  "pool_invalid p \<longleftrightarrow>
     pc_max_conns p < 1 \<or> pc_min_conns p < 0 \<or> pc_min_conns p > pc_max_conns p \<or>
     pc_max_lifetime_minutes p < 1 \<or> pc_max_idle_minutes p < 1 \<or> pc_health_check_seconds p < 1"

definition config_error :: "'r config \<Rightarrow> gostr option" where
  "config_error c =
     (if as_url (cf_agent c) = [] then Some (lit ''agent service URL is required'')
      else if byte_length (as_token (cf_agent c)) < 16 then
        Some (lit ''agent service token must contain at least 16 characters'')
      else if byte_length (au_secret (cf_auth c)) < 32 then
        Some (lit ''auth access secret must contain at least 32 characters'')
      else if rc_host (cf_redis c) = [] then Some (lit ''redis host is required'')
      else if byte_length (rc_password (cf_redis c)) < 16 then
        Some (lit ''redis password must contain at least 16 characters'')
      else if wk_task_timeout (cf_worker c) < 1 \<or> wk_shutdown_timeout (cf_worker c) < 1 then
        Some (lit ''worker task and shutdown timeouts must be positive'')
      else if rl_period (cf_rate_limit c) < 1 \<or> rl_chat_quota (cf_rate_limit c) < 1 \<or>
          rl_retrieval_quota (cf_rate_limit c) < 1 \<or> rl_upload_quota (cf_rate_limit c) < 1 then
        Some (lit ''rate limit values must be positive'')
      else if pool_invalid (cf_postgres c) then Some (lit ''invalid postgres pool configuration'')
      else None)"

definition default_timeout :: "'r config \<Rightarrow> 'r config" where
  "default_timeout c =
     (if as_timeout (cf_agent c) < 1 then c\<lparr>cf_agent := (cf_agent c)\<lparr>as_timeout := 90\<rparr>\<rparr> else c)"

definition finish_config :: "unicode_tables \<Rightarrow> 'r config \<Rightarrow> gerr + 'r config" where
  "finish_config u c =
     (case check_metrics c of
        Inl err \<Rightarrow> Inl err
      | Inr c1 \<Rightarrow>
          (case config_error (trim_config u c1) of
             Some message \<Rightarrow> Inl (Plain message)
           | None \<Rightarrow> Inr (default_timeout (trim_config u c1))))"

fun merge_includes ::
    "('y, 'r,
      'w) config_library \<Rightarrow> gostr \<Rightarrow> gostr list \<Rightarrow> 'y yaml_map \<Rightarrow> ('w, 'y yaml_map) prog" where
  "merge_includes cl baseDir [] merged = return merged"
| "merge_includes cl baseDir (i # is) merged =
     (case resolveIncludePath (cl_quote cl) baseDir i of
        Inl err \<Rightarrow> fail err
      | Inr path \<Rightarrow> attempt (readYAMLMap cl path) (\<lambda>included.
          merge_includes cl baseDir is (mergeYAMLMap merged included)))"

definition decode_config :: "('y, 'r,
  'w) config_library \<Rightarrow> 'y yaml_map \<Rightarrow> gerr + 'r config" where
  "decode_config cl merged =
     (case cl_marshal cl merged of
        Inl err \<Rightarrow> Inl (Wrapped (lit ''merge config'') err)
      | Inr text \<Rightarrow>
          (case cl_load cl (ExpandEnv (cl_env cl) text) of
             Inl err \<Rightarrow> Inl err
           | Inr c \<Rightarrow>
               (case applyRuntimeOverrides (cl_env cl) c of
                  Inl err \<Rightarrow> Inl err
                | Inr c1 \<Rightarrow> finish_config (cl_unicode cl) c1)))"

definition config_Load :: "('y, 'r, 'w) config_library \<Rightarrow> gostr \<Rightarrow> ('w,
  'r config) prog" where
  "config_Load cl path =
     attempt (readYAMLMap cl path) (\<lambda>root.
     attempt (cl_read cl path) (\<lambda>raw.
     attempt (wrap_error (lit ''parse config manifest'') (\<lambda>w. (cl_includes cl raw,
       w))) (\<lambda>includes.
     attempt (merge_includes cl (Dir path) includes (\<lambda>_. None)) (\<lambda>merged w.
       (decode_config cl (mergeYAMLMap merged (root(lit ''Includes'' := None))), w)))))"

end
