(* ===== verification/ConfigProperties.thy ===== *)
theory ConfigProperties
  imports Config
begin

text \<open>
  Loading the configuration reads no file outside the directory of the manifest, later files win, and a
  configuration that is returned satisfies every bound and override.
\<close>

section \<open>Elements of a path\<close>

definition part_ok :: "gostr \<Rightarrow> bool" where
  "part_ok c \<longleftrightarrow> c \<noteq> [] \<and> 47 \<notin> set c"

lemma part_ok_dots [simp]: "part_ok parent" "part_ok (lit ''.'')"
  by (simp_all add: part_ok_def parent_def lit_def)

lemma path_parts_ok: "c \<in> set (path_parts p) \<Longrightarrow> part_ok c"
  unfolding path_parts_def part_ok_def using FieldsFunc_fields [of c slash_rune p] by (auto simp: slash_rune_def)

lemma path_parts_Nil [simp]: "path_parts [] = []"
  unfolding path_parts_def by (subst FieldsFunc.simps) simp

lemma path_parts_slash [simp]: "path_parts (47 # s) = path_parts s"
  unfolding path_parts_def
  by (subst FieldsFunc.simps, subst (2) FieldsFunc.simps) (simp add: slash_rune_def)

lemma path_parts_part:
  assumes "part_ok c"
  shows "path_parts (c @ 47 # s) = c # path_parts s" and "path_parts c = [c]"
proof -
  obtain r rest where c: "c = r # rest" and rest: "r \<noteq> 47" "47 \<notin> set rest"
    using assms by (cases c) (auto simp: part_ok_def)
  have all: "x \<in> set rest \<Longrightarrow> \<not> slash_rune x" for x using rest(2) by (auto simp: slash_rune_def)
  have tk: "takeWhile (\<lambda>x. \<not> slash_rune x) (rest @ 47 # s) = rest"
      "dropWhile (\<lambda>x. \<not> slash_rune x) (rest @ 47 # s) = 47 # s"
      "takeWhile (\<lambda>x. \<not> slash_rune x) rest = rest" "dropWhile (\<lambda>x. \<not> slash_rune x) rest = []"
    using all by (simp_all add: takeWhile_append dropWhile_append slash_rune_def)
  show "path_parts (c @ 47 # s) = c # path_parts s"
    unfolding c path_parts_def
    by (subst FieldsFunc.simps) (use rest(1) in \<open>simp add: slash_rune_def [of r] tk path_parts_slash [unfolded path_parts_def]\<close>)
  show "path_parts c = [c]"
    unfolding c path_parts_def
    by (subst FieldsFunc.simps) (use rest(1) in \<open>simp add: slash_rune_def [of r] tk path_parts_Nil [unfolded path_parts_def]\<close>)
qed

lemma path_parts_append: "path_parts (a @ 47 # b) = path_parts a @ path_parts b"
proof (induction a rule: length_induct)
  case (1 a)
  show ?case
  proof (cases a)
    case (Cons r rest)
    show ?thesis
    proof (cases "r = 47")
      case True
      with Cons 1 show ?thesis by simp
    next
      case False
      define c where "c = takeWhile (\<lambda>x. x \<noteq> 47) a"
      define d where "d = dropWhile (\<lambda>x. x \<noteq> 47) a"
      have a: "a = c @ d" by (simp add: c_def d_def)
      have c: "part_ok c" using Cons False by (auto simp: part_ok_def c_def dest: set_takeWhileD)
      show ?thesis
      proof (cases d)
        case Nil
        with a c show ?thesis by (simp add: path_parts_part)
      next
        case (Cons x e)
        then have "x = 47" using d_def hd_dropWhile [of "\<lambda>x. x \<noteq> 47" a] by simp
        moreover have "length e < length a" using a Cons by simp
        ultimately show ?thesis using 1 a Cons c by (simp add: path_parts_part)
      qed
    qed
  qed simp
qed

lemma path_parts_Join: "\<forall>c \<in> set cs. part_ok c \<Longrightarrow> path_parts (Join cs (lit ''/'')) = cs"
proof (induction cs rule: induct_list012)
  case (3 c d cs)
  then have "path_parts (c @ 47 # Join (d # cs) (lit ''/'')) = c # d # cs"
    by (simp add: path_parts_part del: Join.simps)
  then show ?case by (simp add: lit_def)
qed (simp_all add: path_parts_part)

lemma IsAbs_iff: "IsAbs p \<longleftrightarrow> (\<exists>s. p = 47 # s)"
  by (cases p) (auto simp: IsAbs_def HasPrefix_def lit_def)

section \<open>Normal paths\<close>

text \<open>Parents only stand at the front,
  and only in a relative path; an element that is a dot does not occur.\<close>

definition normal :: "bool \<Rightarrow> gostr list \<Rightarrow> bool" where
  "normal rooted cs \<longleftrightarrow>
     (\<exists>n names. cs = replicate n parent @ names \<and> parent \<notin> set names \<and> (rooted \<longrightarrow> n = 0)) \<and>
     lit ''.'' \<notin> set cs \<and> (\<forall>c \<in> set cs. part_ok c)"

lemma dot_not_parent [simp]: "lit ''.'' \<noteq> parent" "parent \<noteq> lit ''.''"
  by (simp_all add: parent_def lit_def)

lemma normal_part:
  assumes "normal rooted acc" and "part_ok c"
  shows "normal rooted (clean_part rooted acc c)"
proof -
  from assms(1) obtain n names where acc: "acc = replicate n parent @ names" "parent \<notin> set names"
    and root: "rooted \<longrightarrow> n = 0" and dots: "lit ''.'' \<notin> set acc" and ok: "\<forall>c \<in> set acc. part_ok c"
    unfolding normal_def by blast
  consider "c = lit ''.''" | "c \<noteq> lit ''.''" "c \<noteq> parent" | "c = parent" "names \<noteq> []" | "c = parent" "names = []" by blast
  then show ?thesis
  proof cases
    case 1
    with assms(1) show ?thesis by (simp add: clean_part_def)
  next
    case 2
    have "\<exists>n names'. acc @ [c] = replicate n parent @ names' \<and> parent \<notin> set names' \<and> (rooted \<longrightarrow> n = 0)"
      using acc 2 root by (intro exI [of _ n] exI [of _ "names @ [c]"]) simp
    with 2 dots ok assms(2) show ?thesis by (simp add: clean_part_def normal_def)
  next
    case 3
    have b: "butlast acc = replicate n parent @ butlast names" and l: "last acc \<noteq> parent" "acc \<noteq> []"
      using acc 3(2) last_in_set [of names] by (auto simp: butlast_append simp del: last_in_set)
    have "\<exists>n names'. butlast acc = replicate n parent @ names' \<and> parent \<notin> set names' \<and> (rooted \<longrightarrow> n = 0)"
      using b acc(2) root by (intro exI [of _ n] exI [of _ "butlast names"]) (auto dest: in_set_butlastD)
    with 3 l dots ok show ?thesis by (auto simp: clean_part_def normal_def dest: in_set_butlastD)
  next
    case 4
    have l: "acc = [] \<or> last acc = parent" using acc 4(2) by (cases n) auto
    have "\<exists>m names'. acc @ [c] = replicate m parent @ names' \<and> parent \<notin> set names' \<and> (rooted \<longrightarrow> m = 0)" if "\<not> rooted"
      using acc 4 that by (intro exI [of _ "Suc n"] exI [of _ "[]"]) (simp add: replicate_append_same)
    with 4 l dots ok assms show ?thesis by (auto simp: clean_part_def normal_def)
  qed
qed

lemma normal_fold: "normal rooted acc \<Longrightarrow> \<forall>c \<in> set cs. part_ok c \<Longrightarrow> normal rooted (foldl (clean_part rooted) acc cs)"
  by (induction cs arbitrary: acc) (simp_all add: normal_part)

lemma normal_Nil [simp]: "normal rooted []"
  by (auto simp: normal_def)

lemma normal_clean: "normal (IsAbs p) (clean_parts p)"
  unfolding clean_parts_def by (rule normal_fold) (auto dest: path_parts_ok)

lemma clean_names: "parent \<notin> set names \<Longrightarrow> lit ''.'' \<notin> set names \<Longrightarrow> foldl (clean_part rooted) acc names = acc @ names"
  by (induction names arbitrary: acc) (auto simp: clean_part_def)

lemma clean_parents: "foldl (clean_part False) (replicate m parent) (replicate n parent) = replicate (m + n) parent"
proof (induction n arbitrary: m)
  case (Suc n)
  have "clean_part False (replicate m parent) parent = replicate (Suc m) parent"
    by (cases m) (simp_all add: clean_part_def replicate_append_same [symmetric])
  with Suc [of "Suc m"] show ?case by simp
qed simp

lemma clean_normal: "normal rooted cs \<Longrightarrow> foldl (clean_part rooted) [] cs = cs"
proof -
  assume n: "normal rooted cs"
  then obtain k names where cs: "cs = replicate k parent @ names" "parent \<notin> set names" "rooted \<longrightarrow> k = 0"
    and dots: "lit ''.'' \<notin> set cs" unfolding normal_def by blast
  from cs(1) dots have "lit ''.'' \<notin> set names" by simp
  note cs = cs this
  show "foldl (clean_part rooted) [] cs = cs"
  proof (cases rooted)
    case True
    with cs show ?thesis by (simp add: clean_names)
  next
    case False
    with cs clean_parents [of 0 k] show ?thesis by (simp add: clean_names)
  qed
qed

section \<open>Cleaned paths\<close>

lemma Join_head:
  assumes "\<forall>c \<in> set cs. part_ok c" and "cs \<noteq> []"
  shows "\<not> IsAbs (Join cs (lit ''/''))" and "Join cs (lit ''/'') \<noteq> []"
proof -
  obtain c ds where cs: "cs = c # ds" using assms(2) by (cases cs) auto
  obtain r s where c: "c = r # s" "r \<noteq> 47" using assms(1) cs by (cases c) (auto simp: part_ok_def)
  have "\<exists>s'. Join cs (lit ''/'') = r # s'" using c by (cases ds) (simp_all add: cs)
  with c(2) show "\<not> IsAbs (Join cs (lit ''/''))" and "Join cs (lit ''/'') \<noteq> []" by (auto simp: IsAbs_iff)
qed

lemma IsAbs_render: "\<forall>c \<in> set cs. part_ok c \<Longrightarrow> IsAbs (render_path rooted cs) \<longleftrightarrow> rooted"
  using Join_head(1) [of cs] by (auto simp: render_path_def IsAbs_iff) (auto simp: lit_def)

lemma clean_ok: "c \<in> set (clean_parts p) \<Longrightarrow> part_ok c"
  using normal_clean [of p] by (auto simp: normal_def)

lemma IsAbs_Clean [simp]: "IsAbs (Clean p) = IsAbs p"
  unfolding Clean_def by (rule IsAbs_render) (auto dest: clean_ok)

lemma lit_slash: "lit ''/'' = [47]"
  by (simp add: lit_def)

lemma parts_render:
  assumes "\<forall>c \<in> set cs. part_ok c"
  shows "path_parts (render_path rooted cs) = (if \<not> rooted \<and> cs = [] then [lit ''.''] else cs)"
  using path_parts_Join [OF assms] path_parts_part(2) [of "lit ''.''"] path_parts_slash [of "Join cs (lit ''/'')"]
  by (auto simp: render_path_def lit_slash)

lemma clean_parts_Clean [simp]: "clean_parts (Clean p) = clean_parts p"
proof -
  have "path_parts (Clean p) = (if \<not> IsAbs p \<and> clean_parts p = [] then [lit ''.''] else clean_parts p)"
    unfolding Clean_def by (rule parts_render) (auto dest: clean_ok)
  then show ?thesis
    using clean_normal [OF normal_clean [of p]] by (auto simp: clean_parts_def [of "Clean p"]) (simp add: clean_part_def)
qed

lemma Clean_idem [simp]: "Clean (Clean p) = Clean p"
  by (simp add: Clean_def [of "Clean p"]) (simp add: Clean_def)

lemma parts_Clean_cases:
  "path_parts (Clean p) = (if \<not> IsAbs p \<and> clean_parts p = [] then [lit ''.''] else clean_parts p)"
  unfolding Clean_def by (rule parts_render) (auto dest: clean_ok)

lemma Clean_dot: "Clean p = lit ''.'' \<longleftrightarrow> \<not> IsAbs p \<and> clean_parts p = []"
proof
  assume dot: "Clean p = lit ''.''"
  then have "\<not> IsAbs p" using IsAbs_Clean [of p] by (auto simp: IsAbs_iff lit_def)
  moreover have "clean_parts p = []"
  proof (rule ccontr)
    assume "clean_parts p \<noteq> []"
    with parts_Clean_cases [of p] dot path_parts_part(2) [of "lit ''.''"] have "clean_parts p = [lit ''.'']" by simp
    with normal_clean [of p] show False by (simp add: normal_def)
  qed
  ultimately show "\<not> IsAbs p \<and> clean_parts p = []" ..
qed (simp add: Clean_def render_path_def)

lemma parts_Clean: "path_parts (Clean p) = (if Clean p = lit ''.'' then [lit ''.''] else clean_parts p)"
  using parts_Clean_cases [of p] by (simp add: Clean_dot)

section \<open>Including\<close>

definition below :: "gostr \<Rightarrow> gostr \<Rightarrow> bool" where
  "below d p \<longleftrightarrow> IsAbs p = IsAbs d \<and> (\<exists>rest. clean_parts p = clean_parts d @ rest \<and> parent \<notin> set rest)"

lemma rel_walk_split: "rel_walk bs ts = (bs',
  ts') \<Longrightarrow> \<exists>common. bs = common @ bs' \<and> ts = common @ ts'"
  by (induction bs ts rule: rel_walk.induct) (auto split: if_splits)

lemma Join_up:
  "\<exists>s. Join (parent # cs) (lit ''/'') = parent @ s \<and> (s = [] \<or> HasPrefix s (lit ''/''))"
  by (cases cs) (simp_all add: HasPrefix_def lit_def)

lemma up_is_refused:
  assumes "cs = parent # ds"
  shows "Join cs (lit ''/'') = parent \<or> HasPrefix (Join cs (lit ''/'')) (parent @ lit ''/'')"
proof -
  obtain s where s: "Join cs (lit ''/'') = parent @ s" "s = [] \<or> HasPrefix s (lit ''/'')"
    using Join_up [of ds] assms by blast
  from s(2) show ?thesis
  proof
    assume "HasPrefix s (lit ''/'')"
    then have "HasPrefix (parent @ s) (parent @ lit ''/'')" by (simp add: HasPrefix_def parent_def lit_def)
    with s(1) show ?thesis by simp
  qed (use s(1) in simp)
qed

text \<open>A relative path from one directory to another that does not begin with a parent leads down.\<close>

lemma Rel_down:
  assumes "Rel d p = Some r" and "r \<noteq> parent" and "\<not> HasPrefix r (parent @ lit ''/'')"
  shows "below d p"
proof (cases "Clean p = Clean d")
  case True
  then have "clean_parts p = clean_parts d" "IsAbs p = IsAbs d"
    by (metis clean_parts_Clean, metis IsAbs_Clean)
  then show ?thesis by (simp add: below_def)
next
  case False
  let ?B = "if Clean d = lit ''.'' then [] else path_parts (Clean d)"
  obtain bs ts where walk: "rel_walk ?B (path_parts (Clean p)) = (bs,
    ts)" by (cases "rel_walk ?B (path_parts (Clean p))")
  from assms(1) False walk have abs: "IsAbs p = IsAbs d" and r: "r = Join (replicate (length bs) parent @ ts) (lit ''/'')"
    by (auto simp: Rel_def Let_def split: if_splits)
  have bs: "bs = []"
  proof (rule ccontr)
    assume "bs \<noteq> []"
    then obtain n where "length bs = Suc n" by (cases bs) auto
    then have "replicate (length bs) parent @ ts = parent # (replicate n parent @ ts)" by simp
    from up_is_refused [OF this] r assms(2,3) show False by simp
  qed
  have B: "?B = clean_parts d"
    using parts_Clean [of d] Clean_dot [of d] by auto
  from rel_walk_split [OF walk] bs B have parts: "path_parts (Clean p) = clean_parts d @ ts" by auto
  have ts: "ts \<noteq> [] \<Longrightarrow> hd ts \<noteq> parent"
    using up_is_refused [of ts "tl ts"] r bs assms(2,3) by (metis append_Nil list.collapse list.size(3) replicate_empty)
  have dot: "Clean p \<noteq> lit ''.''"
  proof
    assume p: "Clean p = lit ''.''"
    then have single: "clean_parts d @ ts = [lit ''.'']" using parts path_parts_part(2) [of "lit ''.''"] by simp
    have "lit ''.'' \<notin> set (clean_parts d)" using normal_clean [of d] by (simp add: normal_def)
    with single have "clean_parts d = []" by (cases "clean_parts d") auto
    moreover have "\<not> IsAbs d" using abs IsAbs_Clean [of p] p by (auto simp: IsAbs_iff lit_def)
    ultimately have "Clean d = lit ''.''" by (simp add: Clean_def render_path_def)
    with p False show False by simp
  qed
  with parts parts_Clean [of p] have all: "clean_parts p = clean_parts d @ ts" by simp
  have "parent \<notin> set ts"
  proof
    assume "parent \<in> set ts"
    then obtain t us where t: "ts = t # us" by (cases ts) auto
    from normal_clean [of p] all obtain n names where n: "clean_parts d @ ts = replicate n parent @ names" "parent \<notin> set names"
      by (auto simp: normal_def)
    from n(1) obtain us where us: "clean_parts d = replicate n parent @ us \<and> us @ ts = names \<or>
        clean_parts d @ us = replicate n parent \<and> ts = us @ names"
      by (auto simp: append_eq_append_conv2)
    with n(2) \<open>parent \<in> set ts\<close> have 1: "clean_parts d @ us = replicate n parent" and 2: "ts = us @ names" by auto
    have "us \<noteq> []" using 2 n(2) \<open>parent \<in> set ts\<close> by auto
    then obtain v vs where v: "us = v # vs" by (cases us) auto
    then have "v \<in> set (replicate n parent)" unfolding 1 [symmetric] by simp
    then have "hd ts = parent" using 2 v by simp
    with ts t show False by simp
  qed
  with all abs show ?thesis by (auto simp: below_def)
qed

lemma resolve_below: "resolveIncludePath q d i = Inr p \<Longrightarrow> below d p"
  by (auto simp: resolveIncludePath_def Let_def split: if_splits option.splits intro: Rel_down)

lemma merge_includes_local:
  assumes "\<And>p. below d p \<Longrightarrow> reader p = cl_read cl p"
  shows "merge_includes (cl\<lparr>cl_read := reader\<rparr>) d is m w = merge_includes cl d is m w"
proof (induction "is" arbitrary: m w)
  case (Cons i "is")
  have "readYAMLMap (cl\<lparr>cl_read := reader\<rparr>) p = readYAMLMap cl p" if "resolveIncludePath (cl_quote cl) d i = Inr p" for p
    by (rule ext) (simp add: readYAMLMap_def assms [OF resolve_below [OF that]])
  with Cons show ?case by (auto simp: attempt_def split: sum.split prod.split)
qed simp

text \<open>C34 Loading the configuration reads no file but the manifest and files below its directory: with any
  other reader that agrees on these files the result and the state of the world are the same.
\<close>

theorem loading_stays_below_the_manifest:
  assumes "reader path = cl_read cl path" and "\<And>p. below (Dir path) p \<Longrightarrow> reader p = cl_read cl p"
  shows "config_Load (cl\<lparr>cl_read := reader\<rparr>) path w = config_Load cl path w"
proof -
  have root: "readYAMLMap (cl\<lparr>cl_read := reader\<rparr>) path = readYAMLMap cl path"
    by (rule ext) (simp add: readYAMLMap_def assms(1))
  have includes_same: "merge_includes (cl\<lparr>cl_read := reader\<rparr>) (Dir path) is m = merge_includes cl (Dir path) is m" for "is" m
    by (rule ext) (rule merge_includes_local [OF assms(2)])
  have decode: "decode_config (cl\<lparr>cl_read := reader\<rparr>) m = decode_config cl m" for m
    by (simp add: decode_config_def split: sum.split)
  show ?thesis by (simp add: config_Load_def root includes_same assms(1) decode)
qed

section \<open>Merging\<close>

text \<open>What a file says of a setting that is named by the keys on the way to it.\<close>

fun yaml_get :: "'y yaml_map \<Rightarrow> gostr list \<Rightarrow> 'y yaml option" where
  "yaml_get m [] = None"
| "yaml_get m [k] = m k"
| "yaml_get m (k # l # ks) = (case m k of Some (YMap t) \<Rightarrow> yaml_get t (l # ks) | _ \<Rightarrow> None)"

fun touches :: "'y yaml_map \<Rightarrow> gostr list \<Rightarrow> bool" where
  "touches m [] \<longleftrightarrow> False"
| "touches m [k] \<longleftrightarrow> m k \<noteq> None"
| "touches m (k # l # ks) \<longleftrightarrow> (case m k of None \<Rightarrow> False | Some (YLeaf _) \<Rightarrow> True | Some (YMap t) \<Rightarrow> touches t (l # ks))"

lemma merge_value_map: "merge_value (YMap m) (Some (YMap t)) = YMap (mergeYAMLMap t m)"
  by (auto simp: mergeYAMLMap_def fun_eq_iff split: option.split)

lemma merge_value_other: "\<nexists>t. old = Some (YMap t) \<Longrightarrow> merge_value v old = v"
  by (cases v) (auto split: option.split yaml.split)

lemma merge_leaf: "yaml_get s ks = Some (YLeaf v) \<Longrightarrow> yaml_get (mergeYAMLMap t s) ks = Some (YLeaf v)"
proof (induction s ks arbitrary: t rule: yaml_get.induct)
  case (3 m k l ks)
  then obtain m' where m': "m k = Some (YMap m')" "yaml_get m' (l # ks) = Some (YLeaf v)"
    by (auto split: option.splits yaml.splits)
  show ?case
  proof (cases "\<exists>t'. t k = Some (YMap t')")
    case True
    then obtain t' where "t k = Some (YMap t')" ..
    with m' 3 show ?thesis by (simp add: mergeYAMLMap_def [of t] merge_value_map del: merge_value.simps)
  next
    case False
    with m' show ?thesis by (simp add: mergeYAMLMap_def [of t] merge_value_other del: merge_value.simps)
  qed
qed (auto simp: mergeYAMLMap_def)

lemma not_touched_get: "\<not> touches s ks \<Longrightarrow> yaml_get s ks = None"
  by (induction s ks rule: touches.induct) (auto split: option.splits yaml.splits)

lemma merge_untouched: "\<not> touches s ks \<Longrightarrow> yaml_get (mergeYAMLMap t s) ks = yaml_get t ks"
proof (induction s ks arbitrary: t rule: touches.induct)
  case (3 m k l ks)
  show ?case
  proof (cases "m k")
    case None
    then show ?thesis by (simp add: mergeYAMLMap_def)
  next
    case (Some v)
    with 3(2) obtain m' where m': "v = YMap m'" "\<not> touches m' (l # ks)" by (auto split: yaml.splits)
    show ?thesis
    proof (cases "\<exists>t'. t k = Some (YMap t')")
      case True
      then obtain t' where "t k = Some (YMap t')" ..
      with Some m' 3(1) show ?thesis by (simp add: mergeYAMLMap_def [of t] merge_value_map del: merge_value.simps)
    next
      case False
      then have "yaml_get t (k # l # ks) = None" by (auto split: option.splits yaml.splits)
      with Some m' False not_touched_get [OF m'(2)] show ?thesis
        by (simp add: mergeYAMLMap_def [of t] merge_value_other del: merge_value.simps)
    qed
  qed
qed (auto simp: mergeYAMLMap_def)

text \<open>The value of a setting is that of the last file that says something about it.\<close>

theorem last_file_wins:
  assumes "yaml_get m ks = Some (YLeaf v)" and "\<forall>m' \<in> set later. \<not> touches m' ks"
  shows "yaml_get (foldl mergeYAMLMap merged (earlier @ m # later)) ks = Some (YLeaf v)"
proof -
  have "yaml_get (foldl mergeYAMLMap t later) ks = yaml_get t ks" for t
    using assms(2) by (induction later arbitrary: t) (simp_all add: merge_untouched)
  then show ?thesis by (simp add: merge_leaf [OF assms(1)])
qed

section \<open>Overrides\<close>

lemma override_strings_append:
  "override_strings env (a @ b) c = override_strings env b (override_strings env a c)"
  by (induction env a c rule: override_strings.induct) (simp_all add: Let_def)

lemma override_strings_other:
  "\<forall>(n,
    f) \<in> set fs. \<forall>v c. g (f v c) = g c \<Longrightarrow> g (override_strings env fs c) = g c"
  by (induction env fs c rule: override_strings.induct) (auto simp: Let_def)

lemma override_strings_at:
  assumes "drop k fs = (n, f) # b" and "\<forall>(n,
    f) \<in> set b. \<forall>v c. g (f v c) = g c" and "\<And>v c. g (f v c) = v"
    and "TrimSpace (env n) \<noteq> []"
  shows "g (override_strings env fs c) = TrimSpace (env n)"
proof -
  have "override_strings env fs c = override_strings env ((n, f) # b) (override_strings env (take k fs) c)"
    by (metis append_take_drop_id override_strings_append assms(1))
  then show ?thesis using assms(2-4) by (simp add: Let_def override_strings_other)
qed

lemma override_integers_other:
  "override_integers env fs c = Inr c' \<Longrightarrow> \<forall>(n,
    f) \<in> set fs. \<forall>v c. g (f v c) = g c \<Longrightarrow> g c' = g c"
  by (induction env fs c rule: override_integers.induct) (auto simp: Let_def split: if_splits sum.splits)

lemma override_integers_append:
  "override_integers env (a @ b) c =
     (case override_integers env a c of Inl e \<Rightarrow> Inl e | Inr c' \<Rightarrow> override_integers env b c')"
  by (induction env a c rule: override_integers.induct) (simp_all add: Let_def split: sum.split)

lemma override_integers_at:
  assumes "override_integers env fs c = Inr c'" and "drop k fs = (n, f) # b"
    and "\<forall>(n, f) \<in> set b. \<forall>v c. g (f v c) = g c" and "\<And>v c. g (f v c) = v"
    and "TrimSpace (env n) \<noteq> []"
  shows "ParseInt (TrimSpace (env n)) = Inr (g c')"
proof -
  have "override_integers env (take k fs @ (n, f) # b) c = Inr c'" by (metis append_take_drop_id assms(1,2))
  then obtain c1 where "override_integers env ((n, f) # b) c1 = Inr c'"
    unfolding override_integers_append [of env "take k fs"] by (auto split: sum.splits)
  then obtain i where i: "ParseInt (TrimSpace (env n)) = Inr i" "override_integers env b (f i c1) = Inr c'"
    using assms(5) by (auto simp: Let_def split: sum.splits)
  from override_integers_other [OF i(2), of g] assms(3,4) i(1) show ?thesis by simp
qed

definition overridden :: "(gostr \<Rightarrow> gostr) \<Rightarrow> string \<Rightarrow> gostr \<Rightarrow> bool" where
  "overridden env name v \<longleftrightarrow> TrimSpace (env (lit name)) \<noteq> [] \<longrightarrow> v = TrimSpace (env (lit name))"

definition overridden_integer :: "(gostr \<Rightarrow> gostr) \<Rightarrow> string \<Rightarrow> int \<Rightarrow> bool" where
  "overridden_integer env name n \<longleftrightarrow>
     TrimSpace (env (lit name)) \<noteq> [] \<longrightarrow> ParseInt (TrimSpace (env (lit name))) = Inr n"

definition text_overrides :: "(gostr \<Rightarrow> gostr) \<Rightarrow> 'r config \<Rightarrow> bool" where
  "text_overrides env c \<longleftrightarrow>
     overridden env ''RAG_POSTGRES_DSN'' (pc_data_source (cf_postgres c)) \<and>
     overridden env ''RAG_REDIS_HOST'' (rc_host (cf_redis c)) \<and>
     overridden env ''RAG_REDIS_PASSWORD'' (rc_password (cf_redis c)) \<and>
     overridden env ''RAG_NATS_URL'' (cf_nats_url c) \<and>
     overridden env ''RAG_MINIO_ENDPOINT'' (mc_endpoint (cf_minio c)) \<and>
     overridden env ''RAG_MINIO_ACCESS_KEY'' (mc_access_key (cf_minio c)) \<and>
     overridden env ''RAG_MINIO_SECRET_KEY'' (mc_secret_key (cf_minio c)) \<and>
     overridden env ''RAG_MILVUS_ADDRESS'' (vc_address (cf_milvus c)) \<and>
     overridden env ''RAG_EMBEDDING_BASE_URL'' (em_base_url (cf_embedding c)) \<and>
     overridden env ''RAG_AUTH_SECRET'' (au_secret (cf_auth c)) \<and>
     overridden env ''OTEL_EXPORTER_OTLP_ENDPOINT'' (cf_telemetry_endpoint c)"

definition url_override :: "(gostr \<Rightarrow> gostr) \<Rightarrow> gostr \<Rightarrow> bool" where
  "url_override env v \<longleftrightarrow>
     TrimSpace (env (lit ''RAG_AGENT_URL'')) \<noteq> [] \<longrightarrow> v = TrimRightSlash (TrimSpace (env (lit ''RAG_AGENT_URL'')))"

definition number_overrides :: "(gostr \<Rightarrow> gostr) \<Rightarrow> 'r config \<Rightarrow> bool" where
  "number_overrides env c \<longleftrightarrow>
     overridden_integer env ''RAG_REDIS_DB'' (rc_db (cf_redis c)) \<and>
     overridden_integer env ''RAG_RATE_LIMIT_PERIOD_SECONDS'' (rl_period (cf_rate_limit c)) \<and>
     overridden_integer env ''RAG_RATE_LIMIT_CHAT_QUOTA'' (rl_chat_quota (cf_rate_limit c)) \<and>
     overridden_integer env ''RAG_RATE_LIMIT_RETRIEVAL_QUOTA'' (rl_retrieval_quota (cf_rate_limit c)) \<and>
     overridden_integer env ''RAG_RATE_LIMIT_UPLOAD_QUOTA'' (rl_upload_quota (cf_rate_limit c))"

lemma string_override:
  assumes "k < length fs" and "fst (fs ! k) = lit name"
    and "\<forall>(n, f) \<in> set (drop (Suc k) fs). \<forall>v c. g (f v c) = g c"
    and "\<And>v c. g (snd (fs ! k) v c) = v"
  shows "overridden env name (g (override_strings env fs c))"
proof -
  have "drop k fs = (lit name, snd (fs ! k)) # drop (Suc k) fs"
    using Cons_nth_drop_Suc [OF assms(1), symmetric] assms(2) by (cases "fs ! k") simp
  from override_strings_at [OF this assms(3,4)] show ?thesis unfolding overridden_def by blast
qed

lemmas string_lenses =
  string_override [of 0 string_overrides "''RAG_POSTGRES_DSN''" "\<lambda>c. pc_data_source (cf_postgres c)"]
  string_override [of 1 string_overrides "''RAG_REDIS_HOST''" "\<lambda>c. rc_host (cf_redis c)"]
  string_override [of 2 string_overrides "''RAG_REDIS_PASSWORD''" "\<lambda>c. rc_password (cf_redis c)"]
  string_override [of 3 string_overrides "''RAG_NATS_URL''" "\<lambda>c. cf_nats_url c"]
  string_override [of 4 string_overrides "''RAG_MINIO_ENDPOINT''" "\<lambda>c. mc_endpoint (cf_minio c)"]
  string_override [of 5 string_overrides "''RAG_MINIO_ACCESS_KEY''" "\<lambda>c. mc_access_key (cf_minio c)"]
  string_override [of 6 string_overrides "''RAG_MINIO_SECRET_KEY''" "\<lambda>c. mc_secret_key (cf_minio c)"]
  string_override [of 7 string_overrides "''RAG_MILVUS_ADDRESS''" "\<lambda>c. vc_address (cf_milvus c)"]
  string_override [of 8 string_overrides "''RAG_AGENT_URL''" "\<lambda>c. as_url (cf_agent c)"]
  string_override [of 9 string_overrides "''RAG_EMBEDDING_BASE_URL''" "\<lambda>c. em_base_url (cf_embedding c)"]
  string_override [of 10 string_overrides "''RAG_AUTH_SECRET''" "\<lambda>c. au_secret (cf_auth c)"]
  string_override [of 11 string_overrides "''OTEL_EXPORTER_OTLP_ENDPOINT''" "\<lambda>c. cf_telemetry_endpoint c"]

lemma strings_overridden:
  shows "text_overrides env (override_strings env string_overrides c)"
    and "overridden env ''RAG_AGENT_URL'' (as_url (cf_agent (override_strings env string_overrides c)))"
  unfolding text_overrides_def by (intro conjI string_lenses; simp add: string_overrides_def)+

lemma integer_override:
  assumes "override_integers env fs c = Inr d"
    and "k < length fs" and "fst (fs ! k) = lit name"
    and "\<forall>(n, f) \<in> set (drop (Suc k) fs). \<forall>v c. g (f v c) = g c"
    and "\<And>v c. g (snd (fs ! k) v c) = v"
  shows "overridden_integer env name (g d)"
proof -
  have "drop k fs = (lit name, snd (fs ! k)) # drop (Suc k) fs"
    using Cons_nth_drop_Suc [OF assms(2), symmetric] assms(3) by (cases "fs ! k") simp
  from override_integers_at [OF assms(1) this assms(4,5)] show ?thesis unfolding overridden_integer_def by blast
qed

lemmas integer_lenses =
  integer_override [of _ integer_overrides _ _ 0 "''RAG_REDIS_DB''" "\<lambda>c. rc_db (cf_redis c)"]
  integer_override [of _ integer_overrides _ _ 1 "''RAG_RATE_LIMIT_PERIOD_SECONDS''" "\<lambda>c. rl_period (cf_rate_limit c)"]
  integer_override [of _ integer_overrides _ _ 2 "''RAG_RATE_LIMIT_CHAT_QUOTA''" "\<lambda>c. rl_chat_quota (cf_rate_limit c)"]
  integer_override [of _ integer_overrides _ _ 3 "''RAG_RATE_LIMIT_RETRIEVAL_QUOTA''" "\<lambda>c. rl_retrieval_quota (cf_rate_limit c)"]
  integer_override [of _ integer_overrides _ _ 4 "''RAG_RATE_LIMIT_UPLOAD_QUOTA''" "\<lambda>c. rl_upload_quota (cf_rate_limit c)"]

lemma integers_overridden: "override_integers env integer_overrides c = Inr d \<Longrightarrow> number_overrides env d"
  unfolding number_overrides_def by (intro conjI integer_lenses; assumption?; simp add: integer_overrides_def)

lemmas integers_keep =
  override_integers_other [of _ integer_overrides _ _ "\<lambda>c. pc_data_source (cf_postgres c)"]
  override_integers_other [of _ integer_overrides _ _ "\<lambda>c. rc_host (cf_redis c)"]
  override_integers_other [of _ integer_overrides _ _ "\<lambda>c. rc_password (cf_redis c)"]
  override_integers_other [of _ integer_overrides _ _ "\<lambda>c. cf_nats_url c"]
  override_integers_other [of _ integer_overrides _ _ "\<lambda>c. mc_endpoint (cf_minio c)"]
  override_integers_other [of _ integer_overrides _ _ "\<lambda>c. mc_access_key (cf_minio c)"]
  override_integers_other [of _ integer_overrides _ _ "\<lambda>c. mc_secret_key (cf_minio c)"]
  override_integers_other [of _ integer_overrides _ _ "\<lambda>c. vc_address (cf_milvus c)"]
  override_integers_other [of _ integer_overrides _ _ "\<lambda>c. as_url (cf_agent c)"]
  override_integers_other [of _ integer_overrides _ _ "\<lambda>c. em_base_url (cf_embedding c)"]
  override_integers_other [of _ integer_overrides _ _ "\<lambda>c. au_secret (cf_auth c)"]
  override_integers_other [of _ integer_overrides _ _ "\<lambda>c. cf_telemetry_endpoint c"]

lemma integers_keep_texts:
  assumes "override_integers env integer_overrides c = Inr d"
  shows "text_overrides env d = text_overrides env c" and "as_url (cf_agent d) = as_url (cf_agent c)"
  using integers_keep [OF assms] by (simp_all add: text_overrides_def integer_overrides_def)

section \<open>A configuration that is returned\<close>

definition pool_valid :: "postgres_conf \<Rightarrow> bool" where
  "pool_valid p \<longleftrightarrow>
     1 \<le> pc_max_conns p \<and> 0 \<le> pc_min_conns p \<and> pc_min_conns p \<le> pc_max_conns p \<and>
     1 \<le> pc_max_lifetime_minutes p \<and> 1 \<le> pc_max_idle_minutes p \<and> 1 \<le> pc_health_check_seconds p"

definition quotas_valid :: "rate_limit_conf \<Rightarrow> bool" where
  "quotas_valid r \<longleftrightarrow> 1 \<le> rl_period r \<and> 1 \<le> rl_chat_quota r \<and> 1 \<le> rl_retrieval_quota r \<and> 1 \<le> rl_upload_quota r"

definition secrets_valid :: "'r config \<Rightarrow> bool" where
  "secrets_valid c \<longleftrightarrow>
     16 \<le> byte_length (as_token (cf_agent c)) \<and> trimmed (as_token (cf_agent c)) \<and>
     32 \<le> byte_length (au_secret (cf_auth c)) \<and> trimmed (au_secret (cf_auth c)) \<and>
     16 \<le> byte_length (rc_password (cf_redis c)) \<and> trimmed (rc_password (cf_redis c))"

definition addresses_valid :: "'r config \<Rightarrow> bool" where
  "addresses_valid c \<longleftrightarrow>
     as_url (cf_agent c) \<noteq> [] \<and> last (as_url (cf_agent c)) \<noteq> 47 \<and>
     rc_host (cf_redis c) \<noteq> [] \<and> trimmed (rc_host (cf_redis c)) \<and>
     cc_version (cf_chunking c) \<noteq> [] \<and> em_provider (cf_embedding c) \<noteq> []"

definition metrics_valid :: "metrics_conf \<Rightarrow> bool" where
  "metrics_valid m \<longleftrightarrow>
     me_enabled m \<longrightarrow> HasPrefix (me_path m) (lit ''/'') \<and> me_path m \<noteq> lit ''/'' \<and> \<not> HasPrefix (me_path m) (lit ''/api/'')"

definition config_valid :: "'r config \<Rightarrow> bool" where
  "config_valid c \<longleftrightarrow>
     pool_valid (cf_postgres c) \<and> quotas_valid (cf_rate_limit c) \<and> secrets_valid c \<and> addresses_valid c \<and>
     metrics_valid (cf_metrics c) \<and> 1 \<le> as_timeout (cf_agent c) \<and>
     1 \<le> wk_task_timeout (cf_worker c) \<and> 1 \<le> wk_shutdown_timeout (cf_worker c)"

lemma last_TrimRightSlash: "TrimRightSlash s \<noteq> [] \<Longrightarrow> last (TrimRightSlash s) \<noteq> 47"
  unfolding TrimRightSlash_def using hd_dropWhile [of "\<lambda>r. r = 47" "rev s"] by (auto simp: last_rev)

lemma or_default_solid: "d \<noteq> [] \<Longrightarrow> or_default v d \<noteq> []"
  by (simp add: or_default_def)

lemma lit_solid [simp]: "lit ''v1'' \<noteq> []" "lit ''openrouter'' \<noteq> []"
  by (simp_all add: lit_def)

lemma config_error_None:
  assumes "config_error c = None"
  shows "as_url (cf_agent c) \<noteq> []" and "16 \<le> byte_length (as_token (cf_agent c))"
    and "32 \<le> byte_length (au_secret (cf_auth c))" and "rc_host (cf_redis c) \<noteq> []"
    and "16 \<le> byte_length (rc_password (cf_redis c))" and "quotas_valid (cf_rate_limit c)"
    and "pool_valid (cf_postgres c)" and "1 \<le> wk_task_timeout (cf_worker c)" and "1 \<le> wk_shutdown_timeout (cf_worker c)"
  using assms by (auto simp: config_error_def quotas_valid_def pool_valid_def pool_invalid_def split: if_splits)

lemma check_metrics_Inr:
  assumes "check_metrics c = Inr d"
  shows "metrics_valid (cf_metrics d)" and "\<exists>m. d = c\<lparr>cf_metrics := m\<rparr>"
proof -
  show "metrics_valid (cf_metrics d)"
    using assms by (auto simp: check_metrics_def metrics_valid_def Let_def split: if_splits)
  show "\<exists>m. d = c\<lparr>cf_metrics := m\<rparr>"
  proof (cases "me_enabled (cf_metrics c)")
    case True
    with assms show ?thesis unfolding check_metrics_def Let_def by (simp split: if_splits) blast+
  next
    case False
    with assms have "d = c" by (simp add: check_metrics_def)
    then show ?thesis by (intro exI [of _ "cf_metrics c"]) simp
  qed
qed

lemma trim_config_valid: "secrets_valid (trim_config u c) \<longleftrightarrow>
   16 \<le> byte_length (as_token (cf_agent (trim_config u c))) \<and> 32 \<le> byte_length (au_secret (cf_auth (trim_config u c))) \<and>
   16 \<le> byte_length (rc_password (cf_redis (trim_config u c)))"
  by (auto simp: secrets_valid_def trim_config_def trimmed_TrimSpace)

lemma finish_valid:
  assumes "finish_config u c = Inr d"
  shows "config_valid d"
proof -
  obtain c1 where metrics: "check_metrics c = Inr c1" and err: "config_error (trim_config u c1) = None"
    and d: "d = default_timeout (trim_config u c1)"
    using assms by (auto simp: finish_config_def split: sum.splits option.splits)
  let ?t = "trim_config u c1"
  note bounds = config_error_None [OF err]
  have "secrets_valid ?t" using bounds(2,3,5) by (simp add: trim_config_valid)
  moreover have "addresses_valid ?t"
    using bounds(1,4) by (auto simp: addresses_valid_def trim_config_def or_default_solid trimmed_TrimSpace last_TrimRightSlash)
  moreover have "metrics_valid (cf_metrics ?t)" using check_metrics_Inr(1) [OF metrics] by (simp add: trim_config_def)
  ultimately show ?thesis
    using bounds(6-9) by (auto simp: d default_timeout_def config_valid_def secrets_valid_def addresses_valid_def)
qed

lemma finish_keeps:
  assumes "finish_config u c = Inr d"
  shows "text_overrides env c \<Longrightarrow> text_overrides env d" and "number_overrides env d = number_overrides env c"
    and "as_url (cf_agent d) = TrimRightSlash (TrimSpace (as_url (cf_agent c)))"
proof -
  obtain m where d: "d = default_timeout (trim_config u (c\<lparr>cf_metrics := m\<rparr>))"
    using assms check_metrics_Inr(2) [of c] by (fastforce simp: finish_config_def split: sum.splits option.splits)
  show "text_overrides env c \<Longrightarrow> text_overrides env d"
    by (auto simp: d default_timeout_def trim_config_def text_overrides_def overridden_def)
  show "number_overrides env d = number_overrides env c"
    by (simp add: d default_timeout_def trim_config_def number_overrides_def)
  show "as_url (cf_agent d) = TrimRightSlash (TrimSpace (as_url (cf_agent c)))"
    by (simp add: d default_timeout_def trim_config_def)
qed

text \<open>C35 A configuration that is loaded satisfies every bound the program relies on - pool, quotas,
  timeouts, lengths of the secrets, addresses and the path of the metrics - and every environment
  variable of the list that is set has replaced what the files say.
\<close>

theorem loaded_configuration_is_valid:
  assumes "config_Load cl path w = (Inr c, w')"
  shows "config_valid c \<and> text_overrides (cl_env cl) c \<and> number_overrides (cl_env cl) c \<and>
    url_override (cl_env cl) (as_url (cf_agent c))"
proof -
  obtain m where "decode_config cl m = Inr c"
    using assms unfolding config_Load_def by (auto elim!: attempt_Inr)
  then obtain c0 c1 where over: "applyRuntimeOverrides (cl_env cl) c0 = Inr c1" and fin: "finish_config (cl_unicode cl) c1 = Inr c"
    by (auto simp: decode_config_def split: sum.splits)
  let ?s = "override_strings (cl_env cl) string_overrides c0"
  from over have ints: "override_integers (cl_env cl) integer_overrides ?s = Inr c1" by (simp add: applyRuntimeOverrides_def)
  have "text_overrides (cl_env cl) c"
    using finish_keeps(1) [OF fin] integers_keep_texts(1) [OF ints] strings_overridden(1) by blast
  moreover have "number_overrides (cl_env cl) c"
    using finish_keeps(2) [OF fin] integers_overridden [OF ints] by blast
  moreover have "url_override (cl_env cl) (as_url (cf_agent c))"
    using finish_keeps(3) [OF fin] integers_keep_texts(2) [OF ints] strings_overridden(2) [of "cl_env cl" c0]
    by (auto simp: url_override_def overridden_def)
  ultimately show ?thesis using finish_valid [OF fin] by blast
qed

section \<open>A small deployment\<close>

definition manifest_path :: gostr where
  "manifest_path = lit ''etc/rag-api.yaml''"

definition files1 :: "gostr \<Rightarrow> (unit, gostr) prog" where
  "files1 p =
     (if p = manifest_path then return (lit ''manifest'')
      else if p = lit ''etc/infrastructure.yaml'' then return (lit ''infrastructure'')
      else fail (Plain (lit ''no such file'')))"

definition yaml1 :: "gostr \<Rightarrow> gostr yaml_map" where
  "yaml1 t =
     (if t = lit ''manifest'' then [lit ''Name'' \<mapsto> YLeaf (lit ''rag-api'')]
      else [lit ''Redis'' \<mapsto> YMap [lit ''Host'' \<mapsto> YLeaf (lit ''localhost:6379'')]])"

definition decoded1 :: "gostr \<Rightarrow> unit config" where
  "decoded1 secret =
     \<lparr>cf_rest = (), cf_telemetry_endpoint = [],
      cf_postgres = \<lparr>pc_data_source = lit ''dsn'', pc_max_conns = 30, pc_min_conns = 2,
        pc_max_lifetime_minutes = 30,
        pc_max_idle_minutes = 5, pc_health_check_seconds = 30\<rparr>,
      cf_redis = \<lparr>rc_host = lit ''localhost:6379'', rc_password = secret, rc_db = 0\<rparr>,
      cf_nats_url = lit ''nats'', cf_minio = \<lparr>mc_endpoint = lit ''minio'',
        mc_access_key = [], mc_secret_key = [],
        mc_bucket = lit ''rag-documents'', mc_use_ssl = False\<rparr>,
      cf_milvus = \<lparr>vc_address = lit ''milvus'', vc_collection = lit ''vectors'', vc_dimension = 2,
        vc_metric_type = lit ''COSINE'', vc_index_type = lit ''HNSW''\<rparr>,
      cf_worker = \<lparr>wk_parse = 1, wk_chunk = 1, wk_embedding = 1, wk_delete = 1, wk_task_timeout = 300,
        wk_shutdown_timeout = 30\<rparr>,
      cf_rate_limit = \<lparr>rl_period = 60, rl_chat_quota = 20, rl_retrieval_quota = 60,
        rl_upload_quota = 60\<rparr>,
      cf_chunking = \<lparr>cc_version = [], cc_size = 800, cc_overlap = 120,
        cc_min_size = 120, cc_lookback = 160\<rparr>,
      cf_retrieval = \<lparr>rt_top_k = 5, rt_multiplier = 5, rt_candidate_limit = 50, rt_similarity = 7 / 20,
        rt_relative = 18 / 25, rt_max_citations = 5, rt_per_document = 3, rt_rerank = True,
          rt_max_query_runes = 500,
        rt_max_sub_queries = 4\<rparr>,
      cf_agent = \<lparr>as_url = lit ''http://agent/'', as_token = secret, as_timeout = 0\<rparr>,
      cf_metrics = \<lparr>me_enabled = True, me_path = []\<rparr>,
        cf_evaluation = \<lparr>ev_min_recall = 4 / 5, ev_max_latency_ms = 10000\<rparr>,
      cf_auth = \<lparr>au_secret = secret, au_expire_hours = 72\<rparr>,
      cf_embedding = \<lparr>em_provider = [], em_model = lit ''m'', em_dimension = 2,
        em_api_key = [], em_base_url = []\<rparr>\<rparr>"

definition env1 :: "gostr \<Rightarrow> gostr" where
  "env1 name =
     (if name = lit ''SECRET'' then lit ''0123456789abcdef0123456789abcdef''
      else if name = lit ''RAG_RATE_LIMIT_CHAT_QUOTA'' then lit '' 2 '' else [])"

definition deployment :: "(gostr, unit, unit) config_library" where
  "deployment =
     \<lparr>cl_read = files1, cl_yaml_map = (\<lambda>t. Inr (yaml1 t)),
       cl_includes = (\<lambda>_. Inr [lit ''infrastructure.yaml'']),
      cl_marshal = (\<lambda>_. Inr (lit ''${SECRET}'')),
        cl_load = (\<lambda>t. Inr (decoded1 t)), cl_env = env1,
      cl_quote = (\<lambda>t. t), cl_unicode = ascii_tables\<rparr>"

definition loaded1 :: "unit config" where
  "loaded1 = projr (fst (config_Load deployment manifest_path ()))"

lemma deployment_loads: "config_Load deployment manifest_path () = (Inr loaded1, ())"
proof -
  have "\<not> isl (fst (config_Load deployment manifest_path ()))" by code_simp
  then show ?thesis by (simp add: loaded1_def prod_eq_iff)
qed

lemma loaded_configuration_is_valid_witness:
  "config_valid loaded1 \<and> rl_chat_quota (cf_rate_limit loaded1) = 2 \<and> as_url (cf_agent loaded1) = lit ''http://agent''"
proof -
  have "rl_chat_quota (cf_rate_limit loaded1) = 2" and "as_url (cf_agent loaded1) = lit ''http://agent''" by code_simp+
  with loaded_configuration_is_valid [OF deployment_loads] show ?thesis by blast
qed

text \<open>Another reader, which would give away a file outside the directory of the manifest.\<close>

definition files2 :: "gostr \<Rightarrow> (unit, gostr) prog" where
  "files2 p = (if p = lit ''/etc/passwd'' then return (lit ''root'') else files1 p)"

lemma loading_stays_below_the_manifest_witness:
  "config_Load (deployment\<lparr>cl_read := files2\<rparr>) manifest_path () = (Inr loaded1, ())"
proof -
  have "\<not> below (Dir manifest_path) (lit ''/etc/passwd'')"
  proof -
    have "IsAbs (lit ''/etc/passwd'') \<noteq> IsAbs (Dir manifest_path)" by code_simp
    then show ?thesis by (simp add: below_def)
  qed
  then have "below (Dir manifest_path) p \<Longrightarrow> files2 p = cl_read deployment p" for p
    by (auto simp: files2_def deployment_def)
  moreover have "files2 manifest_path = cl_read deployment manifest_path"
    by (simp add: files2_def deployment_def manifest_path_def lit_def)
  ultimately show ?thesis
    using loading_stays_below_the_manifest [of files2 manifest_path deployment] deployment_loads by simp
qed

end
