(* ===== verification/Migrator.thy ===== *)
theory Migrator
  imports Services "HOL-Library.List_Lexorder"
begin

text \<open>
  The migrations of the database: \<open>internal/infrastructure/postgres/migrator.go\<close>. The files are those that
  were embedded at build time. What a script does to the schema, the faults of the database and what other
  instances migrate while this one waits for the lock are parameters. A call on the pool takes a
  connection from it for its duration; it fails when all are taken and the context ends.
\<close>

text \<open>The scripts that were applied are a column of a table, which may not exist yet.\<close>

record 's schema =
  sm_objects :: 's
  sm_versions :: "gostr list option"

record 's migrations =
  mi_entries :: "(gostr \<times> bool) list"
  mi_content :: "gostr \<Rightarrow> gerr + gostr"
  mi_apply :: "gostr \<Rightarrow> 's \<Rightarrow> gerr + 's"

record ('s, 'e) migration_server =
  ms_fault :: "'e \<Rightarrow> gerr option \<times> 'e"
  ms_commit :: "'e \<Rightarrow> pg_fault \<times> 'e"
  ms_wait :: "'e \<Rightarrow> 's schema \<Rightarrow> 's schema"
  ms_timeout :: gerr

record ('s, 'e) migration_world =
  mw_schema :: "'s schema"
  mw_free :: nat
  mw_locked :: bool
  mw_server :: 'e

type_synonym ('s, 'e, 'a) migration_act = "(('s, 'e) migration_world, 'a) prog"

text \<open>A call that reaches the database or fails before it does.\<close>

definition reach :: "('s, 'e) migration_server \<Rightarrow> ('s, 'e, unit) migration_act" where
  "reach ms w =
     (case ms_fault ms (mw_server w) of
        (Some err, e) \<Rightarrow> (Inl err, w\<lparr>mw_server := e\<rparr>)
      | (None, e) \<Rightarrow> (Inr (), w\<lparr>mw_server := e\<rparr>))"

text \<open>A call on the pool needs a free connection.\<close>

definition on_pool :: "('s, 'e) migration_server \<Rightarrow> ('s, 'e,
  'a) migration_act \<Rightarrow> ('s, 'e, 'a) migration_act" where
  "on_pool ms m w = (if mw_free w = 0 then (Inl (ms_timeout ms),
    w) else attempt (reach ms) (\<lambda>_. m) w)"

definition acquire :: "('s, 'e) migration_server \<Rightarrow> ('s, 'e, unit) migration_act" where
  "acquire ms = on_pool ms (\<lambda>w. (Inr (), w\<lparr>mw_free := mw_free w - 1\<rparr>))"

definition release :: "('s, 'e) migration_world \<Rightarrow> ('s, 'e) migration_world" where
  "release w = w\<lparr>mw_free := mw_free w + 1\<rparr>"

text \<open>The lock is granted after the instances that held it before.\<close>

definition advisory_lock :: "('s, 'e) migration_server \<Rightarrow> ('s, 'e, unit) migration_act" where
  "advisory_lock ms =
     attempt (reach ms) (\<lambda>_ w.
       (Inr (), w\<lparr>mw_locked := True, mw_schema := ms_wait ms (mw_server w) (mw_schema w)\<rparr>))"

definition advisory_unlock :: "('s, 'e) migration_server \<Rightarrow> ('s,
  'e) migration_world \<Rightarrow> ('s, 'e) migration_world" where
  "advisory_unlock ms w = snd (attempt (reach ms) (\<lambda>_ w. (Inr (),
    w\<lparr>mw_locked := False\<rparr>)) w)"

definition create_table :: "('s, 'e) migration_server \<Rightarrow> ('s, 'e, unit) migration_act" where
  "create_table ms =
     on_pool ms (\<lambda>w. (Inr (), w\<lparr>mw_schema := (mw_schema w)\<lparr>sm_versions :=
       (case sm_versions (mw_schema w) of None \<Rightarrow> Some [] | Some vs \<Rightarrow> Some vs)\<rparr>\<rparr>))"

definition up_suffix :: gostr where
  "up_suffix = lit ''.up.sql''"

definition migration_files :: "(gostr \<times> bool) list \<Rightarrow> gostr list" where
  "migration_files entries = sort (map fst (filter (\<lambda>(name,
    dir). \<not> dir \<and> HasSuffix name up_suffix) entries))"

definition no_table :: gerr where
  "no_table = Plain (lit ''ERROR: relation \"schema_migrations\" does not exist'')"

definition migrationApplied :: "('s,
  'e) migration_server \<Rightarrow> gostr \<Rightarrow> ('s, 'e, bool) migration_act" where
  "migrationApplied ms version =
     on_pool ms (\<lambda>w. (case sm_versions (mw_schema w) of
       None \<Rightarrow> (Inl no_table, w) | Some vs \<Rightarrow> (Inr (version \<in> set vs), w)))"

text \<open>A transaction works on a copy of the schema that a commit makes the schema.\<close>

definition exec_script ::
    "('s,
      'e) migration_server \<Rightarrow> 's migrations \<Rightarrow> gostr \<Rightarrow> 's schema \<Rightarrow> ('s, 'e, 's schema) migration_act" where
  "exec_script ms mi sql s =
     attempt (reach ms) (\<lambda>_ w. (case mi_apply mi sql (sm_objects s) of
       Inl err \<Rightarrow> (Inl err,
         w) | Inr objects \<Rightarrow> (Inr (s\<lparr>sm_objects := objects\<rparr>), w)))"

definition insert_version ::
    "('s, 'e) migration_server \<Rightarrow> gostr \<Rightarrow> 's schema \<Rightarrow> ('s,
      'e, 's schema) migration_act" where
  "insert_version ms version s =
     attempt (reach ms) (\<lambda>_ w. (case sm_versions s of
       None \<Rightarrow> (Inl no_table, w)
     | Some vs \<Rightarrow> if version \<in> set vs then (Inl (Sentinel (UniqueViolation ''schema_migrations_pkey'')), w)
         else (Inr (s\<lparr>sm_versions := Some (vs @ [version])\<rparr>), w)))"

definition commit_schema :: "('s,
  'e) migration_server \<Rightarrow> 's schema \<Rightarrow> ('s, 'e, unit) migration_act" where
  "commit_schema ms s w =
     (case ms_commit ms (mw_server w) of
        (Executed, e) \<Rightarrow> (Inr (), w\<lparr>mw_schema := s, mw_server := e\<rparr>)
      | (Refused err, e) \<Rightarrow> (Inl err, w\<lparr>mw_server := e\<rparr>)
      | (ReplyLost err, e) \<Rightarrow> (Inl err, w\<lparr>mw_schema := s, mw_server := e\<rparr>))"

definition apply_migration ::
    "('s,
      'e) migration_server \<Rightarrow> 's migrations \<Rightarrow> gostr \<Rightarrow> gostr \<Rightarrow> ('s, 'e, unit) migration_act" where
  "apply_migration ms mi file sql =
     attempt (on_pool ms (\<lambda>w. (Inr (mw_schema w), w))) (\<lambda>s.
     attempt (wrap_error (lit ''apply migration '' @ file) (exec_script ms mi sql s)) (\<lambda>s1.
     attempt (wrap_error (lit ''record migration '' @ file) (insert_version ms file s1)) (\<lambda>s2.
       wrap_error (lit ''commit migration '' @ file) (commit_schema ms s2))))"

fun apply_migrations ::
    "('s,
      'e) migration_server \<Rightarrow> 's migrations \<Rightarrow> gostr list \<Rightarrow> ('s, 'e, unit) migration_act" where
  "apply_migrations ms mi [] = return ()"
| "apply_migrations ms mi (file # files) =
     attempt (migrationApplied ms file) (\<lambda>applied.
       if applied then apply_migrations ms mi files
       else case mi_content mi file of
         Inl err \<Rightarrow> fail err
       | Inr sql \<Rightarrow> attempt (apply_migration ms mi file sql) (\<lambda>_. apply_migrations ms mi files))"

definition locked_migrations :: "('s,
  'e) migration_server \<Rightarrow> 's migrations \<Rightarrow> ('s, 'e, unit) migration_act" where
  "locked_migrations ms mi =
     attempt (create_table ms) (\<lambda>_. apply_migrations ms mi (migration_files (mi_entries mi)))"

text \<open>\<open>defer\<close>: what is done whenever the function returns.\<close>

definition deferring :: "('w \<Rightarrow> 'w) \<Rightarrow> ('w, 'a) prog \<Rightarrow> ('w, 'a) prog" where
  "deferring cleanup m w = (case m w of (r, w') \<Rightarrow> (r, cleanup w'))"

definition RunMigrations :: "('s,
  'e) migration_server \<Rightarrow> 's migrations \<Rightarrow> ('s, 'e, unit) migration_act" where
  "RunMigrations ms mi =
     attempt (wrap_error (lit ''acquire migration connection'') (acquire ms)) (\<lambda>_.
       deferring release (attempt (wrap_error (lit ''lock migrations'') (advisory_lock ms)) (\<lambda>_.
         deferring (advisory_unlock ms) (locked_migrations ms mi))))"

end
