(* ===== verification/Startup.thy ===== *)
theory Startup
  imports Migrator Lifecycle Config VectorStore ModelSettings ChatServices
begin

text \<open>
  The context of the service: \<open>internal/svc/servicecontext.go\<close>, with the bucket of
  \<open>internal/infrastructure/minio/bucket.go\<close>, the construction of the vector store
  (\<open>infrastructure/milvus/store.go\<close>) and of the agent client (\<open>infrastructure/agent/client.go\<close>), and the probes
  of \<open>rag.go\<close>. The client libraries are parameters; the log keeps which resources were opened and closed.
\<close>

section \<open>Resources\<close>

datatype resource =
    Pool nat | RedisClient nat | Transport nat | NatsConn nat | EmbedClient | MilvusClient | AgentClient

datatype resource_event = Opened resource | Closed resource

record 'w startup_world =
  st_ext :: 'w
  st_log :: "resource_event list"

type_synonym ('w, 'a) startup_act = "('w startup_world, 'a) prog"

definition log_event :: "resource_event \<Rightarrow> 'w startup_world \<Rightarrow> 'w startup_world" where
  "log_event ev w = w\<lparr>st_log := st_log w @ [ev]\<rparr>"

definition outside :: "('w, 'a) prog \<Rightarrow> ('w, 'a) startup_act" where
  "outside m w = (fst (m (st_ext w)), w\<lparr>st_ext := snd (m (st_ext w))\<rparr>)"

text \<open>A call that returns a resource: it is open if and only if the call succeeds.\<close>

definition holding :: "('a \<Rightarrow> resource) \<Rightarrow> ('w,
  'a) startup_act \<Rightarrow> ('w, 'a) startup_act" where
  "holding r m = attempt m (\<lambda>a w. (Inr a, log_event (Opened (r a)) w))"

text \<open>\<open>if err := m; err != nil { cleanup; return err }\<close>\<close>

definition or_close :: "('w \<Rightarrow> 'w) \<Rightarrow> ('w, 'a) prog \<Rightarrow> ('w, 'a) prog" where
  "or_close cleanup m w = (case m w of (Inl e, w') \<Rightarrow> (Inl e, cleanup w') | r \<Rightarrow> r)"

section \<open>The libraries\<close>

record pool_config =
  pl_data_source :: gostr
  pl_max_conns :: int
  pl_min_conns :: int
  pl_max_lifetime_minutes :: int
  pl_max_idle_minutes :: int
  pl_health_check_seconds :: int

text \<open>Time-outs in seconds.\<close>

record redis_options =
  ro_addr :: gostr
  ro_password :: gostr
  ro_db :: int
  ro_dial_timeout :: int
  ro_read_timeout :: int
  ro_write_timeout :: int
  ro_pool_timeout :: int

record nats_options =
  no_url :: gostr
  no_name :: string
  no_timeout :: int
  no_max_reconnects :: int
  no_reconnect_wait :: int
  no_drain_timeout :: int

record ('w, 's, 'e) infrastructure =
  if_parse_pool :: "gostr \<Rightarrow> gerr + pool_config"
  if_new_pool :: "pool_config \<Rightarrow> ('w, nat) prog"
  if_ping_pool :: "nat \<Rightarrow> ('w, unit) prog"
  if_database :: "nat \<Rightarrow> 'w \<Rightarrow> ('s, 'e) migration_world"
  if_put_database :: "nat \<Rightarrow> ('s, 'e) migration_world \<Rightarrow> 'w \<Rightarrow> 'w"
  if_server :: "('s, 'e) migration_server"
  if_scripts :: "'s migrations"
  if_new_redis :: "redis_options \<Rightarrow> 'w \<Rightarrow> nat \<times> 'w"
  if_ping_redis :: "nat \<Rightarrow> ('w, unit) prog"
  if_transport :: "bool \<Rightarrow> ('w, nat) prog"
  if_new_minio :: "minio_conf \<Rightarrow> nat \<Rightarrow> ('w, nat) prog"
  if_bucket_exists :: "nat \<Rightarrow> gostr \<Rightarrow> ('w, bool) prog"
  if_make_bucket :: "nat \<Rightarrow> gostr \<Rightarrow> ('w, unit) prog"
  if_connect_nats :: "nats_options \<Rightarrow> ('w, nat) prog"
  if_jetstream :: "nat \<Rightarrow> ('w, 'w jetstream) prog"
  if_settings :: "'w settings_services"
  if_vector_post :: "gostr \<Rightarrow> milvus_request \<Rightarrow> 'w \<Rightarrow> (gerr + milvus_reply) \<times> 'w"
  if_agent_get :: "gostr \<Rightarrow> ('w, agent_response) prog"
  if_agent_url_error :: "gostr \<Rightarrow> gerr option"
  if_connected :: "nat \<Rightarrow> 'w \<Rightarrow> bool"
  if_flush :: "nat \<Rightarrow> ('w, unit) prog"
  if_account :: "nat \<Rightarrow> ('w, unit) prog"
  if_drain :: "nat \<Rightarrow> ('w, unit) prog"
  if_close :: "resource \<Rightarrow> 'w \<Rightarrow> 'w"
  if_unicode :: unicode_tables

definition close_resource :: "('w, 's,
  'e) infrastructure \<Rightarrow> resource \<Rightarrow> 'w startup_world \<Rightarrow> 'w startup_world" where
  "close_resource ic r w = log_event (Closed r) (w\<lparr>st_ext := if_close ic r (st_ext w)\<rparr>)"

text \<open>What is not \<open>nil\<close> is closed, in this order.\<close>

fun close_each :: "('w, 's,
  'e) infrastructure \<Rightarrow> resource option list \<Rightarrow> 'w startup_world \<Rightarrow> 'w startup_world" where
  "close_each ic [] w = w"
| "close_each ic (None # rs) w = close_each ic rs w"
| "close_each ic (Some r # rs) w = close_each ic rs (close_resource ic r w)"

definition closeResources ::
    "('w, 's,
      'e) infrastructure \<Rightarrow> nat option \<Rightarrow> nat option \<Rightarrow> nat option \<Rightarrow> nat option \<Rightarrow> bool \<Rightarrow> bool \<Rightarrow>
     'w startup_world \<Rightarrow> 'w startup_world" where
  "closeResources ic db redisClient nc minioTransport embedder milvusStore =
     close_each ic
       [if milvusStore then Some MilvusClient else None, if embedder then Some EmbedClient else None,
        map_option Transport minioTransport, map_option NatsConn nc,
          map_option RedisClient redisClient, map_option Pool db]"

section \<open>The bucket, the vector store, the agent client\<close>

definition EnsureBucket :: "('w, 's,
  'e) infrastructure \<Rightarrow> nat \<Rightarrow> minio_conf \<Rightarrow> ('w, unit) prog" where
  "EnsureBucket ic client c =
     attempt (if_bucket_exists ic client (mc_bucket c)) (\<lambda>exists.
       if exists then return () else if_make_bucket ic client (mc_bucket c))"

definition optional_error :: "('w \<Rightarrow> gerr option \<times> 'w) \<Rightarrow> ('w, unit) prog" where
  "optional_error f w = (case f w of (None, w') \<Rightarrow> (Inr (), w') | (Some err,
    w') \<Rightarrow> (Inl err, w'))"

definition new_store :: "('w, 's,
  'e) infrastructure \<Rightarrow> milvus_conf \<Rightarrow> 'w milvus_store" where
  "new_store ic c =
     \<lparr>vs_collection = vc_collection c, vs_dimension = vc_dimension c,
      vs_post = if_vector_post ic (normalizeBaseURL (vc_address c))\<rparr>"

definition NewStore :: "('w, 's,
  'e) infrastructure \<Rightarrow> milvus_conf \<Rightarrow> ('w, 'w milvus_store) startup_act" where
  "NewStore ic c =
     attempt (holding (\<lambda>_. MilvusClient) (return (new_store ic c))) (\<lambda>store.
     attempt (or_close (close_resource ic MilvusClient) (outside (optional_error (ensureCollection store)))) (\<lambda>_.
       return store))"

record agent_client =
  ag_base_url :: gostr
  ag_token :: gostr
  ag_timeout :: int

definition NewClient :: "agent_conf \<Rightarrow> agent_client" where
  "NewClient c = \<lparr>ag_base_url = TrimRightSlash (as_url c), ag_token = as_token c,
    ag_timeout = as_timeout c\<rparr>"

definition agent_Ready :: "('w, 's,
  'e) infrastructure \<Rightarrow> agent_client \<Rightarrow> ('w, unit) prog" where
  "agent_Ready ic c =
     (case if_agent_url_error ic (ag_base_url c @ lit ''/ready'') of
        Some err \<Rightarrow> fail (Wrapped (lit ''create agent readiness request'') err)
      | None \<Rightarrow>
          attempt (wrap_error (lit ''check agent readiness'') (if_agent_get ic (ag_base_url c @ lit ''/ready''))) (\<lambda>response.
            wrap_error (lit ''check agent readiness'') (accepted response)))"

section \<open>The service context\<close>

record ('r, 'w) service_context =
  sx_config :: "'r config"
  sx_db :: nat
  sx_redis :: nat
  sx_minio :: nat
  sx_transport :: nat
  sx_nats :: nat
  sx_jetstream :: "'w jetstream"
  sx_embedder :: embed_conf
  sx_store :: "'w milvus_store"
  sx_agent :: agent_client
  sx_settings :: model_service
  sx_metrics :: bool

definition pool_settings :: "postgres_conf \<Rightarrow> pool_config \<Rightarrow> pool_config" where
  "pool_settings c p =
     p\<lparr>pl_max_conns := pc_max_conns c, pl_min_conns := pc_min_conns c,
       pl_max_lifetime_minutes := pc_max_lifetime_minutes c, pl_max_idle_minutes := pc_max_idle_minutes c,
       pl_health_check_seconds := pc_health_check_seconds c\<rparr>"

definition redis_settings :: "redis_conf \<Rightarrow> redis_options" where
  "redis_settings c =
     \<lparr>ro_addr = rc_host c, ro_password = rc_password c, ro_db = rc_db c,
       ro_dial_timeout = 5, ro_read_timeout = 2,
      ro_write_timeout = 2, ro_pool_timeout = 3\<rparr>"

definition nats_settings :: "'r config \<Rightarrow> nats_options" where
  "nats_settings c =
     \<lparr>no_url = cf_nats_url c, no_name = ''enterprise-rag-api'', no_timeout = 5, no_max_reconnects = -1,
      no_reconnect_wait = 2, no_drain_timeout = wk_shutdown_timeout (cf_worker c)\<rparr>"

text \<open>The migrations run on the database behind the new pool.\<close>

definition migrate :: "('w, 's, 'e) infrastructure \<Rightarrow> nat \<Rightarrow> ('w, unit) prog" where
  "migrate ic db w =
     (case RunMigrations (if_server ic) (if_scripts ic) (if_database ic db w) of
        (r, m) \<Rightarrow> (r, if_put_database ic db m w))"

definition open_database :: "('w, 's,
  'e) infrastructure \<Rightarrow> postgres_conf \<Rightarrow> ('w, nat) startup_act" where
  "open_database ic c =
     attempt (wrap_error (lit ''parse postgres configuration'') (lift_result (if_parse_pool ic (pc_data_source c)))) (\<lambda>parsed.
     attempt (wrap_error (lit ''connect postgres'')
       (holding Pool (outside (if_new_pool ic (pool_settings c parsed))))) (\<lambda>db.
     attempt (or_close (close_resource ic (Pool db)) (wrap_error (lit ''ping postgres'') (outside (if_ping_pool ic db)))) (\<lambda>_.
     attempt (or_close (close_resource ic (Pool db)) (wrap_error (lit ''run postgres migrations'') (outside (migrate ic db)))) (\<lambda>_.
       return db))))"

definition open_redis :: "('w, 's,
  'e) infrastructure \<Rightarrow> redis_conf \<Rightarrow> nat \<Rightarrow> ('w, nat) startup_act" where
  "open_redis ic c db =
     attempt (holding RedisClient (outside (\<lambda>w. let (h,
       w') = if_new_redis ic (redis_settings c) w in (Inr h, w')))) (\<lambda>rd.
     attempt (or_close (\<lambda>w. close_resource ic (Pool db) (close_resource ic (RedisClient rd) w))
       (wrap_error (lit ''connect redis'') (outside (if_ping_redis ic rd)))) (\<lambda>_.
       return rd))"

definition open_minio :: "('w, 's,
  'e) infrastructure \<Rightarrow> minio_conf \<Rightarrow> nat \<Rightarrow> nat \<Rightarrow> ('w, nat \<times> nat) startup_act" where
  "open_minio ic c db rd =
     attempt (or_close (closeResources ic (Some db) (Some rd) None None False False)
       (wrap_error (lit ''create minio transport'') (holding Transport (outside (if_transport ic (mc_use_ssl c)))))) (\<lambda>tr.
     attempt (or_close (closeResources ic (Some db) (Some rd) None (Some tr) False False)
       (wrap_error (lit ''create minio client'') (outside (if_new_minio ic c tr)))) (\<lambda>client.
     attempt (or_close (closeResources ic (Some db) (Some rd) None (Some tr) False False)
       (wrap_error (lit ''initialize minio'') (outside (EnsureBucket ic client c)))) (\<lambda>_.
       return (tr, client))))"

definition open_nats ::
    "('w, 's,
      'e) infrastructure \<Rightarrow> 'r config \<Rightarrow> nat \<Rightarrow> nat \<Rightarrow> nat \<Rightarrow> ('w, nat \<times> 'w jetstream) startup_act" where
  "open_nats ic c db rd tr =
     attempt (or_close (closeResources ic (Some db) (Some rd) None (Some tr) False False)
       (wrap_error (lit ''connect nats'') (holding NatsConn (outside (if_connect_nats ic (nats_settings c)))))) (\<lambda>nc.
     attempt (or_close (closeResources ic (Some db) (Some rd) (Some nc) (Some tr) False False)
       (wrap_error (lit ''initialize NATS JetStream'') (outside (if_jetstream ic nc)))) (\<lambda>js.
     attempt (or_close (closeResources ic (Some db) (Some rd) (Some nc) (Some tr) False False)
       (outside (EnsureStream js))) (\<lambda>_.
       return (nc, js))))"

definition open_models ::
    "('w, 's,
      'e) infrastructure \<Rightarrow> 'r config \<Rightarrow> nat \<Rightarrow> nat \<Rightarrow> nat \<Rightarrow> nat \<Rightarrow>
     ('w, model_service \<times> embed_conf \<times> 'w milvus_store) startup_act" where
  "open_models ic c db rd tr nc =
     attempt (or_close (closeResources ic (Some db) (Some rd) (Some nc) (Some tr) False False)
       (wrap_error (lit ''initialize model settings'')
         (lift_result (modelsettings_NewService (if_settings ic) (cf_embedding c) (au_secret (cf_auth c)))))) (\<lambda>settings.
     attempt (or_close (closeResources ic (Some db) (Some rd) (Some nc) (Some tr) False False)
       (wrap_error (lit ''initialize embedder'')
         (holding (\<lambda>_. EmbedClient) (lift_result (NewEmbedder (if_unicode ic) (cf_embedding c) True))))) (\<lambda>embedder.
     attempt (or_close (closeResources ic (Some db) (Some rd) (Some nc) (Some tr) True False)
       (wrap_error (lit ''initialize milvus store'') (NewStore ic (cf_milvus c)))) (\<lambda>store.
       return (settings, embedder, store))))"

definition NewServiceContext :: "('w, 's,
  'e) infrastructure \<Rightarrow> 'r config \<Rightarrow> ('w, ('r, 'w) service_context) startup_act" where
  "NewServiceContext ic c =
     attempt (open_database ic (cf_postgres c)) (\<lambda>db.
     attempt (open_redis ic (cf_redis c) db) (\<lambda>rd.
     attempt (open_minio ic (cf_minio c) db rd) (\<lambda>(tr, client).
     attempt (open_nats ic c db rd tr) (\<lambda>(nc, js).
     attempt (open_models ic c db rd tr nc) (\<lambda>(settings, embedder, store).
     attempt (holding (\<lambda>_. AgentClient) (return (NewClient (cf_agent c)))) (\<lambda>agent.
       return \<lparr>sx_config = c, sx_db = db, sx_redis = rd, sx_minio = client,
         sx_transport = tr, sx_nats = nc,
         sx_jetstream = js, sx_embedder = embedder, sx_store = store, sx_agent = agent,
           sx_settings = settings,
         sx_metrics = me_enabled (cf_metrics c)\<rparr>))))))"

section \<open>Closing and probing\<close>

text \<open>A connection that was drained is closed by the library.\<close>

definition close_nats :: "('w, 's,
  'e) infrastructure \<Rightarrow> nat \<Rightarrow> 'w startup_world \<Rightarrow> 'w startup_world" where
  "close_nats ic nc w =
     (case outside (if_drain ic nc) w of
        (Inl _, w') \<Rightarrow> close_resource ic (NatsConn nc) w'
      | (Inr _, w') \<Rightarrow> log_event (Closed (NatsConn nc)) w')"

definition context_Close ::
    "('w, 's, 'e) infrastructure \<Rightarrow> ('r,
      'w) service_context \<Rightarrow> 'w startup_world \<Rightarrow> 'w startup_world" where
  "context_Close ic s w =
     close_each ic [Some MilvusClient, Some EmbedClient, Some (Transport (sx_transport s)),
       Some (RedisClient (sx_redis s)),
         Some (Pool (sx_db s))]
       (close_nats ic (sx_nats s) (close_resource ic AgentClient w))"

definition Ready :: "('w, 's, 'e) infrastructure \<Rightarrow> ('r,
  'w) service_context \<Rightarrow> ('w, unit) prog" where
  "Ready ic s =
     attempt (wrap_error (lit ''postgres'') (if_ping_pool ic (sx_db s))) (\<lambda>_.
     attempt (wrap_error (lit ''redis'') (if_ping_redis ic (sx_redis s))) (\<lambda>_.
     attempt (\<lambda>w. if if_connected ic (sx_nats s) w then (Inr (), w)
       else (Inl (Plain (lit ''nats: connection is not ready'')), w)) (\<lambda>_.
     attempt (wrap_error (lit ''nats'') (if_flush ic (sx_nats s))) (\<lambda>_.
     attempt (wrap_error (lit ''nats JetStream'') (if_account ic (sx_nats s))) (\<lambda>_.
     attempt (wrap_error (lit ''minio'') (if_bucket_exists ic (sx_minio s) (mc_bucket (cf_minio (sx_config s))))) (\<lambda>exists.
       if \<not> exists then
         fail (Plain (lit ''minio: bucket '' @ quoted (mc_bucket (cf_minio (sx_config s))) @ lit '' does not exist''))
       else
         attempt (wrap_error (lit ''milvus'') (optional_error (milvus_Ready (sx_store s)))) (\<lambda>_.
           wrap_error (lit ''agent'') (agent_Ready ic (sx_agent s)))))))))"

definition healthz :: "int \<times> gostr" where
  "healthz = (200, lit ''{\"status\":\"ok\"}'')"

definition readyz :: "('w, 's, 'e) infrastructure \<Rightarrow> ('r,
  'w) service_context \<Rightarrow> 'w \<Rightarrow> (int \<times> gostr) \<times> 'w" where
  "readyz ic s w =
     (case Ready ic s w of
        (Inl _, w') \<Rightarrow> ((503, lit ''{\"status\":\"not_ready\"}''), w')
      | (Inr _, w') \<Rightarrow> ((200, lit ''{\"status\":\"ready\"}''), w'))"

end
