(* ===== verification/MigratorProperties.thy ===== *)
theory MigratorProperties
  imports Migrator
begin

text \<open>
  Every migration is applied once, in the order of the names and together with its record, whatever
  fails; and a pool of one connection cannot migrate.
\<close>

definition versions_of :: "'s schema \<Rightarrow> gostr list" where
  "versions_of s = (case sm_versions s of None \<Rightarrow> [] | Some vs \<Rightarrow> vs)"

text \<open>The files that are still to be applied, and what they make of the schema.\<close>

fun pending :: "gostr list \<Rightarrow> gostr list \<Rightarrow> gostr list" where
  "pending vs [] = []"
| "pending vs (f # fs) = (if f \<in> set vs then pending vs fs else f # pending (vs @ [f]) fs)"

fun run_scripts :: "'s migrations \<Rightarrow> gostr list \<Rightarrow> 's \<Rightarrow> 's option" where
  "run_scripts mi [] s = Some s"
| "run_scripts mi (f # fs) s =
     (case mi_content mi f of Inl _ \<Rightarrow> None
      | Inr sql \<Rightarrow> (case mi_apply mi sql s of Inl _ \<Rightarrow> None | Inr s' \<Rightarrow> run_scripts mi fs s'))"

definition migrated :: "'s migrations \<Rightarrow> gostr list \<Rightarrow> nat \<Rightarrow> 's schema \<Rightarrow> 's schema \<Rightarrow> bool" where
  "migrated mi files k s s' \<longleftrightarrow>
     k \<le> length (pending (versions_of s) files) \<and>
     versions_of s' = versions_of s @ take k (pending (versions_of s) files) \<and>
     run_scripts mi (take k (pending (versions_of s) files)) (sm_objects s) = Some (sm_objects s')"

lemma migrated_0 [simp]: "migrated mi files 0 s s"
  by (simp add: migrated_def)

lemma migrated_same: "versions_of s' = versions_of s \<Longrightarrow> sm_objects s' = sm_objects s \<Longrightarrow> migrated mi files 0 s s'"
  by (simp add: migrated_def)

text \<open>Calls that change neither the schema nor the pool.\<close>

definition calm :: "('s, 'e) migration_world \<Rightarrow> ('s, 'e) migration_world \<Rightarrow> bool" where
  "calm w w' \<longleftrightarrow> mw_schema w' = mw_schema w \<and> mw_free w' = mw_free w"

lemma calm_refl [simp]: "calm w w"
  by (simp add: calm_def)

lemma reach_calm: "reach ms w = (r, w') \<Longrightarrow> calm w w'"
  by (auto simp: reach_def calm_def split: prod.splits option.splits)

lemma reach_then:
  assumes "attempt (reach ms) (\<lambda>_. m) w = (r, w')"
  obtains (refused) err where "r = Inl err" and "calm w w'"
    | (reached) w1 where "calm w w1" and "m w1 = (r, w')"
  using assms reach_calm [of ms w] by (auto simp: attempt_def split: prod.splits sum.splits)

lemma on_pool_cases:
  assumes "on_pool ms m w = (r, w')"
  obtains (refused) err where "r = Inl err" and "calm w w'"
    | (reached) w1 where "calm w w1" and "mw_free w > 0" and "m w1 = (r, w')"
  using assms by (auto simp: on_pool_def split: if_splits elim: reach_then)

lemma migrationApplied_cases:
  assumes "migrationApplied ms f w = (r, w')"
  shows "calm w w' \<and> (\<forall>b. r = Inr b \<longrightarrow> (\<exists>vs. sm_versions (mw_schema w) = Some vs \<and> b = (f \<in> set vs)))"
  using assms unfolding migrationApplied_def
  by (elim on_pool_cases) (auto simp: calm_def split: option.splits)

lemma wrap_error_cases:
  assumes "wrap_error p m w = (r, w')"
  obtains (ok) x where "r = Inr x" and "m w = (Inr x, w')"
    | (err) e where "r = Inl (Wrapped p e)" and "m w = (Inl e, w')"
  using assms by (auto simp: wrap_error_def split: prod.splits sum.splits)

lemma exec_script_cases:
  assumes "exec_script ms mi sql s w = (r, w')"
  shows "calm w w' \<and> (\<forall>s'. r = Inr s' \<longrightarrow> (\<exists>ob. mi_apply mi sql (sm_objects s) = Inr ob \<and> s' = s\<lparr>sm_objects := ob\<rparr>))"
  using assms unfolding exec_script_def by (elim reach_then) (auto split: sum.splits)

lemma insert_version_cases:
  assumes "insert_version ms f s w = (r, w')"
  shows "calm w w' \<and> (\<forall>s'. r = Inr s' \<longrightarrow>
    (\<exists>vs. sm_versions s = Some vs \<and> f \<notin> set vs \<and> s' = s\<lparr>sm_versions := Some (vs @ [f])\<rparr>))"
  using assms unfolding insert_version_def by (elim reach_then) (auto split: option.splits if_splits)

lemma attempt_cases:
  assumes "attempt m k w = (r, w')"
  obtains (stop) e where "m w = (Inl e, w')" and "r = Inl e"
    | (go) x w1 where "m w = (Inr x, w1)" and "k x w1 = (r, w')"
  using assms by (auto simp: attempt_def split: prod.splits sum.splits)

lemma commit_schema_cases:
  assumes "commit_schema ms s w = (r, w')"
  shows "mw_free w' = mw_free w \<and> (mw_schema w' = s \<or> mw_schema w' = mw_schema w \<and> r \<noteq> Inr ())"
  using assms by (auto simp: commit_schema_def split: prod.splits pg_fault.splits)

text \<open>One migration is applied and recorded, or neither.\<close>

lemma apply_migration_cases:
  assumes "apply_migration ms mi f sql w = (r, w')"
  shows "mw_free w' = mw_free w \<and>
    ((\<exists>ob vs. mi_apply mi sql (sm_objects (mw_schema w)) = Inr ob \<and> sm_versions (mw_schema w) = Some vs \<and> f \<notin> set vs \<and>
        mw_schema w' = (mw_schema w)\<lparr>sm_objects := ob, sm_versions := Some (vs @ [f])\<rparr>) \<or>
     mw_schema w' = mw_schema w \<and> r \<noteq> Inr ())"
  using assms unfolding apply_migration_def
proof (elim attempt_cases)
  fix e assume "on_pool ms (\<lambda>w. (Inr (mw_schema w), w)) w = (Inl e, w')" and "r = Inl e"
  then show ?thesis by (elim on_pool_cases) (auto simp: calm_def)
next
  fix s w1 e
  assume 1: "on_pool ms (\<lambda>w. (Inr (mw_schema w), w)) w = (Inr s, w1)"
    and 2: "wrap_error (lit ''apply migration '' @ f) (exec_script ms mi sql s) w1 = (Inl e,
      w')" and "r = Inl e"
  then show ?thesis by (elim on_pool_cases wrap_error_cases) (auto simp: calm_def dest!: exec_script_cases)
next
  fix s w1 s1 w2 e
  assume 1: "on_pool ms (\<lambda>w. (Inr (mw_schema w), w)) w = (Inr s, w1)"
    and 2: "wrap_error (lit ''apply migration '' @ f) (exec_script ms mi sql s) w1 = (Inr s1, w2)"
    and 3: "wrap_error (lit ''record migration '' @ f) (insert_version ms f s1) w2 = (Inl e,
      w')" and r: "r = Inl e"
  from 1 have "calm w w1" by (elim on_pool_cases) (auto simp: calm_def)
  moreover from 2 have "calm w1 w2" by (auto dest: exec_script_cases)
  moreover from 3 have "calm w2 w'" by (elim wrap_error_cases) (auto dest: insert_version_cases)
  ultimately show ?thesis using r by (auto simp: calm_def)
next
  fix s w1 s1 w2 s2 w3
  assume 1: "on_pool ms (\<lambda>w. (Inr (mw_schema w), w)) w = (Inr s, w1)"
    and 2: "wrap_error (lit ''apply migration '' @ f) (exec_script ms mi sql s) w1 = (Inr s1, w2)"
    and 3: "wrap_error (lit ''record migration '' @ f) (insert_version ms f s1) w2 = (Inr s2, w3)"
    and 4: "wrap_error (lit ''commit migration '' @ f) (commit_schema ms s2) w3 = (r, w')"
  from 1 have s: "s = mw_schema w" "calm w w1" by (elim on_pool_cases; auto simp: calm_def)+
  from 2 obtain ob where s1: "mi_apply mi sql (sm_objects s) = Inr ob" "s1 = s\<lparr>sm_objects := ob\<rparr>" "calm w1 w2"
    by (auto dest: exec_script_cases)
  from 3 obtain vs where s2: "sm_versions s1 = Some vs" "f \<notin> set vs" "s2 = s1\<lparr>sm_versions := Some (vs @ [f])\<rparr>" "calm w2 w3"
    by (auto dest: insert_version_cases)
  from 4 have "mw_free w' = mw_free w3 \<and> (mw_schema w' = s2 \<or> mw_schema w' = mw_schema w3 \<and> r \<noteq> Inr ())"
    by (elim wrap_error_cases) (auto dest: commit_schema_cases)
  with s s1 s2 show ?thesis by (auto simp: calm_def)
qed

lemma pending_done: "pending (vs @ pending vs fs) fs = []"
proof (induction vs fs rule: pending.induct)
  case (2 vs f fs)
  then show ?case by (cases "f \<in> set vs") simp_all
qed simp

lemma apply_migrations_cases:
  "apply_migrations ms mi files w = (r, w') \<Longrightarrow>
     mw_free w' = mw_free w \<and>
     (\<exists>k. migrated mi files k (mw_schema w) (mw_schema w') \<and>
        (r = Inr () \<longrightarrow> k = length (pending (versions_of (mw_schema w)) files)))"
proof (induction files arbitrary: w)
  case Nil
  then show ?case by (auto simp: return_def migrated_def)
next
  case (Cons f files)
  from Cons.prems show ?case unfolding apply_migrations.simps
  proof (cases rule: attempt_cases)
    case (stop e)
    with migrationApplied_cases [of ms f w] show ?thesis
      by (intro conjI exI [of _ 0]) (auto simp: calm_def)
  next
    case (go applied w1)
    from migrationApplied_cases [OF go(1)] obtain vs where vs: "sm_versions (mw_schema w) = Some vs" "applied = (f \<in> set vs)"
      and w1: "mw_schema w1 = mw_schema w" "mw_free w1 = mw_free w" by (auto simp: calm_def)
    show ?thesis
    proof (cases applied)
      case True
      with go(2) have "apply_migrations ms mi files w1 = (r, w')" by simp
      from Cons.IH [OF this] w1 vs True show ?thesis by (auto simp: migrated_def versions_of_def)
    next
      case False
      show ?thesis
      proof (cases "mi_content mi f")
        case (Inl e)
        with go(2) False w1 show ?thesis by (intro conjI exI [of _ 0]) (auto simp: fail_def)
      next
        case (Inr sql)
        with go(2) False have "attempt (apply_migration ms mi f sql) (\<lambda>_. apply_migrations ms mi files) w1 = (r, w')" by simp
        then show ?thesis
        proof (cases rule: attempt_cases)
          case (stop e)
          from apply_migration_cases [OF stop(1)] show ?thesis
          proof (elim conjE disjE exE)
            fix ob vs'
            assume ob: "mi_apply mi sql (sm_objects (mw_schema w1)) = Inr ob" "sm_versions (mw_schema w1) = Some vs'" "f \<notin> set vs'"
              "mw_schema w' = (mw_schema w1)\<lparr>sm_objects := ob,
                sm_versions := Some (vs' @ [f])\<rparr>" "mw_free w' = mw_free w1"
            with w1 vs Inr stop(2) show ?thesis
              by (intro conjI exI [of _ 1]) (auto simp: migrated_def versions_of_def)
          next
            assume "mw_schema w' = mw_schema w1" "mw_free w' = mw_free w1"
            with w1 stop(2) show ?thesis by (intro conjI exI [of _ 0]) auto
          qed
        next
          case inner: (go u w2)
          from apply_migration_cases [OF inner(1)] obtain ob where
            ob: "mi_apply mi sql (sm_objects (mw_schema w)) = Inr ob" "f \<notin> set vs" and
            w2: "mw_schema w2 = (mw_schema w)\<lparr>sm_objects := ob,
              sm_versions := Some (vs @ [f])\<rparr>" "mw_free w2 = mw_free w"
            using w1 vs by auto
          from Cons.IH [OF inner(2)] obtain k where k: "migrated mi files k (mw_schema w2) (mw_schema w')"
            "r = Inr () \<longrightarrow> k = length (pending (versions_of (mw_schema w2)) files)" "mw_free w' = mw_free w2" by auto
          with w2 vs ob Inr show ?thesis
            by (intro conjI exI [of _ "Suc k"]) (auto simp: migrated_def versions_of_def)
        qed
      qed
    qed
  qed
qed

section \<open>The whole run\<close>

lemma locked_migrations_cases:
  assumes "locked_migrations ms mi w = (r, w')"
  shows "mw_free w' = mw_free w \<and>
    (\<exists>k. migrated mi (migration_files (mi_entries mi)) k (mw_schema w) (mw_schema w') \<and>
      (r = Inr () \<longrightarrow> k = length (pending (versions_of (mw_schema w)) (migration_files (mi_entries mi)))))"
  using assms unfolding locked_migrations_def
proof (cases rule: attempt_cases)
  case (stop e)
  then have "mw_free w' = mw_free w" "versions_of (mw_schema w') = versions_of (mw_schema w)"
    "sm_objects (mw_schema w') = sm_objects (mw_schema w)"
    unfolding create_table_def by (elim on_pool_cases; auto simp: calm_def)+
  with stop(2) show ?thesis by (intro conjI exI [of _ 0]) (auto intro: migrated_same)
next
  case (go u w1)
  then have same: "mw_free w1 = mw_free w" "versions_of (mw_schema w1) = versions_of (mw_schema w)"
    "sm_objects (mw_schema w1) = sm_objects (mw_schema w)"
    unfolding create_table_def by (elim on_pool_cases; auto simp: calm_def versions_of_def split: option.splits)+
  with apply_migrations_cases [OF go(2)] show ?thesis by (simp add: migrated_def)
qed

lemma advisory_unlock_calm: "calm w (advisory_unlock ms w)"
proof -
  obtain r w' where a: "attempt (reach ms) (\<lambda>_ w. (Inr (),
    w\<lparr>mw_locked := False\<rparr>)) w = (r, w')"
    by (cases "attempt (reach ms) (\<lambda>_ w. (Inr (), w\<lparr>mw_locked := False\<rparr>)) w")
  then have "calm w w'" by (elim reach_then) (auto simp: calm_def)
  with a show ?thesis by (simp add: advisory_unlock_def)
qed

lemma acquire_cases:
  assumes "acquire ms w = (r, w')"
  shows "mw_schema w' = mw_schema w \<and> (if r = Inr () then mw_free w = Suc (mw_free w') else mw_free w' = mw_free w)"
  using assms unfolding acquire_def by (elim on_pool_cases) (auto simp: calm_def)

lemma advisory_lock_cases:
  assumes "advisory_lock ms w = (r, w')"
  shows "mw_free w' = mw_free w \<and>
    (if r = Inr () then \<exists>e. mw_schema w' = ms_wait ms e (mw_schema w) else mw_schema w' = mw_schema w)"
  using assms unfolding advisory_lock_def by (elim reach_then) (auto simp: calm_def)

lemma deferring_cases:
  assumes "deferring cleanup m w = (r, w')"
  obtains w1 where "m w = (r, w1)" and "w' = cleanup w1"
  using assms by (auto simp: deferring_def split: prod.splits)

text \<open>C36 Whatever calls fail, migrating applies a first part of the files that are not recorded in the
  schema that the lock was granted on, in the order of their names, each script together with its record;
  it applies all of them when it returns without an error, after which nothing is left to apply; and it
  gives its connection back.
\<close>

theorem migrations_run_once_in_order:
  assumes "RunMigrations ms mi w = (r, w')"
  shows "mw_free w' = mw_free w \<and>
    (\<exists>s0 k. (s0 = mw_schema w \<or> (\<exists>e. s0 = ms_wait ms e (mw_schema w))) \<and>
       migrated mi (migration_files (mi_entries mi)) k s0 (mw_schema w') \<and>
       (r = Inr () \<longrightarrow> pending (versions_of (mw_schema w')) (migration_files (mi_entries mi)) = []))"
  using assms unfolding RunMigrations_def
proof (cases rule: attempt_cases)
  case (stop e)
  then have "mw_schema w' = mw_schema w \<and> mw_free w' = mw_free w"
    by (elim wrap_error_cases) (auto dest: acquire_cases)
  with stop(2) show ?thesis by (intro conjI exI [of _ "mw_schema w"] exI [of _ 0]) auto
next
  case (go u w1)
  then have w1: "mw_schema w1 = mw_schema w" "mw_free w = Suc (mw_free w1)" by (auto dest!: acquire_cases)
  from go(2) obtain w2 where 2: "attempt (wrap_error (lit ''lock migrations'') (advisory_lock ms)) (\<lambda>_.
      deferring (advisory_unlock ms) (locked_migrations ms mi)) w1 = (r, w2)" and w': "w' = release w2"
    by (rule deferring_cases)
  from 2 show ?thesis
  proof (cases rule: attempt_cases)
    case (stop e)
    then have "mw_schema w2 = mw_schema w1 \<and> mw_free w2 = mw_free w1"
      by (elim wrap_error_cases) (auto dest: advisory_lock_cases)
    with stop(2) w1 w' show ?thesis
      by (intro conjI exI [of _ "mw_schema w"] exI [of _ 0]) (auto simp: release_def)
  next
    case lock: (go v w3)
    then obtain e where w3: "mw_schema w3 = ms_wait ms e (mw_schema w1)" "mw_free w3 = mw_free w1"
      by (auto dest!: advisory_lock_cases)
    from lock(2) obtain w4 where 4: "locked_migrations ms mi w3 = (r,
      w4)" and w2: "w2 = advisory_unlock ms w4"
      by (rule deferring_cases)
    have same: "mw_schema w' = mw_schema w4" "mw_free w' = Suc (mw_free w4)"
      using advisory_unlock_calm [of w4 ms] by (simp_all add: w' w2 release_def calm_def)
    let ?files = "migration_files (mi_entries mi)"
    from locked_migrations_cases [OF 4] obtain k where k: "migrated mi ?files k (mw_schema w3) (mw_schema w4)"
      "r = Inr () \<longrightarrow> k = length (pending (versions_of (mw_schema w3)) ?files)" "mw_free w4 = mw_free w3" by auto
    have "pending (versions_of (mw_schema w4)) ?files = []" if "r = Inr ()"
      using k(1,2) that by (simp add: migrated_def pending_done)
    with k same w3 w1 show ?thesis
      by (intro conjI exI [of _ "mw_schema w3"] exI [of _ k]) auto
  qed
qed

section \<open>A small database\<close>

text \<open>Two scripts,
  of which another instance has applied the first while this one waited for the lock.\<close>

definition scripts1 :: "gostr list migrations" where
  "scripts1 =
     \<lparr>mi_entries = [(lit ''000002_b.up.sql'', False), (lit ''000001_a.up.sql'', False),
       (lit ''readme.md'', False), (lit ''old'', True)],
      mi_content = (\<lambda>f. Inr (take 6 f)), mi_apply = (\<lambda>sql s. Inr (s @ [sql]))\<rparr>"

definition server1 :: "(gostr list, nat) migration_server" where
  "server1 = \<lparr>ms_fault = (\<lambda>e. (None, Suc e)), ms_commit = (\<lambda>e. (Executed, Suc e)),
     ms_wait = (\<lambda>e s. \<lparr>sm_objects = [lit ''000001''],
       sm_versions = Some [lit ''000001_a.up.sql'']\<rparr>),
     ms_timeout = Sentinel ContextDeadline\<rparr>"

definition database1 :: "nat \<Rightarrow> (gostr list, nat) migration_world" where
  "database1 n = \<lparr>mw_schema = \<lparr>sm_objects = [], sm_versions = None\<rparr>,
    mw_free = n, mw_locked = False, mw_server = 0\<rparr>"

definition migrated1 :: "(gostr list, nat) migration_world" where
  "migrated1 = snd (RunMigrations server1 scripts1 (database1 2))"

lemma migrations_run_once_in_order_witness:
  "mw_free migrated1 = 2 \<and> sm_objects (mw_schema migrated1) = [lit ''000001'', lit ''000002''] \<and>
   pending (versions_of (mw_schema migrated1)) (migration_files (mi_entries scripts1)) = []"
proof -
  have "fst (RunMigrations server1 scripts1 (database1 2)) = Inr ()" by code_simp
  then have run: "RunMigrations server1 scripts1 (database1 2) = (Inr (), migrated1)"
    by (simp add: migrated1_def prod_eq_iff)
  have "sm_objects (mw_schema migrated1) = [lit ''000001'', lit ''000002'']" by code_simp
  moreover have "mw_free (database1 2) = 2" by (simp add: database1_def)
  ultimately show ?thesis using migrations_run_once_in_order [OF run] by auto
qed

section \<open>A pool of one connection\<close>

text \<open>
  The connection that holds the lock is kept while the other calls ask the pool for one of theirs, so a
  pool of one connection, which the check of the configuration admits, never migrates.
\<close>

theorem one_connection_cannot_migrate:
  "mw_free w \<le> 1 \<Longrightarrow> \<exists>err. fst (RunMigrations ms mi w) = Inl err"
proof -
  assume free: "mw_free w \<le> 1"
  obtain r w' where run: "RunMigrations ms mi w = (r, w')" by (cases "RunMigrations ms mi w")
  then have "\<exists>err. r = Inl err" unfolding RunMigrations_def
  proof (cases rule: attempt_cases)
    case (stop e)
    then show ?thesis by simp
  next
    case (go u w1)
    then have w1: "mw_free w1 = 0" using free by (auto dest!: acquire_cases)
    from go(2) obtain w2 where 2: "attempt (wrap_error (lit ''lock migrations'') (advisory_lock ms)) (\<lambda>_.
        deferring (advisory_unlock ms) (locked_migrations ms mi)) w1 = (r, w2)" by (rule deferring_cases)
    from 2 show ?thesis
    proof (cases rule: attempt_cases)
      case lock: (go v w3)
      then have "mw_free w3 = 0" using w1 by (auto dest!: advisory_lock_cases)
      then have "locked_migrations ms mi w3 = (Inl (ms_timeout ms), w3)"
        by (simp add: locked_migrations_def create_table_def on_pool_def attempt_def)
      with lock(2) show ?thesis by (auto elim: deferring_cases)
    qed simp
  qed
  with run show ?thesis by simp
qed

end
