(* ===== verification/StartupProperties.thy ===== *)
theory StartupProperties
  imports Startup MigratorProperties
begin

text \<open>
  Starting the service is all or nothing: what was opened before an error is closed, everything that a
  service holds is closed with it, and nothing is closed twice.
\<close>

text \<open>The resources that are open after the events of a log; \<open>None\<close> if one was closed that was not open.\<close>

fun still_open :: "resource list \<Rightarrow> resource_event list \<Rightarrow> resource list option" where
  "still_open rs [] = Some rs"
| "still_open rs (Opened r # es) = still_open (r # rs) es"
| "still_open rs (Closed r # es) = (if r \<in> set rs then still_open (remove1 r rs) es else None)"

lemma still_open_append:
  "still_open rs (es @ fs) = (case still_open rs es of None \<Rightarrow> None | Some rs' \<Rightarrow> still_open rs' fs)"
  by (induction rs es rule: still_open.induct) simp_all

definition held :: "'w startup_world \<Rightarrow> resource list option" where
  "held w = still_open [] (st_log w)"

lemma held_ext [simp]: "held (w\<lparr>st_ext := e\<rparr>) = held w"
  by (simp add: held_def)

lemma held_opened [simp]: "held (log_event (Opened r) w) = map_option (\<lambda>rs. r # rs) (held w)"
  by (simp add: held_def log_event_def still_open_append split: option.split)

lemma held_closed [simp]: "held w = Some rs \<Longrightarrow> r \<in> set rs \<Longrightarrow> held (log_event (Closed r) w) = Some (remove1 r rs)"
  by (simp add: held_def log_event_def still_open_append)

lemma held_close_resource [simp]:
  "held w = Some rs \<Longrightarrow> r \<in> set rs \<Longrightarrow> held (close_resource ic r w) = Some (remove1 r rs)"
  by (simp add: close_resource_def)

section \<open>The parts of a start\<close>

lemma held_outside [simp]: "held (snd (outside m w)) = held w"
  by (simp add: outside_def)

lemma held_wrap [simp]: "held (snd (wrap_error p m w)) = held (snd (m w))"
  by (simp add: wrap_error_def split: prod.split sum.split)

lemma held_lift [simp]: "held (snd (lift_result r w)) = held w"
  by (simp add: lift_result_def)

text \<open>
  A part of a start that begins with \<open>rs\<close> held: after an error nothing is held,
    after a success \<open>f\<close>
  of its result. Its steps call out with a cleanup for the error, or open one more resource.
\<close>

definition part_ok_from :: "resource list \<Rightarrow> ('a \<Rightarrow> resource list) \<Rightarrow> ('w, 'a) startup_act \<Rightarrow> bool" where
  "part_ok_from rs f m \<longleftrightarrow>
     (\<forall>w. held w = Some rs \<longrightarrow> held (snd (m w)) = Some (case fst (m w) of Inl _ \<Rightarrow> [] | Inr a \<Rightarrow> f a))"

definition silent :: "('w, 'a) startup_act \<Rightarrow> bool" where
  "silent m \<longleftrightarrow> (\<forall>w. held (snd (m w)) = held w)"

lemma silentD: "silent m \<Longrightarrow> m w = (r, w1) \<Longrightarrow> held w1 = held w"
  by (metis silent_def snd_conv)

lemma silent_outside: "silent (outside m)"
  by (simp add: silent_def)

lemma silent_lift: "silent (lift_result r)"
  by (simp add: silent_def)

lemma silent_wrap: "silent m \<Longrightarrow> silent (wrap_error p m)"
  by (simp add: silent_def)

lemma silent_return: "silent (return a)"
  by (simp add: silent_def return_def)

lemmas silent_intros = silent_outside silent_lift silent_wrap silent_return

definition cleans :: "resource list \<Rightarrow> ('w startup_world \<Rightarrow> 'w startup_world) \<Rightarrow> bool" where
  "cleans rs c \<longleftrightarrow> (\<forall>w. held w = Some rs \<longrightarrow> held (c w) = Some [])"

lemma part_return: "f a = rs \<Longrightarrow> part_ok_from rs f (return a)"
  by (simp add: part_ok_from_def return_def)

lemma part_call:
  fixes m :: "('w, 'a) startup_act"
  assumes "silent m" and "cleans rs c" and "\<And>a. part_ok_from rs g (k a)"
  shows "part_ok_from rs g (attempt (or_close c m) k)"
  unfolding part_ok_from_def
proof (intro allI impI)
  fix w :: "'w startup_world" assume w: "held w = Some rs"
  obtain r w1 where m: "m w = (r, w1)" by (cases "m w")
  with silentD [OF assms(1) m] w have "held w1 = Some rs" by simp
  with assms(2,3) m show "held (snd (attempt (or_close c m) k w)) =
      Some (case fst (attempt (or_close c m) k w) of Inl _ \<Rightarrow> [] | Inr a \<Rightarrow> g a)"
    by (cases r) (simp_all add: attempt_def or_close_def cleans_def part_ok_from_def)
qed

definition opens :: "('a \<Rightarrow> resource) \<Rightarrow> ('w, 'a) startup_act \<Rightarrow> bool" where
  "opens r m \<longleftrightarrow>
     (\<forall>w rs. held w = Some rs \<longrightarrow> held (snd (m w)) = Some (case fst (m w) of Inl _ \<Rightarrow> rs | Inr a \<Rightarrow> r a # rs))"

lemma opens_holding:
  fixes m :: "('w, 'a) startup_act"
  assumes q: "silent m"
  shows "opens r (holding r m)"
  unfolding opens_def
proof (intro allI impI)
  fix w :: "'w startup_world" and rs assume w: "held w = Some rs"
  obtain x w1 where m: "m w = (x, w1)" by (cases "m w")
  with silentD [OF q m] w have "held w1 = Some rs" by simp
  with m show "held (snd (holding r m w)) = Some (case fst (holding r m w) of Inl _ \<Rightarrow> rs | Inr a \<Rightarrow> r a # rs)"
    by (cases x) (simp_all add: holding_def attempt_def)
qed

lemma opens_wrap: "opens r m \<Longrightarrow> opens r (wrap_error p m)"
  by (auto simp: opens_def wrap_error_def split: prod.splits sum.splits) (metis fst_conv snd_conv sum.case)+

lemma part_open:
  fixes m :: "('w, 'a) startup_act"
  assumes "opens r m" and "cleans rs c" and "\<And>a. part_ok_from (r a # rs) g (k a)"
  shows "part_ok_from rs g (attempt (or_close c m) k)"
  unfolding part_ok_from_def
proof (intro allI impI)
  fix w :: "'w startup_world" assume w: "held w = Some rs"
  obtain x w1 where m: "m w = (x, w1)" by (cases "m w")
  with assms(1) w have "held w1 = Some (case x of Inl _ \<Rightarrow> rs | Inr a \<Rightarrow> r a # rs)"
    unfolding opens_def by (metis fst_conv snd_conv)
  with assms(2,3) m show "held (snd (attempt (or_close c m) k w)) =
      Some (case fst (attempt (or_close c m) k w) of Inl _ \<Rightarrow> [] | Inr a \<Rightarrow> g a)"
    by (cases x) (simp_all add: attempt_def or_close_def cleans_def part_ok_from_def)
qed

lemma part_open_first:
  assumes "opens r m" and "\<And>a. part_ok_from [r a] g (k a)"
  shows "part_ok_from [] g (attempt m k)"
proof -
  have "or_close (\<lambda>w. w) m = m" by (auto simp: or_close_def fun_eq_iff split: prod.split sum.split)
  moreover have "cleans [] (\<lambda>w. w)" by (simp add: cleans_def)
  ultimately show ?thesis using part_open [of r m "[]" "\<lambda>w. w" g k] assms by simp
qed

lemma part_call_first:
  assumes "silent m" and "\<And>a. part_ok_from [] g (k a)"
  shows "part_ok_from [] g (attempt m k)"
proof -
  have "or_close (\<lambda>w. w) m = m" by (auto simp: or_close_def fun_eq_iff split: prod.split sum.split)
  moreover have "cleans [] (\<lambda>w. w)" by (simp add: cleans_def)
  ultimately show ?thesis using part_call [of m "[]" "\<lambda>w. w" g k] assms by simp
qed

text \<open>A constructor that returns no error.\<close>

lemma part_open_sure:
  fixes m :: "('w, 'a) startup_act"
  assumes "silent m" and "\<And>w. \<exists>a. fst (m w) = Inr a" and "\<And>a. part_ok_from (r a # rs) g (k a)"
  shows "part_ok_from rs g (attempt (holding r m) k)"
  unfolding part_ok_from_def
proof (intro allI impI)
  fix w :: "'w startup_world" assume w: "held w = Some rs"
  obtain a w1 where m: "m w = (Inr a, w1)" using assms(2) [of w] by (metis prod.collapse)
  with silentD [OF assms(1) m] w have "held (log_event (Opened (r a)) w1) = Some (r a # rs)" by simp
  with m assms(3) [of a] show "held (snd (attempt (holding r m) k w)) =
      Some (case fst (attempt (holding r m) k w) of Inl _ \<Rightarrow> [] | Inr a \<Rightarrow> g a)"
    by (simp add: attempt_def holding_def part_ok_from_def)
qed

lemma part_part:
  assumes "part_ok_from rs f m" and "\<And>a. part_ok_from (f a) g (k a)"
  shows "part_ok_from rs g (attempt m k)"
  using assms by (auto simp: part_ok_from_def attempt_def split: prod.splits sum.splits)

lemma cleans_close: "cleans [r] (close_resource ic r)"
  by (simp add: cleans_def)

lemma cleans_two: "r \<noteq> r' \<Longrightarrow> cleans [r,
  r'] (\<lambda>w. close_resource ic r' (close_resource ic r w))"
  by (simp add: cleans_def)

lemma cleans_resources:
  "cleans [RedisClient rd, Pool db] (closeResources ic (Some db) (Some rd) None None False False)"
  "cleans [Transport tr, RedisClient rd,
    Pool db] (closeResources ic (Some db) (Some rd) None (Some tr) False False)"
  "cleans [NatsConn nc, Transport tr, RedisClient rd, Pool db]
     (closeResources ic (Some db) (Some rd) (Some nc) (Some tr) False False)"
  "cleans [EmbedClient, NatsConn nc, Transport tr, RedisClient rd, Pool db]
     (closeResources ic (Some db) (Some rd) (Some nc) (Some tr) True False)"
  by (simp_all add: cleans_def closeResources_def)

lemma open_database_ok: "part_ok_from [] (\<lambda>db. [Pool db]) (open_database ic c)"
  unfolding open_database_def
  by (rule part_call_first, intro silent_intros, rule part_open_first [where r = Pool],
      intro opens_wrap opens_holding silent_intros)
    (rule part_call, intro silent_intros, rule cleans_close, rule part_call,
      intro silent_intros, rule cleans_close,
      rule part_return, simp)

lemma open_redis_ok: "part_ok_from [Pool db] (\<lambda>rd. [RedisClient rd, Pool db]) (open_redis ic c db)"
  unfolding open_redis_def
  by (intro part_open_sure part_call silent_intros cleans_two part_return; simp)
    (simp_all add: outside_def split: prod.split)

lemma open_minio_ok:
  "part_ok_from [RedisClient rd, Pool db] (\<lambda>(tr, _). [Transport tr, RedisClient rd,
    Pool db]) (open_minio ic c db rd)"
  unfolding open_minio_def
  by (rule part_open [where r = Transport], intro opens_wrap opens_holding silent_intros,
    rule cleans_resources)
    (intro part_call silent_intros cleans_resources part_return, simp)

lemma open_nats_ok:
  "part_ok_from [Transport tr, RedisClient rd, Pool db] (\<lambda>(nc, _). [NatsConn nc,
    Transport tr, RedisClient rd, Pool db])
     (open_nats ic c db rd tr)"
  unfolding open_nats_def
  by (rule part_open [where r = NatsConn], intro opens_wrap opens_holding silent_intros,
    rule cleans_resources)
    (intro part_call silent_intros cleans_resources part_return, simp)

lemma opens_NewStore:
  fixes ic :: "('w, 's, 'e) infrastructure"
  shows "opens (\<lambda>_. MilvusClient) (NewStore ic c)"
  unfolding opens_def
proof (intro allI impI)
  fix w :: "'w startup_world" and rs assume w: "held w = Some rs"
  let ?store = "new_store ic c" and ?w1 = "log_event (Opened MilvusClient) w"
  have w1: "held ?w1 = Some (MilvusClient # rs)" using w by simp
  have "NewStore ic c w = attempt (or_close (close_resource ic MilvusClient)
      (outside (optional_error (ensureCollection ?store)))) (\<lambda>_. return ?store) ?w1"
    by (simp add: NewStore_def attempt_def holding_def return_def)
  then show "held (snd (NewStore ic c w)) = Some (case fst (NewStore ic c w) of Inl _ \<Rightarrow> rs | Inr _ \<Rightarrow> MilvusClient # rs)"
    using w1 by (simp add: attempt_def or_close_def outside_def return_def split: prod.split sum.split)
qed

lemma open_models_ok:
  fixes ic :: "('w, 's, 'e) infrastructure"
  shows
  "part_ok_from [NatsConn nc, Transport tr, RedisClient rd, Pool db]
     (\<lambda>_. [MilvusClient, EmbedClient, NatsConn nc, Transport tr, RedisClient rd,
       Pool db]) (open_models ic c db rd tr nc)"
  unfolding open_models_def
  by (rule part_call, intro silent_intros, rule cleans_resources,
    rule part_open [where r = "\<lambda>_ :: embed_conf. EmbedClient"],
      intro opens_wrap opens_holding silent_intros, rule cleans_resources,
      rule part_open [where r = "\<lambda>_ :: 'w milvus_store. MilvusClient"],
        intro opens_wrap opens_NewStore, rule cleans_resources,
      rule part_return, simp)

section \<open>The whole start\<close>

definition all_resources :: "('r, 'w) service_context \<Rightarrow> resource list" where
  "all_resources s =
     [AgentClient, MilvusClient, EmbedClient, NatsConn (sx_nats s), Transport (sx_transport s),
      RedisClient (sx_redis s), Pool (sx_db s)]"

lemma NewServiceContext_ok: "part_ok_from [] all_resources (NewServiceContext ic c)"
  unfolding NewServiceContext_def
  by (rule part_part [OF open_database_ok], rule part_part [OF open_redis_ok],
    rule part_part [OF open_minio_ok],
      clarsimp split: prod.split, rule part_part [OF open_nats_ok], clarsimp split: prod.split,
      rule part_part [OF open_models_ok], clarsimp split: prod.split, rule part_open_sure)
    (auto intro!: silent_intros part_return simp: all_resources_def return_def)

lemma context_Close_held:
  assumes "held w = Some (all_resources s)"
  shows "held (context_Close ic s w) = Some []"
proof -
  have agent: "held (close_resource ic AgentClient w) =
      Some [MilvusClient, EmbedClient, NatsConn (sx_nats s), Transport (sx_transport s),
        RedisClient (sx_redis s), Pool (sx_db s)]"
    using assms by (simp add: all_resources_def)
  have "held (close_nats ic (sx_nats s) (close_resource ic AgentClient w)) =
      Some [MilvusClient, EmbedClient, Transport (sx_transport s), RedisClient (sx_redis s), Pool (sx_db s)]"
    using agent by (simp add: close_nats_def outside_def split: prod.split sum.split)
  then show ?thesis by (simp add: context_Close_def)
qed

text \<open>C37 Starting the service context is all or nothing, whatever call fails: after an error every
  resource that was opened has been closed, none of them twice and none before it was open; after a
  success exactly the pool, the clients and the connection are open, and closing the context closes each
  of them once.
\<close>

theorem start_is_all_or_nothing:
  "case NewServiceContext ic c \<lparr>st_ext = e, st_log = []\<rparr> of
     (Inl err, w) \<Rightarrow> still_open [] (st_log w) = Some []
   | (Inr s, w) \<Rightarrow> still_open [] (st_log w) = Some (all_resources s) \<and>
       still_open [] (st_log (context_Close ic s w)) = Some []"
proof -
  let ?w = "\<lparr>st_ext = e, st_log = []\<rparr>"
  have "held ?w = Some []" by (simp add: held_def)
  with NewServiceContext_ok [of ic c] have end_state: "held (snd (NewServiceContext ic c ?w)) =
      Some (case fst (NewServiceContext ic c ?w) of Inl _ \<Rightarrow> [] | Inr s \<Rightarrow> all_resources s)"
    unfolding part_ok_from_def by blast
  obtain r w where run: "NewServiceContext ic c ?w = (r, w)" by (cases "NewServiceContext ic c ?w")
  show ?thesis
  proof (cases r)
    case (Inl err)
    with end_state run show ?thesis by (simp add: held_def)
  next
    case (Inr s)
    with end_state run have "held w = Some (all_resources s)" by simp
    with context_Close_held [OF this, of ic] run Inr show ?thesis by (simp add: held_def)
  qed
qed

text \<open>A pool of one connection passes the check of the configuration,
  but the service never starts with it.\<close>

theorem pool_of_one_never_starts:
  assumes "\<And>db e. mw_free (if_database ic db e) \<le> 1"
  shows "\<exists>err. fst (NewServiceContext ic c w) = Inl err"
proof -
  have "\<exists>err. fst (migrate ic db e) = Inl err" for db e
    using one_connection_cannot_migrate [OF assms, of "if_server ic" "if_scripts ic" db e]
    by (auto simp: migrate_def split: prod.split)
  then have "\<exists>err. fst (open_database ic (cf_postgres c) w) = Inl err"
    by (simp add: open_database_def attempt_def or_close_def wrap_error_def outside_def lift_result_def holding_def
        split: prod.split sum.split) (metis Inl_Inr_False fst_conv)
  then show ?thesis by (auto simp: NewServiceContext_def attempt_def split: prod.splits sum.splits)
qed

end
