(* ===== verification/Routes.thy ===== *)
theory Routes
  imports Startup RateLimit
begin

text \<open>
  Which handler a request reaches: the route table of \<open>internal/handler/routes.go\<close> with its middlewares, the
  routes of the agent's tools (\<open>internal/transport/internaltools/handler.go\<close>) and the probes of \<open>rag.go\<close>.
  The router of the HTTP library, which finds a route by the method and a normal form of the path, is a
  parameter; the middlewares are those of the model of accounts and of the rate limiter.
\<close>

datatype endpoint =
    AdminLogClearHandler | AdminLogListHandler | AdminSummaryHandler | AdminTaskClearHandler | AdminTaskListHandler | AuthLoginHandler
  | AuthRegisterHandler | UserMeHandler | UserPasswordUpdateHandler | UserUpdateHandler | ChatAskHandler | ChatRunResumeHandler
  | ChatStreamHandler | ModelServiceSettingsHandler | ModelServiceSettingsUpdateHandler | ChatRunDetailHandler
  | ChatRunEventsHandler | ChatRunCancelHandler | ChatSessionCreateHandler | ChatSessionDeleteHandler | ChatSessionListHandler
  | ChatSessionUpdateHandler | DocumentClearFailedHandler | DocumentDeleteHandler | DocumentDetailHandler | DocumentListHandler
  | IndexTaskRetryHandler | DocumentUploadHandler | RetrievalSearchHandler | SubjectCreateHandler | SubjectDeleteHandler
  | SubjectDetailHandler | SubjectListHandler | SubjectUpdateHandler | HealthHandler | ReadyHandler | MetricsHandler
  | KnowledgeSearchHandler | KnowledgeOverviewHandler | DocumentNavigationHandler | ModelCredentialsHandler

datatype http_method = GET | POST

datatype middleware = AuthMiddleware | RateLimitMiddleware

record route =
  rt_method :: http_method
  rt_path :: gostr
  rt_middlewares :: "middleware list"
  rt_endpoint :: endpoint

definition posts :: "middleware list \<Rightarrow> (string \<times> endpoint) list \<Rightarrow> route list" where
  "posts ms rs =
     map (\<lambda>(path, e). \<lparr>rt_method = POST, rt_path = lit path,
       rt_middlewares = ms, rt_endpoint = e\<rparr>) rs"

definition admin_routes :: "route list" where
  "admin_routes = posts [AuthMiddleware]
     [(''/api/admin/logs/clear'', AdminLogClearHandler),
      (''/api/admin/logs/list'', AdminLogListHandler),
      (''/api/admin/summary'', AdminSummaryHandler),
      (''/api/admin/tasks/clear'', AdminTaskClearHandler),
      (''/api/admin/tasks/list'', AdminTaskListHandler)]"

definition login_routes :: "route list" where
  "login_routes = posts []
     [(''/api/auth/login'', AuthLoginHandler),
      (''/api/auth/register'', AuthRegisterHandler)]"

definition user_routes :: "route list" where
  "user_routes = posts [AuthMiddleware]
     [(''/api/users/me'', UserMeHandler),
      (''/api/users/password/update'', UserPasswordUpdateHandler),
      (''/api/users/update'', UserUpdateHandler)]"

definition question_routes :: "route list" where
  "question_routes = posts [AuthMiddleware, RateLimitMiddleware]
     [(''/api/chat/ask'', ChatAskHandler),
      (''/api/chat/runs/resume'', ChatRunResumeHandler),
      (''/api/chat/stream'', ChatStreamHandler)]"

definition settings_routes :: "route list" where
  "settings_routes = posts [AuthMiddleware]
     [(''/api/settings/model-service'', ModelServiceSettingsHandler),
      (''/api/settings/model-service/update'', ModelServiceSettingsUpdateHandler)]"

definition chat_routes :: "route list" where
  "chat_routes = posts [AuthMiddleware]
     [(''/api/chat/runs/detail'', ChatRunDetailHandler),
      (''/api/chat/runs/events'', ChatRunEventsHandler),
      (''/api/chat/runs/cancel'', ChatRunCancelHandler),
      (''/api/chat/sessions/create'', ChatSessionCreateHandler),
      (''/api/chat/sessions/delete'', ChatSessionDeleteHandler),
      (''/api/chat/sessions/list'', ChatSessionListHandler),
      (''/api/chat/sessions/update'', ChatSessionUpdateHandler)]"

definition document_routes :: "route list" where
  "document_routes = posts [AuthMiddleware, RateLimitMiddleware]
     [(''/api/documents/clear-failed'', DocumentClearFailedHandler),
      (''/api/documents/delete'', DocumentDeleteHandler),
      (''/api/documents/detail'', DocumentDetailHandler),
      (''/api/documents/list'', DocumentListHandler),
      (''/api/documents/tasks/retry'', IndexTaskRetryHandler),
      (''/api/documents/upload'', DocumentUploadHandler)]"

definition search_routes :: "route list" where
  "search_routes = posts [AuthMiddleware, RateLimitMiddleware]
     [(''/api/retrieval/search'', RetrievalSearchHandler)]"

definition subject_routes :: "route list" where
  "subject_routes = posts [AuthMiddleware]
     [(''/api/subjects/create'', SubjectCreateHandler),
      (''/api/subjects/delete'', SubjectDeleteHandler),
      (''/api/subjects/detail'', SubjectDetailHandler),
      (''/api/subjects/list'', SubjectListHandler),
      (''/api/subjects/update'', SubjectUpdateHandler)]"

definition RegisterHandlers :: "route list" where
  "RegisterHandlers =
     admin_routes @ login_routes @ user_routes @ question_routes @ settings_routes @ chat_routes @
     document_routes @ search_routes @ subject_routes"

text \<open>The tools check the service token themselves.\<close>

definition RegisterRoutes :: "route list" where
  "RegisterRoutes = posts []
     [(''/internal/v1/tools/knowledge-search'', KnowledgeSearchHandler),
      (''/internal/v1/tools/knowledge-overview'', KnowledgeOverviewHandler),
      (''/internal/v1/tools/document-navigation'', DocumentNavigationHandler),
      (''/internal/v1/tools/model-credentials'', ModelCredentialsHandler)]"

definition metrics_route :: "metrics_conf \<Rightarrow> route list" where
  "metrics_route c =
     (if me_enabled c then [\<lparr>rt_method = GET, rt_path = me_path c, rt_middlewares = [],
       rt_endpoint = MetricsHandler\<rparr>] else [])"

definition probe_routes :: "route list" where
  "probe_routes =
     [\<lparr>rt_method = GET, rt_path = lit ''/healthz'', rt_middlewares = [],
       rt_endpoint = HealthHandler\<rparr>,
      \<lparr>rt_method = GET, rt_path = lit ''/readyz'', rt_middlewares = [],
        rt_endpoint = ReadyHandler\<rparr>]"

definition all_routes :: "metrics_conf \<Rightarrow> route list" where
  "all_routes c = metrics_route c @ probe_routes @ RegisterHandlers @ RegisterRoutes"

section \<open>Requests\<close>

record http_request =
  hr_method :: http_method
  hr_path :: gostr
  hr_authorization :: gostr
  hr_time :: int

datatype outcome = NotFound | Rejected gate | Handled endpoint "user_session option"

text \<open>The middlewares of a route,
  the first one outermost; \<open>ctx\<close> is the user in the request's context.\<close>

fun run_middlewares ::
    "'a account_services \<Rightarrow> 'e limiter_services \<Rightarrow> http_request \<Rightarrow> endpoint \<Rightarrow> middleware list \<Rightarrow>
     user_session option \<Rightarrow> 'e limiter_world \<Rightarrow> outcome \<times> 'e limiter_world" where
  "run_middlewares sv ls r e [] user w = (Handled e user, w)"
| "run_middlewares sv ls r e (AuthMiddleware # ms) user w =
     (case auth_Handle sv (hr_authorization r) (hr_time r) of
        None \<Rightarrow> (Rejected Unauthorized401, w)
      | Some u \<Rightarrow> run_middlewares sv ls r e ms (Some u) w)"
| "run_middlewares sv ls r e (RateLimitMiddleware # ms) user w =
     (case rate_Handle ls user (hr_path r) w of
        (PassedTo u, w') \<Rightarrow> run_middlewares sv ls r e ms user w'
      | (g, w') \<Rightarrow> (Rejected g, w'))"

definition find_route :: "(gostr \<Rightarrow> gostr) \<Rightarrow> route list \<Rightarrow> http_request \<Rightarrow> route option" where
  "find_route normal rs r = find (\<lambda>x. rt_method x = hr_method r \<and> rt_path x = normal (hr_path r)) rs"

definition serve_request ::
    "(gostr \<Rightarrow> gostr) \<Rightarrow> 'a account_services \<Rightarrow> 'e limiter_services \<Rightarrow> metrics_conf \<Rightarrow> http_request \<Rightarrow>
     'e limiter_world \<Rightarrow> outcome \<times> 'e limiter_world" where
  "serve_request normal sv ls c r w =
     (case find_route normal (all_routes c) r of
        None \<Rightarrow> (NotFound, w)
      | Some x \<Rightarrow> run_middlewares sv ls r (rt_endpoint x) (rt_middlewares x) None w)"

end
