(* ===== verification/RoutesProperties.thy ===== *)
theory RoutesProperties
  imports Routes AccountProperties
begin

text \<open>
  Nobody reaches a handler of the API without a valid token, and the routes with a quota are only
  reached through the limiter - unless the router accepts another form of the path.
\<close>

definition open_endpoints :: "endpoint list" where
  "open_endpoints =
     [AuthLoginHandler, AuthRegisterHandler, HealthHandler, ReadyHandler, MetricsHandler,
       KnowledgeSearchHandler, KnowledgeOverviewHandler, DocumentNavigationHandler,
      ModelCredentialsHandler]"

definition quota_paths :: "gostr list" where
  "quota_paths =
     [lit ''/api/chat/ask'', lit ''/api/chat/stream'', lit ''/api/chat/runs/resume'',
       lit ''/api/retrieval/search'',
      lit ''/api/documents/upload'']"

lemma policy_paths: "policy conf path \<noteq> None \<longleftrightarrow> path \<in> set quota_paths"
  by (simp add: policy_def quota_paths_def)

text \<open>The table itself: a route is open or begins with the token,
  and a path with a quota has both middlewares.\<close>

definition guarded_route :: "route \<Rightarrow> bool" where
  "guarded_route x \<longleftrightarrow>
     (if rt_endpoint x \<in> set open_endpoints then rt_middlewares x = [] else hd (rt_middlewares x) = AuthMiddleware \<and> rt_middlewares x \<noteq> []) \<and>
     (rt_path x \<in> set quota_paths \<longrightarrow> rt_middlewares x = [AuthMiddleware,
       RateLimitMiddleware])"

lemma table_guarded: "list_all guarded_route (probe_routes @ RegisterHandlers @ RegisterRoutes)"
  by code_simp

lemma table_posts: "list_all (\<lambda>x. rt_method x = POST) (RegisterHandlers @ RegisterRoutes)"
  by code_simp

text \<open>No two routes answer the same request.\<close>

lemma routes_are_distinct: "distinct (map (\<lambda>x. (rt_method x,
  rt_path x)) (probe_routes @ RegisterHandlers @ RegisterRoutes))"
  by code_simp

lemma route_cases:
  assumes "x \<in> set (all_routes c)"
  obtains (metrics) "rt_method x = GET" and "rt_endpoint x = MetricsHandler" and "rt_middlewares x = []"
    | (table) "guarded_route x"
proof -
  from assms consider "x \<in> set (metrics_route c)" | "x \<in> set (probe_routes @ RegisterHandlers @ RegisterRoutes)"
    by (auto simp: all_routes_def)
  then show thesis
  proof cases
    case 1
    then show ?thesis using metrics by (auto simp: metrics_route_def split: if_splits)
  next
    case 2
    with table_guarded show ?thesis using table unfolding list_all_iff by blast
  qed
qed

lemma auth_first:
  assumes "run_middlewares sv ls r e (AuthMiddleware # ms) user w = (Handled e' user', w')"
  obtains u where "auth_Handle sv (hr_authorization r) (hr_time r) = Some u"
    and "run_middlewares sv ls r e ms (Some u) w = (Handled e' user', w')"
  using assms by (auto split: option.splits)

lemma middlewares_keep:
  "run_middlewares sv ls r e ms (Some u) w = (Handled e' user', w') \<Longrightarrow>
     auth_Handle sv (hr_authorization r) (hr_time r) = Some u \<Longrightarrow> e' = e \<and> user' = Some u"
proof (induction ms arbitrary: u w)
  case (Cons m ms)
  then show ?case by (cases m) (auto split: prod.splits gate.splits)
qed simp

lemma limited_pass:
  assumes "run_middlewares sv ls r e [RateLimitMiddleware] (Some u) w = (Handled e' user', w')"
  shows "\<exists>d. Allow ls (lit (us_tenant u) @ lit '':'' @ lit (us_id u)) (hr_path r) w = (Inr d, w') \<and> dc_allowed d"
proof -
  obtain g w1 where g: "rate_Handle ls (Some u) (hr_path r) w = (g,
    w1)" by (cases "rate_Handle ls (Some u) (hr_path r) w")
  with assms obtain v where "g = PassedTo v" "w1 = w'" by (cases g) auto
  with g show ?thesis
    by (auto simp: rate_Handle_def CurrentUser_def split: sum.splits prod.splits if_splits)
qed

text \<open>C38 Whatever the router takes a path for: a request that reaches a handler other than signing in,
  registering, the probes and the agent's tools, which check their own token, carries a valid token, and
  the handler sees exactly the user of this token; and a POST request to a path that has a quota reaches
  its handler only when the limiter has granted it to this user.
\<close>

theorem requests_are_guarded:
  assumes "serve_request normal sv ls c r w = (Handled e user, w')"
  shows "(if e \<in> set open_endpoints then user = None
      else \<exists>u. auth_Handle sv (hr_authorization r) (hr_time r) = Some u \<and> user = Some u) \<and>
    (hr_method r = POST \<and> normal (hr_path r) = hr_path r \<and> policy (ls_conf ls) (hr_path r) \<noteq> None \<longrightarrow>
      (\<exists>u d. user = Some u \<and>
        Allow ls (lit (us_tenant u) @ lit '':'' @ lit (us_id u)) (hr_path r) w = (Inr d,
          w') \<and> dc_allowed d))"
proof -
  obtain x where x: "find_route normal (all_routes c) r = Some x"
    and run: "run_middlewares sv ls r (rt_endpoint x) (rt_middlewares x) None w = (Handled e user, w')"
    using assms by (auto simp: serve_request_def split: option.splits)
  then have found: "x \<in> set (all_routes c)" "rt_method x = hr_method r" "rt_path x = normal (hr_path r)"
    by (auto simp: find_route_def find_Some_iff)
  from found(1) show ?thesis
  proof (cases rule: route_cases)
    case metrics
    with run found(2) show ?thesis by (auto simp: open_endpoints_def)
  next
    case table
    show ?thesis
    proof (cases "rt_endpoint x \<in> set open_endpoints")
      case True
      with table have ms: "rt_middlewares x = []" by (simp add: guarded_route_def)
      then have "rt_path x \<notin> set quota_paths" using table by (auto simp: guarded_route_def)
      with found(3) have "normal (hr_path r) = hr_path r \<Longrightarrow> policy (ls_conf ls) (hr_path r) = None"
        using policy_paths [of "ls_conf ls" "hr_path r"] by metis
      with ms run True show ?thesis by auto
    next
      case False
      with table obtain ms where ms: "rt_middlewares x = AuthMiddleware # ms"
        by (cases "rt_middlewares x") (auto simp: guarded_route_def)
      from run [unfolded ms] obtain u where u: "auth_Handle sv (hr_authorization r) (hr_time r) = Some u"
        and rest: "run_middlewares sv ls r (rt_endpoint x) ms (Some u) w = (Handled e user,
          w')" by (rule auth_first)
      from middlewares_keep [OF rest u] have e: "e = rt_endpoint x" "user = Some u" by simp_all
      have "\<exists>d. Allow ls (lit (us_tenant u) @ lit '':'' @ lit (us_id u)) (hr_path r) w = (Inr d, w') \<and> dc_allowed d"
        if "normal (hr_path r) = hr_path r" "policy (ls_conf ls) (hr_path r) \<noteq> None"
      proof -
        from that(2) have "hr_path r \<in> set quota_paths" by (simp only: policy_paths)
        with that(1) found(3) table ms have "ms = [RateLimitMiddleware]" by (simp add: guarded_route_def)
        with limited_pass rest show ?thesis by blast
      qed
      with False e u show ?thesis by auto
    qed
  qed
qed

section \<open>A request\<close>

definition token_accounts :: "nat account_services" where
  "token_accounts = calm_accounts\<lparr>ac_parse := (\<lambda>_ tok _.
     if tok = lit ''t'' then Inr (\<lparr>cl_user = ''u1'', cl_tenant = ''t1'',
       cl_username = lit ''ada'', cl_email = [],
       cl_expires_at = 0, cl_issued_at = 0\<rparr>, True)
     else Inl (Plain (lit ''token is malformed'')))\<rparr>"

definition calm_limiter :: "nat limiter_services" where
  "calm_limiter = \<lparr>ls_redis = (\<lambda>e rs. (Executed, e, rs)), ls_now = int,
    ls_uuid = (\<lambda>e. (replicate (Suc e) CHR ''m'', Suc e)),
     ls_conf = \<lparr>rl_period = 60, rl_chat_quota = 1, rl_retrieval_quota = 1,
       rl_upload_quota = 1\<rparr>\<rparr>"

definition no_metrics :: metrics_conf where
  "no_metrics = \<lparr>me_enabled = False, me_path = []\<rparr>"

definition ask :: "gostr \<Rightarrow> http_request" where
  "ask path = \<lparr>hr_method = POST, hr_path = path, hr_authorization = lit ''Bearer t'',
    hr_time = 0\<rparr>"

definition ada :: user_session where
  "ada = \<lparr>us_id = ''u1'', us_tenant = ''t1'', us_username = lit ''ada'', us_email = []\<rparr>"

definition asked :: "outcome \<times> nat limiter_world" where
  "asked = serve_request (\<lambda>p. p) token_accounts calm_limiter no_metrics (ask (lit ''/api/chat/ask''))
     \<lparr>lw_redis = (\<lambda>_. \<lparr>zs_entries = [], zs_expires = None\<rparr>), lw_ext = 0\<rparr>"

lemma requests_are_guarded_witness:
  "\<exists>d. Allow calm_limiter (lit ''t1:u1'') (lit ''/api/chat/ask'')
     \<lparr>lw_redis = (\<lambda>_. \<lparr>zs_entries = [], zs_expires = None\<rparr>),
       lw_ext = 0\<rparr> = (Inr d, snd asked) \<and> dc_allowed d"
proof -
  have "fst asked = Handled ChatAskHandler (Some ada)" by code_simp
  then have run: "serve_request (\<lambda>p. p) token_accounts calm_limiter no_metrics (ask (lit ''/api/chat/ask''))
      \<lparr>lw_redis = (\<lambda>_. \<lparr>zs_entries = [], zs_expires = None\<rparr>),
        lw_ext = 0\<rparr> = (Handled ChatAskHandler (Some ada), snd asked)"
    by (simp add: asked_def prod_eq_iff)
  have "policy (ls_conf calm_limiter) (lit ''/api/chat/ask'') \<noteq> None" by (simp add: policy_def)
  with requests_are_guarded [OF run] show ?thesis by (auto simp: ask_def ada_def lit_def)
qed

section \<open>Another form of the path\<close>

text \<open>
  A router that matches the cleaned path serves \<open>/api/chat/ask/\<close> as well,
    but the limiter looks up the
  path as it was sent, finds no quota, and lets every such request pass without asking Redis.
\<close>

theorem other_path_has_no_quota:
  assumes "auth_Handle sv (lit ''Bearer t'') 0 = Some u" and "us_id u \<noteq> []" and "us_tenant u \<noteq> []"
  shows "serve_request Clean sv ls no_metrics (ask (lit ''/api/chat/ask/'')) w = (Handled ChatAskHandler (Some u), w)"
proof -
  have "map_option (\<lambda>x. (rt_endpoint x,
    rt_middlewares x)) (find_route Clean (all_routes no_metrics) (ask (lit ''/api/chat/ask/''))) =
      Some (ChatAskHandler, [AuthMiddleware, RateLimitMiddleware])"
    by code_simp
  moreover have "policy (ls_conf ls) (lit ''/api/chat/ask/'') = None" by (simp add: policy_def lit_def)
  ultimately show ?thesis
    using assms by (auto simp: serve_request_def ask_def rate_Handle_def CurrentUser_def Allow_def return_def)
qed

end
