(* ===== verification/Metrics.thy ===== *)
theory Metrics
  imports ParserText Float64
begin

text \<open>
  The metrics of the process: \<open>internal/infrastructure/observability/metrics.go\<close>,
    with the observer of
  \<open>model_usage.go\<close>. Of the Prometheus library a vector is the series of its label values, and naming a
  series with the wrong number of values, or with a value that is no text,
    panics (\<open>None\<close>); counters and
  gauges are numbers, a histogram is the list of what it observed. Durations are in nanoseconds.
\<close>

section \<open>Vectors\<close>

record metric_desc =
  md_name :: string
  md_help :: string
  md_labels :: "string list"
  md_buckets :: "float64 list"

record 'v vec =
  vc_desc :: metric_desc
  vc_series :: "gostr list \<Rightarrow> 'v"

definition text_label :: "gostr \<Rightarrow> bool" where
  "text_label l \<longleftrightarrow> list_all (\<lambda>r. r < 0x110000) l"

definition with_labels :: "gostr list \<Rightarrow> ('v \<Rightarrow> 'v) \<Rightarrow> 'v vec \<Rightarrow> 'v vec option" where
  "with_labels ls f v =
     (if length ls = length (md_labels (vc_desc v)) \<and> list_all text_label ls then
        Some (v\<lparr>vc_series := (vc_series v)(ls := f (vc_series v ls))\<rparr>)
      else None)"

definition inc :: "int \<Rightarrow> int" where
  "inc n = n + 1"

definition dec :: "int \<Rightarrow> int" where
  "dec n = n - 1"

definition observe :: "'a \<Rightarrow> 'a list \<Rightarrow> 'a list" where
  "observe x xs = xs @ [x]"

definition new_vec :: "string \<Rightarrow> string \<Rightarrow> float64 list \<Rightarrow> string list \<Rightarrow> 'v \<Rightarrow> 'v vec" where
  "new_vec name help buckets labels zero =
     \<lparr>vc_desc = \<lparr>md_name = ''enterprise_rag_'' @ name, md_help = help,
       md_labels = labels, md_buckets = buckets\<rparr>,
      vc_series = (\<lambda>_. zero)\<rparr>"

definition DefBuckets :: "float64 list" where
  "DefBuckets = [1 / 200, 1 / 100, 1 / 40, 1 / 20, 1 / 10, 1 / 4, 1 / 2, 1, 5 / 2, 5, 10]"

text \<open>A metric without labels is a vector with one series.\<close>

record metrics =
  mt_http_requests :: "int vec"
  mt_http_duration :: "int list vec"
  mt_http_in_flight :: "int vec"
  mt_agent_runs :: "int vec"
  mt_agent_duration :: "int list vec"
  mt_agent_in_flight :: "int vec"
  mt_agent_transitions :: "int vec"
  mt_agent_iterations :: "int list vec"
  mt_tool_calls :: "int vec"
  mt_tool_duration :: "int list vec"
  mt_model_calls :: "int vec"
  mt_model_duration :: "int list vec"
  mt_model_tokens :: "int vec"
  mt_model_cost :: "float64 list vec"
  mt_retrieval_runs :: "int vec"
  mt_retrieval_duration :: "int list vec"
  mt_retrieval_candidates :: "int list vec"
  mt_retrieval_returned :: "int list vec"
  mt_worker_tasks :: "int vec"
  mt_worker_duration :: "int list vec"
  mt_worker_in_flight :: "int vec"

definition NewMetrics :: metrics where
  "NewMetrics = \<lparr>
     mt_http_requests = new_vec ''http_requests_total''
       ''Total HTTP requests by normalized route and status class.''
       [] [''method'', ''route'', ''status_class''] 0,
     mt_http_duration = new_vec ''http_request_duration_seconds''
       ''HTTP request latency in seconds.''
       DefBuckets [''method'', ''route''] [],
     mt_http_in_flight = new_vec ''http_requests_in_flight''
       ''Current HTTP requests by normalized route.''
       [] [''method'', ''route''] 0,
     mt_agent_runs = new_vec ''agent_runs_total''
       ''Total Agent runs by outcome and response mode.''
       [] [''status'', ''stream''] 0,
     mt_agent_duration = new_vec ''agent_run_duration_seconds''
       ''Agent run latency in seconds.''
       [1 / 4, 1 / 2, 1, 2, 5, 10, 20, 45, 90, 180] [''status'', ''stream''] [],
     mt_agent_in_flight = new_vec ''agent_runs_in_flight''
       ''Current Agent runs.''
       [] [] 0,
     mt_agent_transitions = new_vec ''agent_state_transitions_total''
       ''Agent state machine transitions.''
       [] [''from'', ''to''] 0,
     mt_agent_iterations = new_vec ''agent_iterations''
       ''Iterations used by completed and failed Agent runs.''
       [1, 2, 3, 4, 5, 6] [] [],
     mt_tool_calls = new_vec ''agent_tool_calls_total''
       ''Agent tool calls by tool and outcome.''
       [] [''tool'', ''status''] 0,
     mt_tool_duration = new_vec ''agent_tool_duration_seconds''
       ''Agent tool latency in seconds.''
       [1 / 100, 1 / 20, 1 / 10, 1 / 4, 1 / 2, 1, 2, 5, 10, 25] [''tool'', ''status''] [],
     mt_model_calls = new_vec ''model_calls_total''
       ''LLM and embedding calls by operation, provider and outcome.''
       [] [''kind'', ''operation'', ''provider'', ''status''] 0,
     mt_model_duration = new_vec ''model_call_duration_seconds''
       ''LLM and embedding call latency in seconds.''
       [1 / 20, 1 / 10, 1 / 4, 1 / 2, 1, 2, 5, 10, 20, 45, 90] [''kind'', ''operation'',
         ''provider'', ''status''] [],
     mt_model_tokens = new_vec ''model_tokens_total''
       ''Model tokens consumed by operation, provider and token type.''
       [] [''kind'', ''operation'', ''provider'', ''token_type''] 0,
     mt_model_cost = new_vec ''model_cost_usd_total''
       ''Model cost reported by the provider in US dollars.''
       [] [''kind'', ''operation'', ''provider''] [],
     mt_retrieval_runs = new_vec ''retrieval_runs_total''
       ''Retrieval runs by outcome.''
       [] [''status''] 0,
     mt_retrieval_duration = new_vec ''retrieval_duration_seconds''
       ''Retrieval pipeline latency in seconds.''
       [1 / 100, 1 / 20, 1 / 10, 1 / 4, 1 / 2, 1, 2, 5, 10, 20] [''status''] [],
     mt_retrieval_candidates = new_vec ''retrieval_candidates''
       ''Candidate chunks produced before citation trimming.''
       [0, 1, 2, 5, 10, 15, 25, 50, 100] [] [],
     mt_retrieval_returned = new_vec ''retrieval_returned''
       ''Chunks returned after filtering and citation trimming.''
       [0, 1, 2, 3, 5, 8, 10, 15] [] [],
     mt_worker_tasks = new_vec ''worker_tasks_total''
       ''Document worker tasks by type and outcome.''
       [] [''task_type'', ''status''] 0,
     mt_worker_duration = new_vec ''worker_task_duration_seconds''
       ''Document worker task latency in seconds.''
       [1 / 100, 1 / 20, 1 / 10, 1 / 4, 1 / 2, 1, 2, 5, 10, 30, 60, 180] [''task_type'', ''status''] [],
     mt_worker_in_flight = new_vec ''worker_tasks_in_flight''
       ''Current document worker tasks by type.''
       [] [''task_type''] 0\<rparr>"

text \<open>What the registry holds.\<close>

definition descriptors :: "metrics \<Rightarrow> metric_desc list" where
  "descriptors m =
     [vc_desc (mt_http_requests m),
      vc_desc (mt_http_duration m),
      vc_desc (mt_http_in_flight m),
      vc_desc (mt_agent_runs m),
      vc_desc (mt_agent_duration m),
      vc_desc (mt_agent_in_flight m),
      vc_desc (mt_agent_transitions m),
      vc_desc (mt_agent_iterations m),
      vc_desc (mt_tool_calls m),
      vc_desc (mt_tool_duration m),
      vc_desc (mt_model_calls m),
      vc_desc (mt_model_duration m),
      vc_desc (mt_model_tokens m),
      vc_desc (mt_model_cost m),
      vc_desc (mt_retrieval_runs m),
      vc_desc (mt_retrieval_duration m),
      vc_desc (mt_retrieval_candidates m),
      vc_desc (mt_retrieval_returned m),
      vc_desc (mt_worker_tasks m),
      vc_desc (mt_worker_duration m),
      vc_desc (mt_worker_in_flight m)]"

section \<open>Labels\<close>

definition label_rune :: "rune \<Rightarrow> bool" where
  "label_rune r \<longleftrightarrow> (97 \<le> r \<and> r \<le> 122) \<or> (48 \<le> r \<and> r \<le> 57) \<or> r = 95 \<or> r = 45"

definition normalizeLabel :: "unicode_tables \<Rightarrow> gostr \<Rightarrow> gostr" where
  "normalizeLabel u value0 =
     (let value = ToLower u (TrimSpace value0)
      in if value = [] \<or> byte_length value > 64 then lit ''unknown''
         else if \<not> list_all label_rune value then lit ''other''
         else value)"

definition normalizeStatus :: "unicode_tables \<Rightarrow> gostr \<Rightarrow> gostr" where
  "normalizeStatus u value =
     (let v = ToLower u (TrimSpace value)
      in if v = lit ''success'' \<or> v = lit ''completed'' then lit ''success''
         else if v = lit ''timeout'' \<or> v = lit ''deadline_exceeded'' then lit ''timeout''
         else if v = lit ''retry'' \<or> v = lit ''scheduled_retry'' then lit ''retry''
         else lit ''error'')"

definition normalizeTaskType :: "unicode_tables \<Rightarrow> gostr \<Rightarrow> gostr" where
  "normalizeTaskType u value = normalizeLabel u (ReplaceAll value (lit ''.'') (lit ''_''))"

definition normalizeRoute :: "gostr \<Rightarrow> gostr" where
  "normalizeRoute path0 =
     (let path = TrimSpace path0
      in if path = [] then lit ''/''
         else if byte_length path > 96 \<or> \<not> HasPrefix path (lit ''/api/'') then lit ''other''
         else path)"

definition statusClass :: "int \<Rightarrow> gostr" where
  "statusClass status =
     (if status < 100 \<or> status > 599 then lit ''unknown'' else lit (Itoa (status div 100)) @ lit ''xx'')"

section \<open>Observations\<close>

definition bool_text :: "bool \<Rightarrow> gostr" where
  "bool_text b = (if b then lit ''true'' else lit ''false'')"

definition AgentStarted :: "metrics \<Rightarrow> metrics option" where
  "AgentStarted m = map_option (\<lambda>g. m\<lparr>mt_agent_in_flight := g\<rparr>) (with_labels [] inc (mt_agent_in_flight m))"

definition AgentFinished :: "metrics \<Rightarrow> metrics option" where
  "AgentFinished m = map_option (\<lambda>g. m\<lparr>mt_agent_in_flight := g\<rparr>) (with_labels [] dec (mt_agent_in_flight m))"

definition ObserveAgentRun :: "unicode_tables \<Rightarrow> gostr \<Rightarrow> bool \<Rightarrow> int \<Rightarrow> int \<Rightarrow> metrics \<Rightarrow> metrics option" where
  "ObserveAgentRun u status0 stream duration iterations m =
     (let status = normalizeStatus u status0
      in Option.bind (with_labels [status, bool_text stream] inc (mt_agent_runs m)) (\<lambda>runs.
         Option.bind (with_labels [status,
           bool_text stream] (observe duration) (mt_agent_duration m)) (\<lambda>durations.
         Option.bind (with_labels [] (observe iterations) (mt_agent_iterations m)) (\<lambda>its.
           Some (m\<lparr>mt_agent_runs := runs, mt_agent_duration := durations,
             mt_agent_iterations := its\<rparr>)))))"

definition ObserveAgentTransition :: "unicode_tables \<Rightarrow> gostr \<Rightarrow> gostr \<Rightarrow> metrics \<Rightarrow> metrics option" where
  "ObserveAgentTransition u source target m =
     map_option (\<lambda>v. m\<lparr>mt_agent_transitions := v\<rparr>)
       (with_labels [normalizeLabel u source, normalizeLabel u target] inc (mt_agent_transitions m))"

definition ObserveTool :: "unicode_tables \<Rightarrow> gostr \<Rightarrow> gostr \<Rightarrow> int \<Rightarrow> metrics \<Rightarrow> metrics option" where
  "ObserveTool u tool status duration m =
     (let labels = [normalizeLabel u tool, normalizeStatus u status]
      in Option.bind (with_labels labels inc (mt_tool_calls m)) (\<lambda>calls.
         Option.bind (with_labels labels (observe duration) (mt_tool_duration m)) (\<lambda>durations.
           Some (m\<lparr>mt_tool_calls := calls, mt_tool_duration := durations\<rparr>))))"

definition ObserveModel :: "unicode_tables \<Rightarrow> gostr \<Rightarrow> gostr \<Rightarrow> gostr \<Rightarrow> gostr \<Rightarrow> int \<Rightarrow> metrics \<Rightarrow> metrics option" where
  "ObserveModel u kind operation provider status duration m =
     (let labels = [normalizeLabel u kind, normalizeLabel u operation,
       normalizeLabel u provider, normalizeStatus u status]
      in Option.bind (with_labels labels inc (mt_model_calls m)) (\<lambda>calls.
         Option.bind (with_labels labels (observe duration) (mt_model_duration m)) (\<lambda>durations.
           Some (m\<lparr>mt_model_calls := calls, mt_model_duration := durations\<rparr>))))"

record model_usage =
  mu_input :: int
  mu_output :: int
  mu_total :: int
  mu_cost :: float64

text \<open>A counter is increased by a positive number, or left alone.\<close>

definition add_tokens :: "gostr list \<Rightarrow> gostr \<Rightarrow> int \<Rightarrow> metrics \<Rightarrow> metrics option" where
  "add_tokens labels token_type n m =
     (if n > 0 then
        map_option (\<lambda>v. m\<lparr>mt_model_tokens := v\<rparr>) (with_labels (labels @ [token_type]) (\<lambda>x. x + n) (mt_model_tokens m))
      else Some m)"

definition ObserveModelUsage :: "unicode_tables \<Rightarrow> gostr \<Rightarrow> gostr \<Rightarrow> gostr \<Rightarrow> model_usage \<Rightarrow> metrics \<Rightarrow> metrics option" where
  "ObserveModelUsage u kind operation provider usage m =
     (let labels = [normalizeLabel u kind, normalizeLabel u operation, normalizeLabel u provider];
          inputTokens = max (mu_input usage) 0;
          outputTokens = max (mu_output usage) 0;
          totalTokens = max (mu_total usage) (inputTokens + outputTokens)
      in Option.bind (add_tokens labels (lit ''input'') inputTokens m) (\<lambda>m1.
         Option.bind (add_tokens labels (lit ''output'') outputTokens m1) (\<lambda>m2.
         Option.bind (add_tokens labels (lit ''total'') totalTokens m2) (\<lambda>m3.
           if mu_cost usage > 0 then
             map_option (\<lambda>v. m3\<lparr>mt_model_cost := v\<rparr>) (with_labels labels (observe (mu_cost usage)) (mt_model_cost m3))
           else Some m3))))"

text \<open>A context carries at most one observer; reporting calls it.\<close>

definition ModelUsageContext ::
    "unicode_tables \<Rightarrow> gostr \<Rightarrow> gostr \<Rightarrow> gostr \<Rightarrow> model_usage \<Rightarrow> metrics \<Rightarrow> metrics option" where
  "ModelUsageContext u kind operation provider = ObserveModelUsage u kind operation provider"

definition ReportModelUsage :: "(model_usage \<Rightarrow> metrics \<Rightarrow> metrics option) option \<Rightarrow> model_usage \<Rightarrow> metrics \<Rightarrow> metrics option" where
  "ReportModelUsage observer usage m = (case observer of None \<Rightarrow> Some m | Some f \<Rightarrow> f usage m)"

definition ObserveRetrieval :: "unicode_tables \<Rightarrow> gostr \<Rightarrow> int \<Rightarrow> int \<Rightarrow> int \<Rightarrow> metrics \<Rightarrow> metrics option" where
  "ObserveRetrieval u status0 duration candidates returned m =
     (let status = normalizeStatus u status0
      in Option.bind (with_labels [status] inc (mt_retrieval_runs m)) (\<lambda>runs.
         Option.bind (with_labels [status] (observe duration) (mt_retrieval_duration m)) (\<lambda>durations.
         Option.bind (with_labels [] (observe candidates) (mt_retrieval_candidates m)) (\<lambda>cs.
         Option.bind (with_labels [] (observe returned) (mt_retrieval_returned m)) (\<lambda>rs.
           Some (m\<lparr>mt_retrieval_runs := runs, mt_retrieval_duration := durations,
             mt_retrieval_candidates := cs,
             mt_retrieval_returned := rs\<rparr>))))))"

definition ObserveWorker :: "unicode_tables \<Rightarrow> gostr \<Rightarrow> gostr \<Rightarrow> int \<Rightarrow> metrics \<Rightarrow> metrics option" where
  "ObserveWorker u taskType status duration m =
     (let labels = [normalizeTaskType u taskType, normalizeStatus u status]
      in Option.bind (with_labels labels inc (mt_worker_tasks m)) (\<lambda>tasks.
         Option.bind (with_labels labels (observe duration) (mt_worker_duration m)) (\<lambda>durations.
           Some (m\<lparr>mt_worker_tasks := tasks, mt_worker_duration := durations\<rparr>))))"

definition WorkerStarted :: "unicode_tables \<Rightarrow> gostr \<Rightarrow> metrics \<Rightarrow> metrics option" where
  "WorkerStarted u taskType m =
     map_option (\<lambda>g. m\<lparr>mt_worker_in_flight := g\<rparr>) (with_labels [normalizeTaskType u taskType] inc (mt_worker_in_flight m))"

definition WorkerFinished :: "unicode_tables \<Rightarrow> gostr \<Rightarrow> metrics \<Rightarrow> metrics option" where
  "WorkerFinished u taskType m =
     map_option (\<lambda>g. m\<lparr>mt_worker_in_flight := g\<rparr>) (with_labels [normalizeTaskType u taskType] dec (mt_worker_in_flight m))"

section \<open>HTTP\<close>

text \<open>The writer that remembers the status: what is sent on, and what it was first.\<close>

datatype sent = SentHeader int | SentData gostr | SentFlush

record statusWriter =
  sw_status :: int
  sw_wrote_header :: bool
  sw_sent :: "sent list"

definition WriteHeader :: "int \<Rightarrow> statusWriter \<Rightarrow> statusWriter" where
  "WriteHeader status w =
     (if sw_wrote_header w then w
      else w\<lparr>sw_status := status, sw_wrote_header := True,
        sw_sent := sw_sent w @ [SentHeader status]\<rparr>)"

definition default_header :: "statusWriter \<Rightarrow> statusWriter" where
  "default_header w = (if sw_wrote_header w then w else WriteHeader 200 w)"

definition writer_Write :: "gostr \<Rightarrow> statusWriter \<Rightarrow> statusWriter" where
  "writer_Write data w0 = (let w = default_header w0 in w\<lparr>sw_sent := sw_sent w @ [SentData data]\<rparr>)"

definition writer_Flush :: "statusWriter \<Rightarrow> statusWriter" where
  "writer_Flush w0 = (let w = default_header w0 in w\<lparr>sw_sent := sw_sent w @ [SentFlush]\<rparr>)"

definition writer_ReadFrom :: "gostr \<Rightarrow> statusWriter \<Rightarrow> statusWriter" where
  "writer_ReadFrom data w0 = (let w = default_header w0 in w\<lparr>sw_sent := sw_sent w @ [SentData data]\<rparr>)"

definition fresh_writer :: statusWriter where
  "fresh_writer = \<lparr>sw_status = 200, sw_wrote_header = False, sw_sent = []\<rparr>"

text \<open>
  The middleware around a handler: before it, and after it has returned or panicked, when the deferred
  function runs. The metrics page itself is not counted.
\<close>

definition http_start :: "gostr \<Rightarrow> gostr \<Rightarrow> gostr \<Rightarrow> metrics \<Rightarrow> metrics option" where
  "http_start metricsPath http_verb path m =
     (if path = metricsPath then Some m
      else map_option (\<lambda>g. m\<lparr>mt_http_in_flight := g\<rparr>)
        (with_labels [http_verb, normalizeRoute path] inc (mt_http_in_flight m)))"

definition http_end :: "gostr \<Rightarrow> gostr \<Rightarrow> gostr \<Rightarrow> int \<Rightarrow> int \<Rightarrow> metrics \<Rightarrow> metrics option" where
  "http_end metricsPath http_verb path status duration m =
     (if path = metricsPath then Some m
      else let route = normalizeRoute path
        in Option.bind (with_labels [http_verb, route] dec (mt_http_in_flight m)) (\<lambda>g.
           Option.bind (with_labels [http_verb, route,
             statusClass status] inc (mt_http_requests m)) (\<lambda>requests.
           Option.bind (with_labels [http_verb,
             route] (observe duration) (mt_http_duration m)) (\<lambda>durations.
             Some (m\<lparr>mt_http_in_flight := g, mt_http_requests := requests,
               mt_http_duration := durations\<rparr>)))))"

end
