(* ===== verification/MetricsProperties.thy ===== *)
theory MetricsProperties
  imports Metrics ConfigProperties
begin

text \<open>
  No observation panics, the labels that do not come from the path are short and of few characters, and
  the numbers of requests and of runs add up; the labels that come from the path are not bounded.
\<close>

section \<open>Labels\<close>

definition tidy_label :: "gostr \<Rightarrow> bool" where
  "tidy_label l \<longleftrightarrow> l \<noteq> [] \<and> length l \<le> 64 \<and> list_all label_rune l"

lemma label_rune_text: "label_rune r \<Longrightarrow> r < 0x110000"
  by (auto simp: label_rune_def)

lemma tidy_text: "tidy_label l \<Longrightarrow> text_label l"
  by (auto simp: tidy_label_def text_label_def list_all_iff dest: label_rune_text)

lemma rune_bytes_pos: "1 \<le> length (rune_bytes r)"
  by (simp add: rune_bytes_def utf8_rune_def)

lemma length_byte_length: "length s \<le> byte_length s"
proof (induction s)
  case (Cons r s)
  then show ?case using rune_bytes_pos [of r] by (simp add: byte_length_def)
qed (simp add: byte_length_def)

lemma tidy_words: "list_all tidy_label (map lit
    [''unknown'', ''other'', ''success'', ''timeout'', ''retry'', ''error'', ''true'',
      ''false'', ''input'', ''output'', ''total''])"
  by code_simp

lemmas tidy_word = tidy_words [simplified]

lemma tidy_normalizeLabel [simp]: "tidy_label (normalizeLabel u v)"
proof -
  let ?v = "ToLower u (TrimSpace v)"
  have "tidy_label ?v" if "?v \<noteq> []" "\<not> byte_length ?v > 64" "list_all label_rune ?v"
    using that length_byte_length [of ?v] by (simp add: tidy_label_def)
  then show ?thesis using tidy_word by (simp add: normalizeLabel_def Let_def)
qed

lemma tidy_normalizeStatus [simp]: "tidy_label (normalizeStatus u v)"
  using tidy_word by (simp add: normalizeStatus_def Let_def)

lemma tidy_normalizeTaskType [simp]: "tidy_label (normalizeTaskType u v)"
  by (simp add: normalizeTaskType_def)

lemma tidy_bool_text [simp]: "tidy_label (bool_text b)"
  using tidy_word by (simp add: bool_text_def)

text \<open>The classes of a status.\<close>

definition classes :: "gostr list" where
  "classes = map lit [''unknown'', ''1xx'', ''2xx'', ''3xx'', ''4xx'', ''5xx'']"

lemma statusClass_class: "statusClass s \<in> set classes"
proof (cases "s < 100 \<or> s > 599")
  case False
  then have "s div 100 = 1 \<or> s div 100 = 2 \<or> s div 100 = 3 \<or> s div 100 = 4 \<or> s div 100 = 5" by linarith
  then show ?thesis by (auto simp: statusClass_def classes_def Itoa_def lit_def)
qed (simp add: statusClass_def classes_def)

lemma classes_distinct: "distinct classes"
  by code_simp

lemma class_text: "c \<in> set classes \<Longrightarrow> text_label c"
proof -
  have "list_all text_label classes" by code_simp
  then show "c \<in> set classes \<Longrightarrow> text_label c" by (simp add: list_all_iff)
qed

lemma route_text: "text_label p \<Longrightarrow> text_label (normalizeRoute p)"
  using set_TrimSpace [of p] by (auto simp: normalizeRoute_def text_label_def list_all_iff Let_def lit_def)

section \<open>Operations\<close>

datatype metric_op =
    AgentStarts | AgentEnds | AgentRun gostr bool int int | Transition gostr gostr | ToolCall gostr gostr int
  | ModelCall gostr gostr gostr gostr int | ModelUsed gostr gostr gostr model_usage
  | RetrievalRun gostr int int int | WorkerRun gostr gostr int | WorkerStarts gostr | WorkerEnds gostr
  | RequestStarts gostr gostr | RequestEnds gostr gostr int int

fun perform :: "unicode_tables \<Rightarrow> gostr \<Rightarrow> metric_op \<Rightarrow> metrics \<Rightarrow> metrics option" where
  "perform u mp AgentStarts = AgentStarted"
| "perform u mp AgentEnds = AgentFinished"
| "perform u mp (AgentRun s b d n) = ObserveAgentRun u s b d n"
| "perform u mp (Transition a b) = ObserveAgentTransition u a b"
| "perform u mp (ToolCall t s d) = ObserveTool u t s d"
| "perform u mp (ModelCall k p v s d) = ObserveModel u k p v s d"
| "perform u mp (ModelUsed k p v x) = ReportModelUsage (Some (ModelUsageContext u k p v)) x"
| "perform u mp (RetrievalRun s d c n) = ObserveRetrieval u s d c n"
| "perform u mp (WorkerRun t s d) = ObserveWorker u t s d"
| "perform u mp (WorkerStarts t) = WorkerStarted u t"
| "perform u mp (WorkerEnds t) = WorkerFinished u t"
| "perform u mp (RequestStarts v p) = http_start mp v p"
| "perform u mp (RequestEnds v p s d) = http_end mp v p s d"

fun perform_all :: "unicode_tables \<Rightarrow> gostr \<Rightarrow> metric_op list \<Rightarrow> metrics \<Rightarrow> metrics option" where
  "perform_all u mp [] m = Some m"
| "perform_all u mp (x # xs) m = Option.bind (perform u mp x m) (perform_all u mp xs)"

lemma perform_all_snoc:
  "perform_all u mp (xs @ [x]) m = Option.bind (perform_all u mp xs m) (perform u mp x)"
  by (induction xs arbitrary: m) (auto split: Option.bind_splits)

text \<open>The texts of a request are those of a request line.\<close>

fun text_op :: "metric_op \<Rightarrow> bool" where
  "text_op (RequestStarts v p) \<longleftrightarrow> text_label v \<and> text_label p"
| "text_op (RequestEnds v p s d) \<longleftrightarrow> text_label v \<and> text_label p"
| "text_op _ \<longleftrightarrow> True"

definition started :: "gostr \<Rightarrow> gostr \<Rightarrow> gostr \<Rightarrow> metric_op list \<Rightarrow> int" where
  "started mp v r ops =
     int (length (filter (\<lambda>x. \<exists>p. x = RequestStarts v p \<and> p \<noteq> mp \<and> normalizeRoute p = r) ops))"

definition ended :: "gostr \<Rightarrow> gostr \<Rightarrow> gostr \<Rightarrow> metric_op list \<Rightarrow> int" where
  "ended mp v r ops =
     int (length (filter (\<lambda>x. \<exists>p s d. x = RequestEnds v p s d \<and> p \<noteq> mp \<and> normalizeRoute p = r) ops))"

section \<open>The invariant\<close>

text \<open>A vector whose series have tidy labels only.\<close>

definition tidy_vec :: "'v \<Rightarrow> 'v vec \<Rightarrow> bool" where
  "tidy_vec zero v \<longleftrightarrow> (\<forall>ls. vc_series v ls \<noteq> zero \<longrightarrow> list_all tidy_label ls)"

definition tidy :: "metrics \<Rightarrow> bool" where
  "tidy m \<longleftrightarrow>
     tidy_vec 0 (mt_agent_runs m) \<and> tidy_vec [] (mt_agent_duration m) \<and> tidy_vec 0 (mt_agent_transitions m) \<and>
     tidy_vec 0 (mt_tool_calls m) \<and> tidy_vec [] (mt_tool_duration m) \<and> tidy_vec 0 (mt_model_calls m) \<and>
     tidy_vec [] (mt_model_duration m) \<and> tidy_vec 0 (mt_model_tokens m) \<and> tidy_vec [] (mt_model_cost m) \<and>
     tidy_vec 0 (mt_retrieval_runs m) \<and> tidy_vec [] (mt_retrieval_duration m) \<and> tidy_vec 0 (mt_worker_tasks m) \<and>
     tidy_vec [] (mt_worker_duration m) \<and> tidy_vec 0 (mt_worker_in_flight m)"

definition http_sums :: "gostr \<Rightarrow> metric_op list \<Rightarrow> metrics \<Rightarrow> bool" where
  "http_sums mp ops m \<longleftrightarrow>
     (\<forall>v r. vc_series (mt_http_in_flight m) [v, r] = started mp v r ops - ended mp v r ops \<and>
       (\<Sum>c \<leftarrow> classes. vc_series (mt_http_requests m) [v, r, c]) = ended mp v r ops \<and>
       int (length (vc_series (mt_http_duration m) [v, r])) = ended mp v r ops)"

definition agents_running :: "metric_op list \<Rightarrow> int" where
  "agents_running ops = int (length (filter ((=) AgentStarts) ops)) - int (length (filter ((=) AgentEnds) ops))"

lemma with_labels_Some:
  assumes "length ls = length (md_labels (vc_desc v))" and "list_all text_label ls"
  shows "with_labels ls f v = Some (v\<lparr>vc_series := (vc_series v)(ls := f (vc_series v ls))\<rparr>)"
  using assms by (simp add: with_labels_def)

lemma tidy_vec_update: "tidy_vec zero v \<Longrightarrow> list_all tidy_label ls \<Longrightarrow> tidy_vec zero (v\<lparr>vc_series := (vc_series v)(ls := x)\<rparr>)"
  by (simp add: tidy_vec_def)

text \<open>The vectors keep the descriptions they were made with.\<close>

definition shaped :: "metrics \<Rightarrow> bool" where
  "shaped m \<longleftrightarrow> descriptors m = descriptors NewMetrics"

lemmas new_descs = NewMetrics_def new_vec_def metrics.simps vec.simps

lemma shaped_labels:
  assumes "shaped m"
  shows "length (md_labels (vc_desc (mt_http_requests m))) = 3" "length (md_labels (vc_desc (mt_http_duration m))) = 2"
    "length (md_labels (vc_desc (mt_http_in_flight m))) = 2" "length (md_labels (vc_desc (mt_agent_runs m))) = 2"
    "length (md_labels (vc_desc (mt_agent_duration m))) = 2" "length (md_labels (vc_desc (mt_agent_in_flight m))) = 0"
    "length (md_labels (vc_desc (mt_agent_transitions m))) = 2" "length (md_labels (vc_desc (mt_agent_iterations m))) = 0"
    "length (md_labels (vc_desc (mt_tool_calls m))) = 2" "length (md_labels (vc_desc (mt_tool_duration m))) = 2"
    "length (md_labels (vc_desc (mt_model_calls m))) = 4" "length (md_labels (vc_desc (mt_model_duration m))) = 4"
    "length (md_labels (vc_desc (mt_model_tokens m))) = 4" "length (md_labels (vc_desc (mt_model_cost m))) = 3"
    "length (md_labels (vc_desc (mt_retrieval_runs m))) = 1" "length (md_labels (vc_desc (mt_retrieval_duration m))) = 1"
    "length (md_labels (vc_desc (mt_retrieval_candidates m))) = 0" "length (md_labels (vc_desc (mt_retrieval_returned m))) = 0"
    "length (md_labels (vc_desc (mt_worker_tasks m))) = 2" "length (md_labels (vc_desc (mt_worker_duration m))) = 2"
    "length (md_labels (vc_desc (mt_worker_in_flight m))) = 1"
  using assms by (simp_all add: shaped_def descriptors_def new_descs)

text \<open>Everything but the vectors of requests and the number of running agents may change.\<close>

definition calm_step :: "metrics \<Rightarrow> metrics \<Rightarrow> bool" where
  "calm_step m m' \<longleftrightarrow>
     shaped m' \<and> tidy m' \<and> mt_http_requests m' = mt_http_requests m \<and> mt_http_duration m' = mt_http_duration m \<and>
     mt_http_in_flight m' = mt_http_in_flight m \<and> mt_agent_in_flight m' = mt_agent_in_flight m"

lemmas step_simps = calm_step_def shaped_def descriptors_def tidy_def

lemma tidy_list: "tidy_label l \<Longrightarrow> list_all text_label [] \<and> text_label l"
  by (simp add: tidy_text)

lemmas tidy_texts [simp] =
  tidy_normalizeLabel [THEN tidy_text] tidy_normalizeStatus [THEN tidy_text] tidy_normalizeTaskType [THEN tidy_text]
  tidy_bool_text [THEN tidy_text]

lemma ObserveAgentRun_calm:
  assumes "shaped m" and "tidy m"
  shows "\<exists>m'. ObserveAgentRun u s b d n m = Some m' \<and> calm_step m m'"
  using assms shaped_labels [OF assms(1)]
  by (simp add: ObserveAgentRun_def Let_def with_labels_Some step_simps tidy_vec_update)

lemma ObserveAgentTransition_calm:
  assumes "shaped m" and "tidy m"
  shows "\<exists>m'. ObserveAgentTransition u a b m = Some m' \<and> calm_step m m'"
  using assms shaped_labels [OF assms(1)]
  by (simp add: ObserveAgentTransition_def with_labels_Some step_simps tidy_vec_update)

lemma ObserveTool_calm:
  assumes "shaped m" and "tidy m"
  shows "\<exists>m'. ObserveTool u t s d m = Some m' \<and> calm_step m m'"
  using assms shaped_labels [OF assms(1)]
  by (simp add: ObserveTool_def Let_def with_labels_Some step_simps tidy_vec_update)

lemma ObserveModel_calm:
  assumes "shaped m" and "tidy m"
  shows "\<exists>m'. ObserveModel u k p v s d m = Some m' \<and> calm_step m m'"
  using assms shaped_labels [OF assms(1)]
  by (simp add: ObserveModel_def Let_def with_labels_Some step_simps tidy_vec_update)

lemma ObserveRetrieval_calm:
  assumes "shaped m" and "tidy m"
  shows "\<exists>m'. ObserveRetrieval u s d c n m = Some m' \<and> calm_step m m'"
  using assms shaped_labels [OF assms(1)]
  by (simp add: ObserveRetrieval_def Let_def with_labels_Some step_simps tidy_vec_update)

lemma ObserveWorker_calm:
  assumes "shaped m" and "tidy m"
  shows "\<exists>m'. ObserveWorker u t s d m = Some m' \<and> calm_step m m'"
  using assms shaped_labels [OF assms(1)]
  by (simp add: ObserveWorker_def Let_def with_labels_Some step_simps tidy_vec_update)

lemma WorkerStarted_calm:
  assumes "shaped m" and "tidy m"
  shows "\<exists>m'. WorkerStarted u t m = Some m' \<and> calm_step m m'"
  using assms shaped_labels [OF assms(1)]
  by (simp add: WorkerStarted_def with_labels_Some step_simps tidy_vec_update)

lemma WorkerFinished_calm:
  assumes "shaped m" and "tidy m"
  shows "\<exists>m'. WorkerFinished u t m = Some m' \<and> calm_step m m'"
  using assms shaped_labels [OF assms(1)]
  by (simp add: WorkerFinished_def with_labels_Some step_simps tidy_vec_update)

lemma add_tokens_calm:
  assumes "shaped m" and "tidy m" and "tidy_label a" and "tidy_label b" and "tidy_label c" and "tidy_label t"
  shows "\<exists>m'. add_tokens [a, b, c] t n m = Some m' \<and> calm_step m m'"
  using assms shaped_labels [OF assms(1)]
  by (simp add: add_tokens_def with_labels_Some tidy_text step_simps tidy_vec_update)

lemma calm_step_trans: "calm_step m m' \<Longrightarrow> calm_step m' m'' \<Longrightarrow> calm_step m m''"
  by (simp add: calm_step_def)

lemma ObserveModelUsage_calm:
  assumes "shaped m" and "tidy m"
  shows "\<exists>m'. ObserveModelUsage u k p v x m = Some m' \<and> calm_step m m'"
proof -
  let ?a = "normalizeLabel u k" and ?b = "normalizeLabel u p" and ?c = "normalizeLabel u v"
  let ?in = "max (mu_input x) 0" and ?out = "max (mu_output x) 0"
  obtain m1 where 1: "add_tokens [?a, ?b, ?c] (lit ''input'') ?in m = Some m1" "calm_step m m1"
    using add_tokens_calm [OF assms, of ?a ?b ?c "lit ''input''" ?in] tidy_word by auto
  obtain m2 where 2: "add_tokens [?a, ?b, ?c] (lit ''output'') ?out m1 = Some m2" "calm_step m1 m2"
    using add_tokens_calm [of m1 ?a ?b ?c "lit ''output''" ?out] 1(2) tidy_word by (auto simp: calm_step_def)
  obtain m3 where 3: "add_tokens [?a, ?b,
    ?c] (lit ''total'') (max (mu_total x) (?in + ?out)) m2 = Some m3" "calm_step m2 m3"
    using add_tokens_calm [of m2 ?a ?b ?c "lit ''total''" "max (mu_total x) (?in + ?out)"] 2(2) tidy_word
    by (auto simp: calm_step_def)
  have step: "calm_step m m3" using 1(2) 2(2) 3(2) calm_step_trans by blast
  then have "shaped m3" "tidy m3" by (simp_all add: calm_step_def)
  then have "calm_step m3 (m3\<lparr>mt_model_cost := (mt_model_cost m3)\<lparr>vc_series := (vc_series (mt_model_cost m3))([?a, ?b, ?c] := y)\<rparr>\<rparr>)" for y
    by (simp add: step_simps tidy_vec_update)
  with step calm_step_trans shaped_labels [OF \<open>shaped m3\<close>] show ?thesis
    by (auto simp: ObserveModelUsage_def Let_def 1(1) 2(1) 3(1) with_labels_Some)
qed

section \<open>Requests\<close>

lemma started_snoc [simp]:
  "started mp v r (ops @ [x]) = started mp v r ops +
     (if \<exists>p. x = RequestStarts v p \<and> p \<noteq> mp \<and> normalizeRoute p = r then 1 else 0)"
  by (simp add: started_def)

lemma ended_snoc [simp]:
  "ended mp v r (ops @ [x]) = ended mp v r ops +
     (if \<exists>p s d. x = RequestEnds v p s d \<and> p \<noteq> mp \<and> normalizeRoute p = r then 1 else 0)"
  by (simp add: ended_def)

lemma agents_snoc [simp]:
  "agents_running (ops @ [x]) = agents_running ops + (if x = AgentStarts then 1 else 0) - (if x = AgentEnds then 1 else 0)"
  by (auto simp: agents_running_def)

definition adds_up :: "gostr \<Rightarrow> metric_op list \<Rightarrow> metrics \<Rightarrow> bool" where
  "adds_up mp ops m \<longleftrightarrow>
     shaped m \<and> tidy m \<and> http_sums mp ops m \<and> vc_series (mt_agent_in_flight m) [] = agents_running ops"

lemma sums_calm:
  assumes "adds_up mp ops m" and "calm_step m m'" and "\<forall>v p. x \<noteq> RequestStarts v p" and "\<forall>v p s d. x \<noteq> RequestEnds v p s d"
    and "x \<noteq> AgentStarts" and "x \<noteq> AgentEnds"
  shows "adds_up mp (ops @ [x]) m'"
  using assms by (auto simp: adds_up_def calm_step_def http_sums_def)

lemma sum_classes:
  assumes "c \<in> set classes"
  shows "(\<Sum>d \<leftarrow> classes. (f([v, r, c] := f [v, r, c] + 1)) [v', r', d]) =
    (\<Sum>d \<leftarrow> classes. f [v', r', d]) + (if v' = v \<and> r' = r then 1 else (0::int))"
proof (cases "v' = v \<and> r' = r")
  case True
  have "(\<Sum>d \<leftarrow> cs. (f([v, r, c] := f [v, r, c] + 1)) [v, r,
    d]) = (\<Sum>d \<leftarrow> cs. f [v, r, d]) + int (count_list cs c)" for cs
    by (induction cs) auto
  moreover have "count_list classes c = 1"
    using classes_distinct assms by (simp add: count_list_eq_length_filter distinct_length_filter Int_absorb2)
  ultimately show ?thesis using True by simp
next
  case False
  then have "(f([v, r, c] := f [v, r, c] + 1)) [v', r', d] = f [v', r', d]" for d by auto
  with False show ?thesis by simp
qed

lemma http_start_sums:
  assumes "adds_up mp ops m" and "text_label v" and "text_label p"
  shows "\<exists>m'. http_start mp v p m = Some m' \<and> adds_up mp (ops @ [RequestStarts v p]) m'"
proof (cases "p = mp")
  case True
  with assms(1) show ?thesis by (simp add: http_start_def adds_up_def http_sums_def)
next
  case False
  let ?r = "normalizeRoute p"
  have sh: "shaped m" using assms(1) by (simp add: adds_up_def)
  let ?m = "m\<lparr>mt_http_in_flight := (mt_http_in_flight m)\<lparr>vc_series :=
      (vc_series (mt_http_in_flight m))([v, ?r] := inc (vc_series (mt_http_in_flight m) [v,
        ?r]))\<rparr>\<rparr>"
  have "http_start mp v p m = Some ?m"
    using False assms(2,3) shaped_labels [OF sh] by (simp add: http_start_def with_labels_Some route_text)
  moreover have "adds_up mp (ops @ [RequestStarts v p]) ?m"
    using assms(1) False by (auto simp: adds_up_def http_sums_def shaped_def descriptors_def tidy_def inc_def)
  ultimately show ?thesis by blast
qed

lemma http_end_sums:
  assumes "adds_up mp ops m" and "text_label v" and "text_label p"
  shows "\<exists>m'. http_end mp v p s d m = Some m' \<and> adds_up mp (ops @ [RequestEnds v p s d]) m'"
proof (cases "p = mp")
  case True
  with assms(1) show ?thesis by (simp add: http_end_def adds_up_def http_sums_def)
next
  case False
  let ?r = "normalizeRoute p" and ?c = "statusClass s"
  have sh: "shaped m" using assms(1) by (simp add: adds_up_def)
  let ?m = "m\<lparr>mt_http_in_flight := (mt_http_in_flight m)\<lparr>vc_series :=
      (vc_series (mt_http_in_flight m))([v, ?r] := dec (vc_series (mt_http_in_flight m) [v, ?r]))\<rparr>,
    mt_http_requests := (mt_http_requests m)\<lparr>vc_series :=
      (vc_series (mt_http_requests m))([v, ?r, ?c] := vc_series (mt_http_requests m) [v, ?r, ?c] + 1)\<rparr>,
    mt_http_duration := (mt_http_duration m)\<lparr>vc_series :=
      (vc_series (mt_http_duration m))([v, ?r] := observe d (vc_series (mt_http_duration m) [v,
        ?r]))\<rparr>\<rparr>"
  have "http_end mp v p s d m = Some ?m"
    using False assms(2,3) shaped_labels [OF sh] class_text [OF statusClass_class]
    by (simp add: http_end_def Let_def with_labels_Some route_text inc_def)
  moreover have "http_sums mp (ops @ [RequestEnds v p s d]) ?m"
    unfolding http_sums_def
  proof (intro allI conjI)
    fix v' r'
    show "vc_series (mt_http_in_flight ?m) [v', r'] =
        started mp v' r' (ops @ [RequestEnds v p s d]) - ended mp v' r' (ops @ [RequestEnds v p s d])"
      using assms(1) False by (auto simp: adds_up_def http_sums_def dec_def)
    show "(\<Sum>c \<leftarrow> classes. vc_series (mt_http_requests ?m) [v', r',
      c]) = ended mp v' r' (ops @ [RequestEnds v p s d])"
      using assms(1) False sum_classes [OF statusClass_class,
        of "vc_series (mt_http_requests m)" v ?r s v' r']
      by (auto simp: adds_up_def http_sums_def)
    show "int (length (vc_series (mt_http_duration ?m) [v',
      r'])) = ended mp v' r' (ops @ [RequestEnds v p s d])"
      using assms(1) False by (auto simp: adds_up_def http_sums_def observe_def)
  qed
  moreover have "shaped ?m" "tidy ?m" "vc_series (mt_agent_in_flight ?m) [] = agents_running (ops @ [RequestEnds v p s d])"
    using assms(1) by (simp_all add: adds_up_def shaped_def descriptors_def tidy_def)
  ultimately show ?thesis unfolding adds_up_def by blast
qed

lemma agents_sums:
  assumes "adds_up mp ops m"
  shows "\<exists>m'. AgentStarted m = Some m' \<and> adds_up mp (ops @ [AgentStarts]) m'"
    and "\<exists>m'. AgentFinished m = Some m' \<and> adds_up mp (ops @ [AgentEnds]) m'"
proof -
  have sh: "shaped m" using assms by (simp add: adds_up_def)
  show "\<exists>m'. AgentStarted m = Some m' \<and> adds_up mp (ops @ [AgentStarts]) m'"
    using assms shaped_labels [OF sh]
    by (simp add: AgentStarted_def with_labels_Some adds_up_def http_sums_def shaped_def descriptors_def tidy_def inc_def)
  show "\<exists>m'. AgentFinished m = Some m' \<and> adds_up mp (ops @ [AgentEnds]) m'"
    using assms shaped_labels [OF sh]
    by (simp add: AgentFinished_def with_labels_Some adds_up_def http_sums_def shaped_def descriptors_def tidy_def dec_def)
qed

lemma perform_sums:
  assumes "adds_up mp ops m" and "text_op x"
  shows "\<exists>m'. perform u mp x m = Some m' \<and> adds_up mp (ops @ [x]) m'"
proof -
  have m: "shaped m" "tidy m" using assms(1) by (simp_all add: adds_up_def)
  have calm: "\<exists>m'. perform u mp x m = Some m' \<and> adds_up mp (ops @ [x]) m'"
    if "\<exists>m'. perform u mp x m = Some m' \<and> calm_step m m'" and "\<forall>v p. x \<noteq> RequestStarts v p"
      and "\<forall>v p s d. x \<noteq> RequestEnds v p s d" and "x \<noteq> AgentStarts" and "x \<noteq> AgentEnds"
    using that sums_calm [OF assms(1)] by blast
  note steps = ObserveAgentRun_calm [OF m] ObserveAgentTransition_calm [OF m] ObserveTool_calm [OF m] ObserveModel_calm [OF m]
    ObserveModelUsage_calm [OF m] ObserveRetrieval_calm [OF m] ObserveWorker_calm [OF m] WorkerStarted_calm [OF m]
    WorkerFinished_calm [OF m]
  show ?thesis
  proof (cases x)
    case AgentStarts
    with agents_sums(1) [OF assms(1)] show ?thesis by simp
  next
    case AgentEnds
    with agents_sums(2) [OF assms(1)] show ?thesis by simp
  next
    case (RequestStarts v p)
    with http_start_sums [OF assms(1)] assms(2) show ?thesis by simp
  next
    case (RequestEnds v p s d)
    with http_end_sums [OF assms(1)] assms(2) show ?thesis by simp
  qed (rule calm; simp add: steps ReportModelUsage_def ModelUsageContext_def)+
qed

lemma new_sums: "adds_up mp [] NewMetrics"
  by (simp add: adds_up_def shaped_def tidy_def http_sums_def started_def ended_def agents_running_def tidy_vec_def new_descs)


definition two_requests :: "metric_op list" where
  "two_requests =
     [RequestStarts (lit ''POST'') (lit ''/api/chat/ask''),
       RequestStarts (lit ''POST'') (lit ''/api/chat/ask''),
      ToolCall (lit '' Knowledge-Search '') (lit ''completed'') 5,
      RequestEnds (lit ''POST'') (lit ''/api/chat/ask'') 429 7]"


section \<open>The labels of routes\<close>

text \<open>
  A path with a detour leads a router that cleans paths to the same handler, but is a label of its own:
  there are as many series of one route as there are names, for anyone who sends requests.
\<close>

definition detour :: "gostr \<Rightarrow> gostr" where
  "detour s = lit ''/api/'' @ s @ lit ''/../chat/ask''"

lemma detour_parts:
  assumes "part_ok s"
  shows "path_parts (detour s) = [lit ''api'', s, parent, lit ''chat'', lit ''ask'']"
proof -
  have d: "detour s = 47 # lit ''api'' @ 47 # s @ 47 # parent @ 47 # lit ''chat'' @ 47 # lit ''ask''"
    by (simp add: detour_def lit_def parent_def)
  have "part_ok (lit ''api'')" "part_ok (lit ''chat'')" "part_ok (lit ''ask'')" by (simp_all add: part_ok_def lit_def)
  with assms show ?thesis by (simp add: d path_parts_part)
qed

theorem every_detour_is_a_label:
  assumes "part_ok s" and "s \<noteq> parent" and "s \<noteq> lit ''.''" and "byte_length s \<le> 76"
  shows "Clean (detour s) = lit ''/api/chat/ask''" and "normalizeRoute (detour s) = detour s" and "inj detour"
proof -
  have abs: "IsAbs (detour s)" by (auto simp: IsAbs_iff detour_def lit_def)
  have names: "lit ''api'' \<noteq> parent" "lit ''api'' \<noteq> lit ''.''" "lit ''chat'' \<noteq> parent" "lit ''chat'' \<noteq> lit ''.''"
    "lit ''ask'' \<noteq> parent" "lit ''ask'' \<noteq> lit ''.''" by (simp_all add: parent_def lit_def)
  have "clean_parts (detour s) = [lit ''api'', lit ''chat'', lit ''ask'']"
    using assms(2,3) names by (simp add: clean_parts_def detour_parts [OF assms(1)] abs clean_part_def)
  then show "Clean (detour s) = lit ''/api/chat/ask''" by (simp add: Clean_def render_path_def abs lit_def)
  have "trimmed (detour s)" by (simp add: trimmed_def detour_def lit_def isSpace_def)
  moreover have "byte_length (detour s) \<le> 96"
    using assms(4) by (simp add: detour_def byte_length_def lit_def rune_bytes_def utf8_rune_def)
  moreover have "detour s \<noteq> []" "HasPrefix (detour s) (lit ''/api/'')" by (simp_all add: detour_def HasPrefix_def lit_def)
  ultimately show "normalizeRoute (detour s) = detour s" by (simp add: normalizeRoute_def TrimSpace_of_trimmed)
  show "inj detour" by (rule injI) (simp add: detour_def)
qed

section \<open>The writer\<close>

text \<open>The status that is counted is the one that was sent,
  whatever a handler does with the writer.\<close>

definition writer_ok :: "statusWriter \<Rightarrow> bool" where
  "writer_ok w \<longleftrightarrow>
     (if sw_wrote_header w then \<exists>rest. sw_sent w = SentHeader (sw_status w) # rest \<and> (\<forall>s. SentHeader s \<notin> set rest)
      else sw_sent w = [] \<and> sw_status w = 200)"

theorem counted_status_was_sent:
  "writer_ok fresh_writer"
  "writer_ok w \<Longrightarrow> writer_ok (WriteHeader s w)"
  "writer_ok w \<Longrightarrow> writer_ok (writer_Write data w)"
  "writer_ok w \<Longrightarrow> writer_ok (writer_Flush w)"
  "writer_ok w \<Longrightarrow> writer_ok (writer_ReadFrom data w)"
  by (auto simp: writer_ok_def fresh_writer_def WriteHeader_def writer_Write_def writer_Flush_def writer_ReadFrom_def
      default_header_def Let_def)

end
