(* ===== verification/Evaluate.thy ===== *)
theory Evaluate
  imports Embedding Float64 Config
begin

text \<open>
  The evaluation command, \<open>cmd/evaluate\<close>: reading a suite of questions,
    asking each of them over HTTP with
  several workers, and writing a report. HTTP, the decoder of JSON and the clock are parameters: what
  the workers are answered, and in which order they run, is up to the steps of the machine.
\<close>

section \<open>The suite\<close>

text \<open>A list of the file that is not given is \<open>None\<close>: it is sent as \<open>null\<close>.\<close>

record test_case =
  tc_name :: gostr
  tc_query :: gostr
  tc_doc_ids :: "gostr list option"
  tc_chunk_ids :: "gostr list option"
  tc_route :: gostr
  tc_outcome :: gostr

record suite =
  su_name :: gostr
  su_mode :: gostr
  su_subject :: gostr
  su_top_k :: int
  su_provider :: gostr
  su_model :: gostr
  su_cases :: "test_case list"

definition modeRetrieval :: gostr where
  "modeRetrieval = lit ''retrieval''"

definition modeAnswer :: gostr where
  "modeAnswer = lit ''answer''"

text \<open>The checked cases from the number \<open>i\<close> on, up to the first error,
  and the rest as it is.\<close>

fun validate_cases :: "nat \<Rightarrow> test_case list \<Rightarrow> gerr option \<times> test_case list" where
  "validate_cases i [] = (None, [])"
| "validate_cases i (c0 # cs) =
     (let c = c0\<lparr>tc_name := TrimSpace (tc_name c0), tc_query := TrimSpace (tc_query c0)\<rparr>
      in if tc_query c = [] then
           (Some (Plain (lit ''cases['' @ lit (Itoa (int i)) @ lit ''].query is required'')), c # cs)
         else let named = (if tc_name c = [] then c\<lparr>tc_name := lit ''case-'' @ lit (Itoa (int i + 1))\<rparr> else c);
                  (err, rest) = validate_cases (Suc i) cs
              in (err, named # rest))"

definition validate :: "unicode_tables \<Rightarrow> suite \<Rightarrow> gerr option \<times> suite" where
  "validate u s0 =
     (let mode = ToLower u (TrimSpace (su_mode s0));
          s = s0\<lparr>su_name := TrimSpace (su_name s0), su_subject := TrimSpace (su_subject s0),
            su_mode := (if mode = [] then modeRetrieval else mode)\<rparr>
      in if su_mode s \<noteq> modeRetrieval \<and> su_mode s \<noteq> modeAnswer then
           (Some (Plain (lit ''mode must be retrieval or answer'')), s)
         else if su_subject s = [] then (Some (Plain (lit ''subject_id is required'')), s)
         else if su_top_k s < 0 then (Some (Plain (lit ''top_k must not be negative'')), s)
         else if su_cases s = [] then (Some (Plain (lit ''at least one evaluation case is required'')), s)
         else let (err, cases) = validate_cases 0 (su_cases s) in (err, s\<lparr>su_cases := cases\<rparr>))"

definition loadSuite :: "unicode_tables \<Rightarrow> (bytes \<Rightarrow> gerr + suite) \<Rightarrow> gerr + bytes \<Rightarrow> gerr + suite" where
  "loadSuite u decode file =
     (case file of
        Inl err \<Rightarrow> Inl (Wrapped (lit ''read evaluation suite'') err)
      | Inr data \<Rightarrow>
          (case decode data of
             Inl err \<Rightarrow> Inl (Wrapped (lit ''decode evaluation suite'') err)
           | Inr s0 \<Rightarrow> (case validate u s0 of (Some err,
             _) \<Rightarrow> Inl err | (None, s) \<Rightarrow> Inr s)))"

section \<open>One case\<close>

record eval_metrics =
  ev_recall :: float64
  ev_route_correct :: bool
  ev_passed :: bool
  ev_latency :: int
  ev_candidates :: int
  ev_returned :: int
  ev_citations :: int
  ev_answered :: bool
  ev_outcome_correct :: bool

definition zero_eval_metrics :: eval_metrics where
  "zero_eval_metrics = \<lparr>ev_recall = 0, ev_route_correct = False, ev_passed = False,
    ev_latency = 0, ev_candidates = 0,
     ev_returned = 0, ev_citations = 0, ev_answered = False, ev_outcome_correct = False\<rparr>"

text \<open>A duration is in nanoseconds.\<close>

record case_result =
  cr_name :: gostr
  cr_expected_recall :: bool
  cr_expected_route :: bool
  cr_expected_outcome :: bool
  cr_metrics :: eval_metrics
  cr_duration :: int
  cr_err :: "gerr option"

record runner =
  rn_base :: gostr
  rn_token :: gostr
  rn_concurrency :: int
  rn_timeout :: int

definition newRunner :: "gostr \<Rightarrow> gostr \<Rightarrow> int \<Rightarrow> int \<Rightarrow> gerr + runner" where
  "newRunner base0 token0 concurrency timeout =
     (let base = TrimRightSlash (TrimSpace base0); token = TrimSpace token0
      in if base = [] then Inl (Plain (lit ''base URL is required''))
         else if token = [] then Inl (Plain (lit ''RAG_API_TOKEN is required''))
         else if concurrency < 1 then Inl (Plain (lit ''concurrency must be positive''))
         else Inr \<lparr>rn_base = base, rn_token = token, rn_concurrency = concurrency,
           rn_timeout = timeout\<rparr>)"

datatype payload_value = PText gostr | PNumber int | PTexts "gostr list option"

record case_request =
  cq_url :: gostr
  cq_headers :: "(string \<times> gostr) list"
  cq_payload :: "(string \<times> payload_value) list"

definition case_payload :: "suite \<Rightarrow> test_case \<Rightarrow> (string \<times> payload_value) list" where
  "case_payload s tc =
     [(''subject_id'', PText (su_subject s)), (''query'', PText (tc_query tc)), (''top_k'',
       PNumber (su_top_k s)),
      (''expected_doc_ids'', PTexts (tc_doc_ids tc)), (''expected_chunk_ids'', PTexts (tc_chunk_ids tc)),
      (''expected_route'', PText (tc_route tc))] @
     (if su_mode s = modeAnswer then
        [(''expected_outcome'', PText (tc_outcome tc)), (''llm_provider'', PText (su_provider s)),
         (''llm_model'', PText (su_model s))]
      else [])"

definition endpoint_url :: "runner \<Rightarrow> suite \<Rightarrow> gostr" where
  "endpoint_url rn s =
     rn_base rn @ (if su_mode s = modeAnswer then lit ''/api/chat/ask'' else lit ''/api/retrieval/search'')"

definition case_request :: "runner \<Rightarrow> suite \<Rightarrow> test_case \<Rightarrow> case_request" where
  "case_request rn s tc =
     \<lparr>cq_url = endpoint_url rn s,
      cq_headers = [(''Authorization'', lit ''Bearer '' @ rn_token rn), (''Content-Type'',
        lit ''application/json'')],
      cq_payload = case_payload s tc\<rparr>"

definition empty_result :: "test_case \<Rightarrow> case_result" where
  "empty_result tc =
     \<lparr>cr_name = tc_name tc,
      cr_expected_recall = (length (case_option [] id (tc_doc_ids tc)) + length (case_option [] id (tc_chunk_ids tc)) > 0),
      cr_expected_route = (TrimSpace (tc_route tc) \<noteq> []),
        cr_expected_outcome = (TrimSpace (tc_outcome tc) \<noteq> []),
      cr_metrics = zero_eval_metrics, cr_duration = 0, cr_err = None\<rparr>"

text \<open>
  An answer: its status, the bytes that arrive and what ends them. The library decodes the metrics of a
  body and reads bytes as text.
\<close>

record case_response =
  rp_status :: int
  rp_bytes :: bytes
  rp_error :: "gerr option"

record eval_library =
  el_bad_url :: "gostr \<Rightarrow> gerr option"
  el_decode :: "bytes \<Rightarrow> gerr + eval_metrics"
  el_text :: "bytes \<Rightarrow> gostr"

text \<open>\<open>io.ReadAll\<close> of the first MiB.\<close>

definition read_limited :: "case_response \<Rightarrow> gerr + bytes" where
  "read_limited r =
     (if length (rp_bytes r) \<ge> 2 ^ 20 then Inr (take (2 ^ 20) (rp_bytes r))
      else case rp_error r of Some err \<Rightarrow> Inl err | None \<Rightarrow> Inr (rp_bytes r))"

definition refused_case :: "gerr \<Rightarrow> test_case \<Rightarrow> case_result" where
  "refused_case err tc = (empty_result tc)\<lparr>cr_err := Some (Wrapped (lit ''create request'') err)\<rparr>"

definition answered_case :: "eval_library \<Rightarrow> test_case \<Rightarrow> gerr + case_response \<Rightarrow> int \<Rightarrow> case_result" where
  "answered_case lib tc reply duration =
     (let result = (empty_result tc)\<lparr>cr_duration := duration\<rparr>
      in case reply of
           Inl err \<Rightarrow> result\<lparr>cr_err := Some (Wrapped (lit ''request failed'') err)\<rparr>
         | Inr response \<Rightarrow>
             (case read_limited response of
                Inl err \<Rightarrow> result\<lparr>cr_err := Some (Wrapped (lit ''read response'') err)\<rparr>
              | Inr body \<Rightarrow>
                  if rp_status response < 200 \<or> rp_status response \<ge> 300 then
                    result\<lparr>cr_err := Some (Plain (lit ''HTTP '' @ lit (Itoa (rp_status response)) @ lit '': '' @
                      TrimSpace (el_text lib body)))\<rparr>
                  else case el_decode lib body of
                    Inl err \<Rightarrow> result\<lparr>cr_err := Some (Wrapped (lit ''decode response'') err)\<rparr>
                  | Inr metrics \<Rightarrow> result\<lparr>cr_metrics := metrics\<rparr>))"

section \<open>All cases\<close>

text \<open>
  A worker waits for a case, has one, or waits for the answer to its request, or has left its loop. The
  feeder hands over the cases in order and then closes the channel; the call returns when all workers
  have left. \<open>es_sent\<close> and \<open>es_answers\<close> record what went over the network.
\<close>

datatype eval_worker = Waiting | Holding nat | Asking nat | Gone

record eval_state =
  es_next :: nat
  es_closed :: bool
  es_workers :: "eval_worker list"
  es_results :: "case_result list"
  es_returned :: bool
  es_sent :: "case_request list"
  es_answers :: "(nat \<times> (gerr + case_response) \<times> int) list"

definition zero_result :: case_result where
  "zero_result = \<lparr>cr_name = [], cr_expected_recall = False, cr_expected_route = False,
    cr_expected_outcome = False,
     cr_metrics = zero_eval_metrics, cr_duration = 0, cr_err = None\<rparr>"

definition eval_start :: "runner \<Rightarrow> suite \<Rightarrow> eval_state" where
  "eval_start rn s =
     \<lparr>es_next = 0, es_closed = False,
      es_workers = replicate (nat (min (rn_concurrency rn) (int (length (su_cases s))))) Waiting,
      es_results = replicate (length (su_cases s)) zero_result, es_returned = False,
        es_sent = [], es_answers = []\<rparr>"

inductive eval_step :: "eval_library \<Rightarrow> runner \<Rightarrow> suite \<Rightarrow> eval_state \<Rightarrow> eval_state \<Rightarrow> bool"
  for lib rn s where
  hand_over: "w < length (es_workers e) \<Longrightarrow> es_workers e ! w = Waiting \<Longrightarrow> es_next e < length (su_cases s) \<Longrightarrow>
    eval_step lib rn s e
      (e\<lparr>es_next := Suc (es_next e), es_workers := (es_workers e)[w := Holding (es_next e)]\<rparr>)"
| close_jobs: "es_next e = length (su_cases s) \<Longrightarrow> \<not> es_closed e \<Longrightarrow>
    eval_step lib rn s e (e\<lparr>es_closed := True\<rparr>)"
| refuse: "w < length (es_workers e) \<Longrightarrow> es_workers e ! w = Holding i \<Longrightarrow>
    el_bad_url lib (endpoint_url rn s) = Some err \<Longrightarrow>
    eval_step lib rn s e
      (e\<lparr>es_workers := (es_workers e)[w := Waiting],
         es_results := (es_results e)[i := refused_case err (su_cases s ! i)]\<rparr>)"
| ask: "w < length (es_workers e) \<Longrightarrow> es_workers e ! w = Holding i \<Longrightarrow>
    el_bad_url lib (endpoint_url rn s) = None \<Longrightarrow>
    eval_step lib rn s e
      (e\<lparr>es_workers := (es_workers e)[w := Asking i],
        es_sent := es_sent e @ [case_request rn s (su_cases s ! i)]\<rparr>)"
| answer: "w < length (es_workers e) \<Longrightarrow> es_workers e ! w = Asking i \<Longrightarrow>
    eval_step lib rn s e
      (e\<lparr>es_workers := (es_workers e)[w := Waiting], es_answers := es_answers e @ [(i,
        reply, duration)],
         es_results := (es_results e)[i := answered_case lib (su_cases s ! i) reply duration]\<rparr>)"
| leave: "w < length (es_workers e) \<Longrightarrow> es_workers e ! w = Waiting \<Longrightarrow> es_closed e \<Longrightarrow>
    eval_step lib rn s e (e\<lparr>es_workers := (es_workers e)[w := Gone]\<rparr>)"
| return_results: "es_closed e \<Longrightarrow> \<not> es_returned e \<Longrightarrow> list_all ((=) Gone) (es_workers e) \<Longrightarrow>
    eval_step lib rn s e (e\<lparr>es_returned := True\<rparr>)"

inductive_cases eval_stepE: "eval_step lib rn s e e'"

section \<open>The summary\<close>

record summary =
  sm_total :: nat
  sm_succeeded :: nat
  sm_passed :: nat
  sm_recall_cases :: nat
  sm_recall_total :: float64
  sm_route_cases :: nat
  sm_route_correct :: nat
  sm_outcome_cases :: nat
  sm_outcome_correct :: nat
  sm_citations :: int
  sm_durations :: "int list"

definition count_case :: "case_result \<Rightarrow> summary \<Rightarrow> summary" where
  "count_case r s =
     (if cr_err r \<noteq> None then s
      else let m = cr_metrics r in s\<lparr>
        sm_succeeded := sm_succeeded s + 1,
        sm_passed := sm_passed s + (if ev_passed m then 1 else 0),
        sm_recall_cases := sm_recall_cases s + (if cr_expected_recall r then 1 else 0),
        sm_recall_total := (if cr_expected_recall r then fadd (sm_recall_total s) (ev_recall m) else sm_recall_total s),
        sm_route_cases := sm_route_cases s + (if cr_expected_route r then 1 else 0),
        sm_route_correct := sm_route_correct s + (if cr_expected_route r \<and> ev_route_correct m then 1 else 0),
        sm_outcome_cases := sm_outcome_cases s + (if cr_expected_outcome r then 1 else 0),
        sm_outcome_correct := sm_outcome_correct s + (if cr_expected_outcome r \<and> ev_outcome_correct m then 1 else 0),
        sm_citations := sm_citations s + ev_citations m,
        sm_durations := sm_durations s @ [cr_duration r]\<rparr>)"

definition summarize_results :: "case_result list \<Rightarrow> summary" where
  "summarize_results results =
     fold count_case results
       \<lparr>sm_total = length results, sm_succeeded = 0, sm_passed = 0, sm_recall_cases = 0,
         sm_recall_total = 0,
        sm_route_cases = 0, sm_route_correct = 0, sm_outcome_cases = 0, sm_outcome_correct = 0,
        sm_citations = 0, sm_durations = []\<rparr>"

section \<open>The report\<close>

text \<open>\<open>fmt.Sprintf("%.kf", v)\<close>: the nearest decimal, ties to even.\<close>

definition pad_left :: "nat \<Rightarrow> string \<Rightarrow> string" where
  "pad_left k s = replicate (k - length s) CHR ''0'' @ s"

definition format_fixed :: "nat \<Rightarrow> float64 \<Rightarrow> gostr" where
  "format_fixed k v =
     (let n = nat (round_even (\<bar>v\<bar> * 10 ^ k))
      in lit ((if v < 0 then ''-'' else []) @ digits (n div 10 ^ k) @ ''.'' @ pad_left k (digits (n mod 10 ^ k))))"

definition percentage :: "nat \<Rightarrow> nat \<Rightarrow> float64" where
  "percentage v all =
     (if all = 0 then 0 else fmul (fdiv (float_of_int (int v)) (float_of_int (int all))) 100)"

definition passLabel :: "bool \<Rightarrow> gostr" where
  "passLabel v = (if v then [36890, 36807] else [26410, 36890, 36807])"

definition optionalPercent :: "bool \<Rightarrow> float64 \<Rightarrow> gostr" where
  "optionalPercent enabled v = (if \<not> enabled then lit ''-'' else format_fixed 1 (fmul v 100) @ lit ''%'')"

definition optionalBool :: "bool \<Rightarrow> bool \<Rightarrow> gostr" where
  "optionalBool enabled v = (if \<not> enabled then lit ''-'' else passLabel v)"

definition second :: int where
  "second = 1000000000"

definition truncated_div :: "int \<Rightarrow> int \<Rightarrow> int" where
  "truncated_div a b = (if a < 0 then - (- a div b) else a div b)"

definition duration_seconds :: "int \<Rightarrow> float64" where
  "duration_seconds d =
     (let q = truncated_div d second
      in fadd (float_of_int q) (fdiv (float_of_int (d - q * second)) 1000000000))"

definition formatDuration :: "int \<Rightarrow> gostr" where
  "formatDuration d =
     (if d < second then lit (Itoa (truncated_div d 1000000)) @ lit ''ms''
      else format_fixed 2 (duration_seconds d) @ lit ''s'')"

definition displayName :: "gostr \<Rightarrow> gostr" where
  "displayName name = (if name = [] then [26410, 21629, 21517, 35780, 20272, 38598] else name)"

definition escapeCell :: "gostr \<Rightarrow> gostr" where
  "escapeCell s = ReplaceAll (ReplaceAll s [124] [92, 124]) [10] [32]"

text \<open>\<open>int(x)\<close> truncates; an index outside of the list panics.\<close>

definition percentile_index :: "nat \<Rightarrow> float64 \<Rightarrow> int" where
  "percentile_index n q =
     (let x = fadd (fmul (float_of_int (int n - 1)) q) (1 / 2) in if x < 0 then - \<lfloor>- x\<rfloor> else \<lfloor>x\<rfloor>)"

definition percentile :: "int list \<Rightarrow> float64 \<Rightarrow> gostr option" where
  "percentile durations q =
     (let ordered = sort durations; i = percentile_index (length ordered) q
      in if 0 \<le> i \<and> i < int (length ordered) then Some (formatDuration (ordered ! nat i)) else None)"

text \<open>\<open>time.RFC3339\<close> of a time in its location; the offset is in minutes.\<close>

record civil_time =
  ct_year :: nat
  ct_month :: nat
  ct_day :: nat
  ct_hour :: nat
  ct_minute :: nat
  ct_second :: nat
  ct_offset :: int

definition format_rfc3339 :: "civil_time \<Rightarrow> gostr" where
  "format_rfc3339 t =
     (let two = (\<lambda>n. pad_left 2 (digits n)); minutes = nat \<bar>ct_offset t\<bar>
      in lit (pad_left 4 (digits (ct_year t)) @ ''-'' @ two (ct_month t) @ ''-'' @ two (ct_day t) @ ''T'' @
        two (ct_hour t) @ '':'' @ two (ct_minute t) @ '':'' @ two (ct_second t) @
        (if ct_offset t = 0 then ''Z''
         else (if ct_offset t < 0 then ''-'' else ''+'') @ two (minutes div 60) @ '':'' @ two (minutes mod 60))))"

definition number_text :: "nat \<Rightarrow> gostr" where
  "number_text n = lit (Itoa (int n))"

definition cases_line :: "summary \<Rightarrow> gostr" where
  "cases_line st =
     [45, 32, 29992, 20363, 65306] @ number_text (sm_total st) @ [65292, 65, 80, 73, 32, 25104,
       21151, 65306] @ number_text (sm_succeeded st) @ [65292, 35780, 20272, 36890, 36807, 65306] @
       number_text (sm_passed st) @ [65288] @ format_fixed 1 (percentage (sm_passed st) (sm_total st)) @ [37, 65289, 10]"

definition recall_line :: "summary \<Rightarrow> gostr" where
  "recall_line st =
     (if sm_recall_cases st > 0 then
        [45, 32, 24179, 22343, 32, 82, 101, 99, 97, 108, 108, 64, 75, 65306] @
          format_fixed 1 (fmul (fdiv (sm_recall_total st) (float_of_int (int (sm_recall_cases st)))) 100) @
          [37, 65288] @ number_text (sm_recall_cases st) @ [32, 20010, 26631, 27880, 29992, 20363, 65289, 10]
      else [])"

definition route_line :: "summary \<Rightarrow> gostr" where
  "route_line st =
     (if sm_route_cases st > 0 then
        [45, 32, 36335, 30001, 27491, 30830, 29575,
          65306] @ format_fixed 1 (percentage (sm_route_correct st) (sm_route_cases st)) @ [37, 65288] @
          number_text (sm_route_cases st) @ [32, 20010, 26631, 27880, 29992, 20363, 65289, 10]
      else [])"

definition outcome_line :: "summary \<Rightarrow> gostr" where
  "outcome_line st =
     (if sm_outcome_cases st > 0 then
        [45, 32, 22238, 31572, 32467, 26524, 27491, 30830, 29575,
          65306] @ format_fixed 1 (percentage (sm_outcome_correct st) (sm_outcome_cases st)) @
          [37, 65288] @ number_text (sm_outcome_cases st) @ [32, 20010, 26631, 27880, 29992, 20363, 65289, 10]
      else [])"

definition latency_line :: "summary \<Rightarrow> gostr option" where
  "latency_line st =
     (if sm_durations st = [] then Some []
      else Option.bind (percentile (sm_durations st) (const (50 / 100))) (\<lambda>p50.
        Option.bind (percentile (sm_durations st) (const (95 / 100))) (\<lambda>p95.
        Option.bind (percentile (sm_durations st) (const (99 / 100))) (\<lambda>p99.
          Some ([45, 32, 31471, 21040, 31471, 24310, 36831, 65306, 80, 53, 48,
            32] @ p50 @ [65292, 80, 57, 53, 32] @ p95 @ [65292, 80, 57, 57, 32] @ p99 @ [10])))))"

definition citation_line :: "suite \<Rightarrow> summary \<Rightarrow> gostr" where
  "citation_line s st =
     (if su_mode s = modeAnswer \<and> sm_succeeded st > 0 then
        [45, 32, 24179, 22343, 24341, 29992, 25968, 65306] @
          format_fixed 2 (fdiv (float_of_int (sm_citations st)) (float_of_int (int (sm_succeeded st)))) @ [10]
      else [])"

definition table_header :: gostr where
  "table_header =
     [10, 35, 35, 32, 29992, 20363, 32467, 26524, 10, 10] @ [124, 32, 29992, 20363, 32, 124,
       32, 29366, 24577, 32, 124, 32, 82, 101, 99, 97, 108, 108, 64, 75, 32, 124, 32, 36335,
         30001, 32, 124, 32, 22238, 31572, 32467, 26524, 32, 124, 32, 20505, 36873, 47, 36820,
           22238, 32, 124, 32, 24310, 36831, 32, 124, 10] @
     [124, 32, 45, 45, 45, 32, 124, 32, 45, 45, 45, 32, 124, 32, 45, 45, 45, 58, 32, 124, 32,
       45, 45, 45, 32, 124, 32, 45, 45, 45, 32, 124, 32, 45, 45, 45, 58, 32, 124, 32, 45, 45,
         45, 58, 32, 124, 10]"

definition case_row :: "case_result \<Rightarrow> gostr" where
  "case_row r =
     (case cr_err r of
        Some err \<Rightarrow>
          lit ''| '' @ escapeCell (cr_name r) @ [32, 124, 32, 22833, 36133,
            65306] @ escapeCell (err_text err) @ lit '' | - | - | - | - | '' @
            formatDuration (cr_duration r) @ lit '' |'' @ [10]
      | None \<Rightarrow>
          let m = cr_metrics r
          in lit ''| '' @ escapeCell (cr_name r) @ lit '' | '' @ passLabel (ev_passed m) @ lit '' | '' @
            optionalPercent (cr_expected_recall r) (ev_recall m) @ lit '' | '' @
            optionalBool (cr_expected_route r) (ev_route_correct m) @ lit '' | '' @
            optionalBool (cr_expected_outcome r) (ev_outcome_correct m) @ lit '' | '' @
            lit (Itoa (ev_candidates m)) @ lit ''/'' @ lit (Itoa (ev_returned m)) @ lit '' | '' @
            formatDuration (cr_duration r) @ lit '' |'' @ [10])"

definition renderReport :: "suite \<Rightarrow> case_result list \<Rightarrow> civil_time \<Rightarrow> gostr option" where
  "renderReport s results generated =
     (let st = summarize_results results
      in map_option (\<lambda>latency.
        [35, 32, 82, 65, 71, 32, 36136, 37327, 35780, 20272, 25253, 21578, 10, 10] @
        [45, 32, 35780, 20272, 38598, 65306] @ displayName (su_name s) @ [10] @
        [45, 32, 27169, 24335, 65306] @ su_mode s @ [10] @
        [45, 32, 29983, 25104, 26102, 38388, 65306] @ format_rfc3339 generated @ [10] @
        cases_line st @ recall_line st @ route_line st @ outcome_line st @ latency @ citation_line s st @
        table_header @ concat (map case_row results)) (latency_line st))"

section \<open>The command\<close>

text \<open>The exit status once the report is written.\<close>

definition exit_status :: "bool \<Rightarrow> case_result list \<Rightarrow> int" where
  "exit_status failOnEvaluation results =
     (let st = summarize_results results
      in if sm_succeeded st \<noteq> sm_total st \<or> (failOnEvaluation \<and> sm_passed st \<noteq> sm_total st) then 1 else 0)"

record eval_flags =
  fl_file :: gostr
  fl_base_url :: gostr
  fl_output :: gostr
  fl_concurrency :: int
  fl_timeout :: int
  fl_fail_on_evaluation :: bool

text \<open>What \<open>flag\<close> sets when nothing is given.\<close>

definition default_flags :: eval_flags where
  "default_flags = \<lparr>fl_file = [], fl_base_url = lit ''http://localhost:9999'',
    fl_output = [], fl_concurrency = 1,
     fl_timeout = 120 * second, fl_fail_on_evaluation = True\<rparr>"

text \<open>Before the cases run: an error ends the process with status 2.\<close>

definition prepare_evaluation ::
    "unicode_tables \<Rightarrow> (bytes \<Rightarrow> gerr + suite) \<Rightarrow> (gostr \<Rightarrow> gerr + bytes) \<Rightarrow> gostr \<Rightarrow> eval_flags \<Rightarrow> gerr + suite \<times> runner" where
  "prepare_evaluation u decode files env_token fl =
     (if fl_file fl = [] then Inl (Plain (lit ''-file is required''))
      else case loadSuite u decode (files (fl_file fl)) of
        Inl err \<Rightarrow> Inl err
      | Inr s \<Rightarrow>
          (case newRunner (fl_base_url fl) env_token (fl_concurrency fl) (fl_timeout fl) of
             Inl err \<Rightarrow> Inl err
           | Inr rn \<Rightarrow> Inr (s, rn)))"

text \<open>After them: the report goes to the console or a file, then the process ends.\<close>

definition write_report ::
    "(gostr \<Rightarrow> gerr option) \<Rightarrow> (gostr \<Rightarrow> gostr \<Rightarrow> gerr option) \<Rightarrow> eval_flags \<Rightarrow> gostr \<Rightarrow> gerr option" where
  "write_report mkdir_all write_file fl report =
     (if fl_output fl = [] then None
      else case mkdir_all (Dir (fl_output fl)) of
        Some err \<Rightarrow> Some (Wrapped (lit ''create report directory'') err)
      | None \<Rightarrow> map_option (Wrapped (lit ''write report'')) (write_file (fl_output fl) report))"

definition finish_evaluation ::
    "(gostr \<Rightarrow> gerr option) \<Rightarrow> (gostr \<Rightarrow> gostr \<Rightarrow> gerr option) \<Rightarrow> eval_flags \<Rightarrow> suite \<Rightarrow> case_result list \<Rightarrow>
      civil_time \<Rightarrow> int option" where
  "finish_evaluation mkdir_all write_file fl s results generated =
     map_option (\<lambda>report.
       if write_report mkdir_all write_file fl report \<noteq> None then 2
       else exit_status (fl_fail_on_evaluation fl) results) (renderReport s results generated)"

end
