(* ===== verification/EvaluateProperties.thy ===== *)
theory EvaluateProperties
  imports Evaluate InternalTools SearchSteps "HOL-Library.Multiset"
begin

text \<open>
  However the workers of the evaluation are scheduled, every case is asked once and its result stands at
  its place; the command ends; its status says whether every case passed; the report can be written.
\<close>

section \<open>What the workers hold\<close>

fun held_case :: "eval_worker \<Rightarrow> nat multiset" where
  "held_case (Holding i) = {#i#}"
| "held_case _ = {#}"

fun asked_case :: "eval_worker \<Rightarrow> nat multiset" where
  "asked_case (Asking i) = {#i#}"
| "asked_case _ = {#}"

definition holding :: "eval_state \<Rightarrow> nat multiset" where
  "holding e = sum_list (map held_case (es_workers e))"

definition asking :: "eval_state \<Rightarrow> nat multiset" where
  "asking e = sum_list (map asked_case (es_workers e))"

definition answered :: "eval_state \<Rightarrow> nat multiset" where
  "answered e = mset (map fst (es_answers e))"

lemma sum_list_replace:
  fixes f :: "'a \<Rightarrow> 'b :: comm_monoid_add"
  assumes "w < length xs"
  shows "sum_list (map f (xs[w := x])) + f (xs ! w) = sum_list (map f xs) + f x"
  using assms
proof (induction xs arbitrary: w)
  case (Cons y ys)
  show ?case
  proof (cases w)
    case (Suc v)
    with Cons show ?thesis by (simp add: add.assoc)
  qed (simp add: ac_simps)
qed simp

lemma member_sum_list:
  fixes f :: "'a \<Rightarrow> 'b multiset"
  assumes "w < length xs" and "b \<in># f (xs ! w)"
  shows "b \<in># sum_list (map f xs)"
  using assms by (induction xs arbitrary: w) (auto simp: nth_Cons split: nat.splits)

lemma sum_list_idle:
  fixes f :: "'a \<Rightarrow> 'b multiset"
  shows "(\<And>x. x \<in> set xs \<Longrightarrow> f x = {#}) \<Longrightarrow> sum_list (map f xs) = {#}"
  by (induction xs) auto

lemma sum_list_nothing [simp]: "sum_list (replicate n {#}) = {#}"
  by (induction n) simp_all

lemma first_cases_Suc [simp]: "mset_set {0..<Suc n} = add_mset n (mset_set {0..<n})"
  by (simp add: atLeast0_lessThan_Suc)

section \<open>The invariant\<close>

definition eval_ok :: "eval_library \<Rightarrow> runner \<Rightarrow> suite \<Rightarrow> eval_state \<Rightarrow> bool" where
  "eval_ok lib rn s e \<longleftrightarrow>
     length (es_results e) = length (su_cases s) \<and> es_next e \<le> length (su_cases s) \<and>
     (es_closed e \<longrightarrow> es_next e = length (su_cases s)) \<and> (Gone \<in> set (es_workers e) \<longrightarrow> es_closed e) \<and>
     (es_returned e \<longrightarrow> es_closed e \<and> set (es_workers e) \<subseteq> {Gone})"

definition asked_ok :: "eval_library \<Rightarrow> runner \<Rightarrow> suite \<Rightarrow> eval_state \<Rightarrow> bool" where
  "asked_ok lib rn s e \<longleftrightarrow>
     answered e + asking e + holding e = mset_set {0..<es_next e} \<and>
     mset (es_sent e) = image_mset (\<lambda>i. case_request rn s (su_cases s ! i)) (answered e + asking e) \<and>
     (\<forall>(i, reply,
       d) \<in> set (es_answers e). es_results e ! i = answered_case lib (su_cases s ! i) reply d)"

definition refused_ok :: "suite \<Rightarrow> gerr \<Rightarrow> eval_state \<Rightarrow> bool" where
  "refused_ok s err e \<longleftrightarrow>
     es_sent e = [] \<and> es_answers e = [] \<and> asking e = {#} \<and> (\<forall>i. i \<in># holding e \<longrightarrow> i < es_next e) \<and>
     (\<forall>i < es_next e. i \<in># holding e \<or> es_results e ! i = refused_case err (su_cases s ! i))"

lemma eval_ok_step:
  assumes "eval_step lib rn s e e'" and "eval_ok lib rn s e"
  shows "eval_ok lib rn s e'"
  using assms(1)
proof cases
  case (hand_over w)
  with nth_mem [of w "es_workers e"] assms(2) show ?thesis
    by (auto simp: eval_ok_def dest!: set_update_subset_insert [THEN subsetD])
next
  case (leave w)
  with nth_mem [of w "es_workers e"] assms(2) show ?thesis
    by (auto simp: eval_ok_def dest!: set_update_subset_insert [THEN subsetD])
next
  case (refuse w i err)
  with nth_mem [of w "es_workers e"] assms(2) show ?thesis
    by (auto simp: eval_ok_def dest!: set_update_subset_insert [THEN subsetD])
next
  case (ask w i)
  with nth_mem [of w "es_workers e"] assms(2) show ?thesis
    by (auto simp: eval_ok_def dest!: set_update_subset_insert [THEN subsetD])
next
  case (answer w i reply d)
  with nth_mem [of w "es_workers e"] assms(2) show ?thesis
    by (auto simp: eval_ok_def dest!: set_update_subset_insert [THEN subsetD])
qed (use assms(2) in \<open>auto simp: eval_ok_def list_all_iff\<close>)

text \<open>How a step moves a case from one multiset to another.\<close>

lemma worker_moves:
  assumes "w < length (es_workers e)" and "es_workers e' = (es_workers e)[w := x]"
  shows "holding e' + held_case (es_workers e ! w) = holding e + held_case x"
    and "asking e' + asked_case (es_workers e ! w) = asking e + asked_case x"
  using sum_list_replace [OF assms(1), of held_case x] sum_list_replace [OF assms(1), of asked_case x]
  by (simp_all add: holding_def asking_def assms(2))

lemma moves_same:
  "es_workers e' = es_workers e \<Longrightarrow> holding e' = holding e \<and> asking e' = asking e"
  by (simp add: holding_def asking_def)

lemma asked_ok_step:
  assumes "eval_step lib rn s e e'" and "asked_ok lib rn s e" and "eval_ok lib rn s e"
    and "el_bad_url lib (endpoint_url rn s) = None"
  shows "asked_ok lib rn s e'"
  using assms(1)
proof cases
  case (hand_over w)
  then have "holding e' = add_mset (es_next e) (holding e)" "asking e' = asking e"
    using worker_moves [of w e e' "Holding (es_next e)"] by simp_all
  with hand_over assms(2) show ?thesis by (simp add: asked_ok_def answered_def add_ac)
next
  case (refuse w i err)
  with assms(4) show ?thesis by simp
next
  case (ask w i)
  then have m: "holding e = add_mset i (holding e')" "asking e' = add_mset i (asking e)"
    using worker_moves [of w e e' "Asking i"] by simp_all
  with ask assms(2) show ?thesis by (simp add: asked_ok_def answered_def)
next
  case (answer w i reply d)
  then have m: "holding e' = holding e" "asking e = add_mset i (asking e')"
    using worker_moves [of w e e' Waiting] by simp_all
  have all: "answered e + asking e + holding e = mset_set {0..<es_next e}" using assms(2) by (simp add: asked_ok_def)
  have "count (answered e) i + count (asking e) i \<le> count (answered e + asking e + holding e) i" by simp
  also have "\<dots> = count (mset_set {0..<es_next e}) i" by (simp only: all)
  also have "\<dots> \<le> 1" by (simp add: count_mset_set')
  finally have "count (answered e) i = 0" by (simp add: m(2))
  then have "i \<notin># answered e" by (simp only: not_in_iff)
  then have fresh: "(i, reply', d') \<notin> set (es_answers e)" for reply' d' by (force simp: answered_def)
  have "i \<in># answered e + asking e + holding e" by (simp add: m(2))
  then have "i \<in># mset_set {0..<es_next e}" by (simp only: all)
  then have "i < length (es_results e)" using assms(3) by (simp add: eval_ok_def)
  with fresh have "es_results e' ! j = answered_case lib (su_cases s ! j) reply' d'"
    if "(j, reply', d') \<in> set (es_answers e')" for j reply' d'
    using answer that assms(2) by (cases "j = i") (auto simp: asked_ok_def)
  with answer assms(2) m show ?thesis by (auto simp: asked_ok_def answered_def)
next
  case (leave w)
  then have "holding e' = holding e" "asking e' = asking e"
    using worker_moves [of w e e' Gone] by simp_all
  with leave assms(2) show ?thesis by (simp add: asked_ok_def answered_def)
qed (use assms(2) moves_same [of e' e] in \<open>simp_all add: asked_ok_def answered_def\<close>)

lemma refused_ok_step:
  assumes "eval_step lib rn s e e'" and "refused_ok s err e" and "eval_ok lib rn s e"
    and "el_bad_url lib (endpoint_url rn s) = Some err"
  shows "refused_ok s err e'"
  using assms(1)
proof cases
  case (hand_over w)
  then have "holding e' = add_mset (es_next e) (holding e)" "asking e' = asking e"
    using worker_moves [of w e e' "Holding (es_next e)"] by simp_all
  with hand_over assms(2) show ?thesis by (auto simp: refused_ok_def less_Suc_eq)
next
  case (refuse w i err')
  then have m: "holding e = add_mset i (holding e')" "asking e' = asking e"
    using worker_moves [of w e e' Waiting] by simp_all
  with assms(2,3) have "i < length (es_results e)" by (fastforce simp: refused_ok_def eval_ok_def)
  with refuse m assms(2,4) show ?thesis by (auto simp: refused_ok_def nth_list_update)
next
  case (ask w i)
  with assms(4) show ?thesis by simp
next
  case (answer w i reply d)
  then have "i \<in># asking e" unfolding asking_def by (intro member_sum_list [of w]) simp_all
  with assms(2) show ?thesis by (simp add: refused_ok_def)
next
  case (leave w)
  then have "holding e' = holding e" "asking e' = asking e"
    using worker_moves [of w e e' Gone] by simp_all
  with leave assms(2) show ?thesis by (simp add: refused_ok_def)
qed (use assms(2) moves_same [of e' e] in \<open>simp_all add: refused_ok_def\<close>)

definition eval_inv :: "eval_library \<Rightarrow> runner \<Rightarrow> suite \<Rightarrow> eval_state \<Rightarrow> bool" where
  "eval_inv lib rn s e \<longleftrightarrow>
     eval_ok lib rn s e \<and> length (es_workers e) = nat (min (rn_concurrency rn) (int (length (su_cases s)))) \<and>
     (case el_bad_url lib (endpoint_url rn s) of None \<Rightarrow> asked_ok lib rn s e | Some err \<Rightarrow> refused_ok s err e)"

interpretation evaluation: invariant_system "eval_step lib rn s" "eval_inv lib rn s"
proof unfold_locales
  fix e e'
  assume step: "eval_step lib rn s e e'" and inv: "eval_inv lib rn s e"
  from step have "length (es_workers e') = length (es_workers e)" by cases simp_all
  with inv step show "eval_inv lib rn s e'"
    by (auto simp: eval_inv_def intro: eval_ok_step asked_ok_step refused_ok_step split: option.splits)
qed

lemma start_inv: "eval_inv lib rn s (eval_start rn s)"
  by (auto simp: eval_inv_def eval_start_def eval_ok_def asked_ok_def refused_ok_def holding_def asking_def answered_def
      intro!: sum_list_idle split: option.splits)

section \<open>The end\<close>

fun weight :: "eval_worker \<Rightarrow> nat" where
  "weight Waiting = 1"
| "weight (Holding i) = 3"
| "weight (Asking i) = 2"
| "weight Gone = 0"

definition eval_todo :: "suite \<Rightarrow> eval_state \<Rightarrow> nat" where
  "eval_todo s e =
     4 * (length (su_cases s) - es_next e) + sum_list (map weight (es_workers e)) +
     (if es_closed e then 0 else 1) + (if es_returned e then 0 else 1)"

lemma eval_step_todo:
  assumes "eval_step lib rn s e e'"
  shows "eval_todo s e' < eval_todo s e"
  using assms
proof cases
  case (hand_over w)
  with sum_list_replace [of w "es_workers e" weight "Holding (es_next e)"] show ?thesis by (simp add: eval_todo_def)
next
  case (refuse w i err)
  with sum_list_replace [of w "es_workers e" weight Waiting] show ?thesis by (simp add: eval_todo_def)
next
  case (ask w i)
  with sum_list_replace [of w "es_workers e" weight "Asking i"] show ?thesis by (simp add: eval_todo_def)
next
  case (answer w i reply d)
  with sum_list_replace [of w "es_workers e" weight Waiting] show ?thesis by (simp add: eval_todo_def)
next
  case (leave w)
  with sum_list_replace [of w "es_workers e" weight Gone] show ?thesis by (simp add: eval_todo_def)
qed (simp_all add: eval_todo_def)

lemma eval_steps_todo: "(eval_step lib rn s ^^ k) e e' \<Longrightarrow> k + eval_todo s e' \<le> eval_todo s e"
proof (induction k arbitrary: e')
  case (Suc k)
  then obtain e1 where "(eval_step lib rn s ^^ k) e e1" "eval_step lib rn s e1 e'" by auto
  with Suc.IH [of e1] eval_step_todo [of lib rn s e1 e'] show ?case by simp
qed simp

lemma start_todo: "eval_todo s (eval_start rn s) \<le> 5 * length (su_cases s) + 2"
  by (simp add: eval_todo_def eval_start_def sum_list_replicate)

text \<open>Until the results are returned some step can be taken.\<close>

lemma eval_progress:
  assumes inv: "eval_inv lib rn s e" and "1 \<le> rn_concurrency rn" and "\<not> es_returned e"
  shows "\<exists>e'. eval_step lib rn s e e'"
proof (cases "set (es_workers e) \<subseteq> {Gone}")
  case True
  show ?thesis
  proof (cases "es_closed e")
    case True
    with assms(3) \<open>set (es_workers e) \<subseteq> {Gone}\<close> show ?thesis
      by (intro exI) (rule eval_step.return_results, auto simp: list_all_iff)
  next
    case False
    with inv True have "es_workers e = []" by (cases "es_workers e") (auto simp: eval_inv_def eval_ok_def)
    with inv have "min (rn_concurrency rn) (int (length (su_cases s))) \<le> 0" by (simp add: eval_inv_def)
    with assms(2) have "su_cases s = []" by (simp add: min_def split: if_splits)
    with inv False show ?thesis
      by (intro exI) (rule eval_step.close_jobs, auto simp: eval_inv_def eval_ok_def)
  qed
next
  case False
  then obtain x where "x \<in> set (es_workers e)" "x \<noteq> Gone" by blast
  then obtain w where w: "w < length (es_workers e)" "es_workers e ! w \<noteq> Gone"
    by (auto simp: in_set_conv_nth)
  show ?thesis
  proof (cases "es_workers e ! w")
    case Waiting
    consider "es_closed e" | "es_next e < length (su_cases s)" | "\<not> es_closed e" "es_next e = length (su_cases s)"
      using inv by (fastforce simp: eval_inv_def eval_ok_def)
    then show ?thesis using w(1) Waiting by cases (blast intro: eval_step.intros)+
  next
    case (Holding i)
    with w(1) show ?thesis by (cases "el_bad_url lib (endpoint_url rn s)") (blast intro: eval_step.intros)+
  next
    case (Asking i)
    with w(1) show ?thesis by (blast intro: eval_step.answer)
  qed (use w(2) in simp)
qed

section \<open>The exit status\<close>

definition passed_reply :: "eval_library \<Rightarrow> gerr + case_response \<Rightarrow> bool" where
  "passed_reply lib reply \<longleftrightarrow>
     (\<exists>r body m. reply = Inr r \<and> read_limited r = Inr body \<and> 200 \<le> rp_status r \<and> rp_status r < 300 \<and>
       el_decode lib body = Inr m \<and> ev_passed m)"

definition passed_result :: "case_result \<Rightarrow> bool" where
  "passed_result r \<longleftrightarrow> cr_err r = None \<and> ev_passed (cr_metrics r)"

lemma passed_answered [simp]: "passed_result (answered_case lib tc reply d) \<longleftrightarrow> passed_reply lib reply"
  by (auto simp: passed_result_def passed_reply_def answered_case_def empty_result_def zero_eval_metrics_def Let_def
      split: sum.splits if_splits)

lemma passed_refused [simp]: "\<not> passed_result (refused_case err tc)"
  by (simp add: passed_result_def refused_case_def)

lemma case_names [simp]:
  "cr_name (refused_case err tc) = tc_name tc" "cr_name (answered_case lib tc reply d) = tc_name tc"
  by (auto simp: refused_case_def answered_case_def empty_result_def Let_def split: sum.splits)

lemma count_case_counts:
  "sm_total (fold count_case rs st) = sm_total st"
  "sm_succeeded (fold count_case rs st) = sm_succeeded st + length (filter (\<lambda>r. cr_err r = None) rs)"
  "sm_passed (fold count_case rs st) = sm_passed st + length (filter passed_result rs)"
  by (induction rs arbitrary: st) (auto simp: count_case_def passed_result_def Let_def)

lemma filter_all_iff: "length (filter P xs) = length xs \<longleftrightarrow> (\<forall>x \<in> set xs. P x)"
  using length_filter_less [of _ xs P] by (metis filter_True less_irrefl)

lemma exit_status_zero: "exit_status True rs = 0 \<longleftrightarrow> (\<forall>r \<in> set rs. passed_result r)"
  by (auto simp: exit_status_def summarize_results_def Let_def count_case_counts filter_all_iff)
    (auto simp: passed_result_def)

lemma returned_results:
  assumes "eval_inv lib rn s e" and "es_returned e"
  shows "length (es_results e) = length (su_cases s)" and "holding e = {#}" and "asking e = {#}"
    and "es_next e = length (su_cases s)"
proof -
  have all: "x = Gone" if "x \<in> set (es_workers e)" for x
    using assms that by (auto simp: eval_inv_def eval_ok_def)
  show "holding e = {#}" "asking e = {#}" unfolding holding_def asking_def
    by (auto intro!: sum_list_idle dest!: all)
  show "length (es_results e) = length (su_cases s)" "es_next e = length (su_cases s)"
    using assms by (auto simp: eval_inv_def eval_ok_def)
qed

lemma returned_case:
  assumes "eval_inv lib rn s e" and "es_returned e" and "i < length (su_cases s)"
  shows "cr_name (es_results e ! i) = tc_name (su_cases s ! i) \<and>
    (passed_result (es_results e ! i) \<longleftrightarrow> (\<exists>reply d. (i, reply,
      d) \<in> set (es_answers e) \<and> passed_reply lib reply))"
proof (cases "el_bad_url lib (endpoint_url rn s)")
  case (Some err)
  with assms returned_results [OF assms(1,2)] have "es_answers e = []"
    "es_results e ! i = refused_case err (su_cases s ! i)" by (auto simp: eval_inv_def refused_ok_def)
  then show ?thesis by simp
next
  case None
  with assms(1) have ok: "asked_ok lib rn s e" by (simp add: eval_inv_def)
  with returned_results [OF assms(1,2)] have "answered e = mset_set {0..<length (su_cases s)}"
    by (simp add: asked_ok_def)
  with assms(3) have "i \<in># answered e" by simp
  then obtain reply d where a: "(i, reply, d) \<in> set (es_answers e)" by (auto simp: answered_def)
  have r: "es_results e ! i = answered_case lib (su_cases s ! i) reply' d'" if "(i, reply',
    d') \<in> set (es_answers e)"
    for reply' d' using ok that by (auto simp: asked_ok_def)
  from r [OF a] have "cr_name (es_results e ! i) = tc_name (su_cases s ! i)" by simp
  moreover have "passed_result (es_results e ! i) \<longleftrightarrow>
      (\<exists>reply d. (i, reply, d) \<in> set (es_answers e) \<and> passed_reply lib reply)"
    using r a by (metis passed_answered)
  ultimately show ?thesis ..
qed

lemma newRunner_positive: "newRunner b t c d = Inr rn \<Longrightarrow> 1 \<le> rn_concurrency rn"
  by (auto simp: newRunner_def Let_def split: if_splits)


text \<open>Two workers, one case: it is asked, answered and passes.\<close>

definition passing_metrics :: eval_metrics where
  "passing_metrics = zero_eval_metrics\<lparr>ev_passed := True\<rparr>"

definition passing_library :: eval_library where
  "passing_library = \<lparr>el_bad_url = (\<lambda>_. None),
    el_decode = (\<lambda>_. Inr passing_metrics), el_text = (\<lambda>bs. bs)\<rparr>"

definition one_case :: suite where
  "one_case = \<lparr>su_name = [], su_mode = modeRetrieval, su_subject = lit ''s'',
    su_top_k = 5, su_provider = [],
     su_model = [], su_cases = [\<lparr>tc_name = lit ''c'', tc_query = lit ''q'',
       tc_doc_ids = None, tc_chunk_ids = None,
       tc_route = [], tc_outcome = []\<rparr>]\<rparr>"

definition two_workers :: runner where
  "two_workers = \<lparr>rn_base = lit ''http://h'', rn_token = lit ''t'', rn_concurrency = 2,
    rn_timeout = 0\<rparr>"

definition ok_response :: case_response where
  "ok_response = \<lparr>rp_status = 200, rp_bytes = [], rp_error = None\<rparr>"

definition one_answered :: eval_state where
  "one_answered = \<lparr>es_next = 1, es_closed = True, es_workers = [Gone],
     es_results = [answered_case passing_library (hd (su_cases one_case)) (Inr ok_response) 7],
       es_returned = True,
     es_sent = [case_request two_workers one_case (hd (su_cases one_case))], es_answers = [(0,
       Inr ok_response, 7)]\<rparr>"

lemma six_steps:
  assumes "R a b" and "R b c" and "R c d" and "R d e" and "R e f" and "R f g"
  shows "(R ^^ 6) a g"
proof -
  have "(R ^^ Suc (Suc (Suc (Suc (Suc (Suc 0)))))) a g"
    by (rule relpowp_Suc_I2, rule assms(1), rule relpowp_Suc_I2, rule assms(2),
      rule relpowp_Suc_I2, rule assms(3),
        rule relpowp_Suc_I2, rule assms(4), rule relpowp_Suc_I2, rule assms(5),
          rule relpowp_Suc_I2, rule assms(6)) simp
  moreover have "(6 :: nat) = Suc (Suc (Suc (Suc (Suc (Suc 0)))))" by simp
  ultimately show ?thesis by (simp only:)
qed

lemma one_run: "(eval_step passing_library two_workers one_case ^^ 6) (eval_start two_workers one_case) one_answered"
proof -
  let ?R = "eval_step passing_library two_workers one_case"
  let ?e0 = "eval_start two_workers one_case"
  let ?e1 = "?e0\<lparr>es_next := Suc (es_next ?e0),
    es_workers := (es_workers ?e0)[0 := Holding (es_next ?e0)]\<rparr>"
  let ?tc = "su_cases one_case ! 0"
  let ?e2 = "?e1\<lparr>es_workers := (es_workers ?e1)[0 := Asking 0],
    es_sent := es_sent ?e1 @ [case_request two_workers one_case ?tc]\<rparr>"
  let ?e3 = "?e2\<lparr>es_workers := (es_workers ?e2)[0 := Waiting],
    es_answers := es_answers ?e2 @ [(0, Inr ok_response, 7)],
    es_results := (es_results ?e2)[0 := answered_case passing_library ?tc (Inr ok_response) 7]\<rparr>"
  let ?e4 = "?e3\<lparr>es_closed := True\<rparr>"
  let ?e5 = "?e4\<lparr>es_workers := (es_workers ?e4)[0 := Gone]\<rparr>"
  have start: "es_workers ?e0 = [Waiting]" "es_next ?e0 = 0" "length (su_cases one_case) = 1"
    by (simp_all add: eval_start_def two_workers_def one_case_def)
  have 1: "?R ?e0 ?e1" by (rule eval_step.hand_over) (simp_all add: start)
  have 2: "?R ?e1 ?e2" by (rule eval_step.ask) (simp_all add: start passing_library_def)
  have 3: "?R ?e2 ?e3" by (rule eval_step.answer) (simp_all add: start)
  have 4: "?R ?e3 ?e4" by (rule eval_step.close_jobs) (simp_all add: start eval_start_def)
  have 5: "?R ?e4 ?e5" by (rule eval_step.leave) (simp_all add: start)
  have 6: "?R ?e5 (?e5\<lparr>es_returned := True\<rparr>)"
    by (rule eval_step.return_results) (simp_all add: start eval_start_def two_workers_def)
  have "?e5\<lparr>es_returned := True\<rparr> = one_answered"
    by (simp add: one_answered_def eval_start_def two_workers_def one_case_def)
  with six_steps [of ?R, OF 1 2 3 4 5 6] show ?thesis by simp
qed


section \<open>The report\<close>

text \<open>The index of a percentile is one of the list, so the report can always be written.\<close>

lemma percentile_index_ok:
  assumes "0 < n" and "n \<le> 2 ^ 52" and "0 \<le> q" and "q \<le> 1"
  shows "0 \<le> percentile_index n q \<and> percentile_index n q < int n"
proof -
  let ?m = "of_int (int n - 1) :: rat"
  have m: "0 \<le> ?m" using assms(1) by simp
  have f: "0 \<le> float_of_int (int n - 1)" using m by (simp only: float_of_int_def rnd_nonneg)
  have "int n \<le> 2 ^ 52" using assms(2) by simp
  then have "(of_int (2 * int n - 1) :: rat) \<le> of_int (2 ^ 53)" unfolding of_int_le_iff by simp
  then have big: "(of_int (2 * int n - 1) :: rat) \<le> two_to 53" by (simp add: two_to_def)
  have whole: "rnd ?m = ?m"
  proof (cases "n = 1")
    case False
    with assms(1) have "(of_int (int n - 1) :: rat) \<le> of_int (2 * int n - 1)" unfolding of_int_le_iff by simp
    with big have "of_int (int n - 1) \<le> two_to 53" by linarith
    with rnd_significand [of "int n - 1" 0] False assms(1) show ?thesis by simp
  qed simp
  have "?m + 1 / 2 = of_int (2 * int n - 1) * two_to (- 1)" by (simp add: two_to_def field_simps)
  with rnd_significand [of "2 * int n - 1" "- 1"] big assms(1) have half: "rnd (?m + 1 / 2) = ?m + 1 / 2" by simp
  let ?x = "fadd (fmul (float_of_int (int n - 1)) q) (1 / 2)"
  have "0 \<le> fmul (float_of_int (int n - 1)) q" unfolding fmul_def by (rule rnd_nonneg) (use f assms(3) in simp)
  then have lo: "0 \<le> ?x" unfolding fadd_def by (intro rnd_nonneg) simp
  have "float_of_int (int n - 1) * q \<le> ?m" using f assms(4) m
    by (simp only: float_of_int_def whole mult_left_le)
  then have "fmul (float_of_int (int n - 1)) q \<le> ?m" unfolding fmul_def using rnd_mono whole by metis
  then have "?x \<le> rnd (?m + 1 / 2)" unfolding fadd_def by (intro rnd_mono) simp
  then have "?x \<le> ?m + 1 / 2" by (simp only: half)
  then have "?x < of_int (int n)" by simp
  with lo show ?thesis by (simp add: percentile_index_def Let_def floor_less_iff)
qed

lemma percentile_Some:
  assumes "ds \<noteq> []" and "length ds \<le> 2 ^ 52" and "0 \<le> q" and "q \<le> 1"
  shows "\<exists>t. percentile ds q = Some t"
  using percentile_index_ok [of "length ds" q] assms by (simp add: percentile_def Let_def)

lemma quantile_unit: "0 \<le> c \<Longrightarrow> c \<le> 1 \<Longrightarrow> 0 \<le> const c \<and> const c \<le> 1"
  unfolding const_def using rnd_nonneg [of c] rnd_mono [of c 1] by simp

lemma length_durations: "length (sm_durations (fold count_case rs st)) \<le> length (sm_durations st) + length rs"
proof (induction rs arbitrary: st)
  case (Cons r rs)
  have "length (sm_durations (count_case r st)) \<le> Suc (length (sm_durations st))"
    by (simp add: count_case_def Let_def)
  with Cons.IH [of "count_case r st"] show ?case by simp
qed simp

theorem report_is_rendered:
  assumes "length results \<le> 2 ^ 52"
  shows "\<exists>report. renderReport s results generated = Some (report @ concat (map case_row results))"
proof -
  let ?ds = "sm_durations (summarize_results results)"
  have "length ?ds \<le> length results"
    unfolding summarize_results_def by (rule le_trans [OF length_durations]) simp
  with assms have len: "length ?ds \<le> 2 ^ 52" by (rule le_trans [rotated])
  have q: "\<exists>t. percentile ?ds (const c) = Some t" if "?ds \<noteq> []" "0 \<le> c" "c \<le> 1" for c
    using percentile_Some [OF that(1) len, of "const c"] quantile_unit [OF that(2,3)] by blast
  have "\<exists>l. latency_line (summarize_results results) = Some l"
  proof (cases "?ds = []")
    case False
    with q [of "50 / 100"] q [of "95 / 100"] q [of "99 / 100"] show ?thesis by (auto simp: latency_line_def)
  qed (simp add: latency_line_def)
  then show ?thesis by (auto simp: renderReport_def Let_def)
qed

text \<open>Bars that separate cells: those without a backslash before them.\<close>

fun bars :: "bool \<Rightarrow> gostr \<Rightarrow> nat" where
  "bars b [] = 0"
| "bars b (r # s) = (if r = 124 \<and> \<not> b then 1 else 0) + bars (r = 92) s"

lemma bars_append: "bars b (s @ t) = bars b s + bars (if s = [] then b else last s = 92) t"
  by (induction s arbitrary: b) auto

lemma bars_none: "124 \<notin> set s \<Longrightarrow> bars b s = 0"
  by (induction s arbitrary: b) auto

lemma Split_Nil [simp]: "Split [] [q] = [[]]"
  by (subst Split.simps) simp

lemma ReplaceAll_Nil [simp]: "ReplaceAll [] [q] new = []"
  by (simp add: ReplaceAll_def)

lemma ReplaceAll_Cons:
  "ReplaceAll (r # s) [q] new = (if r = q then new else [r]) @ ReplaceAll s [q] new"
  by (simp add: ReplaceAll_def Split_char_Cons Join_Cons Join_Cons_head)

lemma escapeCell_Nil [simp]: "escapeCell [] = []"
  by (simp add: escapeCell_def)

lemma escapeCell_Cons [simp]:
  "escapeCell (r # s) = (if r = 124 then [92, 124] else if r = 10 then [32] else [r]) @ escapeCell s"
  by (simp add: escapeCell_def ReplaceAll_Cons)

lemma bars_cell [simp]: "bars b (escapeCell s) = 0"
  by (induction s arbitrary: b) auto

lemma cell_line [simp]: "10 \<notin> set (escapeCell s)"
  by (induction s) auto

text \<open>The texts between the cells.\<close>

definition plain_cell :: "gostr \<Rightarrow> bool" where
  "plain_cell s \<longleftrightarrow> 124 \<notin> set s \<and> 10 \<notin> set s"

lemma plain_cell_append [simp]: "plain_cell (s @ t) \<longleftrightarrow> plain_cell s \<and> plain_cell t"
  by (auto simp: plain_cell_def)

lemma plain_digits: "(\<And>c. c \<in> set s \<Longrightarrow> digit_char c) \<Longrightarrow> plain_cell (lit s)"
  by (fastforce simp: plain_cell_def lit_def digit_char_def)

lemma plain_Itoa [simp]: "plain_cell (lit (Itoa n))"
proof (cases "n < 0")
  case True
  have "plain_cell (lit (digits (nat (- n))))" by (rule plain_digits) (rule digits_ascii)
  with True show ?thesis by (simp add: Itoa_def lit_def plain_cell_def del: digits.simps)
next
  case False
  have "plain_cell (lit (digits (nat n)))" by (rule plain_digits) (rule digits_ascii)
  with False show ?thesis by (simp add: Itoa_def del: digits.simps)
qed

lemma plain_fixed [simp]: "plain_cell (format_fixed k v)"
proof -
  have "plain_cell (lit (digits m))" for m by (rule plain_digits) (rule digits_ascii)
  moreover have "plain_cell (lit (pad_left k (digits m)))" for m
    by (rule plain_digits) (auto simp: pad_left_def digit_char_def dest: digits_ascii simp del: digits.simps)
  moreover have "lit (s @ t) = lit s @ lit t" for s t by (simp add: lit_def)
  moreover have "plain_cell (lit [])" "plain_cell (lit ''-'')"
    "plain_cell (lit (CHR ''.'' # s)) \<longleftrightarrow> plain_cell (lit s)" for s
    by (simp_all add: plain_cell_def lit_def)
  ultimately show ?thesis by (simp add: format_fixed_def Let_def del: digits.simps)
qed

lemma plain_words [simp]:
  "plain_cell (lit ''-'')" "plain_cell (lit ''%'')" "plain_cell (lit ''ms'')" "plain_cell (lit ''s'')"
  "plain_cell (lit ''/'')" "plain_cell (passLabel b)"
  by (simp_all add: plain_cell_def lit_def passLabel_def)

lemma plain_columns [simp]:
  "plain_cell (formatDuration d)" "plain_cell (optionalPercent b v)" "plain_cell (optionalBool b c)"
  by (simp_all add: formatDuration_def optionalPercent_def optionalBool_def)

lemma bars_plain: "plain_cell s \<Longrightarrow> bars b s = 0"
  by (simp add: plain_cell_def bars_none)

lemma bars_after [simp]: "bars b (32 # s) = bars False s" "bars False (124 # s) = Suc (bars False s)" "bars b [10] = 0"
  by simp_all

text \<open>
  Whatever a name or an error holds, a row of the table is one line with eight bars, the borders of its
  seven cells.
\<close>

lemma bars_then_space: "bars False (escapeCell s @ 32 # t) = bars False t"
  "plain_cell u \<Longrightarrow> bars False (u @ 32 # t) = bars False t"
  "plain_cell u \<Longrightarrow> bars False (u @ 47 # t) = bars False t"
  by (simp_all add: bars_append bars_plain)

lemma lit_cells:
  "lit ''| '' = [124, 32]" "lit '' | '' = [32, 124, 32]" "lit '' |'' = [32, 124]" "lit ''/'' = [47]"
  "lit '' | - | - | - | - | '' = [32, 124, 32, 45, 32, 124, 32, 45, 32, 124, 32, 45, 32, 124,
    32, 45, 32, 124, 32]"
  by (simp_all add: lit_def)

theorem row_has_seven_cells:
  "bars False (case_row r) = 8 \<and> (\<exists>line. case_row r = line @ [10] \<and> 10 \<notin> set line)"
proof (cases "cr_err r")
  case None
  have line: "10 \<notin> set u" if "plain_cell u" for u using that by (simp add: plain_cell_def)
  show ?thesis
    using None by (simp add: case_row_def Let_def lit_cells bars_then_space line)
next
  case (Some err)
  have line: "10 \<notin> set u" if "plain_cell u" for u using that by (simp add: plain_cell_def)
  show ?thesis
    using Some by (simp add: case_row_def Let_def lit_cells bars_then_space line)
qed

section \<open>Expected outcomes of searches\<close>

text \<open>
  In the mode \<open>retrieval\<close> the expected outcome of a case is not sent,
    and the search it asks never says that
  an outcome is correct. The report counts such a case as one whose outcome is wrong.
\<close>

lemma choose_query_outcome:
  assumes "choose_query ss options query m w = (Inr (sq, m'), w')"
  shows "rm_outcome_correct m' = rm_outcome_correct m"
  using assms by (auto simp: choose_query_def Let_def elim!: attempt_Inr split: if_splits)

lemma search_judges_no_outcome:
  assumes "SearchWithOptions ss tenant user subject query options w = (Inr (chunks, m), w')"
  shows "\<not> rm_outcome_correct m"
proof -
  from assms obtain sq q w1 w2 m0 m1 t1 t2 where "choose_query ss options q (start_metrics ss options q
      (normalizeTopK (so_top_k options) (rt_top_k (ss_conf ss)))) w1 = (Inr (sq, m0), w2)"
    and m: "m = final_metrics ss options t1 t2 m1 chunks" "rm_outcome_correct m1 = rm_outcome_correct m0"
    by (rule SearchWithOptions_steps) auto
  from choose_query_outcome [OF this(1)] m show ?thesis
    by (simp add: final_metrics_def start_metrics_def zero_metrics_def Let_def split: prod.splits)
qed

theorem unsent_outcome_is_wrong:
  assumes "su_mode s = modeRetrieval" and "TrimSpace (tc_outcome tc) \<noteq> []"
    and "SearchWithOptions ss tenant user subject query options w = (Inr (chunks, m), w')"
    and "ev_outcome_correct em = rm_outcome_correct m"
    and "read_limited r = Inr body" and "el_decode lib body = Inr em" and "rp_status r = 200"
  shows "case_request rn s tc = case_request rn s (tc\<lparr>tc_outcome := []\<rparr>)"
    and "sm_outcome_cases (summarize_results [answered_case lib tc (Inr r) d]) = 1"
    and "sm_outcome_correct (summarize_results [answered_case lib tc (Inr r) d]) = 0"
proof -
  have "\<not> ev_outcome_correct em" using search_judges_no_outcome [OF assms(3)] assms(4) by simp
  with assms(2,5-) show "sm_outcome_cases (summarize_results [answered_case lib tc (Inr r) d]) = 1"
    "sm_outcome_correct (summarize_results [answered_case lib tc (Inr r) d]) = 0"
    by (simp_all add: summarize_results_def count_case_def answered_case_def empty_result_def Let_def)
  have "modeRetrieval \<noteq> modeAnswer" by (simp add: modeRetrieval_def modeAnswer_def lit_def)
  with assms(1) show "case_request rn s tc = case_request rn s (tc\<lparr>tc_outcome := []\<rparr>)"
    by (simp add: case_request_def case_payload_def)
qed

end
