(* ===== verification/Spec2Isabelle.thy ===== *)
theory Spec2Isabelle
  imports WorkerProperties DbProperties ChunkerProperties RetrievalProperties RequestProperties
    ChatGaps AccountProperties RateProperties KnowledgeProperties ModelProperties ParserProperties
    LifecycleProperties ConfigProperties StartupProperties RoutesProperties MetricsProperties
    EvaluateProperties
begin

text \<open>
  Enterprise-RAG: a verification development for the Go service under \<open>src/api\<close>.

  \<^bold>\<open>The program.\<close> Users keep documents in knowledge bases and ask questions about them. An upload
  stores the file in an object store and, in one database transaction, the document, its first index
  task and a row of the outbox. A publisher moves outbox rows to JetStream; workers take the messages,
  claim the task with a lease, and run one of four stages: parse, chunk, embed, delete. A finished
  stage creates the next task and its outbox row in the transaction that completes it. A question
  becomes a run: the agent service answers it, calling back the internal tools (search, overview,
  navigation, credentials); the answer, its events and its message are stored and streamed. Requests are
  authenticated by a token, limited by a script on Redis, and restricted to the tenant of the user.

  \<^bold>\<open>How effects are modelled.\<close> The database (theory \<open>Tables\<close>: the record of its tables, each the list
  of its rows) is changed only by repository operations, each of which is one transaction: a function
  from the database and the clock to an error or a result and the new database. A process (theory
  \<open>Services\<close>) is a program over the database and an outside world of arbitrary type, reached through a
  record of functions; between any two calls other processes may commit transactions, given by the
  function \<open>sv_pg\<close> of that record. Errors are values of the type \<open>gerr\<close> with \<open>errors.Is\<close>; Go's early
  return on an error is \<open>attempt\<close> (theory \<open>Program\<close>). Text is the list of its runes; bytes appear where
  the code counts them. Go's \<open>int\<close> and \<open>int64\<close> are integers where every value is far from its bound
  (sizes, page numbers, milliseconds) and are written out at their width where the code parses them;
  \<open>float64\<close> is a rational with rounding to 53 bits (theory \<open>Float64\<close>).

  \<^bold>\<open>Theories and code.\<close> Paths are below \<open>src/api/internal\<close>.

  \<^item> Shared: \<open>Prelude\<close> (errors, tables, the locales of transition systems with an invariant and of guarded
  statuses), \<open>GoText\<close> (Go's text functions), \<open>Program\<close>, \<open>Float64\<close>, \<open>Regexp\<close> (matching in Go's order of
  preference), \<open>Fixtures\<close> (the small worlds in which the properties are applied).

  \<^item> Data: \<open>Status\<close> (\<open>model/status.go\<close>, \<open>model/run.go\<close>), \<open>Tables\<close> (\<open>model\<close>, \<open>task\<close>), \<open>ApiTypes\<close> and
  \<open>Presenter\<close> (\<open>types\<close>, \<open>presenter\<close>).

  \<^item> Repositories (\<open>repository/postgres\<close>): \<open>Outbox\<close>, \<open>TaskRepo\<close>, \<open>DocRepo\<close>, \<open>Subjects\<close>, \<open>ChatDb\<close>; the users
  are in \<open>Accounts\<close>, the model keys in \<open>ModelSettings\<close>. \<open>RowHistory\<close> says how one transaction changes one
  table, \<open>DbSteps\<close> makes all transactions the steps of one state machine, \<open>DbInvariant\<close> has its invariant,
  \<open>ChatSteps\<close> the same for the chat tables.

  \<^item> Workers: \<open>TaskQueue\<close> (\<open>service/taskqueue\<close> and the publisher), \<open>Chunker\<close>
  (\<open>service/documentchunk\<close>), \<open>Worker\<close> (\<open>worker/manager.go\<close>), \<open>WorkerSteps\<close> and \<open>Stages\<close> (what a run of a worker
  guarantees), \<open>WorkerGaps\<close> (where it leaves a task unsettled), \<open>Lifecycle\<close> (starting and closing the manager,
  the streams).

  \<^item> Parsing (\<open>infrastructure/parser\<close>): \<open>ParserText\<close>, \<open>ParserOffice\<close>, \<open>ParserPdf\<close>, \<open>Parser\<close>.

  \<^item> Retrieval (\<open>service/retrieval\<close>, \<open>infrastructure/milvus\<close>, \<open>infrastructure/embedding\<close>): \<open>QueryPlan\<close>,
  \<open>Scoring\<close>, \<open>Citations\<close>, \<open>VectorStore\<close>, \<open>Embedding\<close>, \<open>Search\<close>, \<open>SearchSteps\<close>.

  \<^item> Requests (\<open>logic/document\<close>, \<open>logic/subject\<close>, \<open>logic/admin\<close>): \<open>Requests\<close>, \<open>RequestSteps\<close>,
  \<open>RequestEffects\<close>. Accounts (\<open>logic/auth\<close>, \<open>auth\<close>, \<open>middleware\<close>): \<open>Accounts\<close>, \<open>RateLimit\<close>. Model keys
  (\<open>service/modelsettings\<close>, \<open>logic/settings\<close>): \<open>ModelSettings\<close>.

  \<^item> Chat (\<open>logic/chat\<close>, \<open>service/conversation\<close>, \<open>service/runcontrol\<close>, \<open>infrastructure/agent\<close>): \<open>ChatServices\<close>,
  \<open>ChatRuns\<close>, \<open>ChatRunSteps\<close>, \<open>ChatEnds\<close>, \<open>ChatGaps\<close>.

  \<^item> Tools of the agent (\<open>service/knowledge\<close>, \<open>transport/internaltools\<close>): \<open>KnowledgeText\<close>, \<open>Knowledge\<close>,
  \<open>KnowledgeSteps\<close>, \<open>InternalTools\<close>.

  \<^bold>\<open>What the lemmas show.\<close> The properties are in the theories called \<open>...Properties\<close>; each stands after a
  paragraph that states it. The steps theories prove, for every operation, which transactions it commits
  (the locale of transition systems of \<open>Prelude\<close> and the contracts of \<open>RowHistory\<close>, interpreted on the model), so
  that an invariant of the database is proved once per transaction and holds for every sequence of
  requests, worker runs and publisher ticks. What a returned result says about the database is read from
  the end of the program with the elimination rule of \<open>attempt\<close>. The gaps theories follow executions in
  which the code does not do what it means to.

  \<^bold>\<open>Bounds and termination.\<close> Loops over lists are recursion on the list. The loop of the chunker that cuts
  a segment is an optional value, because it would run forever for sizes the configuration check
  excludes; \<open>chunking_always_returns\<close> proves that it returns for every document and every configuration.
  Splitting text, fields and regular expressions terminate by the length of the rest. Loops that wait
  (the publisher's ticker, the polling of cancelled runs, the closing of the manager) are steps of a
  relation, and that they end is proved from the steps that remain.

  \<^bold>\<open>Parameters.\<close> Code that is not in the repository is an argument of the definitions: PostgreSQL's \<open>lower\<close>
  and \<open>ILIKE\<close>, the server of the vector store, object store, JetStream and HTTP, JSON, YAML, ZIP, XML and PDF
  decoders, the converters of legacy Word files, bcrypt, JWT, SHA-256, AES-GCM, UUIDs and the Unicode tables
  beyond ASCII. Hypotheses about them are named (\<open>..._library\<close>, \<open>..._ok\<close>) and state their documented behaviour;
  each property that needs one has a witness in which concrete functions satisfy it.

  \<^bold>\<open>Abstractions.\<close> A transaction is atomic and its guards are those of the SQL text; \<open>FOR UPDATE SKIP LOCKED\<close> is
  the atomicity of the claim. Text columns hold any text: that PostgreSQL refuses NUL and invalid UTF-8 is an
  error the database call may return at any time, as are malformed identifiers. The iteration order over a
  Go map is a parameter where the result can depend on it. Time stamps are milliseconds.

  \<^bold>\<open>Not modelled.\<close> The decoding of HTTP requests and encoding of answers
  (\<open>handler\<close>, generated by goctl), the route table, the loading of the configuration, the construction of
  the clients (\<open>svc\<close>), migrations, metrics and traces (\<open>infrastructure/observability\<close>), the evaluation
  command (\<open>cmd/evaluate\<close>).
\<close>

end
